(* ===== verification/Prelude.thy ===== *)
theory Prelude
  imports "HOL-Library.Word" "HOL-Library.Signed_Division"
begin

text \<open>
  Shared vocabulary of the development: the machine integer types of the C programs (the
  ILP32 data model of RV32I: \<open>int\<close> and \<open>long\<close> have 32 bits, \<open>long long\<close> 64), the C
  operators that are not operators of the word library (signed comparison is the library's,
  truncating division is defined here), how a freestanding program can end, and the generic
  word lemmas the components share.

  Signed overflow, which C leaves undefined, is modelled as the wrap-around of the RV32I
  instructions and runtime routines the compiler emits.
\<close>

unbundle bit_operations_syntax

section \<open>Types\<close>

type_synonym u8 = "8 word"
type_synonym u16 = "16 word"
type_synonym u32 = "32 word"
type_synonym u64 = "64 word"

text \<open>
  A freestanding entry point either spins for ever in \<open>while(1);\<close>, with its status in the
  register the grader reads, or returns a value to the hosting environment.
\<close>

datatype run_end = Spins u32 | Returns u32

section \<open>C operators\<close>

text \<open>Sign extension \<open>(long long)\<close> of an \<open>int\<close>, and the truncation back to \<open>int\<close>.\<close>

definition sext64 :: "u32 \<Rightarrow> u64" where
  "sext64 x = word_of_int (sint x)"

definition trunc32 :: "u64 \<Rightarrow> u32" where
  "trunc32 x = ucast x"

text \<open>Division of \<open>int\<close>s rounds towards zero; the remainder has the sign of the dividend.\<close>

definition c_div :: "u32 \<Rightarrow> u32 \<Rightarrow> u32" where
  "c_div a b = word_of_int (sint a sdiv sint b)"

definition c_mod :: "u32 \<Rightarrow> u32 \<Rightarrow> u32" where
  "c_mod a b = word_of_int (sint a smod sint b)"

section \<open>Words as natural numbers\<close>

lemma unat_push_bit_small:
  fixes w :: "'a::len word"
  assumes "unat w * 2 ^ n < 2 ^ LENGTH('a)"
  shows "unat (push_bit n w) = unat w * 2 ^ n"
proof -
  have "unat (push_bit n w) = take_bit LENGTH('a) (push_bit n (unat w))"
    by (simp add: unsigned_push_bit_eq)
  with assms show ?thesis
    by (simp add: push_bit_eq_mult take_bit_nat_eq_self_iff)
qed

lemma unat_drop_bit_div: "unat (drop_bit n w) = unat w div 2 ^ n"
  by (rule trans [OF unat_drop_bit_eq drop_bit_eq_div])

lemma unat_lt_pow: "unat (w :: 'a::len word) < 2 ^ LENGTH('a)"
  by (rule unsigned_less)

lemma unat_or_disjoint:
  fixes a b :: "'a::len word"
  assumes "2 ^ Suc j dvd unat a" and "unat b = 2 ^ j"
  shows "unat (a OR b) = unat a + unat b"
proof -
  have "unat a AND unat b = 0"
  proof (rule bit_eqI)
    fix n
    from assms(1) obtain k where "unat a = 2 ^ Suc j * k" by (elim dvdE)
    then have "\<not> bit (unat a) j"
      by (simp add: bit_iff_odd mult.assoc)
    with assms(2) show "bit (unat a AND unat b) n = bit 0 n"
      by (auto simp: bit_and_iff bit_exp_iff)
  qed
  then have "unat a OR unat b = unat a + unat b"
    by (simp add: disjunctive_add_eq_or)
  then show ?thesis by (simp add: unsigned_or_eq)
qed

section \<open>Signed readings and truncating division\<close>

lemma sint_eq_0_iff [simp]: "sint (w :: 'a::len word) = 0 \<longleftrightarrow> w = 0"
  using inj_eq [OF inj_signed, of w 0] by simp

lemma sint_word_of_int_u32:
  "- (2 ^ 31) \<le> k \<Longrightarrow> k < 2 ^ 31 \<Longrightarrow> sint (word_of_int k :: u32) = k"
  by (simp add: sint_sbintrunc' signed_take_bit_int_eq_self_iff)

lemma sint_word_of_int_u64:
  "- (2 ^ 63) \<le> k \<Longrightarrow> k < 2 ^ 63 \<Longrightarrow> sint (word_of_int k :: u64) = k"
  by (simp add: sint_sbintrunc' signed_take_bit_int_eq_self_iff)

lemma sint_u32_bounds: "- (2 ^ 31) \<le> sint (a :: u32)" "sint (a :: u32) < 2 ^ 31"
  using sint_ge [of a] sint_lt [of a] by simp_all

lemma uint_eq_sint: "0 \<le> sint (a :: u32) \<Longrightarrow> uint a = sint a"
  using sint_u32_bounds [of a] by (simp add: uint_sint take_bit_int_eq_self_iff)

lemma uint_small_iff: "uint (a :: u32) < 2 ^ 31 \<longleftrightarrow> unat a < 2 ^ 31"
  using of_nat_less_iff [of "unat a" "2 ^ 31", where 'a = int] by simp

lemma sint_eq_unat:
  assumes "unat (a :: u32) < 2 ^ 31"
  shows "sint a = int (unat a)"
proof -
  have "- (2 ^ 31) \<le> uint a" by (rule order_trans [of _ 0]) simp_all
  then have "sint (word_of_int (uint a) :: u32) = uint a"
    using assms by (intro sint_word_of_int_u32) (simp_all only: uint_small_iff)
  then show ?thesis by simp
qed

lemma sint_nonneg_iff_unat: "0 \<le> sint (a :: u32) \<longleftrightarrow> unat a < 2 ^ 31"
proof
  assume "0 \<le> sint a"
  then show "unat a < 2 ^ 31"
    using sint_u32_bounds(2) [of a] by (simp only: uint_eq_sint flip: uint_small_iff)
next
  assume "unat a < 2 ^ 31"
  then show "0 \<le> sint a" by (simp only: sint_eq_unat of_nat_0_le_iff)
qed

lemma sless_iff_unat:
  "unat (a :: u32) < 2 ^ 31 \<Longrightarrow> unat b < 2 ^ 31 \<Longrightarrow> a <s b \<longleftrightarrow> unat a < unat b"
  by (simp only: word_sless_alt sint_eq_unat of_nat_less_iff)

lemma sext64_mult: "sext64 x * sext64 y = word_of_int (sint x * sint y)"
  by (simp only: sext64_def of_int_mult)

lemma abs_smod: "\<bar>a smod b\<bar> = \<bar>a\<bar> mod \<bar>b\<bar>" for a b :: int
proof (cases "b = 0")
  case False
  then show ?thesis by (auto simp: signed_modulo_int_def abs_mult sgn_if)
qed simp

lemma abs_sdiv: "\<bar>a sdiv b\<bar> = \<bar>a\<bar> div \<bar>b\<bar>" for a b :: int
proof (cases "b = 0")
  case False
  then have "0 \<le> \<bar>a\<bar> div \<bar>b\<bar>" by (simp add: pos_imp_zdiv_nonneg_iff)
  with False show ?thesis by (auto simp: signed_divide_int_def abs_mult sgn_if)
qed simp

lemma smod_nonneg: "0 \<le> a \<Longrightarrow> 0 \<le> b \<Longrightarrow> a smod b = a mod b" for a b :: int
  by (cases "a = 0") (simp_all add: signed_modulo_int_def)

lemma gcd_smod: "gcd b (a smod b) = gcd a b" for a b :: int
proof -
  have "a smod b = - (a sdiv b) * b + a"
    using smod_mult_sdiv_eq [of a b] by (simp add: algebra_simps)
  then show ?thesis by (simp only: gcd_add_mult gcd.commute [of b a])
qed

section \<open>Bytes\<close>

text \<open>A property of bytes can be decided by evaluating it on all of them.\<close>

lemma u8_all:
  assumes "list_all P (map of_nat [0..<256])"
  shows "P (x :: u8)"
proof -
  have "unat x < 256" using unat_lt_pow [of x] by simp
  moreover have "x = of_nat (unat x)" by simp
  ultimately have "x \<in> set (map of_nat [0..<256])"
    unfolding set_map by (intro image_eqI [of _ _ "unat x"]) simp_all
  with assms show ?thesis by (simp only: list_all_iff)
qed

lemma less_takeWhile_upt: "n < m \<Longrightarrow> n < length (takeWhile P [0..<m]) \<longleftrightarrow> (\<forall>i \<le> n. P i)"
proof
  assume n: "n < m" "n < length (takeWhile P [0..<m])"
  show "\<forall>i \<le> n. P i"
  proof (intro allI impI)
    fix i assume "i \<le> n"
    with n have i: "i < length (takeWhile P [0..<m])" by simp
    then have "takeWhile P [0..<m] ! i = i"
      using n \<open>i \<le> n\<close> by (simp add: takeWhile_nth)
    with nth_mem [OF i] show "P i" by (metis set_takeWhileD)
  qed
next
  assume n: "n < m" "\<forall>i \<le> n. P i"
  then show "n < length (takeWhile P [0..<m])"
    using nth_length_takeWhile [of P "[0..<m]"]
    by (cases "length (takeWhile P [0..<m]) < m") (auto simp flip: not_le)
qed

lemma u8_and_exp_eq_0_iff:
  "(t :: u8) AND 0x01 = 0 \<longleftrightarrow> \<not> bit t 0" 
  "t AND 0x02 = 0 \<longleftrightarrow> \<not> bit t 1"
   "t AND 0x04 = 0 \<longleftrightarrow> \<not> bit t 2" "t AND 0x08 = 0 \<longleftrightarrow> \<not> bit t 3"
   "t AND 0x10 = 0 \<longleftrightarrow> \<not> bit t 4" "t AND 0x20 = 0 \<longleftrightarrow> \<not> bit t 5"
   "t AND 0x40 = 0 \<longleftrightarrow> \<not> bit t 6" "t AND 0x80 = 0 \<longleftrightarrow> \<not> bit t 7"
  using bit_iff_and_push_bit_not_eq_0 [of t 0] bit_iff_and_push_bit_not_eq_0 [of t 1]
    bit_iff_and_push_bit_not_eq_0 [of t 2] bit_iff_and_push_bit_not_eq_0 [of t 3]
    bit_iff_and_push_bit_not_eq_0 [of t 4] bit_iff_and_push_bit_not_eq_0 [of t 5]
    bit_iff_and_push_bit_not_eq_0 [of t 6] bit_iff_and_push_bit_not_eq_0 [of t 7]
  by simp_all

lemma less_8_cases: "n < 8 \<longleftrightarrow> n = 0 \<or> n = 1 \<or> n = 2 \<or> n = 3 \<or> n = 4 \<or> n = 5 \<or> n = 6 \<or> n = (7::nat)"
  by arith

lemma u8_and_mask_eq_mask_iff:
  "(t :: u8) AND mask k = mask k \<longleftrightarrow> (\<forall>i < k. i < 8 \<longrightarrow> bit t i)"
proof -
  have "t AND mask k = mask k \<longleftrightarrow> (\<forall>n. (bit t n \<and> n < k \<and> n < 8) = (n < k \<and> n < 8))"
    by (auto simp: bit_eq_iff bit_and_iff bit_mask_iff)
  then show ?thesis by auto
qed

lemma u8_all_ones_iff:
  "(t :: u8) AND 0x03 = 0x03 \<longleftrightarrow> (\<forall>i \<le> 1. bit t i)"
  "t AND 0x07 = 0x07 \<longleftrightarrow> (\<forall>i \<le> 2. bit t i)"
  "t AND 0x0F = 0x0F \<longleftrightarrow> (\<forall>i \<le> 3. bit t i)"
  "t AND 0x1F = 0x1F \<longleftrightarrow> (\<forall>i \<le> 4. bit t i)"
  "t AND 0x3F = 0x3F \<longleftrightarrow> (\<forall>i \<le> 5. bit t i)"
  "t AND 0x7F = 0x7F \<longleftrightarrow> (\<forall>i \<le> 6. bit t i)"
  "t AND 0xFF = 0xFF \<longleftrightarrow> (\<forall>i \<le> 7. bit t i)"
  using u8_and_mask_eq_mask_iff [of t 2] u8_and_mask_eq_mask_iff [of t 3] u8_and_mask_eq_mask_iff [of t 4]
    u8_and_mask_eq_mask_iff [of t 5] u8_and_mask_eq_mask_iff [of t 6] u8_and_mask_eq_mask_iff [of t 7]
    u8_and_mask_eq_mask_iff [of t 8]
  by (simp_all add: mask_eq_exp_minus_1 less_Suc_eq_le numeral_eq_Suc)

lemma ucast_ucast_u8 [simp]: "ucast (ucast (x :: u8) :: u32) = x"
  by (rule bit_word_eqI) (simp add: bit_unsigned_iff)

lemma uint_ucast_u8 [simp]: "uint (ucast (x :: u8) :: u32) = uint x"
  by (simp add: unsigned_ucast_eq) (rule take_bit_int_eq_self, simp_all add: order_less_trans [OF unsigned_less])

lemma bit_if_distrib: "bit (if c then a else b) n = (if c then bit a n else bit b n)"
  by simp

section \<open>Small signed arithmetic\<close>

lemma sint_diff_small:
  assumes "0 \<le> k" and "k \<le> sint (n :: u32)"
  shows "sint (n - word_of_int k) = sint n - k"
proof -
  have "n - word_of_int k = word_of_int (sint n - k)" by simp
  moreover have "- (2 ^ 31) \<le> sint n - k" and "sint n - k < 2 ^ 31"
    using assms sint_u32_bounds [of n] by linarith+
  ultimately show ?thesis by (simp only: sint_word_of_int_u32)
qed

lemma sint_of_nat_u32: "n < 2 ^ 31 \<Longrightarrow> sint (of_nat n :: u32) = int n"
  using sint_word_of_int_u32 [of "int n"] by simp

end
