(* ===== verification/Target.thy ===== *)
theory Target
  imports Prelude
begin

text \<open>
  \<open>testcode/src/target.h\<close> and the \<open>#if\<close> conditionals that read it. An identifier that is not a
  macro has the value 0 in an \<open>#if\<close> (C11 6.10.1p4); the benchmarks depend on it, because
  \<open>comp1.c\<close> compares \<open>TARGET\<close> with names no header defines.
\<close>

type_synonym macros = "string \<rightharpoonup> int"

definition target_h :: macros where
  "target_h = [''TARGET_EWS'' \<mapsto> 1, ''TARGET_RISCV'' \<mapsto> 2, ''TARGET'' \<mapsto> 2]"

definition pp_value :: "macros \<Rightarrow> string \<Rightarrow> int" where
  "pp_value m x = (case m x of None \<Rightarrow> 0 | Some v \<Rightarrow> v)"

text \<open>The condition \<open>#if TARGET == x\<close>.\<close>

definition pp_target_is :: "macros \<Rightarrow> string \<Rightarrow> bool" where
  "pp_target_is m x \<longleftrightarrow> pp_value m ''TARGET'' = pp_value m x"

end
