(* ===== verification/Branch_Bench.thy ===== *)
theory Branch_Bench
  imports Target
begin

text \<open>
  \<open>testcode/src/comp1.c\<close>: the branch-predictor benchmark. Two kernels run eight branches on a
  byte, three test loops compare them with golden values for the bytes 0 to 254, a recursive
  Fibonacci exercises calls, and the entry point reports through the status register.
\<close>

section \<open>The kernels\<close>

definition uncorrelated_branches_kernel :: "u8 \<Rightarrow> u32" where
  "uncorrelated_branches_kernel test =
     (let out = 0;
          out = (if test AND 0x01 \<noteq> 0 then out OR 0x01 else out);
          out = (if test AND 0x02 \<noteq> 0 then out OR 0x02 else out);
          out = (if test AND 0x04 \<noteq> 0 then out OR 0x04 else out);
          out = (if test AND 0x08 \<noteq> 0 then out OR 0x08 else out);
          out = (if test AND 0x10 \<noteq> 0 then out OR 0x10 else out);
          out = (if test AND 0x20 \<noteq> 0 then out OR 0x20 else out);
          out = (if test AND 0x40 \<noteq> 0 then out OR 0x40 else out);
          out = (if test AND 0x80 \<noteq> 0 then out OR 0x80 else out)
      in ucast (out :: u8))"

definition correlated_branches_kernel :: "u8 \<Rightarrow> u32" where
  "correlated_branches_kernel test =
     (let out = 0;
          out = (if test AND 0x01 \<noteq> 0 then out OR 0x01 else out);
          out = (if test AND 0x03 = 0x03 then out OR 0x03 else out);
          out = (if test AND 0x07 = 0x07 then out OR 0x07 else out);
          out = (if test AND 0x0F = 0x0F then out OR 0x0F else out);
          out = (if test AND 0x1F = 0x1F then out OR 0x1F else out);
          out = (if test AND 0x3F = 0x3F then out OR 0x3F else out);
          out = (if test AND 0x7F = 0x7F then out OR 0x7F else out);
          out = (if test AND 0xFF = 0xFF then out OR 0xFF else out)
      in ucast (out :: u8))"

section \<open>The test loops\<close>

text \<open>
  The golden value of the correlated kernel: \<open>~test & (test + 1)\<close> is computed on \<open>int\<close>s and
  stored in a byte, which is then decremented.
\<close>

definition golden :: "u8 \<Rightarrow> u8" where
  "golden test = ucast (NOT (ucast test :: u32) AND (ucast test + 1)) - 1"

text \<open>The three loops share their shape; \<open>ok\<close> is the negation of the failing comparison.\<close>

function test_loop :: "(u8 \<Rightarrow> bool) \<Rightarrow> u8 \<Rightarrow> u32" where
  "test_loop ok test =
     (if test < 255 then (if \<not> ok test then 1 else test_loop ok (test + 1)) else 0)"
  by pat_completeness auto
termination
  by (relation "measure (\<lambda>(ok, test). 255 - unat test)")
    (auto simp: word_less_nat_alt unat_word_ariths)

declare test_loop.simps [simp del]

definition test_uncorrelated_branches :: u32 where
  "test_uncorrelated_branches =
     test_loop (\<lambda>test. let out = ucast (uncorrelated_branches_kernel test) in out = test) 0"

definition test_correlated_branches :: u32 where
  "test_correlated_branches =
     test_loop (\<lambda>test. let out = ucast (correlated_branches_kernel test) in out = golden test) 0"

definition test_mixed :: u32 where
  "test_mixed =
     test_loop
       (\<lambda>test. let out1 = ucast (uncorrelated_branches_kernel test);
                   out2 = ucast (correlated_branches_kernel test)
               in \<not> (out1 \<noteq> test \<or> out2 \<noteq> golden test)) 0"

section \<open>Fibonacci\<close>

function fib :: "u32 \<Rightarrow> u32" where
  "fib n = (if n \<le>s 1 then n else fib (n - 1) + fib (n - 2))"
  by pat_completeness auto
termination
proof (relation "measure (\<lambda>n. nat (sint n))", goal_cases)
  case (2 n)
  then show ?case using sint_diff_small [of 1 n] by (simp add: word_sle_eq)
next
  case (3 n)
  then show ?case using sint_diff_small [of 2 n] by (simp add: word_sle_eq)
qed simp

declare fib.simps [simp del]

definition test_function_call :: u32 where
  "test_function_call = (let n = 12; ignored = fib n in 0)"

section \<open>The entry point\<close>

definition comp1_start :: "macros \<Rightarrow> run_end" where
  "comp1_start m =
     (let error = 0;
          error = error OR test_uncorrelated_branches;
          error = error OR test_correlated_branches;
          error = error OR test_mixed;
          error = error OR test_function_call;
          status = (if error \<noteq> 0 then 0x00BADBAD else 0x600D600D)
      in if pp_target_is m ''EWS'' then Returns 0 else Spins status)"

section \<open>What the kernels compute\<close>

text \<open>The number of ones at the low end of a byte.\<close>

definition trailing_ones :: "u8 \<Rightarrow> nat" where
  "trailing_ones x = length (takeWhile (bit x) [0..<8])"

lemma uncorrelated_identity: "uncorrelated_branches_kernel test = ucast test"
  unfolding uncorrelated_branches_kernel_def Let_def
proof (rule arg_cong [where f = ucast], rule bit_word_eqI, goal_cases)
  case (1 n)
  then show ?case
    by (simp add: less_8_cases u8_and_exp_eq_0_iff bit_if_distrib bit_or_iff)
      (elim disjE; simp add: u8_and_exp_eq_0_iff)
qed

lemma correlated_mask: "correlated_branches_kernel test = ucast (mask (trailing_ones test) :: u8)"
  unfolding correlated_branches_kernel_def Let_def
proof (rule arg_cong [where f = ucast], rule bit_word_eqI, goal_cases)
  case (1 n)
  then show ?case
    by (simp add: less_8_cases bit_if_distrib bit_or_iff u8_all_ones_iff u8_and_exp_eq_0_iff
        bit_mask_iff trailing_ones_def less_takeWhile_upt) (elim disjE; auto)
qed

lemma golden_mask: "golden test = mask (trailing_ones test)"
  by (rule u8_all [of "\<lambda>x. golden x = mask (trailing_ones x)"]) code_simp

lemma test_loop_passes: "(\<And>x. ok x) \<Longrightarrow> test_loop ok test = 0"
  by (induction ok test rule: test_loop.induct) (simp add: test_loop.simps)

lemma tests_pass:
  "test_uncorrelated_branches = 0" "test_correlated_branches = 0" "test_mixed = 0"
  "test_function_call = 0"
  by (simp_all add: test_uncorrelated_branches_def test_correlated_branches_def test_mixed_def
      test_function_call_def test_loop_passes Let_def uncorrelated_identity correlated_mask
      golden_mask)

section \<open>Fibonacci, against the numbers\<close>

fun fib_nat :: "nat \<Rightarrow> nat" where
  "fib_nat 0 = 0"
| "fib_nat (Suc 0) = 1"
| "fib_nat (Suc (Suc n)) = fib_nat (Suc n) + fib_nat n"

primrec fib_pair :: "nat \<Rightarrow> int \<times> int" where
  "fib_pair 0 = (0, 1)"
| "fib_pair (Suc n) = (let (a, b) = fib_pair n in (b, a + b))"

lemma fib_pair_eq: "fib_pair n = (int (fib_nat n), int (fib_nat (Suc n)))"
  by (induction n) (simp_all add: add.commute)

lemma fib_nat_mono: "m \<le> n \<Longrightarrow> fib_nat m \<le> fib_nat n"
proof (rule lift_Suc_mono_le [of fib_nat])
  show "fib_nat n \<le> fib_nat (Suc n)" for n
    by (induction n rule: fib_nat.induct) simp_all
qed

lemma fib_correct: "n < 2 ^ 31 \<Longrightarrow> fib (of_nat n) = of_nat (fib_nat n)"
proof (induction n rule: fib_nat.induct)
  case (3 n)
  then have "\<not> (of_nat (Suc (Suc n)) :: u32) \<le>s 1"
    using sint_of_nat_u32 [of "Suc (Suc n)"] by (simp add: word_sle_eq)
  then show ?case using 3 by (simp add: fib.simps [of "2 + of_nat n"])
qed (simp_all add: fib.simps [of 0] fib.simps [of 1] word_sle_eq)

section \<open>Properties\<close>

text \<open>
  The uncorrelated kernel rebuilds its argument from its eight branches, for every byte.
\<close>

theorem uncorrelated_functional: "uint (uncorrelated_branches_kernel test) = uint test"
  by (simp add: uncorrelated_identity)

text \<open>
  For every byte, 255 included, the correlated kernel returns the mask of the trailing
  ones, which is what the arithmetic golden value of the test loop computes.
\<close>

theorem correlated_equals_golden:
  "correlated_branches_kernel test = ucast (golden test) \<and> golden test = mask (trailing_ones test)"
  by (simp add: correlated_mask golden_mask)

text \<open>
  The function \<open>fib\<close> returns on every \<open>int\<close> up to 46, its argument up to 1 and the Fibonacci number,
  with no overflow, above; \<open>fib(47)\<close> is the first to wrap.
\<close>

theorem fib_functional:
  assumes "sint n \<le> 46"
  shows "sint (fib n) = (if sint n \<le> 1 then sint n else int (fib_nat (nat (sint n))))
       \<and> sint (fib 47) = int (fib_nat 47) - 2 ^ 32"
proof -
  have "fib_pair 46 = (1836311903, 2971215073)" by code_simp
  then have f: "fib_nat 46 = 1836311903" "fib_nat 47 = 2971215073"
    by (simp_all add: fib_pair_eq)
  have "sint (fib n) = int (fib_nat (nat (sint n)))" if "1 < sint n"
  proof -
    have n: "n = of_nat (nat (sint n))" using that by simp
    have "nat (sint n) \<le> 46" using assms by simp
    then have "fib_nat (nat (sint n)) < 2 ^ 31" using fib_nat_mono [of "nat (sint n)" 46] f by simp
    moreover have "fib n = of_nat (fib_nat (nat (sint n)))"
      using n fib_correct [of "nat (sint n)"] assms by simp
    ultimately show ?thesis by (simp only: sint_of_nat_u32)
  qed
  moreover have "sint n \<le> 1 \<Longrightarrow> fib n = n" by (simp add: fib.simps [of n] word_sle_eq)
  moreover have "sint (fib 47) = int (fib_nat 47) - 2 ^ 32"
    using fib_correct [of 47] f by simp
  ultimately show ?thesis by simp
qed

theorem fib_functional_witness: "sint (fib 12) = int (fib_nat 12)"
  using fib_functional [of 12] by simp

text \<open>
  C31: the benchmark's entry point ends spinning with the success status for every value a
  header gives \<open>TARGET\<close> but 0. Its hosted exit \<open>return 0\<close> is compiled for \<open>TARGET\<close> 0 only: the
  name \<open>EWS\<close> it compares with is no macro.
\<close>

theorem comp1_passes:
  "comp1_start target_h = Spins 0x600D600D
   \<and> comp1_start (target_h(''TARGET'' \<mapsto> v)) = (if v = 0 then Returns 0 else Spins 0x600D600D)"
  by (simp add: comp1_start_def tests_pass pp_target_is_def pp_value_def target_h_def)

end
