(* ===== verification/Int_Arith.thy ===== *)
theory Int_Arith
  imports Prelude
begin

text \<open>
  The interface between the C programs and the arithmetic runtime. On RV32I the operators
  \<open>/\<close>, \<open>%\<close> and \<open>*\<close> are calls; the programs rely on what C promises of them (C11 6.5.5):
  division truncates towards zero, the remainder has the sign of the dividend, and 64-bit
  products wrap. The one quotient C leaves undefined, the most negative \<open>int\<close> divided by
  \<open>-1\<close>, is excluded from the law.
\<close>

locale int_division =
  fixes dv md :: "u32 \<Rightarrow> u32 \<Rightarrow> u32"
  assumes md_law: "b \<noteq> 0 \<Longrightarrow> sint (md a b) = sint a smod sint b"
    and dv_law: "b \<noteq> 0 \<Longrightarrow> \<not> (sint a = - (2 ^ 31) \<and> sint b = - 1) \<Longrightarrow>
      sint (dv a b) = sint a sdiv sint b"
begin

lemma md_magnitude_less:
  assumes "b \<noteq> 0"
  shows "\<bar>sint (md a b)\<bar> < \<bar>sint b\<bar>"
  using assms by (simp add: md_law abs_smod pos_mod_bound)

lemma gcd_md: "b \<noteq> 0 \<Longrightarrow> gcd (sint b) (sint (md a b)) = gcd (sint a) (sint b)"
  by (simp add: md_law gcd_smod)

lemma md_nonneg: "b \<noteq> 0 \<Longrightarrow> 0 \<le> sint a \<Longrightarrow> 0 \<le> sint (md a b)"
  by (simp add: md_law signed_modulo_int_def sgn_if pos_mod_sign)

lemma dv_exact:
  assumes "0 < sint b" and "sint b dvd sint a"
  shows "sint (dv a b) = sint a div sint b"
proof -
  have "b \<noteq> 0" using assms(1) by auto
  then have "sint (dv a b) = sint a sdiv sint b" using assms(1) by (intro dv_law) auto
  also have "\<dots> = sint a div sint b"
    using assms by (simp add: signed_divide_int_eq_divide_int)
  finally show ?thesis .
qed

end

locale int_arith = int_division dv md
  for dv md :: "u32 \<Rightarrow> u32 \<Rightarrow> u32" +
  fixes mul :: "u64 \<Rightarrow> u64 \<Rightarrow> u64"
  assumes mul_law: "mul x y = x * y"

end
