(* ===== verification/Soft_Arith.thy ===== *)
theory Soft_Arith
  imports Int_Arith
begin

text \<open>
  The runtime routines at the end of \<open>testcode/src/comp2.c\<close>: the shift-and-subtract divider
  \<open>__udivmodsi4\<close>, its signed and unsigned wrappers and the shift-and-add multiplier
  \<open>__muldi3\<close>. RV32I has no multiply or divide instruction, so the compiler turns the C
  operators \<open>/\<close>, \<open>%\<close> and \<open>*\<close> into calls of these.
\<close>

section \<open>The unsigned divider\<close>

text \<open>The first loop shifts the divisor left until it reaches the dividend or bit 31.\<close>

function udivmod_align :: "u32 \<Rightarrow> u32 \<Rightarrow> u32 \<Rightarrow> u32 \<times> u32" where
  "udivmod_align num den bt =
     (if den < num \<and> bt \<noteq> 0 \<and> den AND push_bit 31 1 = 0
      then udivmod_align num (push_bit 1 den) (push_bit 1 bt)
      else (den, bt))"
  by pat_completeness auto
termination
proof (relation "measure (\<lambda>(num, den, bt :: u32). LEAST k. push_bit k bt = 0)", goal_cases)
  case 1
  show ?case by simp
next
  case (2 num den bt)
  have "push_bit 32 bt = 0"
    by (rule bit_word_eqI) (simp add: bit_push_bit_iff)
  then have ex: "push_bit (LEAST k. push_bit k bt = 0) bt = 0"
    by (rule LeastI)
  from 2 have "(LEAST k. push_bit k bt = 0) \<noteq> 0"
    using ex by (metis push_bit_0_id id_apply)
  then obtain m where m: "(LEAST k. push_bit k bt = 0) = Suc m"
    using not0_implies_Suc by blast
  with ex have "push_bit m (push_bit 1 bt) = 0"
    by simp
  then have "(LEAST k. push_bit k (push_bit 1 bt) = 0) \<le> m"
    by (rule Least_le)
  with m show ?case by simp
qed

text \<open>The second loop subtracts the shifted divisor wherever it fits.\<close>

function udivmod_shift :: "u32 \<Rightarrow> u32 \<Rightarrow> u32 \<Rightarrow> u32 \<Rightarrow> u32 \<times> u32" where
  "udivmod_shift num den bt res =
     (if bt \<noteq> 0 then
        (if den \<le> num
         then udivmod_shift (num - den) (drop_bit 1 den) (drop_bit 1 bt) (res OR bt)
         else udivmod_shift num (drop_bit 1 den) (drop_bit 1 bt) res)
      else (num, res))"
  by pat_completeness auto
termination
  by (relation "measure (\<lambda>(num, den, bt, res). unat bt)")
    (simp_all add: unat_drop_bit_div unat_gt_0 del: One_nat_def)

declare udivmod_align.simps [simp del]
declare udivmod_shift.simps [simp del]

definition udivmodsi4 :: "u32 \<Rightarrow> u32 \<Rightarrow> bool \<Rightarrow> u32" where
  "udivmodsi4 num den modwanted =
     (let (den', bt) = udivmod_align num den 1;
          (num', res) = udivmod_shift num den' bt 0
      in if modwanted then num' else res)"

definition divsi3 :: "u32 \<Rightarrow> u32 \<Rightarrow> u32" where
  "divsi3 a b =
     (let neg = False;
          (a, neg) = (if a <s 0 then (- a, \<not> neg) else (a, neg));
          (b, neg) = (if b <s 0 then (- b, \<not> neg) else (b, neg));
          res = udivmodsi4 a b False
      in if neg then - res else res)"

definition modsi3 :: "u32 \<Rightarrow> u32 \<Rightarrow> u32" where
  "modsi3 a b =
     (let neg = False;
          (a, neg) = (if a <s 0 then (- a, True) else (a, neg));
          b = (if b <s 0 then - b else b);
          res = udivmodsi4 a b True
      in if neg then - res else res)"

definition udivsi3 :: "u32 \<Rightarrow> u32 \<Rightarrow> u32" where
  "udivsi3 a b = udivmodsi4 a b False"

definition umodsi3 :: "u32 \<Rightarrow> u32 \<Rightarrow> u32" where
  "umodsi3 a b = udivmodsi4 a b True"

section \<open>The multiplier\<close>

function muldi3_loop :: "u64 \<Rightarrow> u64 \<Rightarrow> u64 \<Rightarrow> u64" where
  "muldi3_loop a b r =
     (if a \<noteq> 0
      then muldi3_loop (drop_bit 1 a) (push_bit 1 b) (if a AND 1 \<noteq> 0 then r + b else r)
      else r)"
  by pat_completeness auto
termination
  by (relation "measure (\<lambda>(a, b, r). unat a)")
    (simp_all add: unat_drop_bit_div unat_gt_0 del: One_nat_def)

declare muldi3_loop.simps [simp del]

definition muldi3 :: "u64 \<Rightarrow> u64 \<Rightarrow> u64" where
  "muldi3 a b = muldi3_loop a b 0"

section \<open>Correctness of the divider\<close>

lemma and_bit31_eq_0_iff: "(w :: u32) AND 0x80000000 = 0 \<longleftrightarrow> unat w < 2 ^ 31"
proof -
  have "w AND push_bit 31 1 = 0 \<longleftrightarrow> \<not> bit (unat w) 31"
    using bit_iff_and_push_bit_not_eq_0 [of w 31] by (simp add: bit_unsigned_iff)
  also have "\<dots> \<longleftrightarrow> even (unat w div 2 ^ 31)"
    by (simp add: bit_iff_odd)
  also have "\<dots> \<longleftrightarrow> unat w < 2 ^ 31"
  proof
    assume "even (unat w div 2 ^ 31)"
    moreover have "unat w div 2 ^ 31 < 2"
      using unat_lt_pow [of w] by (simp add: less_mult_imp_div_less)
    ultimately have "unat w div 2 ^ 31 = 0" by (auto elim: evenE)
    then show "unat w < 2 ^ 31" by (simp add: div_eq_0_iff)
  qed simp
  finally show ?thesis by simp
qed

lemma udivmod_align_correct:
  assumes "0 < d" and "unat den = d * 2 ^ k" and "unat bt = 2 ^ k"
  shows "\<exists>j. unat (fst (udivmod_align num den bt)) = d * 2 ^ j
           \<and> unat (snd (udivmod_align num den bt)) = 2 ^ j
           \<and> unat num < d * 2 ^ Suc j"
  using assms
proof (induction num den bt arbitrary: k rule: udivmod_align.induct)
  case (1 num den bt)
  have bt: "bt \<noteq> 0" using "1.prems"(3) by (metis power_not_zero unat_0 zero_neq_numeral)
  show ?case
  proof (cases "den < num \<and> unat den < 2 ^ 31")
    case True
    then have c: "den < num \<and> bt \<noteq> 0 \<and> den AND push_bit 31 1 = 0"
      using bt by (simp add: and_bit31_eq_0_iff)
    have "2 ^ k \<le> unat den" using "1.prems"(1,2) by simp
    with True have "(2::nat) ^ k < 2 ^ 31" by linarith
    then have "unat (push_bit 1 bt) = 2 ^ Suc k"
      using "1.prems"(3) unat_push_bit_small [of bt 1] by simp
    moreover have "unat (push_bit 1 den) = d * 2 ^ Suc k"
      using True "1.prems"(2) unat_push_bit_small [of den 1] by simp
    ultimately have "\<exists>j. unat (fst (udivmod_align num (push_bit 1 den) (push_bit 1 bt))) = d * 2 ^ j
        \<and> unat (snd (udivmod_align num (push_bit 1 den) (push_bit 1 bt))) = 2 ^ j
        \<and> unat num < d * 2 ^ Suc j"
      using "1.IH" [OF c "1.prems"(1)] by blast
    moreover have "udivmod_align num den bt = udivmod_align num (push_bit 1 den) (push_bit 1 bt)"
      using c by (simp only: udivmod_align.simps [of num den bt] simp_thms if_True)
    ultimately show ?thesis by simp
  next
    case False
    then have "udivmod_align num den bt = (den, bt)"
      by (auto simp: udivmod_align.simps [of num den bt] and_bit31_eq_0_iff)
    moreover have "unat num < 2 * unat den"
    proof (cases "den < num")
      case True
      with False have "2 ^ 31 \<le> unat den" by simp
      then show ?thesis using unat_lt_pow [of num] by simp
    next
      case False
      moreover have "0 < unat den" using "1.prems"(1,2) by simp
      ultimately show ?thesis by (simp add: word_less_nat_alt)
    qed
    ultimately show ?thesis
      using "1.prems" by (intro exI [of _ k]) simp
  qed
qed

lemma udivmod_shift_correct:
  assumes "0 < d" and "unat den = d * 2 ^ j" and "unat bt = 2 ^ j"
    and "unat num < d * 2 ^ Suc j" and "2 ^ Suc j dvd unat res"
  shows "unat (fst (udivmod_shift num den bt res)) = unat num mod d
       \<and> unat (snd (udivmod_shift num den bt res)) = unat res + unat num div d"
  using assms
proof (induction j arbitrary: num den bt res)
  case 0
  then have "bt = 1" and "unat den = d" 
    by (simp_all add: word_unat_eq_iff)
  moreover have "unat (res OR 1) = unat res + 1"
    using "0.prems"(5) unat_or_disjoint [of 0 res 1] by simp
  moreover have "d \<le> unat num \<Longrightarrow> unat num div d = 1 \<and> unat num mod d = unat num - d"
    using "0.prems"(4) by (simp add: div_if mod_if)
  ultimately show ?case
    using "0.prems"(4)
    by (auto simp: udivmod_shift.simps [of num den 1] udivmod_shift.simps [of _ _ 0]
        word_le_nat_alt unat_sub)
next
  case (Suc j)
  have den: "unat (drop_bit 1 den) = d * 2 ^ j" and bt: "unat (drop_bit 1 bt) = 2 ^ j"
    using Suc.prems(2,3) by (simp_all add: unat_drop_bit_div del: One_nat_def)
  have nz: "bt \<noteq> 0" using Suc.prems(3) by (metis power_not_zero unat_0 zero_neq_numeral)
  have res: "2 ^ Suc j dvd unat res"
    using Suc.prems(5) by (meson dvd_trans le_imp_power_dvd le_SucI order_refl)
  show ?case
  proof (cases "den \<le> num")
    case True
    have or: "unat (res OR bt) = unat res + 2 ^ Suc j"
      using unat_or_disjoint [OF Suc.prems(5,3)] Suc.prems(3) by simp
    have sub: "unat (num - den) = unat num - d * 2 ^ Suc j"
      using True Suc.prems(2) by (simp add: unat_sub)
    have le: "d * 2 ^ Suc j \<le> unat num"
      using True Suc.prems(2) by (simp add: word_le_nat_alt)
    have "unat (num - den) < d * 2 ^ Suc j"
      using Suc.prems(4) sub le by simp
    moreover have "2 ^ Suc j dvd unat (res OR bt)"
      using res or by simp
    moreover obtain m where m: "unat num = m + d * 2 ^ Suc j"
      using le by (metis add.commute le_Suc_ex)
    then have "unat num mod d = (unat num - d * 2 ^ Suc j) mod d"
      and "unat num div d = (unat num - d * 2 ^ Suc j) div d + 2 ^ Suc j"
      using Suc.prems(1) by simp_all
    ultimately show ?thesis
      using Suc.IH [OF Suc.prems(1) den bt] True nz sub or
      by (simp add: udivmod_shift.simps [of num den bt])
  next
    case False
    then have "unat num < d * 2 ^ Suc j"
      using Suc.prems(2) by (simp add: word_le_nat_alt)
    then show ?thesis
      using Suc.IH [OF Suc.prems(1) den bt _ res] False nz
      by (simp add: udivmod_shift.simps [of num den bt])
  qed
qed

lemma udivmodsi4_nonzero:
  assumes "den \<noteq> 0"
  shows "udivmodsi4 num den modwanted = (if modwanted then num mod den else num div den)"
proof -
  obtain den' bt where al: "udivmod_align num den 1 = (den', bt)" by fastforce
  obtain n r where sh: "udivmod_shift num den' bt 0 = (n, r)" by fastforce
  from assms have "0 < unat den" by (simp add: unat_gt_0)
  from udivmod_align_correct [OF this, of den 0 1 num] al
  obtain j where "unat den' = unat den * 2 ^ j" "unat bt = 2 ^ j" "unat num < unat den * 2 ^ Suc j"
    by auto
  from udivmod_shift_correct [OF \<open>0 < unat den\<close> this, of 0] sh
  have "unat n = unat num mod unat den" and "unat r = unat num div unat den" by simp_all
  then have "n = num mod den" and "r = num div den"
    by (simp_all add: word_unat_eq_iff unat_mod_distrib unat_div_distrib)
  then show ?thesis by (simp add: udivmodsi4_def al sh)
qed

lemma udivmod_align_zero: "num \<noteq> 0 \<Longrightarrow> udivmod_align num 0 bt = (0, 0)"
proof (induction num "0 :: u32" bt rule: udivmod_align.induct)
  case (1 num bt)
  then show ?case
    by (cases "bt = 0") (simp_all add: udivmod_align.simps [of num 0] word_gt_0)
qed

lemma udivmodsi4_zero:
  "udivmodsi4 num 0 modwanted = (if modwanted then num else of_bool (num = 0))"
proof (cases "num = 0")
  case True
  then show ?thesis
    by (simp add: udivmodsi4_def udivmod_align.simps [of 0 0 1] udivmod_shift.simps [of 0 0 1]
        udivmod_shift.simps [of 0 0 0])
next
  case False
  then show ?thesis
    by (simp add: udivmodsi4_def udivmod_align_zero udivmod_shift.simps [of num 0 0])
qed

section \<open>The signed wrappers\<close>

definition magnitude :: "u32 \<Rightarrow> u32" where
  "magnitude a = (if a <s 0 then - a else a)"

lemma uint_magnitude: "uint (magnitude a) = \<bar>sint a\<bar>"
proof -
  have r: "- (2 ^ 31) \<le> sint a" "sint a < 2 ^ 31"
    using sint_ge [of a] sint_lt [of a] by simp_all
  have "uint (word_of_int \<bar>sint a\<bar> :: u32) = \<bar>sint a\<bar>"
    using r by (simp add: uint_word_of_int)
  moreover have "magnitude a = word_of_int \<bar>sint a\<bar>"
    by (simp add: magnitude_def word_sless_alt abs_if)
  ultimately show ?thesis by simp
qed

lemma magnitude_eq_0_iff [simp]: "magnitude a = 0 \<longleftrightarrow> a = 0"
  by (simp add: magnitude_def)

lemma magnitude_div_mod:
  "magnitude a div magnitude b = word_of_int (\<bar>sint a\<bar> div \<bar>sint b\<bar>)"
  "magnitude a mod magnitude b = word_of_int (\<bar>sint a\<bar> mod \<bar>sint b\<bar>)"
  by (simp_all only: word_div_def word_mod_def uint_magnitude)

lemma divsi3_magnitude:
  "divsi3 a b =
     (if a <s 0 \<longleftrightarrow> b <s 0 then udivmodsi4 (magnitude a) (magnitude b) False
      else - udivmodsi4 (magnitude a) (magnitude b) False)"
  by (auto simp: divsi3_def magnitude_def Let_def)

lemma modsi3_magnitude:
  "modsi3 a b =
     (if a <s 0 then - udivmodsi4 (magnitude a) (magnitude b) True
      else udivmodsi4 (magnitude a) (magnitude b) True)"
  by (auto simp: modsi3_def magnitude_def Let_def)

lemma divsi3_eq_c_div: "b \<noteq> 0 \<Longrightarrow> divsi3 a b = c_div a b"
  by (auto simp: divsi3_magnitude udivmodsi4_nonzero magnitude_div_mod c_div_def
      signed_divide_int_def word_sless_alt sgn_if)

lemma modsi3_eq_c_mod: "b \<noteq> 0 \<Longrightarrow> modsi3 a b = c_mod a b"
  by (auto simp: modsi3_magnitude udivmodsi4_nonzero magnitude_div_mod c_mod_def
      signed_modulo_int_def word_sless_alt sgn_if)

lemma muldi3_loop_correct: "muldi3_loop a b r = r + a * b"
proof (induction a b r rule: muldi3_loop.induct)
  case (1 a b r)
  show ?case
  proof (cases "a = 0")
    case True
    then show ?thesis by (simp add: muldi3_loop.simps [of 0])
  next
    case False
    have id: "a = 2 * drop_bit 1 a + (a AND 1)"
      using mult_div_mod_eq [of 2 a] by (simp add: and_one_eq drop_bit_Suc)
    have "a * b = drop_bit 1 a * push_bit 1 b + (a AND 1) * b"
      using arg_cong [OF id, of "\<lambda>x. x * b"] by (simp add: algebra_simps)
    moreover have "(a AND 1) * b = (if a AND 1 \<noteq> 0 then b else 0)"
      by (simp add: and_one_eq mod2_eq_if)
    moreover have "muldi3_loop a b r =
        muldi3_loop (drop_bit 1 a) (push_bit 1 b) (if a AND 1 \<noteq> 0 then r + b else r)"
      using False by (simp only: muldi3_loop.simps [of a b r] simp_thms if_True)
    ultimately show ?thesis using "1.IH" [OF False] by (auto simp: ac_simps)
  qed
qed


section \<open>The routines implement the operators of C\<close>

lemma sint_c_mod:
  assumes "b \<noteq> 0"
  shows "sint (c_mod a b) = sint a smod sint b"
proof -
  have "\<bar>sint a smod sint b\<bar> < \<bar>sint b\<bar>"
    using assms by (simp add: abs_smod)
  moreover have "\<bar>sint b\<bar> \<le> 2 ^ 31"
    using sint_u32_bounds [of b] by linarith
  ultimately show ?thesis
    unfolding c_mod_def by (intro sint_word_of_int_u32) linarith+
qed

lemma sint_c_div:
  assumes "b \<noteq> 0" and "\<not> (sint a = - (2 ^ 31) \<and> sint b = - 1)"
  shows "sint (c_div a b) = sint a sdiv sint b"
proof -
  have a: "\<bar>sint a\<bar> \<le> 2 ^ 31" "sint a < 2 ^ 31"
    using sint_u32_bounds [of a] by linarith+
  have "0 < \<bar>sint b\<bar>" using assms(1) by simp
  then consider "\<bar>sint b\<bar> = 1" | "2 \<le> \<bar>sint b\<bar>" by linarith
  then have "- (2 ^ 31) \<le> sint a sdiv sint b \<and> sint a sdiv sint b < 2 ^ 31"
  proof cases
    case 1
    then have "sint b = 1 \<or> sint b = - 1" by linarith
    then show ?thesis
      using assms(2) sint_u32_bounds [of a] by auto
  next
    case 2
    then have "\<bar>sint a\<bar> div \<bar>sint b\<bar> \<le> \<bar>sint a\<bar> div 2"
      by (intro zdiv_mono2) simp_all
    then have "\<bar>sint a sdiv sint b\<bar> < 2 ^ 31"
      using a unfolding abs_sdiv by linarith
    then show ?thesis by linarith
  qed
  then show ?thesis
    unfolding c_div_def by (intro sint_word_of_int_u32) simp_all
qed

interpretation c_ops: int_arith c_div c_mod "(*)"
  by unfold_locales (simp_all add: sint_c_mod sint_c_div)

lemma muldi3_eq_times: "muldi3 a b = a * b"
  by (simp add: muldi3_def muldi3_loop_correct)

interpretation soft: int_arith divsi3 modsi3 muldi3
  by unfold_locales
    (simp_all add: modsi3_eq_c_mod divsi3_eq_c_div sint_c_mod sint_c_div muldi3_eq_times)

text \<open>
  C11: the shift-and-subtract divider computes the unsigned quotient or remainder of any two
  \<open>unsigned long\<close>s, and returns for every divisor: with divisor 0 the remainder is the
  dividend and the quotient is 1 for dividend 0 and 0 otherwise.
\<close>

theorem udivmodsi4_functional:
  "udivmodsi4 num den modwanted =
     (if den = 0 then (if modwanted then num else of_bool (num = 0))
      else if modwanted then num mod den else num div den)"
  by (simp add: udivmodsi4_zero udivmodsi4_nonzero)

text \<open>
  C13: the signed wrappers implement the truncating \<open>/\<close> and \<open>%\<close> of C on every pair of
  \<open>long\<close>s, the most negative dividend included; with divisor 0 they return what the unsigned
  divider does.
\<close>

theorem signed_division_functional:
  "divsi3 a b = (if b = 0 then of_bool (a = 0) else c_div a b)
   \<and> modsi3 a b = (if b = 0 then a else c_mod a b)"
proof (cases "b = 0")
  case True
  then show ?thesis
    by (simp add: divsi3_magnitude modsi3_magnitude udivmodsi4_zero magnitude_def)
next
  case False
  then show ?thesis by (simp add: divsi3_eq_c_div modsi3_eq_c_mod)
qed

text \<open>
  C19: the shift-and-add multiplier returns the 64-bit wrapped product of any two
  \<open>unsigned long long\<close>s.
\<close>

theorem muldi3_functional: "uint (muldi3 a b) = (uint a * uint b) mod 2 ^ 64"
  by (simp add: muldi3_eq_times uint_word_ariths)

end
