(* ===== verification/Lcm.thy ===== *)
theory Lcm
  imports Soft_Arith
begin

text \<open>
  \<open>testcode/src/comp2.c\<close>: \<open>gcd\<close>, \<open>lcm\<close> and \<open>iter\<close>. The C operators
  \<open>/\<close>, \<open>%\<close> and the 64-bit \<open>*\<close> are the parameters \<open>dv\<close>, \<open>md\<close> and \<open>mul\<close>, because on RV32I
  each is a call of the runtime; the laws they satisfy are the locale of \<open>Int_Arith\<close>. A loop
  is a partial function into \<open>option\<close>, so that returning is a theorem. An array read out of
  bounds, undefined in C, is \<open>None\<close> too.
\<close>

section \<open>gcd, lcm and iter\<close>

partial_function (option) gcd_loop :: "(u32 \<Rightarrow> u32 \<Rightarrow> u32) \<Rightarrow> u32 \<Rightarrow> u32 \<Rightarrow> (u32 \<times> u32) option" where
  "gcd_loop md a b =
     (if a \<noteq> 0 \<and> b \<noteq> 0 then gcd_loop md b (md a b) else Some (a, b))"

definition gcd_c :: "(u32 \<Rightarrow> u32 \<Rightarrow> u32) \<Rightarrow> u32 \<Rightarrow> u32 \<Rightarrow> u32 option" where
  "gcd_c md a b =
     (if a = 0 \<and> b = 0 then Some 1
      else let (a, b) = (if a <s b then (b, a) else (a, b))
           in map_option (\<lambda>(a, b). if a \<noteq> 0 then a else b) (gcd_loop md a b))"

definition lcm_c ::
  "(u32 \<Rightarrow> u32 \<Rightarrow> u32) \<Rightarrow> (u32 \<Rightarrow> u32 \<Rightarrow> u32) \<Rightarrow> (u64 \<Rightarrow> u64 \<Rightarrow> u64) \<Rightarrow> u32 \<Rightarrow> u32 \<Rightarrow> u64 option" where
  "lcm_c dv md mul a b =
     map_option (\<lambda>g. mul (sext64 a) (sext64 (dv b g))) (gcd_c md a b)"

text \<open>
  \<open>lcm\<close> takes \<open>int\<close>s, so \<open>curr\<close> of \<open>iter\<close>, a \<open>long long\<close>, is truncated at each call.
\<close>

partial_function (option) iter_loop ::
  "(u32 \<Rightarrow> u32 \<Rightarrow> u32) \<Rightarrow> (u32 \<Rightarrow> u32 \<Rightarrow> u32) \<Rightarrow> (u64 \<Rightarrow> u64 \<Rightarrow> u64) \<Rightarrow>
   u32 list \<Rightarrow> u32 \<Rightarrow> u32 \<Rightarrow> u64 \<Rightarrow> u64 option" where
  "iter_loop dv md mul arr n i cur =
     (if i <s n then
        (if unat i < length arr
         then Option.bind (lcm_c dv md mul (trunc32 cur) (arr ! unat i))
                (\<lambda>cur. iter_loop dv md mul arr n (i + 1) cur)
         else None)
      else Some cur)"

definition iter ::
  "(u32 \<Rightarrow> u32 \<Rightarrow> u32) \<Rightarrow> (u32 \<Rightarrow> u32 \<Rightarrow> u32) \<Rightarrow> (u64 \<Rightarrow> u64 \<Rightarrow> u64) \<Rightarrow>
   u32 list \<Rightarrow> u32 \<Rightarrow> u64 option" where
  "iter dv md mul arr n =
     (if n = 0 then Some (- 1)
      else case arr of [] \<Rightarrow> None | a # _ \<Rightarrow> iter_loop dv md mul arr n 1 (sext64 a))"

section \<open>The client of the arithmetic interface\<close>

text \<open>Every value handed on to \<open>lcm\<close> by \<open>iter\<close> fits an \<open>int\<close>.\<close>

fun lcms_fit :: "int \<Rightarrow> int list \<Rightarrow> bool" where
  "lcms_fit c [] = True"
| "lcms_fit c (x # xs) = (c < 2 ^ 31 \<and> lcms_fit (lcm x c) xs)"

lemma sext64_trunc32:
  "0 \<le> c \<Longrightarrow> c < 2 ^ 31 \<Longrightarrow> sint (trunc32 (word_of_int c)) = c"
  by (simp add: trunc32_def sint_word_of_int_u32 ucast_eq uint_word_of_int
      take_bit_int_eq_self_iff)

lemma fold_lcm_eq_Lcm:
  fixes c :: int
  assumes "0 \<le> c"
  shows "fold lcm xs c = Lcm (set (c # xs))"
proof -
  have "Lcm (set (c # xs)) = fold lcm (c # xs) 1"
    by (rule Lcm_set_eq_fold)
  with assms show ?thesis by simp
qed

context int_division begin

lemma gcd_loop_correct:
  "\<exists>a' b'. gcd_loop md a b = Some (a', b') \<and> (a' = 0 \<or> b' = 0)
    \<and> gcd (sint a') (sint b') = gcd (sint a) (sint b)
    \<and> (0 \<le> sint a \<longrightarrow> 0 \<le> sint b \<longrightarrow> 0 \<le> sint a' \<and> 0 \<le> sint b')"
proof (induction "nat \<bar>sint b\<bar>" arbitrary: a b rule: less_induct)
  case less
  show ?case
  proof (cases "a \<noteq> 0 \<and> b \<noteq> 0")
    case True
    then have "nat \<bar>sint (md a b)\<bar> < nat \<bar>sint b\<bar>"
      using md_magnitude_less [of b a] by simp
    from less [OF this, of b] True show ?thesis
      using gcd_md [of b a] md_nonneg [of b a] by (auto simp: gcd_loop.simps [of md a b])
  next
    case False
    then show ?thesis by (auto simp: gcd_loop.simps [of md a b])
  qed
qed

lemma gcd_c_magnitude:
  assumes "a \<noteq> 0 \<or> b \<noteq> 0"
  shows "\<exists>g. gcd_c md a b = Some g \<and> \<bar>sint g\<bar> = gcd (sint a) (sint b)
    \<and> (0 \<le> sint a \<longrightarrow> 0 \<le> sint b \<longrightarrow> 0 \<le> sint g)"
proof -
  obtain x y where xy: "(if a <s b then (b, a) else (a, b)) = (x, y)" by fastforce
  from gcd_loop_correct [of x y] obtain a' b' where
    l: "gcd_loop md x y = Some (a', b')" "a' = 0 \<or> b' = 0"
      "gcd (sint a') (sint b') = gcd (sint x) (sint y)"
      "0 \<le> sint x \<longrightarrow> 0 \<le> sint y \<longrightarrow> 0 \<le> sint a' \<and> 0 \<le> sint b'" by blast
  let ?g = "if a' \<noteq> 0 then a' else b'"
  have swap: "gcd (sint x) (sint y) = gcd (sint a) (sint b)"
    "0 \<le> sint x \<and> 0 \<le> sint y \<longleftrightarrow> 0 \<le> sint a \<and> 0 \<le> sint b"
    using xy by (auto simp: gcd.commute split: if_splits)
  have "gcd_c md a b = Some ?g"
    using assms by (auto simp: gcd_c_def xy l(1))
  moreover have "\<bar>sint ?g\<bar> = gcd (sint a') (sint b')"
    using l(2) by (cases "a' = 0") simp_all
  ultimately show ?thesis
    using l(3,4) swap by auto
qed

lemma gcd_c_nonneg:
  assumes "0 \<le> sint a" and "0 \<le> sint b"
  shows "\<exists>g. gcd_c md a b = Some g \<and> 0 < sint g \<and> sint g dvd sint b
    \<and> (a \<noteq> 0 \<or> b \<noteq> 0 \<longrightarrow> sint g = gcd (sint a) (sint b))"
proof (cases "a \<noteq> 0 \<or> b \<noteq> 0")
  case True
  from gcd_c_magnitude [OF this] assms obtain g where
    g: "gcd_c md a b = Some g" "sint g = gcd (sint a) (sint b)" by auto
  have "gcd (sint a) (sint b) \<noteq> 0" using True by simp
  then have "0 < gcd (sint a) (sint b)" using gcd_ge_0_int [of "sint a" "sint b"] by linarith
  with g True show ?thesis by simp
next
  case False
  then show ?thesis by (simp add: gcd_c_def)
qed

end

context int_arith begin

lemma lcm_c_nonneg:
  assumes "0 \<le> sint a" and "0 \<le> sint b"
  shows "lcm_c dv md mul a b = Some (word_of_int (lcm (sint a) (sint b)))"
proof -
  from gcd_c_nonneg [OF assms] obtain g where
    g: "gcd_c md a b = Some g" "0 < sint g" "sint g dvd sint b"
      "a \<noteq> 0 \<or> b \<noteq> 0 \<longrightarrow> sint g = gcd (sint a) (sint b)" by blast
  have "sint a * (sint b div sint g) = lcm (sint a) (sint b)"
  proof (cases "a \<noteq> 0 \<or> b \<noteq> 0")
    case True
    with g have "0 \<le> sint a * sint b div gcd (sint a) (sint b)"
      using assms by (simp add: pos_imp_zdiv_nonneg_iff)
    with True g assms show ?thesis
      by (simp add: lcm_gcd [of "sint a"] abs_mult div_mult_swap flip: lcm_int_def)
  next
    case False
    then show ?thesis by simp
  qed
  then have "sint a * sint (dv b g) = lcm (sint a) (sint b)"
    using dv_exact [OF g(2,3)] by simp
  then show ?thesis
    by (simp only: lcm_c_def g(1) option.map mul_law sext64_mult)
qed

lemma iter_loop_correct:
  assumes "\<forall>x \<in> set arr. 0 \<le> sint x" and "0 \<le> sint n" and "unat n \<le> length arr"
    and "unat i \<le> unat n" and "0 \<le> c"
    and "lcms_fit c (map sint (drop (unat i) (take (unat n) arr)))"
  shows "iter_loop dv md mul arr n i (word_of_int c) =
    Some (word_of_int (fold lcm (map sint (drop (unat i) (take (unat n) arr))) c))"
  using assms(4-6)
proof (induction "unat n - unat i" arbitrary: i c)
  case 0
  then have "i = n" by (simp add: word_unat_eq_iff)
  then show ?case by (simp add: iter_loop.simps [of dv md mul arr n])
next
  case (Suc k)
  then have lt: "unat i < unat n" by simp
  have n31: "unat n < 2 ^ 31" using assms(2) by (simp add: sint_nonneg_iff_unat)
  have "i <s n" using lt n31 by (simp only: sless_iff_unat)
  have i1: "unat (i + 1) = Suc (unat i)" using lt n31 by (simp add: unat_word_ariths)
  let ?x = "arr ! unat i"
  have dr: "drop (unat i) (take (unat n) arr) = ?x # drop (unat (i + 1)) (take (unat n) arr)"
    using lt assms(3) by (simp add: i1 Cons_nth_drop_Suc [symmetric])
  have x: "0 \<le> sint ?x" using lt assms(1,3) by simp
  have c: "c < 2 ^ 31" and fit: "lcms_fit (lcm (sint ?x) c) (map sint (drop (unat (i + 1)) (take (unat n) arr)))"
    using Suc.prems(3) by (simp_all add: dr)
  have "lcm_c dv md mul (trunc32 (word_of_int c)) ?x = Some (word_of_int (lcm (sint ?x) c))"
    using lcm_c_nonneg [of "trunc32 (word_of_int c)" ?x] x c Suc.prems(2) by (simp add: sext64_trunc32 lcm.commute)
  moreover have "iter_loop dv md mul arr n (i + 1) (word_of_int (lcm (sint ?x) c)) =
      Some (word_of_int (fold lcm (map sint (drop (unat (i + 1)) (take (unat n) arr))) (lcm (sint ?x) c)))"
    using Suc.hyps(2) lt fit by (intro Suc.hyps(1)) (simp_all add: i1)
  ultimately show ?case
    using lt assms(3) \<open>i <s n\<close> by (simp add: iter_loop.simps [of dv md mul arr n i] dr)
qed

lemma iter_correct:
  assumes "\<forall>x \<in> set arr. 0 \<le> sint x" and "0 < sint n" and "unat n \<le> length arr"
    and "lcms_fit (sint (hd arr)) (map sint (tl (take (unat n) arr)))"
  shows "iter dv md mul arr n = Some (word_of_int (Lcm (set (map sint (take (unat n) arr)))))"
proof -
  have n: "0 < unat n" using assms(2) by (auto simp: unat_gt_0)
  with assms(3) obtain a as where arr: "arr = a # as" by (cases arr) auto
  have tk: "take (unat n) arr = a # drop 1 (take (unat n) arr)"
    using n arr by (cases "unat n") simp_all
  have "iter dv md mul arr n = iter_loop dv md mul arr n 1 (word_of_int (sint a))"
    using assms(2) arr by (auto simp: iter_def sext64_def)
  also have "\<dots> = Some (word_of_int (fold lcm (map sint (drop 1 (take (unat n) arr))) (sint a)))"
    using iter_loop_correct [of arr n 1 "sint a"] assms n arr
    by (simp add: drop_Suc)
  also have "fold lcm (map sint (drop 1 (take (unat n) arr))) (sint a) = Lcm (set (map sint (take (unat n) arr)))"
    using assms(1) arr by (subst (2) tk) (simp add: fold_lcm_eq_Lcm del: One_nat_def)
  finally show ?thesis .
qed

end

section \<open>With the runtime routines\<close>

text \<open>
  C20: with the remainder of the runtime, \<open>gcd\<close> returns for every pair of \<open>int\<close>s: 1 for two
  zeros, otherwise a value whose magnitude is the greatest common divisor, positive when
  neither argument is negative.
\<close>

theorem gcd_functional:
  "\<exists>g. gcd_c modsi3 a b = Some g
     \<and> \<bar>sint g\<bar> = (if a = 0 \<and> b = 0 then 1 else gcd (sint a) (sint b))
     \<and> (if 0 \<le> sint a \<and> 0 \<le> sint b then 0 < sint g else True)"
proof (cases "a = 0 \<and> b = 0")
  case True
  then show ?thesis by (simp add: gcd_c_def)
next
  case False
  then have nz: "a \<noteq> 0 \<or> b \<noteq> 0" by simp
  then have "gcd (sint a) (sint b) \<noteq> 0" by simp
  with soft.gcd_c_magnitude [OF nz] False show ?thesis by fastforce
qed

text \<open>
  On non-negative arguments \<open>lcm\<close> returns the least common multiple as a \<open>long long\<close>,
  with no overflow: the product of the two halves always fits.
\<close>

theorem lcm_functional:
  assumes "0 \<le> sint a" and "0 \<le> sint b"
  shows "\<exists>l. lcm_c divsi3 modsi3 muldi3 a b = Some l \<and> sint l = lcm (sint a) (sint b)"
proof -
  have "lcm (sint a) (sint b) \<le> \<bar>sint a * sint b\<bar>"
  proof (cases "sint a * sint b = 0")
    case False
    then have "0 < \<bar>sint a * sint b\<bar>" by simp
    then show ?thesis by (intro zdvd_imp_le) (auto intro: lcm_least)
  qed auto
  also have "\<dots> \<le> 2 ^ 31 * 2 ^ 31"
    using sint_u32_bounds [of a] sint_u32_bounds [of b]
    unfolding abs_mult by (intro mult_mono) auto
  finally have "sint (word_of_int (lcm (sint a) (sint b)) :: u64) = lcm (sint a) (sint b)"
    by (intro sint_word_of_int_u64) (auto intro: order_trans [OF _ lcm_ge_0_int])
  with soft.lcm_c_nonneg [OF assms] show ?thesis by simp
qed

theorem lcm_functional_witness:
  "\<exists>l. lcm_c divsi3 modsi3 muldi3 12 18 = Some l \<and> sint l = 36"
proof -
  have "lcm 12 18 = (36 :: int)" by code_simp
  then show ?thesis using lcm_functional [of 12 18] by simp
qed

text \<open>
  C21: \<open>iter\<close> returns the least common multiple of the first \<open>n\<close> elements, \<open>n\<close> at least one, of an array of
  non-negative \<open>int\<close>s, as long as every intermediate multiple fits an \<open>int\<close>. (With a negative element the result
  may be the negative of the multiple.)
\<close>

theorem iter_functional:
  assumes "\<forall>x \<in> set arr. 0 \<le> sint x" and "0 < sint n" and "unat n \<le> length arr"
    and "lcms_fit (sint (hd arr)) (map sint (tl (take (unat n) arr)))"
  shows "iter divsi3 modsi3 muldi3 arr n = Some (word_of_int (Lcm (set (map sint (take (unat n) arr)))))"
  using assms by (rule soft.iter_correct)

theorem iter_functional_witness:
  "iter divsi3 modsi3 muldi3 [4, 6, 10, 7] 3 = Some 60"
proof -
  let ?arr = "[4, 6, 10, 7] :: u32 list"
  have ints: "map sint (take (unat (3 :: u32)) ?arr) = [4, 6, 10]" by simp
  have "lcms_fit (sint (hd ?arr)) (map sint (tl (take (unat (3 :: u32)) ?arr)))" by code_simp
  then have "iter divsi3 modsi3 muldi3 ?arr 3 = Some (word_of_int (Lcm (set [4, 6, 10])))"
    using iter_functional [of ?arr 3, unfolded ints] by simp
  also have "Lcm (set [4, 6, 10 :: int]) = 60"
    unfolding Lcm_set_eq_fold by code_simp
  finally show ?thesis by simp
qed

text \<open>
  The bound on the intermediate multiples is needed. For 65521, 65519 and 2 the first
  multiple exceeds an \<open>int\<close>; the call of \<open>lcm\<close> truncates it to a negative number and
  \<open>iter\<close> returns 4193794 instead of 8585740798.
\<close>

theorem iter_truncates:
  "iter divsi3 modsi3 muldi3 [65521, 65519, 2] 3 = Some 4193794
   \<and> Lcm (set [65521, 65519, 2]) = (8585740798 :: int)"
proof -
  have "lcm 65521 65519 = (4292870399 :: int)" by code_simp
  then have one: "lcm_c divsi3 modsi3 muldi3 65521 65519 = Some 4292870399"
    using soft.lcm_c_nonneg [of 65521 65519] by simp
  have "gcd_c modsi3 4292870399 2 = Some (- 1)"
    by (simp add: gcd_c_def word_sless_alt gcd_loop.simps modsi3_eq_c_mod c_mod_def
        signed_modulo_int_def)
  then have two: "lcm_c divsi3 modsi3 muldi3 4292870399 2 = Some 4193794"
    by (simp add: lcm_c_def divsi3_eq_c_div c_div_def signed_divide_int_def muldi3_eq_times
        sext64_mult)
  have "iter divsi3 modsi3 muldi3 [65521, 65519, 2] 3 = Some 4193794"
    by (simp add: iter_def iter_loop.simps word_sless_alt sext64_def trunc32_def one two)
  moreover have "Lcm (set [65521, 65519, 2]) = (8585740798 :: int)"
    unfolding Lcm_set_eq_fold by code_simp
  ultimately show ?thesis by blast
qed

end
