(* ===== verification/Lcm_Bench.thy ===== *)
theory Lcm_Bench
  imports Lcm
begin

text \<open>
  The benchmark \<open>_start\<close> of \<open>testcode/src/comp2.c\<close>: it fills a 12 by 12 array with a linear
  congruential sequence, takes the least common multiple of each row and compares the weighted
  sum of the twelve with a constant. The theory shows that the run ends in \<open>PASS\<close> whatever the
  uninitialised memory held, with the runtime routines of the same file doing the arithmetic.
\<close>

section \<open>The benchmark\<close>

definition PASS :: u32 where "PASS = 0x600d600d"
definition FAIL :: u32 where "FAIL = 0x0badc0de"
definition comp2_N :: u32 where "comp2_N = 12"
definition comp2_M :: u32 where "comp2_M = 7"
definition comp2_INC :: u32 where "comp2_INC = 29"
definition comp2_MOD :: u32 where "comp2_MOD = 41"
definition EXPECTED :: u64 where "EXPECTED = 77385916320"


text \<open>
  The fill of the 12 by 12 array. Everything but \<open>nums[0][0]\<close> is uninitialised before it; the
  model takes those contents as a parameter.
\<close>

type_synonym grid = "nat \<Rightarrow> nat \<Rightarrow> u32"

definition grid_at :: "grid \<Rightarrow> u32 \<Rightarrow> u32" where
  "grid_at nums i = nums (unat (i div comp2_N)) (unat (i mod comp2_N))"

definition grid_put :: "grid \<Rightarrow> u32 \<Rightarrow> u32 \<Rightarrow> grid" where
  "grid_put nums i v =
     (let r = unat (i div comp2_N) in nums(r := (nums r)(unat (i mod comp2_N) := v)))"

function comp2_fill :: "(u32 \<Rightarrow> u32 \<Rightarrow> u32) \<Rightarrow> u32 \<Rightarrow> grid \<Rightarrow> grid" where
  "comp2_fill md i nums =
     (if i < comp2_N * comp2_N
      then comp2_fill md (i + 1)
             (grid_put nums i (md (comp2_M * grid_at nums (i - 1) + comp2_INC) comp2_MOD))
      else nums)"
  by pat_completeness auto
termination
  by (relation "measure (\<lambda>(md, i, nums). 144 - unat i)")
    (auto simp: comp2_N_def word_less_nat_alt unat_word_ariths)

declare comp2_fill.simps [simp del]

definition grid_row :: "grid \<Rightarrow> u32 \<Rightarrow> u32 list" where
  "grid_row nums i = map (nums (unat i)) [0..<unat comp2_N]"

partial_function (option) comp2_lcms ::
  "(u32 \<Rightarrow> u32 \<Rightarrow> u32) \<Rightarrow> (u32 \<Rightarrow> u32 \<Rightarrow> u32) \<Rightarrow> (u64 \<Rightarrow> u64 \<Rightarrow> u64) \<Rightarrow>
   grid \<Rightarrow> u32 \<Rightarrow> (nat \<Rightarrow> u64) \<Rightarrow> (nat \<Rightarrow> u64) option" where
  "comp2_lcms dv md mul nums i lcms =
     (if i < comp2_N
      then Option.bind (iter dv md mul (grid_row nums i) comp2_N)
             (\<lambda>v. comp2_lcms dv md mul nums (i + 1) (lcms(unat i := v)))
      else Some lcms)"

function comp2_sum :: "(u64 \<Rightarrow> u64 \<Rightarrow> u64) \<Rightarrow> (nat \<Rightarrow> u64) \<Rightarrow> u32 \<Rightarrow> u64 \<Rightarrow> u64" where
  "comp2_sum mul lcms i sm =
     (if i < comp2_N
      then comp2_sum mul lcms (i + 1) (sm + mul (ucast (i + 1)) (lcms (unat i)))
      else sm)"
  by pat_completeness auto
termination
  by (relation "measure (\<lambda>(mul, lcms, i, sm). 12 - unat i)")
    (auto simp: comp2_N_def word_less_nat_alt unat_word_ariths)

declare comp2_sum.simps [simp del]

text \<open>\<open>_start\<close> as built for RISC-V: the status register is set, then the program spins.\<close>

definition comp2_start ::
  "(u32 \<Rightarrow> u32 \<Rightarrow> u32) \<Rightarrow> (u32 \<Rightarrow> u32 \<Rightarrow> u32) \<Rightarrow> (u64 \<Rightarrow> u64 \<Rightarrow> u64) \<Rightarrow>
   grid \<Rightarrow> (nat \<Rightarrow> u64) \<Rightarrow> run_end option" where
  "comp2_start dv md mul nums0 lcms0 =
     (let nums = nums0(0 := (nums0 0)(0 := 60));
          nums = comp2_fill md 1 nums
      in map_option
           (\<lambda>lcms. Spins (if comp2_sum mul lcms 0 0 = EXPECTED then PASS else FAIL))
           (comp2_lcms dv md mul nums 0 lcms0))"

section \<open>Running the benchmark\<close>

text \<open>The generator's sequence, and its place in the array.\<close>

primrec comp2_seq :: "nat \<Rightarrow> int" where
  "comp2_seq 0 = 60"
| "comp2_seq (Suc k) = (7 * comp2_seq k + 29) mod 41"

lemma comp2_seq_bounds: "0 \<le> comp2_seq k \<and> comp2_seq k \<le> 60"
proof (induction k)
  case (Suc k)
  have "(7 * comp2_seq k + 29) mod 41 < 41" by (rule pos_mod_bound) simp
  then show ?case by simp
qed simp

lemma unat_div_mod_N:
  "unat (i div comp2_N) = unat i div 12" "unat (i mod comp2_N) = unat i mod 12"
  by (simp_all add: comp2_N_def unat_div_distrib unat_mod_distrib)

context int_division begin

lemma md_small:
  assumes "0 \<le> x" and "x < 2 ^ 31"
  shows "md (word_of_int x) 41 = word_of_int (x mod 41)"
proof -
  have "sint (md (word_of_int x) 41) = x mod 41"
    using md_law [of 41 "word_of_int x"] assms by (simp add: sint_word_of_int_u32 smod_nonneg)
  then have "word_of_int (sint (md (word_of_int x) 41)) = (word_of_int (x mod 41) :: u32)" by simp
  then show ?thesis by simp
qed

lemma comp2_fill_correct:
  assumes "0 < unat i" and "unat i \<le> 144"
    and "\<forall>k < unat i. nums (k div 12) (k mod 12) = word_of_int (comp2_seq k)"
    and "k < 144"
  shows "comp2_fill md i nums (k div 12) (k mod 12) = word_of_int (comp2_seq k)"
  using assms(1-3)
proof (induction "144 - unat i" arbitrary: i nums)
  case 0
  then show ?case
    using assms(4) by (simp add: comp2_fill.simps [of md i nums] comp2_N_def word_less_nat_alt)
next
  case (Suc j)
  then have lt: "unat i < 144" by simp
  have i1: "unat (i + 1) = Suc (unat i)" using lt by (simp add: unat_word_ariths)
  have im1: "unat (i - 1) = unat i - 1" using Suc.prems(1) by (simp add: unat_sub word_le_nat_alt)
  obtain m where m: "unat i = Suc m" using Suc.prems(1) by (cases "unat i") auto
  let ?v = "md (comp2_M * grid_at nums (i - 1) + comp2_INC) comp2_MOD"
  have "grid_at nums (i - 1) = word_of_int (comp2_seq m)"
    using Suc.prems(3) m by (simp add: grid_at_def unat_div_mod_N im1)
  then have "comp2_M * grid_at nums (i - 1) + comp2_INC = word_of_int (7 * comp2_seq m + 29)"
    by (simp add: comp2_M_def comp2_INC_def)
  then have v: "?v = word_of_int (comp2_seq (unat i))"
    using md_small [of "7 * comp2_seq m + 29"] comp2_seq_bounds [of m]
    by (simp add: comp2_MOD_def m)
  have put: "grid_put nums i ?v (k div 12) (k mod 12) = word_of_int (comp2_seq k)"
    if "k < unat (i + 1)" for k
  proof (cases "k = unat i")
    case True
    then show ?thesis using v by (simp add: grid_put_def Let_def unat_div_mod_N)
  next
    case False
    then have "\<not> (k div 12 = unat i div 12 \<and> k mod 12 = unat i mod 12)"
      by (metis mult_div_mod_eq)
    moreover have "nums (k div 12) (k mod 12) = word_of_int (comp2_seq k)"
      using that False Suc.prems(3) i1 by simp
    ultimately show ?thesis by (auto simp: grid_put_def Let_def unat_div_mod_N)
  qed
  have "i < comp2_N * comp2_N" using lt by (simp add: comp2_N_def word_less_nat_alt)
  then show ?case
    using Suc.hyps(1) [of "i + 1" "grid_put nums i ?v"] put lt Suc.hyps(2)
    by (simp add: comp2_fill.simps [of md i nums] i1)
qed

end

definition comp2_row :: "nat \<Rightarrow> int list" where
  "comp2_row r = map comp2_seq [12 * r..<12 * r + 12]"

primrec seq_from :: "nat \<Rightarrow> int \<Rightarrow> int list" where
  "seq_from 0 x = []"
| "seq_from (Suc n) x = x # seq_from n ((7 * x + 29) mod 41)"

lemma seq_from_eq: "seq_from n (comp2_seq k) = map comp2_seq [k..<k + n]"
proof (induction n arbitrary: k)
  case (Suc n)
  have "seq_from (Suc n) (comp2_seq k) = comp2_seq k # seq_from n (comp2_seq (Suc k))" by simp
  also have "\<dots> = map comp2_seq (k # [Suc k..<Suc k + n])" by (simp only: Suc.IH list.map)
  also have "k # [Suc k..<Suc k + n] = [k..<k + Suc n]" by (subst upt_conv_Cons [of k]) simp_all
  finally show ?case .
qed simp

lemma comp2_row_eq: "r < 12 \<Longrightarrow> comp2_row r = take 12 (drop (12 * r) (seq_from 144 60))"
  using seq_from_eq [of 144 0] by (simp add: comp2_row_def take_map drop_map)

lemma comp2_rows:
  "map comp2_row [0..<12] =
    [[60, 39, 15, 11, 24, 33, 14, 4, 16, 18, 32, 7], [37, 1, 36, 35, 28, 20, 5, 23, 26, 6, 30, 34],
     [21, 12, 31, 0, 29, 27, 13, 38, 8, 3, 9, 10], [17, 25, 40, 22, 19, 39, 15, 11, 24, 33, 14, 4],
     [16, 18, 32, 7, 37, 1, 36, 35, 28, 20, 5, 23], [26, 6, 30, 34, 21, 12, 31, 0, 29, 27, 13, 38],
     [8, 3, 9, 10, 17, 25, 40, 22, 19, 39, 15, 11], [24, 33, 14, 4, 16, 18, 32, 7, 37, 1, 36, 35],
     [28, 20, 5, 23, 26, 6, 30, 34, 21, 12, 31, 0], [29, 27, 13, 38, 8, 3, 9, 10, 17, 25, 40, 22],
     [19, 39, 15, 11, 24, 33, 14, 4, 16, 18, 32, 7], [37, 1, 36, 35, 28, 20, 5, 23, 26, 6, 30, 34]]"
  (is "_ = ?rows")
proof -
  have "map comp2_row [0..<12] = map (\<lambda>r. take 12 (drop (12 * r) (seq_from 144 60))) [0..<12]"
    by (rule map_cong) (simp_all add: comp2_row_eq)
  also have "\<dots> = ?rows" by code_simp
  finally show ?thesis .
qed

lemma length_comp2_row [simp]: "length (comp2_row r) = 12"
  by (simp add: comp2_row_def)

lemma comp2_row_bounds: "x \<in> set (comp2_row r) \<Longrightarrow> 0 \<le> x \<and> x \<le> 60"
  using comp2_seq_bounds by (auto simp: comp2_row_def)

lemma comp2_row_Lcm: "fold lcm (tl (comp2_row r)) (hd (comp2_row r)) = Lcm (set (comp2_row r))"
proof -
  obtain x xs where row: "comp2_row r = x # xs"
    using length_comp2_row [of r] by (cases "comp2_row r") auto
  then have "0 \<le> x" using comp2_row_bounds [of x r] by simp
  then show ?thesis by (simp only: row list.sel fold_lcm_eq_Lcm)
qed

lemma comp2_lcms_fit: "r < 12 \<Longrightarrow> lcms_fit (hd (comp2_row r)) (tl (comp2_row r))"
proof -
  have "list_all (\<lambda>xs. lcms_fit (hd xs) (tl xs)) (map comp2_row [0..<12])"
    unfolding comp2_rows by code_simp
  then show "r < 12 \<Longrightarrow> ?thesis" by (simp add: list_all_iff)
qed

definition comp2_weighted :: "nat list \<Rightarrow> int list list \<Rightarrow> int" where
  "comp2_weighted ks rows = sum_list (map2 (\<lambda>k xs. int (Suc k) * fold lcm (tl xs) (hd xs)) ks rows)"

lemma comp2_total: "(\<Sum>k\<leftarrow>[0..<12]. int (Suc k) * Lcm (set (comp2_row k))) = 77385916320"
proof -
  have "comp2_weighted [0..<12] (map comp2_row [0..<12]) = 77385916320"
    unfolding comp2_rows by code_simp
  moreover have "fold lcm (tl (comp2_row k)) (hd (comp2_row k)) = Lcm (set (comp2_row k))" for k
    by (rule comp2_row_Lcm)
  ultimately show ?thesis
    by (simp add: comp2_weighted_def map2_map_map [where f = id, simplified])
qed

lemma of_int_sum_list: "of_int (sum_list xs) = sum_list (map of_int xs)"
  by (induction xs) simp_all

lemma comp2_sum_correct:
  assumes "unat i \<le> 12"
  shows "comp2_sum (*) lcms i s = s + (\<Sum>k\<leftarrow>[unat i..<12]. of_nat (Suc k) * lcms k)"
  using assms
proof (induction "12 - unat i" arbitrary: i s)
  case 0
  then show ?case by (simp add: comp2_sum.simps [of _ lcms i] comp2_N_def word_less_nat_alt)
next
  case (Suc j)
  then have lt: "unat i < 12" by simp
  have i1: "unat (i + 1) = Suc (unat i)" using lt by (simp add: unat_word_ariths)
  have "i < comp2_N" using lt by (simp add: comp2_N_def word_less_nat_alt)
  moreover have "(ucast (i + 1) :: u64) = of_nat (Suc (unat i))"
    by (metis i1 of_nat_unat)
  moreover have "[unat i..<12] = unat i # [Suc (unat i)..<12]" using lt by (simp add: upt_conv_Cons)
  ultimately show ?case
    using Suc.hyps(1) [of "i + 1" "s + ucast (i + 1) * lcms (unat i)"] Suc.hyps(2) lt
    by (simp add: comp2_sum.simps [of _ lcms i] i1 add.assoc)
qed

lemma comp2_lcms_correct:
  assumes "\<And>k. k < 12 \<Longrightarrow> iter dv md mul (grid_row nums (of_nat k)) comp2_N = Some (v k)"
    and "unat i \<le> 12" and "\<forall>k < unat i. lcms k = v k"
  shows "\<exists>lcms'. comp2_lcms dv md mul nums i lcms = Some lcms' \<and> (\<forall>k < 12. lcms' k = v k)"
  using assms(2,3)
proof (induction "12 - unat i" arbitrary: i lcms)
  case 0
  then show ?case by (auto simp: comp2_lcms.simps [of dv md mul nums i] comp2_N_def word_less_nat_alt)
next
  case (Suc j)
  then have lt: "unat i < 12" by simp
  have i1: "unat (i + 1) = Suc (unat i)" using lt by (simp add: unat_word_ariths)
  have "i < comp2_N" using lt by (simp add: comp2_N_def word_less_nat_alt)
  moreover have "iter dv md mul (grid_row nums i) comp2_N = Some (v (unat i))"
    using assms(1) [OF lt] by simp
  moreover have "\<forall>k < unat (i + 1). (lcms(unat i := v (unat i))) k = v k"
    using Suc.prems(2) i1 by (simp add: less_Suc_eq)
  ultimately show ?case
    using Suc.hyps(1) [of "i + 1" "lcms(unat i := v (unat i))"] Suc.hyps(2) lt i1
    by (simp add: comp2_lcms.simps [of dv md mul nums i])
qed

context int_arith begin

lemma mul_eq: "mul = (*)"
  by (intro ext) (rule mul_law)

lemma comp2_iter_row:
  assumes "\<And>c. c < 12 \<Longrightarrow> nums r c = word_of_int (comp2_seq (12 * r + c))" and "r < 12"
  shows "iter dv md mul (grid_row nums (of_nat r)) comp2_N = Some (word_of_int (Lcm (set (comp2_row r))))"
proof -
  have row: "grid_row nums (of_nat r) = map word_of_int (comp2_row r)"
  proof (rule nth_equalityI)
    show "length (grid_row nums (of_nat r)) = length (map word_of_int (comp2_row r))"
      by (simp add: grid_row_def comp2_row_def comp2_N_def)
    show "grid_row nums (of_nat r) ! c = map word_of_int (comp2_row r) ! c"
      if "c < length (grid_row nums (of_nat r))" for c
      using that assms by (simp add: grid_row_def comp2_row_def comp2_N_def unat_of_nat take_bit_nat_eq_self_iff)
  qed
  have all: "map sint (map word_of_int (comp2_row r) :: u32 list) = comp2_row r"
  proof -
    have "sint (word_of_int x :: u32) = x" if "x \<in> set (comp2_row r)" for x
      using comp2_row_bounds [OF that] by (intro sint_word_of_int_u32) auto
    then show ?thesis by (simp add: comp_def map_idI)
  qed
  have tk: "take (unat comp2_N) (map word_of_int (comp2_row r)) = (map word_of_int (comp2_row r) :: u32 list)"
    by (simp add: comp2_N_def)
  have "\<forall>x \<in> set (map word_of_int (comp2_row r) :: u32 list). 0 \<le> sint x"
  proof
    fix x :: u32 assume "x \<in> set (map word_of_int (comp2_row r))"
    then have "sint x \<in> set (map sint (map word_of_int (comp2_row r) :: u32 list))" by auto
    then show "0 \<le> sint x" using comp2_row_bounds unfolding all by blast
  qed
  moreover have "lcms_fit (sint (hd (map word_of_int (comp2_row r) :: u32 list)))
      (map sint (tl (map word_of_int (comp2_row r) :: u32 list)))"
  proof -
    have ne: "(map word_of_int (comp2_row r) :: u32 list) \<noteq> []"
      using length_comp2_row [of r] by (metis length_0_conv length_map zero_neq_numeral)
    show ?thesis
      using comp2_lcms_fit [OF assms(2)] all ne by (metis hd_map map_tl)
  qed
  ultimately show ?thesis
    using iter_correct [of "map word_of_int (comp2_row r)" comp2_N] all tk
    by (simp only: row) (simp add: comp2_N_def)
qed

lemma comp2_start_passes: "comp2_start dv md mul nums0 lcms0 = Some (Spins PASS)"
proof -
  let ?nums = "comp2_fill md 1 (nums0(0 := (nums0 0)(0 := 60)))"
  have "?nums r c = word_of_int (comp2_seq (12 * r + c))" if "r < 12" "c < 12" for r c
    using comp2_fill_correct [of 1 "nums0(0 := (nums0 0)(0 := 60))" "12 * r + c"] that by simp
  then have it: "iter dv md mul (grid_row ?nums (of_nat k)) comp2_N =
      Some (word_of_int (Lcm (set (comp2_row k))))" if "k < 12" for k
    using that by (intro comp2_iter_row)
  obtain lcms where l: "comp2_lcms dv md mul ?nums 0 lcms0 = Some lcms"
    "\<And>k. k < 12 \<Longrightarrow> lcms k = word_of_int (Lcm (set (comp2_row k)))"
    using comp2_lcms_correct [OF it, of 0 lcms0] by auto
  have "comp2_sum mul lcms 0 0 = (\<Sum>k\<leftarrow>[0..<12]. of_nat (Suc k) * lcms k)"
    using comp2_sum_correct [of 0 lcms 0] by (simp add: mul_eq)
  also have "\<dots> = (\<Sum>k\<leftarrow>[0..<12]. word_of_int (int (Suc k) * Lcm (set (comp2_row k))))"
    by (rule arg_cong [of _ _ sum_list], rule map_cong) (simp_all add: l(2) del: of_nat_Suc)
  also have "\<dots> = word_of_int (\<Sum>k\<leftarrow>[0..<12]. int (Suc k) * Lcm (set (comp2_row k)))"
    by (simp add: of_int_sum_list comp_def)
  finally have "comp2_sum mul lcms 0 0 = EXPECTED"
    by (simp only: comp2_total EXPECTED_def of_int_numeral)
  then show ?thesis by (simp add: comp2_start_def Let_def l(1))
qed

end

text \<open>
  C12: the benchmark as built for RISC-V returns from all its loops and ends spinning with
  \<open>PASS\<close> in the status register, whatever the uninitialised arrays held.
\<close>

theorem comp2_passes:
  "comp2_start divsi3 modsi3 muldi3 nums0 lcms0 = Some (Spins 0x600d600d)"
  by (simp add: soft.comp2_start_passes PASS_def)

end
