(* ===== verification/Bswap.thy ===== *)
theory Bswap
  imports Prelude
begin

text \<open>
  Byte order. The processor is little-endian and the messages of \<open>testcode/src/comp3.c\<close> are
  big-endian, so every field is byte-swapped. On RV32I the 32- and 64-bit swaps are the
  routines \<open>__bswapsi2\<close> and \<open>__bswapdi2\<close> at the end of that file; the 16-bit swap is expanded
  inline by the compiler.
\<close>

section \<open>The routines\<close>

definition bswapsi2 :: "u32 \<Rightarrow> u32" where
  "bswapsi2 u =
     (drop_bit 24 (u AND 0xff000000)
      OR drop_bit 8 (u AND 0x00ff0000)
      OR push_bit 8 (u AND 0x0000ff00)
      OR push_bit 24 (u AND 0x000000ff))"

definition bswapdi2 :: "u64 \<Rightarrow> u64" where
  "bswapdi2 u =
     (drop_bit 56 (u AND 0xff00000000000000)
      OR drop_bit 40 (u AND 0x00ff000000000000)
      OR drop_bit 24 (u AND 0x0000ff0000000000)
      OR drop_bit 8 (u AND 0x000000ff00000000)
      OR push_bit 8 (u AND 0x00000000ff000000)
      OR push_bit 24 (u AND 0x0000000000ff0000)
      OR push_bit 40 (u AND 0x000000000000ff00)
      OR push_bit 56 (u AND 0x00000000000000ff))"

definition bswap16 :: "u16 \<Rightarrow> u16" where
  "bswap16 u = push_bit 8 u OR drop_bit 8 u"

section \<open>Bytes in memory\<close>

text \<open>A load reads the least significant byte at the lowest address.\<close>

primrec le_word :: "u8 list \<Rightarrow> 'a::len word" where
  "le_word [] = 0"
| "le_word (b # bs) = ucast b OR push_bit 8 (le_word bs)"

text \<open>The value the sender meant: the most significant byte first.\<close>

definition be_nat :: "u8 list \<Rightarrow> nat" where
  "be_nat bs = fold (\<lambda>b n. 256 * n + unat b) bs 0"

section \<open>The bits of a load and of a swap\<close>

lemma bit_u8_less_8: "bit (b :: u8) n \<Longrightarrow> n < 8"
  using bit_imp_le_length [of b n] by simp

lemma bit_le_word:
  "bit (le_word bs :: 'a::len word) n \<longleftrightarrow> n < LENGTH('a) \<and> n div 8 < length bs \<and> bit (bs ! (n div 8)) (n mod 8)"
proof (induction bs arbitrary: n)
  case Nil
  then show ?case by simp
next
  case (Cons b bs)
  show ?case
  proof (cases "n < 8")
    case True
    then show ?thesis by (auto simp: bit_or_iff bit_push_bit_iff bit_unsigned_iff)
  next
    case False
    then obtain m where m: "n = m + 8" by (metis add.commute le_Suc_ex not_less)
    have "\<not> bit b n" using False bit_u8_less_8 by blast
    moreover have "(m + 8) div 8 = Suc (m div 8)" by simp
    ultimately show ?thesis using Cons [of m] by (auto simp: bit_or_iff bit_push_bit_iff bit_unsigned_iff m div_add_self2)
  qed
qed
lemma be_nat_snoc: "be_nat (bs @ [b]) = 256 * be_nat bs + unat b"
  by (simp add: be_nat_def)

lemma be_nat_less: "be_nat bs < 256 ^ length bs"
proof (induction bs rule: rev_induct)
  case (snoc b bs)
  have "unat b < 256" using unat_lt_pow [of b] by simp
  with snoc show ?case by (simp add: be_nat_snoc)
qed (simp add: be_nat_def)

lemma unat_ucast_u8: "8 \<le> LENGTH('a) \<Longrightarrow> unat (ucast (b :: u8) :: 'a::len word) = unat b"
  using unat_lt_pow [of b] power_increasing [of 8 "LENGTH('a)" "2 :: nat"]
  by (simp add: unsigned_ucast_eq take_bit_nat_eq_self_iff)

lemma unat_le_word:
  "8 * length bs \<le> LENGTH('a) \<Longrightarrow> unat (le_word bs :: 'a::len word) = be_nat (rev bs)"
proof (induction bs)
  case Nil
  then show ?case by (simp add: be_nat_def)
next
  case (Cons b bs)
  let ?w = "le_word bs :: 'a word"
  have IH: "unat ?w = be_nat (rev bs)" using Cons by simp
  have "unat ?w * 2 ^ 8 < 256 ^ length (b # bs)" using be_nat_less [of "rev bs"] by (simp add: IH)
  also have "(256::nat) ^ length (b # bs) = 2 ^ (8 * length (b # bs))" by (simp add: power_add power_mult)
  also have "\<dots> \<le> 2 ^ LENGTH('a)" using Cons.prems by (intro power_increasing) simp_all
  finally have p: "unat (push_bit 8 ?w) = 256 * unat ?w" by (subst unat_push_bit_small) simp_all
  have "(ucast b :: 'a word) AND push_bit 8 ?w = 0"
    by (rule bit_word_eqI) (auto simp: bit_simps dest: bit_u8_less_8)
  then have "unat (ucast b :: 'a word) AND unat (push_bit 8 ?w) = 0"
    by (metis unsigned_and_eq unsigned_0)
  then have "unat (le_word (b # bs) :: 'a word) = unat (ucast b :: 'a word) + unat (push_bit 8 ?w)"
    by (simp only: le_word.simps unsigned_or_eq disjunctive_add_eq_or)
  with Cons.prems show ?case by (simp add: p IH be_nat_snoc unat_ucast_u8)
qed


lemma byte_of_bit:
  "n < 8 * Suc k \<Longrightarrow> 8 * k \<le> n \<Longrightarrow> n div 8 = k \<and> n mod 8 = n - 8 * k" for n :: nat
  by (simp add: div_nat_eqI modulo_nat_def algebra_simps)

lemma bit_byte_right:
  "bit (drop_bit s (w AND push_bit k (mask 8))) n \<longleftrightarrow> k \<le> n + s \<and> n + s < k + 8 \<and> bit w (n + s)"
  for w :: "'a::len word"
  using bit_imp_le_length [of w "n + s"]
  by (auto simp: bit_drop_bit_eq bit_and_iff bit_push_bit_iff bit_mask_iff add.commute)

lemma bit_byte_left:
  "bit (push_bit s (w AND push_bit k (mask 8))) n \<longleftrightarrow>
     n < LENGTH('a) \<and> s + k \<le> n \<and> n < s + k + 8 \<and> bit w (n - s)"
  for w :: "'a::len word"
  using bit_imp_le_length [of w "n - s"]
  by (auto simp: bit_and_iff bit_push_bit_iff bit_mask_iff)

lemma bit_bswapsi2: "bit (bswapsi2 u) n \<longleftrightarrow> n < 32 \<and> bit u (8 * (3 - n div 8) + n mod 8)"
proof -
  have m: "0xff000000 = push_bit 24 (mask 8 :: u32)"
    "0x00ff0000 = push_bit 16 (mask 8 :: u32)"
    "0x0000ff00 = push_bit 8 (mask 8 :: u32)"
    "0x000000ff = push_bit 0 (mask 8 :: u32)"
    by (simp_all add: mask_eq_exp_minus_1 push_bit_eq_mult)
  note bits = bswapsi2_def m bit_or_iff bit_byte_right bit_byte_left
  consider "n < 8" | "8 \<le> n" "n < 16" | "16 \<le> n" "n < 24" | "24 \<le> n" "n < 32" | "32 \<le> n"
    by linarith
  then show ?thesis
  proof cases
    case 1
    then show ?thesis unfolding bits by (simp add: add.commute)
  next
    case 2
    with byte_of_bit [of n 1] show ?thesis unfolding bits by (simp add: add.commute)
  next
    case 3
    with byte_of_bit [of n 2] show ?thesis unfolding bits by (simp add: add.commute)
  next
    case 4
    with byte_of_bit [of n 3] show ?thesis unfolding bits by (simp add: add.commute)
  next
    case 5
    then show ?thesis using bit_imp_le_length [of "bswapsi2 u" n] by auto
  qed
qed

lemma bit_bswapdi2: "bit (bswapdi2 u) n \<longleftrightarrow> n < 64 \<and> bit u (8 * (7 - n div 8) + n mod 8)"
proof -
  have m: "0xff00000000000000 = push_bit 56 (mask 8 :: u64)"
    "0x00ff000000000000 = push_bit 48 (mask 8 :: u64)"
    "0x0000ff0000000000 = push_bit 40 (mask 8 :: u64)"
    "0x000000ff00000000 = push_bit 32 (mask 8 :: u64)"
    "0x00000000ff000000 = push_bit 24 (mask 8 :: u64)"
    "0x0000000000ff0000 = push_bit 16 (mask 8 :: u64)"
    "0x000000000000ff00 = push_bit 8 (mask 8 :: u64)"
    "0x00000000000000ff = push_bit 0 (mask 8 :: u64)"
    by (simp_all add: mask_eq_exp_minus_1 push_bit_eq_mult)
  note bits = bswapdi2_def m bit_or_iff bit_byte_right bit_byte_left
  consider "n < 8" | "8 \<le> n" "n < 16" | "16 \<le> n" "n < 24" | "24 \<le> n" "n < 32" | "32 \<le> n" "n < 40" | "40 \<le> n" "n < 48" | "48 \<le> n" "n < 56" | "56 \<le> n" "n < 64" | "64 \<le> n"
    by linarith
  then show ?thesis
  proof cases
    case 1
    then show ?thesis unfolding bits by (simp add: add.commute)
  next
    case 2
    with byte_of_bit [of n 1] show ?thesis unfolding bits by (simp add: add.commute)
  next
    case 3
    with byte_of_bit [of n 2] show ?thesis unfolding bits by (simp add: add.commute)
  next
    case 4
    with byte_of_bit [of n 3] show ?thesis unfolding bits by (simp add: add.commute)
  next
    case 5
    with byte_of_bit [of n 4] show ?thesis unfolding bits by (simp add: add.commute)
  next
    case 6
    with byte_of_bit [of n 5] show ?thesis unfolding bits by (simp add: add.commute)
  next
    case 7
    with byte_of_bit [of n 6] show ?thesis unfolding bits by (simp add: add.commute)
  next
    case 8
    with byte_of_bit [of n 7] show ?thesis unfolding bits by (simp add: add.commute)
  next
    case 9
    then show ?thesis using bit_imp_le_length [of "bswapdi2 u" n] by auto
  qed
qed

lemma bit_bswap16: "bit (bswap16 u) n \<longleftrightarrow> n < 16 \<and> bit u (8 * (1 - n div 8) + n mod 8)"
proof -
  consider "n < 8" | "8 \<le> n" "n < 16" | "16 \<le> n" by linarith
  then show ?thesis
  proof cases
    case 1
    then show ?thesis by (auto simp: bswap16_def bit_simps dest: bit_imp_le_length)
  next
    case 2
    with byte_of_bit [of n 1] show ?thesis by (auto simp: bswap16_def bit_simps dest: bit_imp_le_length)
  next
    case 3
    then show ?thesis using bit_imp_le_length [of "bswap16 u" n] by auto
  qed
qed

section \<open>The contract of a swap\<close>

text \<open>
  A byte swap of \<open>Suc m\<close> bytes moves bit \<open>j\<close> of byte \<open>k\<close> to bit \<open>j\<close> of byte \<open>m - k\<close>.
  That is all a client needs: the swap is its own inverse, and it turns the word a
  little-endian load delivers into the big-endian number that was sent.
\<close>

locale byte_swap =
  fixes swap :: "'a::len word \<Rightarrow> 'a word" and m :: nat
  assumes width: "LENGTH('a) = 8 * Suc m"
    and bit_swap: "bit (swap u) n \<longleftrightarrow> n < LENGTH('a) \<and> bit u (8 * (m - n div 8) + n mod 8)"
begin

lemma mirrored_less: "n < LENGTH('a) \<Longrightarrow> n div 8 \<le> m \<and> 8 * (m - n div 8) + n mod 8 < LENGTH('a)"
  using width mod_less_divisor [of 8 n] by (simp add: less_mult_imp_div_less algebra_simps less_Suc_eq_le [symmetric])

lemma swap_swap: "swap (swap u) = u"
  by (rule bit_word_eqI) (use mirrored_less in \<open>auto simp: bit_swap\<close>)

lemma swap_load:
  assumes "length bs = Suc m"
  shows "swap (le_word bs) = le_word (rev bs)"
proof (rule bit_word_eqI)
  fix n assume n: "n < LENGTH('a)"
  have "rev bs ! (n div 8) = bs ! (m - n div 8)"
    using mirrored_less [OF n] assms by (simp add: rev_nth)
  then show "bit (swap (le_word bs)) n = bit (le_word (rev bs) :: 'a word) n"
    using mirrored_less [OF n] assms n by (auto simp: bit_swap bit_le_word)
qed

lemma unat_swap_load: "length bs = Suc m \<Longrightarrow> unat (swap (le_word bs)) = be_nat bs"
  by (simp add: swap_load unat_le_word width)

end

interpretation swap16: byte_swap bswap16 1
  by unfold_locales (simp_all add: bit_bswap16)

interpretation swap32: byte_swap bswapsi2 3
  by unfold_locales (simp_all add: bit_bswapsi2)

interpretation swap64: byte_swap bswapdi2 7
  by unfold_locales (simp_all add: bit_bswapdi2)

text \<open>
  C32: the byte-swap routines \<open>__bswapsi2\<close> and \<open>__bswapdi2\<close> (and the inline 16-bit swap) turn
  the word that a little-endian load delivers into the big-endian number the bytes spell, for
  all byte sequences, and each is its own inverse.
\<close>

theorem bswap_functional:
  "unat (bswap16 (le_word [a, b])) = 256 * unat a + unat b
   \<and> unat (bswapsi2 (le_word [a, b, c, d])) = be_nat [a, b, c, d]
   \<and> unat (bswapdi2 (le_word [a, b, c, d, e, f, g, h])) = be_nat [a, b, c, d, e, f, g, h]
   \<and> bswap16 (bswap16 u) = u \<and> bswapsi2 (bswapsi2 v) = v \<and> bswapdi2 (bswapdi2 w) = w"
proof (intro conjI)
  show "unat (bswap16 (le_word [a, b])) = 256 * unat a + unat b"
    by (subst swap16.unat_swap_load) (simp_all add: be_nat_def)
  show "unat (bswapsi2 (le_word [a, b, c, d])) = be_nat [a, b, c, d]"
    by (rule swap32.unat_swap_load) simp
  show "unat (bswapdi2 (le_word [a, b, c, d, e, f, g, h])) = be_nat [a, b, c, d, e, f, g, h]"
    by (rule swap64.unat_swap_load) simp
qed (rule swap16.swap_swap swap32.swap_swap swap64.swap_swap)+

end
