(* ===== verification/Trade.thy ===== *)
theory Trade
  imports Bswap
begin

text \<open>
  The trade processor of \<open>testcode/src/comp3.c\<close>: the packed 32-byte message, the global
  counters, and \<open>process_execution\<close> with its two early returns. The hosted build's printing is
  left out. On the way: which messages count, why replays are harmless, and when the risk
  check is the one it means to be.
\<close>

section \<open>Messages\<close>

text \<open>
  \<open>struct exec_notification\<close> is packed, so a field is found at the sum of the sizes before it.
  The multi-byte fields hold what a little-endian load delivers.
\<close>

record exec_notification =
  msg_type :: u8
  subtype :: u8
  trade_type :: u8
  side :: u8
  timestamp :: u32
  price :: u32
  symbol :: "u8 list"
  contracts :: u16
  liquidity :: u8
  strike :: u16
  expiration :: u16
  message_id :: u64

definition sizeof_notification :: nat where
  "sizeof_notification = 32"

definition field_bytes :: "u8 list \<Rightarrow> nat \<Rightarrow> nat \<Rightarrow> u8 list" where
  "field_bytes data off n = take n (drop off data)"

text \<open>The message at a byte offset of the buffer, or \<open>None\<close> where it leaves the buffer.\<close>

definition load_notification :: "u8 list \<Rightarrow> nat \<Rightarrow> exec_notification option" where
  "load_notification data off =
     (if off + sizeof_notification \<le> length data
      then Some \<lparr> msg_type = data ! off,
                  subtype = data ! (off + 1),
                  trade_type = data ! (off + 2),
                  side = data ! (off + 3),
                  timestamp = le_word (field_bytes data (off + 4) 4),
                  price = le_word (field_bytes data (off + 8) 4),
                  symbol = field_bytes data (off + 12) 5,
                  contracts = le_word (field_bytes data (off + 17) 2),
                  liquidity = data ! (off + 19),
                  strike = le_word (field_bytes data (off + 20) 2),
                  expiration = le_word (field_bytes data (off + 22) 2),
                  message_id = le_word (field_bytes data (off + 24) 8) \<rparr>
      else None)"

definition EXECUTION_TYPE :: u8 where "EXECUTION_TYPE = 0x4e"
definition EXECUTION_SUBTYPE :: u8 where "EXECUTION_SUBTYPE = 0x45"
definition TRADE_PUT :: u8 where "TRADE_PUT = 0x50"
definition TRADE_CALL :: u8 where "TRADE_CALL = 0x43"
definition SIDE_BUY :: u8 where "SIDE_BUY = 0x42"
definition SIDE_SELL :: u8 where "SIDE_SELL = 0x53"
definition LIQUIDITY_MAKER :: u8 where "LIQUIDITY_MAKER = 1"
definition RISK_THRESHOLD :: u32 where "RISK_THRESHOLD = 100"

section \<open>The processor\<close>

record trade_state =
  old_message_id :: u64
  contracts_processed :: u32
  puts_count :: u32
  calls_count :: u32

definition trade_init :: trade_state where
  "trade_init = \<lparr> old_message_id = 0, contracts_processed = 0, puts_count = 0, calls_count = 0 \<rparr>"

text \<open>
  The risk of a trade, from the swapped fields: all of it in wrapping 32-bit arithmetic, the
  comparison signed.
\<close>

definition trade_risk :: "u32 \<Rightarrow> u16 \<Rightarrow> u16 \<Rightarrow> u8 \<Rightarrow> u32" where
  "trade_risk p k e liq =
     (let vol = p - ucast k;
          vol = (if vol <s 0 then - vol else vol);
          risk = push_bit 2 vol;
          risk = (if 10 < e then risk + risk else risk)
      in if liq = LIQUIDITY_MAKER then risk - 2 else risk)"

definition process_execution :: "exec_notification \<Rightarrow> trade_state \<Rightarrow> u32 \<times> trade_state" where
  "process_execution trade s =
     (if msg_type trade \<noteq> EXECUTION_TYPE \<and> subtype trade \<noteq> EXECUTION_SUBTYPE then (0, s)
      else
        let p = bswapsi2 (price trade);
            n = bswap16 (contracts trade);
            k = bswap16 (strike trade);
            e = bswap16 (expiration trade);
            mid = bswapdi2 (message_id trade)
        in if mid \<le> old_message_id s then (0, s)
           else
             let s = s\<lparr>old_message_id := mid\<rparr>;
                 s = s\<lparr>contracts_processed := contracts_processed s + ucast n\<rparr>;
                 s = (if trade_type trade = TRADE_PUT
                      then s\<lparr>puts_count := puts_count s
                               + (if side trade = SIDE_BUY then ucast n else - ucast n)\<rparr>
                      else if trade_type trade = TRADE_CALL
                      then s\<lparr>calls_count := calls_count s
                               + (if side trade = SIDE_SELL then - ucast n else ucast n)\<rparr>
                      else s);
                 risk = trade_risk p k e (liquidity trade)
             in (if RISK_THRESHOLD <s risk then 1 else 0, s))"

section \<open>What the program means: messages as sent, counters as integers\<close>

record sent_message =
  s_type :: u8
  s_subtype :: u8
  s_trade :: u8
  s_side :: u8
  s_price :: nat
  s_contracts :: nat
  s_liquidity :: u8
  s_strike :: nat
  s_expiration :: nat
  s_id :: nat

definition sent :: "u8 list \<Rightarrow> sent_message" where
  "sent row =
     \<lparr> s_type = row ! 0, s_subtype = row ! 1, s_trade = row ! 2, s_side = row ! 3,
       s_price = be_nat (field_bytes row 8 4), s_contracts = be_nat (field_bytes row 17 2),
       s_liquidity = row ! 19, s_strike = be_nat (field_bytes row 20 2),
       s_expiration = be_nat (field_bytes row 22 2), s_id = be_nat (field_bytes row 24 8) \<rparr>"

record ledger =
  last_id :: nat
  traded :: int
  puts :: int
  calls :: int

definition spec_ignored :: "sent_message \<Rightarrow> ledger \<Rightarrow> bool" where
  "spec_ignored x l \<longleftrightarrow>
     s_type x \<noteq> EXECUTION_TYPE \<and> s_subtype x \<noteq> EXECUTION_SUBTYPE \<or> s_id x \<le> last_id l"

definition spec_risk :: "sent_message \<Rightarrow> int" where
  "spec_risk x =
     (if 10 < s_expiration x then 8 else 4) * \<bar>int (s_price x) - int (s_strike x)\<bar>
     - (if s_liquidity x = LIQUIDITY_MAKER then 2 else 0)"

definition spec_step :: "sent_message \<Rightarrow> ledger \<Rightarrow> bool \<times> ledger" where
  "spec_step x l =
     (if spec_ignored x l then (False, l)
      else (100 < spec_risk x,
            \<lparr> last_id = s_id x,
              traded = traded l + int (s_contracts x),
              puts = puts l + (if s_trade x \<noteq> TRADE_PUT then 0
                               else if s_side x = SIDE_BUY then int (s_contracts x)
                               else - int (s_contracts x)),
              calls = calls l + (if s_trade x \<noteq> TRADE_CALL then 0
                                 else if s_side x = SIDE_SELL then - int (s_contracts x)
                                 else int (s_contracts x)) \<rparr>))"

definition represents :: "trade_state \<Rightarrow> ledger \<Rightarrow> bool" where
  "represents s l \<longleftrightarrow>
     unat (old_message_id s) = last_id l
     \<and> contracts_processed s = word_of_int (traded l)
     \<and> puts_count s = word_of_int (puts l)
     \<and> calls_count s = word_of_int (calls l)"

section \<open>The risk computation\<close>

lemma sint_ucast_u16: "sint (ucast (k :: u16) :: u32) = int (unat k)"
proof -
  have "unat k < 2 ^ 16" using unat_lt_pow [of k] by simp
  moreover have "unat (ucast k :: u32) = unat k"
    using \<open>unat k < 2 ^ 16\<close> by (simp add: unsigned_ucast_eq take_bit_nat_eq_self_iff)
  ultimately show ?thesis by (simp add: sint_eq_unat del: of_nat_unat)
qed

lemma price_minus_strike:
  assumes "\<bar>int (unat p) - int (unat (k :: u16))\<bar> < 2 ^ 31"
  shows "sint (p - ucast k :: u32) = int (unat p) - int (unat k)"
proof -
  have "p - ucast k = word_of_int (int (unat p) - int (unat k))"
    by simp
  with assms show ?thesis by (simp only:) (rule sint_word_of_int_u32, simp_all)
qed

lemma trade_risk_correct:
  fixes p :: u32 and k e :: u16
  assumes small: "\<bar>int (unat p) - int (unat k)\<bar> < 2 ^ 28"
  shows "sint (trade_risk p k e liq) =
     (if 10 < e then 8 else 4) * \<bar>int (unat p) - int (unat k)\<bar> - (if liq = LIQUIDITY_MAKER then 2 else 0)"
proof -
  let ?d = "int (unat p) - int (unat k)"
  have d: "sint (p - ucast k) = ?d" using small by (intro price_minus_strike) simp
  have v: "(if p - ucast k <s 0 then - (p - ucast k) else p - ucast k) = word_of_int \<bar>?d\<bar>" (is "?v = _")
    using d by (auto simp: word_sless_alt abs_if simp flip: of_int_minus)
  have "trade_risk p k e liq = word_of_int
     ((if 10 < e then 8 else 4) * \<bar>?d\<bar> - (if liq = LIQUIDITY_MAKER then 2 else 0))"
    unfolding trade_risk_def Let_def v by (simp add: push_bit_eq_mult)
  moreover have "sint (word_of_int ((if 10 < e then 8 else 4) * \<bar>?d\<bar> - (if liq = LIQUIDITY_MAKER then 2 else 0)) :: u32)
    = (if 10 < e then 8 else 4) * \<bar>?d\<bar> - (if liq = LIQUIDITY_MAKER then 2 else 0)"
    using small by (intro sint_word_of_int_u32) auto
  ultimately show ?thesis by simp
qed

lemma field_bytes_row:
  "off + n \<le> k \<Longrightarrow> field_bytes (take k (drop base data)) off n = field_bytes data (base + off) n"
  by (simp add: field_bytes_def drop_take add.commute)

lemma length_field_bytes: "off + n \<le> length data \<Longrightarrow> length (field_bytes data off n) = n"
  by (simp add: field_bytes_def)

text \<open>A loaded message, once swapped, holds the values that were sent.\<close>

lemma load_sent:
  assumes "off + 32 \<le> length data" and row: "row = take 32 (drop off data)"
  obtains t where "load_notification data off = Some t"
    and "msg_type t = s_type (sent row)" and "subtype t = s_subtype (sent row)"
    and "trade_type t = s_trade (sent row)" and "side t = s_side (sent row)"
    and "liquidity t = s_liquidity (sent row)"
    and "unat (bswapsi2 (price t)) = s_price (sent row)"
    and "unat (bswap16 (contracts t)) = s_contracts (sent row)"
    and "unat (bswap16 (strike t)) = s_strike (sent row)"
    and "unat (bswap16 (expiration t)) = s_expiration (sent row)"
    and "unat (bswapdi2 (message_id t)) = s_id (sent row)"
proof -
  obtain t where t: "load_notification data off = Some t" 
    using assms by (simp add: load_notification_def sizeof_notification_def)
  have f: "length (field_bytes data (off + i) n) = n" if "i + n \<le> 32" for i n
    using that assms by (intro length_field_bytes) simp
  note swap = swap16.unat_swap_load [simplified] swap32.unat_swap_load [simplified] swap64.unat_swap_load [simplified]
  show ?thesis
    by (rule that [OF t])
      (use t assms in \<open>auto simp: load_notification_def sizeof_notification_def sent_def field_bytes_row swap f\<close>)
qed

lemma unat_less_ten: "(10 :: u16) < e \<longleftrightarrow> 10 < unat e"
  by (simp add: word_less_nat_alt)

lemma signed_contracts: "(ucast (n :: u16) :: u32) = word_of_int (int (unat n))"
  by simp

abbreviation message_at :: "u8 list \<Rightarrow> nat \<Rightarrow> sent_message" where
  "message_at data off \<equiv> sent (take 32 (drop off data))"

definition risk_fits :: "sent_message \<Rightarrow> bool" where
  "risk_fits x \<longleftrightarrow> \<bar>int (s_price x) - int (s_strike x)\<bar> < 2 ^ 28"

lemma trade_kinds_differ [simp]: "TRADE_PUT \<noteq> TRADE_CALL" "TRADE_CALL \<noteq> TRADE_PUT"
  by (simp_all add: TRADE_PUT_def TRADE_CALL_def)

text \<open>The two ways through the function.\<close>

definition ignores :: "exec_notification \<Rightarrow> trade_state \<Rightarrow> bool" where
  "ignores trade s \<longleftrightarrow>
     msg_type trade \<noteq> EXECUTION_TYPE \<and> subtype trade \<noteq> EXECUTION_SUBTYPE
     \<or> bswapdi2 (message_id trade) \<le> old_message_id s"

definition counted :: "exec_notification \<Rightarrow> trade_state \<Rightarrow> trade_state" where
  "counted trade s =
     (let n = ucast (bswap16 (contracts trade)) in
      \<lparr> old_message_id = bswapdi2 (message_id trade),
        contracts_processed = contracts_processed s + n,
        puts_count = puts_count s + (if trade_type trade \<noteq> TRADE_PUT then 0
                                     else if side trade = SIDE_BUY then n else - n),
        calls_count = calls_count s + (if trade_type trade \<noteq> TRADE_CALL then 0
                                       else if side trade = SIDE_SELL then - n else n) \<rparr>)"

lemma process_ignored: "ignores trade s \<Longrightarrow> process_execution trade s = (0, s)"
  by (simp only: process_execution_def ignores_def Let_def) presburger

lemma counted_sel [simp]:
  "old_message_id (counted trade s) = bswapdi2 (message_id trade)"
  "contracts_processed (counted trade s) = contracts_processed s + ucast (bswap16 (contracts trade))"
  "puts_count (counted trade s) = puts_count s + (if trade_type trade \<noteq> TRADE_PUT then 0
     else if side trade = SIDE_BUY then ucast (bswap16 (contracts trade)) else - ucast (bswap16 (contracts trade)))"
  "calls_count (counted trade s) = calls_count s + (if trade_type trade \<noteq> TRADE_CALL then 0
     else if side trade = SIDE_SELL then - ucast (bswap16 (contracts trade)) else ucast (bswap16 (contracts trade)))"
  by (simp_all add: counted_def Let_def)

lemma process_counted:
  assumes "\<not> ignores trade s"
  shows "process_execution trade s =
     (if RISK_THRESHOLD <s trade_risk (bswapsi2 (price trade)) (bswap16 (strike trade))
           (bswap16 (expiration trade)) (liquidity trade) then 1 else 0, counted trade s)"
proof -
  have f: "(msg_type trade \<noteq> EXECUTION_TYPE \<and> subtype trade \<noteq> EXECUTION_SUBTYPE) = False"
    "(bswapdi2 (message_id trade) \<le> old_message_id s) = False"
    using assms unfolding ignores_def by blast+
  show ?thesis
    unfolding process_execution_def f if_False Let_def counted_def
    by (cases "trade_type trade = TRADE_PUT"; cases "trade_type trade = TRADE_CALL") simp_all
qed

lemma process_step:
  assumes "off + 32 \<le> length data" and "represents s l"
  obtains t ret s' breach l' where "load_notification data off = Some t"
    and "process_execution t s = (ret, s')" and "spec_step (message_at data off) l = (breach, l')"
    and "represents s' l'"
    and "risk_fits (message_at data off) \<Longrightarrow> ret = (if breach then 1 else 0)"
proof -
  let ?x = "message_at data off"
  obtain t where t: "load_notification data off = Some t"
    and eq: "msg_type t = s_type ?x" "subtype t = s_subtype ?x" "trade_type t = s_trade ?x"
      "side t = s_side ?x" "liquidity t = s_liquidity ?x"
    and sw: "unat (bswapsi2 (price t)) = s_price ?x" "unat (bswap16 (contracts t)) = s_contracts ?x"
      "unat (bswap16 (strike t)) = s_strike ?x" "unat (bswap16 (expiration t)) = s_expiration ?x"
      "unat (bswapdi2 (message_id t)) = s_id ?x"
    using load_sent [OF assms(1) refl] by blast
  have ign: "bswapdi2 (message_id t) \<le> old_message_id s \<longleftrightarrow> s_id ?x \<le> last_id l"
    using assms(2) by (simp add: word_le_nat_alt sw represents_def)
  have n: "ucast (bswap16 (contracts t)) = (word_of_int (int (s_contracts ?x)) :: u32)"
    by (simp flip: sw)
  have risk: "RISK_THRESHOLD <s trade_risk (bswapsi2 (price t)) (bswap16 (strike t)) (bswap16 (expiration t)) (liquidity t)
      \<longleftrightarrow> 100 < spec_risk ?x" if "risk_fits ?x"
    using trade_risk_correct [of "bswapsi2 (price t)" "bswap16 (strike t)"] that
    by (simp only: word_sless_alt sw eq unat_less_ten risk_fits_def) (simp add: spec_risk_def RISK_THRESHOLD_def)
  obtain ret s' breach l' where p: "process_execution t s = (ret, s')" "spec_step ?x l = (breach, l')"
    by (metis surj_pair)
  have same: "ignores t s \<longleftrightarrow> spec_ignored ?x l"
    by (simp add: ignores_def spec_ignored_def eq ign)
  have "represents s' l' \<and> (risk_fits ?x \<longrightarrow> ret = (if breach then 1 else 0))"
  proof (cases "ignores t s")
    case True
    then show ?thesis using p assms(2) same by (auto simp: process_ignored spec_step_def)
  next
    case False
    moreover have "represents (counted t s) (snd (spec_step ?x l))"
      using False assms(2) same by (simp add: represents_def spec_step_def eq n sw)
    ultimately show ?thesis using p risk same by (auto simp: process_counted spec_step_def)
  qed
  then have "represents s' l'" and "risk_fits ?x \<Longrightarrow> ret = (if breach then 1 else 0)"
    by simp_all
  with t p show ?thesis by (intro that)
qed

text \<open>
  C18: \<open>process_execution\<close> refines the ledger: for every message inside the buffer and every
  state that represents a ledger, the state after it represents the ledger after the message as
  sent, and the return value is the breach of the risk threshold, provided price and strike
  differ by less than 2^28.
\<close>

theorem process_refines:
  assumes "off + 32 \<le> length data" and "represents s l"
  shows "\<exists>t. load_notification data off = Some t
    \<and> represents (snd (process_execution t s)) (snd (spec_step (message_at data off) l))
    \<and> (\<bar>int (s_price (message_at data off)) - int (s_strike (message_at data off))\<bar> < 2 ^ 28
        \<longrightarrow> fst (process_execution t s) = (if fst (spec_step (message_at data off) l) then 1 else 0))"
  by (rule process_step [OF assms]) (auto simp: risk_fits_def)

theorem process_refines_witness:
  "\<exists>t. load_notification (replicate 32 0x4e) 0 = Some t
    \<and> represents (snd (process_execution t trade_init))
        (snd (spec_step (message_at (replicate 32 0x4e) 0) \<lparr>last_id = 0, traded = 0, puts = 0, calls = 0\<rparr>))"
  using process_refines [of 0 "replicate 32 0x4e" trade_init "\<lparr>last_id = 0, traded = 0, puts = 0, calls = 0\<rparr>"]
  by (simp add: represents_def trade_init_def) blast

text \<open>
  C36: a message is counted at most once and never after a later one: processing it again
  changes nothing and reports no breach, and the last id never decreases, any change of the
  counters coming with a strict increase.
\<close>

theorem process_replay:
  "process_execution t (snd (process_execution t s)) = (0, snd (process_execution t s))
   \<and> (snd (process_execution u s) = s
      \<or> old_message_id s < old_message_id (snd (process_execution u s)))"
proof
  have "ignores t (snd (process_execution t s))"
  proof (cases "ignores t s")
    case False
    then show ?thesis by (simp only: process_counted [OF False] snd_conv) (simp add: ignores_def)
  qed (simp add: process_ignored)
  then show "process_execution t (snd (process_execution t s)) = (0, snd (process_execution t s))"
    by (rule process_ignored)
  show "snd (process_execution u s) = s \<or> old_message_id s < old_message_id (snd (process_execution u s))"
  proof (cases "ignores u s")
    case False
    then show ?thesis by (simp only: process_counted [OF False] snd_conv counted_sel) (simp add: ignores_def not_le)
  qed (simp add: process_ignored)
qed

text \<open>
  The bound on the distance of price and strike is needed: at a price of 2^29 with strike 0
  the risk computed is negative and the trade passes, though its risk is 2^31.
\<close>

theorem risk_overflow:
  "sint (trade_risk 0x20000000 0 0 2) = - (2 ^ 31) \<and> \<not> RISK_THRESHOLD <s trade_risk 0x20000000 0 0 2
   \<and> spec_risk (sent [0x4e, 0x45, 0x50, 0x42, 0, 0, 0, 0, 0x20, 0, 0, 0, 0, 0, 0, 0, 0, 0, 1, 2, 0, 0, 0, 0,
                      0, 0, 0, 0, 0, 0, 0, 1]) = 2 ^ 31"
proof (intro conjI)
  show "sint (trade_risk 0x20000000 0 0 2) = - (2 ^ 31)" by code_simp
  show "\<not> RISK_THRESHOLD <s trade_risk 0x20000000 0 0 2" by code_simp
qed (simp add: spec_risk_def sent_def field_bytes_def be_nat_def LIQUIDITY_MAKER_def)

text \<open>
  The type filter rejects a message only when both its type and its subtype are wrong; one
  with a foreign type but subtype E (here \<open>OE\<close>) is counted like an execution.
\<close>

theorem half_matching_accepted:
  "map_option (\<lambda>t. process_execution t trade_init)
     (load_notification [0x4f, 0x45, 0x50, 0x42, 0, 0, 0, 0, 0, 0, 0, 0, 0, 0, 0, 0, 0, 0, 9, 2, 0, 0, 0, 0,
                         0, 0, 0, 0, 0, 0, 0, 1] 0)
   = Some (0, \<lparr>old_message_id = 1, contracts_processed = 9, puts_count = 9, calls_count = 0\<rparr>)"
  by code_simp

end
