(* ===== verification/Raw_Data.thy ===== *)
theory Raw_Data
  imports Prelude
begin

text \<open>
  The message capture of \<open>testcode/src/comp3_data.h\<close>: \<open>raw_data\<close>, 19200 bytes in 600 source
  lines of one 32-byte message each, in six parts.
\<close>

definition raw_rows_0 :: "u8 list list" where
  "raw_rows_0 = [
    [0x4e, 0x45, 0x50, 0x42, 0x5e, 0x9d, 0xcf, 0x22, 0x00, 0x00, 0x0d, 0xf7, 0x57, 0x54, 0x49, 0x20, 0x20, 0x00, 0x1c, 0x02, 0x0d, 0xeb, 0x00, 0x0c, 0x00, 0x05, 0xeb, 0x19, 0xb5, 0xc1, 0x6e, 0xa2],
    [0x4e, 0x45, 0x50, 0x53, 0x5e, 0x9d, 0xcf, 0x25, 0x00, 0x00, 0x05, 0xcb, 0x41, 0x41, 0x50, 0x4c, 0x20, 0x00, 0x0f, 0x02, 0x05, 0xda, 0x00, 0x03, 0x00, 0x06, 0x55, 0x2a, 0x54, 0xd7, 0x17, 0xba],
    [0x4e, 0x45, 0x50, 0x42, 0x5e, 0x9d, 0xcf, 0x2b, 0x00, 0x00, 0x0a, 0x6e, 0x53, 0x50, 0x58, 0x20, 0x20, 0x00, 0x1e, 0x01, 0x0a, 0x61, 0x00, 0x02, 0x00, 0x07, 0x98, 0x73, 0x51, 0xaf, 0xb7, 0x52],
    [0x4e, 0x45, 0x43, 0x42, 0x5e, 0x9d, 0xcf, 0x30, 0x00, 0x00, 0x29, 0xc6, 0x41, 0x41, 0x50, 0x4c, 0x20, 0x00, 0x0f, 0x02, 0x29, 0xcb, 0x00, 0x07, 0x00, 0x09, 0x5d, 0xb2, 0x3e, 0x05, 0x39, 0xf4],
    [0x4e, 0x45, 0x50, 0x53, 0x5e, 0x9d, 0xcf, 0x39, 0x00, 0x00, 0x23, 0x7b, 0x53, 0x50, 0x58, 0x20, 0x20, 0x00, 0x23, 0x01, 0x23, 0x83, 0x00, 0x0b, 0x00, 0x0a, 0x84, 0x51, 0x7a, 0xdc, 0xfe, 0x5b],
    [0x4e, 0x45, 0x43, 0x42, 0x5e, 0x9d, 0xcf, 0x3e, 0x00, 0x00, 0x03, 0x2f, 0x53, 0x50, 0x59, 0x20, 0x20, 0x00, 0x22, 0x02, 0x03, 0x2e, 0x00, 0x06, 0x00, 0x0a, 0xed, 0xc4, 0x6a, 0x0a, 0x18, 0x17],
    [0x4e, 0x45, 0x50, 0x53, 0x5e, 0x9d, 0xcf, 0x42, 0x00, 0x00, 0x14, 0x46, 0x53, 0x50, 0x59, 0x20, 0x20, 0x00, 0x1b, 0x01, 0x14, 0x47, 0x00, 0x09, 0x00, 0x0d, 0x38, 0x75, 0xa9, 0x6b, 0x39, 0x9e],
    [0x4e, 0x45, 0x43, 0x42, 0x5e, 0x9d, 0xcf, 0x4b, 0x00, 0x00, 0x2a, 0x48, 0x53, 0x50, 0x59, 0x20, 0x20, 0x00, 0x05, 0x01, 0x2a, 0x45, 0x00, 0x07, 0x00, 0x12, 0x81, 0xe8, 0x0a, 0x21, 0xe7, 0x27],
    [0x4e, 0x45, 0x50, 0x42, 0x5e, 0x9d, 0xcf, 0x4e, 0x00, 0x00, 0x00, 0x7a, 0x4e, 0x46, 0x4c, 0x58, 0x20, 0x00, 0x07, 0x01, 0x00, 0x87, 0x00, 0x0a, 0x00, 0x13, 0xc0, 0x8c, 0xd6, 0x75, 0x08, 0xf6],
    [0x4e, 0x45, 0x43, 0x53, 0x5e, 0x9d, 0xcf, 0x58, 0x00, 0x00, 0x2d, 0xf6, 0x47, 0x4f, 0x4f, 0x47, 0x4c, 0x00, 0x04, 0x01, 0x2d, 0xfb, 0x00, 0x04, 0x00, 0x15, 0xa8, 0x48, 0x0e, 0x14, 0xf8, 0x86],
    [0x4e, 0x45, 0x50, 0x42, 0x5e, 0x9d, 0xcf, 0x61, 0x00, 0x00, 0x30, 0x4c, 0x47, 0x4f, 0x4f, 0x47, 0x4c, 0x00, 0x22, 0x01, 0x30, 0x57, 0x00, 0x0c, 0x00, 0x17, 0x5d, 0xbe, 0xa9, 0x40, 0xbb, 0x93],
    [0x4e, 0x45, 0x50, 0x42, 0x5e, 0x9d, 0xcf, 0x6d, 0x00, 0x00, 0x34, 0x79, 0x41, 0x41, 0x50, 0x4c, 0x20, 0x00, 0x14, 0x01, 0x34, 0x66, 0x00, 0x09, 0x00, 0x1a, 0xf8, 0x47, 0xb9, 0x8c, 0xbe, 0x01],
    [0x4e, 0x45, 0x43, 0x42, 0x5e, 0x9d, 0xcf, 0x7b, 0x00, 0x00, 0x1e, 0x64, 0x41, 0x41, 0x50, 0x4c, 0x20, 0x00, 0x19, 0x01, 0x1e, 0x6d, 0x00, 0x04, 0x00, 0x21, 0x43, 0xe7, 0x9a, 0xb8, 0xab, 0xc7],
    [0x4e, 0x45, 0x50, 0x42, 0x5e, 0x9d, 0xcf, 0x84, 0x00, 0x00, 0x0d, 0x1f, 0x41, 0x41, 0x50, 0x4c, 0x20, 0x00, 0x1b, 0x02, 0x0d, 0x2c, 0x00, 0x09, 0x00, 0x21, 0xd7, 0x39, 0x82, 0x38, 0xe9, 0x32],
    [0x4e, 0x45, 0x43, 0x53, 0x5e, 0x9d, 0xcf, 0x8e, 0x00, 0x00, 0x06, 0x7c, 0x4e, 0x46, 0x4c, 0x58, 0x20, 0x00, 0x09, 0x01, 0x06, 0x80, 0x00, 0x08, 0x00, 0x22, 0xdb, 0xc4, 0x4b, 0xef, 0x6c, 0x38],
    [0x4e, 0x45, 0x43, 0x53, 0x5e, 0x9d, 0xcf, 0x97, 0x00, 0x00, 0x18, 0x0e, 0x53, 0x50, 0x58, 0x20, 0x20, 0x00, 0x0e, 0x02, 0x18, 0x02, 0x00, 0x0d, 0x00, 0x23, 0x79, 0x30, 0x47, 0x47, 0xab, 0x7c],
    [0x4e, 0x45, 0x43, 0x42, 0x5e, 0x9d, 0xcf, 0xab, 0x00, 0x00, 0x24, 0xc9, 0x59, 0x4d, 0x20, 0x20, 0x20, 0x00, 0x13, 0x01, 0x24, 0xc9, 0x00, 0x05, 0x00, 0x28, 0x23, 0x5e, 0x7a, 0x41, 0x98, 0xef],
    [0x4e, 0x45, 0x50, 0x53, 0x5e, 0x9d, 0xcf, 0xaf, 0x00, 0x00, 0x00, 0xce, 0x4e, 0x46, 0x4c, 0x58, 0x20, 0x00, 0x18, 0x01, 0x00, 0xcb, 0x00, 0x0d, 0x00, 0x29, 0xab, 0x4d, 0xcc, 0x96, 0x19, 0x33],
    [0x4e, 0x45, 0x43, 0x42, 0x5e, 0x9d, 0xcf, 0xb6, 0x00, 0x00, 0x1d, 0x4a, 0x45, 0x53, 0x20, 0x20, 0x20, 0x00, 0x20, 0x02, 0x1d, 0x42, 0x00, 0x05, 0x00, 0x2d, 0x6c, 0xfe, 0x6a, 0x24, 0xb5, 0x7a],
    [0x4e, 0x45, 0x50, 0x42, 0x5e, 0x9d, 0xcf, 0xb9, 0x00, 0x00, 0x0d, 0x83, 0x41, 0x41, 0x50, 0x4c, 0x20, 0x00, 0x23, 0x01, 0x0d, 0x92, 0x00, 0x08, 0x00, 0x30, 0xe2, 0xb6, 0xef, 0xcc, 0x15, 0x4c],
    [0x4e, 0x45, 0x50, 0x42, 0x5e, 0x9d, 0xcf, 0xc1, 0x00, 0x00, 0x0c, 0x8c, 0x45, 0x53, 0x20, 0x20, 0x20, 0x00, 0x23, 0x01, 0x0c, 0x8a, 0x00, 0x0d, 0x00, 0x34, 0x12, 0xbf, 0x69, 0xed, 0x11, 0x2f],
    [0x4e, 0x45, 0x50, 0x53, 0x5e, 0x9d, 0xcf, 0xc9, 0x00, 0x00, 0x19, 0x4c, 0x59, 0x4d, 0x20, 0x20, 0x20, 0x00, 0x07, 0x01, 0x19, 0x5c, 0x00, 0x05, 0x00, 0x34, 0xc3, 0xb7, 0x93, 0x1c, 0x11, 0x84],
    [0x4e, 0x45, 0x43, 0x42, 0x5e, 0x9d, 0xcf, 0xcf, 0x00, 0x00, 0x39, 0xf5, 0x45, 0x53, 0x20, 0x20, 0x20, 0x00, 0x1d, 0x02, 0x39, 0xf4, 0x00, 0x05, 0x00, 0x37, 0x5e, 0x95, 0x26, 0xf9, 0x94, 0x26],
    [0x4e, 0x45, 0x43, 0x53, 0x5e, 0x9d, 0xcf, 0xd2, 0x00, 0x00, 0x03, 0x01, 0x45, 0x53, 0x20, 0x20, 0x20, 0x00, 0x14, 0x01, 0x03, 0x0b, 0x00, 0x05, 0x00, 0x3a, 0x95, 0xa7, 0x89, 0xdb, 0x4a, 0x07],
    [0x4e, 0x45, 0x43, 0x53, 0x5e, 0x9d, 0xcf, 0xdc, 0x00, 0x00, 0x20, 0x00, 0x4e, 0x46, 0x4c, 0x58, 0x20, 0x00, 0x21, 0x02, 0x1f, 0xfe, 0x00, 0x08, 0x00, 0x3c, 0x3e, 0x62, 0x8c, 0x9b, 0xfd, 0x44],
    [0x4e, 0x45, 0x43, 0x42, 0x5e, 0x9d, 0xcf, 0xe6, 0x00, 0x00, 0x1d, 0x37, 0x41, 0x41, 0x50, 0x4c, 0x20, 0x00, 0x14, 0x02, 0x1d, 0x39, 0x00, 0x06, 0x00, 0x3d, 0x1b, 0x39, 0x02, 0x83, 0x3d, 0x94],
    [0x4e, 0x45, 0x50, 0x53, 0x5e, 0x9d, 0xcf, 0xeb, 0x00, 0x00, 0x2f, 0x32, 0x41, 0x41, 0x50, 0x4c, 0x20, 0x00, 0x23, 0x01, 0x2f, 0x2d, 0x00, 0x08, 0x00, 0x3e, 0x24, 0x37, 0x1a, 0xd8, 0x7a, 0x7b],
    [0x4e, 0x45, 0x50, 0x42, 0x5e, 0x9d, 0xcf, 0xf2, 0x00, 0x00, 0x05, 0x6b, 0x53, 0x50, 0x59, 0x20, 0x20, 0x00, 0x1e, 0x01, 0x05, 0x6d, 0x00, 0x04, 0x00, 0x41, 0x46, 0xc4, 0xca, 0x93, 0xfe, 0x30],
    [0x4e, 0x45, 0x50, 0x53, 0x5e, 0x9d, 0xcf, 0xfb, 0x00, 0x00, 0x13, 0x04, 0x53, 0x50, 0x58, 0x20, 0x20, 0x00, 0x0d, 0x02, 0x13, 0x0d, 0x00, 0x07, 0x00, 0x42, 0xb6, 0xae, 0xbc, 0x45, 0xa9, 0xec],
    [0x4e, 0x45, 0x43, 0x53, 0x5e, 0x9d, 0xd0, 0x0c, 0x00, 0x00, 0x2e, 0x19, 0x4e, 0x46, 0x4c, 0x58, 0x20, 0x00, 0x07, 0x01, 0x2e, 0x1e, 0x00, 0x03, 0x00, 0x49, 0x0e, 0x3b, 0xed, 0x48, 0x98, 0xc4],
    [0x4e, 0x45, 0x50, 0x42, 0x5e, 0x9d, 0xd0, 0x15, 0x00, 0x00, 0x2e, 0x8b, 0x59, 0x4d, 0x20, 0x20, 0x20, 0x00, 0x0b, 0x02, 0x2e, 0x9d, 0x00, 0x08, 0x00, 0x4b, 0x79, 0x22, 0x89, 0x74, 0x84, 0xa5],
    [0x4e, 0x45, 0x50, 0x42, 0x5e, 0x9d, 0xd0, 0x1c, 0x00, 0x00, 0x27, 0x8c, 0x45, 0x53, 0x20, 0x20, 0x20, 0x00, 0x12, 0x01, 0x27, 0x78, 0x00, 0x05, 0x00, 0x4e, 0x46, 0x36, 0xcf, 0x45, 0xb7, 0xf5],
    [0x4e, 0x45, 0x50, 0x42, 0x5e, 0x9d, 0xd0, 0x26, 0x00, 0x00, 0x19, 0x1d, 0x45, 0x53, 0x20, 0x20, 0x20, 0x00, 0x13, 0x01, 0x19, 0x22, 0x00, 0x03, 0x00, 0x50, 0x5a, 0x4e, 0x2c, 0x9a, 0x0c, 0x59],
    [0x4e, 0x45, 0x43, 0x42, 0x5e, 0x9d, 0xd0, 0x2a, 0x00, 0x00, 0x05, 0x22, 0x46, 0x20, 0x20, 0x20, 0x20, 0x00, 0x07, 0x01, 0x05, 0x2d, 0x00, 0x05, 0x00, 0x51, 0x98, 0xe7, 0x04, 0x72, 0xc2, 0x3b],
    [0x4e, 0x45, 0x50, 0x53, 0x5e, 0x9d, 0xd0, 0x34, 0x00, 0x00, 0x27, 0x14, 0x57, 0x54, 0x49, 0x20, 0x20, 0x00, 0x14, 0x01, 0x27, 0x04, 0x00, 0x03, 0x00, 0x54, 0xf9, 0x22, 0x41, 0x5d, 0x2f, 0xa2],
    [0x4e, 0x45, 0x50, 0x53, 0x5e, 0x9d, 0xd0, 0x44, 0x00, 0x00, 0x0b, 0x05, 0x4e, 0x46, 0x4c, 0x58, 0x20, 0x00, 0x09, 0x01, 0x0b, 0x17, 0x00, 0x06, 0x00, 0x56, 0xdf, 0x58, 0x8a, 0x9c, 0x35, 0x1a],
    [0x4e, 0x45, 0x50, 0x42, 0x5e, 0x9d, 0xd0, 0x4d, 0x00, 0x00, 0x01, 0xe9, 0x53, 0x50, 0x58, 0x20, 0x20, 0x00, 0x07, 0x01, 0x01, 0xe3, 0x00, 0x05, 0x00, 0x5a, 0x2d, 0x65, 0x27, 0xa7, 0x8b, 0x09],
    [0x4e, 0x45, 0x50, 0x42, 0x5e, 0x9d, 0xd0, 0x54, 0x00, 0x00, 0x2f, 0x46, 0x53, 0x50, 0x59, 0x20, 0x20, 0x00, 0x09, 0x01, 0x2f, 0x51, 0x00, 0x05, 0x00, 0x5a, 0x98, 0xde, 0xe0, 0xc4, 0x3d, 0x30],
    [0x4e, 0x45, 0x43, 0x53, 0x5e, 0x9d, 0xd0, 0x5b, 0x00, 0x00, 0x09, 0xe7, 0x47, 0x4f, 0x4f, 0x47, 0x4c, 0x00, 0x12, 0x02, 0x09, 0xf7, 0x00, 0x03, 0x00, 0x5c, 0x88, 0x27, 0x3a, 0x05, 0x90, 0x06],
    [0x4e, 0x45, 0x43, 0x53, 0x5e, 0x9d, 0xd0, 0x63, 0x00, 0x00, 0x25, 0xfd, 0x41, 0x41, 0x50, 0x4c, 0x20, 0x00, 0x15, 0x02, 0x26, 0x07, 0x00, 0x0d, 0x00, 0x60, 0x60, 0x98, 0x73, 0x0b, 0x0c, 0xf2],
    [0x4e, 0x45, 0x50, 0x53, 0x5e, 0x9d, 0xd0, 0x68, 0x00, 0x00, 0x35, 0xe8, 0x57, 0x54, 0x49, 0x20, 0x20, 0x00, 0x1f, 0x01, 0x35, 0xd7, 0x00, 0x08, 0x00, 0x60, 0xde, 0x9f, 0xf8, 0x66, 0xd3, 0x59],
    [0x4e, 0x45, 0x50, 0x53, 0x5e, 0x9d, 0xd0, 0x6d, 0x00, 0x00, 0x29, 0xa4, 0x57, 0x54, 0x49, 0x20, 0x20, 0x00, 0x21, 0x02, 0x29, 0x95, 0x00, 0x07, 0x00, 0x63, 0x05, 0x44, 0x67, 0x45, 0x1d, 0x4f],
    [0x4e, 0x45, 0x43, 0x53, 0x5e, 0x9d, 0xd0, 0x76, 0x00, 0x00, 0x11, 0xe2, 0x41, 0x41, 0x50, 0x4c, 0x20, 0x00, 0x1d, 0x02, 0x11, 0xeb, 0x00, 0x04, 0x00, 0x65, 0x2f, 0xde, 0x0b, 0x0a, 0xb7, 0x79],
    [0x4e, 0x45, 0x43, 0x42, 0x5e, 0x9d, 0xd0, 0x7b, 0x00, 0x00, 0x34, 0x13, 0x46, 0x20, 0x20, 0x20, 0x20, 0x00, 0x0b, 0x01, 0x34, 0x0f, 0x00, 0x0b, 0x00, 0x67, 0xad, 0x8e, 0x8e, 0xb0, 0x7e, 0x78],
    [0x4e, 0x45, 0x50, 0x53, 0x5e, 0x9d, 0xd0, 0x85, 0x00, 0x00, 0x35, 0xf4, 0x41, 0x41, 0x50, 0x4c, 0x20, 0x00, 0x10, 0x02, 0x35, 0xf8, 0x00, 0x0c, 0x00, 0x6a, 0x1d, 0xfb, 0xd4, 0x93, 0xcb, 0x26],
    [0x4e, 0x45, 0x50, 0x42, 0x5e, 0x9d, 0xd0, 0x8d, 0x00, 0x00, 0x0e, 0xe0, 0x53, 0x50, 0x58, 0x20, 0x20, 0x00, 0x04, 0x02, 0x0e, 0xd3, 0x00, 0x0a, 0x00, 0x6b, 0xe8, 0x80, 0x8c, 0x35, 0xa9, 0x03],
    [0x4e, 0x45, 0x50, 0x42, 0x5e, 0x9d, 0xd0, 0x9e, 0x00, 0x00, 0x35, 0xa2, 0x47, 0x4f, 0x4f, 0x47, 0x4c, 0x00, 0x0e, 0x01, 0x35, 0xb2, 0x00, 0x04, 0x00, 0x71, 0x6d, 0x30, 0xad, 0xfd, 0x25, 0x60],
    [0x4e, 0x45, 0x43, 0x53, 0x5e, 0x9d, 0xd0, 0xa4, 0x00, 0x00, 0x25, 0xbc, 0x53, 0x50, 0x58, 0x20, 0x20, 0x00, 0x09, 0x01, 0x25, 0xb4, 0x00, 0x0d, 0x00, 0x72, 0x0d, 0x9d, 0x55, 0x2e, 0x7b, 0x40],
    [0x4e, 0x45, 0x50, 0x42, 0x5e, 0x9d, 0xd0, 0xab, 0x00, 0x00, 0x26, 0xb6, 0x41, 0x41, 0x50, 0x4c, 0x20, 0x00, 0x13, 0x02, 0x26, 0xbd, 0x00, 0x08, 0x00, 0x72, 0x6d, 0x98, 0x57, 0xcb, 0x9d, 0x6a],
    [0x4e, 0x45, 0x50, 0x53, 0x5e, 0x9d, 0xd0, 0xb4, 0x00, 0x00, 0x23, 0x6c, 0x53, 0x50, 0x59, 0x20, 0x20, 0x00, 0x0f, 0x01, 0x23, 0x70, 0x00, 0x06, 0x00, 0x75, 0xf0, 0x29, 0x4f, 0x66, 0xff, 0x6e],
    [0x4e, 0x45, 0x43, 0x42, 0x5e, 0x9d, 0xd0, 0xba, 0x00, 0x00, 0x39, 0x7b, 0x53, 0x50, 0x59, 0x20, 0x20, 0x00, 0x04, 0x02, 0x39, 0x7c, 0x00, 0x0d, 0x00, 0x79, 0x1b, 0x61, 0x90, 0xb5, 0x9b, 0xb9],
    [0x4e, 0x45, 0x50, 0x53, 0x5e, 0x9d, 0xd0, 0xc2, 0x00, 0x00, 0x02, 0xcc, 0x41, 0x41, 0x50, 0x4c, 0x20, 0x00, 0x05, 0x01, 0x02, 0xd8, 0x00, 0x0b, 0x00, 0x7c, 0x61, 0x32, 0x4b, 0xd0, 0x67, 0x3a],
    [0x4e, 0x45, 0x43, 0x42, 0x5e, 0x9d, 0xd0, 0xc6, 0x00, 0x00, 0x07, 0x8f, 0x57, 0x54, 0x49, 0x20, 0x20, 0x00, 0x1a, 0x02, 0x07, 0x84, 0x00, 0x0a, 0x00, 0x7c, 0xc4, 0x5a, 0xe9, 0xbd, 0xbb, 0x8d],
    [0x4e, 0x45, 0x50, 0x53, 0x5e, 0x9d, 0xd0, 0xc9, 0x00, 0x00, 0x15, 0x1e, 0x59, 0x4d, 0x20, 0x20, 0x20, 0x00, 0x20, 0x02, 0x15, 0x26, 0x00, 0x0d, 0x00, 0x7d, 0xfc, 0x23, 0x29, 0x0e, 0x28, 0xb1],
    [0x4e, 0x45, 0x43, 0x53, 0x5e, 0x9d, 0xd0, 0xd0, 0x00, 0x00, 0x32, 0x73, 0x57, 0x54, 0x49, 0x20, 0x20, 0x00, 0x1a, 0x02, 0x32, 0x6a, 0x00, 0x08, 0x00, 0x7e, 0x5f, 0xdf, 0x7d, 0x4f, 0xeb, 0x05],
    [0x4e, 0x45, 0x50, 0x42, 0x5e, 0x9d, 0xd0, 0xd7, 0x00, 0x00, 0x23, 0x88, 0x45, 0x53, 0x20, 0x20, 0x20, 0x00, 0x14, 0x02, 0x23, 0x98, 0x00, 0x02, 0x00, 0x80, 0xe0, 0x5a, 0xfe, 0x15, 0x40, 0xeb],
    [0x4e, 0x45, 0x43, 0x42, 0x5e, 0x9d, 0xd0, 0xe0, 0x00, 0x00, 0x04, 0x9c, 0x45, 0x53, 0x20, 0x20, 0x20, 0x00, 0x0c, 0x01, 0x04, 0x94, 0x00, 0x04, 0x00, 0x82, 0x4e, 0xff, 0xe7, 0x58, 0x9c, 0x6c],
    [0x4e, 0x45, 0x50, 0x42, 0x5e, 0x9d, 0xd0, 0xe7, 0x00, 0x00, 0x02, 0xf6, 0x53, 0x50, 0x58, 0x20, 0x20, 0x00, 0x06, 0x01, 0x02, 0xe7, 0x00, 0x05, 0x00, 0x85, 0x24, 0x41, 0xba, 0xcb, 0xdb, 0x4e],
    [0x4e, 0x45, 0x50, 0x53, 0x5e, 0x9d, 0xd0, 0xef, 0x00, 0x00, 0x2d, 0x1f, 0x53, 0x50, 0x59, 0x20, 0x20, 0x00, 0x0c, 0x01, 0x2d, 0x2b, 0x00, 0x09, 0x00, 0x87, 0x2a, 0xf3, 0x14, 0x7b, 0xbd, 0x66],
    [0x4e, 0x45, 0x50, 0x53, 0x5e, 0x9d, 0xd0, 0xf7, 0x00, 0x00, 0x16, 0x43, 0x53, 0x50, 0x59, 0x20, 0x20, 0x00, 0x1e, 0x02, 0x16, 0x33, 0x00, 0x0a, 0x00, 0x87, 0x95, 0x18, 0x40, 0xa9, 0x20, 0x9f],
    [0x4e, 0x45, 0x50, 0x42, 0x5e, 0x9d, 0xd0, 0xfb, 0x00, 0x00, 0x0d, 0x5c, 0x57, 0x54, 0x49, 0x20, 0x20, 0x00, 0x12, 0x02, 0x0d, 0x60, 0x00, 0x07, 0x00, 0x88, 0xbb, 0x29, 0xa8, 0x0f, 0x55, 0x4c],
    [0x4e, 0x45, 0x43, 0x53, 0x5e, 0x9d, 0xd1, 0x05, 0x00, 0x00, 0x10, 0x78, 0x57, 0x54, 0x49, 0x20, 0x20, 0x00, 0x1a, 0x01, 0x10, 0x78, 0x00, 0x02, 0x00, 0x8a, 0xce, 0x7e, 0xb0, 0x60, 0xd6, 0xa6],
    [0x4e, 0x45, 0x43, 0x53, 0x5e, 0x9d, 0xd1, 0x0b, 0x00, 0x00, 0x0f, 0xb3, 0x47, 0x4f, 0x4f, 0x47, 0x4c, 0x00, 0x16, 0x01, 0x0f, 0xc0, 0x00, 0x08, 0x00, 0x8b, 0xf3, 0x10, 0x37, 0xec, 0x35, 0x71],
    [0x4e, 0x45, 0x43, 0x53, 0x5e, 0x9d, 0xd1, 0x12, 0x00, 0x00, 0x24, 0xff, 0x57, 0x54, 0x49, 0x20, 0x20, 0x00, 0x13, 0x01, 0x24, 0xf7, 0x00, 0x05, 0x00, 0x8e, 0x3e, 0x7a, 0x62, 0x21, 0xfc, 0xab],
    [0x4e, 0x45, 0x43, 0x53, 0x5e, 0x9d, 0xd1, 0x1c, 0x00, 0x00, 0x2d, 0x85, 0x59, 0x4d, 0x20, 0x20, 0x20, 0x00, 0x0f, 0x02, 0x2d, 0x88, 0x00, 0x07, 0x00, 0x8f, 0x44, 0x73, 0x15, 0xf7, 0x71, 0x0e],
    [0x4e, 0x45, 0x43, 0x53, 0x5e, 0x9d, 0xd1, 0x25, 0x00, 0x00, 0x36, 0xf8, 0x47, 0x4f, 0x4f, 0x47, 0x4c, 0x00, 0x1f, 0x02, 0x36, 0xff, 0x00, 0x03, 0x00, 0x90, 0x6f, 0x4a, 0x53, 0x78, 0x03, 0x31],
    [0x4e, 0x45, 0x50, 0x53, 0x5e, 0x9d, 0xd1, 0x2d, 0x00, 0x00, 0x11, 0x06, 0x53, 0x50, 0x58, 0x20, 0x20, 0x00, 0x15, 0x02, 0x10, 0xf4, 0x00, 0x08, 0x00, 0x92, 0xe4, 0xc7, 0x72, 0x0b, 0x2a, 0xf4],
    [0x4e, 0x45, 0x50, 0x53, 0x5e, 0x9d, 0xd1, 0x3a, 0x00, 0x00, 0x37, 0x6a, 0x47, 0x4f, 0x4f, 0x47, 0x4c, 0x00, 0x05, 0x02, 0x37, 0x6e, 0x00, 0x0b, 0x00, 0x93, 0xf7, 0x96, 0x0e, 0xd2, 0x22, 0xdb],
    [0x4e, 0x45, 0x43, 0x42, 0x5e, 0x9d, 0xd1, 0x45, 0x00, 0x00, 0x2e, 0x0b, 0x53, 0x50, 0x58, 0x20, 0x20, 0x00, 0x18, 0x02, 0x2e, 0x0e, 0x00, 0x02, 0x00, 0x99, 0x9a, 0x72, 0x70, 0x60, 0xe8, 0x35],
    [0x4e, 0x45, 0x50, 0x42, 0x5e, 0x9d, 0xd1, 0x49, 0x00, 0x00, 0x24, 0x76, 0x57, 0x54, 0x49, 0x20, 0x20, 0x00, 0x0f, 0x01, 0x24, 0x82, 0x00, 0x09, 0x00, 0x9c, 0xa7, 0x46, 0x2c, 0xa5, 0x86, 0xb9],
    [0x4e, 0x45, 0x50, 0x53, 0x5e, 0x9d, 0xd1, 0x53, 0x00, 0x00, 0x21, 0x4f, 0x47, 0x4f, 0x4f, 0x47, 0x4c, 0x00, 0x1b, 0x01, 0x21, 0x56, 0x00, 0x05, 0x00, 0x9e, 0xf7, 0x20, 0xa4, 0x7b, 0xc8, 0xab],
    [0x4e, 0x45, 0x50, 0x42, 0x5e, 0x9d, 0xd1, 0x5c, 0x00, 0x00, 0x09, 0x7d, 0x47, 0x4f, 0x4f, 0x47, 0x4c, 0x00, 0x1e, 0x02, 0x09, 0x8a, 0x00, 0x0a, 0x00, 0xa1, 0x7f, 0x00, 0x85, 0x39, 0x27, 0x35],
    [0x4e, 0x45, 0x50, 0x53, 0x5e, 0x9d, 0xd1, 0x63, 0x00, 0x00, 0x33, 0xb1, 0x45, 0x53, 0x20, 0x20, 0x20, 0x00, 0x18, 0x02, 0x33, 0xba, 0x00, 0x05, 0x00, 0xa4, 0x96, 0xea, 0x44, 0xdc, 0x21, 0xc7],
    [0x4e, 0x45, 0x43, 0x42, 0x5e, 0x9d, 0xd1, 0x6d, 0x00, 0x00, 0x0f, 0xcb, 0x46, 0x20, 0x20, 0x20, 0x20, 0x00, 0x16, 0x02, 0x0f, 0xbc, 0x00, 0x03, 0x00, 0xa5, 0x0e, 0x10, 0x66, 0x01, 0x8d, 0x11],
    [0x4e, 0x45, 0x50, 0x42, 0x5e, 0x9d, 0xd1, 0x74, 0x00, 0x00, 0x04, 0x85, 0x41, 0x41, 0x50, 0x4c, 0x20, 0x00, 0x07, 0x01, 0x04, 0x90, 0x00, 0x06, 0x00, 0xa5, 0x75, 0x34, 0x18, 0x76, 0x91, 0x2f],
    [0x4e, 0x45, 0x50, 0x53, 0x5e, 0x9d, 0xd1, 0x7b, 0x00, 0x00, 0x12, 0x8b, 0x45, 0x53, 0x20, 0x20, 0x20, 0x00, 0x23, 0x01, 0x12, 0x95, 0x00, 0x07, 0x00, 0xa6, 0x30, 0xf6, 0x39, 0x9e, 0x08, 0x84],
    [0x4e, 0x45, 0x50, 0x42, 0x5e, 0x9d, 0xd1, 0x83, 0x00, 0x00, 0x06, 0x45, 0x46, 0x20, 0x20, 0x20, 0x20, 0x00, 0x1b, 0x02, 0x06, 0x40, 0x00, 0x07, 0x00, 0xa8, 0x02, 0x45, 0xbb, 0x19, 0xfd, 0xa9],
    [0x4e, 0x45, 0x43, 0x42, 0x5e, 0x9d, 0xd1, 0x86, 0x00, 0x00, 0x2a, 0x18, 0x53, 0x50, 0x59, 0x20, 0x20, 0x00, 0x03, 0x02, 0x2a, 0x19, 0x00, 0x07, 0x00, 0xaa, 0x68, 0x9b, 0x32, 0x18, 0x38, 0xe0],
    [0x4e, 0x45, 0x50, 0x42, 0x5e, 0x9d, 0xd1, 0x90, 0x00, 0x00, 0x19, 0x66, 0x41, 0x41, 0x50, 0x4c, 0x20, 0x00, 0x07, 0x02, 0x19, 0x5a, 0x00, 0x0b, 0x00, 0xac, 0xe9, 0x4b, 0x72, 0x73, 0x16, 0x2f],
    [0x4e, 0x45, 0x50, 0x53, 0x5e, 0x9d, 0xd1, 0x99, 0x00, 0x00, 0x28, 0xec, 0x4e, 0x46, 0x4c, 0x58, 0x20, 0x00, 0x23, 0x02, 0x28, 0xed, 0x00, 0x05, 0x00, 0xad, 0xb2, 0xae, 0x86, 0xda, 0xc8, 0xa1],
    [0x4e, 0x45, 0x43, 0x42, 0x5e, 0x9d, 0xd1, 0x9e, 0x00, 0x00, 0x14, 0xbe, 0x59, 0x4d, 0x20, 0x20, 0x20, 0x00, 0x05, 0x02, 0x14, 0xcb, 0x00, 0x02, 0x00, 0xae, 0xba, 0x40, 0x4c, 0x34, 0x6f, 0x10],
    [0x4e, 0x45, 0x50, 0x53, 0x5e, 0x9d, 0xd1, 0xa2, 0x00, 0x00, 0x34, 0x86, 0x46, 0x20, 0x20, 0x20, 0x20, 0x00, 0x1e, 0x02, 0x34, 0x88, 0x00, 0x04, 0x00, 0xaf, 0x35, 0xf1, 0xa4, 0x7d, 0x73, 0x4e],
    [0x4e, 0x45, 0x43, 0x53, 0x5e, 0x9d, 0xd1, 0xa7, 0x00, 0x00, 0x3a, 0x33, 0x47, 0x4f, 0x4f, 0x47, 0x4c, 0x00, 0x1c, 0x02, 0x3a, 0x2a, 0x00, 0x04, 0x00, 0xb1, 0xda, 0x85, 0x3e, 0xbe, 0xf2, 0x85],
    [0x4e, 0x45, 0x50, 0x42, 0x5e, 0x9d, 0xd1, 0xaf, 0x00, 0x00, 0x16, 0x01, 0x47, 0x4f, 0x4f, 0x47, 0x4c, 0x00, 0x0c, 0x01, 0x15, 0xfd, 0x00, 0x06, 0x00, 0xb4, 0xe0, 0x5d, 0xa4, 0xa2, 0x9d, 0x4d],
    [0x4e, 0x45, 0x43, 0x42, 0x5e, 0x9d, 0xd1, 0xb8, 0x00, 0x00, 0x07, 0x88, 0x47, 0x4f, 0x4f, 0x47, 0x4c, 0x00, 0x16, 0x02, 0x07, 0x99, 0x00, 0x02, 0x00, 0xb5, 0xb2, 0xd4, 0x88, 0x6e, 0xff, 0x93],
    [0x4e, 0x45, 0x43, 0x53, 0x5e, 0x9d, 0xd1, 0xc1, 0x00, 0x00, 0x29, 0x8b, 0x45, 0x53, 0x20, 0x20, 0x20, 0x00, 0x0a, 0x01, 0x29, 0x77, 0x00, 0x09, 0x00, 0xb9, 0x07, 0x9a, 0x51, 0xb0, 0xec, 0xc2],
    [0x4e, 0x45, 0x50, 0x42, 0x5e, 0x9d, 0xd1, 0xc9, 0x00, 0x00, 0x25, 0xde, 0x46, 0x20, 0x20, 0x20, 0x20, 0x00, 0x03, 0x01, 0x25, 0xde, 0x00, 0x0b, 0x00, 0xb9, 0xd3, 0x1e, 0x1b, 0x29, 0x4b, 0xe8],
    [0x4e, 0x45, 0x43, 0x53, 0x5e, 0x9d, 0xd1, 0xcc, 0x00, 0x00, 0x18, 0xf3, 0x4e, 0x46, 0x4c, 0x58, 0x20, 0x00, 0x0e, 0x02, 0x18, 0xe5, 0x00, 0x08, 0x00, 0xbb, 0xbd, 0x87, 0x4d, 0x7f, 0x6f, 0x9a],
    [0x4e, 0x45, 0x43, 0x53, 0x5e, 0x9d, 0xd1, 0xd3, 0x00, 0x00, 0x01, 0x2c, 0x53, 0x50, 0x58, 0x20, 0x20, 0x00, 0x1a, 0x01, 0x01, 0x1b, 0x00, 0x02, 0x00, 0xbd, 0xbe, 0xa4, 0x31, 0x01, 0xf9, 0x94],
    [0x4e, 0x45, 0x50, 0x53, 0x5e, 0x9d, 0xd1, 0xda, 0x00, 0x00, 0x32, 0xa9, 0x53, 0x50, 0x59, 0x20, 0x20, 0x00, 0x15, 0x02, 0x32, 0xba, 0x00, 0x06, 0x00, 0xc0, 0xee, 0x8e, 0x98, 0xcd, 0x3e, 0x3a],
    [0x4e, 0x45, 0x43, 0x42, 0x5e, 0x9d, 0xd1, 0xe3, 0x00, 0x00, 0x2f, 0x45, 0x53, 0x50, 0x59, 0x20, 0x20, 0x00, 0x22, 0x01, 0x2f, 0x45, 0x00, 0x06, 0x00, 0xc3, 0x09, 0x15, 0xb4, 0x8d, 0xca, 0xd3],
    [0x4e, 0x45, 0x50, 0x42, 0x5e, 0x9d, 0xd1, 0xe6, 0x00, 0x00, 0x23, 0xc8, 0x53, 0x50, 0x59, 0x20, 0x20, 0x00, 0x1b, 0x02, 0x23, 0xc9, 0x00, 0x02, 0x00, 0xc4, 0x6d, 0x13, 0x35, 0xdb, 0xf5, 0x3c],
    [0x4e, 0x45, 0x50, 0x53, 0x5e, 0x9d, 0xd1, 0xeb, 0x00, 0x00, 0x2c, 0x1f, 0x45, 0x53, 0x20, 0x20, 0x20, 0x00, 0x13, 0x01, 0x2c, 0x13, 0x00, 0x0d, 0x00, 0xc5, 0x13, 0x3a, 0xd2, 0xe7, 0x96, 0x21],
    [0x4e, 0x45, 0x43, 0x53, 0x5e, 0x9d, 0xd1, 0xf0, 0x00, 0x00, 0x27, 0x8b, 0x59, 0x4d, 0x20, 0x20, 0x20, 0x00, 0x07, 0x02, 0x27, 0x94, 0x00, 0x0b, 0x00, 0xc5, 0xe5, 0xed, 0xa5, 0x15, 0x66, 0x13],
    [0x4e, 0x45, 0x50, 0x53, 0x5e, 0x9d, 0xd1, 0xf7, 0x00, 0x00, 0x2e, 0x6b, 0x4e, 0x46, 0x4c, 0x58, 0x20, 0x00, 0x10, 0x02, 0x2e, 0x67, 0x00, 0x07, 0x00, 0xc8, 0xed, 0xd1, 0xfa, 0x07, 0x67, 0xfb],
    [0x4e, 0x45, 0x43, 0x42, 0x5e, 0x9d, 0xd1, 0xff, 0x00, 0x00, 0x25, 0x35, 0x53, 0x50, 0x59, 0x20, 0x20, 0x00, 0x08, 0x01, 0x25, 0x2a, 0x00, 0x0c, 0x00, 0xca, 0xa7, 0x51, 0xc9, 0x8f, 0xb4, 0x76],
    [0x4e, 0x45, 0x50, 0x42, 0x5e, 0x9d, 0xd2, 0x09, 0x00, 0x00, 0x25, 0x4c, 0x41, 0x41, 0x50, 0x4c, 0x20, 0x00, 0x03, 0x01, 0x25, 0x4e, 0x00, 0x0b, 0x00, 0xcc, 0xfb, 0xbd, 0x40, 0xd1, 0xbb, 0x04],
    [0x4e, 0x45, 0x43, 0x42, 0x5e, 0x9d, 0xd2, 0x0d, 0x00, 0x00, 0x18, 0x60, 0x57, 0x54, 0x49, 0x20, 0x20, 0x00, 0x14, 0x01, 0x18, 0x51, 0x00, 0x07, 0x00, 0xcd, 0x78, 0xed, 0x8f, 0x64, 0xe5, 0x1a],
    [0x4e, 0x45, 0x43, 0x53, 0x5e, 0x9d, 0xd2, 0x16, 0x00, 0x00, 0x28, 0x23, 0x53, 0x50, 0x59, 0x20, 0x20, 0x00, 0x1c, 0x02, 0x28, 0x24, 0x00, 0x02, 0x00, 0xce, 0x9d, 0xc7, 0x3e, 0xc8, 0x5c, 0xb6],
    [0x4e, 0x45, 0x43, 0x53, 0x5e, 0x9d, 0xd2, 0x19, 0x00, 0x00, 0x0e, 0xab, 0x41, 0x41, 0x50, 0x4c, 0x20, 0x00, 0x0f, 0x01, 0x0e, 0x9b, 0x00, 0x06, 0x00, 0xd1, 0x59, 0x80, 0x60, 0x51, 0x2f, 0x25],
    [0x4e, 0x45, 0x43, 0x42, 0x5e, 0x9d, 0xd2, 0x1f, 0x00, 0x00, 0x22, 0xf6, 0x53, 0x50, 0x59, 0x20, 0x20, 0x00, 0x0a, 0x01, 0x22, 0xe9, 0x00, 0x07, 0x00, 0xd4, 0x30, 0x7d, 0xe3, 0xd6, 0xa1, 0xd0],
    [0x4e, 0x45, 0x50, 0x42, 0x5e, 0x9d, 0xd2, 0x28, 0x00, 0x00, 0x05, 0xdb, 0x53, 0x50, 0x59, 0x20, 0x20, 0x00, 0x0b, 0x01, 0x05, 0xd3, 0x00, 0x0a, 0x00, 0xd6, 0xeb, 0x2f, 0x11, 0x36, 0x81, 0x9b],
    [0x4e, 0x45, 0x50, 0x42, 0x5e, 0x9d, 0xd2, 0x31, 0x00, 0x00, 0x27, 0x44, 0x41, 0x41, 0x50, 0x4c, 0x20, 0x00, 0x20, 0x02, 0x27, 0x46, 0x00, 0x0c, 0x00, 0xd9, 0x7b, 0xb7, 0x68, 0x4e, 0xc8, 0x9c],
    [0x4e, 0x45, 0x43, 0x53, 0x5e, 0x9d, 0xd2, 0x35, 0x00, 0x00, 0x04, 0x8c, 0x47, 0x4f, 0x4f, 0x47, 0x4c, 0x00, 0x05, 0x01, 0x04, 0x9c, 0x00, 0x02, 0x00, 0xdc, 0x5a, 0x61, 0x87, 0x7f, 0x8b, 0xa1],
    [0x4e, 0x45, 0x50, 0x53, 0x5e, 0x9d, 0xd2, 0x3b, 0x00, 0x00, 0x29, 0xb6, 0x47, 0x4f, 0x4f, 0x47, 0x4c, 0x00, 0x13, 0x02, 0x29, 0xb4, 0x00, 0x04, 0x00, 0xdf, 0x10, 0x73, 0xd6, 0x5d, 0x25, 0x23],
    [0x4e, 0x45, 0x50, 0x42, 0x5e, 0x9d, 0xd2, 0x44, 0x00, 0x00, 0x2a, 0xd3, 0x53, 0x50, 0x59, 0x20, 0x20, 0x00, 0x1e, 0x01, 0x2a, 0xd5, 0x00, 0x0d, 0x00, 0xe1, 0xa2, 0x96, 0xfb, 0xa3, 0xbb, 0x3e],
    [0x4e, 0x45, 0x50, 0x42, 0x5e, 0x9d, 0xd2, 0x4c, 0x00, 0x00, 0x36, 0xa0, 0x47, 0x4f, 0x4f, 0x47, 0x4c, 0x00, 0x20, 0x02, 0x36, 0x99, 0x00, 0x0a, 0x00, 0xe5, 0x1d, 0xaa, 0x08, 0x90, 0x3d, 0xe4],
    [0x4e, 0x45, 0x43, 0x53, 0x5e, 0x9d, 0xd2, 0x51, 0x00, 0x00, 0x06, 0xa7, 0x4e, 0x46, 0x4c, 0x58, 0x20, 0x00, 0x08, 0x02, 0x06, 0xae, 0x00, 0x0d, 0x00, 0xe8, 0x45, 0xa5, 0x63, 0xcb, 0x62, 0x40],
    [0x4e, 0x45, 0x43, 0x53, 0x5e, 0x9d, 0xd2, 0x54, 0x00, 0x00, 0x29, 0x16, 0x41, 0x41, 0x50, 0x4c, 0x20, 0x00, 0x15, 0x02, 0x29, 0x29, 0x00, 0x07, 0x00, 0xeb, 0xc5, 0x9a, 0xd9, 0x09, 0xe2, 0xca],
    [0x4e, 0x45, 0x50, 0x42, 0x5e, 0x9d, 0xd2, 0x57, 0x00, 0x00, 0x26, 0xea, 0x53, 0x50, 0x58, 0x20, 0x20, 0x00, 0x1b, 0x01, 0x26, 0xd6, 0x00, 0x07, 0x00, 0xed, 0x01, 0xa3, 0x61, 0xf5, 0xdb, 0x71],
    [0x4e, 0x45, 0x50, 0x42, 0x5e, 0x9d, 0xd2, 0x60, 0x00, 0x00, 0x1c, 0x9e, 0x57, 0x54, 0x49, 0x20, 0x20, 0x00, 0x14, 0x01, 0x1c, 0xaa, 0x00, 0x0c, 0x00, 0xed, 0xdd, 0xce, 0x99, 0x12, 0x93, 0xc7],
    [0x4e, 0x45, 0x43, 0x42, 0x5e, 0x9d, 0xd2, 0x66, 0x00, 0x00, 0x23, 0x3d, 0x59, 0x4d, 0x20, 0x20, 0x20, 0x00, 0x0a, 0x02, 0x23, 0x48, 0x00, 0x08, 0x00, 0xef, 0x7f, 0x4f, 0xa6, 0xd2, 0xb9, 0x1f],
    [0x4e, 0x45, 0x43, 0x42, 0x5e, 0x9d, 0xd2, 0x6a, 0x00, 0x00, 0x37, 0xc5, 0x4e, 0x46, 0x4c, 0x58, 0x20, 0x00, 0x21, 0x01, 0x37, 0xce, 0x00, 0x0b, 0x00, 0xef, 0xe2, 0x01, 0x40, 0x1b, 0x35, 0x54],
    [0x4e, 0x45, 0x43, 0x53, 0x5e, 0x9d, 0xd2, 0x71, 0x00, 0x00, 0x25, 0xd6, 0x4e, 0x46, 0x4c, 0x58, 0x20, 0x00, 0x0d, 0x01, 0x25, 0xe1, 0x00, 0x02, 0x00, 0xf2, 0xf9, 0xb0, 0x5a, 0x79, 0xf2, 0xf1],
    [0x4e, 0x45, 0x50, 0x42, 0x5e, 0x9d, 0xd2, 0x75, 0x00, 0x00, 0x28, 0x14, 0x59, 0x4d, 0x20, 0x20, 0x20, 0x00, 0x09, 0x02, 0x28, 0x23, 0x00, 0x07, 0x00, 0xf5, 0x7e, 0xc4, 0x8f, 0xaa, 0x03, 0xdf],
    [0x4e, 0x45, 0x43, 0x53, 0x5e, 0x9d, 0xd2, 0x78, 0x00, 0x00, 0x3a, 0x85, 0x59, 0x4d, 0x20, 0x20, 0x20, 0x00, 0x0c, 0x01, 0x3a, 0x71, 0x00, 0x08, 0x00, 0xf7, 0x96, 0x8a, 0x6a, 0xe0, 0x4b, 0x05],
    [0x4e, 0x45, 0x50, 0x53, 0x5e, 0x9d, 0xd2, 0x7f, 0x00, 0x00, 0x10, 0x91, 0x59, 0x4d, 0x20, 0x20, 0x20, 0x00, 0x1e, 0x02, 0x10, 0xa2, 0x00, 0x07, 0x00, 0xf8, 0xb9, 0x9f, 0xb1, 0xd5, 0x45, 0x6b],
    [0x4e, 0x45, 0x50, 0x42, 0x5e, 0x9d, 0xd2, 0x83, 0x00, 0x00, 0x34, 0xa5, 0x47, 0x4f, 0x4f, 0x47, 0x4c, 0x00, 0x0c, 0x02, 0x34, 0x91, 0x00, 0x08, 0x00, 0xfb, 0x3b, 0xcd, 0x59, 0x5b, 0xc0, 0x3d],
    [0x4e, 0x45, 0x43, 0x53, 0x5e, 0x9d, 0xd2, 0x91, 0x00, 0x00, 0x21, 0xbd, 0x57, 0x54, 0x49, 0x20, 0x20, 0x00, 0x1a, 0x01, 0x21, 0xbb, 0x00, 0x07, 0x00, 0xff, 0x86, 0xf1, 0x77, 0xd9, 0x77, 0x24],
    [0x4e, 0x45, 0x43, 0x53, 0x5e, 0x9d, 0xd2, 0x9a, 0x00, 0x00, 0x3a, 0x95, 0x46, 0x20, 0x20, 0x20, 0x20, 0x00, 0x07, 0x02, 0x3a, 0x92, 0x00, 0x0c, 0x01, 0x03, 0x9e, 0x62, 0xc4, 0x62, 0x35, 0xc4]]"

definition raw_rows_1 :: "u8 list list" where
  "raw_rows_1 = [
    [0x4e, 0x45, 0x43, 0x42, 0x5e, 0x9d, 0xd2, 0xa1, 0x00, 0x00, 0x2b, 0xb2, 0x53, 0x50, 0x59, 0x20, 0x20, 0x00, 0x18, 0x02, 0x2b, 0x9e, 0x00, 0x03, 0x01, 0x06, 0x5a, 0xe7, 0x34, 0x8a, 0xe3, 0xb5],
    [0x4e, 0x45, 0x43, 0x42, 0x5e, 0x9d, 0xd2, 0xae, 0x00, 0x00, 0x20, 0x26, 0x57, 0x54, 0x49, 0x20, 0x20, 0x00, 0x07, 0x01, 0x20, 0x35, 0x00, 0x0a, 0x01, 0x08, 0x2a, 0x78, 0x35, 0x7d, 0x07, 0x81],
    [0x4e, 0x45, 0x43, 0x42, 0x5e, 0x9d, 0xd2, 0xb8, 0x00, 0x00, 0x1e, 0x22, 0x59, 0x4d, 0x20, 0x20, 0x20, 0x00, 0x03, 0x02, 0x1e, 0x20, 0x00, 0x02, 0x01, 0x0b, 0x89, 0xb6, 0xe0, 0xdb, 0x20, 0x0f],
    [0x51, 0x75, 0x43, 0x42, 0x5e, 0x9d, 0xd2, 0xbc, 0x00, 0x00, 0x3a, 0x3e, 0x41, 0x41, 0x50, 0x4c, 0x20, 0x00, 0x19, 0x01, 0x3a, 0x46, 0x00, 0x05, 0x01, 0x0c, 0x7b, 0x46, 0xd8, 0x89, 0x43, 0x3e],
    [0x4e, 0x45, 0x50, 0x53, 0x5e, 0x9d, 0xd2, 0xc1, 0x00, 0x00, 0x32, 0xfa, 0x45, 0x53, 0x20, 0x20, 0x20, 0x00, 0x20, 0x01, 0x32, 0xf9, 0x00, 0x0b, 0x01, 0x0c, 0xf7, 0xa6, 0xa1, 0x6a, 0x49, 0x90],
    [0x4e, 0x45, 0x43, 0x53, 0x5e, 0x9d, 0xd2, 0xc4, 0x00, 0x00, 0x09, 0x30, 0x41, 0x41, 0x50, 0x4c, 0x20, 0x00, 0x05, 0x02, 0x09, 0x2e, 0x00, 0x05, 0x01, 0x0e, 0x4e, 0xe2, 0xdb, 0xba, 0x28, 0x3c],
    [0x58, 0x76, 0x50, 0x53, 0x5e, 0x9d, 0xd2, 0xce, 0x00, 0x00, 0x33, 0x87, 0x46, 0x20, 0x20, 0x20, 0x20, 0x00, 0x0e, 0x02, 0x33, 0x78, 0x00, 0x0a, 0x01, 0x0e, 0xef, 0xdc, 0x42, 0x4f, 0x2e, 0x7c],
    [0x4e, 0x45, 0x50, 0x53, 0x5e, 0x9d, 0xd2, 0xd4, 0x00, 0x00, 0x1c, 0x7b, 0x4e, 0x46, 0x4c, 0x58, 0x20, 0x00, 0x03, 0x01, 0x1c, 0x67, 0x00, 0x04, 0x01, 0x0f, 0xae, 0x45, 0xd2, 0xd8, 0xad, 0xbc],
    [0x4e, 0x45, 0x43, 0x42, 0x5e, 0x9d, 0xd2, 0xda, 0x00, 0x00, 0x30, 0x27, 0x41, 0x41, 0x50, 0x4c, 0x20, 0x00, 0x1f, 0x01, 0x30, 0x36, 0x00, 0x04, 0x01, 0x12, 0x22, 0x24, 0x15, 0x80, 0x4b, 0xcf],
    [0x4e, 0x45, 0x50, 0x53, 0x5e, 0x9d, 0xd2, 0xdd, 0x00, 0x00, 0x1a, 0x08, 0x41, 0x41, 0x50, 0x4c, 0x20, 0x00, 0x1e, 0x01, 0x1a, 0x18, 0x00, 0x06, 0x01, 0x13, 0x56, 0xfb, 0x54, 0x33, 0x64, 0xb1],
    [0x4e, 0x45, 0x50, 0x42, 0x5e, 0x9d, 0xd2, 0xea, 0x00, 0x00, 0x38, 0xa2, 0x53, 0x50, 0x58, 0x20, 0x20, 0x00, 0x0d, 0x02, 0x38, 0xa4, 0x00, 0x0c, 0x01, 0x17, 0x75, 0xb1, 0xbd, 0xa1, 0x3b, 0x97],
    [0x4e, 0x45, 0x43, 0x42, 0x5e, 0x9d, 0xd2, 0xf4, 0x00, 0x00, 0x1d, 0xc2, 0x46, 0x20, 0x20, 0x20, 0x20, 0x00, 0x17, 0x01, 0x1d, 0xc5, 0x00, 0x03, 0x01, 0x18, 0x1f, 0x76, 0x8c, 0x11, 0xba, 0x7e],
    [0x4e, 0x45, 0x43, 0x42, 0x5e, 0x9d, 0xd2, 0xfb, 0x00, 0x00, 0x23, 0x33, 0x59, 0x4d, 0x20, 0x20, 0x20, 0x00, 0x0c, 0x02, 0x23, 0x33, 0x00, 0x03, 0x01, 0x18, 0x8e, 0xee, 0x54, 0xf9, 0xb3, 0x5f],
    [0x4e, 0x45, 0x43, 0x42, 0x5e, 0x9d, 0xd2, 0xfe, 0x00, 0x00, 0x2c, 0x94, 0x4e, 0x46, 0x4c, 0x58, 0x20, 0x00, 0x04, 0x02, 0x2c, 0x95, 0x00, 0x0c, 0x01, 0x1b, 0x11, 0xca, 0x66, 0x5e, 0xb5, 0xe3],
    [0x4e, 0x45, 0x50, 0x42, 0x5e, 0x9d, 0xd3, 0x04, 0x00, 0x00, 0x02, 0xae, 0x53, 0x50, 0x59, 0x20, 0x20, 0x00, 0x18, 0x02, 0x02, 0xa2, 0x00, 0x05, 0x01, 0x1e, 0x52, 0x42, 0xbc, 0x14, 0x34, 0x2f],
    [0x42, 0x75, 0x43, 0x53, 0x5e, 0x9d, 0xd3, 0x0e, 0x00, 0x00, 0x0c, 0xa0, 0x45, 0x53, 0x20, 0x20, 0x20, 0x00, 0x1c, 0x02, 0x0c, 0xa3, 0x00, 0x07, 0x01, 0x22, 0x76, 0xbb, 0xf4, 0x79, 0x0e, 0xc0],
    [0x4e, 0x45, 0x43, 0x42, 0x5e, 0x9d, 0xd3, 0x16, 0x00, 0x00, 0x01, 0x69, 0x59, 0x4d, 0x20, 0x20, 0x20, 0x00, 0x03, 0x02, 0x01, 0x6d, 0x00, 0x05, 0x01, 0x22, 0xd6, 0xfb, 0x03, 0x89, 0x0f, 0x22],
    [0x4e, 0x45, 0x50, 0x42, 0x5e, 0x9d, 0xd3, 0x20, 0x00, 0x00, 0x0d, 0x39, 0x46, 0x20, 0x20, 0x20, 0x20, 0x00, 0x03, 0x01, 0x0d, 0x3f, 0x00, 0x03, 0x01, 0x25, 0x88, 0x89, 0x78, 0x09, 0x11, 0x29],
    [0x4e, 0x45, 0x43, 0x53, 0x5e, 0x9d, 0xd3, 0x2a, 0x00, 0x00, 0x00, 0x6c, 0x59, 0x4d, 0x20, 0x20, 0x20, 0x00, 0x17, 0x01, 0x00, 0x67, 0x00, 0x0d, 0x01, 0x28, 0xb9, 0xe7, 0x12, 0x56, 0xb9, 0x6e],
    [0x4e, 0x45, 0x43, 0x53, 0x5e, 0x9d, 0xd3, 0x2f, 0x00, 0x00, 0x00, 0xe1, 0x41, 0x41, 0x50, 0x4c, 0x20, 0x00, 0x04, 0x01, 0x00, 0xd2, 0x00, 0x06, 0x01, 0x29, 0xcd, 0xff, 0x61, 0x88, 0x67, 0x04],
    [0x4e, 0x45, 0x50, 0x42, 0x5e, 0x9d, 0xd3, 0x35, 0x00, 0x00, 0x27, 0x3b, 0x46, 0x20, 0x20, 0x20, 0x20, 0x00, 0x22, 0x01, 0x27, 0x47, 0x00, 0x04, 0x01, 0x2c, 0x16, 0xa0, 0xd9, 0x8a, 0x3a, 0x7e],
    [0x4e, 0x45, 0x43, 0x53, 0x5e, 0x9d, 0xd3, 0x3f, 0x00, 0x00, 0x33, 0x6c, 0x53, 0x50, 0x58, 0x20, 0x20, 0x00, 0x07, 0x02, 0x33, 0x5c, 0x00, 0x07, 0x01, 0x2f, 0x50, 0x30, 0x87, 0xfb, 0x47, 0x6e],
    [0x4e, 0x45, 0x50, 0x42, 0x5e, 0x9d, 0xd3, 0x45, 0x00, 0x00, 0x05, 0x19, 0x57, 0x54, 0x49, 0x20, 0x20, 0x00, 0x0e, 0x02, 0x05, 0x2d, 0x00, 0x06, 0x01, 0x30, 0xb1, 0xb3, 0xb1, 0xe8, 0xe7, 0xc5],
    [0x4e, 0x45, 0x43, 0x42, 0x5e, 0x9d, 0xd3, 0x51, 0x00, 0x00, 0x2b, 0x8e, 0x46, 0x20, 0x20, 0x20, 0x20, 0x00, 0x20, 0x02, 0x2b, 0x9a, 0x00, 0x04, 0x01, 0x36, 0x4e, 0xb1, 0xcc, 0xab, 0x67, 0xdf],
    [0x4e, 0x45, 0x43, 0x42, 0x5e, 0x9d, 0xd3, 0x54, 0x00, 0x00, 0x26, 0x38, 0x47, 0x4f, 0x4f, 0x47, 0x4c, 0x00, 0x20, 0x02, 0x26, 0x42, 0x00, 0x09, 0x01, 0x39, 0x76, 0xf7, 0x95, 0x8f, 0x81, 0x0b],
    [0x4e, 0x45, 0x43, 0x53, 0x5e, 0x9d, 0xd3, 0x59, 0x00, 0x00, 0x10, 0xc4, 0x53, 0x50, 0x59, 0x20, 0x20, 0x00, 0x1e, 0x02, 0x10, 0xbf, 0x00, 0x0d, 0x01, 0x3b, 0xac, 0xc3, 0xdb, 0x3f, 0xcd, 0x19],
    [0x4e, 0x45, 0x50, 0x53, 0x5e, 0x9d, 0xd3, 0x5f, 0x00, 0x00, 0x0e, 0x9e, 0x53, 0x50, 0x58, 0x20, 0x20, 0x00, 0x03, 0x01, 0x0e, 0xa8, 0x00, 0x08, 0x01, 0x3d, 0x79, 0x39, 0x12, 0x5a, 0x41, 0xfd],
    [0x4e, 0x45, 0x43, 0x42, 0x5e, 0x9d, 0xd3, 0x64, 0x00, 0x00, 0x17, 0x0c, 0x41, 0x41, 0x50, 0x4c, 0x20, 0x00, 0x1c, 0x02, 0x17, 0x15, 0x00, 0x05, 0x01, 0x3f, 0xa8, 0x32, 0x9e, 0x68, 0xc5, 0x6d],
    [0x4e, 0x45, 0x43, 0x42, 0x5e, 0x9d, 0xd3, 0x67, 0x00, 0x00, 0x2a, 0x6b, 0x45, 0x53, 0x20, 0x20, 0x20, 0x00, 0x19, 0x01, 0x2a, 0x78, 0x00, 0x09, 0x01, 0x42, 0xb2, 0x27, 0xdd, 0x98, 0xb0, 0x47],
    [0x4e, 0x45, 0x50, 0x53, 0x5e, 0x9d, 0xd3, 0x70, 0x00, 0x00, 0x2b, 0xba, 0x53, 0x50, 0x59, 0x20, 0x20, 0x00, 0x19, 0x02, 0x2b, 0xbb, 0x00, 0x0a, 0x01, 0x45, 0xaf, 0x10, 0x9a, 0xb2, 0x87, 0xd5],
    [0x4e, 0x45, 0x43, 0x53, 0x5e, 0x9d, 0xd3, 0x74, 0x00, 0x00, 0x25, 0x12, 0x53, 0x50, 0x59, 0x20, 0x20, 0x00, 0x1c, 0x01, 0x25, 0x04, 0x00, 0x05, 0x01, 0x47, 0xbb, 0x16, 0x4e, 0x9f, 0x56, 0x74],
    [0x4e, 0x45, 0x43, 0x53, 0x5e, 0x9d, 0xd3, 0x78, 0x00, 0x00, 0x19, 0xd5, 0x59, 0x4d, 0x20, 0x20, 0x20, 0x00, 0x13, 0x01, 0x19, 0xd1, 0x00, 0x04, 0x01, 0x48, 0x59, 0x2f, 0xaa, 0x75, 0xf4, 0xf2],
    [0x4e, 0x45, 0x50, 0x53, 0x5e, 0x9d, 0xd3, 0x7f, 0x00, 0x00, 0x17, 0xa6, 0x46, 0x20, 0x20, 0x20, 0x20, 0x00, 0x14, 0x01, 0x17, 0xa4, 0x00, 0x02, 0x01, 0x48, 0xfd, 0x13, 0xd2, 0x4f, 0x6f, 0x22],
    [0x4e, 0x45, 0x43, 0x53, 0x5e, 0x9d, 0xd3, 0x85, 0x00, 0x00, 0x1b, 0x6c, 0x53, 0x50, 0x58, 0x20, 0x20, 0x00, 0x06, 0x02, 0x1b, 0x67, 0x00, 0x07, 0x01, 0x4a, 0x91, 0xe1, 0x1e, 0x3b, 0xc9, 0xf6],
    [0x4e, 0x45, 0x50, 0x53, 0x5e, 0x9d, 0xd3, 0x8d, 0x00, 0x00, 0x33, 0x99, 0x53, 0x50, 0x59, 0x20, 0x20, 0x00, 0x23, 0x01, 0x33, 0xaa, 0x00, 0x04, 0x01, 0x4c, 0xa5, 0xce, 0xb6, 0x3c, 0xac, 0x1b],
    [0x4e, 0x45, 0x50, 0x42, 0x5e, 0x9d, 0xd3, 0x90, 0x00, 0x00, 0x2b, 0x7b, 0x57, 0x54, 0x49, 0x20, 0x20, 0x00, 0x0f, 0x02, 0x2b, 0x8b, 0x00, 0x0a, 0x01, 0x4e, 0x36, 0xeb, 0x03, 0xef, 0x69, 0x4f],
    [0x53, 0x79, 0x50, 0x53, 0x5e, 0x9d, 0xd3, 0x95, 0x00, 0x00, 0x1b, 0x1f, 0x57, 0x54, 0x49, 0x20, 0x20, 0x00, 0x08, 0x02, 0x1b, 0x20, 0x00, 0x0b, 0x01, 0x4f, 0xdc, 0x61, 0x05, 0xb7, 0xad, 0x82],
    [0x4e, 0x45, 0x50, 0x42, 0x5e, 0x9d, 0xd3, 0x9f, 0x00, 0x00, 0x39, 0x1a, 0x47, 0x4f, 0x4f, 0x47, 0x4c, 0x00, 0x03, 0x01, 0x39, 0x1b, 0x00, 0x02, 0x01, 0x51, 0xcf, 0xd3, 0x2e, 0x28, 0x06, 0x04],
    [0x4e, 0x45, 0x43, 0x53, 0x5e, 0x9d, 0xd3, 0xb3, 0x00, 0x00, 0x2b, 0xe0, 0x57, 0x54, 0x49, 0x20, 0x20, 0x00, 0x0b, 0x01, 0x2b, 0xd4, 0x00, 0x07, 0x01, 0x57, 0x3d, 0x7a, 0x7a, 0xdb, 0xf8, 0x59],
    [0x4e, 0x45, 0x50, 0x53, 0x5e, 0x9d, 0xd3, 0xbc, 0x00, 0x00, 0x33, 0xd7, 0x59, 0x4d, 0x20, 0x20, 0x20, 0x00, 0x13, 0x02, 0x33, 0xc8, 0x00, 0x05, 0x01, 0x5a, 0x2c, 0x55, 0xf0, 0xa6, 0xc9, 0x60],
    [0x4e, 0x45, 0x50, 0x53, 0x5e, 0x9d, 0xd3, 0xc1, 0x00, 0x00, 0x23, 0x6b, 0x41, 0x41, 0x50, 0x4c, 0x20, 0x00, 0x20, 0x01, 0x23, 0x7e, 0x00, 0x02, 0x01, 0x5b, 0xfd, 0x40, 0xfe, 0x98, 0xc6, 0x31],
    [0x4e, 0x45, 0x43, 0x53, 0x5e, 0x9d, 0xd3, 0xc5, 0x00, 0x00, 0x18, 0x32, 0x46, 0x20, 0x20, 0x20, 0x20, 0x00, 0x17, 0x02, 0x18, 0x39, 0x00, 0x07, 0x01, 0x5d, 0xc7, 0xfd, 0x09, 0x83, 0x1a, 0x48],
    [0x4e, 0x45, 0x50, 0x42, 0x5e, 0x9d, 0xd3, 0xcf, 0x00, 0x00, 0x11, 0x4a, 0x53, 0x50, 0x58, 0x20, 0x20, 0x00, 0x13, 0x02, 0x11, 0x42, 0x00, 0x0a, 0x01, 0x5e, 0x90, 0x8e, 0x5e, 0xdb, 0xcb, 0xb1],
    [0x4e, 0x45, 0x43, 0x53, 0x5e, 0x9d, 0xd3, 0xd9, 0x00, 0x00, 0x02, 0x22, 0x41, 0x41, 0x50, 0x4c, 0x20, 0x00, 0x03, 0x01, 0x02, 0x21, 0x00, 0x08, 0x01, 0x5f, 0xa1, 0xf4, 0x2e, 0x2b, 0xd0, 0x50],
    [0x57, 0x77, 0x43, 0x53, 0x5e, 0x9d, 0xd3, 0xde, 0x00, 0x00, 0x33, 0x7c, 0x57, 0x54, 0x49, 0x20, 0x20, 0x00, 0x22, 0x02, 0x33, 0x7c, 0x00, 0x07, 0x01, 0x60, 0x53, 0xfc, 0x7f, 0x2d, 0xdd, 0x0d],
    [0x4e, 0x45, 0x50, 0x53, 0x5e, 0x9d, 0xd3, 0xe8, 0x00, 0x00, 0x36, 0x89, 0x4e, 0x46, 0x4c, 0x58, 0x20, 0x00, 0x0f, 0x02, 0x36, 0x90, 0x00, 0x03, 0x01, 0x62, 0x4f, 0x1d, 0xe3, 0xee, 0x08, 0xe5],
    [0x4e, 0x45, 0x50, 0x42, 0x5e, 0x9d, 0xd3, 0xec, 0x00, 0x00, 0x11, 0x93, 0x41, 0x41, 0x50, 0x4c, 0x20, 0x00, 0x1e, 0x02, 0x11, 0xa6, 0x00, 0x0a, 0x01, 0x64, 0x0c, 0xf9, 0xaa, 0x5d, 0xb7, 0xee],
    [0x4e, 0x45, 0x50, 0x42, 0x5e, 0x9d, 0xd3, 0xf3, 0x00, 0x00, 0x1b, 0x23, 0x47, 0x4f, 0x4f, 0x47, 0x4c, 0x00, 0x10, 0x02, 0x1b, 0x17, 0x00, 0x06, 0x01, 0x66, 0xf6, 0x34, 0x67, 0x10, 0xf3, 0x88],
    [0x4e, 0x45, 0x43, 0x42, 0x5e, 0x9d, 0xd3, 0xfd, 0x00, 0x00, 0x05, 0x4d, 0x45, 0x53, 0x20, 0x20, 0x20, 0x00, 0x05, 0x02, 0x05, 0x4d, 0x00, 0x0b, 0x01, 0x6b, 0x0e, 0x59, 0x6f, 0x2b, 0x47, 0x95],
    [0x4e, 0x45, 0x50, 0x53, 0x5e, 0x9d, 0xd4, 0x01, 0x00, 0x00, 0x2b, 0x8b, 0x46, 0x20, 0x20, 0x20, 0x20, 0x00, 0x18, 0x02, 0x2b, 0x82, 0x00, 0x06, 0x01, 0x6d, 0x07, 0xc8, 0xfd, 0xd6, 0xda, 0x6f],
    [0x4e, 0x45, 0x50, 0x42, 0x5e, 0x9d, 0xd4, 0x05, 0x00, 0x00, 0x21, 0x03, 0x47, 0x4f, 0x4f, 0x47, 0x4c, 0x00, 0x13, 0x02, 0x20, 0xfa, 0x00, 0x06, 0x01, 0x6d, 0xbb, 0x41, 0x63, 0xea, 0x78, 0xed],
    [0x4e, 0x45, 0x43, 0x42, 0x5e, 0x9d, 0xd4, 0x0f, 0x00, 0x00, 0x39, 0xff, 0x59, 0x4d, 0x20, 0x20, 0x20, 0x00, 0x09, 0x01, 0x39, 0xfb, 0x00, 0x03, 0x01, 0x70, 0xc6, 0xb4, 0x76, 0x97, 0x91, 0xc5],
    [0x4e, 0x45, 0x43, 0x53, 0x5e, 0x9d, 0xd4, 0x19, 0x00, 0x00, 0x2c, 0x52, 0x41, 0x41, 0x50, 0x4c, 0x20, 0x00, 0x23, 0x02, 0x2c, 0x3e, 0x00, 0x03, 0x01, 0x72, 0xf4, 0x1e, 0x21, 0x78, 0xb8, 0x71],
    [0x4e, 0x45, 0x50, 0x53, 0x5e, 0x9d, 0xd4, 0x28, 0x00, 0x00, 0x14, 0x47, 0x53, 0x50, 0x58, 0x20, 0x20, 0x00, 0x0f, 0x02, 0x14, 0x3d, 0x00, 0x0b, 0x01, 0x75, 0x8e, 0x19, 0xc4, 0xc0, 0xdf, 0xa6],
    [0x4e, 0x45, 0x43, 0x53, 0x5e, 0x9d, 0xd4, 0x2f, 0x00, 0x00, 0x30, 0xe5, 0x45, 0x53, 0x20, 0x20, 0x20, 0x00, 0x04, 0x02, 0x30, 0xde, 0x00, 0x0d, 0x01, 0x77, 0x11, 0x38, 0xea, 0xa8, 0xb4, 0x38],
    [0x4e, 0x45, 0x50, 0x42, 0x5e, 0x9d, 0xd4, 0x39, 0x00, 0x00, 0x31, 0x82, 0x53, 0x50, 0x59, 0x20, 0x20, 0x00, 0x07, 0x01, 0x31, 0x7d, 0x00, 0x03, 0x01, 0x79, 0x5d, 0x89, 0x0c, 0x43, 0x9f, 0xd0],
    [0x4e, 0x45, 0x43, 0x53, 0x5e, 0x9d, 0xd4, 0x43, 0x00, 0x00, 0x0c, 0x3c, 0x53, 0x50, 0x59, 0x20, 0x20, 0x00, 0x11, 0x01, 0x0c, 0x28, 0x00, 0x06, 0x01, 0x79, 0xc7, 0x5c, 0x78, 0xe3, 0xc7, 0x33],
    [0x55, 0x79, 0x43, 0x53, 0x5e, 0x9d, 0xd4, 0x48, 0x00, 0x00, 0x12, 0x83, 0x53, 0x50, 0x59, 0x20, 0x20, 0x00, 0x16, 0x02, 0x12, 0x72, 0x00, 0x02, 0x01, 0x7a, 0xc4, 0x25, 0x7b, 0x8d, 0xfb, 0xf7],
    [0x4e, 0x45, 0x50, 0x42, 0x5e, 0x9d, 0xd4, 0x52, 0x00, 0x00, 0x16, 0x93, 0x45, 0x53, 0x20, 0x20, 0x20, 0x00, 0x04, 0x01, 0x16, 0xa0, 0x00, 0x0a, 0x01, 0x7b, 0xd7, 0x70, 0xa7, 0x8b, 0x10, 0x78],
    [0x4e, 0x45, 0x43, 0x42, 0x5e, 0x9d, 0xd4, 0x5c, 0x00, 0x00, 0x37, 0x6d, 0x53, 0x50, 0x59, 0x20, 0x20, 0x00, 0x1c, 0x01, 0x37, 0x6e, 0x00, 0x08, 0x01, 0x7d, 0xde, 0x32, 0xe1, 0x51, 0x8e, 0x3d],
    [0x4e, 0x45, 0x43, 0x53, 0x5e, 0x9d, 0xd4, 0x66, 0x00, 0x00, 0x1d, 0x42, 0x57, 0x54, 0x49, 0x20, 0x20, 0x00, 0x1a, 0x01, 0x1d, 0x43, 0x00, 0x08, 0x01, 0x7e, 0xf0, 0x38, 0x13, 0xf6, 0x19, 0x45],
    [0x4e, 0x45, 0x50, 0x42, 0x5e, 0x9d, 0xd4, 0x70, 0x00, 0x00, 0x39, 0x9e, 0x53, 0x50, 0x59, 0x20, 0x20, 0x00, 0x05, 0x02, 0x39, 0x9b, 0x00, 0x08, 0x01, 0x81, 0x84, 0x8f, 0x2c, 0x81, 0xa3, 0x54],
    [0x4e, 0x45, 0x43, 0x42, 0x5e, 0x9d, 0xd4, 0x74, 0x00, 0x00, 0x24, 0xce, 0x45, 0x53, 0x20, 0x20, 0x20, 0x00, 0x15, 0x02, 0x24, 0xd0, 0x00, 0x0d, 0x01, 0x82, 0xcb, 0xbf, 0xba, 0x57, 0x89, 0x74],
    [0x4e, 0x45, 0x43, 0x53, 0x5e, 0x9d, 0xd4, 0x78, 0x00, 0x00, 0x15, 0xa0, 0x53, 0x50, 0x58, 0x20, 0x20, 0x00, 0x1f, 0x02, 0x15, 0xae, 0x00, 0x04, 0x01, 0x84, 0x41, 0x20, 0xc1, 0x97, 0xc8, 0x4b],
    [0x4e, 0x45, 0x43, 0x42, 0x5e, 0x9d, 0xd4, 0x7d, 0x00, 0x00, 0x1e, 0x82, 0x41, 0x41, 0x50, 0x4c, 0x20, 0x00, 0x04, 0x01, 0x1e, 0x86, 0x00, 0x0c, 0x01, 0x87, 0x75, 0x0a, 0x93, 0x1b, 0x81, 0xf7],
    [0x4e, 0x45, 0x50, 0x53, 0x5e, 0x9d, 0xd4, 0x80, 0x00, 0x00, 0x18, 0x0b, 0x45, 0x53, 0x20, 0x20, 0x20, 0x00, 0x09, 0x02, 0x18, 0x04, 0x00, 0x08, 0x01, 0x8a, 0xf8, 0xf6, 0x18, 0x25, 0x71, 0x8e],
    [0x4e, 0x45, 0x43, 0x42, 0x5e, 0x9d, 0xd4, 0x87, 0x00, 0x00, 0x14, 0x87, 0x57, 0x54, 0x49, 0x20, 0x20, 0x00, 0x20, 0x01, 0x14, 0x73, 0x00, 0x03, 0x01, 0x8d, 0x5b, 0x92, 0xc3, 0x90, 0xd0, 0x9f],
    [0x4e, 0x45, 0x43, 0x42, 0x5e, 0x9d, 0xd4, 0x91, 0x00, 0x00, 0x1c, 0xaa, 0x41, 0x41, 0x50, 0x4c, 0x20, 0x00, 0x22, 0x01, 0x1c, 0xbb, 0x00, 0x08, 0x01, 0x8e, 0x52, 0x47, 0x24, 0x0a, 0x57, 0xce],
    [0x4e, 0x45, 0x43, 0x53, 0x5e, 0x9d, 0xd4, 0x98, 0x00, 0x00, 0x2a, 0x62, 0x59, 0x4d, 0x20, 0x20, 0x20, 0x00, 0x08, 0x02, 0x2a, 0x65, 0x00, 0x04, 0x01, 0x91, 0x08, 0x93, 0x24, 0x18, 0xff, 0xfe],
    [0x4e, 0x45, 0x43, 0x42, 0x5e, 0x9d, 0xd4, 0xa2, 0x00, 0x00, 0x0d, 0xa8, 0x57, 0x54, 0x49, 0x20, 0x20, 0x00, 0x1e, 0x02, 0x0d, 0xb2, 0x00, 0x02, 0x01, 0x91, 0xed, 0x1d, 0x3a, 0xf6, 0x6a, 0x26],
    [0x4e, 0x45, 0x50, 0x42, 0x5e, 0x9d, 0xd4, 0xab, 0x00, 0x00, 0x0a, 0x92, 0x4e, 0x46, 0x4c, 0x58, 0x20, 0x00, 0x1d, 0x01, 0x0a, 0x99, 0x00, 0x0d, 0x01, 0x93, 0x40, 0xfd, 0x28, 0x56, 0x7d, 0xc3],
    [0x4e, 0x45, 0x50, 0x42, 0x5e, 0x9d, 0xd4, 0xb4, 0x00, 0x00, 0x1e, 0x2d, 0x57, 0x54, 0x49, 0x20, 0x20, 0x00, 0x13, 0x02, 0x1e, 0x1d, 0x00, 0x03, 0x01, 0x94, 0x74, 0x30, 0x0e, 0x48, 0xb2, 0xb4],
    [0x4e, 0x45, 0x43, 0x42, 0x5e, 0x9d, 0xd4, 0xba, 0x00, 0x00, 0x23, 0xd1, 0x53, 0x50, 0x58, 0x20, 0x20, 0x00, 0x1f, 0x02, 0x23, 0xcb, 0x00, 0x05, 0x01, 0x97, 0x8e, 0xa7, 0x21, 0x9b, 0xf9, 0xf2],
    [0x4e, 0x45, 0x43, 0x42, 0x5e, 0x9d, 0xd4, 0xc3, 0x00, 0x00, 0x30, 0x28, 0x59, 0x4d, 0x20, 0x20, 0x20, 0x00, 0x1c, 0x01, 0x30, 0x2a, 0x00, 0x0d, 0x01, 0x9a, 0xb1, 0x00, 0x05, 0xff, 0xc6, 0x37],
    [0x4e, 0x45, 0x43, 0x42, 0x5e, 0x9d, 0xd4, 0xca, 0x00, 0x00, 0x17, 0x80, 0x59, 0x4d, 0x20, 0x20, 0x20, 0x00, 0x14, 0x02, 0x17, 0x94, 0x00, 0x05, 0x01, 0x9c, 0x0f, 0xde, 0x04, 0xbe, 0xb6, 0x1f],
    [0x4e, 0x45, 0x43, 0x42, 0x5e, 0x9d, 0xd4, 0xd4, 0x00, 0x00, 0x1c, 0xcc, 0x46, 0x20, 0x20, 0x20, 0x20, 0x00, 0x10, 0x02, 0x1c, 0xd1, 0x00, 0x03, 0x01, 0x9e, 0x2f, 0x96, 0xae, 0xdb, 0xec, 0x0c],
    [0x4e, 0x45, 0x43, 0x53, 0x5e, 0x9d, 0xd4, 0xdb, 0x00, 0x00, 0x0c, 0x01, 0x53, 0x50, 0x59, 0x20, 0x20, 0x00, 0x1c, 0x02, 0x0c, 0x0a, 0x00, 0x02, 0x01, 0x9e, 0x90, 0xb0, 0x67, 0xfc, 0x38, 0x41],
    [0x4e, 0x45, 0x50, 0x42, 0x5e, 0x9d, 0xd4, 0xe4, 0x00, 0x00, 0x0a, 0xea, 0x46, 0x20, 0x20, 0x20, 0x20, 0x00, 0x13, 0x02, 0x0a, 0xe6, 0x00, 0x08, 0x01, 0xa0, 0x16, 0x22, 0xac, 0x7a, 0x9c, 0x14],
    [0x4e, 0x45, 0x43, 0x42, 0x5e, 0x9d, 0xd4, 0xe7, 0x00, 0x00, 0x2f, 0xf9, 0x41, 0x41, 0x50, 0x4c, 0x20, 0x00, 0x06, 0x01, 0x2f, 0xf9, 0x00, 0x02, 0x01, 0xa0, 0xe1, 0x7a, 0x48, 0x83, 0xd3, 0x2c],
    [0x4e, 0x45, 0x50, 0x42, 0x5e, 0x9d, 0xd4, 0xed, 0x00, 0x00, 0x02, 0xdb, 0x59, 0x4d, 0x20, 0x20, 0x20, 0x00, 0x0f, 0x01, 0x02, 0xd3, 0x00, 0x04, 0x01, 0xa1, 0x75, 0x8a, 0x1e, 0x3c, 0x3a, 0x71]]"

definition raw_rows_2 :: "u8 list list" where
  "raw_rows_2 = [
    [0x4e, 0x45, 0x50, 0x53, 0x5e, 0x9d, 0xd4, 0xf0, 0x00, 0x00, 0x2f, 0x3b, 0x57, 0x54, 0x49, 0x20, 0x20, 0x00, 0x05, 0x02, 0x2f, 0x29, 0x00, 0x08, 0x01, 0xa2, 0xf5, 0x58, 0x16, 0xf5, 0x7a, 0x8d],
    [0x4e, 0x45, 0x50, 0x53, 0x5e, 0x9d, 0xd4, 0xf5, 0x00, 0x00, 0x08, 0xee, 0x47, 0x4f, 0x4f, 0x47, 0x4c, 0x00, 0x03, 0x01, 0x08, 0xf4, 0x00, 0x06, 0x01, 0xa4, 0x38, 0x15, 0x19, 0xc7, 0x3d, 0x87],
    [0x4e, 0x45, 0x50, 0x42, 0x5e, 0x9d, 0xd4, 0xf9, 0x00, 0x00, 0x05, 0x8e, 0x59, 0x4d, 0x20, 0x20, 0x20, 0x00, 0x23, 0x02, 0x05, 0x86, 0x00, 0x08, 0x01, 0xa5, 0x78, 0xe8, 0x80, 0x86, 0x8d, 0x55],
    [0x4e, 0x45, 0x43, 0x42, 0x5e, 0x9d, 0xd5, 0x02, 0x00, 0x00, 0x11, 0xec, 0x4e, 0x46, 0x4c, 0x58, 0x20, 0x00, 0x06, 0x02, 0x11, 0xde, 0x00, 0x09, 0x01, 0xa5, 0xe3, 0x77, 0xb2, 0xd8, 0xb3, 0x1b],
    [0x4e, 0x45, 0x43, 0x42, 0x5e, 0x9d, 0xd5, 0x07, 0x00, 0x00, 0x24, 0x2d, 0x47, 0x4f, 0x4f, 0x47, 0x4c, 0x00, 0x17, 0x01, 0x24, 0x2c, 0x00, 0x04, 0x01, 0xa8, 0x8d, 0xfa, 0x2d, 0x6d, 0x31, 0xbb],
    [0x4e, 0x45, 0x50, 0x42, 0x5e, 0x9d, 0xd5, 0x0c, 0x00, 0x00, 0x2d, 0xe8, 0x59, 0x4d, 0x20, 0x20, 0x20, 0x00, 0x14, 0x02, 0x2d, 0xf0, 0x00, 0x0d, 0x01, 0xab, 0x7e, 0xdd, 0x7e, 0x7d, 0x12, 0x23],
    [0x4e, 0x45, 0x50, 0x53, 0x5e, 0x9d, 0xd5, 0x10, 0x00, 0x00, 0x1b, 0x04, 0x57, 0x54, 0x49, 0x20, 0x20, 0x00, 0x1a, 0x02, 0x1a, 0xf1, 0x00, 0x09, 0x01, 0xad, 0xb6, 0x5d, 0x23, 0xea, 0x98, 0xfd],
    [0x4e, 0x45, 0x43, 0x42, 0x5e, 0x9d, 0xd5, 0x1c, 0x00, 0x00, 0x14, 0xdf, 0x45, 0x53, 0x20, 0x20, 0x20, 0x00, 0x13, 0x02, 0x14, 0xec, 0x00, 0x08, 0x01, 0xb0, 0xc9, 0xc1, 0xa0, 0x79, 0x72, 0xd2],
    [0x4e, 0x45, 0x43, 0x42, 0x5e, 0x9d, 0xd5, 0x1f, 0x00, 0x00, 0x23, 0x09, 0x4e, 0x46, 0x4c, 0x58, 0x20, 0x00, 0x09, 0x01, 0x23, 0x05, 0x00, 0x0a, 0x01, 0xb2, 0x74, 0x44, 0xa1, 0x92, 0x77, 0x56],
    [0x4e, 0x45, 0x50, 0x53, 0x5e, 0x9d, 0xd5, 0x29, 0x00, 0x00, 0x02, 0x76, 0x53, 0x50, 0x58, 0x20, 0x20, 0x00, 0x0a, 0x02, 0x02, 0x72, 0x00, 0x07, 0x01, 0xb2, 0xe6, 0xa8, 0x56, 0xe2, 0x82, 0x2f],
    [0x4e, 0x45, 0x50, 0x42, 0x5e, 0x9d, 0xd5, 0x33, 0x00, 0x00, 0x0f, 0xfa, 0x4e, 0x46, 0x4c, 0x58, 0x20, 0x00, 0x1c, 0x02, 0x0f, 0xf2, 0x00, 0x07, 0x01, 0xb5, 0x8b, 0x35, 0xc4, 0x01, 0xe2, 0xff],
    [0x4e, 0x45, 0x43, 0x42, 0x5e, 0x9d, 0xd5, 0x38, 0x00, 0x00, 0x13, 0x92, 0x47, 0x4f, 0x4f, 0x47, 0x4c, 0x00, 0x20, 0x02, 0x13, 0x91, 0x00, 0x04, 0x01, 0xb7, 0x83, 0x34, 0x3f, 0x61, 0x64, 0x28],
    [0x4e, 0x45, 0x50, 0x42, 0x5e, 0x9d, 0xd5, 0x44, 0x00, 0x00, 0x1f, 0xb5, 0x53, 0x50, 0x59, 0x20, 0x20, 0x00, 0x06, 0x02, 0x1f, 0xbb, 0x00, 0x0a, 0x01, 0xbc, 0x74, 0xfe, 0x94, 0x60, 0x7f, 0xda],
    [0x4e, 0x45, 0x50, 0x53, 0x5e, 0x9d, 0xd5, 0x48, 0x00, 0x00, 0x00, 0xbf, 0x41, 0x41, 0x50, 0x4c, 0x20, 0x00, 0x18, 0x01, 0x00, 0xc8, 0x00, 0x0a, 0x01, 0xbe, 0xa4, 0xac, 0xd9, 0xcc, 0x45, 0x11],
    [0x4e, 0x45, 0x50, 0x42, 0x5e, 0x9d, 0xd5, 0x4b, 0x00, 0x00, 0x32, 0xb4, 0x45, 0x53, 0x20, 0x20, 0x20, 0x00, 0x13, 0x01, 0x32, 0xb6, 0x00, 0x05, 0x01, 0xc1, 0x07, 0xa7, 0xfc, 0x4f, 0xf0, 0x63],
    [0x4e, 0x45, 0x43, 0x42, 0x5e, 0x9d, 0xd5, 0x53, 0x00, 0x00, 0x35, 0x9c, 0x4e, 0x46, 0x4c, 0x58, 0x20, 0x00, 0x11, 0x01, 0x35, 0xa0, 0x00, 0x0d, 0x01, 0xc1, 0x72, 0xc3, 0xad, 0xe9, 0xd8, 0xdc],
    [0x4e, 0x45, 0x43, 0x53, 0x5e, 0x9d, 0xd5, 0x57, 0x00, 0x00, 0x04, 0xab, 0x4e, 0x46, 0x4c, 0x58, 0x20, 0x00, 0x09, 0x02, 0x04, 0xb9, 0x00, 0x08, 0x01, 0xc2, 0x65, 0xe2, 0x3f, 0x9a, 0xb1, 0x6b],
    [0x4e, 0x45, 0x50, 0x53, 0x5e, 0x9d, 0xd5, 0x61, 0x00, 0x00, 0x18, 0xc5, 0x47, 0x4f, 0x4f, 0x47, 0x4c, 0x00, 0x13, 0x01, 0x18, 0xb2, 0x00, 0x03, 0x01, 0xc4, 0x48, 0x54, 0x06, 0x04, 0xf3, 0xa3],
    [0x4e, 0x45, 0x43, 0x53, 0x5e, 0x9d, 0xd5, 0x69, 0x00, 0x00, 0x0f, 0x5a, 0x47, 0x4f, 0x4f, 0x47, 0x4c, 0x00, 0x1b, 0x01, 0x0f, 0x69, 0x00, 0x08, 0x01, 0xc5, 0xa8, 0x0d, 0x49, 0x61, 0xce, 0xa8],
    [0x4e, 0x45, 0x50, 0x42, 0x5e, 0x9d, 0xd5, 0x6c, 0x00, 0x00, 0x29, 0x68, 0x59, 0x4d, 0x20, 0x20, 0x20, 0x00, 0x06, 0x02, 0x29, 0x6d, 0x00, 0x0b, 0x01, 0xc6, 0x52, 0xb0, 0xdd, 0xe4, 0x49, 0x17],
    [0x4e, 0x45, 0x43, 0x53, 0x5e, 0x9d, 0xd5, 0x6f, 0x00, 0x00, 0x18, 0xa8, 0x4e, 0x46, 0x4c, 0x58, 0x20, 0x00, 0x06, 0x02, 0x18, 0xaf, 0x00, 0x0b, 0x01, 0xc6, 0xcf, 0xd7, 0x57, 0xee, 0x40, 0xcd],
    [0x4e, 0x45, 0x43, 0x42, 0x5e, 0x9d, 0xd5, 0x77, 0x00, 0x00, 0x31, 0x9f, 0x53, 0x50, 0x58, 0x20, 0x20, 0x00, 0x19, 0x01, 0x31, 0x98, 0x00, 0x0a, 0x01, 0xc9, 0x7c, 0xe9, 0x28, 0x5a, 0xe0, 0xbe],
    [0x4e, 0x45, 0x43, 0x42, 0x5e, 0x9d, 0xd5, 0x81, 0x00, 0x00, 0x34, 0x84, 0x53, 0x50, 0x59, 0x20, 0x20, 0x00, 0x06, 0x02, 0x34, 0x90, 0x00, 0x03, 0x01, 0xcc, 0x0b, 0x85, 0x04, 0xd6, 0x17, 0x93],
    [0x4e, 0x45, 0x50, 0x42, 0x5e, 0x9d, 0xd5, 0x8b, 0x00, 0x00, 0x23, 0x89, 0x4e, 0x46, 0x4c, 0x58, 0x20, 0x00, 0x15, 0x01, 0x23, 0x83, 0x00, 0x0a, 0x01, 0xcd, 0xc2, 0xa8, 0x15, 0x35, 0x9e, 0x70],
    [0x4e, 0x45, 0x43, 0x53, 0x5e, 0x9d, 0xd5, 0x92, 0x00, 0x00, 0x03, 0xe6, 0x53, 0x50, 0x59, 0x20, 0x20, 0x00, 0x06, 0x01, 0x03, 0xf3, 0x00, 0x07, 0x01, 0xcf, 0x4d, 0x38, 0xdc, 0x16, 0x79, 0x50],
    [0x4e, 0x45, 0x50, 0x53, 0x5e, 0x9d, 0xd5, 0x9f, 0x00, 0x00, 0x2d, 0xa9, 0x59, 0x4d, 0x20, 0x20, 0x20, 0x00, 0x1d, 0x02, 0x2d, 0xa0, 0x00, 0x0a, 0x01, 0xd4, 0xff, 0x0e, 0x9e, 0x1d, 0xe3, 0x2f],
    [0x4e, 0x45, 0x50, 0x53, 0x5e, 0x9d, 0xd5, 0xa6, 0x00, 0x00, 0x01, 0xc9, 0x53, 0x50, 0x58, 0x20, 0x20, 0x00, 0x1d, 0x01, 0x01, 0xcc, 0x00, 0x09, 0x01, 0xd7, 0x2a, 0x0e, 0xa4, 0x2c, 0xee, 0x6f],
    [0x4e, 0x45, 0x43, 0x53, 0x5e, 0x9d, 0xd5, 0xad, 0x00, 0x00, 0x0b, 0x07, 0x53, 0x50, 0x58, 0x20, 0x20, 0x00, 0x12, 0x01, 0x0b, 0x1a, 0x00, 0x02, 0x01, 0xd9, 0xbb, 0xbf, 0xf3, 0x91, 0x1c, 0xdb],
    [0x4d, 0x68, 0x50, 0x42, 0x5e, 0x9d, 0xd5, 0xb6, 0x00, 0x00, 0x04, 0x84, 0x4e, 0x46, 0x4c, 0x58, 0x20, 0x00, 0x19, 0x02, 0x04, 0x7d, 0x00, 0x0b, 0x01, 0xde, 0xb9, 0x49, 0xa5, 0xc1, 0x4f, 0x4b],
    [0x4e, 0x45, 0x43, 0x42, 0x5e, 0x9d, 0xd5, 0xbb, 0x00, 0x00, 0x05, 0x02, 0x41, 0x41, 0x50, 0x4c, 0x20, 0x00, 0x12, 0x02, 0x05, 0x0a, 0x00, 0x0b, 0x01, 0xe0, 0x6f, 0x14, 0x93, 0xeb, 0x9c, 0x6a],
    [0x4e, 0x45, 0x43, 0x42, 0x5e, 0x9d, 0xd5, 0xc0, 0x00, 0x00, 0x28, 0x74, 0x53, 0x50, 0x58, 0x20, 0x20, 0x00, 0x0f, 0x01, 0x28, 0x80, 0x00, 0x09, 0x01, 0xe2, 0xd3, 0x94, 0x1d, 0x0e, 0xe0, 0xcc],
    [0x4e, 0x45, 0x50, 0x42, 0x5e, 0x9d, 0xd5, 0xc9, 0x00, 0x00, 0x2f, 0xf1, 0x53, 0x50, 0x58, 0x20, 0x20, 0x00, 0x0f, 0x02, 0x2f, 0xfc, 0x00, 0x0d, 0x01, 0xe6, 0x4d, 0x6b, 0x5a, 0x7c, 0xb3, 0x37],
    [0x4e, 0x45, 0x43, 0x42, 0x5e, 0x9d, 0xd5, 0xd4, 0x00, 0x00, 0x1f, 0xd5, 0x53, 0x50, 0x59, 0x20, 0x20, 0x00, 0x18, 0x01, 0x1f, 0xdd, 0x00, 0x06, 0x01, 0xea, 0xb3, 0x5c, 0x18, 0x8b, 0x5c, 0xfa],
    [0x4e, 0x45, 0x50, 0x53, 0x5e, 0x9d, 0xd5, 0xd7, 0x00, 0x00, 0x14, 0xfe, 0x4e, 0x46, 0x4c, 0x58, 0x20, 0x00, 0x03, 0x02, 0x14, 0xff, 0x00, 0x02, 0x01, 0xec, 0x92, 0x47, 0x6c, 0xb5, 0x33, 0xb2],
    [0x4e, 0x45, 0x43, 0x53, 0x5e, 0x9d, 0xd5, 0xdd, 0x00, 0x00, 0x17, 0xde, 0x47, 0x4f, 0x4f, 0x47, 0x4c, 0x00, 0x1b, 0x02, 0x17, 0xd4, 0x00, 0x08, 0x01, 0xef, 0x22, 0xcd, 0xf2, 0x62, 0x80, 0x25],
    [0x4e, 0x45, 0x50, 0x53, 0x5e, 0x9d, 0xd5, 0xe6, 0x00, 0x00, 0x24, 0xa7, 0x4e, 0x46, 0x4c, 0x58, 0x20, 0x00, 0x10, 0x02, 0x24, 0xa2, 0x00, 0x03, 0x01, 0xef, 0xc3, 0x77, 0xb6, 0x33, 0x88, 0xff],
    [0x4e, 0x45, 0x50, 0x42, 0x5e, 0x9d, 0xd5, 0xe9, 0x00, 0x00, 0x31, 0x41, 0x47, 0x4f, 0x4f, 0x47, 0x4c, 0x00, 0x0e, 0x02, 0x31, 0x41, 0x00, 0x07, 0x01, 0xf2, 0x96, 0xb9, 0x8c, 0xf0, 0xad, 0x5a],
    [0x4e, 0x45, 0x50, 0x42, 0x5e, 0x9d, 0xd5, 0xf1, 0x00, 0x00, 0x11, 0xb8, 0x47, 0x4f, 0x4f, 0x47, 0x4c, 0x00, 0x19, 0x02, 0x11, 0xbf, 0x00, 0x0a, 0x01, 0xf5, 0x30, 0x39, 0xdc, 0xb4, 0x04, 0xce],
    [0x4e, 0x45, 0x50, 0x42, 0x5e, 0x9d, 0xd5, 0xfa, 0x00, 0x00, 0x0f, 0x32, 0x46, 0x20, 0x20, 0x20, 0x20, 0x00, 0x09, 0x01, 0x0f, 0x1f, 0x00, 0x06, 0x01, 0xf7, 0x8f, 0x2d, 0x4a, 0xf7, 0xa0, 0x5d],
    [0x4e, 0x45, 0x43, 0x42, 0x5e, 0x9d, 0xd6, 0x04, 0x00, 0x00, 0x16, 0xba, 0x47, 0x4f, 0x4f, 0x47, 0x4c, 0x00, 0x1e, 0x01, 0x16, 0xbc, 0x00, 0x0a, 0x01, 0xf9, 0x32, 0x0b, 0x76, 0x3e, 0x3c, 0xa9],
    [0x4e, 0x45, 0x43, 0x42, 0x5e, 0x9d, 0xd6, 0x0b, 0x00, 0x00, 0x31, 0x8a, 0x46, 0x20, 0x20, 0x20, 0x20, 0x00, 0x1f, 0x01, 0x31, 0x8a, 0x00, 0x0d, 0x01, 0xf9, 0xc9, 0x32, 0xe9, 0x58, 0x47, 0x83],
    [0x4e, 0x45, 0x50, 0x42, 0x5e, 0x9d, 0xd6, 0x10, 0x00, 0x00, 0x25, 0xbe, 0x4e, 0x46, 0x4c, 0x58, 0x20, 0x00, 0x0c, 0x01, 0x25, 0xc3, 0x00, 0x09, 0x01, 0xfc, 0x05, 0x97, 0x0e, 0x46, 0xcf, 0x65],
    [0x4e, 0x45, 0x43, 0x53, 0x5e, 0x9d, 0xd6, 0x19, 0x00, 0x00, 0x36, 0xd9, 0x53, 0x50, 0x59, 0x20, 0x20, 0x00, 0x0b, 0x02, 0x36, 0xd5, 0x00, 0x02, 0x01, 0xfd, 0x4c, 0x9a, 0xa0, 0xc2, 0x98, 0x1c],
    [0x4e, 0x45, 0x50, 0x53, 0x5e, 0x9d, 0xd6, 0x1d, 0x00, 0x00, 0x12, 0x2b, 0x53, 0x50, 0x59, 0x20, 0x20, 0x00, 0x06, 0x02, 0x12, 0x34, 0x00, 0x02, 0x01, 0xff, 0x8c, 0x4b, 0x5d, 0xa3, 0xb5, 0x7b],
    [0x4e, 0x45, 0x43, 0x42, 0x5e, 0x9d, 0xd6, 0x21, 0x00, 0x00, 0x29, 0xb1, 0x47, 0x4f, 0x4f, 0x47, 0x4c, 0x00, 0x0f, 0x01, 0x29, 0xa6, 0x00, 0x06, 0x02, 0x02, 0x5a, 0x8a, 0x76, 0xf0, 0x25, 0x4e],
    [0x4e, 0x45, 0x43, 0x53, 0x5e, 0x9d, 0xd6, 0x2b, 0x00, 0x00, 0x2a, 0x40, 0x47, 0x4f, 0x4f, 0x47, 0x4c, 0x00, 0x1c, 0x01, 0x2a, 0x3e, 0x00, 0x03, 0x02, 0x05, 0x6a, 0xec, 0xcc, 0x2a, 0x4f, 0x6c],
    [0x4e, 0x45, 0x50, 0x53, 0x5e, 0x9d, 0xd6, 0x34, 0x00, 0x00, 0x0a, 0x42, 0x41, 0x41, 0x50, 0x4c, 0x20, 0x00, 0x10, 0x01, 0x0a, 0x31, 0x00, 0x08, 0x02, 0x06, 0xc8, 0x1a, 0xbe, 0x96, 0x7f, 0x58],
    [0x4e, 0x45, 0x50, 0x42, 0x5e, 0x9d, 0xd6, 0x42, 0x00, 0x00, 0x17, 0xc0, 0x4e, 0x46, 0x4c, 0x58, 0x20, 0x00, 0x1a, 0x01, 0x17, 0xc4, 0x00, 0x06, 0x02, 0x09, 0x59, 0xe7, 0xd0, 0x99, 0xe6, 0x1d],
    [0x4e, 0x45, 0x43, 0x42, 0x5e, 0x9d, 0xd6, 0x46, 0x00, 0x00, 0x0b, 0x17, 0x47, 0x4f, 0x4f, 0x47, 0x4c, 0x00, 0x19, 0x01, 0x0b, 0x09, 0x00, 0x09, 0x02, 0x09, 0xd0, 0xa0, 0x77, 0x74, 0xa2, 0xe3],
    [0x4e, 0x45, 0x50, 0x42, 0x5e, 0x9d, 0xd6, 0x49, 0x00, 0x00, 0x29, 0x04, 0x41, 0x41, 0x50, 0x4c, 0x20, 0x00, 0x1a, 0x02, 0x29, 0x16, 0x00, 0x09, 0x02, 0x0c, 0x88, 0xc8, 0x91, 0x72, 0x14, 0x91],
    [0x4e, 0x45, 0x50, 0x42, 0x5e, 0x9d, 0xd6, 0x51, 0x00, 0x00, 0x23, 0x6f, 0x41, 0x41, 0x50, 0x4c, 0x20, 0x00, 0x12, 0x02, 0x23, 0x65, 0x00, 0x08, 0x02, 0x0f, 0x15, 0x9c, 0x35, 0xc5, 0x5b, 0x0b],
    [0x4e, 0x45, 0x50, 0x42, 0x5e, 0x9d, 0xd6, 0x5b, 0x00, 0x00, 0x35, 0xc0, 0x47, 0x4f, 0x4f, 0x47, 0x4c, 0x00, 0x20, 0x02, 0x35, 0xbd, 0x00, 0x0a, 0x02, 0x10, 0xa1, 0xb9, 0xda, 0xc3, 0x0c, 0x11],
    [0x4e, 0x45, 0x50, 0x42, 0x5e, 0x9d, 0xd6, 0x62, 0x00, 0x00, 0x00, 0x7b, 0x53, 0x50, 0x59, 0x20, 0x20, 0x00, 0x23, 0x02, 0x00, 0x7d, 0x00, 0x04, 0x02, 0x14, 0x19, 0x67, 0x5e, 0x73, 0x1e, 0x41],
    [0x4e, 0x45, 0x50, 0x53, 0x5e, 0x9d, 0xd6, 0x66, 0x00, 0x00, 0x02, 0xab, 0x57, 0x54, 0x49, 0x20, 0x20, 0x00, 0x11, 0x02, 0x02, 0xa7, 0x00, 0x06, 0x02, 0x14, 0x78, 0x85, 0xb1, 0x6d, 0xcd, 0xf9],
    [0x4e, 0x45, 0x43, 0x53, 0x5e, 0x9d, 0xd6, 0x6b, 0x00, 0x00, 0x33, 0xa8, 0x53, 0x50, 0x58, 0x20, 0x20, 0x00, 0x06, 0x01, 0x33, 0xab, 0x00, 0x06, 0x02, 0x17, 0xe5, 0x72, 0x92, 0xa1, 0x6a, 0xdb],
    [0x4e, 0x45, 0x50, 0x53, 0x5e, 0x9d, 0xd6, 0x74, 0x00, 0x00, 0x13, 0xc2, 0x53, 0x50, 0x58, 0x20, 0x20, 0x00, 0x11, 0x02, 0x13, 0xca, 0x00, 0x0d, 0x02, 0x18, 0x49, 0x8b, 0xcc, 0xb4, 0xa8, 0x21],
    [0x4e, 0x45, 0x50, 0x42, 0x5e, 0x9d, 0xd6, 0x79, 0x00, 0x00, 0x20, 0x64, 0x59, 0x4d, 0x20, 0x20, 0x20, 0x00, 0x07, 0x01, 0x20, 0x5f, 0x00, 0x0a, 0x02, 0x1a, 0x76, 0x24, 0xd6, 0x1f, 0x40, 0x40],
    [0x4e, 0x45, 0x43, 0x42, 0x5e, 0x9d, 0xd6, 0x7c, 0x00, 0x00, 0x0e, 0xc3, 0x47, 0x4f, 0x4f, 0x47, 0x4c, 0x00, 0x20, 0x02, 0x0e, 0xd3, 0x00, 0x0a, 0x02, 0x1b, 0xee, 0x0f, 0x13, 0xd6, 0xb4, 0xa3],
    [0x4e, 0x45, 0x43, 0x53, 0x5e, 0x9d, 0xd6, 0x85, 0x00, 0x00, 0x1f, 0x41, 0x41, 0x41, 0x50, 0x4c, 0x20, 0x00, 0x07, 0x02, 0x1f, 0x44, 0x00, 0x05, 0x02, 0x1d, 0x86, 0xb6, 0x7a, 0x40, 0x1a, 0xf9],
    [0x4e, 0x45, 0x50, 0x42, 0x5e, 0x9d, 0xd6, 0x8c, 0x00, 0x00, 0x18, 0x3c, 0x59, 0x4d, 0x20, 0x20, 0x20, 0x00, 0x0b, 0x02, 0x18, 0x2d, 0x00, 0x02, 0x02, 0x1f, 0x78, 0x22, 0x18, 0x0c, 0x50, 0x7c],
    [0x4e, 0x45, 0x43, 0x53, 0x5e, 0x9d, 0xd6, 0x94, 0x00, 0x00, 0x13, 0x60, 0x59, 0x4d, 0x20, 0x20, 0x20, 0x00, 0x21, 0x01, 0x13, 0x67, 0x00, 0x0b, 0x02, 0x20, 0x5c, 0xda, 0x2e, 0xd2, 0x60, 0x11],
    [0x4e, 0x45, 0x43, 0x42, 0x5e, 0x9d, 0xd6, 0x9e, 0x00, 0x00, 0x09, 0x01, 0x53, 0x50, 0x58, 0x20, 0x20, 0x00, 0x1b, 0x02, 0x09, 0x11, 0x00, 0x05, 0x02, 0x21, 0xa9, 0x51, 0xc0, 0xf4, 0xb0, 0xca],
    [0x4e, 0x45, 0x50, 0x42, 0x5e, 0x9d, 0xd6, 0xa7, 0x00, 0x00, 0x0c, 0xbc, 0x46, 0x20, 0x20, 0x20, 0x20, 0x00, 0x06, 0x01, 0x0c, 0xb9, 0x00, 0x0b, 0x02, 0x24, 0xca, 0x93, 0x52, 0x91, 0x8f, 0x3a],
    [0x4e, 0x45, 0x50, 0x53, 0x5e, 0x9d, 0xd6, 0xac, 0x00, 0x00, 0x3a, 0x46, 0x47, 0x4f, 0x4f, 0x47, 0x4c, 0x00, 0x20, 0x02, 0x3a, 0x46, 0x00, 0x02, 0x02, 0x25, 0x3c, 0x66, 0x10, 0xaa, 0xdb, 0x87],
    [0x4e, 0x45, 0x43, 0x42, 0x5e, 0x9d, 0xd6, 0xb6, 0x00, 0x00, 0x1e, 0x50, 0x59, 0x4d, 0x20, 0x20, 0x20, 0x00, 0x19, 0x01, 0x1e, 0x58, 0x00, 0x0a, 0x02, 0x27, 0xbf, 0x0f, 0x8c, 0x0f, 0x5e, 0x25],
    [0x4e, 0x45, 0x50, 0x53, 0x5e, 0x9d, 0xd6, 0xbb, 0x00, 0x00, 0x0c, 0x4a, 0x59, 0x4d, 0x20, 0x20, 0x20, 0x00, 0x1a, 0x02, 0x0c, 0x47, 0x00, 0x0c, 0x02, 0x2a, 0xd1, 0xba, 0x71, 0xc2, 0x75, 0x2f],
    [0x4e, 0x45, 0x43, 0x53, 0x5e, 0x9d, 0xd6, 0xc4, 0x00, 0x00, 0x21, 0x7c, 0x46, 0x20, 0x20, 0x20, 0x20, 0x00, 0x0e, 0x02, 0x21, 0x80, 0x00, 0x06, 0x02, 0x2d, 0x4b, 0x00, 0xe1, 0xbe, 0x10, 0xcd],
    [0x4e, 0x45, 0x50, 0x53, 0x5e, 0x9d, 0xd6, 0xca, 0x00, 0x00, 0x1f, 0x5f, 0x59, 0x4d, 0x20, 0x20, 0x20, 0x00, 0x0f, 0x01, 0x1f, 0x56, 0x00, 0x06, 0x02, 0x2f, 0xf9, 0xd4, 0xbc, 0xac, 0x1e, 0xbe],
    [0x4e, 0x45, 0x43, 0x42, 0x5e, 0x9d, 0xd6, 0xd0, 0x00, 0x00, 0x1e, 0x16, 0x53, 0x50, 0x59, 0x20, 0x20, 0x00, 0x1a, 0x02, 0x1e, 0x10, 0x00, 0x0b, 0x02, 0x31, 0x1d, 0x8c, 0xd3, 0x04, 0x8d, 0xbf],
    [0x4e, 0x45, 0x50, 0x42, 0x5e, 0x9d, 0xd6, 0xe0, 0x00, 0x00, 0x28, 0x27, 0x4e, 0x46, 0x4c, 0x58, 0x20, 0x00, 0x13, 0x01, 0x28, 0x2d, 0x00, 0x0c, 0x02, 0x32, 0x66, 0x3d, 0x2b, 0x8e, 0xa0, 0x17],
    [0x4e, 0x45, 0x50, 0x42, 0x5e, 0x9d, 0xd6, 0xe6, 0x00, 0x00, 0x0d, 0x93, 0x47, 0x4f, 0x4f, 0x47, 0x4c, 0x00, 0x1e, 0x02, 0x0d, 0x97, 0x00, 0x08, 0x02, 0x33, 0x45, 0x42, 0x4e, 0x5c, 0xe5, 0xd8],
    [0x4e, 0x45, 0x43, 0x53, 0x5e, 0x9d, 0xd6, 0xef, 0x00, 0x00, 0x12, 0xad, 0x57, 0x54, 0x49, 0x20, 0x20, 0x00, 0x1d, 0x02, 0x12, 0xa5, 0x00, 0x03, 0x02, 0x34, 0x04, 0x7e, 0x3e, 0xb2, 0xc1, 0x98],
    [0x4e, 0x45, 0x43, 0x53, 0x5e, 0x9d, 0xd6, 0xf6, 0x00, 0x00, 0x32, 0x7a, 0x57, 0x54, 0x49, 0x20, 0x20, 0x00, 0x1b, 0x01, 0x32, 0x8c, 0x00, 0x06, 0x02, 0x35, 0x57, 0x29, 0x0d, 0xda, 0x9e, 0x7f],
    [0x4e, 0x45, 0x43, 0x53, 0x5e, 0x9d, 0xd7, 0x01, 0x00, 0x00, 0x06, 0x7b, 0x4e, 0x46, 0x4c, 0x58, 0x20, 0x00, 0x23, 0x01, 0x06, 0x7f, 0x00, 0x03, 0x02, 0x37, 0xe1, 0x75, 0x01, 0x6d, 0x1c, 0x0b],
    [0x44, 0x79, 0x43, 0x53, 0x5e, 0x9d, 0xd7, 0x06, 0x00, 0x00, 0x06, 0xfc, 0x53, 0x50, 0x59, 0x20, 0x20, 0x00, 0x1c, 0x02, 0x07, 0x03, 0x00, 0x06, 0x02, 0x38, 0xc2, 0x53, 0x4b, 0x7c, 0xf0, 0xb6],
    [0x4e, 0x45, 0x43, 0x53, 0x5e, 0x9d, 0xd7, 0x0f, 0x00, 0x00, 0x16, 0x42, 0x41, 0x41, 0x50, 0x4c, 0x20, 0x00, 0x09, 0x01, 0x16, 0x38, 0x00, 0x07, 0x02, 0x3a, 0x95, 0xcf, 0x7b, 0xa0, 0xf8, 0x09],
    [0x48, 0x66, 0x50, 0x53, 0x5e, 0x9d, 0xd7, 0x17, 0x00, 0x00, 0x29, 0xb2, 0x45, 0x53, 0x20, 0x20, 0x20, 0x00, 0x03, 0x01, 0x29, 0xa0, 0x00, 0x04, 0x02, 0x3b, 0x81, 0xf5, 0x92, 0xd2, 0xda, 0x09],
    [0x4e, 0x45, 0x50, 0x42, 0x5e, 0x9d, 0xd7, 0x1f, 0x00, 0x00, 0x0e, 0xff, 0x45, 0x53, 0x20, 0x20, 0x20, 0x00, 0x14, 0x01, 0x0e, 0xfd, 0x00, 0x02, 0x02, 0x3c, 0xac, 0x9d, 0xea, 0xa6, 0x32, 0x9e],
    [0x4e, 0x45, 0x43, 0x42, 0x5e, 0x9d, 0xd7, 0x22, 0x00, 0x00, 0x17, 0x20, 0x53, 0x50, 0x59, 0x20, 0x20, 0x00, 0x15, 0x02, 0x17, 0x23, 0x00, 0x07, 0x02, 0x3f, 0x4d, 0x98, 0xe0, 0x89, 0xa2, 0xed],
    [0x4e, 0x45, 0x50, 0x53, 0x5e, 0x9d, 0xd7, 0x2a, 0x00, 0x00, 0x16, 0xf6, 0x4e, 0x46, 0x4c, 0x58, 0x20, 0x00, 0x15, 0x02, 0x17, 0x0a, 0x00, 0x03, 0x02, 0x41, 0x16, 0xa9, 0x6f, 0x16, 0x1b, 0x38],
    [0x4e, 0x45, 0x50, 0x42, 0x5e, 0x9d, 0xd7, 0x2d, 0x00, 0x00, 0x0e, 0x9c, 0x47, 0x4f, 0x4f, 0x47, 0x4c, 0x00, 0x04, 0x02, 0x0e, 0x89, 0x00, 0x05, 0x02, 0x42, 0x3f, 0xaa, 0x35, 0x77, 0x0b, 0xa4],
    [0x4e, 0x45, 0x43, 0x53, 0x5e, 0x9d, 0xd7, 0x36, 0x00, 0x00, 0x17, 0xd3, 0x41, 0x41, 0x50, 0x4c, 0x20, 0x00, 0x08, 0x01, 0x17, 0xd6, 0x00, 0x04, 0x02, 0x42, 0xb5, 0xc2, 0xf1, 0x52, 0x4f, 0xef],
    [0x4e, 0x45, 0x43, 0x53, 0x5e, 0x9d, 0xd7, 0x3d, 0x00, 0x00, 0x21, 0xf7, 0x53, 0x50, 0x59, 0x20, 0x20, 0x00, 0x07, 0x02, 0x21, 0xeb, 0x00, 0x03, 0x02, 0x43, 0xcc, 0x75, 0x0d, 0xae, 0xb3, 0x17],
    [0x4e, 0x45, 0x43, 0x42, 0x5e, 0x9d, 0xd7, 0x47, 0x00, 0x00, 0x08, 0xc3, 0x53, 0x50, 0x58, 0x20, 0x20, 0x00, 0x1c, 0x02, 0x08, 0xb8, 0x00, 0x02, 0x02, 0x45, 0x70, 0xe3, 0x9d, 0xc4, 0x40, 0x3c],
    [0x4e, 0x45, 0x43, 0x42, 0x5e, 0x9d, 0xd7, 0x4e, 0x00, 0x00, 0x37, 0xda, 0x57, 0x54, 0x49, 0x20, 0x20, 0x00, 0x06, 0x02, 0x37, 0xd8, 0x00, 0x0d, 0x02, 0x47, 0x1e, 0xd1, 0x4d, 0x2d, 0xb6, 0x82],
    [0x4e, 0x45, 0x50, 0x42, 0x5e, 0x9d, 0xd7, 0x53, 0x00, 0x00, 0x06, 0xb1, 0x53, 0x50, 0x58, 0x20, 0x20, 0x00, 0x0e, 0x02, 0x06, 0xb7, 0x00, 0x05, 0x02, 0x48, 0x4d, 0x50, 0xa9, 0x83, 0xe7, 0x2d],
    [0x4e, 0x45, 0x43, 0x53, 0x5e, 0x9d, 0xd7, 0x58, 0x00, 0x00, 0x1f, 0xbb, 0x45, 0x53, 0x20, 0x20, 0x20, 0x00, 0x12, 0x01, 0x1f, 0xa9, 0x00, 0x08, 0x02, 0x4b, 0xa5, 0x45, 0xe9, 0x77, 0x5c, 0xba],
    [0x4e, 0x45, 0x43, 0x42, 0x5e, 0x9d, 0xd7, 0x62, 0x00, 0x00, 0x33, 0xc6, 0x41, 0x41, 0x50, 0x4c, 0x20, 0x00, 0x14, 0x01, 0x33, 0xb6, 0x00, 0x02, 0x02, 0x4e, 0x70, 0x2e, 0x28, 0x6c, 0x58, 0x83],
    [0x4e, 0x45, 0x50, 0x42, 0x5e, 0x9d, 0xd7, 0x66, 0x00, 0x00, 0x0a, 0xcf, 0x47, 0x4f, 0x4f, 0x47, 0x4c, 0x00, 0x03, 0x02, 0x0a, 0xd4, 0x00, 0x09, 0x02, 0x51, 0xf8, 0x6b, 0x94, 0x62, 0xbc, 0xf8],
    [0x4e, 0x45, 0x43, 0x53, 0x5e, 0x9d, 0xd7, 0x6a, 0x00, 0x00, 0x20, 0x39, 0x41, 0x41, 0x50, 0x4c, 0x20, 0x00, 0x20, 0x02, 0x20, 0x3e, 0x00, 0x0d, 0x02, 0x52, 0xa1, 0x8f, 0x2f, 0xc7, 0x4f, 0x44],
    [0x4e, 0x45, 0x50, 0x53, 0x5e, 0x9d, 0xd7, 0x6f, 0x00, 0x00, 0x08, 0xd5, 0x53, 0x50, 0x59, 0x20, 0x20, 0x00, 0x04, 0x01, 0x08, 0xca, 0x00, 0x0b, 0x02, 0x53, 0xc3, 0x0b, 0xfb, 0xda, 0x28, 0x24],
    [0x4e, 0x45, 0x43, 0x42, 0x5e, 0x9d, 0xd7, 0x76, 0x00, 0x00, 0x1f, 0xdb, 0x53, 0x50, 0x59, 0x20, 0x20, 0x00, 0x22, 0x01, 0x1f, 0xd8, 0x00, 0x08, 0x02, 0x55, 0x1a, 0x84, 0x50, 0xc2, 0x5d, 0xd9],
    [0x4e, 0x45, 0x43, 0x53, 0x5e, 0x9d, 0xd7, 0x7a, 0x00, 0x00, 0x0e, 0xf2, 0x41, 0x41, 0x50, 0x4c, 0x20, 0x00, 0x05, 0x01, 0x0f, 0x05, 0x00, 0x0a, 0x02, 0x56, 0x7f, 0x18, 0xce, 0x58, 0xc8, 0xc6],
    [0x4e, 0x45, 0x50, 0x42, 0x5e, 0x9d, 0xd7, 0x7d, 0x00, 0x00, 0x11, 0x56, 0x41, 0x41, 0x50, 0x4c, 0x20, 0x00, 0x22, 0x02, 0x11, 0x52, 0x00, 0x06, 0x02, 0x59, 0x4d, 0xc4, 0xa5, 0x42, 0x86, 0x33],
    [0x4e, 0x45, 0x50, 0x53, 0x5e, 0x9d, 0xd7, 0x84, 0x00, 0x00, 0x36, 0x7e, 0x59, 0x4d, 0x20, 0x20, 0x20, 0x00, 0x07, 0x01, 0x36, 0x8e, 0x00, 0x06, 0x02, 0x5c, 0x45, 0x5f, 0x79, 0x42, 0x00, 0xda],
    [0x4e, 0x45, 0x43, 0x42, 0x5e, 0x9d, 0xd7, 0x8e, 0x00, 0x00, 0x14, 0xcb, 0x4e, 0x46, 0x4c, 0x58, 0x20, 0x00, 0x16, 0x01, 0x14, 0xb9, 0x00, 0x02, 0x02, 0x5c, 0xad, 0x0a, 0x97, 0x4e, 0x08, 0x59],
    [0x4e, 0x45, 0x43, 0x53, 0x5e, 0x9d, 0xd7, 0x98, 0x00, 0x00, 0x1d, 0x23, 0x53, 0x50, 0x59, 0x20, 0x20, 0x00, 0x17, 0x02, 0x1d, 0x2d, 0x00, 0x05, 0x02, 0x5f, 0x85, 0x73, 0xf7, 0x4d, 0xd9, 0xeb],
    [0x4e, 0x45, 0x43, 0x53, 0x5e, 0x9d, 0xd7, 0x9d, 0x00, 0x00, 0x2a, 0xf0, 0x46, 0x20, 0x20, 0x20, 0x20, 0x00, 0x14, 0x01, 0x2a, 0xee, 0x00, 0x03, 0x02, 0x62, 0x3f, 0x36, 0x2f, 0xfe, 0x27, 0x40],
    [0x4e, 0x45, 0x43, 0x53, 0x5e, 0x9d, 0xd7, 0xa0, 0x00, 0x00, 0x13, 0x9f, 0x59, 0x4d, 0x20, 0x20, 0x20, 0x00, 0x1e, 0x02, 0x13, 0x99, 0x00, 0x0a, 0x02, 0x63, 0x69, 0xd5, 0x40, 0x73, 0xfe, 0x93],
    [0x4e, 0x45, 0x50, 0x42, 0x5e, 0x9d, 0xd7, 0xa4, 0x00, 0x00, 0x08, 0x2e, 0x47, 0x4f, 0x4f, 0x47, 0x4c, 0x00, 0x1f, 0x02, 0x08, 0x3b, 0x00, 0x02, 0x02, 0x63, 0xd5, 0x82, 0x73, 0xe7, 0xde, 0xb0],
    [0x4e, 0x45, 0x43, 0x42, 0x5e, 0x9d, 0xd7, 0xb5, 0x00, 0x00, 0x11, 0x1d, 0x4e, 0x46, 0x4c, 0x58, 0x20, 0x00, 0x11, 0x01, 0x11, 0x1d, 0x00, 0x0c, 0x02, 0x69, 0xb1, 0x46, 0xbb, 0x7a, 0xbc, 0xc0],
    [0x4e, 0x45, 0x43, 0x42, 0x5e, 0x9d, 0xd7, 0xbd, 0x00, 0x00, 0x0b, 0xcb, 0x45, 0x53, 0x20, 0x20, 0x20, 0x00, 0x1f, 0x02, 0x0b, 0xbf, 0x00, 0x0c, 0x02, 0x6d, 0x12, 0x69, 0xa9, 0x4d, 0x31, 0x90],
    [0x4e, 0x45, 0x43, 0x42, 0x5e, 0x9d, 0xd7, 0xc0, 0x00, 0x00, 0x0e, 0x81, 0x4e, 0x46, 0x4c, 0x58, 0x20, 0x00, 0x13, 0x02, 0x0e, 0x7c, 0x00, 0x07, 0x02, 0x6e, 0xb3, 0x45, 0x71, 0x0d, 0x22, 0x27],
    [0x4e, 0x45, 0x43, 0x53, 0x5e, 0x9d, 0xd7, 0xc9, 0x00, 0x00, 0x27, 0xa5, 0x59, 0x4d, 0x20, 0x20, 0x20, 0x00, 0x16, 0x01, 0x27, 0x9b, 0x00, 0x0c, 0x02, 0x71, 0x12, 0xff, 0xd2, 0xea, 0x03, 0xf9],
    [0x4e, 0x45, 0x43, 0x53, 0x5e, 0x9d, 0xd7, 0xd1, 0x00, 0x00, 0x2f, 0xff, 0x57, 0x54, 0x49, 0x20, 0x20, 0x00, 0x0b, 0x01, 0x30, 0x0e, 0x00, 0x05, 0x02, 0x72, 0x39, 0x58, 0xba, 0x31, 0x07, 0x79],
    [0x4e, 0x45, 0x50, 0x53, 0x5e, 0x9d, 0xd7, 0xdb, 0x00, 0x00, 0x08, 0xe1, 0x53, 0x50, 0x58, 0x20, 0x20, 0x00, 0x10, 0x02, 0x08, 0xd9, 0x00, 0x0d, 0x02, 0x75, 0x0f, 0xe0, 0x02, 0x0d, 0x7a, 0xc3],
    [0x4e, 0x45, 0x43, 0x53, 0x5e, 0x9d, 0xd7, 0xe2, 0x00, 0x00, 0x07, 0xc4, 0x59, 0x4d, 0x20, 0x20, 0x20, 0x00, 0x14, 0x01, 0x07, 0xcf, 0x00, 0x03, 0x02, 0x76, 0x15, 0x37, 0xb5, 0xed, 0x9b, 0x59],
    [0x4e, 0x45, 0x43, 0x42, 0x5e, 0x9d, 0xd7, 0xe7, 0x00, 0x00, 0x12, 0x87, 0x53, 0x50, 0x59, 0x20, 0x20, 0x00, 0x0a, 0x01, 0x12, 0x82, 0x00, 0x09, 0x02, 0x78, 0xc0, 0x87, 0xd5, 0x51, 0xac, 0xc2],
    [0x4e, 0x45, 0x50, 0x53, 0x5e, 0x9d, 0xd7, 0xf8, 0x00, 0x00, 0x1f, 0x0b, 0x47, 0x4f, 0x4f, 0x47, 0x4c, 0x00, 0x13, 0x02, 0x1f, 0x0f, 0x00, 0x0a, 0x02, 0x7e, 0x86, 0x9b, 0xf1, 0x9b, 0x81, 0x92],
    [0x4e, 0x45, 0x43, 0x53, 0x5e, 0x9d, 0xd7, 0xff, 0x00, 0x00, 0x2d, 0xb1, 0x57, 0x54, 0x49, 0x20, 0x20, 0x00, 0x1b, 0x01, 0x2d, 0xa4, 0x00, 0x0a, 0x02, 0x80, 0xca, 0x8d, 0x0e, 0xf1, 0xfd, 0xf9],
    [0x4e, 0x45, 0x43, 0x53, 0x5e, 0x9d, 0xd8, 0x05, 0x00, 0x00, 0x2f, 0x72, 0x46, 0x20, 0x20, 0x20, 0x20, 0x00, 0x14, 0x01, 0x2f, 0x74, 0x00, 0x0c, 0x02, 0x81, 0xcd, 0x61, 0x46, 0xa9, 0x16, 0x04],
    [0x4e, 0x45, 0x43, 0x53, 0x5e, 0x9d, 0xd8, 0x0a, 0x00, 0x00, 0x09, 0xdd, 0x57, 0x54, 0x49, 0x20, 0x20, 0x00, 0x1b, 0x02, 0x09, 0xea, 0x00, 0x05, 0x02, 0x82, 0xc3, 0xe0, 0x14, 0x62, 0x15, 0xe6],
    [0x4e, 0x45, 0x50, 0x42, 0x5e, 0x9d, 0xd8, 0x0f, 0x00, 0x00, 0x14, 0x45, 0x47, 0x4f, 0x4f, 0x47, 0x4c, 0x00, 0x0f, 0x01, 0x14, 0x3f, 0x00, 0x0c, 0x02, 0x84, 0x49, 0x24, 0xa6, 0x92, 0x25, 0x8c],
    [0x4e, 0x45, 0x43, 0x53, 0x5e, 0x9d, 0xd8, 0x15, 0x00, 0x00, 0x09, 0x4a, 0x41, 0x41, 0x50, 0x4c, 0x20, 0x00, 0x20, 0x02, 0x09, 0x3e, 0x00, 0x02, 0x02, 0x86, 0xa0, 0x31, 0x85, 0x05, 0xa3, 0xf2],
    [0x4e, 0x45, 0x50, 0x53, 0x5e, 0x9d, 0xd8, 0x1d, 0x00, 0x00, 0x28, 0x2e, 0x53, 0x50, 0x59, 0x20, 0x20, 0x00, 0x0f, 0x01, 0x28, 0x3a, 0x00, 0x07, 0x02, 0x89, 0x82, 0x40, 0xbd, 0xa1, 0xa2, 0xcd],
    [0x4e, 0x45, 0x50, 0x42, 0x5e, 0x9d, 0xd8, 0x26, 0x00, 0x00, 0x00, 0xa1, 0x59, 0x4d, 0x20, 0x20, 0x20, 0x00, 0x20, 0x02, 0x00, 0x91, 0x00, 0x03, 0x02, 0x8c, 0x01, 0x4e, 0xb5, 0x66, 0x6b, 0x37],
    [0x4e, 0x45, 0x43, 0x53, 0x5e, 0x9d, 0xd8, 0x2c, 0x00, 0x00, 0x06, 0xdb, 0x57, 0x54, 0x49, 0x20, 0x20, 0x00, 0x17, 0x01, 0x06, 0xdb, 0x00, 0x04, 0x02, 0x8d, 0xa0, 0x68, 0x32, 0x00, 0xdc, 0x3d],
    [0x44, 0x7a, 0x50, 0x42, 0x5e, 0x9d, 0xd8, 0x32, 0x00, 0x00, 0x10, 0x14, 0x46, 0x20, 0x20, 0x20, 0x20, 0x00, 0x1d, 0x01, 0x10, 0x1c, 0x00, 0x0a, 0x02, 0x8f, 0x4d, 0x78, 0xf1, 0x6a, 0x26, 0x1d],
    [0x4e, 0x45, 0x50, 0x42, 0x5e, 0x9d, 0xd8, 0x39, 0x00, 0x00, 0x26, 0x37, 0x57, 0x54, 0x49, 0x20, 0x20, 0x00, 0x0f, 0x01, 0x26, 0x37, 0x00, 0x0b, 0x02, 0x90, 0x8d, 0x54, 0x6d, 0xed, 0x83, 0x17],
    [0x4e, 0x45, 0x50, 0x53, 0x5e, 0x9d, 0xd8, 0x43, 0x00, 0x00, 0x20, 0x5f, 0x47, 0x4f, 0x4f, 0x47, 0x4c, 0x00, 0x11, 0x02, 0x20, 0x5f, 0x00, 0x0a, 0x02, 0x94, 0x2a, 0x41, 0x2b, 0x5a, 0x11, 0x23]]"

definition raw_rows_3 :: "u8 list list" where
  "raw_rows_3 = [
    [0x43, 0x6a, 0x50, 0x53, 0x5e, 0x9d, 0xd8, 0x56, 0x00, 0x00, 0x05, 0x0d, 0x4e, 0x46, 0x4c, 0x58, 0x20, 0x00, 0x08, 0x02, 0x05, 0x11, 0x00, 0x0b, 0x02, 0x97, 0x26, 0xda, 0x68, 0x8d, 0x16, 0x5a],
    [0x4e, 0x45, 0x43, 0x42, 0x5e, 0x9d, 0xd8, 0x5a, 0x00, 0x00, 0x1b, 0x10, 0x53, 0x50, 0x58, 0x20, 0x20, 0x00, 0x0a, 0x01, 0x1b, 0x24, 0x00, 0x09, 0x02, 0x9a, 0x97, 0x69, 0x21, 0xa2, 0x72, 0x04],
    [0x4e, 0x45, 0x50, 0x42, 0x5e, 0x9d, 0xd8, 0x63, 0x00, 0x00, 0x22, 0xcc, 0x53, 0x50, 0x58, 0x20, 0x20, 0x00, 0x1e, 0x02, 0x22, 0xd2, 0x00, 0x09, 0x02, 0x9d, 0xd3, 0xe7, 0x3f, 0xe8, 0x34, 0x97],
    [0x4e, 0x45, 0x50, 0x53, 0x5e, 0x9d, 0xd8, 0x73, 0x00, 0x00, 0x2d, 0x3e, 0x45, 0x53, 0x20, 0x20, 0x20, 0x00, 0x10, 0x01, 0x2d, 0x3c, 0x00, 0x07, 0x02, 0xa0, 0xf7, 0x16, 0x68, 0x4e, 0xfb, 0x7c],
    [0x4e, 0x45, 0x50, 0x42, 0x5e, 0x9d, 0xd8, 0x7b, 0x00, 0x00, 0x15, 0x6b, 0x46, 0x20, 0x20, 0x20, 0x20, 0x00, 0x04, 0x02, 0x15, 0x75, 0x00, 0x0c, 0x02, 0xa3, 0xb8, 0x14, 0xfb, 0x0b, 0x2f, 0xd6],
    [0x4e, 0x45, 0x43, 0x53, 0x5e, 0x9d, 0xd8, 0x7e, 0x00, 0x00, 0x08, 0x73, 0x4e, 0x46, 0x4c, 0x58, 0x20, 0x00, 0x12, 0x01, 0x08, 0x79, 0x00, 0x0a, 0x02, 0xa6, 0xdb, 0x29, 0xec, 0x97, 0xcb, 0x3a],
    [0x4e, 0x45, 0x50, 0x53, 0x5e, 0x9d, 0xd8, 0x85, 0x00, 0x00, 0x13, 0xb8, 0x4e, 0x46, 0x4c, 0x58, 0x20, 0x00, 0x15, 0x02, 0x13, 0xb7, 0x00, 0x06, 0x02, 0xa9, 0xa2, 0x00, 0x48, 0x89, 0xc2, 0xc4],
    [0x4e, 0x45, 0x43, 0x53, 0x5e, 0x9d, 0xd8, 0x8e, 0x00, 0x00, 0x03, 0x02, 0x53, 0x50, 0x58, 0x20, 0x20, 0x00, 0x14, 0x02, 0x02, 0xff, 0x00, 0x04, 0x02, 0xab, 0x7b, 0x78, 0xed, 0xdd, 0xa5, 0xbe],
    [0x4e, 0x45, 0x43, 0x53, 0x5e, 0x9d, 0xd8, 0x98, 0x00, 0x00, 0x2f, 0x82, 0x41, 0x41, 0x50, 0x4c, 0x20, 0x00, 0x1f, 0x01, 0x2f, 0x8f, 0x00, 0x0a, 0x02, 0xab, 0xdf, 0xc6, 0x15, 0x2f, 0xff, 0x51],
    [0x4e, 0x45, 0x43, 0x42, 0x5e, 0x9d, 0xd8, 0x9d, 0x00, 0x00, 0x25, 0x92, 0x59, 0x4d, 0x20, 0x20, 0x20, 0x00, 0x11, 0x02, 0x25, 0x8a, 0x00, 0x0c, 0x02, 0xad, 0x04, 0x2c, 0x97, 0x0f, 0x55, 0x49],
    [0x4e, 0x45, 0x50, 0x42, 0x5e, 0x9d, 0xd8, 0xa7, 0x00, 0x00, 0x28, 0x8e, 0x53, 0x50, 0x58, 0x20, 0x20, 0x00, 0x0d, 0x01, 0x28, 0x82, 0x00, 0x08, 0x02, 0xb1, 0x50, 0x90, 0xe8, 0x4d, 0xdf, 0xf6],
    [0x4e, 0x45, 0x43, 0x42, 0x5e, 0x9d, 0xd8, 0xaf, 0x00, 0x00, 0x10, 0x57, 0x57, 0x54, 0x49, 0x20, 0x20, 0x00, 0x09, 0x01, 0x10, 0x5a, 0x00, 0x05, 0x02, 0xb2, 0x01, 0xed, 0xe8, 0x53, 0xe1, 0x30],
    [0x4e, 0x45, 0x43, 0x42, 0x5e, 0x9d, 0xd8, 0xb7, 0x00, 0x00, 0x0a, 0x63, 0x59, 0x4d, 0x20, 0x20, 0x20, 0x00, 0x1f, 0x01, 0x0a, 0x5f, 0x00, 0x0a, 0x02, 0xb5, 0x1b, 0xa0, 0xbe, 0x15, 0xe1, 0xaa],
    [0x4e, 0x45, 0x43, 0x53, 0x5e, 0x9d, 0xd8, 0xc0, 0x00, 0x00, 0x2a, 0x1a, 0x41, 0x41, 0x50, 0x4c, 0x20, 0x00, 0x17, 0x01, 0x2a, 0x1f, 0x00, 0x02, 0x02, 0xb6, 0x7e, 0x61, 0xc9, 0xa5, 0xb3, 0x44],
    [0x4e, 0x45, 0x50, 0x53, 0x5e, 0x9d, 0xd8, 0xc6, 0x00, 0x00, 0x35, 0xca, 0x53, 0x50, 0x59, 0x20, 0x20, 0x00, 0x21, 0x02, 0x35, 0xcb, 0x00, 0x02, 0x02, 0xb8, 0x38, 0x5f, 0x56, 0x8f, 0xad, 0x3e],
    [0x4e, 0x45, 0x43, 0x53, 0x5e, 0x9d, 0xd8, 0xcd, 0x00, 0x00, 0x16, 0x78, 0x53, 0x50, 0x58, 0x20, 0x20, 0x00, 0x1c, 0x01, 0x16, 0x7e, 0x00, 0x04, 0x02, 0xb9, 0x6a, 0xf9, 0x9e, 0x98, 0x29, 0xca],
    [0x4e, 0x45, 0x43, 0x42, 0x5e, 0x9d, 0xd8, 0xd2, 0x00, 0x00, 0x2d, 0x80, 0x41, 0x41, 0x50, 0x4c, 0x20, 0x00, 0x23, 0x02, 0x2d, 0x79, 0x00, 0x02, 0x02, 0xba, 0x2f, 0x31, 0x29, 0x70, 0xd5, 0x5e],
    [0x4e, 0x45, 0x50, 0x53, 0x5e, 0x9d, 0xd8, 0xdb, 0x00, 0x00, 0x39, 0x1d, 0x59, 0x4d, 0x20, 0x20, 0x20, 0x00, 0x19, 0x02, 0x39, 0x25, 0x00, 0x0b, 0x02, 0xba, 0xff, 0x53, 0xb3, 0xe1, 0x81, 0x5f],
    [0x4e, 0x45, 0x50, 0x53, 0x5e, 0x9d, 0xd8, 0xde, 0x00, 0x00, 0x00, 0x76, 0x59, 0x4d, 0x20, 0x20, 0x20, 0x00, 0x0c, 0x01, 0x00, 0x77, 0x00, 0x0d, 0x02, 0xbb, 0xb9, 0x86, 0x99, 0xbd, 0xe8, 0xa8],
    [0x4e, 0x45, 0x50, 0x53, 0x5e, 0x9d, 0xd8, 0xe4, 0x00, 0x00, 0x2d, 0x83, 0x46, 0x20, 0x20, 0x20, 0x20, 0x00, 0x0f, 0x01, 0x2d, 0x6f, 0x00, 0x03, 0x02, 0xbc, 0x4e, 0x20, 0x93, 0xfc, 0x6b, 0xf8],
    [0x4e, 0x45, 0x50, 0x42, 0x5e, 0x9d, 0xd8, 0xe7, 0x00, 0x00, 0x08, 0xcf, 0x59, 0x4d, 0x20, 0x20, 0x20, 0x00, 0x0b, 0x02, 0x08, 0xcb, 0x00, 0x0b, 0x02, 0xbe, 0x2e, 0xdf, 0xc6, 0xbc, 0x65, 0xae],
    [0x4e, 0x45, 0x50, 0x53, 0x5e, 0x9d, 0xd8, 0xeb, 0x00, 0x00, 0x0f, 0x2e, 0x53, 0x50, 0x58, 0x20, 0x20, 0x00, 0x22, 0x01, 0x0f, 0x39, 0x00, 0x07, 0x02, 0xc1, 0x8a, 0x91, 0xaa, 0xca, 0x39, 0xfe],
    [0x4e, 0x45, 0x43, 0x53, 0x5e, 0x9d, 0xd8, 0xee, 0x00, 0x00, 0x02, 0x35, 0x41, 0x41, 0x50, 0x4c, 0x20, 0x00, 0x08, 0x01, 0x02, 0x40, 0x00, 0x03, 0x02, 0xc2, 0xa5, 0x2a, 0xa0, 0x80, 0xb0, 0xad],
    [0x4e, 0x45, 0x50, 0x53, 0x5e, 0x9d, 0xd8, 0xf6, 0x00, 0x00, 0x39, 0x8d, 0x53, 0x50, 0x58, 0x20, 0x20, 0x00, 0x1a, 0x02, 0x39, 0x7a, 0x00, 0x08, 0x02, 0xc5, 0x98, 0xac, 0x26, 0x05, 0x13, 0x96],
    [0x4e, 0x45, 0x50, 0x53, 0x5e, 0x9d, 0xd8, 0xf9, 0x00, 0x00, 0x18, 0x6e, 0x41, 0x41, 0x50, 0x4c, 0x20, 0x00, 0x1c, 0x01, 0x18, 0x6e, 0x00, 0x0b, 0x02, 0xc5, 0xff, 0xf3, 0x88, 0x3b, 0x5b, 0xc0],
    [0x4e, 0x45, 0x50, 0x42, 0x5e, 0x9d, 0xd8, 0xfd, 0x00, 0x00, 0x12, 0x69, 0x41, 0x41, 0x50, 0x4c, 0x20, 0x00, 0x05, 0x01, 0x12, 0x67, 0x00, 0x0d, 0x02, 0xc8, 0xdd, 0xb2, 0x90, 0x0e, 0x22, 0xa2],
    [0x4e, 0x45, 0x50, 0x53, 0x5e, 0x9d, 0xd9, 0x05, 0x00, 0x00, 0x38, 0xc5, 0x57, 0x54, 0x49, 0x20, 0x20, 0x00, 0x08, 0x02, 0x38, 0xca, 0x00, 0x0d, 0x02, 0xc9, 0x3f, 0x07, 0xb5, 0x24, 0x68, 0x2b],
    [0x4e, 0x45, 0x50, 0x42, 0x5e, 0x9d, 0xd9, 0x0a, 0x00, 0x00, 0x20, 0x23, 0x4e, 0x46, 0x4c, 0x58, 0x20, 0x00, 0x10, 0x01, 0x20, 0x13, 0x00, 0x09, 0x02, 0xc9, 0xf9, 0xfc, 0x44, 0x40, 0xf1, 0x67],
    [0x53, 0x77, 0x43, 0x53, 0x5e, 0x9d, 0xd9, 0x13, 0x00, 0x00, 0x31, 0x1d, 0x53, 0x50, 0x58, 0x20, 0x20, 0x00, 0x0d, 0x01, 0x31, 0x18, 0x00, 0x0b, 0x02, 0xcc, 0x2c, 0x82, 0x5e, 0x2b, 0xa4, 0x16],
    [0x4e, 0x45, 0x50, 0x42, 0x5e, 0x9d, 0xd9, 0x1b, 0x00, 0x00, 0x0d, 0xfd, 0x53, 0x50, 0x58, 0x20, 0x20, 0x00, 0x04, 0x01, 0x0e, 0x0a, 0x00, 0x03, 0x02, 0xce, 0x4a, 0x95, 0x1f, 0x68, 0x30, 0x53],
    [0x4e, 0x45, 0x43, 0x53, 0x5e, 0x9d, 0xd9, 0x1e, 0x00, 0x00, 0x0e, 0xfc, 0x53, 0x50, 0x59, 0x20, 0x20, 0x00, 0x0e, 0x01, 0x0f, 0x03, 0x00, 0x08, 0x02, 0xce, 0xd6, 0x42, 0x11, 0xf1, 0xaf, 0xd6],
    [0x4e, 0x45, 0x43, 0x53, 0x5e, 0x9d, 0xd9, 0x23, 0x00, 0x00, 0x26, 0x3b, 0x46, 0x20, 0x20, 0x20, 0x20, 0x00, 0x1f, 0x02, 0x26, 0x28, 0x00, 0x04, 0x02, 0xd0, 0x35, 0x65, 0xea, 0x69, 0x5c, 0x15],
    [0x4e, 0x45, 0x50, 0x42, 0x5e, 0x9d, 0xd9, 0x2b, 0x00, 0x00, 0x25, 0x28, 0x59, 0x4d, 0x20, 0x20, 0x20, 0x00, 0x20, 0x02, 0x25, 0x31, 0x00, 0x05, 0x02, 0xd2, 0x3f, 0xd8, 0xa4, 0x59, 0x59, 0xcd],
    [0x4e, 0x45, 0x43, 0x53, 0x5e, 0x9d, 0xd9, 0x34, 0x00, 0x00, 0x26, 0xd8, 0x46, 0x20, 0x20, 0x20, 0x20, 0x00, 0x16, 0x01, 0x26, 0xd4, 0x00, 0x02, 0x02, 0xd3, 0xc4, 0x7f, 0xee, 0xe1, 0x5a, 0xfb],
    [0x4e, 0x45, 0x43, 0x42, 0x5e, 0x9d, 0xd9, 0x37, 0x00, 0x00, 0x24, 0xb3, 0x47, 0x4f, 0x4f, 0x47, 0x4c, 0x00, 0x11, 0x01, 0x24, 0xc0, 0x00, 0x06, 0x02, 0xd5, 0x10, 0x59, 0x0a, 0x09, 0x74, 0x52],
    [0x4e, 0x45, 0x43, 0x42, 0x5e, 0x9d, 0xd9, 0x3d, 0x00, 0x00, 0x17, 0x79, 0x46, 0x20, 0x20, 0x20, 0x20, 0x00, 0x1c, 0x02, 0x17, 0x70, 0x00, 0x05, 0x02, 0xd7, 0xba, 0x75, 0x7d, 0xf1, 0x04, 0x40],
    [0x4e, 0x45, 0x43, 0x53, 0x5e, 0x9d, 0xd9, 0x43, 0x00, 0x00, 0x22, 0x2f, 0x53, 0x50, 0x59, 0x20, 0x20, 0x00, 0x20, 0x01, 0x22, 0x2c, 0x00, 0x0b, 0x02, 0xda, 0x38, 0xc1, 0x05, 0x41, 0x3b, 0x1a],
    [0x4e, 0x45, 0x43, 0x42, 0x5e, 0x9d, 0xd9, 0x4b, 0x00, 0x00, 0x26, 0x5b, 0x4e, 0x46, 0x4c, 0x58, 0x20, 0x00, 0x1d, 0x02, 0x26, 0x55, 0x00, 0x0b, 0x02, 0xdb, 0xc2, 0x9b, 0x0d, 0x39, 0x66, 0x99],
    [0x4e, 0x45, 0x43, 0x42, 0x5e, 0x9d, 0xd9, 0x54, 0x00, 0x00, 0x1b, 0x9b, 0x45, 0x53, 0x20, 0x20, 0x20, 0x00, 0x0a, 0x01, 0x1b, 0x95, 0x00, 0x08, 0x02, 0xdc, 0xf6, 0x3e, 0xfc, 0x06, 0xbd, 0x6c],
    [0x4e, 0x45, 0x43, 0x53, 0x5e, 0x9d, 0xd9, 0x59, 0x00, 0x00, 0x14, 0xaf, 0x45, 0x53, 0x20, 0x20, 0x20, 0x00, 0x08, 0x01, 0x14, 0xad, 0x00, 0x07, 0x02, 0xde, 0xd5, 0x6d, 0xa1, 0x71, 0xfb, 0xf9],
    [0x4e, 0x45, 0x50, 0x53, 0x5e, 0x9d, 0xd9, 0x5f, 0x00, 0x00, 0x0e, 0x73, 0x4e, 0x46, 0x4c, 0x58, 0x20, 0x00, 0x06, 0x01, 0x0e, 0x68, 0x00, 0x07, 0x02, 0xe1, 0xa0, 0xfb, 0xb7, 0xae, 0xcb, 0x7f],
    [0x4e, 0x45, 0x43, 0x53, 0x5e, 0x9d, 0xd9, 0x65, 0x00, 0x00, 0x2c, 0x74, 0x45, 0x53, 0x20, 0x20, 0x20, 0x00, 0x1f, 0x02, 0x2c, 0x63, 0x00, 0x02, 0x02, 0xe2, 0x2a, 0xa3, 0xbb, 0x33, 0x59, 0x31],
    [0x4e, 0x45, 0x43, 0x42, 0x5e, 0x9d, 0xd9, 0x6f, 0x00, 0x00, 0x2d, 0xa4, 0x57, 0x54, 0x49, 0x20, 0x20, 0x00, 0x14, 0x01, 0x2d, 0x92, 0x00, 0x04, 0x02, 0xe5, 0x37, 0x73, 0x63, 0x61, 0x21, 0xd3],
    [0x4e, 0x45, 0x50, 0x53, 0x5e, 0x9d, 0xd9, 0x72, 0x00, 0x00, 0x2f, 0x53, 0x46, 0x20, 0x20, 0x20, 0x20, 0x00, 0x05, 0x02, 0x2f, 0x44, 0x00, 0x04, 0x02, 0xe6, 0x18, 0x25, 0xff, 0x55, 0xef, 0x0c],
    [0x4e, 0x45, 0x43, 0x53, 0x5e, 0x9d, 0xd9, 0x76, 0x00, 0x00, 0x21, 0x92, 0x53, 0x50, 0x58, 0x20, 0x20, 0x00, 0x1b, 0x02, 0x21, 0x99, 0x00, 0x0d, 0x02, 0xe8, 0x3e, 0x99, 0xfd, 0xa7, 0xd6, 0x96],
    [0x4e, 0x45, 0x50, 0x42, 0x5e, 0x9d, 0xd9, 0x7f, 0x00, 0x00, 0x26, 0x13, 0x53, 0x50, 0x59, 0x20, 0x20, 0x00, 0x04, 0x01, 0x26, 0x0d, 0x00, 0x0b, 0x02, 0xe9, 0x64, 0xdc, 0x74, 0x85, 0x7f, 0xb3],
    [0x4e, 0x45, 0x43, 0x42, 0x5e, 0x9d, 0xd9, 0x91, 0x00, 0x00, 0x1e, 0x76, 0x53, 0x50, 0x59, 0x20, 0x20, 0x00, 0x10, 0x02, 0x1e, 0x6a, 0x00, 0x0b, 0x02, 0xed, 0xca, 0x90, 0x7c, 0xeb, 0x38, 0x26],
    [0x4e, 0x45, 0x50, 0x53, 0x5e, 0x9d, 0xd9, 0x9a, 0x00, 0x00, 0x20, 0x53, 0x45, 0x53, 0x20, 0x20, 0x20, 0x00, 0x0a, 0x02, 0x20, 0x4a, 0x00, 0x07, 0x02, 0xf1, 0x44, 0x62, 0x40, 0x7f, 0xdb, 0xbd],
    [0x4e, 0x45, 0x43, 0x53, 0x5e, 0x9d, 0xd9, 0xa2, 0x00, 0x00, 0x29, 0x2e, 0x4e, 0x46, 0x4c, 0x58, 0x20, 0x00, 0x05, 0x02, 0x29, 0x3b, 0x00, 0x07, 0x02, 0xf2, 0x52, 0xc6, 0xf1, 0x5d, 0x30, 0xc4],
    [0x4e, 0x45, 0x43, 0x53, 0x5e, 0x9d, 0xd9, 0xa9, 0x00, 0x00, 0x0c, 0xe2, 0x46, 0x20, 0x20, 0x20, 0x20, 0x00, 0x0c, 0x02, 0x0c, 0xf3, 0x00, 0x05, 0x02, 0xf2, 0xe0, 0xa6, 0x3e, 0x50, 0x6c, 0x0b],
    [0x4e, 0x45, 0x43, 0x53, 0x5e, 0x9d, 0xd9, 0xb5, 0x00, 0x00, 0x01, 0xce, 0x4e, 0x46, 0x4c, 0x58, 0x20, 0x00, 0x05, 0x02, 0x01, 0xcb, 0x00, 0x0d, 0x02, 0xf8, 0xae, 0xbb, 0xa1, 0x56, 0x94, 0x65],
    [0x4e, 0x45, 0x50, 0x42, 0x5e, 0x9d, 0xd9, 0xbe, 0x00, 0x00, 0x30, 0xd9, 0x53, 0x50, 0x59, 0x20, 0x20, 0x00, 0x0a, 0x02, 0x30, 0xe1, 0x00, 0x05, 0x02, 0xf9, 0x8e, 0x0d, 0x6b, 0x99, 0x90, 0x73],
    [0x41, 0x65, 0x50, 0x42, 0x5e, 0x9d, 0xd9, 0xc2, 0x00, 0x00, 0x32, 0xd7, 0x45, 0x53, 0x20, 0x20, 0x20, 0x00, 0x11, 0x01, 0x32, 0xe2, 0x00, 0x06, 0x02, 0xfb, 0xd1, 0x39, 0xa9, 0x26, 0xc1, 0x56],
    [0x4e, 0x45, 0x43, 0x53, 0x5e, 0x9d, 0xd9, 0xcc, 0x00, 0x00, 0x08, 0x40, 0x4e, 0x46, 0x4c, 0x58, 0x20, 0x00, 0x0c, 0x02, 0x08, 0x43, 0x00, 0x08, 0x02, 0xfd, 0xa0, 0x6d, 0xbc, 0x76, 0x2f, 0xf3],
    [0x4e, 0x45, 0x50, 0x53, 0x5e, 0x9d, 0xd9, 0xd4, 0x00, 0x00, 0x0b, 0x08, 0x53, 0x50, 0x59, 0x20, 0x20, 0x00, 0x1a, 0x02, 0x0a, 0xf7, 0x00, 0x0a, 0x02, 0xfe, 0xbb, 0x71, 0xd1, 0x61, 0x2c, 0x03],
    [0x4e, 0x45, 0x43, 0x42, 0x5e, 0x9d, 0xd9, 0xda, 0x00, 0x00, 0x36, 0x0b, 0x59, 0x4d, 0x20, 0x20, 0x20, 0x00, 0x1a, 0x02, 0x36, 0x03, 0x00, 0x09, 0x03, 0x01, 0x9b, 0x8c, 0x7f, 0x04, 0x10, 0x62],
    [0x4e, 0x45, 0x43, 0x42, 0x5e, 0x9d, 0xd9, 0xe0, 0x00, 0x00, 0x12, 0xe5, 0x59, 0x4d, 0x20, 0x20, 0x20, 0x00, 0x21, 0x01, 0x12, 0xf1, 0x00, 0x07, 0x03, 0x04, 0x71, 0xba, 0x67, 0x82, 0xc6, 0x63],
    [0x4e, 0x45, 0x50, 0x53, 0x5e, 0x9d, 0xd9, 0xea, 0x00, 0x00, 0x2e, 0xf1, 0x41, 0x41, 0x50, 0x4c, 0x20, 0x00, 0x1c, 0x02, 0x2e, 0xf2, 0x00, 0x0a, 0x03, 0x07, 0x36, 0x30, 0x37, 0x71, 0x2b, 0x17],
    [0x4e, 0x45, 0x50, 0x53, 0x5e, 0x9d, 0xd9, 0xf3, 0x00, 0x00, 0x0e, 0x74, 0x4e, 0x46, 0x4c, 0x58, 0x20, 0x00, 0x08, 0x02, 0x0e, 0x74, 0x00, 0x03, 0x03, 0x08, 0x92, 0x43, 0xd5, 0x51, 0x6b, 0x94],
    [0x4e, 0x45, 0x43, 0x42, 0x5e, 0x9d, 0xd9, 0xf7, 0x00, 0x00, 0x11, 0xa8, 0x53, 0x50, 0x59, 0x20, 0x20, 0x00, 0x09, 0x01, 0x11, 0xb0, 0x00, 0x0c, 0x03, 0x0a, 0x68, 0xea, 0xf1, 0x7e, 0x78, 0xbc],
    [0x49, 0x67, 0x50, 0x53, 0x5e, 0x9d, 0xd9, 0xfc, 0x00, 0x00, 0x1e, 0x41, 0x47, 0x4f, 0x4f, 0x47, 0x4c, 0x00, 0x20, 0x02, 0x1e, 0x2f, 0x00, 0x03, 0x03, 0x0d, 0x7c, 0x47, 0x30, 0x04, 0xcc, 0x60],
    [0x4e, 0x45, 0x50, 0x53, 0x5e, 0x9d, 0xda, 0x04, 0x00, 0x00, 0x29, 0xa2, 0x4e, 0x46, 0x4c, 0x58, 0x20, 0x00, 0x0f, 0x02, 0x29, 0xa8, 0x00, 0x03, 0x03, 0x0e, 0xa7, 0xec, 0x39, 0xa5, 0xaa, 0x04],
    [0x4e, 0x45, 0x50, 0x53, 0x5e, 0x9d, 0xda, 0x0a, 0x00, 0x00, 0x1c, 0xcd, 0x45, 0x53, 0x20, 0x20, 0x20, 0x00, 0x21, 0x02, 0x1c, 0xc6, 0x00, 0x08, 0x03, 0x10, 0x55, 0xfc, 0x22, 0x93, 0xfa, 0x24],
    [0x4e, 0x45, 0x43, 0x42, 0x5e, 0x9d, 0xda, 0x0d, 0x00, 0x00, 0x0a, 0x07, 0x57, 0x54, 0x49, 0x20, 0x20, 0x00, 0x17, 0x01, 0x09, 0xff, 0x00, 0x0d, 0x03, 0x12, 0xbd, 0x2c, 0x0a, 0x1c, 0x4c, 0x8e],
    [0x4e, 0x45, 0x50, 0x42, 0x5e, 0x9d, 0xda, 0x16, 0x00, 0x00, 0x2d, 0x6c, 0x57, 0x54, 0x49, 0x20, 0x20, 0x00, 0x08, 0x02, 0x2d, 0x72, 0x00, 0x03, 0x03, 0x16, 0x0f, 0x85, 0x86, 0x02, 0x46, 0xc4],
    [0x4e, 0x45, 0x43, 0x53, 0x5e, 0x9d, 0xda, 0x20, 0x00, 0x00, 0x14, 0x09, 0x59, 0x4d, 0x20, 0x20, 0x20, 0x00, 0x1b, 0x02, 0x13, 0xf5, 0x00, 0x05, 0x03, 0x16, 0xc9, 0x7f, 0x7f, 0x05, 0xff, 0xfa],
    [0x4e, 0x45, 0x43, 0x53, 0x5e, 0x9d, 0xda, 0x33, 0x00, 0x00, 0x15, 0x2e, 0x46, 0x20, 0x20, 0x20, 0x20, 0x00, 0x1a, 0x01, 0x15, 0x32, 0x00, 0x06, 0x03, 0x19, 0x4e, 0x67, 0xe5, 0xf9, 0xe9, 0x87],
    [0x4e, 0x45, 0x43, 0x53, 0x5e, 0x9d, 0xda, 0x38, 0x00, 0x00, 0x28, 0x27, 0x53, 0x50, 0x59, 0x20, 0x20, 0x00, 0x15, 0x01, 0x28, 0x17, 0x00, 0x0a, 0x03, 0x1c, 0x2e, 0x80, 0x06, 0x0f, 0x79, 0x78],
    [0x4e, 0x45, 0x43, 0x53, 0x5e, 0x9d, 0xda, 0x3f, 0x00, 0x00, 0x18, 0x7d, 0x41, 0x41, 0x50, 0x4c, 0x20, 0x00, 0x05, 0x01, 0x18, 0x84, 0x00, 0x03, 0x03, 0x1c, 0x9c, 0x00, 0x09, 0xa6, 0xe7, 0x5e],
    [0x4e, 0x45, 0x50, 0x53, 0x5e, 0x9d, 0xda, 0x43, 0x00, 0x00, 0x01, 0xf9, 0x53, 0x50, 0x59, 0x20, 0x20, 0x00, 0x10, 0x02, 0x01, 0xe8, 0x00, 0x06, 0x03, 0x1f, 0xc5, 0x4c, 0x31, 0xa5, 0x35, 0x86],
    [0x4e, 0x45, 0x50, 0x42, 0x5e, 0x9d, 0xda, 0x49, 0x00, 0x00, 0x2c, 0xe5, 0x59, 0x4d, 0x20, 0x20, 0x20, 0x00, 0x15, 0x01, 0x2c, 0xef, 0x00, 0x06, 0x03, 0x21, 0xd4, 0xca, 0x1d, 0x10, 0x28, 0xc4],
    [0x4e, 0x45, 0x50, 0x42, 0x5e, 0x9d, 0xda, 0x4d, 0x00, 0x00, 0x33, 0x6a, 0x45, 0x53, 0x20, 0x20, 0x20, 0x00, 0x03, 0x02, 0x33, 0x62, 0x00, 0x04, 0x03, 0x24, 0x60, 0x73, 0x89, 0xbe, 0x6d, 0x38],
    [0x4e, 0x45, 0x43, 0x42, 0x5e, 0x9d, 0xda, 0x50, 0x00, 0x00, 0x06, 0x42, 0x41, 0x41, 0x50, 0x4c, 0x20, 0x00, 0x11, 0x02, 0x06, 0x49, 0x00, 0x0c, 0x03, 0x27, 0x0c, 0x85, 0x3b, 0x53, 0x33, 0x95],
    [0x4e, 0x45, 0x43, 0x53, 0x5e, 0x9d, 0xda, 0x62, 0x00, 0x00, 0x0a, 0x98, 0x53, 0x50, 0x59, 0x20, 0x20, 0x00, 0x1d, 0x01, 0x0a, 0x8b, 0x00, 0x05, 0x03, 0x2a, 0x7f, 0xdd, 0xea, 0xe0, 0x8e, 0xca],
    [0x4e, 0x45, 0x50, 0x42, 0x5e, 0x9d, 0xda, 0x69, 0x00, 0x00, 0x2d, 0x23, 0x41, 0x41, 0x50, 0x4c, 0x20, 0x00, 0x0c, 0x02, 0x2d, 0x2e, 0x00, 0x04, 0x03, 0x2d, 0xee, 0x22, 0x27, 0xe8, 0xc3, 0xde],
    [0x4e, 0x45, 0x50, 0x53, 0x5e, 0x9d, 0xda, 0x73, 0x00, 0x00, 0x2e, 0x6d, 0x59, 0x4d, 0x20, 0x20, 0x20, 0x00, 0x10, 0x01, 0x2e, 0x6d, 0x00, 0x0b, 0x03, 0x34, 0x7b, 0x3e, 0x50, 0x15, 0x2f, 0x90],
    [0x4e, 0x45, 0x43, 0x42, 0x5e, 0x9d, 0xda, 0x7b, 0x00, 0x00, 0x14, 0xef, 0x47, 0x4f, 0x4f, 0x47, 0x4c, 0x00, 0x03, 0x02, 0x14, 0xe3, 0x00, 0x04, 0x03, 0x36, 0x6e, 0x9a, 0x1a, 0xc8, 0x04, 0x3f],
    [0x4e, 0x45, 0x43, 0x53, 0x5e, 0x9d, 0xda, 0x7e, 0x00, 0x00, 0x01, 0xe0, 0x46, 0x20, 0x20, 0x20, 0x20, 0x00, 0x06, 0x02, 0x01, 0xe6, 0x00, 0x0d, 0x03, 0x37, 0x13, 0xea, 0xbe, 0xb0, 0x60, 0x92],
    [0x4e, 0x45, 0x50, 0x42, 0x5e, 0x9d, 0xda, 0x83, 0x00, 0x00, 0x05, 0xa3, 0x53, 0x50, 0x59, 0x20, 0x20, 0x00, 0x0f, 0x01, 0x05, 0x9f, 0x00, 0x02, 0x03, 0x39, 0xc7, 0x41, 0x1a, 0x13, 0x72, 0x2a],
    [0x4e, 0x45, 0x50, 0x42, 0x5e, 0x9d, 0xda, 0x86, 0x00, 0x00, 0x14, 0x37, 0x59, 0x4d, 0x20, 0x20, 0x20, 0x00, 0x18, 0x01, 0x14, 0x2e, 0x00, 0x08, 0x03, 0x3c, 0x4f, 0x88, 0x79, 0x04, 0xda, 0x26],
    [0x4e, 0x45, 0x50, 0x53, 0x5e, 0x9d, 0xda, 0x8f, 0x00, 0x00, 0x10, 0x04, 0x59, 0x4d, 0x20, 0x20, 0x20, 0x00, 0x15, 0x01, 0x0f, 0xff, 0x00, 0x05, 0x03, 0x3f, 0xa4, 0x50, 0x40, 0x11, 0xc5, 0x24],
    [0x4e, 0x45, 0x50, 0x42, 0x5e, 0x9d, 0xda, 0x97, 0x00, 0x00, 0x21, 0x1a, 0x4e, 0x46, 0x4c, 0x58, 0x20, 0x00, 0x20, 0x01, 0x21, 0x1c, 0x00, 0x03, 0x03, 0x41, 0x4b, 0x7b, 0x68, 0x31, 0xe2, 0xf5],
    [0x4e, 0x45, 0x50, 0x53, 0x5e, 0x9d, 0xda, 0xa1, 0x00, 0x00, 0x09, 0x02, 0x4e, 0x46, 0x4c, 0x58, 0x20, 0x00, 0x18, 0x01, 0x09, 0x0f, 0x00, 0x02, 0x03, 0x44, 0xa1, 0x33, 0xa7, 0x9c, 0x6c, 0xf0],
    [0x4e, 0x45, 0x43, 0x42, 0x5e, 0x9d, 0xda, 0xa7, 0x00, 0x00, 0x10, 0x28, 0x53, 0x50, 0x58, 0x20, 0x20, 0x00, 0x1d, 0x02, 0x10, 0x30, 0x00, 0x04, 0x03, 0x45, 0x29, 0xed, 0x0a, 0x91, 0x21, 0x43],
    [0x4e, 0x45, 0x43, 0x53, 0x5e, 0x9d, 0xda, 0xb1, 0x00, 0x00, 0x10, 0xf4, 0x45, 0x53, 0x20, 0x20, 0x20, 0x00, 0x05, 0x02, 0x10, 0xf8, 0x00, 0x0b, 0x03, 0x48, 0x41, 0x4f, 0x3d, 0xe2, 0x2d, 0x40],
    [0x4e, 0x45, 0x43, 0x42, 0x5e, 0x9d, 0xda, 0xb9, 0x00, 0x00, 0x1b, 0x6e, 0x41, 0x41, 0x50, 0x4c, 0x20, 0x00, 0x05, 0x01, 0x1b, 0x79, 0x00, 0x07, 0x03, 0x4a, 0x3f, 0x2b, 0xa1, 0xa2, 0x07, 0xd1],
    [0x4e, 0x45, 0x43, 0x53, 0x5e, 0x9d, 0xda, 0xcb, 0x00, 0x00, 0x18, 0x8f, 0x46, 0x20, 0x20, 0x20, 0x20, 0x00, 0x16, 0x01, 0x18, 0x9d, 0x00, 0x06, 0x03, 0x4d, 0x4c, 0xd4, 0xa0, 0xd6, 0x74, 0x2a],
    [0x4e, 0x45, 0x43, 0x42, 0x5e, 0x9d, 0xda, 0xd8, 0x00, 0x00, 0x04, 0x89, 0x45, 0x53, 0x20, 0x20, 0x20, 0x00, 0x07, 0x02, 0x04, 0x97, 0x00, 0x07, 0x03, 0x4f, 0xe6, 0x82, 0xfb, 0x30, 0x8f, 0xfe],
    [0x4e, 0x45, 0x50, 0x42, 0x5e, 0x9d, 0xda, 0xe1, 0x00, 0x00, 0x02, 0xb4, 0x46, 0x20, 0x20, 0x20, 0x20, 0x00, 0x15, 0x02, 0x02, 0xc5, 0x00, 0x02, 0x03, 0x52, 0x8a, 0xc2, 0xd8, 0x8a, 0xce, 0x22],
    [0x4e, 0x45, 0x50, 0x53, 0x5e, 0x9d, 0xda, 0xe6, 0x00, 0x00, 0x2b, 0xdd, 0x45, 0x53, 0x20, 0x20, 0x20, 0x00, 0x1b, 0x01, 0x2b, 0xca, 0x00, 0x03, 0x03, 0x53, 0x00, 0x73, 0xc9, 0x62, 0x99, 0x8a],
    [0x4e, 0x45, 0x50, 0x42, 0x5e, 0x9d, 0xda, 0xea, 0x00, 0x00, 0x2c, 0xb7, 0x53, 0x50, 0x59, 0x20, 0x20, 0x00, 0x1c, 0x01, 0x2c, 0xc7, 0x00, 0x07, 0x03, 0x54, 0xd8, 0xdb, 0xbc, 0xad, 0x39, 0xf3],
    [0x4e, 0x45, 0x50, 0x53, 0x5e, 0x9d, 0xda, 0xf1, 0x00, 0x00, 0x24, 0xc1, 0x53, 0x50, 0x58, 0x20, 0x20, 0x00, 0x23, 0x02, 0x24, 0xc7, 0x00, 0x09, 0x03, 0x57, 0xd8, 0x30, 0xe6, 0x85, 0xca, 0x97],
    [0x4e, 0x45, 0x50, 0x53, 0x5e, 0x9d, 0xda, 0xf5, 0x00, 0x00, 0x10, 0x1d, 0x46, 0x20, 0x20, 0x20, 0x20, 0x00, 0x15, 0x01, 0x10, 0x2f, 0x00, 0x09, 0x03, 0x5a, 0xfb, 0x11, 0x26, 0x89, 0x37, 0xe5],
    [0x4e, 0x45, 0x50, 0x53, 0x5e, 0x9d, 0xda, 0xfb, 0x00, 0x00, 0x04, 0x03, 0x41, 0x41, 0x50, 0x4c, 0x20, 0x00, 0x0b, 0x02, 0x03, 0xf3, 0x00, 0x03, 0x03, 0x5d, 0x59, 0x7f, 0xb5, 0x39, 0xa2, 0xe3],
    [0x4e, 0x45, 0x50, 0x53, 0x5e, 0x9d, 0xda, 0xff, 0x00, 0x00, 0x1b, 0x88, 0x45, 0x53, 0x20, 0x20, 0x20, 0x00, 0x1f, 0x02, 0x1b, 0x83, 0x00, 0x0c, 0x03, 0x60, 0xbb, 0x2a, 0x8f, 0xe8, 0xa5, 0x6f],
    [0x4e, 0x45, 0x50, 0x42, 0x5e, 0x9d, 0xdb, 0x04, 0x00, 0x00, 0x38, 0x6a, 0x46, 0x20, 0x20, 0x20, 0x20, 0x00, 0x0c, 0x01, 0x38, 0x7e, 0x00, 0x03, 0x03, 0x63, 0xeb, 0x54, 0x6f, 0xdc, 0x60, 0xe0],
    [0x4e, 0x45, 0x50, 0x42, 0x5e, 0x9d, 0xdb, 0x09, 0x00, 0x00, 0x23, 0x73, 0x4e, 0x46, 0x4c, 0x58, 0x20, 0x00, 0x1d, 0x01, 0x23, 0x76, 0x00, 0x02, 0x03, 0x64, 0x96, 0x86, 0xc1, 0x7c, 0x9f, 0x57],
    [0x4e, 0x45, 0x50, 0x42, 0x5e, 0x9d, 0xdb, 0x0d, 0x00, 0x00, 0x01, 0x7b, 0x53, 0x50, 0x58, 0x20, 0x20, 0x00, 0x14, 0x02, 0x01, 0x78, 0x00, 0x02, 0x03, 0x67, 0x16, 0x27, 0x65, 0xc1, 0x93, 0x28],
    [0x4e, 0x45, 0x43, 0x42, 0x5e, 0x9d, 0xdb, 0x11, 0x00, 0x00, 0x26, 0x64, 0x45, 0x53, 0x20, 0x20, 0x20, 0x00, 0x1e, 0x02, 0x26, 0x5b, 0x00, 0x07, 0x03, 0x6a, 0x28, 0x18, 0xd9, 0xd2, 0x36, 0x97],
    [0x4e, 0x45, 0x50, 0x42, 0x5e, 0x9d, 0xdb, 0x18, 0x00, 0x00, 0x1d, 0x8e, 0x46, 0x20, 0x20, 0x20, 0x20, 0x00, 0x17, 0x02, 0x1d, 0x83, 0x00, 0x02, 0x03, 0x6d, 0x31, 0x5a, 0xbf, 0x4e, 0x2b, 0xa7],
    [0x4e, 0x45, 0x43, 0x53, 0x5e, 0x9d, 0xdb, 0x1f, 0x00, 0x00, 0x19, 0x3c, 0x46, 0x20, 0x20, 0x20, 0x20, 0x00, 0x0b, 0x01, 0x19, 0x3e, 0x00, 0x02, 0x03, 0x6f, 0x44, 0x44, 0x29, 0xa8, 0xe1, 0x62],
    [0x4e, 0x45, 0x50, 0x42, 0x5e, 0x9d, 0xdb, 0x26, 0x00, 0x00, 0x19, 0xcc, 0x45, 0x53, 0x20, 0x20, 0x20, 0x00, 0x12, 0x01, 0x19, 0xd9, 0x00, 0x09, 0x03, 0x72, 0x16, 0x5c, 0xf1, 0x10, 0x06, 0x22],
    [0x4e, 0x45, 0x43, 0x53, 0x5e, 0x9d, 0xdb, 0x30, 0x00, 0x00, 0x0e, 0x2c, 0x41, 0x41, 0x50, 0x4c, 0x20, 0x00, 0x14, 0x02, 0x0e, 0x3e, 0x00, 0x05, 0x03, 0x73, 0x35, 0x9a, 0xf9, 0x63, 0xf9, 0x52],
    [0x4e, 0x45, 0x43, 0x42, 0x5e, 0x9d, 0xdb, 0x36, 0x00, 0x00, 0x28, 0xc7, 0x53, 0x50, 0x59, 0x20, 0x20, 0x00, 0x1b, 0x01, 0x28, 0xc8, 0x00, 0x02, 0x03, 0x75, 0x5f, 0x85, 0x48, 0x58, 0x66, 0x07],
    [0x4e, 0x45, 0x50, 0x42, 0x5e, 0x9d, 0xdb, 0x3d, 0x00, 0x00, 0x01, 0xbe, 0x4e, 0x46, 0x4c, 0x58, 0x20, 0x00, 0x0f, 0x01, 0x01, 0xbc, 0x00, 0x03, 0x03, 0x77, 0x6d, 0xa1, 0x44, 0x19, 0xbc, 0x81],
    [0x4e, 0x45, 0x43, 0x42, 0x5e, 0x9d, 0xdb, 0x45, 0x00, 0x00, 0x0f, 0xe3, 0x47, 0x4f, 0x4f, 0x47, 0x4c, 0x00, 0x17, 0x01, 0x0f, 0xe6, 0x00, 0x04, 0x03, 0x79, 0xd9, 0x81, 0xca, 0x63, 0x07, 0x35],
    [0x4e, 0x45, 0x50, 0x53, 0x5e, 0x9d, 0xdb, 0x4d, 0x00, 0x00, 0x12, 0xdc, 0x47, 0x4f, 0x4f, 0x47, 0x4c, 0x00, 0x05, 0x02, 0x12, 0xd4, 0x00, 0x03, 0x03, 0x7c, 0x46, 0xf0, 0x35, 0x3b, 0xbb, 0x7e],
    [0x4e, 0x45, 0x50, 0x42, 0x5e, 0x9d, 0xdb, 0x55, 0x00, 0x00, 0x0d, 0xbb, 0x45, 0x53, 0x20, 0x20, 0x20, 0x00, 0x1b, 0x01, 0x0d, 0xab, 0x00, 0x0a, 0x03, 0x7c, 0xbd, 0x1a, 0xa4, 0x92, 0x6b, 0xbb],
    [0x4e, 0x45, 0x43, 0x42, 0x5e, 0x9d, 0xdb, 0x5d, 0x00, 0x00, 0x3a, 0x4c, 0x59, 0x4d, 0x20, 0x20, 0x20, 0x00, 0x1a, 0x01, 0x3a, 0x50, 0x00, 0x05, 0x03, 0x7e, 0x9b, 0x8a, 0x6f, 0x22, 0x13, 0x12],
    [0x4e, 0x45, 0x43, 0x53, 0x5e, 0x9d, 0xdb, 0x63, 0x00, 0x00, 0x03, 0xd1, 0x53, 0x50, 0x58, 0x20, 0x20, 0x00, 0x10, 0x01, 0x03, 0xe0, 0x00, 0x08, 0x03, 0x7f, 0xe0, 0x54, 0x65, 0xcd, 0xe7, 0xda],
    [0x4e, 0x45, 0x50, 0x53, 0x5e, 0x9d, 0xdb, 0x67, 0x00, 0x00, 0x1d, 0xcb, 0x53, 0x50, 0x59, 0x20, 0x20, 0x00, 0x06, 0x01, 0x1d, 0xbb, 0x00, 0x05, 0x03, 0x81, 0x1d, 0x34, 0x17, 0x60, 0x68, 0xd1],
    [0x4e, 0x45, 0x50, 0x42, 0x5e, 0x9d, 0xdb, 0x6f, 0x00, 0x00, 0x12, 0xb6, 0x46, 0x20, 0x20, 0x20, 0x20, 0x00, 0x16, 0x01, 0x12, 0xa3, 0x00, 0x07, 0x03, 0x82, 0x47, 0x77, 0x64, 0x31, 0xcc, 0x61],
    [0x4e, 0x45, 0x43, 0x42, 0x5e, 0x9d, 0xdb, 0x76, 0x00, 0x00, 0x02, 0x28, 0x59, 0x4d, 0x20, 0x20, 0x20, 0x00, 0x03, 0x01, 0x02, 0x1c, 0x00, 0x0a, 0x03, 0x85, 0x1a, 0xd1, 0x03, 0x3e, 0xa1, 0xb9],
    [0x4e, 0x45, 0x50, 0x53, 0x5e, 0x9d, 0xdb, 0x83, 0x00, 0x00, 0x24, 0x39, 0x57, 0x54, 0x49, 0x20, 0x20, 0x00, 0x11, 0x01, 0x24, 0x4c, 0x00, 0x04, 0x03, 0x89, 0x67, 0x6b, 0x0b, 0x4d, 0x9e, 0x23],
    [0x4e, 0x45, 0x50, 0x53, 0x5e, 0x9d, 0xdb, 0x8b, 0x00, 0x00, 0x21, 0xe0, 0x46, 0x20, 0x20, 0x20, 0x20, 0x00, 0x1e, 0x02, 0x21, 0xe8, 0x00, 0x09, 0x03, 0x8c, 0x7f, 0x0c, 0x48, 0xdc, 0x0c, 0xa0],
    [0x4e, 0x45, 0x43, 0x53, 0x5e, 0x9d, 0xdb, 0x8f, 0x00, 0x00, 0x0f, 0x38, 0x4e, 0x46, 0x4c, 0x58, 0x20, 0x00, 0x23, 0x02, 0x0f, 0x3b, 0x00, 0x02, 0x03, 0x8f, 0x26, 0x7a, 0xec, 0xda, 0x4a, 0x94],
    [0x4e, 0x45, 0x43, 0x53, 0x5e, 0x9d, 0xdb, 0x98, 0x00, 0x00, 0x19, 0x27, 0x4e, 0x46, 0x4c, 0x58, 0x20, 0x00, 0x14, 0x01, 0x19, 0x26, 0x00, 0x02, 0x03, 0x91, 0x18, 0x77, 0x95, 0x22, 0x37, 0x1e],
    [0x4e, 0x45, 0x43, 0x53, 0x5e, 0x9d, 0xdb, 0xac, 0x00, 0x00, 0x25, 0x17, 0x47, 0x4f, 0x4f, 0x47, 0x4c, 0x00, 0x0d, 0x02, 0x25, 0x0e, 0x00, 0x0b, 0x03, 0x97, 0xb9, 0x7f, 0x79, 0xca, 0x16, 0xc9],
    [0x4e, 0x45, 0x43, 0x53, 0x5e, 0x9d, 0xdb, 0xb7, 0x00, 0x00, 0x28, 0x58, 0x46, 0x20, 0x20, 0x20, 0x20, 0x00, 0x20, 0x02, 0x28, 0x68, 0x00, 0x08, 0x03, 0x99, 0x2c, 0x40, 0x97, 0x21, 0xe8, 0xc9],
    [0x4e, 0x45, 0x43, 0x53, 0x5e, 0x9d, 0xdb, 0xba, 0x00, 0x00, 0x2b, 0x68, 0x53, 0x50, 0x59, 0x20, 0x20, 0x00, 0x14, 0x02, 0x2b, 0x77, 0x00, 0x02, 0x03, 0x9c, 0x37, 0x9a, 0x14, 0x6f, 0x8b, 0xad]]"

definition raw_rows_4 :: "u8 list list" where
  "raw_rows_4 = [
    [0x4e, 0x45, 0x43, 0x53, 0x5e, 0x9d, 0xdb, 0xc3, 0x00, 0x00, 0x2d, 0x3c, 0x46, 0x20, 0x20, 0x20, 0x20, 0x00, 0x22, 0x02, 0x2d, 0x3b, 0x00, 0x03, 0x03, 0x9c, 0xb4, 0x1e, 0x63, 0xab, 0xbc, 0xe9],
    [0x4e, 0x45, 0x43, 0x42, 0x5e, 0x9d, 0xdb, 0xc6, 0x00, 0x00, 0x0e, 0x1c, 0x41, 0x41, 0x50, 0x4c, 0x20, 0x00, 0x11, 0x02, 0x0e, 0x1f, 0x00, 0x0a, 0x03, 0x9d, 0x78, 0x5e, 0xf1, 0xfe, 0x7f, 0x65],
    [0x4e, 0x45, 0x50, 0x53, 0x5e, 0x9d, 0xdb, 0xd0, 0x00, 0x00, 0x0b, 0x69, 0x4e, 0x46, 0x4c, 0x58, 0x20, 0x00, 0x06, 0x02, 0x0b, 0x7d, 0x00, 0x06, 0x03, 0x9f, 0xf9, 0xd3, 0x5b, 0x87, 0x2e, 0x18],
    [0x4e, 0x45, 0x50, 0x53, 0x5e, 0x9d, 0xdb, 0xd5, 0x00, 0x00, 0x07, 0x44, 0x41, 0x41, 0x50, 0x4c, 0x20, 0x00, 0x0f, 0x01, 0x07, 0x4f, 0x00, 0x09, 0x03, 0xa0, 0x79, 0x0d, 0x16, 0xb3, 0xaa, 0x7f],
    [0x4e, 0x45, 0x50, 0x53, 0x5e, 0x9d, 0xdb, 0xd8, 0x00, 0x00, 0x13, 0x65, 0x4e, 0x46, 0x4c, 0x58, 0x20, 0x00, 0x08, 0x01, 0x13, 0x56, 0x00, 0x02, 0x03, 0xa3, 0x73, 0xb3, 0x0e, 0x92, 0x83, 0x3b],
    [0x4e, 0x45, 0x43, 0x53, 0x5e, 0x9d, 0xdb, 0xdb, 0x00, 0x00, 0x2e, 0x23, 0x59, 0x4d, 0x20, 0x20, 0x20, 0x00, 0x11, 0x01, 0x2e, 0x22, 0x00, 0x0c, 0x03, 0xa4, 0x47, 0x51, 0xd7, 0xdb, 0x59, 0x31],
    [0x4e, 0x45, 0x50, 0x42, 0x5e, 0x9d, 0xdb, 0xe3, 0x00, 0x00, 0x21, 0xcf, 0x46, 0x20, 0x20, 0x20, 0x20, 0x00, 0x20, 0x01, 0x21, 0xcf, 0x00, 0x08, 0x03, 0xa6, 0x7e, 0x5d, 0x7a, 0x4e, 0x14, 0x7b],
    [0x4e, 0x45, 0x43, 0x42, 0x5e, 0x9d, 0xdb, 0xe8, 0x00, 0x00, 0x11, 0xb6, 0x47, 0x4f, 0x4f, 0x47, 0x4c, 0x00, 0x14, 0x02, 0x11, 0xb6, 0x00, 0x06, 0x03, 0xa9, 0x94, 0x44, 0x7b, 0xd0, 0x17, 0x54],
    [0x4e, 0x45, 0x43, 0x53, 0x5e, 0x9d, 0xdb, 0xeb, 0x00, 0x00, 0x24, 0xb1, 0x59, 0x4d, 0x20, 0x20, 0x20, 0x00, 0x0d, 0x01, 0x24, 0xa0, 0x00, 0x06, 0x03, 0xaa, 0x7e, 0xcb, 0xe6, 0x67, 0x01, 0x6a],
    [0x4e, 0x45, 0x43, 0x42, 0x5e, 0x9d, 0xdb, 0xee, 0x00, 0x00, 0x1a, 0x56, 0x45, 0x53, 0x20, 0x20, 0x20, 0x00, 0x15, 0x02, 0x1a, 0x66, 0x00, 0x05, 0x03, 0xab, 0xaf, 0x82, 0xe9, 0xea, 0x54, 0x10],
    [0x4e, 0x45, 0x43, 0x53, 0x5e, 0x9d, 0xdb, 0xf3, 0x00, 0x00, 0x2a, 0x12, 0x53, 0x50, 0x58, 0x20, 0x20, 0x00, 0x0a, 0x02, 0x2a, 0x22, 0x00, 0x05, 0x03, 0xac, 0x4b, 0xe3, 0x3c, 0xfb, 0x50, 0x96],
    [0x4e, 0x45, 0x50, 0x53, 0x5e, 0x9d, 0xdb, 0xfc, 0x00, 0x00, 0x01, 0x50, 0x59, 0x4d, 0x20, 0x20, 0x20, 0x00, 0x20, 0x02, 0x01, 0x53, 0x00, 0x02, 0x03, 0xae, 0x0b, 0x6e, 0x35, 0x35, 0xa2, 0xa7],
    [0x4e, 0x45, 0x50, 0x53, 0x5e, 0x9d, 0xdc, 0x00, 0x00, 0x00, 0x23, 0xd6, 0x53, 0x50, 0x59, 0x20, 0x20, 0x00, 0x20, 0x01, 0x23, 0xdf, 0x00, 0x03, 0x03, 0xb0, 0xb4, 0x82, 0x3e, 0xcc, 0x3f, 0xbd],
    [0x4e, 0x45, 0x43, 0x53, 0x5e, 0x9d, 0xdc, 0x05, 0x00, 0x00, 0x16, 0x47, 0x4e, 0x46, 0x4c, 0x58, 0x20, 0x00, 0x1a, 0x01, 0x16, 0x49, 0x00, 0x03, 0x03, 0xb2, 0x7b, 0x6b, 0x0c, 0x40, 0x80, 0x08],
    [0x4e, 0x45, 0x43, 0x42, 0x5e, 0x9d, 0xdc, 0x0d, 0x00, 0x00, 0x39, 0xae, 0x46, 0x20, 0x20, 0x20, 0x20, 0x00, 0x1d, 0x01, 0x39, 0xbc, 0x00, 0x02, 0x03, 0xb4, 0x44, 0xf8, 0x69, 0x6f, 0xf0, 0xff],
    [0x4e, 0x45, 0x50, 0x42, 0x5e, 0x9d, 0xdc, 0x11, 0x00, 0x00, 0x1d, 0xa1, 0x59, 0x4d, 0x20, 0x20, 0x20, 0x00, 0x14, 0x01, 0x1d, 0x95, 0x00, 0x06, 0x03, 0xb7, 0x25, 0xaa, 0xbb, 0xa4, 0x93, 0xa3],
    [0x4e, 0x45, 0x50, 0x53, 0x5e, 0x9d, 0xdc, 0x16, 0x00, 0x00, 0x3a, 0x62, 0x47, 0x4f, 0x4f, 0x47, 0x4c, 0x00, 0x13, 0x01, 0x3a, 0x58, 0x00, 0x08, 0x03, 0xb8, 0xcc, 0xaa, 0x79, 0x6c, 0x2f, 0x20],
    [0x4e, 0x45, 0x50, 0x42, 0x5e, 0x9d, 0xdc, 0x20, 0x00, 0x00, 0x11, 0xb8, 0x47, 0x4f, 0x4f, 0x47, 0x4c, 0x00, 0x07, 0x02, 0x11, 0xbe, 0x00, 0x03, 0x03, 0xb9, 0xfa, 0xfb, 0x00, 0x16, 0x3b, 0xe8],
    [0x4e, 0x45, 0x43, 0x42, 0x5e, 0x9d, 0xdc, 0x27, 0x00, 0x00, 0x1d, 0x38, 0x4e, 0x46, 0x4c, 0x58, 0x20, 0x00, 0x23, 0x02, 0x1d, 0x3a, 0x00, 0x0c, 0x03, 0xbb, 0xbe, 0x3f, 0xe3, 0x99, 0x9a, 0x79],
    [0x59, 0x6e, 0x43, 0x53, 0x5e, 0x9d, 0xdc, 0x2d, 0x00, 0x00, 0x37, 0xf5, 0x53, 0x50, 0x59, 0x20, 0x20, 0x00, 0x1d, 0x01, 0x37, 0xf8, 0x00, 0x0b, 0x03, 0xbd, 0x13, 0x4b, 0xdb, 0x70, 0x39, 0x88],
    [0x4e, 0x45, 0x50, 0x53, 0x5e, 0x9d, 0xdc, 0x32, 0x00, 0x00, 0x29, 0x1e, 0x4e, 0x46, 0x4c, 0x58, 0x20, 0x00, 0x22, 0x02, 0x29, 0x0d, 0x00, 0x0a, 0x03, 0xbe, 0x38, 0x9f, 0x1a, 0xbe, 0x7b, 0x45],
    [0x4e, 0x45, 0x50, 0x53, 0x5e, 0x9d, 0xdc, 0x3c, 0x00, 0x00, 0x02, 0xef, 0x53, 0x50, 0x59, 0x20, 0x20, 0x00, 0x08, 0x02, 0x02, 0xff, 0x00, 0x06, 0x03, 0xc0, 0xe4, 0x11, 0x43, 0xc3, 0x3c, 0x71],
    [0x4e, 0x45, 0x43, 0x53, 0x5e, 0x9d, 0xdc, 0x42, 0x00, 0x00, 0x05, 0xe0, 0x47, 0x4f, 0x4f, 0x47, 0x4c, 0x00, 0x1c, 0x02, 0x05, 0xe1, 0x00, 0x0d, 0x03, 0xc2, 0xa3, 0xde, 0x01, 0xc0, 0xb0, 0x8f],
    [0x4e, 0x45, 0x50, 0x42, 0x5e, 0x9d, 0xdc, 0x48, 0x00, 0x00, 0x12, 0xe2, 0x53, 0x50, 0x58, 0x20, 0x20, 0x00, 0x13, 0x02, 0x12, 0xea, 0x00, 0x07, 0x03, 0xc5, 0xac, 0x63, 0x3f, 0xc1, 0x00, 0x08],
    [0x4e, 0x45, 0x50, 0x42, 0x5e, 0x9d, 0xdc, 0x4f, 0x00, 0x00, 0x15, 0x10, 0x4e, 0x46, 0x4c, 0x58, 0x20, 0x00, 0x11, 0x01, 0x15, 0x05, 0x00, 0x05, 0x03, 0xc8, 0x93, 0x40, 0x49, 0x51, 0x68, 0x1f],
    [0x4e, 0x45, 0x50, 0x53, 0x5e, 0x9d, 0xdc, 0x5e, 0x00, 0x00, 0x34, 0xa9, 0x41, 0x41, 0x50, 0x4c, 0x20, 0x00, 0x0b, 0x01, 0x34, 0xa0, 0x00, 0x08, 0x03, 0xcc, 0x2c, 0xbe, 0xa0, 0xa6, 0xa7, 0x98],
    [0x4e, 0x45, 0x43, 0x42, 0x5e, 0x9d, 0xdc, 0x6f, 0x00, 0x00, 0x27, 0x20, 0x59, 0x4d, 0x20, 0x20, 0x20, 0x00, 0x04, 0x02, 0x27, 0x1d, 0x00, 0x07, 0x03, 0xcf, 0x00, 0xd1, 0x3d, 0xed, 0x9e, 0xde],
    [0x4e, 0x45, 0x50, 0x53, 0x5e, 0x9d, 0xdc, 0x73, 0x00, 0x00, 0x31, 0xac, 0x59, 0x4d, 0x20, 0x20, 0x20, 0x00, 0x16, 0x01, 0x31, 0xa5, 0x00, 0x03, 0x03, 0xd0, 0x84, 0x8b, 0x6a, 0x3b, 0x61, 0xb7],
    [0x4e, 0x45, 0x50, 0x42, 0x5e, 0x9d, 0xdc, 0x7b, 0x00, 0x00, 0x2e, 0x25, 0x47, 0x4f, 0x4f, 0x47, 0x4c, 0x00, 0x1e, 0x01, 0x2e, 0x13, 0x00, 0x05, 0x03, 0xd1, 0x7c, 0x59, 0x4c, 0xb0, 0xd2, 0x8e],
    [0x4e, 0x45, 0x50, 0x42, 0x5e, 0x9d, 0xdc, 0x89, 0x00, 0x00, 0x29, 0x24, 0x59, 0x4d, 0x20, 0x20, 0x20, 0x00, 0x1d, 0x01, 0x29, 0x26, 0x00, 0x08, 0x03, 0xd4, 0xc7, 0xed, 0x7a, 0x43, 0xf2, 0x71],
    [0x4e, 0x45, 0x43, 0x53, 0x5e, 0x9d, 0xdc, 0x8c, 0x00, 0x00, 0x3a, 0x46, 0x47, 0x4f, 0x4f, 0x47, 0x4c, 0x00, 0x17, 0x01, 0x3a, 0x52, 0x00, 0x0d, 0x03, 0xd5, 0xbb, 0xac, 0xf6, 0xe1, 0xa9, 0x45],
    [0x4e, 0x70, 0x43, 0x42, 0x5e, 0x9d, 0xdc, 0x93, 0x00, 0x00, 0x0e, 0xe5, 0x47, 0x4f, 0x4f, 0x47, 0x4c, 0x00, 0x0a, 0x02, 0x0e, 0xd3, 0x00, 0x04, 0x03, 0xd7, 0xa7, 0x5c, 0x35, 0xb6, 0x4c, 0x9a],
    [0x4e, 0x45, 0x43, 0x42, 0x5e, 0x9d, 0xdc, 0x98, 0x00, 0x00, 0x2f, 0x50, 0x45, 0x53, 0x20, 0x20, 0x20, 0x00, 0x11, 0x01, 0x2f, 0x59, 0x00, 0x0b, 0x03, 0xda, 0xe9, 0x56, 0xac, 0x3d, 0x42, 0xa9],
    [0x51, 0x73, 0x50, 0x42, 0x5e, 0x9d, 0xdc, 0x9b, 0x00, 0x00, 0x2a, 0x47, 0x53, 0x50, 0x58, 0x20, 0x20, 0x00, 0x0f, 0x01, 0x2a, 0x47, 0x00, 0x0c, 0x03, 0xdd, 0x15, 0x4c, 0xe7, 0x25, 0xc9, 0x37],
    [0x4e, 0x45, 0x43, 0x42, 0x5e, 0x9d, 0xdc, 0xa5, 0x00, 0x00, 0x01, 0x45, 0x57, 0x54, 0x49, 0x20, 0x20, 0x00, 0x19, 0x02, 0x01, 0x46, 0x00, 0x07, 0x03, 0xe0, 0x8e, 0xf1, 0xf3, 0xb4, 0xc3, 0xb9],
    [0x4e, 0x45, 0x50, 0x53, 0x5e, 0x9d, 0xdc, 0xae, 0x00, 0x00, 0x16, 0x2f, 0x45, 0x53, 0x20, 0x20, 0x20, 0x00, 0x1d, 0x01, 0x16, 0x2b, 0x00, 0x0a, 0x03, 0xe2, 0xe5, 0x09, 0x0b, 0x43, 0xe9, 0x9e],
    [0x4e, 0x45, 0x50, 0x53, 0x5e, 0x9d, 0xdc, 0xb6, 0x00, 0x00, 0x11, 0xdd, 0x53, 0x50, 0x58, 0x20, 0x20, 0x00, 0x16, 0x01, 0x11, 0xe3, 0x00, 0x09, 0x03, 0xe4, 0x95, 0x15, 0xa4, 0x98, 0x72, 0x26],
    [0x4e, 0x45, 0x50, 0x53, 0x5e, 0x9d, 0xdc, 0xbf, 0x00, 0x00, 0x02, 0x9d, 0x4e, 0x46, 0x4c, 0x58, 0x20, 0x00, 0x22, 0x01, 0x02, 0x98, 0x00, 0x06, 0x03, 0xe6, 0xba, 0x82, 0x02, 0x51, 0x19, 0x8c],
    [0x4e, 0x45, 0x50, 0x53, 0x5e, 0x9d, 0xdc, 0xc8, 0x00, 0x00, 0x37, 0xc2, 0x53, 0x50, 0x59, 0x20, 0x20, 0x00, 0x23, 0x01, 0x37, 0xba, 0x00, 0x02, 0x03, 0xe9, 0xc0, 0xb1, 0xee, 0xfa, 0x22, 0xff],
    [0x4e, 0x45, 0x43, 0x53, 0x5e, 0x9d, 0xdc, 0xd2, 0x00, 0x00, 0x04, 0x25, 0x59, 0x4d, 0x20, 0x20, 0x20, 0x00, 0x05, 0x02, 0x04, 0x2e, 0x00, 0x0a, 0x03, 0xec, 0xbd, 0xf4, 0x1c, 0x03, 0xcf, 0xb8],
    [0x4e, 0x45, 0x50, 0x53, 0x5e, 0x9d, 0xdc, 0xd7, 0x00, 0x00, 0x38, 0x36, 0x4e, 0x46, 0x4c, 0x58, 0x20, 0x00, 0x04, 0x02, 0x38, 0x3f, 0x00, 0x0c, 0x03, 0xed, 0x56, 0x2a, 0x11, 0x02, 0x2c, 0xf8],
    [0x55, 0x6d, 0x50, 0x42, 0x5e, 0x9d, 0xdc, 0xda, 0x00, 0x00, 0x07, 0x73, 0x57, 0x54, 0x49, 0x20, 0x20, 0x00, 0x14, 0x01, 0x07, 0x71, 0x00, 0x06, 0x03, 0xed, 0xbb, 0x78, 0xe8, 0x5f, 0x27, 0xf3],
    [0x4e, 0x45, 0x50, 0x42, 0x5e, 0x9d, 0xdc, 0xe2, 0x00, 0x00, 0x10, 0x36, 0x53, 0x50, 0x58, 0x20, 0x20, 0x00, 0x22, 0x02, 0x10, 0x2b, 0x00, 0x08, 0x03, 0xf0, 0xef, 0x73, 0xab, 0xb6, 0x81, 0xf8],
    [0x4e, 0x45, 0x43, 0x53, 0x5e, 0x9d, 0xdc, 0xe7, 0x00, 0x00, 0x13, 0x54, 0x46, 0x20, 0x20, 0x20, 0x20, 0x00, 0x07, 0x02, 0x13, 0x60, 0x00, 0x05, 0x03, 0xf4, 0x68, 0x3c, 0x31, 0xe1, 0xbf, 0xef],
    [0x4e, 0x45, 0x43, 0x42, 0x5e, 0x9d, 0xdc, 0xf8, 0x00, 0x00, 0x25, 0xad, 0x47, 0x4f, 0x4f, 0x47, 0x4c, 0x00, 0x11, 0x01, 0x25, 0xc0, 0x00, 0x04, 0x03, 0xfa, 0x11, 0x45, 0xe8, 0x74, 0xff, 0xd0],
    [0x4e, 0x45, 0x43, 0x53, 0x5e, 0x9d, 0xdc, 0xff, 0x00, 0x00, 0x32, 0xe5, 0x46, 0x20, 0x20, 0x20, 0x20, 0x00, 0x18, 0x01, 0x32, 0xd4, 0x00, 0x08, 0x03, 0xfb, 0xbb, 0x96, 0xcb, 0x90, 0xfb, 0x05],
    [0x4e, 0x45, 0x43, 0x42, 0x5e, 0x9d, 0xdd, 0x06, 0x00, 0x00, 0x1c, 0x0b, 0x46, 0x20, 0x20, 0x20, 0x20, 0x00, 0x07, 0x01, 0x1c, 0x05, 0x00, 0x04, 0x03, 0xfd, 0x07, 0x99, 0xcb, 0xd9, 0xb9, 0x3f],
    [0x4e, 0x45, 0x43, 0x42, 0x5e, 0x9d, 0xdd, 0x09, 0x00, 0x00, 0x17, 0x49, 0x59, 0x4d, 0x20, 0x20, 0x20, 0x00, 0x16, 0x02, 0x17, 0x48, 0x00, 0x06, 0x03, 0xfd, 0xf3, 0x30, 0xe6, 0xda, 0xb1, 0x5c],
    [0x4e, 0x45, 0x43, 0x53, 0x5e, 0x9d, 0xdd, 0x13, 0x00, 0x00, 0x1a, 0x4e, 0x53, 0x50, 0x58, 0x20, 0x20, 0x00, 0x08, 0x02, 0x1a, 0x62, 0x00, 0x07, 0x03, 0xfe, 0xaa, 0x05, 0xee, 0x0b, 0xbc, 0x00],
    [0x4e, 0x45, 0x43, 0x42, 0x5e, 0x9d, 0xdd, 0x19, 0x00, 0x00, 0x00, 0xcb, 0x41, 0x41, 0x50, 0x4c, 0x20, 0x00, 0x17, 0x02, 0x00, 0xdd, 0x00, 0x08, 0x04, 0x00, 0x90, 0xd6, 0xfa, 0xbd, 0xf4, 0x8f],
    [0x4e, 0x45, 0x50, 0x53, 0x5e, 0x9d, 0xdd, 0x22, 0x00, 0x00, 0x2e, 0x0b, 0x45, 0x53, 0x20, 0x20, 0x20, 0x00, 0x16, 0x02, 0x2e, 0x00, 0x00, 0x08, 0x04, 0x03, 0x96, 0x4d, 0x67, 0x53, 0x9e, 0xbd],
    [0x4e, 0x45, 0x43, 0x42, 0x5e, 0x9d, 0xdd, 0x2a, 0x00, 0x00, 0x31, 0xb6, 0x4e, 0x46, 0x4c, 0x58, 0x20, 0x00, 0x1b, 0x02, 0x31, 0xca, 0x00, 0x09, 0x04, 0x05, 0x2a, 0x9f, 0xd7, 0x7a, 0x0d, 0xe6],
    [0x4e, 0x45, 0x50, 0x42, 0x5e, 0x9d, 0xdd, 0x2f, 0x00, 0x00, 0x33, 0x50, 0x41, 0x41, 0x50, 0x4c, 0x20, 0x00, 0x1f, 0x01, 0x33, 0x64, 0x00, 0x02, 0x04, 0x05, 0xe4, 0x7e, 0xf2, 0x62, 0x29, 0x87],
    [0x4e, 0x45, 0x50, 0x53, 0x5e, 0x9d, 0xdd, 0x32, 0x00, 0x00, 0x21, 0x2d, 0x46, 0x20, 0x20, 0x20, 0x20, 0x00, 0x0b, 0x01, 0x21, 0x23, 0x00, 0x0d, 0x04, 0x07, 0xd5, 0x6d, 0xb3, 0x7c, 0xdc, 0x29],
    [0x4e, 0x45, 0x43, 0x53, 0x5e, 0x9d, 0xdd, 0x39, 0x00, 0x00, 0x17, 0xe7, 0x57, 0x54, 0x49, 0x20, 0x20, 0x00, 0x14, 0x02, 0x17, 0xf1, 0x00, 0x09, 0x04, 0x0a, 0x4b, 0x90, 0xa0, 0x74, 0xf9, 0x70],
    [0x4e, 0x45, 0x43, 0x53, 0x5e, 0x9d, 0xdd, 0x3f, 0x00, 0x00, 0x29, 0x9e, 0x53, 0x50, 0x58, 0x20, 0x20, 0x00, 0x0e, 0x01, 0x29, 0xa6, 0x00, 0x07, 0x04, 0x0b, 0x4b, 0x94, 0x12, 0xa1, 0xb2, 0x7f],
    [0x4e, 0x45, 0x50, 0x53, 0x5e, 0x9d, 0xdd, 0x42, 0x00, 0x00, 0x28, 0xcb, 0x4e, 0x46, 0x4c, 0x58, 0x20, 0x00, 0x17, 0x01, 0x28, 0xba, 0x00, 0x04, 0x04, 0x0d, 0x14, 0x5f, 0x63, 0x7a, 0x5e, 0x03],
    [0x4e, 0x45, 0x43, 0x42, 0x5e, 0x9d, 0xdd, 0x4a, 0x00, 0x00, 0x02, 0xb4, 0x46, 0x20, 0x20, 0x20, 0x20, 0x00, 0x19, 0x02, 0x02, 0xad, 0x00, 0x0b, 0x04, 0x0d, 0xf1, 0x9b, 0x81, 0x6d, 0xa8, 0xfb],
    [0x4e, 0x45, 0x43, 0x53, 0x5e, 0x9d, 0xdd, 0x58, 0x00, 0x00, 0x0e, 0x53, 0x41, 0x41, 0x50, 0x4c, 0x20, 0x00, 0x1f, 0x01, 0x0e, 0x51, 0x00, 0x0d, 0x04, 0x12, 0xbc, 0xad, 0x12, 0x7a, 0x4b, 0x83],
    [0x4e, 0x45, 0x43, 0x53, 0x5e, 0x9d, 0xdd, 0x5d, 0x00, 0x00, 0x1f, 0x6d, 0x41, 0x41, 0x50, 0x4c, 0x20, 0x00, 0x17, 0x02, 0x1f, 0x5f, 0x00, 0x04, 0x04, 0x15, 0x7d, 0x2b, 0xf4, 0xfd, 0x64, 0x3d],
    [0x42, 0x76, 0x50, 0x42, 0x5e, 0x9d, 0xdd, 0x62, 0x00, 0x00, 0x0e, 0xa6, 0x57, 0x54, 0x49, 0x20, 0x20, 0x00, 0x04, 0x01, 0x0e, 0xa4, 0x00, 0x03, 0x04, 0x16, 0x71, 0x61, 0x3e, 0xb2, 0x18, 0x32],
    [0x4e, 0x45, 0x50, 0x42, 0x5e, 0x9d, 0xdd, 0x6b, 0x00, 0x00, 0x21, 0x85, 0x53, 0x50, 0x59, 0x20, 0x20, 0x00, 0x23, 0x02, 0x21, 0x7b, 0x00, 0x0a, 0x04, 0x19, 0x3c, 0xe9, 0xb7, 0x28, 0xe3, 0x75],
    [0x4e, 0x45, 0x50, 0x53, 0x5e, 0x9d, 0xdd, 0x72, 0x00, 0x00, 0x2b, 0xa5, 0x57, 0x54, 0x49, 0x20, 0x20, 0x00, 0x18, 0x02, 0x2b, 0xab, 0x00, 0x05, 0x04, 0x1c, 0xc7, 0x56, 0xd8, 0x82, 0x01, 0xf2],
    [0x4e, 0x45, 0x50, 0x53, 0x5e, 0x9d, 0xdd, 0x7c, 0x00, 0x00, 0x10, 0x90, 0x57, 0x54, 0x49, 0x20, 0x20, 0x00, 0x07, 0x02, 0x10, 0xa2, 0x00, 0x03, 0x04, 0x1f, 0xc6, 0x10, 0x6b, 0x09, 0x6f, 0x91],
    [0x4e, 0x45, 0x43, 0x42, 0x5e, 0x9d, 0xdd, 0x82, 0x00, 0x00, 0x36, 0xbd, 0x57, 0x54, 0x49, 0x20, 0x20, 0x00, 0x15, 0x02, 0x36, 0xb8, 0x00, 0x05, 0x04, 0x22, 0xb1, 0xd6, 0x84, 0x3a, 0x18, 0x66],
    [0x4e, 0x45, 0x43, 0x42, 0x5e, 0x9d, 0xdd, 0x87, 0x00, 0x00, 0x39, 0x4f, 0x47, 0x4f, 0x4f, 0x47, 0x4c, 0x00, 0x19, 0x01, 0x39, 0x58, 0x00, 0x06, 0x04, 0x24, 0x4f, 0x41, 0x11, 0x17, 0xcd, 0xdc],
    [0x4e, 0x45, 0x50, 0x53, 0x5e, 0x9d, 0xdd, 0x8b, 0x00, 0x00, 0x08, 0x6b, 0x4e, 0x46, 0x4c, 0x58, 0x20, 0x00, 0x15, 0x02, 0x08, 0x5b, 0x00, 0x06, 0x04, 0x26, 0xab, 0xbf, 0xe2, 0x4e, 0x6a, 0xcc],
    [0x4e, 0x45, 0x43, 0x53, 0x5e, 0x9d, 0xdd, 0x94, 0x00, 0x00, 0x32, 0xfc, 0x41, 0x41, 0x50, 0x4c, 0x20, 0x00, 0x09, 0x02, 0x32, 0xf5, 0x00, 0x0d, 0x04, 0x27, 0x64, 0x13, 0x45, 0x42, 0xc2, 0x50],
    [0x4e, 0x45, 0x43, 0x42, 0x5e, 0x9d, 0xdd, 0x97, 0x00, 0x00, 0x2e, 0xdf, 0x4e, 0x46, 0x4c, 0x58, 0x20, 0x00, 0x17, 0x02, 0x2e, 0xcd, 0x00, 0x07, 0x04, 0x2a, 0x4f, 0x65, 0xbc, 0xc4, 0x95, 0xc4],
    [0x4e, 0x45, 0x43, 0x42, 0x5e, 0x9d, 0xdd, 0xa1, 0x00, 0x00, 0x06, 0x71, 0x59, 0x4d, 0x20, 0x20, 0x20, 0x00, 0x10, 0x01, 0x06, 0x63, 0x00, 0x0a, 0x04, 0x2a, 0xfd, 0x79, 0x9a, 0x2d, 0xa3, 0x69],
    [0x4e, 0x45, 0x43, 0x53, 0x5e, 0x9d, 0xdd, 0xaa, 0x00, 0x00, 0x10, 0x46, 0x53, 0x50, 0x58, 0x20, 0x20, 0x00, 0x14, 0x02, 0x10, 0x3a, 0x00, 0x02, 0x04, 0x2c, 0xa2, 0xe2, 0xce, 0x01, 0x88, 0x15],
    [0x4e, 0x45, 0x50, 0x53, 0x5e, 0x9d, 0xdd, 0xaf, 0x00, 0x00, 0x0e, 0x71, 0x53, 0x50, 0x59, 0x20, 0x20, 0x00, 0x0a, 0x02, 0x0e, 0x81, 0x00, 0x07, 0x04, 0x2f, 0xd7, 0x16, 0x98, 0x85, 0x55, 0xae],
    [0x4e, 0x45, 0x43, 0x42, 0x5e, 0x9d, 0xdd, 0xb9, 0x00, 0x00, 0x20, 0x0e, 0x47, 0x4f, 0x4f, 0x47, 0x4c, 0x00, 0x03, 0x02, 0x20, 0x1a, 0x00, 0x07, 0x04, 0x32, 0x5a, 0x10, 0x3e, 0x6d, 0x1b, 0x48],
    [0x4e, 0x45, 0x50, 0x53, 0x5e, 0x9d, 0xdd, 0xbf, 0x00, 0x00, 0x15, 0xbc, 0x57, 0x54, 0x49, 0x20, 0x20, 0x00, 0x20, 0x02, 0x15, 0xc7, 0x00, 0x03, 0x04, 0x33, 0xa9, 0x24, 0xeb, 0x16, 0xa8, 0x25],
    [0x4e, 0x45, 0x50, 0x53, 0x5e, 0x9d, 0xdd, 0xc9, 0x00, 0x00, 0x18, 0x0b, 0x4e, 0x46, 0x4c, 0x58, 0x20, 0x00, 0x16, 0x02, 0x18, 0x15, 0x00, 0x0c, 0x04, 0x35, 0xee, 0xf8, 0x3c, 0x89, 0xf2, 0x69],
    [0x4e, 0x45, 0x50, 0x42, 0x5e, 0x9d, 0xdd, 0xd1, 0x00, 0x00, 0x35, 0xe3, 0x41, 0x41, 0x50, 0x4c, 0x20, 0x00, 0x14, 0x02, 0x35, 0xf2, 0x00, 0x06, 0x04, 0x37, 0x45, 0x62, 0x5e, 0xdc, 0x03, 0xc6],
    [0x4e, 0x45, 0x43, 0x42, 0x5e, 0x9d, 0xdd, 0xd4, 0x00, 0x00, 0x0e, 0x05, 0x41, 0x41, 0x50, 0x4c, 0x20, 0x00, 0x1b, 0x01, 0x0e, 0x12, 0x00, 0x05, 0x04, 0x39, 0x21, 0xbc, 0xd4, 0x8c, 0x55, 0x90],
    [0x4e, 0x45, 0x43, 0x42, 0x5e, 0x9d, 0xdd, 0xda, 0x00, 0x00, 0x04, 0x59, 0x57, 0x54, 0x49, 0x20, 0x20, 0x00, 0x19, 0x02, 0x04, 0x5d, 0x00, 0x03, 0x04, 0x3b, 0x3b, 0x6a, 0x93, 0xc0, 0x37, 0x07],
    [0x4e, 0x45, 0x43, 0x42, 0x5e, 0x9d, 0xdd, 0xe1, 0x00, 0x00, 0x01, 0x94, 0x53, 0x50, 0x58, 0x20, 0x20, 0x00, 0x1e, 0x02, 0x01, 0x91, 0x00, 0x0d, 0x04, 0x3e, 0x00, 0xdd, 0xcf, 0x75, 0xc8, 0xc1],
    [0x4e, 0x45, 0x43, 0x42, 0x5e, 0x9d, 0xdd, 0xea, 0x00, 0x00, 0x02, 0xd0, 0x4e, 0x46, 0x4c, 0x58, 0x20, 0x00, 0x20, 0x02, 0x02, 0xe1, 0x00, 0x0a, 0x04, 0x3f, 0xdc, 0x02, 0x43, 0x29, 0xe1, 0xe2]]"

definition raw_rows_5 :: "u8 list list" where
  "raw_rows_5 = [
    [0x4e, 0x45, 0x43, 0x42, 0x5e, 0x9d, 0xdd, 0xee, 0x00, 0x00, 0x24, 0x45, 0x4e, 0x46, 0x4c, 0x58, 0x20, 0x00, 0x23, 0x01, 0x24, 0x55, 0x00, 0x05, 0x04, 0x41, 0x30, 0x5b, 0xb2, 0xe4, 0xbc, 0xc8],
    [0x4e, 0x45, 0x50, 0x42, 0x5e, 0x9d, 0xdd, 0xf3, 0x00, 0x00, 0x35, 0x15, 0x4e, 0x46, 0x4c, 0x58, 0x20, 0x00, 0x0b, 0x01, 0x35, 0x1e, 0x00, 0x03, 0x04, 0x42, 0x25, 0xc7, 0xe1, 0xfb, 0xf2, 0x53],
    [0x4e, 0x45, 0x43, 0x53, 0x5e, 0x9d, 0xdd, 0xfb, 0x00, 0x00, 0x03, 0x74, 0x47, 0x4f, 0x4f, 0x47, 0x4c, 0x00, 0x0b, 0x01, 0x03, 0x88, 0x00, 0x03, 0x04, 0x42, 0xae, 0x47, 0xe2, 0x9c, 0x0c, 0xf0],
    [0x4e, 0x45, 0x50, 0x42, 0x5e, 0x9d, 0xdd, 0xfe, 0x00, 0x00, 0x10, 0x68, 0x59, 0x4d, 0x20, 0x20, 0x20, 0x00, 0x09, 0x02, 0x10, 0x60, 0x00, 0x0d, 0x04, 0x43, 0xc7, 0x21, 0x61, 0xf8, 0x7d, 0x3f],
    [0x4e, 0x45, 0x43, 0x53, 0x5e, 0x9d, 0xde, 0x04, 0x00, 0x00, 0x2a, 0x83, 0x59, 0x4d, 0x20, 0x20, 0x20, 0x00, 0x11, 0x02, 0x2a, 0x77, 0x00, 0x05, 0x04, 0x47, 0x04, 0xf0, 0xf5, 0x90, 0x8c, 0x61],
    [0x4e, 0x45, 0x50, 0x42, 0x5e, 0x9d, 0xde, 0x07, 0x00, 0x00, 0x21, 0x3f, 0x46, 0x20, 0x20, 0x20, 0x20, 0x00, 0x05, 0x01, 0x21, 0x4b, 0x00, 0x07, 0x04, 0x48, 0x75, 0x69, 0x5f, 0x20, 0xaa, 0x52],
    [0x4e, 0x45, 0x43, 0x53, 0x5e, 0x9d, 0xde, 0x19, 0x00, 0x00, 0x2a, 0x9a, 0x59, 0x4d, 0x20, 0x20, 0x20, 0x00, 0x1d, 0x02, 0x2a, 0x93, 0x00, 0x0a, 0x04, 0x4c, 0x94, 0x5d, 0xa6, 0xd9, 0x61, 0x8f],
    [0x4e, 0x45, 0x50, 0x53, 0x5e, 0x9d, 0xde, 0x1f, 0x00, 0x00, 0x12, 0xf2, 0x53, 0x50, 0x59, 0x20, 0x20, 0x00, 0x0e, 0x01, 0x12, 0xf5, 0x00, 0x05, 0x04, 0x4f, 0xf4, 0x9c, 0xfc, 0x06, 0xaf, 0xde],
    [0x4e, 0x45, 0x50, 0x53, 0x5e, 0x9d, 0xde, 0x23, 0x00, 0x00, 0x0f, 0x94, 0x59, 0x4d, 0x20, 0x20, 0x20, 0x00, 0x1d, 0x01, 0x0f, 0x91, 0x00, 0x05, 0x04, 0x52, 0xf3, 0x41, 0x21, 0xd4, 0xd9, 0xc6],
    [0x4e, 0x45, 0x50, 0x42, 0x5e, 0x9d, 0xde, 0x28, 0x00, 0x00, 0x1c, 0xb4, 0x53, 0x50, 0x59, 0x20, 0x20, 0x00, 0x14, 0x02, 0x1c, 0xa6, 0x00, 0x08, 0x04, 0x54, 0x2e, 0x1d, 0x0d, 0x10, 0x91, 0xaa],
    [0x4e, 0x45, 0x50, 0x53, 0x5e, 0x9d, 0xde, 0x2c, 0x00, 0x00, 0x29, 0x50, 0x59, 0x4d, 0x20, 0x20, 0x20, 0x00, 0x0a, 0x01, 0x29, 0x63, 0x00, 0x06, 0x04, 0x56, 0x74, 0xc7, 0xee, 0x55, 0x3f, 0xf7],
    [0x4e, 0x45, 0x50, 0x42, 0x5e, 0x9d, 0xde, 0x34, 0x00, 0x00, 0x01, 0x21, 0x47, 0x4f, 0x4f, 0x47, 0x4c, 0x00, 0x12, 0x02, 0x01, 0x1d, 0x00, 0x09, 0x04, 0x58, 0x58, 0x87, 0x5c, 0x5c, 0xd3, 0x0c],
    [0x4e, 0x45, 0x50, 0x42, 0x5e, 0x9d, 0xde, 0x38, 0x00, 0x00, 0x32, 0x5d, 0x53, 0x50, 0x58, 0x20, 0x20, 0x00, 0x07, 0x02, 0x32, 0x4a, 0x00, 0x09, 0x04, 0x59, 0x4d, 0x20, 0xa8, 0xf3, 0x84, 0x50],
    [0x4e, 0x45, 0x43, 0x53, 0x5e, 0x9d, 0xde, 0x46, 0x00, 0x00, 0x02, 0x6a, 0x53, 0x50, 0x58, 0x20, 0x20, 0x00, 0x23, 0x01, 0x02, 0x75, 0x00, 0x05, 0x04, 0x60, 0xa5, 0x7c, 0xd2, 0xd7, 0x59, 0x38],
    [0x48, 0x65, 0x50, 0x53, 0x5e, 0x9d, 0xde, 0x4c, 0x00, 0x00, 0x12, 0x97, 0x4e, 0x46, 0x4c, 0x58, 0x20, 0x00, 0x20, 0x02, 0x12, 0x96, 0x00, 0x05, 0x04, 0x62, 0x53, 0x95, 0x6c, 0x0d, 0xf6, 0x38],
    [0x4e, 0x45, 0x50, 0x42, 0x5e, 0x9d, 0xde, 0x56, 0x00, 0x00, 0x20, 0xcc, 0x45, 0x53, 0x20, 0x20, 0x20, 0x00, 0x12, 0x01, 0x20, 0xc5, 0x00, 0x08, 0x04, 0x64, 0xa7, 0xbb, 0x69, 0x36, 0x30, 0x8b],
    [0x4e, 0x45, 0x50, 0x53, 0x5e, 0x9d, 0xde, 0x60, 0x00, 0x00, 0x27, 0x2c, 0x53, 0x50, 0x58, 0x20, 0x20, 0x00, 0x1d, 0x02, 0x27, 0x39, 0x00, 0x05, 0x04, 0x66, 0x6d, 0x35, 0xb1, 0xad, 0xf5, 0x6e],
    [0x4e, 0x45, 0x43, 0x53, 0x5e, 0x9d, 0xde, 0x6a, 0x00, 0x00, 0x39, 0xee, 0x46, 0x20, 0x20, 0x20, 0x20, 0x00, 0x0e, 0x01, 0x39, 0xe7, 0x00, 0x07, 0x04, 0x69, 0xf7, 0xa7, 0x44, 0x51, 0x54, 0xf5],
    [0x4e, 0x45, 0x43, 0x42, 0x5e, 0x9d, 0xde, 0x6e, 0x00, 0x00, 0x2b, 0xcf, 0x4e, 0x46, 0x4c, 0x58, 0x20, 0x00, 0x16, 0x01, 0x2b, 0xd2, 0x00, 0x08, 0x04, 0x6d, 0x6e, 0xdd, 0x20, 0x0f, 0xd5, 0x93],
    [0x4e, 0x45, 0x43, 0x42, 0x5e, 0x9d, 0xde, 0x74, 0x00, 0x00, 0x30, 0x5a, 0x59, 0x4d, 0x20, 0x20, 0x20, 0x00, 0x0a, 0x01, 0x30, 0x5c, 0x00, 0x05, 0x04, 0x6d, 0xd8, 0x35, 0xa7, 0x1a, 0x7e, 0x56],
    [0x4e, 0x45, 0x43, 0x53, 0x5e, 0x9d, 0xde, 0x7b, 0x00, 0x00, 0x19, 0x89, 0x45, 0x53, 0x20, 0x20, 0x20, 0x00, 0x09, 0x02, 0x19, 0x80, 0x00, 0x04, 0x04, 0x6e, 0x71, 0xdd, 0xf4, 0x87, 0x05, 0x2e],
    [0x4e, 0x45, 0x43, 0x42, 0x5e, 0x9d, 0xde, 0x7f, 0x00, 0x00, 0x1c, 0x9d, 0x53, 0x50, 0x58, 0x20, 0x20, 0x00, 0x0c, 0x01, 0x1c, 0x9b, 0x00, 0x0d, 0x04, 0x6f, 0xae, 0x43, 0xcf, 0x89, 0xc8, 0x98],
    [0x4e, 0x45, 0x50, 0x53, 0x5e, 0x9d, 0xde, 0x86, 0x00, 0x00, 0x1e, 0xdd, 0x47, 0x4f, 0x4f, 0x47, 0x4c, 0x00, 0x21, 0x02, 0x1e, 0xd6, 0x00, 0x09, 0x04, 0x73, 0x0d, 0xd2, 0x0e, 0x4f, 0x75, 0xbd],
    [0x4e, 0x45, 0x43, 0x53, 0x5e, 0x9d, 0xde, 0x8a, 0x00, 0x00, 0x2c, 0x1b, 0x46, 0x20, 0x20, 0x20, 0x20, 0x00, 0x11, 0x01, 0x2c, 0x18, 0x00, 0x08, 0x04, 0x75, 0xe3, 0x10, 0x53, 0x11, 0x9e, 0x40],
    [0x4e, 0x45, 0x43, 0x42, 0x5e, 0x9d, 0xde, 0x91, 0x00, 0x00, 0x2f, 0x42, 0x41, 0x41, 0x50, 0x4c, 0x20, 0x00, 0x10, 0x02, 0x2f, 0x40, 0x00, 0x04, 0x04, 0x78, 0x68, 0x10, 0xcc, 0x7a, 0x5c, 0xc3],
    [0x4e, 0x45, 0x43, 0x42, 0x5e, 0x9d, 0xde, 0x99, 0x00, 0x00, 0x1e, 0x04, 0x53, 0x50, 0x59, 0x20, 0x20, 0x00, 0x0d, 0x01, 0x1e, 0x11, 0x00, 0x0a, 0x04, 0x79, 0xf6, 0x0e, 0xe0, 0x2e, 0x99, 0x3b],
    [0x4e, 0x45, 0x43, 0x53, 0x5e, 0x9d, 0xde, 0x9f, 0x00, 0x00, 0x15, 0x0a, 0x4e, 0x46, 0x4c, 0x58, 0x20, 0x00, 0x0b, 0x02, 0x15, 0x09, 0x00, 0x02, 0x04, 0x7c, 0xc8, 0x40, 0x44, 0x00, 0x61, 0xca],
    [0x4e, 0x45, 0x43, 0x53, 0x5e, 0x9d, 0xde, 0xa5, 0x00, 0x00, 0x23, 0xad, 0x57, 0x54, 0x49, 0x20, 0x20, 0x00, 0x0e, 0x02, 0x23, 0xbf, 0x00, 0x07, 0x04, 0x7d, 0x2c, 0x3b, 0xf6, 0x6e, 0xaa, 0x8f],
    [0x4e, 0x45, 0x43, 0x42, 0x5e, 0x9d, 0xde, 0xaf, 0x00, 0x00, 0x01, 0x26, 0x59, 0x4d, 0x20, 0x20, 0x20, 0x00, 0x1f, 0x01, 0x01, 0x2e, 0x00, 0x05, 0x04, 0x7f, 0x3a, 0xbd, 0xa6, 0x16, 0x82, 0x1f],
    [0x4e, 0x45, 0x43, 0x53, 0x5e, 0x9d, 0xde, 0xb4, 0x00, 0x00, 0x1e, 0xf0, 0x53, 0x50, 0x59, 0x20, 0x20, 0x00, 0x15, 0x01, 0x1e, 0xf6, 0x00, 0x07, 0x04, 0x81, 0x99, 0x83, 0x96, 0x31, 0xad, 0x8e],
    [0x4e, 0x45, 0x43, 0x42, 0x5e, 0x9d, 0xde, 0xbd, 0x00, 0x00, 0x3a, 0x69, 0x41, 0x41, 0x50, 0x4c, 0x20, 0x00, 0x0d, 0x02, 0x3a, 0x5d, 0x00, 0x0a, 0x04, 0x83, 0xc7, 0xd5, 0x2c, 0xa3, 0x45, 0x3b],
    [0x4e, 0x45, 0x50, 0x53, 0x5e, 0x9d, 0xde, 0xc0, 0x00, 0x00, 0x22, 0x1e, 0x4e, 0x46, 0x4c, 0x58, 0x20, 0x00, 0x12, 0x01, 0x22, 0x31, 0x00, 0x02, 0x04, 0x86, 0xd6, 0x3d, 0xff, 0xf5, 0xa6, 0x3d],
    [0x4e, 0x45, 0x50, 0x42, 0x5e, 0x9d, 0xde, 0xc3, 0x00, 0x00, 0x13, 0x65, 0x41, 0x41, 0x50, 0x4c, 0x20, 0x00, 0x05, 0x02, 0x13, 0x53, 0x00, 0x08, 0x04, 0x88, 0xdc, 0x96, 0xe3, 0xe0, 0x4c, 0x5f],
    [0x4e, 0x45, 0x43, 0x53, 0x5e, 0x9d, 0xde, 0xcc, 0x00, 0x00, 0x38, 0x96, 0x57, 0x54, 0x49, 0x20, 0x20, 0x00, 0x0f, 0x02, 0x38, 0xa9, 0x00, 0x06, 0x04, 0x8b, 0xba, 0x72, 0x84, 0xfa, 0x99, 0x55],
    [0x4e, 0x45, 0x43, 0x53, 0x5e, 0x9d, 0xde, 0xd0, 0x00, 0x00, 0x24, 0x58, 0x53, 0x50, 0x58, 0x20, 0x20, 0x00, 0x0c, 0x01, 0x24, 0x6b, 0x00, 0x04, 0x04, 0x8c, 0xe6, 0x82, 0x3f, 0x5b, 0x4e, 0x96],
    [0x4e, 0x45, 0x43, 0x42, 0x5e, 0x9d, 0xde, 0xd5, 0x00, 0x00, 0x36, 0xe9, 0x41, 0x41, 0x50, 0x4c, 0x20, 0x00, 0x04, 0x02, 0x36, 0xfb, 0x00, 0x07, 0x04, 0x8e, 0x77, 0x6e, 0xf4, 0xa0, 0xf1, 0x3e],
    [0x4e, 0x45, 0x43, 0x53, 0x5e, 0x9d, 0xde, 0xd8, 0x00, 0x00, 0x37, 0x9d, 0x53, 0x50, 0x58, 0x20, 0x20, 0x00, 0x17, 0x01, 0x37, 0x93, 0x00, 0x02, 0x04, 0x91, 0xbc, 0x3d, 0x8e, 0x36, 0xc2, 0xb6],
    [0x4b, 0x7a, 0x50, 0x53, 0x5e, 0x9d, 0xde, 0xde, 0x00, 0x00, 0x1c, 0xa5, 0x4e, 0x46, 0x4c, 0x58, 0x20, 0x00, 0x21, 0x01, 0x1c, 0xae, 0x00, 0x0b, 0x04, 0x93, 0x5e, 0x72, 0xa9, 0x47, 0x0b, 0xe5],
    [0x4e, 0x45, 0x50, 0x42, 0x5e, 0x9d, 0xde, 0xe7, 0x00, 0x00, 0x1b, 0x2d, 0x45, 0x53, 0x20, 0x20, 0x20, 0x00, 0x0f, 0x02, 0x1b, 0x2f, 0x00, 0x0c, 0x04, 0x96, 0x5c, 0x4c, 0x63, 0xbb, 0xe7, 0xc1],
    [0x4e, 0x45, 0x43, 0x42, 0x5e, 0x9d, 0xde, 0xed, 0x00, 0x00, 0x30, 0xd8, 0x59, 0x4d, 0x20, 0x20, 0x20, 0x00, 0x1b, 0x01, 0x30, 0xd7, 0x00, 0x06, 0x04, 0x98, 0x81, 0x8a, 0x35, 0x83, 0xb3, 0xc6],
    [0x4e, 0x45, 0x50, 0x53, 0x5e, 0x9d, 0xde, 0xf6, 0x00, 0x00, 0x28, 0xc2, 0x4e, 0x46, 0x4c, 0x58, 0x20, 0x00, 0x1f, 0x01, 0x28, 0xd1, 0x00, 0x02, 0x04, 0x9a, 0xfb, 0x28, 0x65, 0xf7, 0x09, 0xbf],
    [0x4e, 0x45, 0x43, 0x53, 0x5e, 0x9d, 0xde, 0xf9, 0x00, 0x00, 0x31, 0xf2, 0x57, 0x54, 0x49, 0x20, 0x20, 0x00, 0x18, 0x01, 0x31, 0xea, 0x00, 0x0b, 0x04, 0x9b, 0x69, 0x2c, 0x4c, 0x7e, 0xdb, 0x0b],
    [0x4e, 0x45, 0x43, 0x53, 0x5e, 0x9d, 0xdf, 0x01, 0x00, 0x00, 0x2b, 0x7d, 0x41, 0x41, 0x50, 0x4c, 0x20, 0x00, 0x19, 0x01, 0x2b, 0x74, 0x00, 0x0b, 0x04, 0x9d, 0x10, 0xc4, 0x96, 0x5f, 0x00, 0xc2],
    [0x4e, 0x45, 0x50, 0x42, 0x5e, 0x9d, 0xdf, 0x0a, 0x00, 0x00, 0x38, 0xf8, 0x57, 0x54, 0x49, 0x20, 0x20, 0x00, 0x20, 0x02, 0x39, 0x04, 0x00, 0x09, 0x04, 0x9e, 0x5d, 0x5f, 0x2f, 0xde, 0xf8, 0xe1],
    [0x4e, 0x45, 0x43, 0x42, 0x5e, 0x9d, 0xdf, 0x0d, 0x00, 0x00, 0x07, 0x64, 0x4e, 0x46, 0x4c, 0x58, 0x20, 0x00, 0x1d, 0x02, 0x07, 0x75, 0x00, 0x07, 0x04, 0xa1, 0x87, 0x5d, 0x1a, 0xd6, 0x72, 0xdb],
    [0x4e, 0x45, 0x50, 0x42, 0x5e, 0x9d, 0xdf, 0x1f, 0x00, 0x00, 0x37, 0x60, 0x53, 0x50, 0x58, 0x20, 0x20, 0x00, 0x07, 0x01, 0x37, 0x74, 0x00, 0x05, 0x04, 0xa4, 0x0d, 0x66, 0x94, 0x07, 0xa9, 0x86],
    [0x4e, 0x45, 0x50, 0x42, 0x5e, 0x9d, 0xdf, 0x24, 0x00, 0x00, 0x15, 0x99, 0x46, 0x20, 0x20, 0x20, 0x20, 0x00, 0x17, 0x01, 0x15, 0xa4, 0x00, 0x03, 0x04, 0xa6, 0xf6, 0x10, 0x8a, 0x44, 0x13, 0x4d],
    [0x4e, 0x45, 0x50, 0x42, 0x5e, 0x9d, 0xdf, 0x2b, 0x00, 0x00, 0x2c, 0xb4, 0x59, 0x4d, 0x20, 0x20, 0x20, 0x00, 0x0e, 0x01, 0x2c, 0xb0, 0x00, 0x04, 0x04, 0xa9, 0x4a, 0x93, 0xf5, 0x8d, 0xfa, 0x7f],
    [0x4e, 0x45, 0x50, 0x42, 0x5e, 0x9d, 0xdf, 0x34, 0x00, 0x00, 0x22, 0x96, 0x46, 0x20, 0x20, 0x20, 0x20, 0x00, 0x16, 0x01, 0x22, 0x93, 0x00, 0x05, 0x04, 0xaa, 0x88, 0xa3, 0x1e, 0xc3, 0x26, 0x86],
    [0x4e, 0x45, 0x43, 0x42, 0x5e, 0x9d, 0xdf, 0x3d, 0x00, 0x00, 0x11, 0xee, 0x45, 0x53, 0x20, 0x20, 0x20, 0x00, 0x15, 0x02, 0x11, 0xf6, 0x00, 0x0a, 0x04, 0xad, 0x66, 0x19, 0x20, 0x47, 0x1a, 0x2c],
    [0x4e, 0x45, 0x43, 0x53, 0x5e, 0x9d, 0xdf, 0x40, 0x00, 0x00, 0x21, 0xf5, 0x53, 0x50, 0x59, 0x20, 0x20, 0x00, 0x0e, 0x01, 0x21, 0xe5, 0x00, 0x08, 0x04, 0xad, 0xef, 0x9e, 0x09, 0x66, 0x6d, 0x99],
    [0x4e, 0x45, 0x50, 0x53, 0x5e, 0x9d, 0xdf, 0x43, 0x00, 0x00, 0x01, 0x35, 0x46, 0x20, 0x20, 0x20, 0x20, 0x00, 0x09, 0x02, 0x01, 0x2c, 0x00, 0x0b, 0x04, 0xaf, 0xc5, 0x98, 0x8c, 0x3e, 0x19, 0x54],
    [0x4e, 0x45, 0x50, 0x42, 0x5e, 0x9d, 0xdf, 0x4c, 0x00, 0x00, 0x15, 0x97, 0x45, 0x53, 0x20, 0x20, 0x20, 0x00, 0x09, 0x01, 0x15, 0x88, 0x00, 0x04, 0x04, 0xb2, 0x04, 0x51, 0xaa, 0xeb, 0xcb, 0x94],
    [0x4e, 0x45, 0x50, 0x42, 0x5e, 0x9d, 0xdf, 0x51, 0x00, 0x00, 0x29, 0x50, 0x4e, 0x46, 0x4c, 0x58, 0x20, 0x00, 0x0a, 0x02, 0x29, 0x43, 0x00, 0x07, 0x04, 0xb5, 0x04, 0x69, 0x4d, 0xe1, 0x40, 0xae],
    [0x4e, 0x45, 0x50, 0x53, 0x5e, 0x9d, 0xdf, 0x5b, 0x00, 0x00, 0x11, 0xe1, 0x46, 0x20, 0x20, 0x20, 0x20, 0x00, 0x17, 0x02, 0x11, 0xd4, 0x00, 0x02, 0x04, 0xb8, 0xf8, 0xd1, 0x88, 0x90, 0x4b, 0x81],
    [0x4e, 0x45, 0x43, 0x53, 0x5e, 0x9d, 0xdf, 0x63, 0x00, 0x00, 0x05, 0x1c, 0x41, 0x41, 0x50, 0x4c, 0x20, 0x00, 0x1b, 0x02, 0x05, 0x2f, 0x00, 0x0a, 0x04, 0xb9, 0x94, 0x3f, 0x1a, 0xbe, 0xe7, 0xf2],
    [0x4e, 0x45, 0x43, 0x53, 0x5e, 0x9d, 0xdf, 0x69, 0x00, 0x00, 0x18, 0xbc, 0x45, 0x53, 0x20, 0x20, 0x20, 0x00, 0x03, 0x02, 0x18, 0xc5, 0x00, 0x02, 0x04, 0xbb, 0x16, 0xb8, 0x2a, 0x17, 0x01, 0xf0],
    [0x4e, 0x45, 0x50, 0x42, 0x5e, 0x9d, 0xdf, 0x6c, 0x00, 0x00, 0x2f, 0xa9, 0x57, 0x54, 0x49, 0x20, 0x20, 0x00, 0x04, 0x01, 0x2f, 0x9c, 0x00, 0x05, 0x04, 0xbe, 0x44, 0xa9, 0x59, 0x18, 0x74, 0x84],
    [0x4e, 0x45, 0x50, 0x42, 0x5e, 0x9d, 0xdf, 0x6f, 0x00, 0x00, 0x31, 0x65, 0x47, 0x4f, 0x4f, 0x47, 0x4c, 0x00, 0x07, 0x01, 0x31, 0x5a, 0x00, 0x08, 0x04, 0xbe, 0xc8, 0x9f, 0x49, 0x11, 0x0f, 0xd0],
    [0x4f, 0x63, 0x50, 0x53, 0x5e, 0x9d, 0xdf, 0x75, 0x00, 0x00, 0x2c, 0x78, 0x53, 0x50, 0x58, 0x20, 0x20, 0x00, 0x08, 0x01, 0x2c, 0x6e, 0x00, 0x03, 0x04, 0xc1, 0x76, 0x03, 0x95, 0x8c, 0x60, 0x78],
    [0x4e, 0x45, 0x50, 0x42, 0x5e, 0x9d, 0xdf, 0x78, 0x00, 0x00, 0x23, 0x06, 0x53, 0x50, 0x58, 0x20, 0x20, 0x00, 0x1a, 0x02, 0x22, 0xf4, 0x00, 0x09, 0x04, 0xc2, 0xa3, 0xd2, 0xe4, 0x61, 0x74, 0x1f],
    [0x4e, 0x45, 0x43, 0x53, 0x5e, 0x9d, 0xdf, 0x82, 0x00, 0x00, 0x25, 0xf6, 0x45, 0x53, 0x20, 0x20, 0x20, 0x00, 0x08, 0x02, 0x25, 0xe8, 0x00, 0x0a, 0x04, 0xc5, 0x0a, 0x23, 0xfc, 0xf9, 0x64, 0xf6],
    [0x4e, 0x45, 0x50, 0x53, 0x5e, 0x9d, 0xdf, 0x85, 0x00, 0x00, 0x2f, 0x47, 0x46, 0x20, 0x20, 0x20, 0x20, 0x00, 0x13, 0x02, 0x2f, 0x4c, 0x00, 0x03, 0x04, 0xc6, 0x4f, 0xbd, 0x62, 0x03, 0xa5, 0x50],
    [0x4e, 0x45, 0x43, 0x42, 0x5e, 0x9d, 0xdf, 0x8f, 0x00, 0x00, 0x21, 0x96, 0x59, 0x4d, 0x20, 0x20, 0x20, 0x00, 0x06, 0x01, 0x21, 0x8d, 0x00, 0x08, 0x04, 0xc8, 0x34, 0x7e, 0x6f, 0x3c, 0x1c, 0x0e],
    [0x4e, 0x45, 0x43, 0x42, 0x5e, 0x9d, 0xdf, 0x97, 0x00, 0x00, 0x09, 0x44, 0x4e, 0x46, 0x4c, 0x58, 0x20, 0x00, 0x12, 0x01, 0x09, 0x52, 0x00, 0x07, 0x04, 0xca, 0x5b, 0x8f, 0xd5, 0x30, 0x03, 0x3c],
    [0x4e, 0x45, 0x50, 0x53, 0x5e, 0x9d, 0xdf, 0x9e, 0x00, 0x00, 0x06, 0x4a, 0x41, 0x41, 0x50, 0x4c, 0x20, 0x00, 0x22, 0x02, 0x06, 0x4e, 0x00, 0x05, 0x04, 0xcb, 0xb9, 0xb2, 0x5a, 0xa6, 0x5a, 0xff],
    [0x4e, 0x45, 0x43, 0x42, 0x5e, 0x9d, 0xdf, 0xa7, 0x00, 0x00, 0x35, 0xf1, 0x59, 0x4d, 0x20, 0x20, 0x20, 0x00, 0x11, 0x02, 0x35, 0xe2, 0x00, 0x07, 0x04, 0xcd, 0x39, 0x4d, 0xcf, 0x77, 0x15, 0x1f],
    [0x4e, 0x45, 0x43, 0x53, 0x5e, 0x9d, 0xdf, 0xb7, 0x00, 0x00, 0x25, 0x80, 0x59, 0x4d, 0x20, 0x20, 0x20, 0x00, 0x13, 0x01, 0x25, 0x85, 0x00, 0x08, 0x04, 0xd2, 0x42, 0x95, 0x2e, 0xf7, 0x08, 0x7c],
    [0x4e, 0x45, 0x50, 0x53, 0x5e, 0x9d, 0xdf, 0xbb, 0x00, 0x00, 0x01, 0xa8, 0x4e, 0x46, 0x4c, 0x58, 0x20, 0x00, 0x13, 0x01, 0x01, 0x99, 0x00, 0x04, 0x04, 0xd3, 0x0b, 0xb3, 0xa7, 0x35, 0xbb, 0x1f],
    [0x49, 0x6c, 0x43, 0x42, 0x5e, 0x9d, 0xdf, 0xc3, 0x00, 0x00, 0x16, 0x90, 0x47, 0x4f, 0x4f, 0x47, 0x4c, 0x00, 0x09, 0x02, 0x16, 0x85, 0x00, 0x06, 0x04, 0xd3, 0xaf, 0xc1, 0x29, 0xa5, 0xa4, 0xf9],
    [0x4e, 0x45, 0x43, 0x42, 0x5e, 0x9d, 0xdf, 0xc8, 0x00, 0x00, 0x27, 0xcc, 0x53, 0x50, 0x58, 0x20, 0x20, 0x00, 0x0e, 0x02, 0x27, 0xc0, 0x00, 0x07, 0x04, 0xd5, 0xe7, 0x11, 0x60, 0xed, 0xbc, 0xa7],
    [0x4e, 0x45, 0x43, 0x53, 0x5e, 0x9d, 0xdf, 0xd1, 0x00, 0x00, 0x17, 0x9d, 0x46, 0x20, 0x20, 0x20, 0x20, 0x00, 0x13, 0x02, 0x17, 0x8d, 0x00, 0x09, 0x04, 0xd9, 0x45, 0xfe, 0xf0, 0x09, 0x1f, 0xda],
    [0x4e, 0x45, 0x43, 0x53, 0x5e, 0x9d, 0xdf, 0xd7, 0x00, 0x00, 0x26, 0xa7, 0x45, 0x53, 0x20, 0x20, 0x20, 0x00, 0x08, 0x02, 0x26, 0x9b, 0x00, 0x09, 0x04, 0xda, 0x89, 0x29, 0xf5, 0xf0, 0x3b, 0xd3],
    [0x4e, 0x45, 0x50, 0x42, 0x5e, 0x9d, 0xdf, 0xdb, 0x00, 0x00, 0x39, 0xbd, 0x53, 0x50, 0x58, 0x20, 0x20, 0x00, 0x0c, 0x02, 0x39, 0xb1, 0x00, 0x0b, 0x04, 0xdd, 0xcf, 0x05, 0xbb, 0xac, 0x09, 0x7d],
    [0x4e, 0x45, 0x50, 0x53, 0x5e, 0x9d, 0xdf, 0xe2, 0x00, 0x00, 0x2f, 0x88, 0x47, 0x4f, 0x4f, 0x47, 0x4c, 0x00, 0x11, 0x02, 0x2f, 0x87, 0x00, 0x06, 0x04, 0xe0, 0x19, 0x84, 0xad, 0x79, 0xa1, 0x75],
    [0x4e, 0x45, 0x50, 0x53, 0x5e, 0x9d, 0xdf, 0xe5, 0x00, 0x00, 0x21, 0x1d, 0x57, 0x54, 0x49, 0x20, 0x20, 0x00, 0x05, 0x02, 0x21, 0x0e, 0x00, 0x04, 0x04, 0xe2, 0x9f, 0x79, 0x87, 0xe3, 0x90, 0x09],
    [0x4e, 0x45, 0x50, 0x53, 0x5e, 0x9d, 0xdf, 0xef, 0x00, 0x00, 0x2e, 0xab, 0x45, 0x53, 0x20, 0x20, 0x20, 0x00, 0x1d, 0x01, 0x2e, 0xa9, 0x00, 0x09, 0x04, 0xe3, 0xb7, 0xe8, 0xa8, 0xd5, 0x15, 0xc6],
    [0x4e, 0x45, 0x50, 0x42, 0x5e, 0x9d, 0xdf, 0xf5, 0x00, 0x00, 0x37, 0xa0, 0x57, 0x54, 0x49, 0x20, 0x20, 0x00, 0x05, 0x01, 0x37, 0xad, 0x00, 0x08, 0x04, 0xe6, 0xc4, 0x66, 0x36, 0x4f, 0x89, 0x3f],
    [0x4e, 0x45, 0x43, 0x53, 0x5e, 0x9d, 0xdf, 0xfd, 0x00, 0x00, 0x24, 0x79, 0x41, 0x41, 0x50, 0x4c, 0x20, 0x00, 0x12, 0x01, 0x24, 0x6a, 0x00, 0x09, 0x04, 0xe8, 0x7d, 0xe0, 0xf1, 0xb9, 0x6b, 0xe3],
    [0x4e, 0x45, 0x50, 0x53, 0x5e, 0x9d, 0xe0, 0x00, 0x00, 0x00, 0x08, 0xf0, 0x47, 0x4f, 0x4f, 0x47, 0x4c, 0x00, 0x21, 0x02, 0x08, 0xec, 0x00, 0x0c, 0x04, 0xea, 0xa0, 0x72, 0x74, 0x7b, 0x99, 0xb0]]"

definition raw_data :: "u8 list" where
  "raw_data = concat (raw_rows_0 @ raw_rows_1 @ raw_rows_2 @ raw_rows_3 @ raw_rows_4 @ raw_rows_5)"

end
