(* ===== verification/Trade_Bench.thy ===== *)
theory Trade_Bench
  imports Trade Target Raw_Data
begin

text \<open>
  The benchmark \<open>_start\<close> of \<open>testcode/src/comp3.c\<close>: 200 messages in sequence, then 80 messages
  three apart, over the capture of \<open>comp3_data.h\<close>. The theory shows that every read stays inside
  the capture, that no message breaches the threshold, and what the counters end with.
\<close>

section \<open>The loops of \<open>_start\<close>\<close>

text \<open>
  One of the two loops: \<open>count\<close> messages, \<open>stride\<close> bytes apart, from offset \<open>off\<close>. The result
  is the offset, the status and the counters after it; \<open>None\<close> is a read outside the buffer.
\<close>

fun trade_loop ::
  "nat \<Rightarrow> nat \<Rightarrow> u8 list \<Rightarrow> nat \<Rightarrow> u32 \<Rightarrow> trade_state \<Rightarrow> (nat \<times> u32 \<times> trade_state) option" where
  "trade_loop 0 stride data off status s = Some (off, status, s)"
| "trade_loop (Suc k) stride data off status s =
     (case load_notification data off of
        None \<Rightarrow> None
      | Some trade \<Rightarrow>
          let (ret_val, s') = process_execution trade s
          in trade_loop k stride data (off + stride)
               (if ret_val \<noteq> 0 then 0x00BADBAD else status) s')"

definition CHECK_EVERY :: nat where "CHECK_EVERY = 200"
definition STRIDE :: nat where "STRIDE = 3"
definition CHECK_STRIDE :: nat where "CHECK_STRIDE = 80"
definition MESSAGE_STRIDE :: nat where "MESSAGE_STRIDE = sizeof_notification * STRIDE"

definition comp3_start :: "macros \<Rightarrow> u8 list \<Rightarrow> (run_end \<times> trade_state) option" where
  "comp3_start m data =
     (case trade_loop CHECK_EVERY sizeof_notification data 0 0xFEFEFEFE trade_init of
        None \<Rightarrow> None
      | Some (off, status, s) \<Rightarrow>
        (case trade_loop CHECK_STRIDE MESSAGE_STRIDE data off status s of
           None \<Rightarrow> None
         | Some (off, status, s) \<Rightarrow>
             let status = (if status = 0xFEFEFEFE then 0x600D600D else status)
             in Some (if pp_target_is m ''TARGET_EWS'' then Returns 0 else Spins status, s)))"


section \<open>Runs of the specification\<close>

primrec spec_run :: "sent_message list \<Rightarrow> ledger \<Rightarrow> bool \<times> ledger" where
  "spec_run [] l = (False, l)"
| "spec_run (x # xs) l =
     (let (b, l') = spec_step x l; (b', l'') = spec_run xs l' in (b \<or> b', l''))"

text \<open>The offsets one loop visits.\<close>

definition visited :: "nat \<Rightarrow> nat \<Rightarrow> nat \<Rightarrow> nat list" where
  "visited k stride off = map (\<lambda>i. off + stride * i) [0..<k]"

lemma visited_Suc: "visited (Suc k) stride off = off # visited k stride (off + stride)"
  by (simp add: visited_def upt_conv_Cons flip: map_Suc_upt del: upt_Suc)

lemma visited_0 [simp]: "visited 0 stride off = []"
  by (simp add: visited_def)

lemma trade_loop_correct:
  assumes "\<forall>i \<in> set (visited k stride off). i + 32 \<le> length data \<and> risk_fits (message_at data i)"
    and "represents s l" and "spec_run (map (message_at data) (visited k stride off)) l = (breach, l')"
  shows "\<exists>s'. trade_loop k stride data off status s
      = Some (off + stride * k, if breach then 0x00BADBAD else status, s') \<and> represents s' l'"
  using assms
proof (induction k arbitrary: off status s l breach)
  case (Suc k)
  have "off + 32 \<le> length data" and fits: "risk_fits (message_at data off)"
    using Suc.prems(1) by (simp_all add: visited_Suc)
  then obtain t ret s1 b l1 where t: "load_notification data off = Some t"
    "process_execution t s = (ret, s1)" "spec_step (message_at data off) l = (b, l1)"
    "represents s1 l1" "ret = (if b then 1 else 0)"
    using process_step [OF _ Suc.prems(2)] by metis
  obtain b' where r: "spec_run (map (message_at data) (visited k stride (off + stride))) l1 = (b', l')"
    and b: "breach = (b \<or> b')"
    using Suc.prems(3) by (auto simp: visited_Suc t Let_def split: prod.splits)
  have "\<exists>s'. trade_loop k stride data (off + stride) (if ret \<noteq> 0 then 0x00BADBAD else status) s1
      = Some (off + stride + stride * k, if b' then 0x00BADBAD else (if ret \<noteq> 0 then 0x00BADBAD else status), s')
        \<and> represents s' l'"
    using Suc.prems(1) by (intro Suc.IH [OF _ t(4) r]) (simp add: visited_Suc)
  then show ?case using t b by (auto simp: Let_def algebra_simps)
qed simp

section \<open>The capture as rows\<close>

lemma take_drop_concat:
  assumes "\<forall>r \<in> set rows. length r = n" and "i < length rows"
  shows "take n (drop (n * i) (concat rows)) = rows ! i"
  using assms
proof (induction rows arbitrary: i)
  case (Cons r rows)
  then show ?case by (cases i) simp_all
qed simp

lemma length_concat_rows: "\<forall>r \<in> set rows. length r = n \<Longrightarrow> length (concat rows) = n * length rows"
  by (induction rows) simp_all

abbreviation raw_rows :: "u8 list list" where
  "raw_rows \<equiv> raw_rows_0 @ raw_rows_1 @ raw_rows_2 @ raw_rows_3 @ raw_rows_4 @ raw_rows_5"

lemma length_raw_rows_0: "length raw_rows_0 = 120" by (simp add: raw_rows_0_def)
lemma length_raw_rows_1: "length raw_rows_1 = 80" by (simp add: raw_rows_1_def)
lemma length_raw_rows_2: "length raw_rows_2 = 120" by (simp add: raw_rows_2_def)
lemma length_raw_rows_3: "length raw_rows_3 = 120" by (simp add: raw_rows_3_def)
lemma length_raw_rows_4: "length raw_rows_4 = 80" by (simp add: raw_rows_4_def)
lemma length_raw_rows_5: "length raw_rows_5 = 80" by (simp add: raw_rows_5_def)
lemmas length_raw_rows = length_raw_rows_0 length_raw_rows_1 length_raw_rows_2 length_raw_rows_3
  length_raw_rows_4 length_raw_rows_5

text \<open>Every row is a message of 32 bytes whose price and strike are close.\<close>

definition row_ok :: "u8 list \<Rightarrow> bool" where
  "row_ok r \<longleftrightarrow> length r = 32 \<and> risk_fits (sent r)"

lemma sent_row:
  "sent [b0, b1, b2, b3, b4, b5, b6, b7, b8, b9, b10, b11, b12, b13, b14, b15, b16, b17, b18, b19,
         b20, b21, b22, b23, b24, b25, b26, b27, b28, b29, b30, b31] =
   \<lparr> s_type = b0, s_subtype = b1, s_trade = b2, s_side = b3,
     s_price = be_nat [b8, b9, b10, b11], s_contracts = be_nat [b17, b18], s_liquidity = b19,
     s_strike = be_nat [b20, b21], s_expiration = be_nat [b22, b23],
     s_id = be_nat [b24, b25, b26, b27, b28, b29, b30, b31] \<rparr>"
  by (simp add: sent_def field_bytes_def)

lemmas run_simps = spec_step_def spec_ignored_def spec_risk_def risk_fits_def sent_row be_nat_def
  EXECUTION_TYPE_def EXECUTION_SUBTYPE_def TRADE_PUT_def TRADE_CALL_def SIDE_BUY_def SIDE_SELL_def
  LIQUIDITY_MAKER_def

lemma raw_rows_0_ok: "list_all row_ok raw_rows_0" by (simp add: raw_rows_0_def row_ok_def run_simps)
lemma raw_rows_1_ok: "list_all row_ok raw_rows_1" by (simp add: raw_rows_1_def row_ok_def run_simps)
lemma raw_rows_2_ok: "list_all row_ok raw_rows_2" by (simp add: raw_rows_2_def row_ok_def run_simps)
lemma raw_rows_3_ok: "list_all row_ok raw_rows_3" by (simp add: raw_rows_3_def row_ok_def run_simps)
lemma raw_rows_4_ok: "list_all row_ok raw_rows_4" by (simp add: raw_rows_4_def row_ok_def run_simps)
lemma raw_rows_5_ok: "list_all row_ok raw_rows_5" by (simp add: raw_rows_5_def row_ok_def run_simps)

lemma raw_rows_ok: "\<forall>r \<in> set raw_rows. row_ok r"
  using raw_rows_0_ok raw_rows_1_ok raw_rows_2_ok raw_rows_3_ok raw_rows_4_ok raw_rows_5_ok
  unfolding list_all_iff set_append ball_Un by (intro conjI)

lemma raw_row_lengths: "\<forall>r \<in> set raw_rows. length r = 32"
  using raw_rows_ok unfolding row_ok_def by blast

lemma length_raw_data: "length raw_data = 19200"
  using length_concat_rows [OF raw_row_lengths] by (simp add: raw_data_def length_raw_rows)

lemma message_at_raw_data: "i < 600 \<Longrightarrow> message_at raw_data (32 * i) = sent (raw_rows ! i)"
  using take_drop_concat [OF raw_row_lengths] by (simp add: raw_data_def length_raw_rows)

text \<open>Every third row, as the second loop visits them.\<close>

fun thirds :: "'a list \<Rightarrow> 'a list" where
  "thirds (x # y # z # xs) = x # thirds xs"
| "thirds [x] = [x]"
| "thirds [x, y] = [x]"
| "thirds [] = []"

lemma thirds_nth: "3 * n \<le> length xs \<Longrightarrow> take n (thirds xs) = map (\<lambda>i. xs ! (3 * i)) [0..<n]"
proof (induction xs arbitrary: n rule: thirds.induct)
  case (1 x y z xs)
  then show ?case
    by (cases n) (simp_all add: upt_conv_Cons algebra_simps flip: map_Suc_upt del: upt_Suc)
next
  case (2 x) then show ?case by (cases n) simp_all
next
  case (3 x y) then show ?case by (cases n) simp_all
qed simp

lemma thirds_append: "length xs mod 3 = 0 \<Longrightarrow> thirds (xs @ ys) = thirds xs @ thirds ys"
proof (induction xs rule: thirds.induct)
  case (1 x y z xs)
  have "length xs mod 3 = 0" using "1.prems" by (simp add: numeral_3_eq_3 [symmetric] mod_Suc split: if_splits)
  with 1 show ?case by simp
qed simp_all

lemma length_thirds: "length (thirds xs) = (length xs + 2) div 3"
  by (induction xs rule: thirds.induct) simp_all

lemma take_eq_map_nth: "k \<le> length xs \<Longrightarrow> take k xs = map ((!) xs) [0..<k]"
  by (rule nth_equalityI) simp_all

lemma first_loop_rows: "map (message_at raw_data) (visited 200 32 0) = map sent (raw_rows_0 @ raw_rows_1)"
proof -
  have "map (message_at raw_data) (visited 200 32 0) = map sent (map ((!) raw_rows) [0..<200])"
    unfolding visited_def map_map comp_def by (intro map_cong) (simp_all add: message_at_raw_data)
  also have "map ((!) raw_rows) [0..<200] = take 200 raw_rows"
    by (rule take_eq_map_nth [symmetric]) (simp add: length_raw_rows)
  also have "take 200 raw_rows = raw_rows_0 @ raw_rows_1"
    by (simp add: length_raw_rows)
  finally show ?thesis .
qed

lemma second_loop_rows:
  "map (message_at raw_data) (visited 80 96 6400) = map sent (thirds raw_rows_2 @ thirds raw_rows_3)"
proof -
  have at: "raw_rows ! (200 + k) = (raw_rows_2 @ raw_rows_3) ! k" if "k < 240" for k
    using that less_diff_conv2 [of 120 k 120]
    by (cases "k < 120") (simp_all add: nth_append length_raw_rows)
  have "map (message_at raw_data) (visited 80 96 6400) =
      map sent (map (\<lambda>i. (raw_rows_2 @ raw_rows_3) ! (3 * i)) [0..<80])"
    unfolding visited_def map_map comp_def
  proof (intro map_cong refl)
    fix i assume "i \<in> set [0..<80::nat]"
    then have i: "i < 80" by simp
    then have "message_at raw_data (32 * (200 + 3 * i)) = sent ((raw_rows_2 @ raw_rows_3) ! (3 * i))"
      using at [of "3 * i"] by (subst message_at_raw_data) simp_all
    moreover have "32 * (200 + 3 * i) = 6400 + 96 * i" by simp
    ultimately show "message_at raw_data (6400 + 96 * i) = sent ((raw_rows_2 @ raw_rows_3) ! (3 * i))"
      by (simp only:)
  qed
  also have "map (\<lambda>i. (raw_rows_2 @ raw_rows_3) ! (3 * i)) [0..<80] = take 80 (thirds (raw_rows_2 @ raw_rows_3))"
    by (subst thirds_nth) (simp_all add: length_raw_rows)
  also have "\<dots> = thirds (raw_rows_2 @ raw_rows_3)"
    by (rule take_all) (simp add: length_thirds length_raw_rows)
  also have "thirds (raw_rows_2 @ raw_rows_3) = thirds raw_rows_2 @ thirds raw_rows_3"
    by (rule thirds_append) (simp add: length_raw_rows)
  finally show ?thesis .
qed

section \<open>Evaluation\<close>

text \<open>One row at a time; the state between two rows is found by evaluating the first.\<close>

lemma run_done: "spec_run (map sent []) l = (False, l)"
  by simp

lemma run_row:
  "spec_step (sent r) l = (False, l') \<Longrightarrow> spec_run (map sent rs) l' = res \<Longrightarrow>
   spec_run (map sent (r # rs)) l = res"
  by (cases res) (simp add: Let_def)

lemma run_third_done: "spec_run (map sent (thirds [])) l = (False, l)"
  by simp

lemma run_third:
  "spec_step (sent r) l = (False, l') \<Longrightarrow> spec_run (map sent (thirds rs)) l' = res \<Longrightarrow>
   spec_run (map sent (thirds (r # x # y # rs))) l = res"
  by (cases res) (simp add: Let_def)

lemma spec_run_append:
  "spec_run xs l = (b, l') \<Longrightarrow> spec_run ys l' = (b', l'') \<Longrightarrow> spec_run (xs @ ys) l = (b \<or> b', l'')"
  by (induction xs arbitrary: l b) (auto simp: Let_def split: prod.splits)

definition ledger_init :: ledger where
  "ledger_init = \<lparr> last_id = 0, traded = 0, puts = 0, calls = 0 \<rparr>"

lemma run_rows_0: "spec_run (map sent raw_rows_0)
      ledger_init =
    (False, \<lparr> last_id = 73076166006814148, traded = 2289, puts = 54, calls = - 93 \<rparr>)"
  unfolding raw_rows_0_def ledger_init_def
  by (rule run_row, simp add: run_simps)+ (rule run_done)

lemma run_rows_1: "spec_run (map sent raw_rows_1)
      \<lparr> last_id = 73076166006814148, traded = 2289, puts = 54, calls = - 93 \<rparr> =
    (False, \<lparr> last_id = 117504301361543793, traded = 3635, puts = 80, calls = 87 \<rparr>)"
  unfolding raw_rows_1_def
  by (rule run_row, simp add: run_simps)+ (rule run_done)

lemma run_thirds_2: "spec_run (map sent (thirds raw_rows_2))
      \<lparr> last_id = 117504301361543793, traded = 3635, puts = 80, calls = 87 \<rparr> =
    (False, \<lparr> last_id = 182820474456220365, traded = 4354, puts = 86, calls = 66 \<rparr>)"
  unfolding raw_rows_2_def
  by (rule run_third, simp add: run_simps)+ (rule run_third_done)

lemma run_thirds_3: "spec_run (map sent (thirds raw_rows_3))
      \<lparr> last_id = 182820474456220365, traded = 4354, puts = 86, calls = 66 \<rparr> =
    (False, \<lparr> last_id = 258879460752365257, traded = 5108, puts = 27, calls = 57 \<rparr>)"
  unfolding raw_rows_3_def
  by (rule run_third, simp add: run_simps)+ (rule run_third_done)

lemma raw_rows_fit: "i < 600 \<Longrightarrow> risk_fits (message_at raw_data (32 * i))"
proof -
  assume i: "i < 600"
  then have "raw_rows ! i \<in> set raw_rows" by (intro nth_mem) (simp add: length_raw_rows)
  then have "row_ok (raw_rows ! i)" using raw_rows_ok by blast
  then show ?thesis using i by (simp only: message_at_raw_data row_ok_def)
qed

lemma first_loop:
  "\<exists>s. trade_loop CHECK_EVERY sizeof_notification raw_data 0 st trade_init = Some (6400, st, s)
     \<and> represents s \<lparr> last_id = 117504301361543793, traded = 3635, puts = 80, calls = 87 \<rparr>"
proof -
  have "\<forall>i \<in> set (visited 200 32 0). i + 32 \<le> length raw_data \<and> risk_fits (message_at raw_data i)"
    by (auto simp: visited_def length_raw_data intro!: raw_rows_fit)
  moreover have "represents trade_init ledger_init"
    by (simp add: represents_def trade_init_def ledger_init_def)
  ultimately show ?thesis
    using trade_loop_correct [of 200 32 0 raw_data trade_init ledger_init False _ st]
      spec_run_append [OF run_rows_0 run_rows_1]
    by (simp add: first_loop_rows CHECK_EVERY_def sizeof_notification_def)
qed

lemma second_loop:
  assumes "represents s \<lparr> last_id = 117504301361543793, traded = 3635, puts = 80, calls = 87 \<rparr>"
  shows "\<exists>s'. trade_loop CHECK_STRIDE MESSAGE_STRIDE raw_data 6400 st s = Some (14080, st, s')
     \<and> represents s' \<lparr> last_id = 258879460752365257, traded = 5108, puts = 27, calls = 57 \<rparr>"
proof -
  have "risk_fits (message_at raw_data (6400 + 96 * i))" if "i < 80" for i
    using raw_rows_fit [of "200 + 3 * i"] that by (simp add: algebra_simps)
  then have "\<forall>i \<in> set (visited 80 96 6400). i + 32 \<le> length raw_data \<and> risk_fits (message_at raw_data i)"
    by (auto simp: visited_def length_raw_data)
  then show ?thesis
    using trade_loop_correct [of 80 96 6400 raw_data s _ False _ st] assms
      spec_run_append [OF run_thirds_2 run_thirds_3]
    by (simp add: second_loop_rows CHECK_STRIDE_def MESSAGE_STRIDE_def STRIDE_def sizeof_notification_def)
qed

section \<open>The counters and the benchmark\<close>

lemma be_nat_two_less: "length bs = 2 \<Longrightarrow> be_nat bs < 2 ^ 16"
  using be_nat_less [of bs] by simp

lemma spec_step_bounds:
  assumes "spec_step x l = (b, l')" and "s_contracts x < 2 ^ 16"
    and "0 \<le> traded l" "\<bar>puts l\<bar> \<le> traded l" "\<bar>calls l\<bar> \<le> traded l" "traded l \<le> N"
  shows "0 \<le> traded l' \<and> \<bar>puts l'\<bar> \<le> traded l' \<and> \<bar>calls l'\<bar> \<le> traded l' \<and> traded l' \<le> N + 65535"
  using assms by (auto simp: spec_step_def split: if_splits)

lemma spec_run_bounds:
  assumes "spec_run xs l = (b, l')" and "\<forall>x \<in> set xs. s_contracts x < 2 ^ 16"
    and "0 \<le> traded l" "\<bar>puts l\<bar> \<le> traded l" "\<bar>calls l\<bar> \<le> traded l" "traded l \<le> N"
  shows "\<bar>puts l'\<bar> \<le> traded l' \<and> \<bar>calls l'\<bar> \<le> traded l' \<and> 0 \<le> traded l' \<and> traded l' \<le> N + 65535 * int (length xs)"
  using assms
proof (induction xs arbitrary: l b N)
  case (Cons x xs)
  obtain b1 l1 b2 where 1: "spec_step x l = (b1, l1)" and 2: "spec_run xs l1 = (b2, l')"
    using Cons.prems(1) by (auto simp: Let_def split: prod.splits)
  have "0 \<le> traded l1 \<and> \<bar>puts l1\<bar> \<le> traded l1 \<and> \<bar>calls l1\<bar> \<le> traded l1 \<and> traded l1 \<le> N + 65535"
    using Cons.prems by (intro spec_step_bounds [OF 1]) simp_all
  with Cons.IH [OF 2, of "N + 65535"] Cons.prems(2) show ?case by (simp add: algebra_simps)
qed simp

lemma s_contracts_less: "off + 32 \<le> length data \<Longrightarrow> s_contracts (message_at data off) < 65536"
  using be_nat_two_less [OF length_field_bytes [of 17 2 "take 32 (drop off data)"]] by (simp add: sent_def)

text \<open>
  C34: over fewer than 2^15 messages from the start the 32-bit counters do not wrap: read as
  unsigned and signed ints they are the sums over the counted messages, the net puts and calls
  bounded by the contracts processed. Assumed of the messages visited is that they lie in the data, and that price and strike
  of each differ by less than 2^28 (\<open>risk_fits\<close>), within which the C code computes the risk it compares without wrapping.
\<close>

theorem trade_counters_exact:
  assumes "k < 2 ^ 15"
    and "\<forall>i \<in> set (visited k stride 0). i + 32 \<le> length data \<and> risk_fits (message_at data i)"
    and "spec_run (map (message_at data) (visited k stride 0)) ledger_init = (breach, l)"
  shows "\<exists>s. trade_loop k stride data 0 status trade_init
      = Some (stride * k, if breach then 0x00BADBAD else status, s)
    \<and> unat (old_message_id s) = last_id l \<and> uint (contracts_processed s) = traded l
    \<and> sint (puts_count s) = puts l \<and> sint (calls_count s) = calls l
    \<and> \<bar>puts l\<bar> \<le> traded l \<and> \<bar>calls l\<bar> \<le> traded l"
proof -
  have "represents trade_init ledger_init"
    by (simp add: represents_def trade_init_def ledger_init_def)
  from trade_loop_correct [OF assms(2) this assms(3), of status]
  obtain s where s: "trade_loop k stride data 0 status trade_init
      = Some (stride * k, if breach then 0x00BADBAD else status, s)" "represents s l"
    by auto
  have "\<bar>puts l\<bar> \<le> traded l \<and> \<bar>calls l\<bar> \<le> traded l \<and> 0 \<le> traded l
      \<and> traded l \<le> 0 + 65535 * int (length (map (message_at data) (visited k stride 0)))"
    using assms(2) by (intro spec_run_bounds [OF assms(3)]) (auto simp: ledger_init_def intro!: s_contracts_less)
  then have b: "\<bar>puts l\<bar> \<le> traded l" "\<bar>calls l\<bar> \<le> traded l" "0 \<le> traded l" "traded l < 2 ^ 31"
    using assms(1) by (simp_all add: visited_def)
  then have "sint (puts_count s) = puts l" "sint (calls_count s) = calls l" "uint (contracts_processed s) = traded l"
    using s(2) by (simp_all add: represents_def sint_word_of_int_u32 uint_word_of_int_eq take_bit_int_eq_self_iff)
  with s b show ?thesis by (auto simp: represents_def)
qed

theorem trade_counters_exact_witness:
  "\<exists>s. trade_loop 200 32 raw_data 0 0xFEFEFEFE trade_init = Some (6400, 0xFEFEFEFE, s)
     \<and> uint (contracts_processed s) = 3635 \<and> sint (puts_count s) = 80 \<and> sint (calls_count s) = 87"
proof -
  have "\<forall>i \<in> set (visited 200 32 0). i + 32 \<le> length raw_data \<and> risk_fits (message_at raw_data i)"
    by (auto simp: visited_def length_raw_data intro!: raw_rows_fit)
  from trade_counters_exact [OF _ this, of False _ "0xFEFEFEFE"] spec_run_append [OF run_rows_0 run_rows_1]
  show ?thesis by (simp add: first_loop_rows) blast
qed

text \<open>
  C14: the trade benchmark as built for RISC-V reads only inside its capture, sees no breach of
  the risk threshold and ends spinning with the success status; its counters end at 5108
  contracts, 27 puts and 57 calls net, the sums over the messages as sent.
\<close>

theorem comp3_passes:
  "comp3_start target_h raw_data =
     Some (Spins 0x600D600D, \<lparr> old_message_id = 258879460752365257, contracts_processed = 5108,
                               puts_count = 27, calls_count = 57 \<rparr>)"
proof -
  obtain s s' where l: "trade_loop CHECK_EVERY sizeof_notification raw_data 0 0xFEFEFEFE trade_init = Some (6400, 0xFEFEFEFE, s)"
    "trade_loop CHECK_STRIDE MESSAGE_STRIDE raw_data 6400 0xFEFEFEFE s = Some (14080, 0xFEFEFEFE, s')"
    and r: "represents s' \<lparr> last_id = 258879460752365257, traded = 5108, puts = 27, calls = 57 \<rparr>"
    using first_loop second_loop by meson
  have "old_message_id s' = word_of_nat (unat (old_message_id s'))" by simp
  also have "\<dots> = 258879460752365257" using r by (simp only: represents_def ledger.simps of_nat_numeral)
  finally have "s' = \<lparr> old_message_id = 258879460752365257, contracts_processed = 5108,
                      puts_count = 27, calls_count = 57 \<rparr>"
    using r by (simp add: represents_def)
  then show ?thesis
    by (simp add: comp3_start_def l pp_target_is_def pp_value_def target_h_def)
qed

end
