(* ===== verification/Pli_Stubs.thy ===== *)
theory Pli_Stubs
  imports Prelude
begin

text \<open>
  The PLI stubs of \<open>sim/csrc/_vcs_pli_stub_.c\<close>: one weak definition per waveform routine, which
  finds the real routine at its first call and forwards to it ever after. The theory shows that
  a routine is looked up at most once, in which order, that every call is forwarded exactly once
  to the routine found at the first, and when the failure is reported.

  \<open>dlsym\<close> and \<open>VCS_dlsymLookup\<close> are not in the repository: they are two partial functions
  from names to routines in the environment of each call, which may answer differently at
  different times. What a stub does to the outside is a list of events.
\<close>

section \<open>The body of a stub\<close>

record 'fp pli_env =
  dlsym :: "string \<Rightarrow> 'fp option"
  VCS_dlsymLookup :: "string \<Rightarrow> 'fp option"

text \<open>The two static variables of a stub, and those of all stubs, by the name of the stub.\<close>

record 'fp stub_statics =
  initialized :: bool
  fp :: "'fp option"

type_synonym 'fp statics = "string \<Rightarrow> 'fp stub_statics"

definition fresh_statics :: "'fp statics" where
  "fresh_statics = (\<lambda>_. \<lparr> initialized = False, fp = None \<rparr>)"

datatype 'fp pli_event =
  Dlsym string
| Vcs_lookup string
| Invoke 'fp "u32 list"
| Report string string

text \<open>The block guarded by \<open>_vcs_pli_stub_initialized_\<close>.\<close>

definition stub_init :: "string \<Rightarrow> 'fp pli_env \<Rightarrow> 'fp stub_statics \<Rightarrow> 'fp stub_statics \<times> 'fp pli_event list" where
  "stub_init name env st =
     (if \<not> initialized st
      then
        let st = st\<lparr>initialized := True\<rparr>;
            st = st\<lparr>fp := dlsym env name\<rparr>
        in if fp st = None
           then (st\<lparr>fp := VCS_dlsymLookup env name\<rparr>, [Dlsym name, Vcs_lookup name])
           else (st, [Dlsym name])
      else (st, []))"

text \<open>A stub of a call routine reports a routine that was not found; a stub of a misc routine does not.\<close>

definition stub_forward :: "bool \<Rightarrow> string \<Rightarrow> u32 list \<Rightarrow> 'fp stub_statics \<Rightarrow> 'fp pli_event list" where
  "stub_forward reports name args st =
     (case fp st of
        Some f \<Rightarrow> [Invoke f args]
      | None \<Rightarrow> if reports then [Report ''PLI-DIFNF'' name] else [])"

definition call_stub ::
  "bool \<Rightarrow> string \<Rightarrow> u32 list \<Rightarrow> 'fp pli_env \<Rightarrow> 'fp statics \<Rightarrow> 'fp statics \<times> 'fp pli_event list" where
  "call_stub reports name args env statics =
     (let (st, lookups) = stub_init name env (statics name)
      in (statics(name := st), lookups @ stub_forward reports name args st))"

section \<open>The stubs\<close>

definition novas_call_fsdbDumpvars :: "u32 \<Rightarrow> u32 \<Rightarrow> 'fp pli_env \<Rightarrow> 'fp statics \<Rightarrow> 'fp statics \<times> 'fp pli_event list" where
  "novas_call_fsdbDumpvars data reason = call_stub True ''novas_call_fsdbDumpvars'' [data, reason]"

definition novas_misc :: "u32 \<Rightarrow> u32 \<Rightarrow> u32 \<Rightarrow> 'fp pli_env \<Rightarrow> 'fp statics \<Rightarrow> 'fp statics \<times> 'fp pli_event list" where
  "novas_misc data reason iparam = call_stub False ''novas_misc'' [data, reason, iparam]"

definition novas_call_fsdbDumpvarsByFile :: "u32 \<Rightarrow> u32 \<Rightarrow> 'fp pli_env \<Rightarrow> 'fp statics \<Rightarrow> 'fp statics \<times> 'fp pli_event list" where
  "novas_call_fsdbDumpvarsByFile data reason = call_stub True ''novas_call_fsdbDumpvarsByFile'' [data, reason]"

definition novas_call_fsdbAddRuntimeSignal :: "u32 \<Rightarrow> u32 \<Rightarrow> 'fp pli_env \<Rightarrow> 'fp statics \<Rightarrow> 'fp statics \<times> 'fp pli_event list" where
  "novas_call_fsdbAddRuntimeSignal data reason = call_stub True ''novas_call_fsdbAddRuntimeSignal'' [data, reason]"

definition novas_call_sps_create_transaction_stream :: "u32 \<Rightarrow> u32 \<Rightarrow> 'fp pli_env \<Rightarrow> 'fp statics \<Rightarrow> 'fp statics \<times> 'fp pli_event list" where
  "novas_call_sps_create_transaction_stream data reason = call_stub True ''novas_call_sps_create_transaction_stream'' [data, reason]"

definition novas_call_sps_begin_transaction :: "u32 \<Rightarrow> u32 \<Rightarrow> 'fp pli_env \<Rightarrow> 'fp statics \<Rightarrow> 'fp statics \<times> 'fp pli_event list" where
  "novas_call_sps_begin_transaction data reason = call_stub True ''novas_call_sps_begin_transaction'' [data, reason]"

definition novas_call_sps_end_transaction :: "u32 \<Rightarrow> u32 \<Rightarrow> 'fp pli_env \<Rightarrow> 'fp statics \<Rightarrow> 'fp statics \<times> 'fp pli_event list" where
  "novas_call_sps_end_transaction data reason = call_stub True ''novas_call_sps_end_transaction'' [data, reason]"

definition novas_call_sps_free_transaction :: "u32 \<Rightarrow> u32 \<Rightarrow> 'fp pli_env \<Rightarrow> 'fp statics \<Rightarrow> 'fp statics \<times> 'fp pli_event list" where
  "novas_call_sps_free_transaction data reason = call_stub True ''novas_call_sps_free_transaction'' [data, reason]"

definition novas_call_sps_add_attribute :: "u32 \<Rightarrow> u32 \<Rightarrow> 'fp pli_env \<Rightarrow> 'fp statics \<Rightarrow> 'fp statics \<times> 'fp pli_event list" where
  "novas_call_sps_add_attribute data reason = call_stub True ''novas_call_sps_add_attribute'' [data, reason]"

definition novas_call_sps_update_label :: "u32 \<Rightarrow> u32 \<Rightarrow> 'fp pli_env \<Rightarrow> 'fp statics \<Rightarrow> 'fp statics \<times> 'fp pli_event list" where
  "novas_call_sps_update_label data reason = call_stub True ''novas_call_sps_update_label'' [data, reason]"

definition novas_call_sps_add_relation :: "u32 \<Rightarrow> u32 \<Rightarrow> 'fp pli_env \<Rightarrow> 'fp statics \<Rightarrow> 'fp statics \<times> 'fp pli_event list" where
  "novas_call_sps_add_relation data reason = call_stub True ''novas_call_sps_add_relation'' [data, reason]"

definition novas_call_fsdbWhatif :: "u32 \<Rightarrow> u32 \<Rightarrow> 'fp pli_env \<Rightarrow> 'fp statics \<Rightarrow> 'fp statics \<times> 'fp pli_event list" where
  "novas_call_fsdbWhatif data reason = call_stub True ''novas_call_fsdbWhatif'' [data, reason]"

definition novas_call_paa_init :: "u32 \<Rightarrow> u32 \<Rightarrow> 'fp pli_env \<Rightarrow> 'fp statics \<Rightarrow> 'fp statics \<times> 'fp pli_event list" where
  "novas_call_paa_init data reason = call_stub True ''novas_call_paa_init'' [data, reason]"

definition novas_call_paa_sync :: "u32 \<Rightarrow> u32 \<Rightarrow> 'fp pli_env \<Rightarrow> 'fp statics \<Rightarrow> 'fp statics \<times> 'fp pli_event list" where
  "novas_call_paa_sync data reason = call_stub True ''novas_call_paa_sync'' [data, reason]"

definition novas_call_fsdbDumpClassMethod :: "u32 \<Rightarrow> u32 \<Rightarrow> 'fp pli_env \<Rightarrow> 'fp statics \<Rightarrow> 'fp statics \<times> 'fp pli_event list" where
  "novas_call_fsdbDumpClassMethod data reason = call_stub True ''novas_call_fsdbDumpClassMethod'' [data, reason]"

definition novas_call_fsdbSuppressClassMethod :: "u32 \<Rightarrow> u32 \<Rightarrow> 'fp pli_env \<Rightarrow> 'fp statics \<Rightarrow> 'fp statics \<times> 'fp pli_event list" where
  "novas_call_fsdbSuppressClassMethod data reason = call_stub True ''novas_call_fsdbSuppressClassMethod'' [data, reason]"

definition novas_call_fsdbSuppressClassProp :: "u32 \<Rightarrow> u32 \<Rightarrow> 'fp pli_env \<Rightarrow> 'fp statics \<Rightarrow> 'fp statics \<times> 'fp pli_event list" where
  "novas_call_fsdbSuppressClassProp data reason = call_stub True ''novas_call_fsdbSuppressClassProp'' [data, reason]"

definition novas_call_fsdbDumpMDAByFile :: "u32 \<Rightarrow> u32 \<Rightarrow> 'fp pli_env \<Rightarrow> 'fp statics \<Rightarrow> 'fp statics \<times> 'fp pli_event list" where
  "novas_call_fsdbDumpMDAByFile data reason = call_stub True ''novas_call_fsdbDumpMDAByFile'' [data, reason]"

definition novas_call_fsdbEvent_create_stream_begin :: "u32 \<Rightarrow> u32 \<Rightarrow> 'fp pli_env \<Rightarrow> 'fp statics \<Rightarrow> 'fp statics \<times> 'fp pli_event list" where
  "novas_call_fsdbEvent_create_stream_begin data reason = call_stub True ''novas_call_fsdbEvent_create_stream_begin'' [data, reason]"

definition novas_call_fsdbEvent_add_stream_attribute :: "u32 \<Rightarrow> u32 \<Rightarrow> 'fp pli_env \<Rightarrow> 'fp statics \<Rightarrow> 'fp statics \<times> 'fp pli_event list" where
  "novas_call_fsdbEvent_add_stream_attribute data reason = call_stub True ''novas_call_fsdbEvent_add_stream_attribute'' [data, reason]"

definition novas_call_fsdbEvent_create_stream_end :: "u32 \<Rightarrow> u32 \<Rightarrow> 'fp pli_env \<Rightarrow> 'fp statics \<Rightarrow> 'fp statics \<times> 'fp pli_event list" where
  "novas_call_fsdbEvent_create_stream_end data reason = call_stub True ''novas_call_fsdbEvent_create_stream_end'' [data, reason]"

definition novas_call_fsdbEvent_begin :: "u32 \<Rightarrow> u32 \<Rightarrow> 'fp pli_env \<Rightarrow> 'fp statics \<Rightarrow> 'fp statics \<times> 'fp pli_event list" where
  "novas_call_fsdbEvent_begin data reason = call_stub True ''novas_call_fsdbEvent_begin'' [data, reason]"

definition novas_call_fsdbEvent_set_label :: "u32 \<Rightarrow> u32 \<Rightarrow> 'fp pli_env \<Rightarrow> 'fp statics \<Rightarrow> 'fp statics \<times> 'fp pli_event list" where
  "novas_call_fsdbEvent_set_label data reason = call_stub True ''novas_call_fsdbEvent_set_label'' [data, reason]"

definition novas_call_fsdbEvent_add_attribute :: "u32 \<Rightarrow> u32 \<Rightarrow> 'fp pli_env \<Rightarrow> 'fp statics \<Rightarrow> 'fp statics \<times> 'fp pli_event list" where
  "novas_call_fsdbEvent_add_attribute data reason = call_stub True ''novas_call_fsdbEvent_add_attribute'' [data, reason]"

definition novas_call_fsdbEvent_add_tag :: "u32 \<Rightarrow> u32 \<Rightarrow> 'fp pli_env \<Rightarrow> 'fp statics \<Rightarrow> 'fp statics \<times> 'fp pli_event list" where
  "novas_call_fsdbEvent_add_tag data reason = call_stub True ''novas_call_fsdbEvent_add_tag'' [data, reason]"

definition novas_call_fsdbEvent_end :: "u32 \<Rightarrow> u32 \<Rightarrow> 'fp pli_env \<Rightarrow> 'fp statics \<Rightarrow> 'fp statics \<times> 'fp pli_event list" where
  "novas_call_fsdbEvent_end data reason = call_stub True ''novas_call_fsdbEvent_end'' [data, reason]"

definition novas_call_fsdbEvent_add_relation :: "u32 \<Rightarrow> u32 \<Rightarrow> 'fp pli_env \<Rightarrow> 'fp statics \<Rightarrow> 'fp statics \<times> 'fp pli_event list" where
  "novas_call_fsdbEvent_add_relation data reason = call_stub True ''novas_call_fsdbEvent_add_relation'' [data, reason]"

definition novas_call_fsdbEvent_get_error_code :: "u32 \<Rightarrow> u32 \<Rightarrow> 'fp pli_env \<Rightarrow> 'fp statics \<Rightarrow> 'fp statics \<times> 'fp pli_event list" where
  "novas_call_fsdbEvent_get_error_code data reason = call_stub True ''novas_call_fsdbEvent_get_error_code'' [data, reason]"

definition novas_call_fsdbTrans_add_stream_attribute :: "u32 \<Rightarrow> u32 \<Rightarrow> 'fp pli_env \<Rightarrow> 'fp statics \<Rightarrow> 'fp statics \<times> 'fp pli_event list" where
  "novas_call_fsdbTrans_add_stream_attribute data reason = call_stub True ''novas_call_fsdbTrans_add_stream_attribute'' [data, reason]"

definition novas_call_fsdbTrans_add_scope_attribute :: "u32 \<Rightarrow> u32 \<Rightarrow> 'fp pli_env \<Rightarrow> 'fp statics \<Rightarrow> 'fp statics \<times> 'fp pli_event list" where
  "novas_call_fsdbTrans_add_scope_attribute data reason = call_stub True ''novas_call_fsdbTrans_add_scope_attribute'' [data, reason]"

definition novas_call_sps_interactive :: "u32 \<Rightarrow> u32 \<Rightarrow> 'fp pli_env \<Rightarrow> 'fp statics \<Rightarrow> 'fp statics \<times> 'fp pli_event list" where
  "novas_call_sps_interactive data reason = call_stub True ''novas_call_sps_interactive'' [data, reason]"

definition novas_call_sps_test :: "u32 \<Rightarrow> u32 \<Rightarrow> 'fp pli_env \<Rightarrow> 'fp statics \<Rightarrow> 'fp statics \<times> 'fp pli_event list" where
  "novas_call_sps_test data reason = call_stub True ''novas_call_sps_test'' [data, reason]"

definition novas_call_fsdbDumpClassObject :: "u32 \<Rightarrow> u32 \<Rightarrow> 'fp pli_env \<Rightarrow> 'fp statics \<Rightarrow> 'fp statics \<times> 'fp pli_event list" where
  "novas_call_fsdbDumpClassObject data reason = call_stub True ''novas_call_fsdbDumpClassObject'' [data, reason]"

definition novas_call_fsdbDumpClassObjectByFile :: "u32 \<Rightarrow> u32 \<Rightarrow> 'fp pli_env \<Rightarrow> 'fp statics \<Rightarrow> 'fp statics \<times> 'fp pli_event list" where
  "novas_call_fsdbDumpClassObjectByFile data reason = call_stub True ''novas_call_fsdbDumpClassObjectByFile'' [data, reason]"

definition novas_call_ridbDump :: "u32 \<Rightarrow> u32 \<Rightarrow> 'fp pli_env \<Rightarrow> 'fp statics \<Rightarrow> 'fp statics \<times> 'fp pli_event list" where
  "novas_call_ridbDump data reason = call_stub True ''novas_call_ridbDump'' [data, reason]"

definition novas_call_sps_flush_file :: "u32 \<Rightarrow> u32 \<Rightarrow> 'fp pli_env \<Rightarrow> 'fp statics \<Rightarrow> 'fp statics \<times> 'fp pli_event list" where
  "novas_call_sps_flush_file data reason = call_stub True ''novas_call_sps_flush_file'' [data, reason]"

definition novas_call_fsdbDumpSingle :: "u32 \<Rightarrow> u32 \<Rightarrow> 'fp pli_env \<Rightarrow> 'fp statics \<Rightarrow> 'fp statics \<times> 'fp pli_event list" where
  "novas_call_fsdbDumpSingle data reason = call_stub True ''novas_call_fsdbDumpSingle'' [data, reason]"

definition novas_call_fsdbDumpIO :: "u32 \<Rightarrow> u32 \<Rightarrow> 'fp pli_env \<Rightarrow> 'fp statics \<Rightarrow> 'fp statics \<times> 'fp pli_event list" where
  "novas_call_fsdbDumpIO data reason = call_stub True ''novas_call_fsdbDumpIO'' [data, reason]"

text \<open>The stubs of call routines by name.\<close>

definition pli_call_table ::
  "(string \<times> (u32 \<Rightarrow> u32 \<Rightarrow> 'fp pli_env \<Rightarrow> 'fp statics \<Rightarrow> 'fp statics \<times> 'fp pli_event list)) list" where
  "pli_call_table = [
     (''novas_call_fsdbDumpvars'', novas_call_fsdbDumpvars),
     (''novas_call_fsdbDumpvarsByFile'', novas_call_fsdbDumpvarsByFile),
     (''novas_call_fsdbAddRuntimeSignal'', novas_call_fsdbAddRuntimeSignal),
     (''novas_call_sps_create_transaction_stream'', novas_call_sps_create_transaction_stream),
     (''novas_call_sps_begin_transaction'', novas_call_sps_begin_transaction),
     (''novas_call_sps_end_transaction'', novas_call_sps_end_transaction),
     (''novas_call_sps_free_transaction'', novas_call_sps_free_transaction),
     (''novas_call_sps_add_attribute'', novas_call_sps_add_attribute),
     (''novas_call_sps_update_label'', novas_call_sps_update_label),
     (''novas_call_sps_add_relation'', novas_call_sps_add_relation),
     (''novas_call_fsdbWhatif'', novas_call_fsdbWhatif),
     (''novas_call_paa_init'', novas_call_paa_init),
     (''novas_call_paa_sync'', novas_call_paa_sync),
     (''novas_call_fsdbDumpClassMethod'', novas_call_fsdbDumpClassMethod),
     (''novas_call_fsdbSuppressClassMethod'', novas_call_fsdbSuppressClassMethod),
     (''novas_call_fsdbSuppressClassProp'', novas_call_fsdbSuppressClassProp),
     (''novas_call_fsdbDumpMDAByFile'', novas_call_fsdbDumpMDAByFile),
     (''novas_call_fsdbEvent_create_stream_begin'', novas_call_fsdbEvent_create_stream_begin),
     (''novas_call_fsdbEvent_add_stream_attribute'', novas_call_fsdbEvent_add_stream_attribute),
     (''novas_call_fsdbEvent_create_stream_end'', novas_call_fsdbEvent_create_stream_end),
     (''novas_call_fsdbEvent_begin'', novas_call_fsdbEvent_begin),
     (''novas_call_fsdbEvent_set_label'', novas_call_fsdbEvent_set_label),
     (''novas_call_fsdbEvent_add_attribute'', novas_call_fsdbEvent_add_attribute),
     (''novas_call_fsdbEvent_add_tag'', novas_call_fsdbEvent_add_tag),
     (''novas_call_fsdbEvent_end'', novas_call_fsdbEvent_end),
     (''novas_call_fsdbEvent_add_relation'', novas_call_fsdbEvent_add_relation),
     (''novas_call_fsdbEvent_get_error_code'', novas_call_fsdbEvent_get_error_code),
     (''novas_call_fsdbTrans_add_stream_attribute'', novas_call_fsdbTrans_add_stream_attribute),
     (''novas_call_fsdbTrans_add_scope_attribute'', novas_call_fsdbTrans_add_scope_attribute),
     (''novas_call_sps_interactive'', novas_call_sps_interactive),
     (''novas_call_sps_test'', novas_call_sps_test),
     (''novas_call_fsdbDumpClassObject'', novas_call_fsdbDumpClassObject),
     (''novas_call_fsdbDumpClassObjectByFile'', novas_call_fsdbDumpClassObjectByFile),
     (''novas_call_ridbDump'', novas_call_ridbDump),
     (''novas_call_sps_flush_file'', novas_call_sps_flush_file),
     (''novas_call_fsdbDumpSingle'', novas_call_fsdbDumpSingle),
     (''novas_call_fsdbDumpIO'', novas_call_fsdbDumpIO)]"

lemmas pli_stub_defs =
  novas_call_fsdbDumpvars_def
  novas_misc_def
  novas_call_fsdbDumpvarsByFile_def
  novas_call_fsdbAddRuntimeSignal_def
  novas_call_sps_create_transaction_stream_def
  novas_call_sps_begin_transaction_def
  novas_call_sps_end_transaction_def
  novas_call_sps_free_transaction_def
  novas_call_sps_add_attribute_def
  novas_call_sps_update_label_def
  novas_call_sps_add_relation_def
  novas_call_fsdbWhatif_def
  novas_call_paa_init_def
  novas_call_paa_sync_def
  novas_call_fsdbDumpClassMethod_def
  novas_call_fsdbSuppressClassMethod_def
  novas_call_fsdbSuppressClassProp_def
  novas_call_fsdbDumpMDAByFile_def
  novas_call_fsdbEvent_create_stream_begin_def
  novas_call_fsdbEvent_add_stream_attribute_def
  novas_call_fsdbEvent_create_stream_end_def
  novas_call_fsdbEvent_begin_def
  novas_call_fsdbEvent_set_label_def
  novas_call_fsdbEvent_add_attribute_def
  novas_call_fsdbEvent_add_tag_def
  novas_call_fsdbEvent_end_def
  novas_call_fsdbEvent_add_relation_def
  novas_call_fsdbEvent_get_error_code_def
  novas_call_fsdbTrans_add_stream_attribute_def
  novas_call_fsdbTrans_add_scope_attribute_def
  novas_call_sps_interactive_def
  novas_call_sps_test_def
  novas_call_fsdbDumpClassObject_def
  novas_call_fsdbDumpClassObjectByFile_def
  novas_call_ridbDump_def
  novas_call_sps_flush_file_def
  novas_call_fsdbDumpSingle_def
  novas_call_fsdbDumpIO_def

section \<open>Sequences of calls\<close>

text \<open>What the simulator calls: a call routine by name, or the misc routine.\<close>

datatype pli_invocation = Call_routine string u32 u32 | Misc_routine u32 u32 u32

definition invoke ::
  "pli_invocation \<Rightarrow> 'fp pli_env \<Rightarrow> 'fp statics \<Rightarrow> 'fp statics \<times> 'fp pli_event list" where
  "invoke i env statics =
     (case i of
        Call_routine name data reason \<Rightarrow>
          (case map_of pli_call_table name of
             None \<Rightarrow> (statics, [])
           | Some f \<Rightarrow> f data reason env statics)
      | Misc_routine data reason iparam \<Rightarrow> novas_misc data reason iparam env statics)"

primrec pli_run ::
  "('fp pli_env \<times> pli_invocation) list \<Rightarrow> 'fp statics \<Rightarrow> 'fp statics \<times> 'fp pli_event list" where
  "pli_run [] statics = (statics, [])"
| "pli_run (c # cs) statics =
     (let (statics, es) = invoke (snd c) (fst c) statics;
          (statics, es') = pli_run cs statics
      in (statics, es @ es'))"

section \<open>Specification\<close>

definition resolve :: "'fp pli_env \<Rightarrow> string \<Rightarrow> 'fp option" where
  "resolve env name = (case dlsym env name of None \<Rightarrow> VCS_dlsymLookup env name | found \<Rightarrow> found)"

definition pli_names :: "string list" where
  "pli_names = map fst (pli_call_table :: (string \<times> (u32 \<Rightarrow> u32 \<Rightarrow> unit pli_env \<Rightarrow> unit statics \<Rightarrow> _)) list)"

fun target_of :: "pli_invocation \<Rightarrow> string" where
  "target_of (Call_routine name _ _) = name"
| "target_of (Misc_routine _ _ _) = ''novas_misc''"

fun args_of :: "pli_invocation \<Rightarrow> u32 list" where
  "args_of (Call_routine _ data reason) = [data, reason]"
| "args_of (Misc_routine data reason iparam) = [data, reason, iparam]"

fun reports_of :: "pli_invocation \<Rightarrow> bool" where
  "reports_of (Call_routine _ _ _) = True"
| "reports_of (Misc_routine _ _ _) = False"

fun known :: "pli_invocation \<Rightarrow> bool" where
  "known (Call_routine name _ _) = (name \<in> set pli_names)"
| "known (Misc_routine _ _ _) = True"

text \<open>The environments in which a stub was called so far, first call first.\<close>

definition envs_of :: "string \<Rightarrow> ('fp pli_env \<times> pli_invocation) list \<Rightarrow> 'fp pli_env list" where
  "envs_of name cs = map fst (filter (\<lambda>c. target_of (snd c) = name) cs)"

definition statics_after :: "('fp pli_env \<times> pli_invocation) list \<Rightarrow> 'fp statics" where
  "statics_after cs = (\<lambda>name. case envs_of name cs of
      [] \<Rightarrow> \<lparr> initialized = False, fp = None \<rparr>
    | env # _ \<Rightarrow> \<lparr> initialized = True, fp = resolve env name \<rparr>)"

section \<open>Lemmas\<close>

lemma fst_pli_call_table [simp]: "map fst pli_call_table = pli_names"
  by (simp add: pli_names_def pli_call_table_def)

lemma length_pli_names: "length pli_names = 37"
  by (simp add: pli_names_def pli_call_table_def)

lemma pli_table_entry: "(name, f) \<in> set pli_call_table \<Longrightarrow> f data reason = call_stub True name [data, reason]"
  unfolding pli_call_table_def by (auto simp: pli_stub_defs)

lemma pli_table_lookup:
  assumes "name \<in> set pli_names"
  shows "map_of pli_call_table name = Some (\<lambda>data reason. call_stub True name [data, reason])" (is "?m = _")
proof (cases ?m)
  case None
  then show ?thesis using assms by (metis fst_pli_call_table list.set_map map_of_eq_None_iff)
next
  case (Some f)
  then have "(name, f) \<in> set pli_call_table" by (rule map_of_SomeD)
  then have "f = (\<lambda>data reason. call_stub True name [data, reason])"
    by (simp add: pli_table_entry fun_eq_iff)
  with Some show ?thesis by simp
qed

lemma invoke_stub:
  assumes "known i"
  shows "invoke i = call_stub (reports_of i) (target_of i) (args_of i)"
proof (cases i)
  case (Call_routine name data reason)
  then have "name \<in> set pli_names" using assms by simp
  with Call_routine show ?thesis by (simp add: invoke_def fun_eq_iff pli_table_lookup)
next
  case (Misc_routine data reason iparam)
  then show ?thesis by (simp add: invoke_def novas_misc_def fun_eq_iff)
qed

lemma stub_init_cases:
  "stub_init name env \<lparr> initialized = True, fp = f \<rparr> = (\<lparr> initialized = True, fp = f \<rparr>, [])"
  "stub_init name env \<lparr> initialized = False, fp = None \<rparr> =
     (\<lparr> initialized = True, fp = resolve env name \<rparr>,
      Dlsym name # (if dlsym env name = None then [Vcs_lookup name] else []))"
  by (auto simp: stub_init_def resolve_def split: option.splits)

lemma envs_of_snoc:
  "envs_of name (cs @ [c]) = envs_of name cs @ (if target_of (snd c) = name then [fst c] else [])"
  by (simp add: envs_of_def)

lemma pli_run_snoc:
  "pli_run (cs @ [c]) s = (let (s1, es) = pli_run cs s; (s2, es') = invoke (snd c) (fst c) s1 in (s2, es @ es'))"
  by (induction cs arbitrary: s) (simp_all add: Let_def split_def)

text \<open>One call, after any calls before it.\<close>

definition call_events :: "('fp pli_env \<times> pli_invocation) list \<Rightarrow> 'fp pli_env \<Rightarrow> pli_invocation \<Rightarrow> 'fp pli_event list" where
  "call_events cs env i =
     (if envs_of (target_of i) cs = []
      then Dlsym (target_of i) # (if dlsym env (target_of i) = None then [Vcs_lookup (target_of i)] else [])
      else [])
     @ (case resolve (hd (envs_of (target_of i) cs @ [env])) (target_of i) of
          Some f \<Rightarrow> [Invoke f (args_of i)]
        | None \<Rightarrow> if reports_of i then [Report ''PLI-DIFNF'' (target_of i)] else [])"

lemma invoke_after:
  assumes "known i"
  shows "invoke i env (statics_after cs) = (statics_after (cs @ [(env, i)]), call_events cs env i)"
proof -
  let ?n = "target_of i"
  have upd: "(statics_after cs)(?n := statics_after (cs @ [(env, i)]) ?n) = statics_after (cs @ [(env, i)])"
    by (auto simp: statics_after_def envs_of_snoc)
  show ?thesis
  proof (cases "envs_of ?n cs")
    case Nil
    then have "statics_after cs ?n = \<lparr> initialized = False, fp = None \<rparr>"
      and after: "statics_after (cs @ [(env, i)]) ?n = \<lparr> initialized = True, fp = resolve env ?n \<rparr>"
      by (simp_all add: statics_after_def envs_of_snoc)
    then show ?thesis using assms Nil upd [unfolded after]
      by (simp add: invoke_stub call_stub_def stub_init_cases call_events_def stub_forward_def)
  next
    case (Cons e es)
    then have before: "statics_after cs ?n = \<lparr> initialized = True, fp = resolve e ?n \<rparr>"
      and after: "statics_after (cs @ [(env, i)]) ?n = \<lparr> initialized = True, fp = resolve e ?n \<rparr>"
      by (simp_all add: statics_after_def envs_of_snoc)
    then show ?thesis using assms Cons upd [unfolded after]
      by (simp add: invoke_stub call_stub_def stub_init_cases call_events_def stub_forward_def)
  qed
qed

lemma pli_run_statics:
  "\<forall>c \<in> set cs. known (snd c) \<Longrightarrow> fst (pli_run cs fresh_statics) = statics_after cs"
proof (induction cs rule: rev_induct)
  case Nil
  then show ?case by (simp add: fresh_statics_def statics_after_def envs_of_def)
next
  case (snoc c cs)
  then show ?case
    by (cases c) (simp add: pli_run_snoc Let_def split_def invoke_after)
qed

lemma pli_run_events_snoc:
  "\<forall>c \<in> set (cs @ [(env, i)]). known (snd c) \<Longrightarrow>
   snd (pli_run (cs @ [(env, i)]) fresh_statics) = snd (pli_run cs fresh_statics) @ call_events cs env i"
  using pli_run_statics [of cs] by (simp add: pli_run_snoc Let_def split_def invoke_after)

text \<open>
  C33: a call of a stub looks its routine up only if it is the first call of that stub (\<open>dlsym\<close> first, \<open>VCS_dlsymLookup\<close>
  otherwise). Where that first call found a routine, every call is forwarded to it, exactly once and with its
  arguments, whatever the environment has become since. Where it found none, every call of a call routine
  reports PLI-DIFNF, and a call of the misc routine neither forwards nor reports anything.
\<close>

theorem stub_forwards:
  assumes "\<forall>c \<in> set (cs @ [(env, i)]). known (snd c)"
  shows "snd (invoke i env (fst (pli_run cs fresh_statics))) =
     (if envs_of (target_of i) cs = []
      then Dlsym (target_of i) # (if dlsym env (target_of i) = None then [Vcs_lookup (target_of i)] else [])
      else [])
     @ (case resolve (hd (envs_of (target_of i) cs @ [env])) (target_of i) of
          Some f \<Rightarrow> [Invoke f (args_of i)]
        | None \<Rightarrow> if reports_of i then [Report ''PLI-DIFNF'' (target_of i)] else [])"
  using assms by (simp add: pli_run_statics invoke_after call_events_def)

lemma count_lookups:
  assumes "\<forall>c \<in> set cs. known (snd c)"
  shows "count_list (snd (pli_run cs fresh_statics)) (Dlsym name)
      = (if envs_of name cs = [] then 0 else 1)
    \<and> count_list (snd (pli_run cs fresh_statics)) (Vcs_lookup name)
      = (case envs_of name cs of [] \<Rightarrow> 0 | e # _ \<Rightarrow> if dlsym e name = None then 1 else 0)"
  using assms
proof (induction cs rule: rev_induct)
  case Nil
  then show ?case by (simp add: envs_of_def)
next
  case (snoc c cs)
  obtain env i where c: "c = (env, i)" by fastforce
  have ev: "snd (pli_run (cs @ [c]) fresh_statics) = snd (pli_run cs fresh_statics) @ call_events cs env i"
    using snoc.prems unfolding c by (rule pli_run_events_snoc)
  have "count_list (call_events cs env i) (Dlsym name) = (if target_of i = name \<and> envs_of name cs = [] then 1 else 0)"
    "count_list (call_events cs env i) (Vcs_lookup name) =
      (if target_of i = name \<and> envs_of name cs = [] \<and> dlsym env name = None then 1 else 0)"
    by (auto simp: call_events_def split: option.splits)
  with snoc show ?case by (cases "envs_of name cs") (auto simp: ev [unfolded c] envs_of_snoc c)
qed

text \<open>
  Over any sequence of calls of the stubs, each name is looked up with \<open>dlsym\<close> exactly once
  if its stub is called at all, and with \<open>VCS_dlsymLookup\<close> exactly once if that \<open>dlsym\<close> failed;
  never otherwise.
\<close>

theorem stub_lookups:
  assumes "\<forall>c \<in> set cs. known (snd c)"
  shows "count_list (snd (pli_run cs fresh_statics)) (Dlsym name)
      = (if envs_of name cs = [] then 0 else 1)
    \<and> count_list (snd (pli_run cs fresh_statics)) (Vcs_lookup name)
      = (case envs_of name cs of [] \<Rightarrow> 0 | e # _ \<Rightarrow> if dlsym e name = None then 1 else 0)"
  by (rule count_lookups [OF assms])

definition example_calls :: "(nat pli_env \<times> pli_invocation) list" where
  "example_calls =
     [(\<lparr> dlsym = Map.empty, VCS_dlsymLookup = [''novas_call_fsdbDumpvars'' \<mapsto> 7] \<rparr>, Call_routine ''novas_call_fsdbDumpvars'' 1 2),
      (\<lparr> dlsym = Map.empty, VCS_dlsymLookup = Map.empty \<rparr>, Call_routine ''novas_call_fsdbDumpvars'' 3 4),
      (\<lparr> dlsym = Map.empty, VCS_dlsymLookup = Map.empty \<rparr>, Misc_routine 1 2 3)]"

lemma example_known: "\<forall>c \<in> set example_calls. known (snd c)"
  by (simp add: example_calls_def pli_names_def pli_call_table_def)

theorem stub_forwards_witness:
  "snd (invoke (Call_routine ''novas_call_fsdbDumpvars'' 5 6) \<lparr> dlsym = Map.empty, VCS_dlsymLookup = Map.empty \<rparr>
      (fst (pli_run example_calls fresh_statics))) = [Invoke 7 [5, 6]]"
  using stub_forwards [of example_calls "\<lparr> dlsym = Map.empty, VCS_dlsymLookup = Map.empty \<rparr>"
      "Call_routine ''novas_call_fsdbDumpvars'' 5 6"]
  by (simp add: example_calls_def envs_of_def resolve_def pli_names_def pli_call_table_def)

theorem stub_lookups_witness:
  "count_list (snd (pli_run example_calls fresh_statics)) (Dlsym ''novas_call_fsdbDumpvars'') = 1
   \<and> count_list (snd (pli_run example_calls fresh_statics)) (Vcs_lookup ''novas_call_fsdbDumpvars'') = 1"
  using stub_lookups [OF example_known, of "''novas_call_fsdbDumpvars''"]
  by (simp add: example_calls_def envs_of_def)

end
