(* ===== verification/Event_Queue.thy ===== *)
theory Event_Queue
  imports Prelude
begin

text \<open>
  The event scheduler of the simulation build, \<open>hsG_0__0\<close> of \<open>sim/csrc/rmapats.c\<close>, with the
  structures of \<open>sim/csrc/rmapats.h\<close> it works on. Events are blocks in memory, linked into
  queues through pointers in the blocks, so the model has an explicit store. The names are the
  ones of the generated code: \<open>I754\<close> and \<open>I757\<close> link a block to the next and the previous one,
  \<open>I755\<close> is its time; \<open>I774\<close> and \<open>I775\<close> are the first and the last block of a queue.

  \<open>sched_millenium\<close> and \<open>sched_hsopt\<close> are routines of the simulator and not in the repository:
  they are parameters.
\<close>

section \<open>Structures and store\<close>

type_synonym RP = u64

record eblk =
  I751 :: RP
  I752 :: RP
  I754 :: RP
  I755 :: u32
  I756 :: u32
  I757 :: RP

record futq =
  I771 :: RP
  I773 :: RP
  I774 :: RP
  I775 :: RP
  futq_I755 :: u32
  I1 :: u32
  I776 :: RP

text \<open>
  A bucket of the hash table; its embedded \<open>struct futq\<close> and the two overflow chains are not
  touched by the scheduler.
\<close>

record sched_table =
  I777 :: RP

text \<open>The queue descriptor, of which the scheduler reads the bucket array only.\<close>

record dummyq_struct =
  I1255 :: "u32 \<Rightarrow> sched_table"

record sim =
  eblks :: "RP \<Rightarrow> eblk"
  futqs :: "RP \<Rightarrow> futq"
  dummyqs :: "RP \<Rightarrow> dummyq_struct"
  vcs_clocks :: u64
  peblkFutQ1Head :: RP
  peblkFutQ1Tail :: RP
  fHashTableSize :: u32

record simulator =
  sched_millenium :: "RP \<Rightarrow> RP \<Rightarrow> u32 \<Rightarrow> u32 \<Rightarrow> sim \<Rightarrow> sim"
  sched_hsopt :: "RP \<Rightarrow> RP \<Rightarrow> u32 \<Rightarrow> sim \<Rightarrow> sim"

definition put_eblk :: "RP \<Rightarrow> (eblk \<Rightarrow> eblk) \<Rightarrow> sim \<Rightarrow> sim" where
  "put_eblk p f s = s\<lparr>eblks := (eblks s)(p := f (eblks s p))\<rparr>"

definition put_futq :: "RP \<Rightarrow> (futq \<Rightarrow> futq) \<Rightarrow> sim \<Rightarrow> sim" where
  "put_futq p f s = s\<lparr>futqs := (futqs s)(p := f (futqs s p))\<rparr>"

definition clock_low :: "sim \<Rightarrow> u32" where
  "clock_low s = ucast (vcs_clocks s)"

text \<open>The second word of the clock in memory, on the little-endian host.\<close>

definition clock_high :: "sim \<Rightarrow> u32" where
  "clock_high s = ucast (drop_bit 32 (vcs_clocks s))"

section \<open>The scheduler\<close>

definition hsG_0__0 :: "simulator \<Rightarrow> RP \<Rightarrow> RP \<Rightarrow> u32 \<Rightarrow> sim \<Rightarrow> sim" where
  "hsG_0__0 ext pQ e delay s =
     (let t = clock_low s + delay;
          b = t AND (push_bit (unat (fHashTableSize s)) 1 - 1);
          s = put_eblk e (\<lambda>x. x\<lparr>I754 := - 1\<rparr>) s;
          s = put_eblk e (\<lambda>x. x\<lparr>I755 := t\<rparr>) s
      in if t < clock_low s
         then sched_millenium ext pQ e (clock_high s + 1) t s
         else if peblkFutQ1Head s \<noteq> 0 \<and> delay = 1
         then let s = put_eblk e (\<lambda>x. x\<lparr>I757 := peblkFutQ1Tail s\<rparr>) s;
                  s = put_eblk (peblkFutQ1Tail s) (\<lambda>x. x\<lparr>I754 := e\<rparr>) s
              in s\<lparr>peblkFutQ1Tail := e\<rparr>
         else let q = I777 (I1255 (dummyqs s pQ) b)
              in if q \<noteq> 0
                 then let s = put_eblk e (\<lambda>x. x\<lparr>I757 := I775 (futqs s q)\<rparr>) s;
                          s = put_eblk (I775 (futqs s q)) (\<lambda>x. x\<lparr>I754 := e\<rparr>) s
                      in put_futq q (\<lambda>x. x\<lparr>I775 := e\<rparr>) s
                 else sched_hsopt ext pQ e t s)"

section \<open>Queues in the store\<close>

fun linked :: "(RP \<Rightarrow> eblk) \<Rightarrow> RP list \<Rightarrow> bool" where
  "linked h (x # y # xs) \<longleftrightarrow> I754 (h x) = y \<and> I757 (h y) = x \<and> linked h (y # xs)"
| "linked h _ \<longleftrightarrow> True"

text \<open>The blocks of a queue from its first to its last; the last one has the end mark as its next.\<close>

definition queue :: "(RP \<Rightarrow> eblk) \<Rightarrow> RP \<Rightarrow> RP \<Rightarrow> RP list \<Rightarrow> bool" where
  "queue h first final xs \<longleftrightarrow>
     xs \<noteq> [] \<and> hd xs = first \<and> last xs = final \<and> distinct xs \<and> linked h xs \<and> I754 (h final) = - 1"

lemma linked_cong: "(\<And>x. x \<in> set xs \<Longrightarrow> h' x = h x) \<Longrightarrow> linked h' xs = linked h xs"
  by (induction h xs rule: linked.induct) auto

lemma linked_append:
  "linked h (xs @ y # ys) \<longleftrightarrow>
     linked h xs \<and> linked h (y # ys) \<and> (xs \<noteq> [] \<longrightarrow> I754 (h (last xs)) = y \<and> I757 (h y) = last xs)"
  by (induction h xs rule: linked.induct) auto

lemma linked_put_next:
  "distinct (xs @ [x]) \<Longrightarrow> linked (h(x := (h x)\<lparr>I754 := v\<rparr>)) (xs @ [x]) = linked h (xs @ [x])"
proof -
  assume d: "distinct (xs @ [x])"
  have "linked (h(x := (h x)\<lparr>I754 := v\<rparr>)) xs = linked h xs"
    using d by (intro linked_cong) auto
  then show ?thesis using d by (auto simp: linked_append) 
qed

text \<open>Linking a fresh block behind the last one: the three stores both tail insertions share.\<close>

definition link_last :: "(RP \<Rightarrow> eblk) \<Rightarrow> RP \<Rightarrow> RP \<Rightarrow> u32 \<Rightarrow> RP \<Rightarrow> eblk" where
  "link_last h e final t =
     (let h = h(e := (h e)\<lparr>I754 := - 1, I755 := t, I757 := final\<rparr>)
      in h(final := (h final)\<lparr>I754 := e\<rparr>))"

lemma queue_link_last:
  assumes "queue h first final xs" and "e \<notin> set xs"
  shows "queue (link_last h e final t) first e (xs @ [e])"
proof -
  from assms(1) have ne: "xs \<noteq> []" and last: "last xs = final" and d: "distinct xs" and l: "linked h xs"
    by (simp_all add: queue_def)
  then obtain ys where xs: "xs = ys @ [final]" by (metis append_butlast_last_id)
  have "linked (link_last h e final t) xs = linked (h(final := (h final)\<lparr>I754 := e\<rparr>)) xs"
    using assms(2) xs by (intro linked_cong) (auto simp: link_last_def Let_def)
  also have "\<dots> = linked h xs" using d unfolding xs by (rule linked_put_next)
  finally have "linked (link_last h e final t) xs" using l by simp
  moreover have "link_last h e final t final = (h final)\<lparr>I754 := e\<rparr>"
    and "link_last h e final t e = (h e)\<lparr>I754 := - 1, I755 := t, I757 := final\<rparr>"
    using assms(2) xs by (auto simp: link_last_def Let_def)
  ultimately show ?thesis using assms ne last
    by (simp add: queue_def linked_append [of _ xs e "[]"])
qed

lemma queue_link_other:
  assumes "queue h first final xs" and "e \<notin> set xs" and "p \<notin> set xs"
  shows "queue (link_last h e p t) first final xs"
proof -
  have "linked (link_last h e p t) xs = linked h xs"
    using assms by (intro linked_cong) (auto simp: link_last_def Let_def)
  moreover have "final \<in> set xs" using assms(1) by (auto simp: queue_def)
  ultimately show ?thesis using assms by (auto simp: queue_def link_last_def Let_def)
qed

section \<open>What a call does\<close>

definition event_due :: "sim \<Rightarrow> u32 \<Rightarrow> u32" where
  "event_due s delay = clock_low s + delay"

definition bucket_of :: "sim \<Rightarrow> u32 \<Rightarrow> u32" where
  "bucket_of s t = t AND (push_bit (unat (fHashTableSize s)) 1 - 1)"

abbreviation bucket_queue :: "sim \<Rightarrow> RP \<Rightarrow> u32 \<Rightarrow> RP" where
  "bucket_queue s pQ t \<equiv> I777 (I1255 (dummyqs s pQ) (bucket_of s t))"

text \<open>The block as it is when it leaves the common prefix of the function.\<close>

definition stamped :: "RP \<Rightarrow> u32 \<Rightarrow> sim \<Rightarrow> sim" where
  "stamped e t s = put_eblk e (\<lambda>x. x\<lparr>I754 := - 1, I755 := t\<rparr>) s"

lemma hsG_millenium:
  "event_due s delay < clock_low s \<Longrightarrow> hsG_0__0 ext pQ e delay s =
     sched_millenium ext pQ e (clock_high s + 1) (event_due s delay) (stamped e (event_due s delay) s)"
  by (simp add: hsG_0__0_def event_due_def Let_def put_eblk_def stamped_def clock_low_def clock_high_def)

lemma hsG_next_tick:
  assumes "\<not> event_due s delay < clock_low s" and "peblkFutQ1Head s \<noteq> 0" and "delay = 1"
  shows "hsG_0__0 ext pQ e delay s =
     s\<lparr>eblks := link_last (eblks s) e (peblkFutQ1Tail s) (event_due s delay), peblkFutQ1Tail := e\<rparr>"
  using assms by (simp add: hsG_0__0_def event_due_def Let_def put_eblk_def link_last_def clock_low_def)

lemma hsG_bucket:
  assumes "\<not> event_due s delay < clock_low s" and "\<not> (peblkFutQ1Head s \<noteq> 0 \<and> delay = 1)"
    and "bucket_queue s pQ (event_due s delay) = q" and "q \<noteq> 0"
  shows "hsG_0__0 ext pQ e delay s =
     s\<lparr>eblks := link_last (eblks s) e (I775 (futqs s q)) (event_due s delay),
       futqs := (futqs s)(q := (futqs s q)\<lparr>I775 := e\<rparr>)\<rparr>"
  using assms
  by (auto simp: hsG_0__0_def event_due_def bucket_of_def Let_def put_eblk_def put_futq_def link_last_def clock_low_def)

lemma hsG_fallback:
  assumes "\<not> event_due s delay < clock_low s" and "\<not> (peblkFutQ1Head s \<noteq> 0 \<and> delay = 1)"
    and "bucket_queue s pQ (event_due s delay) = 0"
  shows "hsG_0__0 ext pQ e delay s =
     sched_hsopt ext pQ e (event_due s delay) (stamped e (event_due s delay) s)"
  using assms
  by (auto simp: hsG_0__0_def event_due_def bucket_of_def Let_def put_eblk_def stamped_def clock_low_def)

text \<open>A time as the simulator keeps it: the two halves of a 64-bit clock.\<close>

definition sim_time :: "u32 \<Rightarrow> u32 \<Rightarrow> u64" where
  "sim_time hi lo = push_bit 32 (ucast hi) + ucast lo"

lemma uint_clock_halves:
  "uint (clock_low s) = uint (vcs_clocks s) mod 2 ^ 32" "uint (clock_high s) = uint (vcs_clocks s) div 2 ^ 32"
proof -
  show "uint (clock_low s) = uint (vcs_clocks s) mod 2 ^ 32"
    by (simp add: clock_low_def unsigned_ucast_eq take_bit_eq_mod)
  have "uint (vcs_clocks s) < 2 ^ 64" using uint_lt2p [of "vcs_clocks s"] by simp
  then have "uint (vcs_clocks s) div 2 ^ 32 < 2 ^ 32" by (simp add: div_less_iff_less_mult)
  then show "uint (clock_high s) = uint (vcs_clocks s) div 2 ^ 32"
    by (simp only: clock_high_def unsigned_ucast_eq unsigned_drop_bit_eq drop_bit_eq_div take_bit_eq_mod)
      (simp add: uint_div pos_imp_zdiv_nonneg_iff)
qed

lemma sim_time_word: "sim_time hi lo = word_of_int (uint hi * 2 ^ 32 + uint lo)"
  by (simp add: sim_time_def push_bit_eq_mult)

lemma uint_event_due:
  "uint (event_due s delay) = uint (clock_low s) + uint delay
     - (if event_due s delay < clock_low s then 2 ^ 32 else 0)"
  using uint_lt2p [of "clock_low s"] uint_lt2p [of delay]
  by (auto simp: event_due_def word_less_def uint_plus_if')

lemma clock_split: "uint (vcs_clocks s) = uint (clock_high s) * 2 ^ 32 + uint (clock_low s)"
  by (simp only: uint_clock_halves div_mult_mod_eq)

lemma sim_time_due:
  "sim_time (if event_due s delay < clock_low s then clock_high s + 1 else clock_high s) (event_due s delay)
     = vcs_clocks s + ucast delay"
proof -
  let ?hi = "uint (clock_high s)" and ?r = "uint (event_due s delay)"
  have sum: "vcs_clocks s + ucast delay = word_of_int (?hi * 2 ^ 32 + uint (clock_low s) + uint delay)"
    by (simp only: clock_split [symmetric]) simp
  show ?thesis
  proof (cases "event_due s delay < clock_low s")
    case False
    then show ?thesis by (simp only: sum sim_time_word uint_event_due if_False) simp
  next
    case True
    have "uint (clock_high s + 1) * 2 ^ 32 + ?r = (?hi + 1) * 2 ^ 32 + ?r - (if ?hi + 1 < 2 ^ 32 then 0 else 2 ^ 64)"
      by (simp add: uint_plus_if' algebra_simps)
    then have "sim_time (clock_high s + 1) (event_due s delay) = word_of_int ((?hi + 1) * 2 ^ 32 + ?r)"
      by (simp only: sim_time_word of_int_diff) simp
    also have "(?hi + 1) * 2 ^ 32 + ?r = ?hi * 2 ^ 32 + uint (clock_low s) + uint delay"
      using True by (simp add: uint_event_due)
    finally show ?thesis using True by (simp only: sum if_True)
  qed
qed

section \<open>Properties\<close>

text \<open>
  C35: an event goes to exactly one place, decided in this order: the overflow queue, with the next epoch, when its
  time leaves the 32-bit clock; the next-tick queue for delay 1 when that queue exists; the
  queue of its hash bucket when it has one; the general scheduler otherwise. The first and the last are
  the simulator's own routines, called with the stamped block. In the two
  queues the event, if it is in neither of their blocks yet, is linked behind the last block, so the queue holds the same blocks as before, in
  the same order, with the event last; of its own block the two links and the time are set, of the block that was last the link
  to the next one, and nothing else changes but the pointer to the last block of the queue.
\<close>

theorem hsG_tail_insert:
  assumes "queue (eblks s) first final xs" and "e \<notin> set xs"
  shows "(event_due s delay < clock_low s \<longrightarrow>
      hsG_0__0 ext pQ e delay s =
        sched_millenium ext pQ e (clock_high s + 1) (event_due s delay) (stamped e (event_due s delay) s))
    \<and> (\<not> event_due s delay < clock_low s \<and> peblkFutQ1Head s = first \<and> peblkFutQ1Tail s = final \<and> first \<noteq> 0 \<and> delay = 1 \<longrightarrow>
      (let s' = hsG_0__0 ext pQ e delay s in
        queue (eblks s') (peblkFutQ1Head s') (peblkFutQ1Tail s') (xs @ [e])
        \<and> s' = s\<lparr>eblks := (eblks s)(e := (eblks s e)\<lparr>I754 := - 1, I755 := event_due s delay, I757 := final\<rparr>,
              final := (eblks s final)\<lparr>I754 := e\<rparr>), peblkFutQ1Tail := e\<rparr>))
    \<and> (\<not> event_due s delay < clock_low s \<and> \<not> (peblkFutQ1Head s \<noteq> 0 \<and> delay = 1)
        \<and> bucket_queue s pQ (event_due s delay) = q \<and> q \<noteq> 0 \<and> I774 (futqs s q) = first \<and> I775 (futqs s q) = final \<longrightarrow>
      (let s' = hsG_0__0 ext pQ e delay s in
        queue (eblks s') (I774 (futqs s' q)) (I775 (futqs s' q)) (xs @ [e])
        \<and> s' = s\<lparr>eblks := (eblks s)(e := (eblks s e)\<lparr>I754 := - 1, I755 := event_due s delay, I757 := final\<rparr>,
              final := (eblks s final)\<lparr>I754 := e\<rparr>), futqs := (futqs s)(q := (futqs s q)\<lparr>I775 := e\<rparr>)\<rparr>))
    \<and> (\<not> event_due s delay < clock_low s \<and> \<not> (peblkFutQ1Head s \<noteq> 0 \<and> delay = 1)
        \<and> bucket_queue s pQ (event_due s delay) = 0 \<longrightarrow>
      hsG_0__0 ext pQ e delay s = sched_hsopt ext pQ e (event_due s delay) (stamped e (event_due s delay) s))"
proof -
  have "final \<in> set xs" using assms(1) by (auto simp: queue_def)
  then have "e \<noteq> final" using assms(2) by blast
  then have link: "link_last (eblks s) e final t =
      (eblks s)(e := (eblks s e)\<lparr>I754 := - 1, I755 := t, I757 := final\<rparr>, final := (eblks s final)\<lparr>I754 := e\<rparr>)" for t
    by (auto simp: link_last_def Let_def)
  note q = queue_link_last [OF assms, of "event_due s delay", unfolded link]
  show ?thesis
    by (intro conjI impI; (elim conjE)?)
      (use q in \<open>simp_all add: hsG_millenium hsG_next_tick hsG_bucket hsG_fallback link Let_def\<close>)
qed

text \<open>Three blocks at 16, 32 and 48; the next-tick queue holds the first two.\<close>

definition example_block :: "RP \<Rightarrow> RP \<Rightarrow> eblk" where
  "example_block nxt prv = \<lparr> I751 = 0, I752 = 0, I754 = nxt, I755 = 0, I756 = 0, I757 = prv \<rparr>"

definition example_sim :: sim where
  "example_sim =
     \<lparr> eblks = (\<lambda>_. example_block 0 0)(16 := example_block 32 0, 32 := example_block (- 1) 16),
       futqs = (\<lambda>_. \<lparr> I771 = 0, I773 = 0, I774 = 0, I775 = 0, futq_I755 = 0, I1 = 0, I776 = 0 \<rparr>),
       dummyqs = (\<lambda>_. \<lparr> I1255 = (\<lambda>_. \<lparr> I777 = 0 \<rparr>) \<rparr>),
       vcs_clocks = 7, peblkFutQ1Head = 16, peblkFutQ1Tail = 32, fHashTableSize = 4 \<rparr>"

definition example_ext :: simulator where
  "example_ext = \<lparr> sched_millenium = (\<lambda>_ _ _ _ s. s), sched_hsopt = (\<lambda>_ _ _ s. s) \<rparr>"

lemma example_sim_simps:
  "queue (eblks example_sim) 16 32 [16, 32]" "peblkFutQ1Head example_sim = 16"
  "peblkFutQ1Tail example_sim = 32" "clock_low example_sim = 7" "event_due example_sim 1 = 8"
  by (simp_all add: queue_def example_sim_def example_block_def event_due_def clock_low_def)

theorem hsG_tail_insert_witness:
  "let s' = hsG_0__0 example_ext 8 48 1 example_sim in
     queue (eblks s') (peblkFutQ1Head s') (peblkFutQ1Tail s') [16, 32, 48] \<and> I755 (eblks s' 48) = 8"
proof -
  let ?s = "hsG_0__0 example_ext 8 48 1 example_sim"
  have "let s' = ?s in queue (eblks s') (peblkFutQ1Head s') (peblkFutQ1Tail s') ([16, 32] @ [48])
      \<and> s' = example_sim\<lparr>eblks := (eblks example_sim)(48 := (eblks example_sim 48)\<lparr>I754 := - 1, I755 := event_due example_sim 1, I757 := 32\<rparr>,
            32 := (eblks example_sim 32)\<lparr>I754 := 48\<rparr>), peblkFutQ1Tail := 48\<rparr>"
    by (rule hsG_tail_insert [OF example_sim_simps(1), THEN conjunct2, THEN conjunct1, THEN mp]) (simp_all add: example_sim_simps)
  then have r: "queue (eblks ?s) (peblkFutQ1Head ?s) (peblkFutQ1Tail ?s) ([16, 32] @ [48])
      \<and> ?s = example_sim\<lparr>eblks := (eblks example_sim)(48 := (eblks example_sim 48)\<lparr>I754 := - 1, I755 := event_due example_sim 1, I757 := 32\<rparr>,
            32 := (eblks example_sim 32)\<lparr>I754 := 48\<rparr>), peblkFutQ1Tail := 48\<rparr>" unfolding Let_def .
  have "I755 (eblks ?s 48) = 8" by (subst r [THEN conjunct2]) (simp add: example_sim_simps)
  with conjunct1 [OF r] show ?thesis by (simp add: Let_def)
qed

text \<open>
  The time handed on is the clock plus the delay as one 64-bit number: exactly when the
  32-bit sum wraps, the event, stamped with the wrapped low half, goes to the overflow queue of
  the next epoch; otherwise the due time lies in the current epoch.
\<close>

theorem hsG_time:
  "(event_due s delay < clock_low s \<longleftrightarrow> 2 ^ 32 \<le> uint (clock_low s) + uint delay)
   \<and> (2 ^ 32 \<le> uint (clock_low s) + uint delay \<longrightarrow>
        hsG_0__0 ext pQ e delay s =
          sched_millenium ext pQ e (clock_high s + 1) (event_due s delay) (stamped e (event_due s delay) s)
        \<and> sim_time (clock_high s + 1) (event_due s delay) = vcs_clocks s + ucast delay)
   \<and> (uint (clock_low s) + uint delay < 2 ^ 32 \<longrightarrow>
        sim_time (clock_high s) (event_due s delay) = vcs_clocks s + ucast delay)"
proof -
  have wrap: "event_due s delay < clock_low s \<longleftrightarrow> 2 ^ 32 \<le> uint (clock_low s) + uint delay"
    using uint_event_due [of s delay] uint_ge_0 [of "event_due s delay"]
      uint_lt2p [of "event_due s delay"] by (auto split: if_splits)
  show ?thesis
  proof (cases "event_due s delay < clock_low s")
    case True
    then show ?thesis
      using sim_time_due [of s delay] wrap by (simp only: if_True hsG_millenium) simp
  next
    case False
    then show ?thesis
      using sim_time_due [of s delay] wrap by (simp only: if_False) simp
  qed
qed

theorem hsG_time_witness:
  "hsG_0__0 example_ext 8 48 0xFFFFFFFF example_sim =
     sched_millenium example_ext 8 48 1 6 (stamped 48 6 example_sim)"
proof -
  have "event_due example_sim 0xFFFFFFFF = 6" "clock_high example_sim = 0" "uint (0xFFFFFFFF :: u32) = 0xFFFFFFFF"
    by (simp_all add: event_due_def clock_low_def clock_high_def example_sim_def)
  with hsG_time [of example_sim "0xFFFFFFFF" example_ext 8 48] show ?thesis
    by (simp add: example_sim_simps)
qed

section \<open>Order\<close>

definition schedule_all :: "simulator \<Rightarrow> RP \<Rightarrow> u32 \<Rightarrow> RP list \<Rightarrow> sim \<Rightarrow> sim" where
  "schedule_all ext pQ delay es s = fold (\<lambda>e. hsG_0__0 ext pQ e delay) es s"

lemma schedule_all_Cons:
  "\<not> event_due s 1 < clock_low s \<Longrightarrow> peblkFutQ1Head s \<noteq> 0 \<Longrightarrow> schedule_all ext pQ 1 (e # es) s =
     schedule_all ext pQ 1 es
       (s\<lparr>eblks := link_last (eblks s) e (peblkFutQ1Tail s) (event_due s 1), peblkFutQ1Tail := e\<rparr>)"
  by (simp add: schedule_all_def hsG_next_tick)

lemma I755_link_last: "I755 (link_last h e final t p) = (if p = e then t else I755 (h p))"
  by (simp add: link_last_def Let_def)

lemma event_due_cong [simp]:
  "event_due (s\<lparr>eblks := h, peblkFutQ1Tail := e\<rparr>) delay = event_due s delay"
  "clock_low (s\<lparr>eblks := h, peblkFutQ1Tail := e\<rparr>) = clock_low s"
  by (simp_all add: event_due_def clock_low_def)

lemma schedule_all_stamps:
  "\<not> event_due s 1 < clock_low s \<Longrightarrow> peblkFutQ1Head s \<noteq> 0 \<Longrightarrow>
   I755 (eblks (schedule_all ext pQ 1 es s) p) = (if p \<in> set es then event_due s 1 else I755 (eblks s p))"
proof (induction es arbitrary: s)
  case Nil
  then show ?case by (simp add: schedule_all_def)
next
  case (Cons e es)
  then show ?case by (simp add: schedule_all_Cons I755_link_last)
qed

lemma schedule_all_queue:
  assumes "queue (eblks s) (peblkFutQ1Head s) (peblkFutQ1Tail s) xs" and "peblkFutQ1Head s \<noteq> 0"
    and "distinct (xs @ es)" and "\<not> event_due s 1 < clock_low s"
  shows "queue (eblks (schedule_all ext pQ 1 es s)) (peblkFutQ1Head s)
      (peblkFutQ1Tail (schedule_all ext pQ 1 es s)) (xs @ es)"
  using assms
proof (induction es arbitrary: s xs)
  case Nil
  then show ?case by (simp add: schedule_all_def)
next
  case (Cons e es)
  let ?s = "s\<lparr>eblks := link_last (eblks s) e (peblkFutQ1Tail s) (event_due s 1), peblkFutQ1Tail := e\<rparr>"
  have "queue (eblks ?s) (peblkFutQ1Head ?s) (peblkFutQ1Tail ?s) (xs @ [e])"
    using Cons.prems queue_link_last [OF Cons.prems(1)] by simp
  from Cons.IH [OF this] Cons.prems show ?case by (simp add: schedule_all_Cons)
qed

text \<open>
  C40: the next-tick queue is first in, first out: scheduling distinct new events with delay 1,
  one after the other at the same clock, leaves the queue with the blocks it had followed by
  the events in the order they were scheduled, each stamped with the next tick.
\<close>

theorem next_tick_fifo:
  assumes "queue (eblks s) (peblkFutQ1Head s) (peblkFutQ1Tail s) xs" and "peblkFutQ1Head s \<noteq> 0"
    and "distinct (xs @ es)" and "\<not> event_due s 1 < clock_low s"
  shows "queue (eblks (schedule_all ext pQ 1 es s)) (peblkFutQ1Head s)
      (peblkFutQ1Tail (schedule_all ext pQ 1 es s)) (xs @ es)
    \<and> (\<forall>e \<in> set es. I755 (eblks (schedule_all ext pQ 1 es s) e) = event_due s 1)"
  using schedule_all_queue [OF assms] schedule_all_stamps [OF assms(4,2)] by simp

theorem next_tick_fifo_witness:
  "queue (eblks (schedule_all example_ext 8 1 [48, 64] example_sim)) 16
     (peblkFutQ1Tail (schedule_all example_ext 8 1 [48, 64] example_sim)) [16, 32, 48, 64]"
  using next_tick_fifo [of example_sim "[16, 32]" "[48, 64]" example_ext 8] by (simp add: example_sim_simps)

end
