(* ===== verification/Bit_Scan.thy ===== *)
theory Bit_Scan
  imports Prelude
begin

text \<open>
  The one function with a body in \<open>sim/csrc/rmapats.h\<close>: \<open>asm_bsf\<close>, the index of the lowest bit
  set. It is the instruction \<open>bsf\<close> on x86, \<open>ffs\<close> of the C library on other Linux builds and a
  constant elsewhere. The instruction leaves its destination undefined for 0: a parameter.
\<close>

datatype host = Linux_x86 | Linux_aarch64 | Not_linux

fun first_set :: "nat \<Rightarrow> nat \<Rightarrow> u32 \<Rightarrow> nat option" where
  "first_set 0 k w = None"
| "first_set (Suc n) k w = (if bit w k then Some k else first_set n (Suc k) w)"

definition ffs :: "u32 \<Rightarrow> u32" where
  "ffs w = (case first_set 32 0 w of None \<Rightarrow> 0 | Some k \<Rightarrow> of_nat (Suc k))"

definition asm_bsf :: "host \<Rightarrow> u32 \<Rightarrow> u32 \<Rightarrow> u32" where
  "asm_bsf h undef w =
     (case h of
        Linux_x86 \<Rightarrow> (case first_set 32 0 w of None \<Rightarrow> undef | Some k \<Rightarrow> of_nat k)
      | Linux_aarch64 \<Rightarrow> ffs w - 1
      | Not_linux \<Rightarrow> 0)"

lemma first_set_Some:
  "first_set n k w = Some j \<Longrightarrow> k \<le> j \<and> j < k + n \<and> bit w j \<and> (\<forall>i. k \<le> i \<and> i < j \<longrightarrow> \<not> bit w i)"
proof (induction n k w rule: first_set.induct)
  case (2 n k w)
  show ?case
  proof (cases "bit w k")
    case False
    with "2.IH" "2.prems" have s: "Suc k \<le> j \<and> j < Suc k + n \<and> bit w j \<and> (\<forall>i. Suc k \<le> i \<and> i < j \<longrightarrow> \<not> bit w i)"
      by simp
    have "\<not> bit w i" if "k \<le> i" "i < j" for i using False s that by (cases "i = k") simp_all
    with s show ?thesis by simp
  qed (use "2.prems" in auto)
qed simp

lemma first_set_None: "first_set n k w = None \<Longrightarrow> k \<le> i \<Longrightarrow> i < k + n \<Longrightarrow> \<not> bit w i"
proof (induction n k w arbitrary: i rule: first_set.induct)
  case (2 n k w)
  then show ?case by (cases "i = k") (auto split: if_splits)
qed simp

text \<open>On every Linux host the function finds the lowest bit set; the results for 0 differ.\<close>

theorem asm_bsf_lowest:
  assumes "w \<noteq> 0" and "h \<noteq> Not_linux"
  shows "\<exists>k<32. asm_bsf h undef w = of_nat k \<and> bit w k \<and> (\<forall>i<k. \<not> bit w i)"
proof -
  have "first_set 32 0 w \<noteq> None"
  proof
    assume *: "first_set 32 0 w = None"
    have "w = 0" by (rule bit_word_eqI) (use first_set_None [OF *] in auto)
    with assms(1) show False ..
  qed
  then obtain k where k: "first_set 32 0 w = Some k" by blast
  with assms(2) have "asm_bsf h undef w = of_nat k" by (cases h) (simp_all add: asm_bsf_def ffs_def)
  with first_set_Some [OF k] show ?thesis by (intro exI [of _ k]) simp
qed

lemma asm_bsf_zero: "asm_bsf Linux_x86 undef 0 = undef" "asm_bsf Linux_aarch64 undef 0 = - 1" "asm_bsf Not_linux undef 0 = 0"
proof -
  have "first_set 32 0 0 = None"
    using first_set_Some [of 32 0 0] by (cases "first_set 32 0 0") auto
  then show "asm_bsf Linux_x86 undef 0 = undef" "asm_bsf Linux_aarch64 undef 0 = - 1" "asm_bsf Not_linux undef 0 = 0"
    by (simp_all add: asm_bsf_def ffs_def)
qed

end
