(* ===== verification/Line_Port.thy ===== *)
theory Line_Port
  imports Prelude
begin

text \<open>
  The port through which caches, arbiter and cacheline adaptor (\<open>hdl/memory/\<close>) exchange
  256-bit lines, as an interface. A client holds a request, with its address and data, until
  the response; a provider promises to answer a held request after at most \<open>bound\<close> further
  cycles, to return the addressed line to a read and to change that line, and nothing else,
  on a write. The clients of the port (the arbiter, the cache) are proved against this
  interface, the adaptor with the memory behind it implements it.
\<close>

section \<open>Lines and bursts\<close>

type_synonym line = "256 word"
type_synonym lines = "u32 \<Rightarrow> line"

text \<open>Burst \<open>i\<close> of a line, \<open>line[64*i +: 64]\<close>, read and written.\<close>

definition take_burst :: "nat \<Rightarrow> line \<Rightarrow> u64" where
  "take_burst i v = ucast (drop_bit (64 * i) v)"

definition put_burst :: "nat \<Rightarrow> u64 \<Rightarrow> line \<Rightarrow> line" where
  "put_burst i b v = (v AND NOT (push_bit (64 * i) (mask 64))) OR push_bit (64 * i) (ucast b)"

lemma bit_take_burst: "bit (take_burst i v) k \<longleftrightarrow> k < 64 \<and> bit v (64 * i + k)"
  by (auto simp: take_burst_def bit_ucast_iff bit_drop_bit_eq dest: bit_imp_le_length)

lemma bit_put_burst:
  "bit (put_burst i b v) k \<longleftrightarrow>
     k < 256 \<and> (if 64 * i \<le> k \<and> k < 64 * i + 64 then bit b (k - 64 * i) else bit v k)"
  by (auto simp: put_burst_def bit_or_iff bit_and_iff bit_not_iff bit_push_bit_iff bit_ucast_iff bit_mask_iff
      dest: bit_imp_le_length)

lemma take_put_burst: "i < 4 \<Longrightarrow> take_burst j (put_burst i b v) = (if i = j then b else take_burst j v)"
  by (rule bit_word_eqI) (auto simp: bit_take_burst bit_put_burst dest: bit_imp_le_length)

lemma line_eq_bursts: "(\<And>j. j < 4 \<Longrightarrow> take_burst j v = take_burst j w) \<Longrightarrow> v = w"
proof (rule bit_word_eqI)
  fix k assume *: "\<And>j. j < 4 \<Longrightarrow> take_burst j v = take_burst j w" and "k < LENGTH(256)"
  then have "bit (take_burst (k div 64) v) (k mod 64) = bit (take_burst (k div 64) w) (k mod 64)"
    by (simp add: less_mult_imp_div_less)
  then show "bit v k = bit w k" by (simp add: bit_take_burst)
qed

section \<open>Requests\<close>

record port_in =
  p_read :: bool
  p_write :: bool
  p_address :: u32
  p_wdata :: line

datatype request = ReadLine (req_addr: u32) | WriteLine (req_addr: u32) line

text \<open>A line is addressed by the upper 27 bits.\<close>

definition line_no :: "u32 \<Rightarrow> u32" where
  "line_no a = drop_bit 5 a"

fun asks :: "port_in \<Rightarrow> request \<Rightarrow> bool" where
  "asks i (ReadLine a) = (p_read i \<and> \<not> p_write i \<and> p_address i = a)"
| "asks i (WriteLine a w) = (p_write i \<and> \<not> p_read i \<and> p_address i = a \<and> p_wdata i = w)"

fun effect :: "request \<Rightarrow> lines \<Rightarrow> lines" where
  "effect (ReadLine a) L = L"
| "effect (WriteLine a w) L = L(line_no a := w)"

text \<open>What a request delivers; a write delivers nothing.\<close>

fun line_answer :: "request \<Rightarrow> lines \<Rightarrow> line \<Rightarrow> bool" where
  "line_answer (ReadLine a) L v \<longleftrightarrow> v = L (line_no a)"
| "line_answer (WriteLine a w) L v \<longleftrightarrow> True"

definition quiet :: "port_in \<Rightarrow> bool" where
  "quiet i \<longleftrightarrow> \<not> p_read i \<and> \<not> p_write i"

section \<open>The interface\<close>

text \<open>
  \<open>serving s r L n\<close>: in state \<open>s\<close> the provider is at work on request \<open>r\<close>, which it found with
  memory contents \<open>L\<close>, and responds \<open>n\<close> cycles from now if the request is held.
\<close>

locale line_port =
  fixes step :: "'s \<Rightarrow> port_in \<Rightarrow> 's"
    and resp :: "'s \<Rightarrow> bool"
    and rdata :: "'s \<Rightarrow> line"
    and contents :: "'s \<Rightarrow> lines"
    and ready :: "'s \<Rightarrow> bool"
    and serving :: "'s \<Rightarrow> request \<Rightarrow> lines \<Rightarrow> nat \<Rightarrow> bool"
    and bound :: nat
  assumes idle: "ready s \<Longrightarrow> quiet i \<Longrightarrow> ready (step s i) \<and> contents (step s i) = contents s"
    and silent: "ready s \<Longrightarrow> \<not> resp s"
    and accepts: "ready s \<Longrightarrow> \<exists>n\<le>bound. serving s r (contents s) n"
    and progress: "serving s r L (Suc n) \<Longrightarrow> asks i r \<Longrightarrow> \<not> resp s \<and> serving (step s i) r L n"
    and answers: "serving s r L 0 \<Longrightarrow> resp s \<and> (\<forall>a. r = ReadLine a \<longrightarrow> rdata s = L (line_no a))"
    and completes: "serving s r L 0 \<Longrightarrow> asks i r \<Longrightarrow> ready (step s i) \<and> contents (step s i) = effect r L"
    and reading: "serving s (ReadLine a) L n \<Longrightarrow> contents s = L"
begin

text \<open>A request held for as long as it takes.\<close>

lemma held_request:
  assumes "serving s r L n" and "\<And>k. asks (i k) r" and "st 0 = s" and "\<And>k. st (Suc k) = step (st k) (i k)"
  shows "(\<forall>k<n. \<not> resp (st k)) \<and> resp (st n) \<and> (\<forall>a. r = ReadLine a \<longrightarrow> rdata (st n) = L (line_no a))
    \<and> ready (st (Suc n)) \<and> contents (st (Suc n)) = effect r L"
proof -
  have "k \<le> n \<Longrightarrow> serving (st k) r L (n - k)" for k
  proof (induction k)
    case (Suc k)
    then have "serving (st k) r L (Suc (n - Suc k))" by (simp add: Suc_diff_Suc)
    then show ?case using progress assms(2,4) by simp
  qed (use assms in simp)
  note at = this
  have "\<not> resp (st k)" if "k < n" for k
    using at [of k] progress [OF _ assms(2), of "st k" L "n - Suc k"] that by (simp add: Suc_diff_Suc)
  moreover have "serving (st n) r L 0" using at [of n] by simp
  ultimately show ?thesis using answers [of "st n"] completes [OF _ assms(2)] assms(4) by auto
qed

end

text \<open>
  What a client that shares the provider relies on: it cannot see what the others do, so a cycle
  is a relation, and of the time to the response it only knows an upper limit.
\<close>

locale held_port =
  fixes step :: "'s \<Rightarrow> port_in \<Rightarrow> 's \<Rightarrow> bool"
    and resp :: "'s \<Rightarrow> bool"
    and rdata :: "'s \<Rightarrow> line"
    and contents :: "'s \<Rightarrow> lines"
    and ready :: "'s \<Rightarrow> bool"
    and serving :: "'s \<Rightarrow> request \<Rightarrow> lines \<Rightarrow> nat \<Rightarrow> bool"
    and bound :: nat
  assumes continues: "\<exists>s'. step s i s'"
    and idle: "ready s \<Longrightarrow> quiet i \<Longrightarrow> step s i s' \<Longrightarrow> ready s' \<and> contents s' = contents s"
    and accepts: "ready s \<Longrightarrow> \<exists>n\<le>bound. serving s r (contents s) n"
    and progress: "serving s r L n \<Longrightarrow> asks i r \<Longrightarrow> step s i s' \<Longrightarrow>
      if resp s then (\<forall>a. r = ReadLine a \<longrightarrow> rdata s = L (line_no a)) \<and> ready s' \<and> contents s' = effect r L
      else \<exists>m<n. serving s' r L m"

text \<open>A provider that is not shared is a special case.\<close>

sublocale line_port \<subseteq> alone: held_port "\<lambda>s i s'. s' = step s i" resp rdata contents ready serving bound
proof
  show "if resp s then (\<forall>a. r = ReadLine a \<longrightarrow> rdata s = L (line_no a)) \<and> ready s' \<and> contents s' = effect r L
      else \<exists>m<n. serving s' r L m" if "serving s r L n" "asks i r" "s' = step s i" for s r L n i s'
    using that answers completes progress by (cases n) auto
qed (use idle accepts in auto)

end
