(* ===== verification/Line_Sets.thy ===== *)
theory Line_Sets
  imports Line_Port
begin

text \<open>
  What the two set-associative caches of \<open>hdl/memory\<close> have in common: eight sets, 24-bit tags, and
  for every way a dirty bit, a valid bit, a tag and a line per set. Over these, the memory a
  cache stands for, the invariant that relates it to the memory below, and what write-back,
  refill and stores do to both. The type \<open>'w\<close> of the ways is left open.
\<close>

section \<open>Tags and sets\<close>

type_synonym set_index = "3 word"
type_synonym tag = "24 word"

definition addr_index :: "u32 \<Rightarrow> set_index" where
  "addr_index a = ucast (drop_bit 5 a)"

definition addr_tag :: "u32 \<Rightarrow> tag" where
  "addr_tag a = ucast (drop_bit 8 a)"

text \<open>Lines numbered by tag and set.\<close>

definition line_num :: "tag \<Rightarrow> set_index \<Rightarrow> u32" where
  "line_num t x = push_bit 3 (ucast t) OR ucast x"

definition line_set :: "u32 \<Rightarrow> set_index" where
  "line_set l = ucast l"

lemma bit_line_num: "bit (line_num t x) k \<longleftrightarrow> (if k < 3 then bit x k else bit t (k - 3))"
  by (auto simp: line_num_def bit_or_iff bit_push_bit_iff bit_ucast_iff dest: bit_imp_le_length)

lemma line_set_num [simp]: "line_set (line_num t x) = x"
  by (rule bit_word_eqI) (auto simp: line_set_def bit_ucast_iff bit_line_num)

lemma line_num_eq_iff [simp]: "line_num t x = line_num u y \<longleftrightarrow> t = u \<and> x = y"
proof
  assume eq: "line_num t x = line_num u y"
  then have "x = y" by (metis line_set_num)
  moreover have "t = u"
  proof (rule bit_word_eqI)
    fix k show "bit t k = bit u k" using arg_cong [OF eq, of "\<lambda>v. bit v (k + 3)"] by (simp add: bit_line_num)
  qed
  ultimately show "t = u \<and> x = y" by simp
qed simp

lemma line_no_addr: "line_no a = line_num (addr_tag a) (addr_index a)"
  by (rule bit_word_eqI)
    (auto simp: bit_line_num line_no_def addr_tag_def addr_index_def bit_drop_bit_eq bit_ucast_iff dest: bit_imp_le_length)

lemma bit_word_cat: "bit (word_cat (x :: 'a::len word) (y :: 'b::len word) :: 'c::len word) k \<longleftrightarrow>
    k < LENGTH('c) \<and> (if k < LENGTH('b) then bit y k else bit x (k - LENGTH('b)))"
  by (rule bit_word_cat_iff)

lemma line_no_victim: "line_no (word_cat (t :: tag) (word_cat (x :: set_index) (0 :: 5 word) :: 8 word)) = line_num t x"
  by (rule bit_word_eqI) (auto simp: bit_line_num line_no_def bit_drop_bit_eq bit_word_cat dest: bit_imp_le_length)

lemma line_no_aligned: "line_no (word_cat (ucast (drop_bit 5 a) :: 27 word) (0 :: 5 word)) = line_no a"
  by (rule bit_word_eqI) (auto simp: line_no_def bit_drop_bit_eq bit_word_cat bit_ucast_iff dest: bit_imp_le_length)

section \<open>The arrays\<close>

record 'w line_sets =
  dirty_bits :: "'w \<Rightarrow> set_index \<Rightarrow> bool"
  valid_bits :: "'w \<Rightarrow> set_index \<Rightarrow> bool"
  tags :: "'w \<Rightarrow> set_index \<Rightarrow> tag"
  data_lines :: "'w \<Rightarrow> set_index \<Rightarrow> line"

text \<open>Updates of one entry of an array.\<close>

definition set_entry :: "'w \<Rightarrow> set_index \<Rightarrow> 'a \<Rightarrow> ('w \<Rightarrow> set_index \<Rightarrow> 'a) \<Rightarrow> 'w \<Rightarrow> set_index \<Rightarrow> 'a" where
  "set_entry w x v f = f(w := (f w)(x := v))"

lemma set_entry_apply [simp]: "set_entry w x v f w' x' = (if w' = w \<and> x' = x then v else f w' x')"
  by (simp add: set_entry_def)

text \<open>The way holds the addressed line.\<close>

definition present :: "('w, 'z) line_sets_scheme \<Rightarrow> u32 \<Rightarrow> 'w \<Rightarrow> bool" where
  "present c a w \<longleftrightarrow> valid_bits c w (addr_index a) \<and> tags c w (addr_index a) = addr_tag a"

section \<open>The memory the cache stands for\<close>

text \<open>Way \<open>w\<close> holds line \<open>l\<close>; entries of \<open>X\<close> do not count, they are being refilled.\<close>

definition holds_line :: "('w, 'z) line_sets_scheme \<Rightarrow> ('w \<times> set_index) set \<Rightarrow> u32 \<Rightarrow> 'w \<Rightarrow> bool" where
  "holds_line c X l w \<longleftrightarrow>
     valid_bits c w (line_set l) \<and> line_num (tags c w (line_set l)) (line_set l) = l \<and> (w, line_set l) \<notin> X"

definition cache_view :: "('w, 'z) line_sets_scheme \<Rightarrow> ('w \<times> set_index) set \<Rightarrow> lines \<Rightarrow> lines" where
  "cache_view c X M l =
     (if \<exists>w. holds_line c X l w then data_lines c (THE w. holds_line c X l w) (line_set l) else M l)"

text \<open>
  The invariant: no line is held twice, a dirty entry is valid, and a clean one agrees with the
  memory, except for the entries of \<open>Y\<close>, which are being written back.
\<close>

definition cache_inv :: "('w, 'z) line_sets_scheme \<Rightarrow> ('w \<times> set_index) set \<Rightarrow> ('w \<times> set_index) set \<Rightarrow> lines \<Rightarrow> bool" where
  "cache_inv c X Y M \<longleftrightarrow>
     (\<forall>l w w'. holds_line c X l w \<longrightarrow> holds_line c X l w' \<longrightarrow> w = w')
     \<and> (\<forall>w x. (w, x) \<notin> X \<longrightarrow> dirty_bits c w x \<longrightarrow> valid_bits c w x)
     \<and> (\<forall>l w. holds_line c X l w \<longrightarrow> \<not> dirty_bits c w (line_set l) \<longrightarrow> (w, line_set l) \<notin> Y \<longrightarrow>
          data_lines c w (line_set l) = M l)"

lemma cache_invD:
  assumes "cache_inv c X Y M"
  shows "holds_line c X l w \<Longrightarrow> holds_line c X l w' \<Longrightarrow> w = w'"
    "(w, x) \<notin> X \<Longrightarrow> dirty_bits c w x \<Longrightarrow> valid_bits c w x"
    "holds_line c X l w \<Longrightarrow> \<not> dirty_bits c w (line_set l) \<Longrightarrow> (w, line_set l) \<notin> Y \<Longrightarrow> data_lines c w (line_set l) = M l"
  using assms unfolding cache_inv_def by blast+

lemma view_held: "cache_inv c X Y M \<Longrightarrow> holds_line c X l w \<Longrightarrow> cache_view c X M l = data_lines c w (line_set l)"
proof -
  assume "cache_inv c X Y M" and h: "holds_line c X l w"
  with cache_invD(1) have "(THE w. holds_line c X l w) = w" by (intro the_equality) blast+
  with h show ?thesis by (auto simp: cache_view_def)
qed

lemma view_not_held: "(\<And>w. \<not> holds_line c X l w) \<Longrightarrow> cache_view c X M l = M l"
  by (simp add: cache_view_def)

lemma present_holds: "present c a w \<longleftrightarrow> holds_line c {} (line_no a) w"
  by (simp add: present_def holds_line_def line_no_addr)

lemma present_fun: "present c a = holds_line c {} (line_no a)"
  by (simp add: fun_eq_iff present_holds)

lemma line_set_no [simp]: "line_set (line_no a) = addr_index a"
  by (simp add: line_no_addr)

text \<open>The dirty bits do not say what is held, nor do the lines themselves.\<close>

lemma holds_line_bits [simp]:
  "holds_line (c\<lparr>dirty_bits := b\<rparr>) = holds_line c" "holds_line (c\<lparr>data_lines := d\<rparr>) = holds_line c"
  by (simp_all add: fun_eq_iff holds_line_def)

lemma cache_view_bits [simp]: "cache_view (c\<lparr>dirty_bits := b\<rparr>) = cache_view c"
  by (simp add: fun_eq_iff cache_view_def)

section \<open>Requests to the memory below\<close>

text \<open>Write-back of an entry, and the refill of a line.\<close>

definition evict_request :: "('w, 'z) line_sets_scheme \<Rightarrow> 'w \<Rightarrow> set_index \<Rightarrow> request" where
  "evict_request c v x = WriteLine (word_cat (tags c v x) (word_cat x (0 :: 5 word) :: 8 word)) (data_lines c v x)"

definition refill_request :: "u32 \<Rightarrow> request" where
  "refill_request a = ReadLine (word_cat (ucast (drop_bit 5 a) :: 27 word) (0 :: 5 word))"

lemma evict_effect: "effect (evict_request c v x) M = M(line_num (tags c v x) x := data_lines c v x)"
  by (simp add: evict_request_def line_no_victim)

lemma evict_reads: "evict_request c v x \<noteq> ReadLine a"
  by (simp add: evict_request_def)

lemma refill_effect: "effect (refill_request a) M = M"
  by (simp add: refill_request_def)

lemma refill_reads: "(\<forall>b. refill_request a = ReadLine b \<longrightarrow> v = M (line_no b)) \<longleftrightarrow> v = M (line_no a)"
  by (simp add: refill_request_def line_no_aligned)

section \<open>Steps of the refinement\<close>

lemma holds_exclude: "holds_line c {e} l w \<longleftrightarrow> holds_line c {} l w \<and> (w, line_set l) \<noteq> e"
  by (auto simp: holds_line_def)

lemma holds_victim: "holds_line c {} l v \<Longrightarrow> l = line_num (tags c v (line_set l)) (line_set l)"
  by (simp add: holds_line_def)

text \<open>A clean victim can be forgotten.\<close>

lemma forget_clean:
  assumes "cache_inv c {} {} M" and "\<not> dirty_bits c v x"
  shows "cache_inv c {(v, x)} {} M" "cache_view c {(v, x)} M = cache_view c {} M"
proof -
  note i = cache_invD [OF assms(1)]
  show inv: "cache_inv c {(v, x)} {} M"
    unfolding cache_inv_def holds_exclude using i by blast
  show "cache_view c {(v, x)} M = cache_view c {} M"
  proof
    fix l
    show "cache_view c {(v, x)} M l = cache_view c {} M l"
    proof (cases "\<exists>w. holds_line c {(v, x)} l w")
      case True
      then obtain w where w: "holds_line c {(v, x)} l w" ..
      then have "holds_line c {} l w" by (simp add: holds_exclude)
      with w view_held [OF inv] view_held [OF assms(1)] show ?thesis by simp
    next
      case False
      then have left: "cache_view c {(v, x)} M l = M l" by (intro view_not_held) simp
      show ?thesis
      proof (cases "\<exists>w. holds_line c {} l w")
        case True
        then obtain w where w: "holds_line c {} l w" ..
        with False have "w = v" "line_set l = x" by (auto simp: holds_exclude)
        with w left i(3) [OF w] view_held [OF assms(1) w] assms(2) show ?thesis by simp
      next
        case False
        then have "cache_view c {} M l = M l" by (intro view_not_held) simp
        with left show ?thesis by simp
      qed
    qed
  qed
qed

text \<open>Writing back: the victim counts as clean before memory has its data, and has them in the end.\<close>

lemma write_back_start:
  assumes "cache_inv c {} Y M" and "Y \<subseteq> {(v, x)}"
  shows "cache_inv (c\<lparr>dirty_bits := set_entry v x False (dirty_bits c)\<rparr>) {} {(v, x)} M"
proof -
  note i = cache_invD [OF assms(1)]
  have "data_lines c w (line_set l) = M l"
    if "holds_line c {} l w" "\<not> dirty_bits c w (line_set l)" "(w, line_set l) \<noteq> (v, x)" for l w
    using i(3) [OF that(1,2)] that(3) assms(2) by blast
  with i(1,2) show ?thesis unfolding cache_inv_def by (auto split: if_splits)
qed

lemma write_back_end:
  fixes c v x M
  defines "M' \<equiv> M(line_num (tags c v x) x := data_lines c v x)"
  assumes "cache_inv c {} {(v, x)} M" and "valid_bits c v x"
  shows "cache_inv c {} {} M'" "cache_view c {} M' = cache_view c {} M"
proof -
  note i = cache_invD [OF assms(2)]
  let ?l = "line_num (tags c v x) x"
  have v: "holds_line c {} ?l v" using assms(3) by (simp add: holds_line_def)
  have "data_lines c w (line_set l) = M' l" if h: "holds_line c {} l w" and d: "\<not> dirty_bits c w (line_set l)" for l w
  proof (cases "l = ?l")
    case True
    with h v i(1) have "w = v" by blast
    with True show ?thesis by (simp add: M'_def)
  next
    case False
    with h have "(w, line_set l) \<noteq> (v, x)" by (auto dest: holds_victim)
    with i(3) [OF h d] False show ?thesis by (simp add: M'_def)
  qed
  then show inv: "cache_inv c {} {} M'"
    unfolding cache_inv_def using i(1,2) by blast
  show "cache_view c {} M' = cache_view c {} M"
  proof
    fix l
    show "cache_view c {} M' l = cache_view c {} M l"
    proof (cases "\<exists>w. holds_line c {} l w")
      case True
      then obtain w where "holds_line c {} l w" ..
      with view_held [OF inv] view_held [OF assms(2)] show ?thesis by simp
    next
      case False
      with v have "l \<noteq> ?l" by blast
      with False show ?thesis using view_not_held [of c "{}" l] by (simp add: M'_def)
    qed
  qed
qed

text \<open>Refilling.\<close>

lemma refill_step:
  fixes c v x t d
  defines "c' \<equiv> c\<lparr>valid_bits := set_entry v x True (valid_bits c), tags := set_entry v x t (tags c),
     data_lines := set_entry v x d (data_lines c)\<rparr>"
  assumes "cache_inv c {(v, x)} {} M"
  shows "cache_inv c' {(v, x)} {} M" "cache_view c' {(v, x)} M = cache_view c {(v, x)} M"
proof -
  have h: "holds_line c' {(v, x)} l w = holds_line c {(v, x)} l w" for l w
    by (auto simp: holds_line_def c'_def)
  have d: "data_lines c' w (line_set l) = data_lines c w (line_set l)" if "holds_line c {(v, x)} l w" for l w
    using that by (auto simp: holds_line_def c'_def)
  have b: "dirty_bits c' = dirty_bits c" "(w, y) \<noteq> (v, x) \<Longrightarrow> valid_bits c' w y = valid_bits c w y" for w y
    by (auto simp: c'_def)
  note i = cache_invD [OF assms(2)]
  show inv: "cache_inv c' {(v, x)} {} M"
    unfolding cache_inv_def h b(1) using i d b(2) by (metis empty_iff insertI1)
  show "cache_view c' {(v, x)} M = cache_view c {(v, x)} M"
  proof
    fix l
    show "cache_view c' {(v, x)} M l = cache_view c {(v, x)} M l"
    proof (cases "\<exists>w. holds_line c {(v, x)} l w")
      case True
      then obtain w where "holds_line c {(v, x)} l w" ..
      with view_held [OF inv, of l w] view_held [OF assms(2), of l w] d show ?thesis by (simp add: h)
    next
      case False
      then show ?thesis using view_not_held [of c' "{(v, x)}" l M] view_not_held [of c "{(v, x)}" l M] by (simp add: h)
    qed
  qed
qed

lemma refill_end:
  assumes "cache_inv c {(v, x)} {} M" and "\<not> dirty_bits c v x" and "data_lines c v x = M (line_num (tags c v x) x)"
    and "\<And>w. \<not> holds_line c {(v, x)} (line_num (tags c v x) x) w"
  shows "cache_inv c {} {} M" "cache_view c {} M = cache_view c {(v, x)} M"
proof -
  note i = cache_invD [OF assms(1)]
  have h: "holds_line c {} l w \<longleftrightarrow> holds_line c {(v, x)} l w \<or> w = v \<and> line_set l = x \<and> holds_line c {} l v" for l w
    by (auto simp: holds_exclude)
  have l: "holds_line c {} l v \<Longrightarrow> line_set l = x \<Longrightarrow> l = line_num (tags c v x) x" for l
    by (auto dest: holds_victim)
  show inv: "cache_inv c {} {} M"
    unfolding cache_inv_def
  proof (intro conjI allI impI)
    show "w = w'" if "holds_line c {} m w" "holds_line c {} m w'" for m w w'
      using that h [of m w] h [of m w'] i(1) assms(4) l by metis
    show "valid_bits c w y" if "dirty_bits c w y" for w y
      using that i(2) [of w y] assms(2) by (cases "(w, y) = (v, x)") simp_all
    show "data_lines c w (line_set m) = M m" if "holds_line c {} m w" "\<not> dirty_bits c w (line_set m)" for m w
      using that h [of m w] i(3) [of m w] assms(3) l by auto
  qed
  show "cache_view c {} M = cache_view c {(v, x)} M"
    using forget_clean(2) [OF inv assms(2)] by simp
qed

text \<open>A store to a line that is held.\<close>

lemma store_held:
  fixes c w l d
  defines "c' \<equiv> c\<lparr>dirty_bits := set_entry w (line_set l) True (dirty_bits c), data_lines := set_entry w (line_set l) d (data_lines c)\<rparr>"
  assumes "cache_inv c {} {} M" and "holds_line c {} l w"
  shows "cache_inv c' {} {} M" "cache_view c' {} M = (cache_view c {} M)(l := d)"
proof -
  have h: "holds_line c' {} = holds_line c {}" by (simp add: c'_def fun_eq_iff holds_line_def)
  note i = cache_invD [OF assms(2)]
  have other: "data_lines c' w' (line_set l') = data_lines c w' (line_set l')" if "holds_line c {} l' w'" "l' \<noteq> l" for l' w'
    using that assms(3) holds_victim [of c l' w'] holds_victim [of c l w] by (cases "w' = w \<and> line_set l' = line_set l") (auto simp: c'_def)
  have valid: "valid_bits c w (line_set l)" using assms(3) by (simp add: holds_line_def)
  show inv: "cache_inv c' {} {} M"
    unfolding cache_inv_def h
  proof (intro conjI allI impI)
    show "w = w'" if "holds_line c {} m w" "holds_line c {} m w'" for m w w' using that i(1) by blast
    show "valid_bits c' w' y" if "dirty_bits c' w' y" for w' y
      using that i(2) valid by (auto simp: c'_def split: if_splits)
    show "data_lines c' w' (line_set m) = M m" if "holds_line c {} m w'" "\<not> dirty_bits c' w' (line_set m)" for m w'
      using that i(3) [of m w'] by (auto simp: c'_def split: if_splits)
  qed
  show "cache_view c' {} M = (cache_view c {} M)(l := d)"
  proof
    fix m
    show "cache_view c' {} M m = ((cache_view c {} M)(l := d)) m"
    proof (cases "\<exists>w'. holds_line c {} m w'")
      case True
      then obtain w' where w': "holds_line c {} m w'" ..
      then have "cache_view c' {} M m = data_lines c' w' (line_set m)" using view_held [OF inv] by (simp add: h)
      also have "\<dots> = (if m = l then d else data_lines c w' (line_set m))"
        using other [OF w'] w' assms(3) i(1) by (auto simp: c'_def)
      finally show ?thesis using view_held [OF assms(2) w'] by simp
    next
      case False
      with assms(3) have "m \<noteq> l" by blast
      with False show ?thesis using view_not_held [of c' "{}" m M] view_not_held [of c "{}" m M] by (simp add: h)
    qed
  qed
qed

end
