(* ===== verification/Cache_4way.thy ===== *)
theory Cache_4way
  imports Line_Sets
begin

text \<open>
  \<open>hdl/memory/4_way_cache\<close>: the four-way set-associative write-back cache, eight sets of
  32-byte lines. The source instantiates every array four times and numbers the signals of the
  ways from 1; here an array is a function of the way, numbered from 0 as in \<open>cacheline_sel\<close>,
  and so are the signals. The read enables are constant 1 and left out.

  The arrays pass a value being written through to their outputs, so controller and datapath
  form combinational cycles: the outputs of the arrays depend on the signals of the controller
  and these on the outputs. A cycle of the cache has settled when both agree, which
  \<open>settles\<close> says; a latch keeps any value. What is proved holds for every settled cycle.
\<close>

section \<open>Bus adapter\<close>

type_synonym way = "2 word"

text \<open>\<open>address[4:2]\<close>, the word of the line.\<close>

definition addr_word :: "u32 \<Rightarrow> nat" where
  "addr_word a = unat (ucast (drop_bit 2 a) :: 3 word)"

fun repeat_word :: "nat \<Rightarrow> u32 \<Rightarrow> line" where
  "repeat_word 0 w = 0"
| "repeat_word (Suc n) w = push_bit 32 (repeat_word n w) OR ucast w"

definition adapt_wdata :: "u32 \<Rightarrow> line" where
  "adapt_wdata mem_wdata = repeat_word 8 mem_wdata"

definition adapt_rdata :: "u32 \<Rightarrow> line \<Rightarrow> u32" where
  "adapt_rdata a mem_rdata256 = ucast (drop_bit (32 * addr_word a) mem_rdata256)"

definition adapt_enable :: "u32 \<Rightarrow> 4 word \<Rightarrow> u32" where
  "adapt_enable a be = push_bit (addr_word a * 4) (ucast be)"

section \<open>Arrays\<close>

definition array_read :: "bool \<Rightarrow> 'a \<Rightarrow> 'a \<Rightarrow> 'a" where
  "array_read load datain stored = (if load then datain else stored)"

definition array_write :: "bool \<Rightarrow> set_index \<Rightarrow> 'a \<Rightarrow> (set_index \<Rightarrow> 'a) \<Rightarrow> set_index \<Rightarrow> 'a" where
  "array_write load windex datain data = (if load then data(windex := datain) else data)"

definition line_byte :: "nat \<Rightarrow> line \<Rightarrow> u8" where
  "line_byte i v = ucast (drop_bit (8 * i) v)"

definition put_byte :: "nat \<Rightarrow> u8 \<Rightarrow> line \<Rightarrow> line" where
  "put_byte i b v = (v AND NOT (push_bit (8 * i) (mask 8))) OR push_bit (8 * i) (ucast b)"

text \<open>The loop over the byte enables of the data array.\<close>

fun merge_loop :: "nat \<Rightarrow> u32 \<Rightarrow> line \<Rightarrow> line \<Rightarrow> line" where
  "merge_loop 0 write_en datain stored = stored"
| "merge_loop (Suc i) write_en datain stored =
     (let v = merge_loop i write_en datain stored
      in if bit write_en i then put_byte i (line_byte i datain) v else v)"

definition merge_bytes :: "u32 \<Rightarrow> line \<Rightarrow> line \<Rightarrow> line" where
  "merge_bytes = merge_loop 32"

section \<open>Controller\<close>

datatype cache_state = Hit | Miss_clean | Miss_dirty

record cntrl =
  which_tag :: way
  new_address_sel :: bool
  valid_in :: "way \<Rightarrow> bool"
  LRU_in :: "3 word"
  Dirty_load :: "way \<Rightarrow> bool"
  LRU_load :: bool
  tag_array_load :: "way \<Rightarrow> bool"
  valid_load :: "way \<Rightarrow> bool"
  write_sel_way :: "way \<Rightarrow> 2 word"
  write_read_sel :: "way \<Rightarrow> bool"
  cacheline_sel :: "2 word"
  Dirty_in :: "way \<Rightarrow> bool"
  pmem_read :: bool
  pmem_write :: bool
  done_out :: bool

record array_outs =
  Dirty_out :: "way \<Rightarrow> bool"
  valid_out :: "way \<Rightarrow> bool"
  tag_array_out :: "way \<Rightarrow> tag"
  LRU_out :: "3 word"
  cache_line_data_out :: "way \<Rightarrow> line"

definition load_PLRU :: "(way \<Rightarrow> bool) \<Rightarrow> 3 word \<Rightarrow> 3 word" where
  "load_PLRU h lru =
     (let l = lru;
          l = (if h 0 then unset_bit 0 (unset_bit 1 l) else l);
          l = (if h 1 then Bit_Operations.set_bit 0 (unset_bit 1 l) else l);
          l = (if h 2 then unset_bit 2 (Bit_Operations.set_bit 1 l) else l);
          l = (if h 3 then Bit_Operations.set_bit 2 (Bit_Operations.set_bit 1 l) else l)
      in l)"

definition which_replace :: "3 word \<Rightarrow> way" where
  "which_replace PLRU =
     (let temp = NOT PLRU
      in if \<not> bit temp 1 then (if \<not> bit temp 0 then 0 else 1)
         else (if \<not> bit temp 2 then 2 else 3))"

definition which_dirty :: "way \<Rightarrow> (way \<Rightarrow> bool) \<Rightarrow> bool" where
  "which_dirty replace d = d replace"

text \<open>\<open>set_defaults\<close> does not assign the \<open>Dirty_in\<close> signals: they are latches.\<close>

definition cntrl_defaults :: "cntrl \<Rightarrow> way \<Rightarrow> cntrl" where
  "cntrl_defaults held replace =
     \<lparr> which_tag = replace, new_address_sel = False, valid_in = (\<lambda>_. False), LRU_in = 0, Dirty_load = (\<lambda>_. False),
       LRU_load = False, tag_array_load = (\<lambda>_. False), valid_load = (\<lambda>_. False), write_sel_way = (\<lambda>_. 0),
       write_read_sel = (\<lambda>_. False), cacheline_sel = 0, Dirty_in = Dirty_in held, pmem_read = False, pmem_write = False,
       done_out = False \<rparr>"

definition hit_check :: "(way \<Rightarrow> bool) \<Rightarrow> bool" where
  "hit_check h = (h 0 \<or> h 1 \<or> h 2 \<or> h 3)"

definition hit_way :: "(way \<Rightarrow> bool) \<Rightarrow> way" where
  "hit_way h = (if h 0 then 0 else if h 1 then 1 else if h 2 then 2 else 3)"

definition cntrl_comb :: "cntrl \<Rightarrow> cache_state \<Rightarrow> bool \<Rightarrow> bool \<Rightarrow> (way \<Rightarrow> bool) \<Rightarrow> array_outs \<Rightarrow> cntrl" where
  "cntrl_comb held st rd wr h ao =
     (let replace_which_way = which_replace (LRU_out ao);
          d = cntrl_defaults held replace_which_way
      in case st of
           Hit \<Rightarrow>
             if \<not> (rd \<or> wr) then d
             else if \<not> hit_check h then d
             else
               let d = d\<lparr>LRU_load := True, LRU_in := load_PLRU h (LRU_out ao)\<rparr>;
                   w = hit_way h;
                   d = (if rd then d\<lparr>cacheline_sel := w\<rparr>
                        else if wr
                        then d\<lparr>cacheline_sel := w, Dirty_in := (Dirty_in d)(w := True), Dirty_load := (Dirty_load d)(w := True),
                               write_read_sel := (write_read_sel d)(w := True), write_sel_way := (write_sel_way d)(w := 2)\<rparr>
                        else d)
               in d\<lparr>done_out := True\<rparr>
         | Miss_clean \<Rightarrow>
             let d = d\<lparr>pmem_read := True\<rparr>; w = replace_which_way
             in if rd \<or> wr
                then d\<lparr>cacheline_sel := w, tag_array_load := (tag_array_load d)(w := True), valid_load := (valid_load d)(w := True),
                       valid_in := (valid_in d)(w := True), write_sel_way := (write_sel_way d)(w := 1)\<rparr>
                else d
         | Miss_dirty \<Rightarrow>
             let w = replace_which_way
             in d\<lparr>pmem_write := True, new_address_sel := True, cacheline_sel := w,
                  Dirty_in := (Dirty_in d)(w := False), Dirty_load := (Dirty_load d)(w := True)\<rparr>)"

definition cache_next_state :: "cache_state \<Rightarrow> bool \<Rightarrow> bool \<Rightarrow> bool \<Rightarrow> bool \<Rightarrow> bool \<Rightarrow> cache_state" where
  "cache_next_state st rd wr hit dirty mem_resp_cache =
     (case st of
        Hit \<Rightarrow> if rd \<or> wr
               then (if hit then Hit else if \<not> dirty then Miss_clean else Miss_dirty)
               else Hit
      | Miss_dirty \<Rightarrow> if \<not> mem_resp_cache then Miss_dirty else Miss_clean
      | Miss_clean \<Rightarrow> if \<not> mem_resp_cache then Miss_clean else Hit)"

section \<open>Datapath\<close>

record cache = "way line_sets" +
  cache_state :: cache_state
  plru :: "set_index \<Rightarrow> 3 word"

record cache_in =
  mem_address :: u32
  mem_wdata :: u32
  mem_read :: bool
  mem_write :: bool
  mem_byte_enable :: "4 word"
  pmem_rdata :: line
  pmem_resp :: bool

definition write_en :: "cntrl \<Rightarrow> cache_in \<Rightarrow> way \<Rightarrow> u32" where
  "write_en ctl i w =
     (if write_sel_way ctl w = 2 then adapt_enable (mem_address i) (mem_byte_enable i)
      else if write_sel_way ctl w = 1 then - 1 else 0)"

definition data_in :: "cntrl \<Rightarrow> cache_in \<Rightarrow> way \<Rightarrow> line" where
  "data_in ctl i w = (if write_read_sel ctl w then adapt_wdata (mem_wdata i) else pmem_rdata i)"

definition array_outputs :: "cache \<Rightarrow> cache_in \<Rightarrow> cntrl \<Rightarrow> array_outs" where
  "array_outputs c i ctl =
     (let x = addr_index (mem_address i) in
      \<lparr> Dirty_out = (\<lambda>w. array_read (Dirty_load ctl w) (Dirty_in ctl w) (dirty_bits c w x)),
        valid_out = (\<lambda>w. array_read (valid_load ctl w) (valid_in ctl w) (valid_bits c w x)),
        tag_array_out = (\<lambda>w. array_read (tag_array_load ctl w) (addr_tag (mem_address i)) (tags c w x)),
        LRU_out = array_read (LRU_load ctl) (LRU_in ctl) (plru c x),
        cache_line_data_out = (\<lambda>w. merge_bytes (write_en ctl i w) (data_in ctl i w) (data_lines c w x)) \<rparr>)"

definition hits :: "cache_in \<Rightarrow> array_outs \<Rightarrow> way \<Rightarrow> bool" where
  "hits i ao w = (addr_tag (mem_address i) = tag_array_out ao w \<and> valid_out ao w)"

definition new_address :: "cache_in \<Rightarrow> cntrl \<Rightarrow> array_outs \<Rightarrow> u32" where
  "new_address i ctl ao =
     (if new_address_sel ctl
      then word_cat (tag_array_out ao (which_tag ctl)) (word_cat (addr_index (mem_address i)) (0 :: 5 word) :: 8 word)
      else word_cat (ucast (drop_bit 5 (mem_address i)) :: 27 word) (0 :: 5 word))"

definition cacheline_out :: "cntrl \<Rightarrow> array_outs \<Rightarrow> line" where
  "cacheline_out ctl ao = cache_line_data_out ao (cacheline_sel ctl)"

section \<open>A cycle\<close>

text \<open>Controller and arrays agree.\<close>

definition settles :: "cache \<Rightarrow> cache_in \<Rightarrow> cntrl \<Rightarrow> bool" where
  "settles c i ctl \<longleftrightarrow>
     cntrl_comb ctl (cache_state c) (mem_read i) (mem_write i) (hits i (array_outputs c i ctl)) (array_outputs c i ctl) = ctl"

definition cache_clock :: "bool \<Rightarrow> cache \<Rightarrow> cache_in \<Rightarrow> cntrl \<Rightarrow> cache" where
  "cache_clock rst c i ctl =
     (let x = addr_index (mem_address i); ao = array_outputs c i ctl in
      \<lparr> dirty_bits = (if rst then (\<lambda>_ _. False) else (\<lambda>w. array_write (Dirty_load ctl w) x (Dirty_in ctl w) (dirty_bits c w))),
        valid_bits = (if rst then (\<lambda>_ _. False) else (\<lambda>w. array_write (valid_load ctl w) x (valid_in ctl w) (valid_bits c w))),
        tags = (if rst then (\<lambda>_ _. 0) else (\<lambda>w. array_write (tag_array_load ctl w) x (addr_tag (mem_address i)) (tags c w))),
        data_lines = (\<lambda>w. (data_lines c w)(x := merge_bytes (write_en ctl i w) (data_in ctl i w) (data_lines c w x))),
        cache_state = (if rst then Hit else
          cache_next_state (cache_state c) (mem_read i) (mem_write i) (hit_check (hits i ao))
            (which_dirty (which_replace (LRU_out ao)) (Dirty_out ao)) (pmem_resp i)),
        plru = (if rst then (\<lambda>_. 0) else array_write (LRU_load ctl) x (LRU_in ctl) (plru c)) \<rparr>)"

definition cache_rdata :: "cache \<Rightarrow> cache_in \<Rightarrow> cntrl \<Rightarrow> u32" where
  "cache_rdata c i ctl = adapt_rdata (mem_address i) (cacheline_out ctl (array_outputs c i ctl))"

definition cache_port :: "cache \<Rightarrow> cache_in \<Rightarrow> cntrl \<Rightarrow> port_in" where
  "cache_port c i ctl =
     \<lparr> p_read = pmem_read ctl, p_write = pmem_write ctl, p_address = new_address i ctl (array_outputs c i ctl),
       p_wdata = cacheline_out ctl (array_outputs c i ctl) \<rparr>"

end
