(* ===== verification/Cache_Lines.thy ===== *)
theory Cache_Lines
  imports Cache_4way
begin

text \<open>
  Bytes of a cache line: what the byte-enabled write of the data array and the bus adapter do,
  byte by byte, and lines numbered by tag and set.
\<close>

section \<open>Bytes of a line\<close>

lemma bit_line_byte: "bit (line_byte i v) k \<longleftrightarrow> k < 8 \<and> bit v (8 * i + k)"
  by (auto simp: line_byte_def bit_ucast_iff bit_drop_bit_eq dest: bit_imp_le_length)

lemma bit_put_byte:
  "bit (put_byte i b v) k \<longleftrightarrow> k < 256 \<and> (if 8 * i \<le> k \<and> k < 8 * i + 8 then bit b (k - 8 * i) else bit v k)"
  by (auto simp: put_byte_def bit_or_iff bit_and_iff bit_not_iff bit_push_bit_iff bit_ucast_iff bit_mask_iff
      dest: bit_imp_le_length)

lemma line_put_byte: "i < 32 \<Longrightarrow> line_byte j (put_byte i b v) = (if i = j then b else line_byte j v)"
  by (rule bit_word_eqI) (auto simp: bit_line_byte bit_put_byte dest: bit_imp_le_length)

lemma line_eq_bytes: "(\<And>j. j < 32 \<Longrightarrow> line_byte j v = line_byte j w) \<Longrightarrow> v = w"
proof (rule bit_word_eqI)
  fix k assume *: "\<And>j. j < 32 \<Longrightarrow> line_byte j v = line_byte j w" and "k < LENGTH(256)"
  then have "bit (line_byte (k div 8) v) (k mod 8) = bit (line_byte (k div 8) w) (k mod 8)"
    by (simp add: less_mult_imp_div_less)
  then show "bit v k = bit w k" by (simp add: bit_line_byte)
qed

lemma merge_loop_byte:
  "n \<le> 32 \<Longrightarrow> line_byte j (merge_loop n en new old) = (if j < n \<and> bit en j then line_byte j new else line_byte j old)"
  by (induction n) (auto simp: Let_def line_put_byte less_Suc_eq)

lemma merge_byte: "j < 32 \<Longrightarrow> line_byte j (merge_bytes en new old) = (if bit en j then line_byte j new else line_byte j old)"
  by (simp add: merge_bytes_def merge_loop_byte)

lemma merge_none [simp]: "merge_bytes 0 new old = old"
  by (rule line_eq_bytes) (simp add: merge_byte)

lemma merge_all [simp]: "merge_bytes (- 1) new old = new"
  by (rule line_eq_bytes) (simp add: merge_byte)

section \<open>The bus adapter\<close>

lemma addr_word_less: "addr_word a < 8"
  using unsigned_less [of "ucast (drop_bit 2 a) :: 3 word"] by (simp add: addr_word_def)

lemma bit_repeat_word: "n \<le> 8 \<Longrightarrow> bit (repeat_word n w) k \<longleftrightarrow> k < 32 * n \<and> bit w (k mod 32)"
proof (induction n arbitrary: k)
  case (Suc n)
  have w: "bit w k \<longleftrightarrow> k < 32 \<and> bit w k" using bit_imp_le_length [of w k] by auto
  show ?case
  proof (cases "k < 32")
    case True
    then show ?thesis by (simp add: bit_or_iff bit_push_bit_iff bit_ucast_iff)
  next
    case False
    then have "bit (repeat_word (Suc n) w) k \<longleftrightarrow> k < 256 \<and> bit (repeat_word n w) (k - 32)"
      using w by (simp add: bit_or_iff bit_push_bit_iff bit_ucast_iff)
    also have "\<dots> \<longleftrightarrow> k < 256 \<and> k - 32 < 32 * n \<and> bit w ((k - 32) mod 32)" using Suc by simp
    also have "\<dots> \<longleftrightarrow> k < 32 * Suc n \<and> bit w (k mod 32)" using False Suc.prems by (auto simp: le_mod_geq)
    finally show ?thesis .
  qed
qed simp

lemma adapt_wdata_byte: "j < 32 \<Longrightarrow> line_byte j (adapt_wdata w) = ucast (drop_bit (8 * (j mod 4)) w)"
proof (rule bit_word_eqI)
  fix k assume "j < 32" and "k < LENGTH(8)"
  moreover have "(8 * j + k) mod 32 = 8 * (j mod 4) + k" if "k < 8"
  proof -
    have "8 * j + k = 8 * (j mod 4) + k + 32 * (j div 4)" using div_mult_mod_eq [of j 4] by presburger
    moreover have "8 * (j mod 4) + k < 32" using that mod_less_divisor [of 4 j] by linarith
    ultimately show ?thesis by (metis mod_less mod_mult_self2)
  qed
  ultimately show "bit (line_byte j (adapt_wdata w)) k = bit (ucast (drop_bit (8 * (j mod 4)) w) :: u8) k"
    by (simp add: bit_line_byte adapt_wdata_def bit_repeat_word bit_ucast_iff bit_drop_bit_eq)
qed

lemma bit_adapt_enable:
  assumes "j < 32"
  shows "bit (adapt_enable a be) j \<longleftrightarrow> j div 4 = addr_word a \<and> bit be (j mod 4)"
proof (cases "j div 4 = addr_word a")
  case True
  then have "addr_word a * 4 \<le> j" "j - addr_word a * 4 = j mod 4" by (simp_all add: minus_div_mult_eq_mod flip: True)
  with True assms show ?thesis by (auto simp: adapt_enable_def bit_push_bit_iff bit_ucast_iff)
next
  case False
  then have "\<not> (addr_word a * 4 \<le> j \<and> j - addr_word a * 4 < 4)" by auto
  with False show ?thesis by (auto simp: adapt_enable_def bit_push_bit_iff bit_ucast_iff dest: bit_imp_le_length)
qed

lemma adapt_rdata_byte:
  assumes "k < 4"
  shows "(ucast (drop_bit (8 * k) (adapt_rdata a v)) :: u8) = line_byte (4 * addr_word a + k) v"
  by (rule bit_word_eqI) (use assms in \<open>auto simp: adapt_rdata_def bit_ucast_iff bit_drop_bit_eq bit_line_byte algebra_simps\<close>)

end
