(* ===== verification/Cache_Cycles.thy ===== *)
theory Cache_Cycles
  imports Cache_Lines
begin

text \<open>
  What one settled cycle of the cache does, state by state, and that a cycle always settles:
  the equations of the combinational cycle between controller and arrays are solved once, here.
\<close>

section \<open>Ways\<close>

lemma way_cases: "(w :: way) = 0 \<or> w = 1 \<or> w = 2 \<or> w = 3"
proof -
  have "unat w < 4" using unsigned_less [of w] by simp
  then have "unat w \<in> {0, 1, 2, 3}" by auto
  then show ?thesis by (auto simp: word_unat_eq_iff)
qed

lemma hit_check_iff: "hit_check h \<longleftrightarrow> (\<exists>w. h w)"
  unfolding hit_check_def using way_cases by metis

lemma hit_way_hits: "hit_check h \<Longrightarrow> h (hit_way h)"
  by (auto simp: hit_check_def hit_way_def)

section \<open>The signals of a settled cycle\<close>

abbreviation accessed :: "cache_in \<Rightarrow> bool" where
  "accessed i \<equiv> mem_read i \<or> mem_write i"

abbreviation victim :: "cache \<Rightarrow> u32 \<Rightarrow> way" where
  "victim c a \<equiv> which_replace (plru c (addr_index a))"

text \<open>The controller, field by field.\<close>

abbreviation comb_hit :: "cache_state \<Rightarrow> bool \<Rightarrow> bool \<Rightarrow> (way \<Rightarrow> bool) \<Rightarrow> bool" where
  "comb_hit st rd wr h \<equiv> st = Hit \<and> (rd \<or> wr) \<and> hit_check h"

lemma comb_fields:
  fixes held st rd wr h ao
  defines "v \<equiv> which_replace (LRU_out ao)" and "ctl \<equiv> cntrl_comb held st rd wr h ao"
  shows "which_tag ctl = v" "new_address_sel ctl \<longleftrightarrow> st = Miss_dirty"
    "tag_array_load ctl = (\<lambda>w. st = Miss_clean \<and> (rd \<or> wr) \<and> w = v)"
    "valid_load ctl = (\<lambda>w. st = Miss_clean \<and> (rd \<or> wr) \<and> w = v)"
    "valid_in ctl = (\<lambda>w. st = Miss_clean \<and> (rd \<or> wr) \<and> w = v)"
    "LRU_load ctl \<longleftrightarrow> comb_hit st rd wr h" "LRU_in ctl = (if comb_hit st rd wr h then load_PLRU h (LRU_out ao) else 0)"
    "Dirty_load ctl = (\<lambda>w. if st = Miss_dirty then w = v else comb_hit st rd wr h \<and> \<not> rd \<and> w = hit_way h)"
    "Dirty_load ctl w \<Longrightarrow> Dirty_in ctl w \<longleftrightarrow> st = Hit"
    "write_sel_way ctl = (\<lambda>w. if st = Miss_clean \<and> (rd \<or> wr) \<and> w = v then 1
       else if comb_hit st rd wr h \<and> \<not> rd \<and> w = hit_way h then 2 else 0)"
    "write_read_sel ctl = (\<lambda>w. comb_hit st rd wr h \<and> \<not> rd \<and> w = hit_way h)"
    "cacheline_sel ctl = (if comb_hit st rd wr h then hit_way h
       else if st = Miss_dirty \<or> st = Miss_clean \<and> (rd \<or> wr) then v else 0)"
    "pmem_read ctl \<longleftrightarrow> st = Miss_clean" "pmem_write ctl \<longleftrightarrow> st = Miss_dirty" "done_out ctl \<longleftrightarrow> comb_hit st rd wr h"
  unfolding ctl_def v_def cntrl_comb_def cntrl_defaults_def Let_def
  by (cases st; auto simp: fun_eq_iff split: if_splits)+

lemma settles_fields:
  fixes c i ctl
  defines "ao \<equiv> array_outputs c i ctl"
  defines "v \<equiv> which_replace (LRU_out ao)" and "hit \<equiv> comb_hit (cache_state c) (mem_read i) (mem_write i) (hits i ao)"
  assumes "settles c i ctl"
  shows "which_tag ctl = v" "new_address_sel ctl \<longleftrightarrow> cache_state c = Miss_dirty"
    "tag_array_load ctl = (\<lambda>w. cache_state c = Miss_clean \<and> accessed i \<and> w = v)"
    "valid_load ctl = (\<lambda>w. cache_state c = Miss_clean \<and> accessed i \<and> w = v)"
    "valid_in ctl = (\<lambda>w. cache_state c = Miss_clean \<and> accessed i \<and> w = v)"
    "LRU_load ctl \<longleftrightarrow> hit"
    "Dirty_load ctl = (\<lambda>w. if cache_state c = Miss_dirty then w = v else hit \<and> \<not> mem_read i \<and> w = hit_way (hits i ao))"
    "Dirty_load ctl w \<Longrightarrow> Dirty_in ctl w \<longleftrightarrow> cache_state c = Hit"
    "write_sel_way ctl = (\<lambda>w. if cache_state c = Miss_clean \<and> accessed i \<and> w = v then 1
       else if hit \<and> \<not> mem_read i \<and> w = hit_way (hits i ao) then 2 else 0)"
    "write_read_sel ctl = (\<lambda>w. hit \<and> \<not> mem_read i \<and> w = hit_way (hits i ao))"
    "cacheline_sel ctl = (if hit then hit_way (hits i ao)
       else if cache_state c = Miss_dirty \<or> cache_state c = Miss_clean \<and> accessed i then v else 0)"
    "pmem_read ctl \<longleftrightarrow> cache_state c = Miss_clean" "pmem_write ctl \<longleftrightarrow> cache_state c = Miss_dirty" "done_out ctl \<longleftrightarrow> hit"
proof -
  have e: "cntrl_comb ctl (cache_state c) (mem_read i) (mem_write i) (hits i ao) ao = ctl"
    using assms(4) by (simp add: settles_def ao_def)
  note f = comb_fields [of ctl "cache_state c" "mem_read i" "mem_write i" "hits i ao" ao, unfolded e, folded v_def hit_def]
  show "which_tag ctl = v" "new_address_sel ctl \<longleftrightarrow> cache_state c = Miss_dirty"
    "tag_array_load ctl = (\<lambda>w. cache_state c = Miss_clean \<and> accessed i \<and> w = v)"
    "valid_load ctl = (\<lambda>w. cache_state c = Miss_clean \<and> accessed i \<and> w = v)"
    "valid_in ctl = (\<lambda>w. cache_state c = Miss_clean \<and> accessed i \<and> w = v)"
    "LRU_load ctl \<longleftrightarrow> hit"
    "Dirty_load ctl = (\<lambda>w. if cache_state c = Miss_dirty then w = v else hit \<and> \<not> mem_read i \<and> w = hit_way (hits i ao))"
    "Dirty_load ctl w \<Longrightarrow> Dirty_in ctl w \<longleftrightarrow> cache_state c = Hit"
    "write_sel_way ctl = (\<lambda>w. if cache_state c = Miss_clean \<and> accessed i \<and> w = v then 1
       else if hit \<and> \<not> mem_read i \<and> w = hit_way (hits i ao) then 2 else 0)"
    "write_read_sel ctl = (\<lambda>w. hit \<and> \<not> mem_read i \<and> w = hit_way (hits i ao))"
    "cacheline_sel ctl = (if hit then hit_way (hits i ao)
       else if cache_state c = Miss_dirty \<or> cache_state c = Miss_clean \<and> accessed i then v else 0)"
    "pmem_read ctl \<longleftrightarrow> cache_state c = Miss_clean" "pmem_write ctl \<longleftrightarrow> cache_state c = Miss_dirty" "done_out ctl \<longleftrightarrow> hit"
    by (fact f)+
qed

text \<open>Hits are those of the stored tags, and the victim is that of the stored replacement bits.\<close>

lemma array_outputs_simps [simp]:
  "Dirty_out (array_outputs c i ctl) w = array_read (Dirty_load ctl w) (Dirty_in ctl w) (dirty_bits c w (addr_index (mem_address i)))"
  "valid_out (array_outputs c i ctl) w = array_read (valid_load ctl w) (valid_in ctl w) (valid_bits c w (addr_index (mem_address i)))"
  "tag_array_out (array_outputs c i ctl) w = array_read (tag_array_load ctl w) (addr_tag (mem_address i)) (tags c w (addr_index (mem_address i)))"
  "cache_line_data_out (array_outputs c i ctl) w =
     merge_bytes (write_en ctl i w) (data_in ctl i w) (data_lines c w (addr_index (mem_address i)))"
  by (simp_all add: array_outputs_def Let_def)

lemma LRU_out_read: "LRU_out (array_outputs c i ctl) = array_read (LRU_load ctl) (LRU_in ctl) (plru c (addr_index (mem_address i)))"
  by (simp add: array_outputs_def Let_def)

lemma array_simps [simp]:
  "array_read False d s = s" "array_read True d s = d" "array_write False x d f = f" "array_write True x d f = f(x := d)"
  by (simp_all add: array_read_def array_write_def)

lemma hits_stored:
  assumes "settles c i ctl" and "cache_state c \<noteq> Miss_clean"
  shows "hits i (array_outputs c i ctl) = present c (mem_address i)"
proof -
  have "tag_array_load ctl = (\<lambda>_. False)" "valid_load ctl = (\<lambda>_. False)"
    using settles_fields(3,4) [OF assms(1)] assms(2) by simp_all
  then show ?thesis by (auto simp: fun_eq_iff hits_def present_def)
qed

lemma LRU_stored:
  assumes "settles c i ctl" and "\<not> comb_hit (cache_state c) (mem_read i) (mem_write i) (present c (mem_address i))"
  shows "LRU_out (array_outputs c i ctl) = plru c (addr_index (mem_address i))"
proof -
  have "\<not> LRU_load ctl"
    using settles_fields(6) [OF assms(1)] hits_stored [OF assms(1)] assms(2) by (cases "cache_state c") auto
  then show ?thesis by (simp add: LRU_out_read)
qed

section \<open>The cycles\<close>

lemma cycle_idle:
  assumes "settles c i ctl" and "cache_state c = Hit" and "\<not> accessed i"
  shows "\<not> done_out ctl" "quiet (cache_port c i ctl)" "cache_clock False c i ctl = c"
proof -
  note f = settles_fields [OF assms(1)]
  show "\<not> done_out ctl" "quiet (cache_port c i ctl)" using f assms by (simp_all add: quiet_def cache_port_def)
  show "cache_clock False c i ctl = c"
    using f(3,4,6,7,9) assms by (simp add: cache_clock_def cache_next_state_def write_en_def Let_def)
qed

lemma cycle_miss:
  assumes "settles c i ctl" and "cache_state c = Hit" and "accessed i" and "\<not> hit_check (present c (mem_address i))"
  shows "\<not> done_out ctl" "quiet (cache_port c i ctl)"
    "cache_clock False c i ctl =
       c\<lparr>cache_state := (if dirty_bits c (victim c (mem_address i)) (addr_index (mem_address i)) then Miss_dirty else Miss_clean)\<rparr>"
proof -
  note f = settles_fields [OF assms(1)] and h = hits_stored [OF assms(1)]
  have h: "hits i (array_outputs c i ctl) = present c (mem_address i)" using hits_stored [OF assms(1)] assms(2) by simp
  have l: "LRU_out (array_outputs c i ctl) = plru c (addr_index (mem_address i))" using LRU_stored [OF assms(1)] assms(4) by simp
  show "\<not> done_out ctl" "quiet (cache_port c i ctl)" using f h assms by (simp_all add: quiet_def cache_port_def)
  show "cache_clock False c i ctl =
       c\<lparr>cache_state := (if dirty_bits c (victim c (mem_address i)) (addr_index (mem_address i)) then Miss_dirty else Miss_clean)\<rparr>"
    using f(3,4,6,7,9) h l assms by (auto simp: cache_clock_def cache_next_state_def write_en_def which_dirty_def Let_def)
qed

lemma cycle_hit_load:
  assumes "settles c i ctl" and "cache_state c = Hit" and "mem_read i" and "hit_check (present c (mem_address i))"
  shows "done_out ctl" "quiet (cache_port c i ctl)" "\<exists>p. cache_clock False c i ctl = c\<lparr>plru := p\<rparr>"
    "cache_rdata c i ctl =
       adapt_rdata (mem_address i) (data_lines c (hit_way (present c (mem_address i))) (addr_index (mem_address i)))"
proof -
  note f = settles_fields [OF assms(1)]
  have h: "hits i (array_outputs c i ctl) = present c (mem_address i)" using hits_stored [OF assms(1)] assms(2) by simp
  show "done_out ctl" "quiet (cache_port c i ctl)" using f h assms by (simp_all add: quiet_def cache_port_def)
  have "cache_clock False c i ctl = c\<lparr>plru := (plru c)(addr_index (mem_address i) := LRU_in ctl)\<rparr>"
    using f(3,4,6,7,9) h assms by (simp add: cache_clock_def cache_next_state_def write_en_def Let_def)
  then show "\<exists>p. cache_clock False c i ctl = c\<lparr>plru := p\<rparr>" by blast
  show "cache_rdata c i ctl =
       adapt_rdata (mem_address i) (data_lines c (hit_way (present c (mem_address i))) (addr_index (mem_address i)))"
    using f(9,11) h assms by (simp add: cache_rdata_def cacheline_out_def write_en_def)
qed

lemma array_write_entry:
  assumes "\<And>w. load w \<longleftrightarrow> w = v" and "d v = u"
  shows "(\<lambda>w. array_write (load w) x (d w) (f w)) = set_entry v x u f"
  using assms by (auto simp: fun_eq_iff array_write_def)

lemma data_write_entry:
  assumes "\<And>w. w \<noteq> v \<Longrightarrow> en w = 0"
  shows "(\<lambda>w. (f w)(x := merge_bytes (en w) (d w) (f w x))) = set_entry v x (merge_bytes (en v) (d v) (f v x)) f"
  using assms by (auto simp: fun_eq_iff)

lemma cycle_hit_store:
  fixes c i
  defines "a \<equiv> mem_address i"
  defines "w \<equiv> hit_way (present c a)" and "x \<equiv> addr_index a"
  assumes "settles c i ctl" and "cache_state c = Hit" and "mem_write i" and "\<not> mem_read i" and "hit_check (present c a)"
  shows "done_out ctl" "quiet (cache_port c i ctl)"
    "\<exists>p. cache_clock False c i ctl = c\<lparr>plru := p, dirty_bits := set_entry w x True (dirty_bits c),
       data_lines := set_entry w x (merge_bytes (adapt_enable a (mem_byte_enable i)) (adapt_wdata (mem_wdata i)) (data_lines c w x))
         (data_lines c)\<rparr>"
proof -
  note f = settles_fields [OF assms(4)]
  have h: "hits i (array_outputs c i ctl) = present c a" using hits_stored [OF assms(4)] assms(5) by (simp add: a_def)
  show "done_out ctl" "quiet (cache_port c i ctl)" using f h assms by (simp_all add: quiet_def cache_port_def)
  have dl: "Dirty_load ctl w' \<longleftrightarrow> w' = w" for w' using f(7) h assms by (auto simp: w_def)
  then have "Dirty_in ctl w" using f(8) assms(5) by simp
  with dl have d: "(\<lambda>w. array_write (Dirty_load ctl w) x (Dirty_in ctl w) (dirty_bits c w)) = set_entry w x True (dirty_bits c)"
    by (intro array_write_entry) simp_all
  have e: "write_en ctl i w' = (if w' = w then adapt_enable a (mem_byte_enable i) else 0)" for w'
    using f(9) h assms by (auto simp: write_en_def w_def a_def)
  have wd: "data_in ctl i w = adapt_wdata (mem_wdata i)" using f(10) h assms by (simp add: data_in_def w_def)
  have m: "(\<lambda>w. (data_lines c w)(x := merge_bytes (write_en ctl i w) (data_in ctl i w) (data_lines c w x))) =
      set_entry w x (merge_bytes (adapt_enable a (mem_byte_enable i)) (adapt_wdata (mem_wdata i)) (data_lines c w x)) (data_lines c)"
    by (subst data_write_entry [of w]) (simp_all add: e wd)
  have "cache_clock False c i ctl = c\<lparr>plru := (plru c)(x := LRU_in ctl), dirty_bits := set_entry w x True (dirty_bits c),
       data_lines := set_entry w x (merge_bytes (adapt_enable a (mem_byte_enable i)) (adapt_wdata (mem_wdata i)) (data_lines c w x))
         (data_lines c)\<rparr>"
    using f(3,4,6) h assms d m by (simp add: cache_clock_def cache_next_state_def Let_def)
  then show "\<exists>p. cache_clock False c i ctl = c\<lparr>plru := p, dirty_bits := set_entry w x True (dirty_bits c),
       data_lines := set_entry w x (merge_bytes (adapt_enable a (mem_byte_enable i)) (adapt_wdata (mem_wdata i)) (data_lines c w x))
         (data_lines c)\<rparr>" by blast
qed

lemma cycle_writing:
  fixes c i
  defines "a \<equiv> mem_address i"
  defines "v \<equiv> victim c a" and "x \<equiv> addr_index a"
  assumes "settles c i ctl" and "cache_state c = Miss_dirty"
  shows "\<not> done_out ctl"
    "p_write (cache_port c i ctl)" "\<not> p_read (cache_port c i ctl)"
    "p_address (cache_port c i ctl) = word_cat (tags c v x) (word_cat x (0 :: 5 word) :: 8 word)"
    "p_wdata (cache_port c i ctl) = data_lines c v x"
    "cache_clock False c i ctl =
       c\<lparr>cache_state := (if pmem_resp i then Miss_clean else Miss_dirty), dirty_bits := set_entry v x False (dirty_bits c)\<rparr>"
proof -
  note f = settles_fields [OF assms(4)]
  have l: "LRU_out (array_outputs c i ctl) = plru c (addr_index (mem_address i))" using LRU_stored [OF assms(4)] assms(5) by simp
  have dl: "Dirty_load ctl w' \<longleftrightarrow> w' = v" for w' using f(7) l assms by simp
  then have "\<not> Dirty_in ctl v" using f(8) assms(5) by auto
  with dl have d: "(\<lambda>w. array_write (Dirty_load ctl w) x (Dirty_in ctl w) (dirty_bits c w)) = set_entry v x False (dirty_bits c)"
    by (intro array_write_entry) simp_all
  have n: "\<not> tag_array_load ctl w" "write_sel_way ctl w = 0" for w using f(3,9) assms(5) by simp_all
  show "\<not> done_out ctl" "p_write (cache_port c i ctl)" "\<not> p_read (cache_port c i ctl)"
    using f assms(5) by (simp_all add: cache_port_def)
  show "p_address (cache_port c i ctl) = word_cat (tags c v x) (word_cat x (0 :: 5 word) :: 8 word)"
    "p_wdata (cache_port c i ctl) = data_lines c v x"
    using f(1,2,11) n l assms(5) by (simp_all add: cache_port_def new_address_def cacheline_out_def write_en_def v_def x_def a_def)
  show "cache_clock False c i ctl =
       c\<lparr>cache_state := (if pmem_resp i then Miss_clean else Miss_dirty), dirty_bits := set_entry v x False (dirty_bits c)\<rparr>"
    using f(3,4,6) n d assms(5) by (simp add: cache_clock_def cache_next_state_def write_en_def Let_def x_def a_def)
qed

lemma cycle_refill:
  fixes c i
  defines "a \<equiv> mem_address i"
  defines "v \<equiv> victim c a" and "x \<equiv> addr_index a"
  assumes "settles c i ctl" and "cache_state c = Miss_clean" and "accessed i"
  shows "\<not> done_out ctl"
    "p_read (cache_port c i ctl)" "\<not> p_write (cache_port c i ctl)"
    "p_address (cache_port c i ctl) = word_cat (ucast (drop_bit 5 a) :: 27 word) (0 :: 5 word)"
    "cache_clock False c i ctl =
       c\<lparr>cache_state := (if pmem_resp i then Hit else Miss_clean), valid_bits := set_entry v x True (valid_bits c),
         tags := set_entry v x (addr_tag a) (tags c), data_lines := set_entry v x (pmem_rdata i) (data_lines c)\<rparr>"
proof -
  note f = settles_fields [OF assms(4)]
  have l: "LRU_out (array_outputs c i ctl) = plru c (addr_index (mem_address i))" using LRU_stored [OF assms(4)] assms(5) by simp
  have v: "which_replace (LRU_out (array_outputs c i ctl)) = v" by (simp add: l v_def a_def)
  have t: "(\<lambda>w. array_write (tag_array_load ctl w) x (addr_tag a) (tags c w)) = set_entry v x (addr_tag a) (tags c)"
    by (rule array_write_entry) (use f(3) v assms(5,6) in simp_all)
  have b: "(\<lambda>w. array_write (valid_load ctl w) x (valid_in ctl w) (valid_bits c w)) = set_entry v x True (valid_bits c)"
    by (rule array_write_entry) (use f(4,5) v assms(5,6) in simp_all)
  have e: "write_en ctl i w' = (if w' = v then - 1 else 0)" for w'
    using f(9) v assms(5,6) by (simp add: write_en_def)
  have wd: "data_in ctl i v = pmem_rdata i" using f(10) assms(5) by (simp add: data_in_def)
  have m: "(\<lambda>w. (data_lines c w)(x := merge_bytes (write_en ctl i w) (data_in ctl i w) (data_lines c w x))) =
      set_entry v x (pmem_rdata i) (data_lines c)"
    by (subst data_write_entry [of v]) (simp_all add: e wd)
  show "\<not> done_out ctl" "p_read (cache_port c i ctl)" "\<not> p_write (cache_port c i ctl)"
    using f assms(5) by (simp_all add: cache_port_def)
  show "p_address (cache_port c i ctl) = word_cat (ucast (drop_bit 5 a) :: 27 word) (0 :: 5 word)"
    using f(2) assms(5) by (simp add: cache_port_def new_address_def a_def)
  have "Dirty_load ctl = (\<lambda>_. False)" using f(7) assms(5) by simp
  then show "cache_clock False c i ctl =
       c\<lparr>cache_state := (if pmem_resp i then Hit else Miss_clean), valid_bits := set_entry v x True (valid_bits c),
         tags := set_entry v x (addr_tag a) (tags c), data_lines := set_entry v x (pmem_rdata i) (data_lines c)\<rparr>"
    using f(6) t b m assms(5) by (simp add: cache_clock_def cache_next_state_def Let_def x_def a_def)
qed

section \<open>A cycle settles\<close>

lemma load_PLRU_idem: "load_PLRU h (load_PLRU h l) = load_PLRU h l"
  by (rule bit_word_eqI) (auto simp add: load_PLRU_def Let_def bit_simps)

text \<open>The controller depends on the replacement bits, and on the hits in the hit state only.\<close>

lemma comb_cong:
  assumes "LRU_out ao = LRU_out ao'" and "st = Hit \<Longrightarrow> h = h'"
  shows "cntrl_comb (cntrl_comb held st rd wr h ao) st rd wr h' ao' = cntrl_comb held st rd wr h ao"
  using assms by (cases st) (simp_all add: cntrl_comb_def cntrl_defaults_def Let_def)

definition idle_cntrl :: cntrl where
  "idle_cntrl = cntrl_defaults undefined 0\<lparr>Dirty_in := (\<lambda>_. False)\<rparr>"

text \<open>Any replacement bits the controller maps to themselves can be what a hit settles to.\<close>

definition settled_cntrl :: "cache \<Rightarrow> cache_in \<Rightarrow> 3 word \<Rightarrow> cntrl" where
  "settled_cntrl c i lru =
     cntrl_comb idle_cntrl (cache_state c) (mem_read i) (mem_write i) (present c (mem_address i))
       (array_outputs c i idle_cntrl\<lparr>LRU_out := lru\<rparr>)"

lemma settled_cntrl:
  assumes "if comb_hit (cache_state c) (mem_read i) (mem_write i) (present c (mem_address i))
    then load_PLRU (present c (mem_address i)) lru = lru else lru = plru c (addr_index (mem_address i))"
  shows "settles c i (settled_cntrl c i lru)"
proof -
  let ?ctl = "settled_cntrl c i lru" and ?h = "present c (mem_address i)"
  note f = comb_fields [of idle_cntrl "cache_state c" "mem_read i" "mem_write i" ?h
      "array_outputs c i idle_cntrl\<lparr>LRU_out := lru\<rparr>", folded settled_cntrl_def]
  have l: "LRU_out (array_outputs c i ?ctl) = lru" using assms f(6,7) by (auto simp: LRU_out_read split: if_splits)
  have "hits i (array_outputs c i ?ctl) = ?h" if "cache_state c = Hit"
    using f(3,4) that by (auto simp: fun_eq_iff hits_def present_def)
  with l show ?thesis unfolding settles_def settled_cntrl_def
    by (intro comb_cong) (simp_all add: settled_cntrl_def)
qed

lemma cycle_settles: "\<exists>ctl. settles c i ctl"
proof -
  let ?l = "plru c (addr_index (mem_address i))" and ?h = "present c (mem_address i)"
  have "settles c i (settled_cntrl c i (if comb_hit (cache_state c) (mem_read i) (mem_write i) ?h then load_PLRU ?h ?l else ?l))"
    by (rule settled_cntrl) (auto simp: load_PLRU_idem)
  then show ?thesis by blast
qed

end
