(* ===== verification/Cache_Replacement.thy ===== *)
theory Cache_Replacement
  imports Cache_Cycles
begin

text \<open>
  The replacement bits of the four-way cache: the way that was used last is not the next one to be
  replaced, and what the bits do not say.
\<close>

section \<open>The way just used\<close>

lemma load_PLRU_way:
  "load_PLRU (\<lambda>v. v = 0) l = unset_bit 0 (unset_bit 1 l)" "load_PLRU (\<lambda>v. v = 1) l = Bit_Operations.set_bit 0 (unset_bit 1 l)"
  "load_PLRU (\<lambda>v. v = 2) l = unset_bit 2 (Bit_Operations.set_bit 1 l)"
  "load_PLRU (\<lambda>v. v = 3) l = Bit_Operations.set_bit 2 (Bit_Operations.set_bit 1 l)"
  by (simp_all add: load_PLRU_def Let_def)

lemma load_PLRU_pair: "bit (load_PLRU (\<lambda>v. v = w) l) 1 \<longleftrightarrow> w = 2 \<or> w = 3"
  using way_cases [of w]
proof (elim disjE)
  show ?thesis if "w = 0" unfolding that by (simp add: load_PLRU_way bit_set_bit_iff bit_unset_bit_iff)
  show ?thesis if "w = 1" unfolding that by (simp add: load_PLRU_way bit_set_bit_iff bit_unset_bit_iff)
  show ?thesis if "w = 2" unfolding that by (simp add: load_PLRU_way bit_set_bit_iff bit_unset_bit_iff)
  show ?thesis if "w = 3" unfolding that by (simp add: load_PLRU_way bit_set_bit_iff bit_unset_bit_iff)
qed

lemma which_replace_bits:
  "which_replace l = (if bit l 1 then (if bit l 0 then 0 else 1) else (if bit l 2 then 2 else 3))"
  by (simp add: which_replace_def Let_def bit_not_iff)

lemma which_replace_used:
  assumes "load_PLRU h l = l" and "h w" and "\<And>v. h v \<Longrightarrow> v = w"
  shows "which_replace l \<noteq> w"
proof -
  have h: "h = (\<lambda>v. v = w)" using assms(2,3) by (intro ext) blast
  have "load_PLRU (\<lambda>v. v = w) l = l" using assms(1) unfolding h .
  then have pair: "bit l 1 \<longleftrightarrow> w = 2 \<or> w = 3" using load_PLRU_pair [of w l] by metis
  with way_cases [of w] show ?thesis by (elim disjE) (simp_all add: which_replace_bits)
qed

lemma load_PLRU_first:
  assumes "\<not> bit l 1" and "\<not> bit l 0"
  shows "load_PLRU (\<lambda>w. w = 0) l = l"
proof (rule bit_word_eqI)
  fix n
  show "bit (load_PLRU (\<lambda>w. w = 0) l) n = bit l n"
    using assms by (cases "n = 0"; cases "n = 1") (simp_all add: load_PLRU_way bit_unset_bit_iff)
qed

lemma hit_bits:
  assumes "settles c i ctl" and "comb_hit (cache_state c) (mem_read i) (mem_write i) (present c (mem_address i))"
  shows "plru (cache_clock False c i ctl) = (plru c)(addr_index (mem_address i) := LRU_in ctl)"
    "load_PLRU (present c (mem_address i)) (LRU_in ctl) = LRU_in ctl"
proof -
  have h: "hits i (array_outputs c i ctl) = present c (mem_address i)" using hits_stored [OF assms(1)] assms(2) by simp
  have l: "LRU_load ctl" using settles_fields(6) [OF assms(1)] h assms(2) by simp
  then show "plru (cache_clock False c i ctl) = (plru c)(addr_index (mem_address i) := LRU_in ctl)"
    by (simp add: cache_clock_def Let_def)
  have "LRU_in (cntrl_comb ctl (cache_state c) (mem_read i) (mem_write i) (hits i (array_outputs c i ctl)) (array_outputs c i ctl)) = LRU_in ctl"
    using assms(1) by (simp add: settles_def)
  then show "load_PLRU (present c (mem_address i)) (LRU_in ctl) = LRU_in ctl"
    using assms(2) l by (simp add: comb_fields(7) h LRU_out_read)
qed

text \<open>
  The cache does not replace what it has just used. In every cycle of a hit, whatever the
  controller and the arrays settle to, the replacement bits of the set come to select another way
  than the one with the addressed line, which is not in two ways, and those of the other sets
  stay as they are.
\<close>

theorem victim_not_recent:
  assumes "settles c i ctl" and "cache_state c = Hit" and "mem_read i \<or> mem_write i"
    and "present c (mem_address i) w" and "\<And>v. present c (mem_address i) v \<Longrightarrow> v = w"
    and "c' = cache_clock False c i ctl"
  shows "which_replace (plru c' (addr_index (mem_address i))) \<noteq> w
    \<and> (\<forall>x. x \<noteq> addr_index (mem_address i) \<longrightarrow> plru c' x = plru c x)"
proof -
  have "comb_hit (cache_state c) (mem_read i) (mem_write i) (present c (mem_address i))"
    using assms(2-4) by (auto simp: hit_check_iff)
  note b = hit_bits [OF assms(1) this]
  from which_replace_used [OF b(2) assms(4,5)] b(1) show ?thesis by (simp add: assms(6))
qed

text \<open>A cache with line 0 in way 0, read.\<close>

definition one_line :: cache where
  "one_line = \<lparr> dirty_bits = (\<lambda>_ _. False), valid_bits = (\<lambda>w x. w = 0 \<and> x = 0), tags = (\<lambda>_ _. 0), data_lines = (\<lambda>_ _. 0),
     cache_state = Hit, plru = (\<lambda>_. 0) \<rparr>"

definition read_zero :: cache_in where
  "read_zero = \<lparr> mem_address = 0, mem_wdata = 0, mem_read = True, mem_write = False, mem_byte_enable = 0,
     pmem_rdata = 0, pmem_resp = False \<rparr>"

lemma one_line_present: "present one_line (mem_address read_zero) w \<longleftrightarrow> w = 0"
  by (simp add: present_def one_line_def read_zero_def addr_index_def addr_tag_def)

lemma one_line_settles:
  assumes "bit l 1 = False" and "bit l 0 = False"
  shows "settles one_line read_zero (settled_cntrl one_line read_zero l)"
proof (rule settled_cntrl)
  have "load_PLRU (\<lambda>w. w = 0) l = l" using assms by (intro load_PLRU_first) simp_all
  moreover have "present one_line (mem_address read_zero) = (\<lambda>w. w = 0)" by (simp add: fun_eq_iff one_line_present)
  moreover have "cache_state one_line = Hit" "mem_read read_zero" by (simp_all add: one_line_def read_zero_def)
  ultimately show "if comb_hit (cache_state one_line) (mem_read read_zero) (mem_write read_zero) (present one_line (mem_address read_zero))
    then load_PLRU (present one_line (mem_address read_zero)) l = l else l = plru one_line (addr_index (mem_address read_zero))"
    by (simp add: hit_check_def)
qed

theorem victim_not_recent_witness:
  "which_replace (plru (cache_clock False one_line read_zero (settled_cntrl one_line read_zero 0)) (addr_index (mem_address read_zero))) \<noteq> 0"
  using victim_not_recent [OF one_line_settles [of 0] _ _ _ _ refl, of 0]
  by (simp add: one_line_present) (simp add: one_line_def read_zero_def)

section \<open>The other bit\<close>

text \<open>
  The controller computes the new replacement bits from the output of the array, which passes
  them through while they are written. So the bit of the other pair of ways drives itself: the
  equations of the cycle allow either value, whatever bit was stored.
\<close>

lemma other_bit_undetermined:
  "\<exists>ctl ctl'. settles one_line read_zero ctl \<and> settles one_line read_zero ctl'
     \<and> bit (plru (cache_clock False one_line read_zero ctl) 0) 2 \<noteq> bit (plru (cache_clock False one_line read_zero ctl') 0) 2"
proof -
  have s: "settles one_line read_zero (settled_cntrl one_line read_zero l)" "plru (cache_clock False one_line read_zero (settled_cntrl one_line read_zero l)) 0 = l"
    if "bit l 1 = False" "bit l 0 = False" for l
  proof -
    show s: "settles one_line read_zero (settled_cntrl one_line read_zero l)" by (rule one_line_settles [OF that])
    have h: "comb_hit (cache_state one_line) (mem_read read_zero) (mem_write read_zero) (present one_line (mem_address read_zero))"
      by (simp add: hit_check_iff one_line_present) (simp add: one_line_def read_zero_def)
    have "load_PLRU (\<lambda>w. w = 0) l = l" using that by (intro load_PLRU_first) simp_all
    moreover have "present one_line (mem_address read_zero) = (\<lambda>w. w = 0)" by (simp add: fun_eq_iff one_line_present)
    moreover have "addr_index (mem_address read_zero) = 0" by (simp add: read_zero_def addr_index_def)
    ultimately show "plru (cache_clock False one_line read_zero (settled_cntrl one_line read_zero l)) 0 = l"
      using h by (simp only: hit_bits(1) [OF s h]) (simp add: settled_cntrl_def comb_fields(7))
  qed
  have "bit (4 :: 3 word) 2" "\<not> bit (4 :: 3 word) 1" "\<not> bit (4 :: 3 word) 0" by simp_all
  with s [of 0] s [of 4] show ?thesis by (metis bit_0_eq bot_apply bot_bool_def)
qed

end
