(* ===== verification/Rv32i_Types.thy ===== *)
theory Rv32i_Types
  imports Prelude
begin

text \<open>
  The types of the processor: the packages \<open>pkg/rv32i_types.sv\<close> and \<open>pkg/rv32i_mux_types.sv\<close>.
  An enumeration over \<open>bit\<close> vectors is a word with named values, because the processor casts
  instruction fields into enumerations, legal value or not. The prefix of a name is its package.
\<close>

named_theorems enum_defs \<open>values of the enumerations\<close>

section \<open>Opcodes and function fields\<close>

definition op_lui :: "7 word" where "op_lui = 0x37"
definition op_auipc :: "7 word" where "op_auipc = 0x17"
definition op_jal :: "7 word" where "op_jal = 0x6f"
definition op_jalr :: "7 word" where "op_jalr = 0x67"
definition op_br :: "7 word" where "op_br = 0x63"
definition op_load :: "7 word" where "op_load = 0x03"
definition op_store :: "7 word" where "op_store = 0x23"
definition op_imm :: "7 word" where "op_imm = 0x13"
definition op_reg :: "7 word" where "op_reg = 0x33"
definition op_csr :: "7 word" where "op_csr = 0x73"

definition branch_beq :: "3 word" where "branch_beq = 0"
definition branch_bne :: "3 word" where "branch_bne = 1"
definition branch_blt :: "3 word" where "branch_blt = 4"
definition branch_bge :: "3 word" where "branch_bge = 5"
definition branch_bltu :: "3 word" where "branch_bltu = 6"
definition branch_bgeu :: "3 word" where "branch_bgeu = 7"

definition load_lb :: "3 word" where "load_lb = 0"
definition load_lh :: "3 word" where "load_lh = 1"
definition load_lw :: "3 word" where "load_lw = 2"
definition load_lbu :: "3 word" where "load_lbu = 4"
definition load_lhu :: "3 word" where "load_lhu = 5"

definition store_sb :: "3 word" where "store_sb = 0"
definition store_sh :: "3 word" where "store_sh = 1"
definition store_sw :: "3 word" where "store_sw = 2"

definition arith_add :: "3 word" where "arith_add = 0"
definition arith_sll :: "3 word" where "arith_sll = 1"
definition arith_slt :: "3 word" where "arith_slt = 2"
definition arith_sltu :: "3 word" where "arith_sltu = 3"
definition arith_axor :: "3 word" where "arith_axor = 4"
definition arith_sr :: "3 word" where "arith_sr = 5"
definition arith_aor :: "3 word" where "arith_aor = 6"
definition arith_aand :: "3 word" where "arith_aand = 7"

definition alu_add :: "3 word" where "alu_add = 0"
definition alu_sll :: "3 word" where "alu_sll = 1"
definition alu_sra :: "3 word" where "alu_sra = 2"
definition alu_sub :: "3 word" where "alu_sub = 3"
definition alu_xor :: "3 word" where "alu_xor = 4"
definition alu_srl :: "3 word" where "alu_srl = 5"
definition alu_or :: "3 word" where "alu_or = 6"
definition alu_and :: "3 word" where "alu_and = 7"

section \<open>Multiplexer selections\<close>

definition pcmux_pc_plus4 :: "2 word" where "pcmux_pc_plus4 = 0"
definition pcmux_alu_out :: "2 word" where "pcmux_alu_out = 1"
definition pcmux_alu_mod2 :: "2 word" where "pcmux_alu_mod2 = 2"
definition pcmux_cmp_out :: "2 word" where "pcmux_cmp_out = 3"

definition cmpmux1_rs1_out :: "2 word" where "cmpmux1_rs1_out = 0"
definition cmpmux1_alu_out_ExMem :: "2 word" where "cmpmux1_alu_out_ExMem = 1"
definition cmpmux1_r_data_MemWb :: "2 word" where "cmpmux1_r_data_MemWb = 2"

definition cmpmux2_rs2_out :: "2 word" where "cmpmux2_rs2_out = 0"
definition cmpmux2_i_imm :: "2 word" where "cmpmux2_i_imm = 1"
definition cmpmux2_alu_out_ExMem :: "2 word" where "cmpmux2_alu_out_ExMem = 2"
definition cmpmux2_r_data_MemWb :: "2 word" where "cmpmux2_r_data_MemWb = 3"

definition alumux1_rs1_out :: "2 word" where "alumux1_rs1_out = 0"
definition alumux1_pc_out :: "2 word" where "alumux1_pc_out = 1"
definition alumux1_alu_out_ExMem :: "2 word" where "alumux1_alu_out_ExMem = 2"
definition alumux1_r_data_MemWb :: "2 word" where "alumux1_r_data_MemWb = 3"

definition alumux2_i_imm :: "3 word" where "alumux2_i_imm = 0"
definition alumux2_u_imm :: "3 word" where "alumux2_u_imm = 1"
definition alumux2_b_imm :: "3 word" where "alumux2_b_imm = 2"
definition alumux2_s_imm :: "3 word" where "alumux2_s_imm = 3"
definition alumux2_j_imm :: "3 word" where "alumux2_j_imm = 4"
definition alumux2_rs2_out :: "3 word" where "alumux2_rs2_out = 5"
definition alumux2_alu_out_ExMem :: "3 word" where "alumux2_alu_out_ExMem = 6"
definition alumux2_r_data_MemWb :: "3 word" where "alumux2_r_data_MemWb = 7"

definition regfilemux_alu_out :: "4 word" where "regfilemux_alu_out = 0"
definition regfilemux_br_en :: "4 word" where "regfilemux_br_en = 1"
definition regfilemux_u_imm :: "4 word" where "regfilemux_u_imm = 2"
definition regfilemux_lw :: "4 word" where "regfilemux_lw = 3"
definition regfilemux_pc_plus4 :: "4 word" where "regfilemux_pc_plus4 = 4"
definition regfilemux_lb :: "4 word" where "regfilemux_lb = 5"
definition regfilemux_lbu :: "4 word" where "regfilemux_lbu = 6"
definition regfilemux_lh :: "4 word" where "regfilemux_lh = 7"
definition regfilemux_lhu :: "4 word" where "regfilemux_lhu = 8"

definition cachemux_r_data_MemWb :: "1 word" where "cachemux_r_data_MemWb = 0"
definition cachemux_rs2_out_ExMem :: "1 word" where "cachemux_rs2_out_ExMem = 1"

section \<open>The control word\<close>

type_synonym rv32i_word = u32
type_synonym rv32i_reg = "5 word"

record rv32i_control_word =
  aluop :: "3 word"
  cmpop :: "3 word"
  cmpmux2_sel :: "2 word"
  alumux1_sel :: "2 word"
  alumux2_sel :: "3 word"
  regfilemux_sel :: "4 word"
  pcmux_sel :: "2 word"
  read_mem :: bool
  write_mem :: bool
  write_reg :: bool
  opcode :: "7 word"

section \<open>Evaluation\<close>

declare
  op_lui_def [enum_defs]
  op_auipc_def [enum_defs]
  op_jal_def [enum_defs]
  op_jalr_def [enum_defs]
  op_br_def [enum_defs]
  op_load_def [enum_defs]
  op_store_def [enum_defs]
  op_imm_def [enum_defs]
  op_reg_def [enum_defs]
  op_csr_def [enum_defs]
  branch_beq_def [enum_defs]
  branch_bne_def [enum_defs]
  branch_blt_def [enum_defs]
  branch_bge_def [enum_defs]
  branch_bltu_def [enum_defs]
  branch_bgeu_def [enum_defs]
  load_lb_def [enum_defs]
  load_lh_def [enum_defs]
  load_lw_def [enum_defs]
  load_lbu_def [enum_defs]
  load_lhu_def [enum_defs]
  store_sb_def [enum_defs]
  store_sh_def [enum_defs]
  store_sw_def [enum_defs]
  arith_add_def [enum_defs]
  arith_sll_def [enum_defs]
  arith_slt_def [enum_defs]
  arith_sltu_def [enum_defs]
  arith_axor_def [enum_defs]
  arith_sr_def [enum_defs]
  arith_aor_def [enum_defs]
  arith_aand_def [enum_defs]
  alu_add_def [enum_defs]
  alu_sll_def [enum_defs]
  alu_sra_def [enum_defs]
  alu_sub_def [enum_defs]
  alu_xor_def [enum_defs]
  alu_srl_def [enum_defs]
  alu_or_def [enum_defs]
  alu_and_def [enum_defs]
  pcmux_pc_plus4_def [enum_defs]
  pcmux_alu_out_def [enum_defs]
  pcmux_alu_mod2_def [enum_defs]
  pcmux_cmp_out_def [enum_defs]
  cmpmux1_rs1_out_def [enum_defs]
  cmpmux1_alu_out_ExMem_def [enum_defs]
  cmpmux1_r_data_MemWb_def [enum_defs]
  cmpmux2_rs2_out_def [enum_defs]
  cmpmux2_i_imm_def [enum_defs]
  cmpmux2_alu_out_ExMem_def [enum_defs]
  cmpmux2_r_data_MemWb_def [enum_defs]
  alumux1_rs1_out_def [enum_defs]
  alumux1_pc_out_def [enum_defs]
  alumux1_alu_out_ExMem_def [enum_defs]
  alumux1_r_data_MemWb_def [enum_defs]
  alumux2_i_imm_def [enum_defs]
  alumux2_u_imm_def [enum_defs]
  alumux2_b_imm_def [enum_defs]
  alumux2_s_imm_def [enum_defs]
  alumux2_j_imm_def [enum_defs]
  alumux2_rs2_out_def [enum_defs]
  alumux2_alu_out_ExMem_def [enum_defs]
  alumux2_r_data_MemWb_def [enum_defs]
  regfilemux_alu_out_def [enum_defs]
  regfilemux_br_en_def [enum_defs]
  regfilemux_u_imm_def [enum_defs]
  regfilemux_lw_def [enum_defs]
  regfilemux_pc_plus4_def [enum_defs]
  regfilemux_lb_def [enum_defs]
  regfilemux_lbu_def [enum_defs]
  regfilemux_lh_def [enum_defs]
  regfilemux_lhu_def [enum_defs]
  cachemux_r_data_MemWb_def [enum_defs]
  cachemux_rs2_out_ExMem_def [enum_defs]

end
