(* ===== verification/Predictors.thy ===== *)
theory Predictors
  imports Rv32i_Types
begin

text \<open>
  Branch prediction: \<open>hdl/cpu_datapath/branch_predictior\<close>, the global, the local and the meta
  predictor and the choice between them. A combinational block holds what it does not assign:
  its latches are part of the state. An index into a table that is not there delivers unknown
  bits, \<open>None\<close>; a write to it has no effect, and a case distinction over it selects nothing.
\<close>

section \<open>The counters of the pattern tables\<close>

datatype pattern = STRONGLY_TAKEN | WEAKLY_TAKEN | WEAKLY_NOT_TAKEN | STRONGLY_NOT_TAKEN

fun predicts :: "pattern \<Rightarrow> bool" where
  "predicts STRONGLY_TAKEN = True"
| "predicts WEAKLY_TAKEN = True"
| "predicts WEAKLY_NOT_TAKEN = False"
| "predicts STRONGLY_NOT_TAKEN = False"

fun pattern_update :: "pattern \<Rightarrow> bool \<Rightarrow> pattern" where
  "pattern_update STRONGLY_TAKEN taken = (if taken then STRONGLY_TAKEN else WEAKLY_TAKEN)"
| "pattern_update WEAKLY_TAKEN taken = (if taken then STRONGLY_TAKEN else WEAKLY_NOT_TAKEN)"
| "pattern_update WEAKLY_NOT_TAKEN taken = (if taken then WEAKLY_TAKEN else STRONGLY_NOT_TAKEN)"
| "pattern_update STRONGLY_NOT_TAKEN taken = (if taken then WEAKLY_TAKEN else STRONGLY_NOT_TAKEN)"

text \<open>The inputs all predictors have.\<close>

record pred_in =
  pred_rst :: bool
  pred_read :: bool
  pred_load :: bool
  pred_stall :: bool
  pred_taken :: bool
  pc_in :: u32
  pc_mem_stage :: u32

section \<open>Global predictor\<close>

record global_pred =
  g_patterns :: "10 word \<Rightarrow> pattern"
  ghr_data :: "10 word"
  ghr_new :: "10 word"
  g_index :: "10 word"
  g_updated :: pattern
  g_flush :: bool

definition global_comb :: "pred_in \<Rightarrow> global_pred \<Rightarrow> global_pred" where
  "global_comb i s =
     (let s = (if pred_rst i then s\<lparr>g_flush := False, ghr_new := 0\<rparr> else s);
          s = (if \<not> pred_read i then (if \<not> pred_stall i then s\<lparr>g_flush := False\<rparr> else s) else s);
          s = (if pred_read i then
                 if \<not> pred_stall i then
                   let x = ucast (pc_in i) XOR ghr_data s
                   in s\<lparr>g_index := x, g_flush := predicts (g_patterns s x)\<rparr>
                 else s
               else s)
      in if pred_load i then
           let x = ucast (pc_mem_stage i) XOR ghr_data s
           in s\<lparr>g_flush := False, g_index := x, g_updated := pattern_update (g_patterns s x) (pred_taken i),
                ghr_new := push_bit 1 (ghr_data s) OR (if pred_taken i then 1 else 0)\<rparr>
         else s)"

definition global_clock :: "pred_in \<Rightarrow> global_pred \<Rightarrow> global_pred" where
  "global_clock i s =
     (if pred_rst i then s\<lparr>g_patterns := (\<lambda>_. WEAKLY_NOT_TAKEN), ghr_data := 0\<rparr>
      else if pred_stall i then s
      else if pred_load i then s\<lparr>ghr_data := ghr_new s, g_patterns := (g_patterns s)(g_index s := g_updated s)\<rparr>
      else s)"

section \<open>Local predictor\<close>

text \<open>\<open>local_hist_registers [7:0]\<close>: eight registers, indexed with eight bits.\<close>

record local_pred =
  l_patterns :: "12 word \<Rightarrow> pattern"
  local_hist_registers :: "8 word \<Rightarrow> 12 word"
  lhr_index :: "8 word"
  new_local_hist_reg_val :: "12 word option"
  l_index :: "12 word option"
  l_updated :: pattern
  l_flush :: bool

definition read_hist :: "local_pred \<Rightarrow> 8 word \<Rightarrow> 12 word option" where
  "read_hist s x = (if x < 8 then Some (local_hist_registers s x) else None)"

definition write_hist :: "8 word \<Rightarrow> 12 word option \<Rightarrow> local_pred \<Rightarrow> local_pred" where
  "write_hist x v s =
     (if x < 8 then case v of None \<Rightarrow> s | Some v \<Rightarrow> s\<lparr>local_hist_registers := (local_hist_registers s)(x := v)\<rparr> else s)"

definition local_comb :: "pred_in \<Rightarrow> local_pred \<Rightarrow> local_pred" where
  "local_comb i s =
     (let s = (if pred_rst i then s\<lparr>l_flush := False, new_local_hist_reg_val := Some 0\<rparr> else s);
          s = (if \<not> pred_read i then (if \<not> pred_stall i then s\<lparr>l_flush := False\<rparr> else s) else s);
          s = (if pred_read i then
                 let x = ucast (pc_in i); p = read_hist s x
                 in s\<lparr>lhr_index := x, l_index := p,
                      l_flush := (case p of None \<Rightarrow> l_flush s | Some p \<Rightarrow> predicts (l_patterns s p))\<rparr>
               else s)
      in if pred_load i then
           let x = ucast (pc_mem_stage i); p = read_hist s x
           in s\<lparr>lhr_index := x, l_index := p,
                l_updated := (case p of None \<Rightarrow> l_updated s | Some p \<Rightarrow> pattern_update (l_patterns s p) (pred_taken i)),
                new_local_hist_reg_val := map_option (\<lambda>h. push_bit 1 h OR (if pred_taken i then 1 else 0)) p\<rparr>
         else s)"

definition local_clock :: "pred_in \<Rightarrow> local_pred \<Rightarrow> local_pred" where
  "local_clock i s =
     (if pred_rst i then s\<lparr>l_patterns := (\<lambda>_. WEAKLY_NOT_TAKEN), local_hist_registers := (\<lambda>_. 0)\<rparr>
      else if pred_stall i then s
      else if pred_load i then
        let s' = write_hist (lhr_index s) (new_local_hist_reg_val s) s
        in case l_index s of None \<Rightarrow> s' | Some p \<Rightarrow> s'\<lparr>l_patterns := (l_patterns s)(p := l_updated s)\<rparr>
      else s)"

section \<open>Meta predictor\<close>

record meta_pred =
  m_patterns :: "10 word \<Rightarrow> pattern"
  m_index :: "10 word"
  m_updated :: pattern
  br_pred_sel :: bool

text \<open>The three cases exclude one another: no read, a read, and neither of the two.\<close>

definition meta_comb :: "pred_in \<Rightarrow> meta_pred \<Rightarrow> meta_pred" where
  "meta_comb i s =
     (let s = (if pred_rst i then s\<lparr>br_pred_sel := False\<rparr> else s)
      in if \<not> pred_read i then (if \<not> pred_stall i then s\<lparr>br_pred_sel := False\<rparr> else s)
         else if pred_read i then
           let x = ucast (pc_in i) in s\<lparr>m_index := x, br_pred_sel := predicts (m_patterns s x)\<rparr>
         else if pred_load i then
           let x = ucast (pc_mem_stage i)
           in s\<lparr>m_index := x, br_pred_sel := False, m_updated := pattern_update (m_patterns s x) (pred_taken i)\<rparr>
         else s)"

definition meta_clock :: "pred_in \<Rightarrow> meta_pred \<Rightarrow> meta_pred" where
  "meta_clock i s =
     (if pred_rst i then s\<lparr>m_patterns := (\<lambda>_. WEAKLY_NOT_TAKEN)\<rparr>
      else if pred_stall i then s
      else if pred_load i then s\<lparr>m_patterns := (m_patterns s)(m_index s := m_updated s)\<rparr>
      else s)"

section \<open>The predictor\<close>

record br_pred_blkbox =
  GBR_PRED :: global_pred
  LBR_PRED :: local_pred
  META_PRED :: meta_pred

definition blkbox_comb :: "pred_in \<Rightarrow> br_pred_blkbox \<Rightarrow> br_pred_blkbox" where
  "blkbox_comb i s = \<lparr> GBR_PRED = global_comb i (GBR_PRED s), LBR_PRED = local_comb i (LBR_PRED s),
     META_PRED = meta_comb i (META_PRED s) \<rparr>"

definition blkbox_clock :: "pred_in \<Rightarrow> br_pred_blkbox \<Rightarrow> br_pred_blkbox" where
  "blkbox_clock i s = \<lparr> GBR_PRED = global_clock i (GBR_PRED s), LBR_PRED = local_clock i (LBR_PRED s),
     META_PRED = meta_clock i (META_PRED s) \<rparr>"

text \<open>The ports of the instance in \<open>instr_fetch.sv\<close>: branches are looked up as they are fetched.\<close>

definition fetch_pred_in :: "bool \<Rightarrow> rv32i_word \<Rightarrow> bool \<Rightarrow> bool \<Rightarrow> bool \<Rightarrow> u32 \<Rightarrow> u32 \<Rightarrow> pred_in" where
  "fetch_pred_in rst i_cache_rdata update_hist_table stall_pc br_taken_mem pcreg_val pc_mem =
     \<lparr> pred_rst = rst, pred_read = ((ucast i_cache_rdata :: 7 word) = 0x63), pred_load = update_hist_table,
       pred_stall = stall_pc, pred_taken = br_taken_mem, pc_in = pcreg_val, pc_mem_stage = pc_mem \<rparr>"

text \<open>The output of the combinational logic, and a whole cycle.\<close>

definition blkbox_flush :: "br_pred_blkbox \<Rightarrow> bool" where
  "blkbox_flush s = (if br_pred_sel (META_PRED s) then l_flush (LBR_PRED s) else g_flush (GBR_PRED s))"

definition blkbox_step :: "pred_in \<Rightarrow> br_pred_blkbox \<Rightarrow> br_pred_blkbox" where
  "blkbox_step i s = blkbox_clock i (blkbox_comb i s)"

end
