(* ===== verification/Predictors_Correct.thy ===== *)
theory Predictors_Correct
  imports Predictors
begin

text \<open>
  What the predictors learn. The global one is a table of counters indexed with the program
  counter and the last ten outcomes; the local one covers eight values of the low byte of the program
  counter; the meta predictor does not see the outcomes at all.
\<close>

section \<open>Counters\<close>

text \<open>The states in the order of their inclination to take the branch.\<close>

fun strength :: "pattern \<Rightarrow> nat" where
  "strength STRONGLY_NOT_TAKEN = 0"
| "strength WEAKLY_NOT_TAKEN = 1"
| "strength WEAKLY_TAKEN = 2"
| "strength STRONGLY_TAKEN = 3"

lemma strength_eq: "strength p = strength q \<longleftrightarrow> p = q"
  by (cases p; cases q) simp_all

instantiation pattern :: linorder
begin

definition less_eq_pattern :: "pattern \<Rightarrow> pattern \<Rightarrow> bool" where
  "less_eq_pattern p q = (strength p \<le> strength q)"

definition less_pattern :: "pattern \<Rightarrow> pattern \<Rightarrow> bool" where
  "less_pattern p q = (strength p < strength q)"

instance
  by standard (auto simp: less_eq_pattern_def less_pattern_def strength_eq)

end

text \<open>An outcome moves a counter towards itself, and never past another counter.\<close>

lemma pattern_update_towards: "p \<le> pattern_update p True" "pattern_update p False \<le> p"
  by (cases p; simp add: less_eq_pattern_def)+

lemma pattern_update_mono: "p \<le> q \<Longrightarrow> pattern_update p t \<le> pattern_update q t"
  by (cases p; cases q; cases t) (simp_all add: less_eq_pattern_def)

lemma predicts_order: "predicts p \<longleftrightarrow> WEAKLY_TAKEN \<le> p"
  by (cases p) (simp_all add: less_eq_pattern_def)

lemma fold_update_mono:
  "p \<le> q \<Longrightarrow> fold (\<lambda>t p. pattern_update p t) ts p \<le> fold (\<lambda>t p. pattern_update p t) ts q"
  by (induction ts arbitrary: p q) (simp_all add: pattern_update_mono)

text \<open>A counter that has come further towards taken never predicts less.\<close>

lemma predicts_mono:
  "p \<le> q \<Longrightarrow> predicts (fold (\<lambda>t p. pattern_update p t) ts p) \<Longrightarrow> predicts (fold (\<lambda>t p. pattern_update p t) ts q)"
  using fold_update_mono [of p q ts] unfolding predicts_order by (rule order_trans [rotated])

text \<open>
  A not-taken counter, strong or weak, is taken after one taken branch: the strong state has no
  inertia, and no sequence of outcomes tells it from the weak one.
\<close>

lemma update_taken: "predicts (pattern_update p True)"
  by (cases p) simp_all

lemma strongly_taken_fold:
  "\<exists>p. fold (\<lambda>t p. pattern_update p t) ts STRONGLY_NOT_TAKEN = p
     \<and> (fold (\<lambda>t p. pattern_update p t) ts WEAKLY_NOT_TAKEN = p \<or> p = STRONGLY_NOT_TAKEN \<and> ts = [])"
proof (induction ts)
  case (Cons t ts)
  then show ?case by (cases t; cases ts) auto
qed simp

lemma not_taken_states_agree:
  "predicts (fold (\<lambda>t p. pattern_update p t) ts STRONGLY_NOT_TAKEN) = predicts (fold (\<lambda>t p. pattern_update p t) ts WEAKLY_NOT_TAKEN)"
  using strongly_taken_fold [of ts] by auto

section \<open>The global predictor\<close>

text \<open>Resolved branches, the last one first: address and outcome.\<close>

type_synonym resolved = "(u32 \<times> bool) list"

primrec history_bits :: "bool list \<Rightarrow> 10 word" where
  "history_bits [] = 0"
| "history_bits (t # ts) = push_bit 1 (history_bits ts) OR (if t then 1 else 0)"

text \<open>What a global predictor with ten bits of history has in its table.\<close>

primrec gshare :: "resolved \<Rightarrow> 10 word \<Rightarrow> pattern" where
  "gshare [] = (\<lambda>_. WEAKLY_NOT_TAKEN)"
| "gshare (b # bs) =
     (let x = ucast (fst b) XOR history_bits (map snd bs)
      in (gshare bs)(x := pattern_update (gshare bs x) (snd b)))"

text \<open>The branches resolved in the first \<open>n\<close> cycles.\<close>

primrec resolved_in :: "(nat \<Rightarrow> pred_in) \<Rightarrow> nat \<Rightarrow> resolved" where
  "resolved_in i 0 = []"
| "resolved_in i (Suc n) =
     (if pred_load (i n) \<and> \<not> pred_stall (i n) then (pc_mem_stage (i n), pred_taken (i n)) # resolved_in i n
      else resolved_in i n)"

lemma bit_history: "bit (history_bits ts) n \<longleftrightarrow> n < 10 \<and> n < length ts \<and> ts ! n"
proof (induction ts arbitrary: n)
  case (Cons t ts)
  show ?case
  proof (cases n)
    case 0
    then show ?thesis by (simp only: history_bits.simps bit_or_iff bit_push_bit_iff) simp
  next
    case (Suc m)
    then have "bit (history_bits (t # ts)) n \<longleftrightarrow> n < 10 \<and> bit (history_bits ts) m"
      by (simp only: history_bits.simps bit_or_iff bit_push_bit_iff) auto
    then show ?thesis using Cons [of m] Suc by (auto simp del: history_bits.simps)
  qed
qed simp

abbreviation global_step :: "pred_in \<Rightarrow> global_pred \<Rightarrow> global_pred" where
  "global_step i s \<equiv> global_clock i (global_comb i s)"

lemma global_comb_tables [simp]:
  "g_patterns (global_comb i s) = g_patterns s" "ghr_data (global_comb i s) = ghr_data s"
  by (simp_all add: global_comb_def Let_def)

lemma global_step_cases:
  assumes "\<not> pred_rst i"
  shows "ghr_data (global_step i s) =
      (if pred_load i \<and> \<not> pred_stall i then push_bit 1 (ghr_data s) OR (if pred_taken i then 1 else 0) else ghr_data s)"
    "g_patterns (global_step i s) =
      (if pred_load i \<and> \<not> pred_stall i
       then let x = ucast (pc_mem_stage i) XOR ghr_data s in (g_patterns s)(x := pattern_update (g_patterns s x) (pred_taken i))
       else g_patterns s)"
  using assms by (simp_all add: global_clock_def global_comb_def Let_def)

lemma global_tables:
  assumes "\<And>k. s (Suc k) = global_step (i k) (s k)" and "\<And>k. \<not> pred_rst (i k)"
    and "g_patterns (s 0) = (\<lambda>_. WEAKLY_NOT_TAKEN)" and "ghr_data (s 0) = 0"
  shows "ghr_data (s n) = history_bits (map snd (resolved_in i n)) \<and> g_patterns (s n) = gshare (resolved_in i n)"
  by (induction n) (simp_all add: assms(1,3,4) global_step_cases assms(2) Let_def)

text \<open>
  C30: the global predictor is a gshare predictor. From the tables of the reset on, whatever reads,
  stalls and resolved branches the cycles bring in whatever order, the history register holds the
  last ten outcomes, the latest in bit 0, and each counter has been updated once for each
  branch that was resolved without a stall at its index, the exclusive or of the low bits of the address and the
  history of that time, and by nothing else; reads never disturb them. In a cycle that reads, is not stalled and resolves
  no branch, the output is the prediction of the indexed counter; when a branch is resolved it is 0.
\<close>

theorem global_gshare:
  assumes "\<And>k. s (Suc k) = global_clock (i k) (global_comb (i k) (s k))" and "\<And>k. \<not> pred_rst (i k)"
    and "s 0 = global_clock r s'" and "pred_rst r"
  shows "g_patterns (s n) = gshare (resolved_in i n)
    \<and> (\<forall>j<10. bit (ghr_data (s n)) j \<longleftrightarrow> j < length (resolved_in i n) \<and> snd (resolved_in i n ! j))
    \<and> (pred_read (i n) \<and> \<not> pred_stall (i n) \<and> \<not> pred_load (i n) \<longrightarrow>
         g_flush (global_comb (i n) (s n)) =
           predicts (gshare (resolved_in i n) (ucast (pc_in (i n)) XOR history_bits (map snd (resolved_in i n)))))
    \<and> (pred_load (i n) \<longrightarrow> \<not> g_flush (global_comb (i n) (s n)))"
proof -
  have start: "g_patterns (s 0) = (\<lambda>_. WEAKLY_NOT_TAKEN)" "ghr_data (s 0) = 0"
    using assms(3,4) by (simp_all add: global_clock_def)
  note t = global_tables [where s = s and i = i and n = n, OF assms(1,2) start]
  have "bit (ghr_data (s n)) j \<longleftrightarrow> j < length (resolved_in i n) \<and> snd (resolved_in i n ! j)" if "j < 10" for j
    using that t by (auto simp: bit_history)
  with t assms(2) [of n] show ?thesis by (auto simp: global_comb_def Let_def)
qed

text \<open>A branch at 8 that is always taken, resolved in every cycle.\<close>

definition training :: pred_in where
  "training = \<lparr> pred_rst = False, pred_read = False, pred_load = True, pred_stall = False, pred_taken = True,
     pc_in = 0, pc_mem_stage = 8 \<rparr>"

definition reset_in :: pred_in where
  "reset_in = training\<lparr>pred_rst := True\<rparr>"

definition global_start :: global_pred where
  "global_start = global_clock reset_in \<lparr> g_patterns = (\<lambda>_. STRONGLY_TAKEN), ghr_data = 5, ghr_new = 0, g_index = 0,
     g_updated = STRONGLY_TAKEN, g_flush = False \<rparr>"

theorem global_gshare_witness:
  "g_patterns ((global_step training ^^ 1) global_start) 8 = WEAKLY_TAKEN"
proof -
  have "g_patterns ((global_step training ^^ 1) global_start) = gshare (resolved_in (\<lambda>_. training) 1)"
    using global_gshare [of "\<lambda>k. (global_step training ^^ k) global_start" "\<lambda>_. training" reset_in _ 1, OF _ _ _ , of
      "\<lparr> g_patterns = (\<lambda>_. STRONGLY_TAKEN), ghr_data = 5, ghr_new = 0, g_index = 0, g_updated = STRONGLY_TAKEN, g_flush = False \<rparr>"]
    by (simp add: training_def reset_in_def global_start_def)
  then show ?thesis by (simp add: training_def)
qed

section \<open>The local predictor\<close>

text \<open>
  C39: the local predictor covers eight addresses. A resolved branch whose address ends in a byte
  below 8 shifts its outcome into its history register and updates the counter of its old
  history, and a read of such an address gives the counter's prediction. For any other address,
  that is for all word-aligned addresses but those that end in 0 and 4, a resolved branch changes
  neither table and a read leaves the previous output standing: the array of history registers
  has eight entries where the index and the reset loop expect 256.
\<close>

theorem local_coverage:
  assumes "\<not> pred_rst i" and "\<not> pred_stall i" and "s' = local_clock i (local_comb i s)"
    and "x = ucast (pc_mem_stage i)" and "y = ucast (pc_in i)"
  shows "(pred_load i \<and> x < 8 \<longrightarrow>
      (let h = local_hist_registers s x; t = pred_taken i in
       local_hist_registers s' = (local_hist_registers s)(x := push_bit 1 h OR (if t then 1 else 0))
       \<and> l_patterns s' = (l_patterns s)(h := pattern_update (l_patterns s h) t)))
    \<and> (pred_load i \<longrightarrow> x < 8 \<or> local_hist_registers s' = local_hist_registers s \<and> l_patterns s' = l_patterns s)
    \<and> (pred_read i \<longrightarrow>
       l_flush s' = (if y < 8 then predicts (l_patterns s (local_hist_registers s y)) else l_flush s))"
  using assms by (simp add: local_clock_def local_comb_def read_hist_def write_hist_def Let_def)

definition local_start :: local_pred where
  "local_start = \<lparr> l_patterns = (\<lambda>_. WEAKLY_NOT_TAKEN), local_hist_registers = (\<lambda>_. 0), lhr_index = 0,
     new_local_hist_reg_val = Some 0, l_index = Some 0, l_updated = WEAKLY_NOT_TAKEN, l_flush = False \<rparr>"

theorem local_coverage_witness:
  "l_patterns (local_clock training (local_comb training local_start)) = l_patterns local_start"
  using local_coverage [of training _ local_start 8 0, OF _ _ refl] by (simp add: training_def)

section \<open>The meta predictor\<close>

lemma meta_comb_updated: "m_updated (meta_comb i s) = m_updated s"
  by (simp add: meta_comb_def Let_def)

text \<open>Inputs that agree but for the resolved branch.\<close>

definition same_reads :: "pred_in \<Rightarrow> pred_in \<Rightarrow> bool" where
  "same_reads i i' \<longleftrightarrow> pred_rst i = pred_rst i' \<and> pred_read i = pred_read i' \<and> pred_load i = pred_load i'
     \<and> pred_stall i = pred_stall i' \<and> pc_in i = pc_in i'"

lemma meta_same: "same_reads i i' \<Longrightarrow> meta_comb i s = meta_comb i' s \<and> meta_clock i s = meta_clock i' s"
  by (cases "pred_read i"; cases "pred_rst i")
    (simp_all add: same_reads_def meta_comb_def meta_clock_def Let_def split: if_splits)

text \<open>
  C37: the meta predictor does not learn. The branch of its logic that computes the updated counter
  comes after the cases of a read and of no read and is never taken: two runs whose inputs agree
  in everything but the outcomes and addresses of the resolved branches choose alike in every
  cycle, and every counter is always the one of the reset or the value the latch of the updated
  counter had at power-up.
\<close>

theorem meta_never_learns:
  assumes "\<And>k. s (Suc k) = meta_clock (i k) (meta_comb (i k) (s k))"
    and "\<And>k. s' (Suc k) = meta_clock (i' k) (meta_comb (i' k) (s' k))"
    and "\<And>k. same_reads (i k) (i' k)" and "s' 0 = s 0" and "pred_rst (i 0)"
  shows "br_pred_sel (meta_comb (i' n) (s' n)) = br_pred_sel (meta_comb (i n) (s n))
    \<and> m_patterns (s (Suc n)) x \<in> {WEAKLY_NOT_TAKEN, m_updated (s 0)}"
proof -
  have "s' n = s n" for n
    by (induction n) (simp_all add: assms(1,2,4) meta_same [OF assms(3)])
  then have "br_pred_sel (meta_comb (i' n) (s' n)) = br_pred_sel (meta_comb (i n) (s n))"
    by (simp add: meta_same [OF assms(3)])
  moreover have "m_updated (s k) = m_updated (s 0)" for k
    by (induction k) (simp_all add: assms(1) meta_clock_def meta_comb_updated)
  then have "m_patterns (s (Suc n)) x \<in> {WEAKLY_NOT_TAKEN, m_updated (s 0)}"
  proof (induction n)
    case (Suc n)
    moreover have "m_patterns (meta_comb j t) = m_patterns t" for j t by (simp add: meta_comb_def Let_def)
    ultimately show ?case by (simp add: assms(1) [of "Suc n"] meta_clock_def meta_comb_updated)
  qed (simp add: assms(1,5) meta_clock_def)
  ultimately show ?thesis ..
qed

text \<open>Two runs with opposite outcomes.\<close>

definition meta_start :: meta_pred where
  "meta_start = \<lparr> m_patterns = (\<lambda>_. STRONGLY_TAKEN), m_index = 0, m_updated = STRONGLY_TAKEN, br_pred_sel = False \<rparr>"

definition meta_in :: "bool \<Rightarrow> nat \<Rightarrow> pred_in" where
  "meta_in t k = training\<lparr>pred_rst := k = 0, pred_read := True, pred_taken := t\<rparr>"

primrec meta_run :: "bool \<Rightarrow> nat \<Rightarrow> meta_pred" where
  "meta_run t 0 = meta_start"
| "meta_run t (Suc k) = meta_clock (meta_in t k) (meta_comb (meta_in t k) (meta_run t k))"

theorem meta_never_learns_witness:
  "br_pred_sel (meta_comb (meta_in False 5) (meta_run False 5)) = br_pred_sel (meta_comb (meta_in True 5) (meta_run True 5))"
proof -
  have "same_reads (meta_in True k) (meta_in False k)" "pred_rst (meta_in True 0)" for k
    by (simp_all add: same_reads_def meta_in_def training_def)
  from meta_never_learns [OF meta_run.simps(2) meta_run.simps(2) this(1) _ this(2), of 5] show ?thesis by simp
qed

end
