(* ===== verification/Execute.thy ===== *)
theory Execute
  imports Rv32i_Types
begin

text \<open>
  The execute stage: \<open>hdl/cpu_datapath/alu.sv\<close>, \<open>cmp.sv\<close> and the operand multiplexers of
  \<open>execute.sv\<close>. An output a selection leaves unassigned keeps the value \<open>held\<close>.
\<close>

definition alu :: "3 word \<Rightarrow> u32 \<Rightarrow> u32 \<Rightarrow> u32" where
  "alu op a b =
     (let amount = unat (ucast b :: 5 word) in
      if op = alu_add then a + b
      else if op = alu_sll then push_bit amount a
      else if op = alu_sra then signed_drop_bit amount a
      else if op = alu_sub then a - b
      else if op = alu_xor then a XOR b
      else if op = alu_srl then drop_bit amount a
      else if op = alu_or then a OR b
      else a AND b)"

definition cmp :: "bool \<Rightarrow> 3 word \<Rightarrow> u32 \<Rightarrow> u32 \<Rightarrow> bool" where
  "cmp held op a b =
     (if op = branch_beq then a = b
      else if op = branch_bne then a \<noteq> b
      else if op = branch_blt then a <s b
      else if op = branch_bge then b \<le>s a
      else if op = branch_bltu then a < b
      else if op = branch_bgeu then b \<le> a
      else held)"

text \<open>What reaches the stage from the decode registers and the two forwarding paths.\<close>

record ex_inputs =
  reg_data_1_in :: rv32i_word
  reg_data_2_in :: rv32i_word
  pc_reg_in :: rv32i_word
  i_imm_in :: rv32i_word
  s_imm_in :: rv32i_word
  b_imm_in :: rv32i_word
  u_imm_in :: rv32i_word
  j_imm_in :: rv32i_word
  data_from_exmem_in :: rv32i_word
  data_from_memwb_in :: rv32i_word

definition mux1_out :: "2 word \<Rightarrow> ex_inputs \<Rightarrow> rv32i_word" where
  "mux1_out sel i =
     (if sel = alumux1_rs1_out then reg_data_1_in i
      else if sel = alumux1_pc_out then pc_reg_in i
      else if sel = alumux1_alu_out_ExMem then data_from_exmem_in i
      else data_from_memwb_in i)"

definition mux2_out :: "3 word \<Rightarrow> ex_inputs \<Rightarrow> rv32i_word" where
  "mux2_out sel i =
     (if sel = alumux2_i_imm then i_imm_in i
      else if sel = alumux2_u_imm then u_imm_in i
      else if sel = alumux2_b_imm then b_imm_in i
      else if sel = alumux2_s_imm then s_imm_in i
      else if sel = alumux2_j_imm then j_imm_in i
      else if sel = alumux2_rs2_out then reg_data_2_in i
      else if sel = alumux2_alu_out_ExMem then data_from_exmem_in i
      else data_from_memwb_in i)"

definition cmpmux1_out :: "rv32i_word \<Rightarrow> 2 word \<Rightarrow> ex_inputs \<Rightarrow> rv32i_word" where
  "cmpmux1_out held sel i =
     (if sel = cmpmux1_rs1_out then reg_data_1_in i
      else if sel = cmpmux1_alu_out_ExMem then data_from_exmem_in i
      else if sel = cmpmux1_r_data_MemWb then data_from_memwb_in i
      else held)"

definition cmpmux2_out :: "2 word \<Rightarrow> ex_inputs \<Rightarrow> rv32i_word" where
  "cmpmux2_out sel i =
     (if sel = cmpmux2_rs2_out then reg_data_2_in i
      else if sel = cmpmux2_alu_out_ExMem then data_from_exmem_in i
      else if sel = cmpmux2_r_data_MemWb then data_from_memwb_in i
      else i_imm_in i)"

definition rs2passmux_out :: "rv32i_word \<Rightarrow> 2 word \<Rightarrow> ex_inputs \<Rightarrow> rv32i_word" where
  "rs2passmux_out held sel i =
     (if sel = 0 then reg_data_2_in i
      else if sel = 1 then data_from_exmem_in i
      else if sel = 2 then data_from_memwb_in i
      else held)"

text \<open>The selections of the forwarding unit, and the three results of the stage.\<close>

record forwarding =
  alumux1_fwd :: "2 word"
  alumux2_fwd :: "3 word"
  cachemux_fwd :: "1 word"
  cmpmux1_fwd :: "2 word"
  cmpmux2_fwd :: "2 word"
  rs2passmux_fwd :: "2 word"

record ex_outputs =
  alu_out :: rv32i_word
  cmp_out :: bool
  rs2_out :: rv32i_word

record ex_held =
  cmp_held :: bool
  cmpmux1_held :: rv32i_word
  rs2passmux_held :: rv32i_word

definition execute :: "ex_held \<Rightarrow> rv32i_control_word \<Rightarrow> forwarding \<Rightarrow> ex_inputs \<Rightarrow> ex_outputs" where
  "execute h cw f i =
     \<lparr> alu_out = alu (aluop cw) (mux1_out (alumux1_fwd f) i) (mux2_out (alumux2_fwd f) i),
       cmp_out = cmp (cmp_held h) (cmpop cw) (cmpmux1_out (cmpmux1_held h) (cmpmux1_fwd f) i)
                   (cmpmux2_out (cmpmux2_fwd f) i),
       rs2_out = rs2passmux_out (rs2passmux_held h) (rs2passmux_fwd f) i \<rparr>"

end
