(* ===== verification/Stages.thy ===== *)
theory Stages
  imports Execute
begin

text \<open>
  The stages after execute: \<open>hdl/cpu_datapath/mem_stage.sv\<close> with the branch checker
  \<open>static_nt_predictor.sv\<close>, \<open>writeback_stage.sv\<close>, the register file \<open>regfile.sv\<close>, and the
  selection of the next program counter in \<open>instr_fetch.sv\<close> with the register \<open>pc.sv\<close>.
\<close>

section \<open>Memory stage\<close>

definition mem_byte_enable :: "4 word \<Rightarrow> 7 word \<Rightarrow> 3 word \<Rightarrow> rv32i_word \<Rightarrow> 4 word" where
  "mem_byte_enable held opcode_in funct3_in alu_in =
     (if opcode_in = op_store then
        if funct3_in = store_sw then 0xf
        else if funct3_in = store_sh then (if bit alu_in 1 then 0xc else 0x3)
        else if funct3_in = store_sb then
          (let lsb = ucast alu_in :: 2 word
           in if lsb = 0 then 1 else if lsb = 1 then 2 else if lsb = 2 then 4 else 8)
        else held
      else held)"

definition wdata_out :: "1 word \<Rightarrow> 7 word \<Rightarrow> 3 word \<Rightarrow> rv32i_word \<Rightarrow> rv32i_word \<Rightarrow> rv32i_word \<Rightarrow> rv32i_word" where
  "wdata_out cachemux_sel opcode_in funct3_in alu_in rs2_data_in r_data_MemWb_in =
     (let wdata = (if cachemux_sel = cachemux_r_data_MemWb then r_data_MemWb_in else rs2_data_in);
          half = ucast rs2_data_in :: 16 word;
          byte = ucast rs2_data_in :: 8 word
      in if opcode_in = op_store then
           if funct3_in = store_sw then rs2_data_in
           else if funct3_in = store_sh then
             (if bit alu_in 1 then word_cat half (0 :: 16 word) else word_cat (0 :: 16 word) half)
           else if funct3_in = store_sb then
             (let lsb = ucast alu_in :: 2 word
              in if lsb = 0 then word_cat (0 :: 24 word) byte
                 else if lsb = 1 then word_cat (0 :: 16 word) (word_cat byte (0 :: 8 word) :: 16 word)
                 else if lsb = 2 then word_cat (0 :: 8 word) (word_cat byte (0 :: 16 word) :: 24 word)
                 else word_cat byte (0 :: 24 word))
           else wdata
         else wdata)"

definition forwarding_val_out :: "rv32i_control_word \<Rightarrow> rv32i_word \<Rightarrow> bool \<Rightarrow> rv32i_word \<Rightarrow> rv32i_word \<Rightarrow> rv32i_word" where
  "forwarding_val_out cw alu_in cmp_val_in u_imm reg_pc =
     (let sel = regfilemux_sel cw in
      if sel = regfilemux_alu_out then alu_in
      else if sel = regfilemux_br_en then (if cmp_val_in then 1 else 0)
      else if sel = regfilemux_u_imm then u_imm
      else if sel = regfilemux_pc_plus4 then reg_pc + 4
      else 0)"

section \<open>Branch checker\<close>

record br_check =
  mispredicted :: bool
  flush :: bool
  update_br_pred_taken :: bool

definition static_nt_predictor :: "br_check \<Rightarrow> bool \<Rightarrow> 7 word \<Rightarrow> bool \<Rightarrow> br_check" where
  "static_nt_predictor held cmp_val op br_pred_taken =
     (if op = op_jal \<or> op = op_jalr then held\<lparr>flush := True\<rparr>
      else if op = op_br then
        if cmp_val then
          (if br_pred_taken then \<lparr> mispredicted = False, flush = False, update_br_pred_taken = True \<rparr>
           else \<lparr> mispredicted = False, flush = True, update_br_pred_taken = True \<rparr>)
        else
          (if br_pred_taken then \<lparr> mispredicted = True, flush = True, update_br_pred_taken = False \<rparr>
           else \<lparr> mispredicted = False, flush = False, update_br_pred_taken = False \<rparr>)
      else \<lparr> mispredicted = False, flush = False, update_br_pred_taken = False \<rparr>)"

section \<open>Write-back stage\<close>

definition byte_lane :: "rv32i_word \<Rightarrow> 2 word \<Rightarrow> 8 word" where
  "byte_lane rdata lsb =
     (if lsb = 0 then ucast rdata
      else if lsb = 1 then ucast (drop_bit 8 rdata)
      else if lsb = 2 then ucast (drop_bit 16 rdata)
      else ucast (drop_bit 24 rdata))"

definition half_lane :: "rv32i_word \<Rightarrow> bool \<Rightarrow> 16 word" where
  "half_lane rdata upper = (if upper then ucast (drop_bit 16 rdata) else ucast rdata)"

definition regfilemux_out ::
  "rv32i_word \<Rightarrow> rv32i_control_word \<Rightarrow> bool \<Rightarrow> rv32i_word \<Rightarrow> rv32i_word \<Rightarrow> rv32i_word \<Rightarrow> rv32i_word \<Rightarrow> rv32i_word" where
  "regfilemux_out held cw br_en alu_out_preg pc_out u_imm_preg rdata_preg =
     (let sel = regfilemux_sel cw; lsb = ucast alu_out_preg :: 2 word in
      if sel = regfilemux_alu_out then alu_out_preg
      else if sel = regfilemux_br_en then (if br_en then 1 else 0)
      else if sel = regfilemux_u_imm then u_imm_preg
      else if sel = regfilemux_lw then rdata_preg
      else if sel = regfilemux_pc_plus4 then pc_out + 4
      else if sel = regfilemux_lb then scast (byte_lane rdata_preg lsb)
      else if sel = regfilemux_lbu then ucast (byte_lane rdata_preg lsb)
      else if sel = regfilemux_lh then scast (half_lane rdata_preg (bit lsb 1))
      else if sel = regfilemux_lhu then ucast (half_lane rdata_preg (bit lsb 1))
      else held)"

section \<open>Register file\<close>

type_synonym regfile = "rv32i_reg \<Rightarrow> rv32i_word"

definition regfile_step :: "bool \<Rightarrow> bool \<Rightarrow> rv32i_word \<Rightarrow> rv32i_reg \<Rightarrow> regfile \<Rightarrow> regfile" where
  "regfile_step rst load in_val dest data =
     (if rst then (\<lambda>_. 0)
      else if load \<and> dest \<noteq> 0 then data(dest := in_val)
      else data)"

text \<open>A read port: the value being written is passed through, whether it is written or not.\<close>

definition regfile_read :: "rv32i_word \<Rightarrow> rv32i_reg \<Rightarrow> regfile \<Rightarrow> rv32i_reg \<Rightarrow> rv32i_word" where
  "regfile_read in_val dest data src =
     (if src = dest \<and> dest \<noteq> 0 then in_val else if src \<noteq> 0 then data src else 0)"

section \<open>Next program counter\<close>

definition pc_register_step :: "bool \<Rightarrow> bool \<Rightarrow> u32 \<Rightarrow> u32 \<Rightarrow> u32" where
  "pc_register_step rst load in_val data =
     (if rst then 0x60 else if load then in_val else data)"

definition br_pred_pc_out :: "u32 \<Rightarrow> bool \<Rightarrow> rv32i_word \<Rightarrow> u32 \<Rightarrow> u32" where
  "br_pred_pc_out held br_pred_taken i_cache_rdata pcreg_val =
     (if br_pred_taken \<and> (ucast i_cache_rdata :: 7 word) = 0x63
      then pcreg_val +
        word_cat (if bit i_cache_rdata 31 then - 1 else 0 :: 20 word)
          (word_cat (ucast (drop_bit 7 i_cache_rdata) :: 1 word)
            (word_cat (ucast (drop_bit 25 i_cache_rdata) :: 6 word)
              (word_cat (ucast (drop_bit 8 i_cache_rdata) :: 4 word) (0 :: 1 word) :: 5 word) :: 11 word) :: 12 word)
      else held)"

definition pcmux_out :: "bool \<Rightarrow> bool \<Rightarrow> 2 word \<Rightarrow> u32 \<Rightarrow> u32 \<Rightarrow> u32 \<Rightarrow> u32" where
  "pcmux_out br_pred_taken checker_taken sel pcreg_val alu_out_mem br_pred_pc =
     (let br_pred_taken_temp = (if checker_taken then False else br_pred_taken) in
      if br_pred_taken_temp then br_pred_pc
      else if \<not> checker_taken then
        if sel = pcmux_alu_out then alu_out_mem
        else if sel = pcmux_alu_mod2 then alu_out_mem AND NOT 1
        else pcreg_val + 4
      else
        if sel = pcmux_alu_mod2 then alu_out_mem AND NOT 1
        else alu_out_mem)"

definition pc_sel_out :: "bool \<Rightarrow> u32 \<Rightarrow> u32 \<Rightarrow> u32" where
  "pc_sel_out checker_mispredicted mispredicted_new_pc pcmux =
     (if checker_mispredicted then mispredicted_new_pc + 4 else pcmux)"

end
