(* ===== verification/Pipeline_Registers.thy ===== *)
theory Pipeline_Registers
  imports Stages
begin

text \<open>
  The registers between the stages: \<open>hdl/cpu_datapath/if_id.sv\<close>, \<open>id_ex.sv\<close>, \<open>ex_mem.sv\<close> and
  \<open>mem_wb.sv\<close>. Each is a record of what it holds and a step with the reset, the stall and flush
  signals and the outputs of the stage before it, which come as a record of the same type. A
  register that an assignment leaves out keeps its value.
\<close>

section \<open>Control words of the registers\<close>

text \<open>The literal casts: all fields 0, and the word of a no-operation.\<close>

definition zero_word :: rv32i_control_word where
  "zero_word = \<lparr> aluop = 0, cmpop = 0, cmpmux2_sel = 0, alumux1_sel = 0, alumux2_sel = 0, regfilemux_sel = 0,
     pcmux_sel = 0, read_mem = False, write_mem = False, write_reg = False, opcode = 0 \<rparr>"

definition nop_word :: rv32i_control_word where
  "nop_word = zero_word\<lparr>write_reg := True, opcode := 0x13\<rparr>"

definition nop_instr :: rv32i_word where
  "nop_instr = 0x13"

section \<open>Fetch to decode\<close>

record if_id =
  if_pc_reg :: u32
  if_instr :: rv32i_word
  if_br_pred_taken :: bool
  if_br_pred_pc :: u32

definition if_id_step :: "bool \<Rightarrow> bool \<Rightarrow> bool \<Rightarrow> if_id \<Rightarrow> if_id \<Rightarrow> if_id" where
  "if_id_step rst stalled flushed i s =
     (if rst then \<lparr> if_pc_reg = 0, if_instr = nop_instr, if_br_pred_taken = False, if_br_pred_pc = 0 \<rparr>
      else if flushed \<or> flushed \<and> stalled
      then s\<lparr>if_instr := nop_instr, if_br_pred_taken := False, if_br_pred_pc := 0\<rparr>
      else if \<not> stalled then i else s)"

section \<open>Decode to execute\<close>

record id_ex =
  id_pc_reg :: u32
  id_reg_1 :: rv32i_word
  id_reg_2 :: rv32i_word
  id_reg_dest :: rv32i_reg
  id_i_imm :: rv32i_word
  id_s_imm :: rv32i_word
  id_b_imm :: rv32i_word
  id_u_imm :: rv32i_word
  id_j_imm :: rv32i_word
  id_cntrl_word :: rv32i_control_word
  id_funct3 :: "3 word"
  id_opcode :: "7 word"
  id_rs1_id :: rv32i_reg
  id_rs2_id :: rv32i_reg
  id_br_pred :: bool
  id_br_pred_pc :: u32

text \<open>What reset, flush and bubble have in common.\<close>

definition id_cleared :: "rv32i_control_word \<Rightarrow> 7 word \<Rightarrow> id_ex \<Rightarrow> id_ex" where
  "id_cleared cw op s =
     s\<lparr>id_pc_reg := 0, id_reg_1 := 0, id_reg_2 := 0, id_reg_dest := 0, id_i_imm := 0, id_s_imm := 0, id_b_imm := 0,
       id_u_imm := 0, id_j_imm := 0, id_cntrl_word := cw, id_funct3 := 0, id_opcode := op, id_rs1_id := 0, id_rs2_id := 0\<rparr>"

text \<open>
  On a flush the control word is assigned twice, the second value, 0, holds; the prediction is
  not cleared.
\<close>

definition id_ex_step :: "bool \<Rightarrow> bool \<Rightarrow> bool \<Rightarrow> bool \<Rightarrow> id_ex \<Rightarrow> id_ex \<Rightarrow> id_ex" where
  "id_ex_step rst stalled stall_nop flushed i s =
     (if rst then (id_cleared zero_word (id_opcode i) s)\<lparr>id_br_pred := False, id_br_pred_pc := 0\<rparr>
      else if flushed then id_cleared zero_word 0x13 s
      else
        let s = (if \<not> stalled then i else s)
        in if stall_nop then (id_cleared nop_word 0x13 s)\<lparr>id_br_pred := False, id_br_pred_pc := 0\<rparr> else s)"

section \<open>Execute to memory\<close>

record ex_mem =
  ex_reg_pc :: u32
  ex_u_imm :: rv32i_word
  ex_reg_2 :: rv32i_word
  ex_reg_dest :: rv32i_reg
  ex_cmp_val :: bool
  ex_alu_val :: rv32i_word
  ex_cntrl_word :: rv32i_control_word
  ex_funct3 :: "3 word"
  ex_opcode :: "7 word"
  ex_rs2_id :: rv32i_reg
  ex_br_pred_taken :: bool

definition ex_cleared :: "7 word \<Rightarrow> ex_mem" where
  "ex_cleared op =
     \<lparr> ex_reg_pc = 0, ex_u_imm = 0, ex_reg_2 = 0, ex_reg_dest = 0, ex_cmp_val = False, ex_alu_val = 0,
       ex_cntrl_word = nop_word, ex_funct3 = 0, ex_opcode = op, ex_rs2_id = 0, ex_br_pred_taken = False \<rparr>"

definition ex_mem_step :: "bool \<Rightarrow> bool \<Rightarrow> bool \<Rightarrow> ex_mem \<Rightarrow> ex_mem \<Rightarrow> ex_mem" where
  "ex_mem_step rst stalled flushed i s =
     (if rst then ex_cleared (ex_opcode i)
      else if flushed then (if stalled then s else ex_cleared 0x13)
      else if \<not> stalled then i else s)"

section \<open>Memory to write-back\<close>

record mem_wb =
  wb_u_imm :: rv32i_word
  wb_reg_dest :: rv32i_reg
  wb_reg_pc :: u32
  wb_alu_val :: rv32i_word
  wb_cmp_val :: bool
  wb_cntrl_word :: rv32i_control_word
  wb_r_data :: rv32i_word
  wb_opcode :: "7 word"

definition mem_wb_step :: "bool \<Rightarrow> bool \<Rightarrow> mem_wb \<Rightarrow> mem_wb \<Rightarrow> mem_wb" where
  "mem_wb_step rst stalled i s =
     (if rst then
        \<lparr> wb_u_imm = 0, wb_reg_dest = 0, wb_reg_pc = 0, wb_alu_val = 0, wb_cmp_val = False, wb_cntrl_word = zero_word,
          wb_r_data = 0, wb_opcode = wb_opcode i \<rparr>
      else if \<not> stalled then i else s)"

end
