(* ===== verification/Decode.thy ===== *)
theory Decode
  imports Rv32i_Types
begin

text \<open>
  Instruction decode: the immediates, register numbers and fields that
  \<open>hdl/cpu_datapath/instr_decode.sv\<close> takes from an instruction word, and the control word of
  \<open>hdl/cpu_datapath/WordGenerator.sv\<close>. A combinational block that leaves an output unassigned
  holds its old value; such a block has that value as its first argument \<open>held\<close>.
\<close>

section \<open>Bit vectors\<close>

text \<open>\<open>w[lo + n - 1 : lo]\<close>, with \<open>n\<close> the width of the result, and \<open>{n{b}}\<close>.\<close>

definition slice_at :: "nat \<Rightarrow> 'a::len word \<Rightarrow> 'b::len word" where
  "slice_at lo w = ucast (drop_bit lo w)"

definition rep :: "bool \<Rightarrow> 'a::len word" where
  "rep b = (if b then - 1 else 0)"

lemma bit_slice_at [simp]:
  "bit (slice_at lo (w :: 'a::len word) :: 'b::len word) n \<longleftrightarrow> n < LENGTH('b) \<and> bit w (lo + n)"
  by (simp add: slice_at_def bit_ucast_iff bit_drop_bit_eq)

lemma bit_rep [simp]: "bit (rep b :: 'a::len word) n \<longleftrightarrow> b \<and> n < LENGTH('a)"
  by (simp add: rep_def)

section \<open>Fields and immediates\<close>

definition opcode_out :: "rv32i_word \<Rightarrow> 7 word" where
  "opcode_out instr_mem_rdata = slice_at 0 instr_mem_rdata"

definition funct3_out :: "rv32i_word \<Rightarrow> 3 word" where
  "funct3_out instr_mem_rdata = slice_at 12 instr_mem_rdata"

definition funct7 :: "rv32i_word \<Rightarrow> 7 word" where
  "funct7 instr_mem_rdata = slice_at 25 instr_mem_rdata"

definition i_imm_out :: "rv32i_word \<Rightarrow> rv32i_word" where
  "i_imm_out instr_mem_rdata =
     word_cat (rep (bit instr_mem_rdata 31) :: 21 word) (slice_at 20 instr_mem_rdata :: 11 word)"

definition s_imm_out :: "rv32i_word \<Rightarrow> rv32i_word" where
  "s_imm_out instr_mem_rdata =
     word_cat (rep (bit instr_mem_rdata 31) :: 21 word)
       (word_cat (slice_at 25 instr_mem_rdata :: 6 word) (slice_at 7 instr_mem_rdata :: 5 word) :: 11 word)"

definition b_imm_out :: "rv32i_word \<Rightarrow> rv32i_word" where
  "b_imm_out instr_mem_rdata =
     word_cat (rep (bit instr_mem_rdata 31) :: 20 word)
       (word_cat (slice_at 7 instr_mem_rdata :: 1 word)
         (word_cat (slice_at 25 instr_mem_rdata :: 6 word)
           (word_cat (slice_at 8 instr_mem_rdata :: 4 word) (0 :: 1 word) :: 5 word) :: 11 word) :: 12 word)"

definition u_imm_out :: "rv32i_word \<Rightarrow> rv32i_word" where
  "u_imm_out instr_mem_rdata = word_cat (slice_at 12 instr_mem_rdata :: 20 word) (0 :: 12 word)"

definition j_imm_out :: "rv32i_word \<Rightarrow> rv32i_word" where
  "j_imm_out instr_mem_rdata =
     word_cat (rep (bit instr_mem_rdata 31) :: 12 word)
       (word_cat (slice_at 12 instr_mem_rdata :: 8 word)
         (word_cat (slice_at 20 instr_mem_rdata :: 1 word)
           (word_cat (slice_at 21 instr_mem_rdata :: 10 word) (0 :: 1 word) :: 11 word) :: 12 word) :: 20 word)"

text \<open>The register numbers, 0 where the instruction has none.\<close>

definition rs1_id :: "rv32i_word \<Rightarrow> rv32i_reg" where
  "rs1_id instr_mem_rdata =
     (if opcode_out instr_mem_rdata \<in> {op_jalr, op_load, op_imm, op_reg, op_br, op_store}
      then slice_at 15 instr_mem_rdata else 0)"

definition rs2_id :: "rv32i_word \<Rightarrow> rv32i_reg" where
  "rs2_id instr_mem_rdata =
     (if opcode_out instr_mem_rdata \<in> {op_reg, op_br, op_store}
      then slice_at 20 instr_mem_rdata else 0)"

definition rd_out :: "rv32i_word \<Rightarrow> rv32i_reg" where
  "rd_out instr_mem_rdata =
     (if opcode_out instr_mem_rdata \<in> {op_lui, op_auipc, op_jal, op_jalr, op_load, op_imm, op_reg}
      then slice_at 7 instr_mem_rdata else 0)"

section \<open>The control word\<close>

definition setControlWord ::
  "7 word \<Rightarrow> 2 word \<Rightarrow> 3 word \<Rightarrow> 2 word \<Rightarrow> 3 word \<Rightarrow> 2 word \<Rightarrow> 3 word \<Rightarrow>
   bool \<Rightarrow> bool \<Rightarrow> bool \<Rightarrow> 4 word \<Rightarrow> rv32i_control_word" where
  "setControlWord op pc_sel cmp_op cmp2_sel alu_op alu1_sel alu2_sel rd_mem wr_mem wr_reg rf_sel =
     \<lparr> aluop = alu_op, cmpop = cmp_op, cmpmux2_sel = cmp2_sel, alumux1_sel = alu1_sel,
       alumux2_sel = alu2_sel, regfilemux_sel = rf_sel, pcmux_sel = pc_sel, read_mem = rd_mem,
       write_mem = wr_mem, write_reg = wr_reg, opcode = op \<rparr>"

definition WordGenerator ::
  "rv32i_control_word \<Rightarrow> 7 word \<Rightarrow> 3 word \<Rightarrow> 7 word \<Rightarrow> rv32i_control_word" where
  "WordGenerator held op f3 f7 =
     (let alu_of_f3 = f3;
          load = (\<lambda>rf. setControlWord op pcmux_pc_plus4 f3 cmpmux2_rs2_out alu_add alumux1_rs1_out
                         alumux2_i_imm True False True rf);
          imm_alu = (\<lambda>a. setControlWord op pcmux_pc_plus4 f3 cmpmux2_rs2_out a alumux1_rs1_out
                         alumux2_i_imm False False True regfilemux_alu_out);
          reg_alu = (\<lambda>a. setControlWord op pcmux_pc_plus4 f3 cmpmux2_rs2_out a alumux1_rs1_out
                         alumux2_rs2_out False False True regfilemux_alu_out)
      in
      if op = op_auipc then
        setControlWord op pcmux_pc_plus4 f3 cmpmux2_rs2_out alu_add alumux1_pc_out
          alumux2_u_imm False False True regfilemux_alu_out
      else if op = op_lui then
        setControlWord op pcmux_pc_plus4 f3 cmpmux2_rs2_out alu_of_f3 alumux1_rs1_out
          alumux2_u_imm False False True regfilemux_u_imm
      else if op = op_jal then
        setControlWord op pcmux_alu_out f3 cmpmux2_rs2_out alu_add alumux1_pc_out
          alumux2_j_imm False False True regfilemux_pc_plus4
      else if op = op_jalr then
        setControlWord op pcmux_alu_mod2 f3 cmpmux2_rs2_out alu_add alumux1_rs1_out
          alumux2_i_imm False False True regfilemux_pc_plus4
      else if op = op_br then
        setControlWord op pcmux_cmp_out f3 cmpmux2_rs2_out alu_add alumux1_pc_out
          alumux2_b_imm False False False regfilemux_alu_out
      else if op = op_load then
        (if f3 = load_lb then load regfilemux_lb
         else if f3 = load_lh then load regfilemux_lh
         else if f3 = load_lw then load regfilemux_lw
         else if f3 = load_lbu then load regfilemux_lbu
         else if f3 = load_lhu then load regfilemux_lhu
         else held\<lparr>opcode := op\<rparr>)
      else if op = op_store then
        setControlWord op pcmux_pc_plus4 f3 cmpmux2_rs2_out alu_add alumux1_rs1_out
          alumux2_s_imm False True False regfilemux_alu_out
      else if op = op_imm then
        (if f3 = arith_slt then
           setControlWord op pcmux_pc_plus4 branch_blt cmpmux2_i_imm alu_sll alumux1_rs1_out
             alumux2_i_imm False False True regfilemux_br_en
         else if f3 = arith_sltu then
           setControlWord op pcmux_pc_plus4 branch_bltu cmpmux2_i_imm alu_sll alumux1_rs1_out
             alumux2_i_imm False False True regfilemux_br_en
         else if f3 = arith_sr then
           (if bit f7 5 then imm_alu alu_sra else imm_alu alu_srl)
         else imm_alu alu_of_f3)
      else if op = op_reg then
        (if f3 = arith_add then
           (if bit f7 5 then reg_alu alu_sub else reg_alu alu_add)
         else if f3 = arith_slt then
           setControlWord op pcmux_pc_plus4 branch_blt cmpmux2_rs2_out alu_sll alumux1_rs1_out
             alumux2_rs2_out False False True regfilemux_br_en
         else if f3 = arith_sltu then
           setControlWord op pcmux_pc_plus4 branch_bltu cmpmux2_rs2_out alu_sll alumux1_rs1_out
             alumux2_rs2_out False False True regfilemux_br_en
         else if f3 = arith_sr then
           (if bit f7 5 then reg_alu alu_sra else reg_alu alu_srl)
         else reg_alu alu_of_f3)
      else held\<lparr>opcode := op\<rparr>)"

definition control_word_out :: "rv32i_control_word \<Rightarrow> rv32i_word \<Rightarrow> rv32i_control_word" where
  "control_word_out held instr_mem_rdata =
     WordGenerator held (opcode_out instr_mem_rdata) (funct3_out instr_mem_rdata) (funct7 instr_mem_rdata)"

section \<open>The decoder never writes without a destination\<close>

text \<open>
  The guards of the forwarding network and of the register file compare register numbers only,
  and rely on this: an instruction that does not write has destination 0.
\<close>

lemma write_reg_WordGenerator:
  "op \<in> {op_lui, op_auipc, op_jal, op_jalr, op_imm, op_reg} \<Longrightarrow> write_reg (WordGenerator held op f3 f7)"
  "f3 \<in> {load_lb, load_lh, load_lw, load_lbu, load_lhu} \<Longrightarrow> write_reg (WordGenerator held op_load f3 f7)"
  by (elim insertE; simp add: WordGenerator_def Let_def setControlWord_def enum_defs)+

lemma rd_implies_write:
  assumes "rd_out instr \<noteq> 0" and "opcode_out instr = op_load \<Longrightarrow>
     funct3_out instr \<in> {load_lb, load_lh, load_lw, load_lbu, load_lhu}"
  shows "write_reg (control_word_out held instr)"
proof (cases "opcode_out instr = op_load")
  case True
  with assms(2) show ?thesis by (simp add: control_word_out_def write_reg_WordGenerator(2))
next
  case False
  then have "opcode_out instr \<in> {op_lui, op_auipc, op_jal, op_jalr, op_imm, op_reg}"
    using assms(1) by (auto simp: rd_out_def split: if_splits)
  then show ?thesis unfolding control_word_out_def by (rule write_reg_WordGenerator(1))
qed

end
