(* ===== verification/Hazards.thy ===== *)
theory Hazards
  imports Execute Decode
begin

text \<open>
  Data hazards: \<open>hdl/cpu_datapath/forwardingunit.sv\<close>, which selects the operands of the
  instruction in execute among the register file and the two instructions ahead of it, and
  \<open>hdl/cpu_datapath/stall.sv\<close>, which holds the stages on cache misses and after loads.
\<close>

section \<open>The forwarding unit\<close>

text \<open>The instruction in execute, and the ones in the memory and write-back stages.\<close>

record hazard_inputs =
  rs1_id_IdEx :: rv32i_reg
  rs2_id_IdEx :: rv32i_reg
  rs2_id_ExMem :: rv32i_reg
  rd_id_MemWb :: rv32i_reg
  rd_id_ExMem :: rv32i_reg
  control_word_IdEx :: rv32i_control_word
  control_word_ExMem :: rv32i_control_word
  control_word_MemWb :: rv32i_control_word

definition fwd_alumux1 :: "hazard_inputs \<Rightarrow> 2 word" where
  "fwd_alumux1 i =
     (let w1 = write_reg (control_word_ExMem i); w2 = write_reg (control_word_MemWb i);
          rs = rs1_id_IdEx i; op = opcode (control_word_IdEx i);
          sel = alumux1_sel (control_word_IdEx i);
          sel = (if w1 \<and> rd_id_ExMem i = rs \<and> rs \<noteq> 0 \<and> op \<noteq> op_br
                 then alumux1_alu_out_ExMem else sel)
      in if w2 \<and> \<not> (w1 \<and> rd_id_ExMem i = rs) \<and> rd_id_MemWb i = rs \<and> rs \<noteq> 0 \<and> op \<noteq> op_br
         then alumux1_r_data_MemWb else sel)"

definition fwd_alumux2 :: "hazard_inputs \<Rightarrow> 3 word" where
  "fwd_alumux2 i =
     (let w1 = write_reg (control_word_ExMem i); w2 = write_reg (control_word_MemWb i);
          rs = rs2_id_IdEx i; op = opcode (control_word_IdEx i);
          sel = alumux2_sel (control_word_IdEx i);
          sel = (if w1 \<and> rd_id_ExMem i = rs \<and> rs \<noteq> 0 \<and> op \<noteq> op_br \<and> op \<noteq> op_store
                 then alumux2_alu_out_ExMem else sel)
      in if w2 \<and> \<not> (w1 \<and> rd_id_ExMem i = rs) \<and> rd_id_MemWb i = rs \<and> rs \<noteq> 0 \<and> op \<noteq> op_br \<and> op \<noteq> op_store
         then alumux2_r_data_MemWb else sel)"

definition fwd_cachemux :: "hazard_inputs \<Rightarrow> 1 word" where
  "fwd_cachemux i =
     (if write_mem (control_word_ExMem i)
         \<and> (read_mem (control_word_MemWb i) \<and> write_reg (control_word_MemWb i))
         \<and> rs2_id_ExMem i = rd_id_MemWb i
      then cachemux_r_data_MemWb else cachemux_rs2_out_ExMem)"

definition fwd_cmpmux1 :: "hazard_inputs \<Rightarrow> 2 word" where
  "fwd_cmpmux1 i =
     (let w1 = write_reg (control_word_ExMem i); w2 = write_reg (control_word_MemWb i);
          rs = rs1_id_IdEx i;
          sel = cmpmux1_rs1_out;
          sel = (if w1 \<and> rd_id_ExMem i = rs \<and> rs \<noteq> 0 then cmpmux1_alu_out_ExMem else sel)
      in if w2 \<and> \<not> (w1 \<and> rd_id_ExMem i = rs) \<and> rd_id_MemWb i = rs \<and> rs \<noteq> 0
         then cmpmux1_r_data_MemWb else sel)"

definition fwd_cmpmux2 :: "hazard_inputs \<Rightarrow> 2 word" where
  "fwd_cmpmux2 i =
     (let w1 = write_reg (control_word_ExMem i); w2 = write_reg (control_word_MemWb i);
          rs = rs2_id_IdEx i;
          sel = cmpmux2_sel (control_word_IdEx i);
          sel = (if w1 \<and> rd_id_ExMem i = rs \<and> rs \<noteq> 0 then cmpmux2_alu_out_ExMem else sel)
      in if w2 \<and> \<not> (w1 \<and> rd_id_ExMem i = rs) \<and> rd_id_MemWb i = rs \<and> rs \<noteq> 0
         then cmpmux2_r_data_MemWb else sel)"

text \<open>The second test of the pass-through has no check that the older instruction writes.\<close>

definition fwd_rs2passmux :: "hazard_inputs \<Rightarrow> 2 word" where
  "fwd_rs2passmux i =
     (let w1 = write_reg (control_word_ExMem i); rs = rs2_id_IdEx i;
          op = opcode (control_word_IdEx i);
          sel = 0;
          sel = (if w1 \<and> op = op_store \<and> rd_id_ExMem i = rs \<and> rs \<noteq> 0 then 1 else sel)
      in if \<not> (w1 \<and> rd_id_ExMem i = rs) \<and> op = op_store \<and> rd_id_MemWb i = rs \<and> rs \<noteq> 0
         then 2 else sel)"

definition forwardingunit :: "hazard_inputs \<Rightarrow> forwarding" where
  "forwardingunit i =
     \<lparr> alumux1_fwd = fwd_alumux1 i, alumux2_fwd = fwd_alumux2 i, cachemux_fwd = fwd_cachemux i,
       cmpmux1_fwd = fwd_cmpmux1 i, cmpmux2_fwd = fwd_cmpmux2 i, rs2passmux_fwd = fwd_rs2passmux i \<rparr>"

section \<open>The stall unit\<close>

record stalls =
  pc_stall :: bool
  stall_if_id :: bool
  stall_id_ex :: bool
  stall_ex_mem :: bool
  stall_mem_wb :: bool
  stall_nop_if_id :: bool
  stall_nop_id_ex :: bool

definition stall :: "bool \<Rightarrow> bool \<Rightarrow> rv32i_reg \<Rightarrow> bool \<Rightarrow> rv32i_reg \<Rightarrow> rv32i_reg \<Rightarrow> stalls" where
  "stall i_cache_miss d_cache_miss id_ex_rsd_id id_ex_read_mem if_id_rs1_id if_id_rs2_id =
     (if d_cache_miss then
        \<lparr> pc_stall = True, stall_if_id = True, stall_id_ex = True, stall_ex_mem = True,
          stall_mem_wb = True, stall_nop_if_id = False, stall_nop_id_ex = False \<rparr>
      else if i_cache_miss then
        \<lparr> pc_stall = True, stall_if_id = True, stall_id_ex = True, stall_ex_mem = True,
          stall_mem_wb = True, stall_nop_if_id = False, stall_nop_id_ex = False \<rparr>
      else if id_ex_read_mem \<and> (id_ex_rsd_id = if_id_rs1_id \<or> id_ex_rsd_id = if_id_rs2_id) then
        \<lparr> pc_stall = True, stall_if_id = True, stall_id_ex = True, stall_ex_mem = False,
          stall_mem_wb = False, stall_nop_if_id = False, stall_nop_id_ex = True \<rparr>
      else
        \<lparr> pc_stall = False, stall_if_id = False, stall_id_ex = False, stall_ex_mem = False,
          stall_mem_wb = False, stall_nop_if_id = False, stall_nop_id_ex = False \<rparr>)"

end
