(* ===== verification/Isa.thy ===== *)
theory Isa
  imports Decode Bswap
begin

text \<open>
  The contract of the processor: the RV32I base instructions, with operations stated on integers
  and memory as bytes, and their encodings as the instruction-set manual lays out the six
  formats. Nothing here is taken from the processor's code; the theories that follow compare its
  stages with these definitions.
\<close>

section \<open>Instructions and meaning\<close>

datatype alu_kind = Add | Sub | Sll | Slt | Sltu | Xor | Srl | Sra | Or | And
datatype cond = Eq | Ne | Lt | Ge | Ltu | Geu
datatype width = Byte | Half | Full

datatype instr =
  Lui rv32i_reg "20 word"
| Auipc rv32i_reg "20 word"
| Jal rv32i_reg "20 word"
| Jalr rv32i_reg rv32i_reg "12 word"
| Branch cond rv32i_reg rv32i_reg "12 word"
| Load width bool rv32i_reg rv32i_reg "12 word"
| Store width rv32i_reg rv32i_reg "12 word"
| Op_imm alu_kind rv32i_reg rv32i_reg "12 word"
| Op alu_kind rv32i_reg rv32i_reg rv32i_reg

fun isa_alu :: "alu_kind \<Rightarrow> u32 \<Rightarrow> u32 \<Rightarrow> u32" where
  "isa_alu Add x y = word_of_int (sint x + sint y)"
| "isa_alu Sub x y = word_of_int (sint x - sint y)"
| "isa_alu Sll x y = word_of_int (uint x * 2 ^ (unat y mod 32))"
| "isa_alu Slt x y = (if sint x < sint y then 1 else 0)"
| "isa_alu Sltu x y = (if uint x < uint y then 1 else 0)"
| "isa_alu Xor x y = x XOR y"
| "isa_alu Srl x y = word_of_int (uint x div 2 ^ (unat y mod 32))"
| "isa_alu Sra x y = word_of_int (sint x div 2 ^ (unat y mod 32))"
| "isa_alu Or x y = x OR y"
| "isa_alu And x y = x AND y"

fun isa_cond :: "cond \<Rightarrow> u32 \<Rightarrow> u32 \<Rightarrow> bool" where
  "isa_cond Eq x y \<longleftrightarrow> x = y"
| "isa_cond Ne x y \<longleftrightarrow> x \<noteq> y"
| "isa_cond Lt x y \<longleftrightarrow> sint x < sint y"
| "isa_cond Ge x y \<longleftrightarrow> sint y \<le> sint x"
| "isa_cond Ltu x y \<longleftrightarrow> uint x < uint y"
| "isa_cond Geu x y \<longleftrightarrow> uint y \<le> uint x"

text \<open>Offsets: twelve bits count bytes, except in branches and jumps, which count half-words.\<close>

definition byte_offset :: "12 word \<Rightarrow> u32" where
  "byte_offset v = word_of_int (sint v)"

definition half_offset :: "'a::len word \<Rightarrow> u32" where
  "half_offset v = word_of_int (2 * sint v)"

definition upper :: "20 word \<Rightarrow> u32" where
  "upper v = word_of_int (uint v * 2 ^ 12)"

text \<open>Memory is bytes; the processor reads and writes the aligned word around an address.\<close>

type_synonym memory = "u32 \<Rightarrow> u8"

fun bytes_of_width :: "width \<Rightarrow> nat" where
  "bytes_of_width Byte = 1"
| "bytes_of_width Half = 2"
| "bytes_of_width Full = 4"

definition load_bytes :: "memory \<Rightarrow> u32 \<Rightarrow> nat \<Rightarrow> u8 list" where
  "load_bytes m a n = map (\<lambda>k. m (a + of_nat k)) [0..<n]"

definition word_at :: "memory \<Rightarrow> u32 \<Rightarrow> u32" where
  "word_at m a = le_word (load_bytes m (a AND NOT 3) 4)"

fun isa_load :: "width \<Rightarrow> bool \<Rightarrow> memory \<Rightarrow> u32 \<Rightarrow> u32" where
  "isa_load Byte u m a = (if u then ucast (m a) else scast (m a))"
| "isa_load Half u m a =
     (let h = le_word (load_bytes m a 2) :: u16 in if u then ucast h else scast h)"
| "isa_load Full u m a = le_word (load_bytes m a 4)"

definition isa_store :: "width \<Rightarrow> memory \<Rightarrow> u32 \<Rightarrow> u32 \<Rightarrow> memory" where
  "isa_store w m a x =
     (\<lambda>b. if unat (b - a) < bytes_of_width w then slice_at (8 * unat (b - a)) x else m b)"

definition aligned :: "width \<Rightarrow> u32 \<Rightarrow> bool" where
  "aligned w a \<longleftrightarrow> unat a mod bytes_of_width w = 0"

text \<open>
  The effect of an instruction at \<open>pc\<close> with source values \<open>x\<close> and \<open>y\<close>: the value for the
  destination, the next program counter and the memory.
\<close>

record effect =
  rd_value :: "u32 option"
  next_pc :: u32
  memory_after :: memory

fun isa_exec :: "instr \<Rightarrow> u32 \<Rightarrow> u32 \<Rightarrow> u32 \<Rightarrow> memory \<Rightarrow> effect" where
  "isa_exec (Lui rd v) pc x y m = \<lparr> rd_value = Some (upper v), next_pc = pc + 4, memory_after = m \<rparr>"
| "isa_exec (Auipc rd v) pc x y m = \<lparr> rd_value = Some (pc + upper v), next_pc = pc + 4, memory_after = m \<rparr>"
| "isa_exec (Jal rd v) pc x y m = \<lparr> rd_value = Some (pc + 4), next_pc = pc + half_offset v, memory_after = m \<rparr>"
| "isa_exec (Jalr rd rs1 v) pc x y m =
     \<lparr> rd_value = Some (pc + 4), next_pc = (x + byte_offset v) AND NOT 1, memory_after = m \<rparr>"
| "isa_exec (Branch c rs1 rs2 v) pc x y m =
     \<lparr> rd_value = None, next_pc = (if isa_cond c x y then pc + half_offset v else pc + 4), memory_after = m \<rparr>"
| "isa_exec (Load w u rd rs1 v) pc x y m =
     \<lparr> rd_value = Some (isa_load w u m (x + byte_offset v)), next_pc = pc + 4, memory_after = m \<rparr>"
| "isa_exec (Store w rs1 rs2 v) pc x y m =
     \<lparr> rd_value = None, next_pc = pc + 4, memory_after = isa_store w m (x + byte_offset v) y \<rparr>"
| "isa_exec (Op_imm k rd rs1 v) pc x y m =
     \<lparr> rd_value = Some (isa_alu k x (byte_offset v)), next_pc = pc + 4, memory_after = m \<rparr>"
| "isa_exec (Op k rd rs1 rs2) pc x y m =
     \<lparr> rd_value = Some (isa_alu k x y), next_pc = pc + 4, memory_after = m \<rparr>"

section \<open>Encodings\<close>

definition r_format :: "7 word \<Rightarrow> rv32i_reg \<Rightarrow> rv32i_reg \<Rightarrow> 3 word \<Rightarrow> rv32i_reg \<Rightarrow> 7 word \<Rightarrow> u32" where
  "r_format f7 rs2 rs1 f3 rd op =
     word_cat f7 (word_cat rs2 (word_cat rs1 (word_cat f3 (word_cat rd op :: 12 word) :: 15 word) :: 20 word) :: 25 word)"

definition i_format :: "12 word \<Rightarrow> rv32i_reg \<Rightarrow> 3 word \<Rightarrow> rv32i_reg \<Rightarrow> 7 word \<Rightarrow> u32" where
  "i_format v rs1 f3 rd op = r_format (slice_at 5 v) (slice_at 0 v) rs1 f3 rd op"

definition s_format :: "12 word \<Rightarrow> rv32i_reg \<Rightarrow> rv32i_reg \<Rightarrow> 3 word \<Rightarrow> 7 word \<Rightarrow> u32" where
  "s_format v rs2 rs1 f3 op = r_format (slice_at 5 v) rs2 rs1 f3 (slice_at 0 v) op"

text \<open>\<open>v\<close> is \<open>imm[12:1]\<close>.\<close>

definition b_format :: "12 word \<Rightarrow> rv32i_reg \<Rightarrow> rv32i_reg \<Rightarrow> 3 word \<Rightarrow> 7 word \<Rightarrow> u32" where
  "b_format v rs2 rs1 f3 op =
     r_format (word_cat (slice_at 11 v :: 1 word) (slice_at 4 v :: 6 word)) rs2 rs1 f3
       (word_cat (slice_at 0 v :: 4 word) (slice_at 10 v :: 1 word)) op"

definition u_format :: "20 word \<Rightarrow> rv32i_reg \<Rightarrow> 7 word \<Rightarrow> u32" where
  "u_format v rd op = r_format (slice_at 13 v) (slice_at 8 v) (slice_at 3 v) (slice_at 0 v) rd op"

text \<open>\<open>v\<close> is \<open>imm[20:1]\<close>.\<close>

definition j_format :: "20 word \<Rightarrow> rv32i_reg \<Rightarrow> 7 word \<Rightarrow> u32" where
  "j_format v rd op =
     u_format (word_cat (slice_at 19 v :: 1 word)
       (word_cat (slice_at 0 v :: 10 word)
         (word_cat (slice_at 10 v :: 1 word) (slice_at 11 v :: 8 word) :: 9 word) :: 19 word)) rd op"

fun alu_funct3 :: "alu_kind \<Rightarrow> 3 word" where
  "alu_funct3 Add = 0" | "alu_funct3 Sub = 0" | "alu_funct3 Sll = 1" | "alu_funct3 Slt = 2"
| "alu_funct3 Sltu = 3" | "alu_funct3 Xor = 4" | "alu_funct3 Srl = 5" | "alu_funct3 Sra = 5"
| "alu_funct3 Or = 6" | "alu_funct3 And = 7"

fun cond_funct3 :: "cond \<Rightarrow> 3 word" where
  "cond_funct3 Eq = 0" | "cond_funct3 Ne = 1" | "cond_funct3 Lt = 4" | "cond_funct3 Ge = 5"
| "cond_funct3 Ltu = 6" | "cond_funct3 Geu = 7"

fun width_funct3 :: "width \<Rightarrow> 3 word" where
  "width_funct3 Byte = 0" | "width_funct3 Half = 1" | "width_funct3 Full = 2"

definition alternate :: "alu_kind \<Rightarrow> bool" where
  "alternate k \<longleftrightarrow> k = Sub \<or> k = Sra"

fun encode :: "instr \<Rightarrow> u32" where
  "encode (Lui rd v) = u_format v rd 0x37"
| "encode (Auipc rd v) = u_format v rd 0x17"
| "encode (Jal rd v) = j_format v rd 0x6f"
| "encode (Jalr rd rs1 v) = i_format v rs1 0 rd 0x67"
| "encode (Branch c rs1 rs2 v) = b_format v rs2 rs1 (cond_funct3 c) 0x63"
| "encode (Load w u rd rs1 v) = i_format v rs1 (width_funct3 w OR (if u then 4 else 0)) rd 0x03"
| "encode (Store w rs1 rs2 v) = s_format v rs2 rs1 (width_funct3 w) 0x23"
| "encode (Op_imm k rd rs1 v) =
     i_format (if alternate k then v OR 0x400 else v) rs1 (alu_funct3 k) rd 0x13"
| "encode (Op k rd rs1 rs2) =
     r_format (if alternate k then 0x20 else 0) rs2 rs1 (alu_funct3 k) rd 0x33"

text \<open>
  What the manual allows: no subtraction of immediates, five-bit shift amounts, and no unsigned
  load of a full word.
\<close>

fun valid :: "instr \<Rightarrow> bool" where
  "valid (Op_imm k rd rs1 v) \<longleftrightarrow> k \<noteq> Sub \<and> (k \<in> {Sll, Srl, Sra} \<longrightarrow> uint v < 32)"
| "valid (Load w u rd rs1 v) \<longleftrightarrow> \<not> (w = Full \<and> u)"
| "valid _ \<longleftrightarrow> True"

end
