(* ===== verification/Decode_Correct.thy ===== *)
theory Decode_Correct
  imports Isa Decode
begin

text \<open>
  The decode stage inverts the encodings of the manual: every field, register number and
  immediate of an encoded instruction is found again, and the control word is the one the
  instruction needs.
\<close>

section \<open>Fields and immediates\<close>

lemma r_fields:
  "slice_at 0 (r_format f7 rs2 rs1 f3 rd op) = op"
  "slice_at 7 (r_format f7 rs2 rs1 f3 rd op) = rd"
  "slice_at 12 (r_format f7 rs2 rs1 f3 rd op) = f3"
  "slice_at 15 (r_format f7 rs2 rs1 f3 rd op) = rs1"
  "slice_at 20 (r_format f7 rs2 rs1 f3 rd op) = rs2"
  "slice_at 25 (r_format f7 rs2 rs1 f3 rd op) = f7"
  by (rule bit_word_eqI; simp add: r_format_def bit_word_cat_iff)+

lemma bit_byte_offset: "bit (byte_offset v) n \<longleftrightarrow> n < 32 \<and> bit v (min n 11)"
  by (auto simp: byte_offset_def bit_signed_iff min_def not_le dest: bit_imp_le_length)

lemma bit_half_offset:
  "bit (half_offset (v :: 'a::len word)) n \<longleftrightarrow> 0 < n \<and> n < 32 \<and> bit v (min (n - 1) (LENGTH('a) - 1))"
  by (cases n) (auto simp: half_offset_def bit_signed_iff bit_of_int_iff bit_double_iff bit_sint_iff min_def not_le
      dest: bit_imp_le_length, (metis Suc_pred len_gt_0 less_Suc_eq_le le_antisym)+)

lemma bit_upper: "bit (upper v) n \<longleftrightarrow> 12 \<le> n \<and> n < 32 \<and> bit v (n - 12)"
proof -
  have "upper v = push_bit 12 (ucast v)" by (simp add: upper_def push_bit_eq_mult)
  then show ?thesis by (auto simp: bit_push_bit_iff bit_ucast_iff)
qed

lemmas format_bits = r_format_def i_format_def s_format_def b_format_def u_format_def j_format_def
  bit_word_cat_iff bit_byte_offset bit_half_offset bit_upper

lemma imm_formats:
  "i_imm_out (i_format v rs1 f3 rd op) = byte_offset v"
  "s_imm_out (s_format v rs2 rs1 f3 op) = byte_offset v"
  "u_imm_out (u_format v' rd op) = upper v'"
  by (rule bit_word_eqI; simp add: i_imm_out_def s_imm_out_def u_imm_out_def format_bits;
      auto intro!: arg_cong [of _ _ "bit v"])+

lemma jump_formats:
  "b_imm_out (b_format v rs2 rs1 f3 op) = half_offset v"
  "j_imm_out (j_format v' rd op) = half_offset v'"
  by (rule bit_word_eqI; simp add: b_imm_out_def j_imm_out_def format_bits;
      auto intro!: arg_cong [of _ _ "bit v"] arg_cong [of _ _ "bit v'"])+

section \<open>Instructions\<close>

lemma format_fields:
  "opcode_out (r_format f7 rs2 rs1 f3 rd op) = op" "funct3_out (r_format f7 rs2 rs1 f3 rd op) = f3"
  "funct7 (r_format f7 rs2 rs1 f3 rd op) = f7"
  "opcode_out (i_format v rs1 f3 rd op) = op" "funct3_out (i_format v rs1 f3 rd op) = f3"
  "opcode_out (s_format v rs2 rs1 f3 op) = op" "funct3_out (s_format v rs2 rs1 f3 op) = f3"
  "opcode_out (b_format v rs2 rs1 f3 op) = op" "funct3_out (b_format v rs2 rs1 f3 op) = f3"
  "opcode_out (u_format w rd op) = op" "opcode_out (j_format w rd op) = op"
  by (simp_all add: opcode_out_def funct3_out_def funct7_def r_fields i_format_def s_format_def
      b_format_def u_format_def j_format_def)

lemma register_fields:
  "slice_at 7 (i_format v rs1 f3 rd op) = rd" "slice_at 15 (i_format v rs1 f3 rd op) = rs1"
  "slice_at 20 (s_format v rs2 rs1 f3 op) = rs2" "slice_at 15 (s_format v rs2 rs1 f3 op) = rs1"
  "slice_at 20 (b_format v rs2 rs1 f3 op) = rs2" "slice_at 15 (b_format v rs2 rs1 f3 op) = rs1"
  "slice_at 7 (u_format w rd op) = rd" "slice_at 7 (j_format w rd op) = rd"
  by (simp_all add: r_fields i_format_def s_format_def b_format_def u_format_def j_format_def)

text \<open>The registers an instruction names, 0 where it has none, and its immediate.\<close>

fun dest_of :: "instr \<Rightarrow> rv32i_reg" where
  "dest_of (Lui rd _) = rd" | "dest_of (Auipc rd _) = rd" | "dest_of (Jal rd _) = rd"
| "dest_of (Jalr rd _ _) = rd" | "dest_of (Branch _ _ _ _) = 0" | "dest_of (Load _ _ rd _ _) = rd"
| "dest_of (Store _ _ _ _) = 0" | "dest_of (Op_imm _ rd _ _) = rd" | "dest_of (Op _ rd _ _) = rd"

fun source1_of :: "instr \<Rightarrow> rv32i_reg" where
  "source1_of (Jalr _ rs1 _) = rs1" | "source1_of (Branch _ rs1 _ _) = rs1"
| "source1_of (Load _ _ _ rs1 _) = rs1" | "source1_of (Store _ rs1 _ _) = rs1"
| "source1_of (Op_imm _ _ rs1 _) = rs1" | "source1_of (Op _ _ rs1 _) = rs1" | "source1_of _ = 0"

fun source2_of :: "instr \<Rightarrow> rv32i_reg" where
  "source2_of (Branch _ _ rs2 _) = rs2" | "source2_of (Store _ _ rs2 _) = rs2"
| "source2_of (Op _ _ _ rs2) = rs2" | "source2_of _ = 0"

fun opcode_of :: "instr \<Rightarrow> 7 word" where
  "opcode_of (Lui _ _) = op_lui" | "opcode_of (Auipc _ _) = op_auipc" | "opcode_of (Jal _ _) = op_jal"
| "opcode_of (Jalr _ _ _) = op_jalr" | "opcode_of (Branch _ _ _ _) = op_br"
| "opcode_of (Load _ _ _ _ _) = op_load" | "opcode_of (Store _ _ _ _) = op_store"
| "opcode_of (Op_imm _ _ _ _) = op_imm" | "opcode_of (Op _ _ _ _) = op_reg"

lemmas opcode_defs = op_lui_def op_auipc_def op_jal_def op_jalr_def op_br_def op_load_def op_store_def
  op_imm_def op_reg_def

lemma opcode_encode [simp]: "opcode_out (encode i) = opcode_of i"
  by (cases i) (simp_all add: format_fields opcode_defs)

lemma registers_encode [simp]:
  "rd_out (encode i) = dest_of i" "rs1_id (encode i) = source1_of i" "rs2_id (encode i) = source2_of i"
  unfolding rd_out_def rs1_id_def rs2_id_def opcode_encode
  by (cases i; simp add: opcode_defs register_fields r_fields)+
section \<open>Control words\<close>

fun alu_code :: "alu_kind \<Rightarrow> 3 word" where
  "alu_code Add = alu_add" | "alu_code Sub = alu_sub" | "alu_code Sll = alu_sll" | "alu_code Slt = alu_sll"
| "alu_code Sltu = alu_sll" | "alu_code Xor = alu_xor" | "alu_code Srl = alu_srl" | "alu_code Sra = alu_sra"
| "alu_code Or = alu_or" | "alu_code And = alu_and"

definition compares :: "alu_kind \<Rightarrow> bool" where
  "compares k \<longleftrightarrow> k = Slt \<or> k = Sltu"

lemma funct7_i_format: "funct7 (i_format v rs1 f3 rd op) = slice_at 5 v"
  by (simp add: funct7_def i_format_def r_fields)

lemma shift_amount_bit: "uint (v :: 12 word) < 32 \<Longrightarrow> \<not> bit v 10"
proof
  assume v: "uint v < 32" and b: "bit v 10"
  have "take_bit 5 (uint v) = uint v" using v by (intro take_bit_int_eq_self) simp_all
  then have "bit (uint v) 10 \<longleftrightarrow> bit (take_bit 5 (uint v)) 10" by simp
  also have "\<dots> \<longleftrightarrow> False" by (simp only: bit_take_bit_iff) simp
  finally show False using b by (simp add: bit_uint_iff)
qed

lemma control_op:
  "control_word_out held (encode (Op k rd rs1 rs2)) =
     setControlWord op_reg pcmux_pc_plus4 (if k = Slt then branch_blt else if k = Sltu then branch_bltu else alu_funct3 k)
       cmpmux2_rs2_out (alu_code k) alumux1_rs1_out alumux2_rs2_out False False True
       (if compares k then regfilemux_br_en else regfilemux_alu_out)"
  by (cases k) (simp_all add: control_word_out_def format_fields WordGenerator_def Let_def enum_defs compares_def alternate_def)

lemma control_op_imm:
  assumes "valid (Op_imm k rd rs1 v)"
  shows "control_word_out held (encode (Op_imm k rd rs1 v)) =
     setControlWord op_imm pcmux_pc_plus4 (if k = Slt then branch_blt else if k = Sltu then branch_bltu else alu_funct3 k)
       (if compares k then cmpmux2_i_imm else cmpmux2_rs2_out) (alu_code k) alumux1_rs1_out alumux2_i_imm False False True
       (if compares k then regfilemux_br_en else regfilemux_alu_out)"
  using assms shift_amount_bit [of v]
  by (cases k) (simp_all add: control_word_out_def format_fields funct7_i_format WordGenerator_def Let_def enum_defs
      compares_def alternate_def bit_or_iff)

lemma control_upper:
  "control_word_out held (encode (Lui rd v)) =
     setControlWord op_lui pcmux_pc_plus4 (funct3_out (encode (Lui rd v))) cmpmux2_rs2_out (funct3_out (encode (Lui rd v)))
       alumux1_rs1_out alumux2_u_imm False False True regfilemux_u_imm"
  "control_word_out held (encode (Auipc rd v)) =
     setControlWord op_auipc pcmux_pc_plus4 (funct3_out (encode (Auipc rd v))) cmpmux2_rs2_out alu_add
       alumux1_pc_out alumux2_u_imm False False True regfilemux_alu_out"
  unfolding control_word_out_def opcode_encode by (simp_all add: WordGenerator_def Let_def enum_defs)

lemma control_jump:
  "control_word_out held (encode (Jal rd w)) =
     setControlWord op_jal pcmux_alu_out (funct3_out (encode (Jal rd w))) cmpmux2_rs2_out alu_add
       alumux1_pc_out alumux2_j_imm False False True regfilemux_pc_plus4"
  "control_word_out held (encode (Jalr rd rs1 v)) =
     setControlWord op_jalr pcmux_alu_mod2 0 cmpmux2_rs2_out alu_add
       alumux1_rs1_out alumux2_i_imm False False True regfilemux_pc_plus4"
  "control_word_out held (encode (Branch c rs1 rs2 v)) =
     setControlWord op_br pcmux_cmp_out (cond_funct3 c) cmpmux2_rs2_out alu_add
       alumux1_pc_out alumux2_b_imm False False False regfilemux_alu_out"
  unfolding control_word_out_def opcode_encode by (simp_all add: WordGenerator_def Let_def enum_defs format_fields)

fun load_select :: "width \<Rightarrow> bool \<Rightarrow> 4 word" where
  "load_select Byte u = (if u then regfilemux_lbu else regfilemux_lb)"
| "load_select Half u = (if u then regfilemux_lhu else regfilemux_lh)"
| "load_select Full u = regfilemux_lw"

lemma control_memory:
  "valid (Load w u rd rs1 v) \<Longrightarrow> control_word_out held (encode (Load w u rd rs1 v)) =
     setControlWord op_load pcmux_pc_plus4 (width_funct3 w OR (if u then 4 else 0)) cmpmux2_rs2_out alu_add
       alumux1_rs1_out alumux2_i_imm True False True (load_select w u)"
  "control_word_out held (encode (Store w rs1 rs2 v)) =
     setControlWord op_store pcmux_pc_plus4 (width_funct3 w) cmpmux2_rs2_out alu_add
       alumux1_rs1_out alumux2_s_imm False True False regfilemux_alu_out"
  unfolding control_word_out_def opcode_encode
  by (cases w; cases u; simp add: WordGenerator_def Let_def enum_defs format_fields)
    (simp_all add: WordGenerator_def Let_def enum_defs format_fields)

lemmas control_encode = control_op control_op_imm control_upper control_jump control_memory

text \<open>The immediate of the instruction's format.\<close>

lemma immediates_encode:
  "u_imm_out (encode (Lui rd w)) = upper w" "u_imm_out (encode (Auipc rd w)) = upper w"
  "j_imm_out (encode (Jal rd w)) = half_offset w" "i_imm_out (encode (Jalr rd rs1 v)) = byte_offset v"
  "b_imm_out (encode (Branch c rs1 rs2 v)) = half_offset v" "i_imm_out (encode (Load wd u rd rs1 v)) = byte_offset v"
  "s_imm_out (encode (Store wd rs1 rs2 v)) = byte_offset v"
  "\<not> alternate k \<Longrightarrow> i_imm_out (encode (Op_imm k rd rs1 v)) = byte_offset v"
  "i_imm_out (encode (Op_imm Sra rd rs1 v)) = byte_offset (v OR 0x400)"
  by (simp_all add: imm_formats jump_formats alternate_def)


end
