(* ===== verification/Execute_Correct.thy ===== *)
theory Execute_Correct
  imports Hazards Decode_Correct
begin

text \<open>
  The execute stage with its forwarding network against the instruction set: for every encoded
  instruction the stage computes the instruction's value on the register contents of program
  order, which the forwarding unit gathers from the register file and the two instructions ahead.
\<close>

declare encode.simps [simp del]

section \<open>The arithmetic unit and the comparator\<close>

lemma shift_amount: "unat (ucast (b :: u32) :: 5 word) = unat b mod 32"
  by (simp add: unsigned_ucast_eq take_bit_eq_mod)

lemma signed_drop_bit_word: "signed_drop_bit n (a :: u32) = word_of_int (sint a div 2 ^ n)"
proof -
  have "signed_drop_bit n a = word_of_int (sint (signed_drop_bit n a))" by simp
  also have "sint (signed_drop_bit n a) = sint a div 2 ^ n"
    by (simp only: sint_signed_drop_bit_eq drop_bit_eq_div)
  finally show ?thesis .
qed

lemma drop_bit_word: "drop_bit n (a :: u32) = word_of_int (uint a div 2 ^ n)"
proof -
  have "word_of_int (uint a div 2 ^ n) = (word_of_int (drop_bit n (uint a)) :: u32)"
    by (simp only: drop_bit_eq_div)
  also have "\<dots> = drop_bit n a"
    by (rule bit_word_eqI) (simp add: bit_of_int_iff bit_drop_bit_eq bit_uint_iff, auto dest: bit_imp_le_length)
  finally show ?thesis by simp
qed

lemma alu_correct: "\<not> compares k \<Longrightarrow> alu (alu_code k) a b = isa_alu k a b"
  by (cases k) (simp_all only: alu_def Let_def enum_defs shift_amount compares_def alu_code.simps isa_alu.simps
      signed_drop_bit_word drop_bit_word, simp_all add: push_bit_eq_mult)

lemma cmp_correct: "cmp held (cond_funct3 c) a b = isa_cond c a b"
  by (cases c) (simp_all only: cmp_def enum_defs word_sless_alt word_sle_eq word_less_def word_le_def
      cond_funct3.simps isa_cond.simps, simp_all)

lemma cmp_slt: 
  "cmp held branch_blt a b \<longleftrightarrow> sint a < sint b" "cmp held branch_bltu a b \<longleftrightarrow> uint a < uint b"
  by (simp_all only: cmp_def enum_defs word_sless_alt word_less_def, simp_all)

lemma sra_immediate: "isa_alu Sra x (byte_offset (v OR 0x400)) = isa_alu Sra x (byte_offset v)"
proof -
  have "(0x400 :: 12 word) = push_bit 10 1" by (simp add: push_bit_eq_mult)
  then have low: "bit (v OR 0x400) n \<longleftrightarrow> bit v n" if "n < 5" for n
    using that by (simp only: bit_or_iff bit_push_bit_iff) simp
  have "take_bit 5 (byte_offset (v OR 0x400)) = take_bit 5 (byte_offset v)"
    by (rule bit_word_eqI) (auto simp only: bit_take_bit_iff bit_byte_offset low min_def split: if_splits)
  then have "unat (byte_offset (v OR 0x400)) mod 2 ^ 5 = unat (byte_offset v) mod 2 ^ 5"
    by (metis unsigned_take_bit_eq take_bit_eq_mod)
  then have "unat (byte_offset (v OR 0x400)) mod 32 = unat (byte_offset v) mod 32"
    using power_numeral [of "num.Bit0 num.One" "num.Bit1 (num.Bit0 num.One)", where 'a = nat] by simp
  then show ?thesis by (simp only: isa_alu.simps)
qed

section \<open>Operands\<close>

text \<open>
  The value register \<open>rs\<close> has for the instruction in execute: the result of the nearest older
  instruction that writes it, or what the register file delivered.
\<close>

definition operand :: "hazard_inputs \<Rightarrow> ex_inputs \<Rightarrow> rv32i_reg \<Rightarrow> rv32i_word \<Rightarrow> rv32i_word" where
  "operand hz inp rs base =
     (if rs = 0 then base
      else if write_reg (control_word_ExMem hz) \<and> rd_id_ExMem hz = rs then data_from_exmem_in inp
      else if write_reg (control_word_MemWb hz) \<and> rd_id_MemWb hz = rs then data_from_memwb_in inp
      else base)"

abbreviation operand1 :: "hazard_inputs \<Rightarrow> ex_inputs \<Rightarrow> rv32i_word" where
  "operand1 hz inp \<equiv> operand hz inp (rs1_id_IdEx hz) (reg_data_1_in inp)"

abbreviation operand2 :: "hazard_inputs \<Rightarrow> ex_inputs \<Rightarrow> rv32i_word" where
  "operand2 hz inp \<equiv> operand hz inp (rs2_id_IdEx hz) (reg_data_2_in inp)"

lemma alu_operand1:
  assumes "opcode (control_word_IdEx hz) \<noteq> op_br"
    and "alumux1_sel (control_word_IdEx hz) = alumux1_rs1_out"
  shows "mux1_out (fwd_alumux1 hz) inp = operand1 hz inp"
  using assms by (simp add: fwd_alumux1_def operand_def mux1_out_def Let_def enum_defs)

lemma alu_pc:
  assumes "alumux1_sel (control_word_IdEx hz) = alumux1_pc_out"
    and "rs1_id_IdEx hz = 0 \<or> opcode (control_word_IdEx hz) = op_br"
  shows "mux1_out (fwd_alumux1 hz) inp = pc_reg_in inp"
  using assms by (auto simp: fwd_alumux1_def mux1_out_def Let_def enum_defs)

lemma alu_operand2:
  assumes "opcode (control_word_IdEx hz) \<notin> {op_br, op_store}"
    and "alumux2_sel (control_word_IdEx hz) = alumux2_rs2_out"
  shows "mux2_out (fwd_alumux2 hz) inp = operand2 hz inp"
  using assms by (simp add: fwd_alumux2_def operand_def mux2_out_def Let_def enum_defs)

lemma alu_immediate:
  assumes "rs2_id_IdEx hz = 0 \<or> opcode (control_word_IdEx hz) \<in> {op_br, op_store}"
  shows "fwd_alumux2 hz = alumux2_sel (control_word_IdEx hz)"
  using assms by (auto simp: fwd_alumux2_def Let_def)

lemma cmp_operand1: "cmpmux1_out held (fwd_cmpmux1 hz) inp = operand1 hz inp"
  by (simp add: fwd_cmpmux1_def operand_def cmpmux1_out_def Let_def enum_defs)

lemma cmp_operand2:
  assumes "cmpmux2_sel (control_word_IdEx hz) = cmpmux2_rs2_out"
  shows "cmpmux2_out (fwd_cmpmux2 hz) inp = operand2 hz inp"
  using assms by (simp add: fwd_cmpmux2_def operand_def cmpmux2_out_def Let_def enum_defs)

lemma cmp_immediate:
  assumes "cmpmux2_sel (control_word_IdEx hz) = cmpmux2_i_imm" and "rs2_id_IdEx hz = 0"
  shows "cmpmux2_out (fwd_cmpmux2 hz) inp = i_imm_in inp"
  using assms by (simp add: fwd_cmpmux2_def cmpmux2_out_def Let_def enum_defs)

lemma store_operand2:
  assumes "opcode (control_word_IdEx hz) = op_store"
    and "rd_id_MemWb hz \<noteq> 0 \<longrightarrow> write_reg (control_word_MemWb hz)"
  shows "rs2passmux_out held (fwd_rs2passmux hz) inp = operand2 hz inp"
  using assms by (auto simp: fwd_rs2passmux_def operand_def rs2passmux_out_def Let_def)

section \<open>The execute stage\<close>

text \<open>
  The decode registers for an instruction word \<open>w\<close> at \<open>pc\<close>: its register numbers and control
  word for the forwarding unit, its immediates for the multiplexers.
\<close>

definition holds_instr :: "rv32i_word \<Rightarrow> u32 \<Rightarrow> rv32i_control_word \<Rightarrow> hazard_inputs \<Rightarrow> ex_inputs \<Rightarrow> bool" where
  "holds_instr w pc held hz inp \<longleftrightarrow>
     rs1_id_IdEx hz = rs1_id w \<and> rs2_id_IdEx hz = rs2_id w
     \<and> control_word_IdEx hz = control_word_out held w
     \<and> pc_reg_in inp = pc \<and> i_imm_in inp = i_imm_out w \<and> s_imm_in inp = s_imm_out w
     \<and> b_imm_in inp = b_imm_out w \<and> u_imm_in inp = u_imm_out w \<and> j_imm_in inp = j_imm_out w"

abbreviation ex_stage :: "ex_held \<Rightarrow> hazard_inputs \<Rightarrow> ex_inputs \<Rightarrow> ex_outputs" where
  "ex_stage h hz inp \<equiv> execute h (control_word_IdEx hz) (forwardingunit hz) inp"

lemma execute_sel [simp]:
  "alu_out (ex_stage h hz inp) = alu (aluop (control_word_IdEx hz)) (mux1_out (fwd_alumux1 hz) inp) (mux2_out (fwd_alumux2 hz) inp)"
  "cmp_out (ex_stage h hz inp) = cmp (cmp_held h) (cmpop (control_word_IdEx hz)) (operand1 hz inp) (cmpmux2_out (fwd_cmpmux2 hz) inp)"
  "rs2_out (ex_stage h hz inp) = rs2passmux_out (rs2passmux_held h) (fwd_rs2passmux hz) inp"
  by (simp_all add: execute_def forwardingunit_def cmp_operand1)

text \<open>What the arithmetic unit computes for each instruction.\<close>

fun alu_value :: "instr \<Rightarrow> u32 \<Rightarrow> u32 \<Rightarrow> u32 \<Rightarrow> u32" where
  "alu_value (Auipc rd v) pc x y = pc + upper v"
| "alu_value (Jal rd v) pc x y = pc + half_offset v"
| "alu_value (Jalr rd rs1 v) pc x y = x + byte_offset v"
| "alu_value (Branch c rs1 rs2 v) pc x y = pc + half_offset v"
| "alu_value (Load w u rd rs1 v) pc x y = x + byte_offset v"
| "alu_value (Store w rs1 rs2 v) pc x y = x + byte_offset v"
| "alu_value (Op_imm k rd rs1 v) pc x y = isa_alu k x (byte_offset v)"
| "alu_value (Op k rd rs1 rs2) pc x y = isa_alu k x y"
| "alu_value (Lui rd v) pc x y = upper v"

fun uses_alu :: "instr \<Rightarrow> bool" where
  "uses_alu (Lui _ _) = False"
| "uses_alu (Op_imm k _ _ _) = (\<not> compares k)"
| "uses_alu (Op k _ _ _) = (\<not> compares k)"
| "uses_alu _ = True"

lemma alu_add_code: "alu alu_add a b = a + b" "alu 0 a b = a + b"
  by (simp_all add: alu_def Let_def enum_defs)

text \<open>The control word of an encoded instruction, field by field.\<close>

fun sel1_of :: "instr \<Rightarrow> 2 word" where
  "sel1_of (Auipc _ _) = alumux1_pc_out" | "sel1_of (Jal _ _) = alumux1_pc_out"
| "sel1_of (Branch _ _ _ _) = alumux1_pc_out" | "sel1_of _ = alumux1_rs1_out"

fun sel2_of :: "instr \<Rightarrow> 3 word" where
  "sel2_of (Lui _ _) = alumux2_u_imm" | "sel2_of (Auipc _ _) = alumux2_u_imm" | "sel2_of (Jal _ _) = alumux2_j_imm"
| "sel2_of (Branch _ _ _ _) = alumux2_b_imm" | "sel2_of (Store _ _ _ _) = alumux2_s_imm"
| "sel2_of (Op _ _ _ _) = alumux2_rs2_out" | "sel2_of _ = alumux2_i_imm"

fun aluop_of :: "instr \<Rightarrow> 3 word" where
  "aluop_of (Op k _ _ _) = alu_code k" | "aluop_of (Op_imm k _ _ _) = alu_code k" | "aluop_of _ = alu_add"

fun kind_cmpop :: "alu_kind \<Rightarrow> 3 word" where
  "kind_cmpop Slt = branch_blt" | "kind_cmpop Sltu = branch_bltu" | "kind_cmpop k = alu_funct3 k"

fun cmpsel_of :: "instr \<Rightarrow> 2 word" where
  "cmpsel_of (Op_imm k _ _ _) = (if compares k then cmpmux2_i_imm else cmpmux2_rs2_out)"
| "cmpsel_of _ = cmpmux2_rs2_out"

fun rf_of :: "instr \<Rightarrow> 4 word" where
  "rf_of (Lui _ _) = regfilemux_u_imm" | "rf_of (Jal _ _) = regfilemux_pc_plus4" | "rf_of (Jalr _ _ _) = regfilemux_pc_plus4"
| "rf_of (Load w u _ _ _) = load_select w u"
| "rf_of (Op_imm k _ _ _) = (if compares k then regfilemux_br_en else regfilemux_alu_out)"
| "rf_of (Op k _ _ _) = (if compares k then regfilemux_br_en else regfilemux_alu_out)"
| "rf_of _ = regfilemux_alu_out"

fun pcsel_of :: "instr \<Rightarrow> 2 word" where
  "pcsel_of (Jal _ _) = pcmux_alu_out" | "pcsel_of (Jalr _ _ _) = pcmux_alu_mod2"
| "pcsel_of (Branch _ _ _ _) = pcmux_cmp_out" | "pcsel_of _ = pcmux_pc_plus4"

fun writes :: "instr \<Rightarrow> bool" where
  "writes (Branch _ _ _ _) = False" | "writes (Store _ _ _ _) = False" | "writes _ = True"

fun is_load :: "instr \<Rightarrow> bool" where
  "is_load (Load _ _ _ _ _) = True" | "is_load _ = False"

fun is_store :: "instr \<Rightarrow> bool" where
  "is_store (Store _ _ _ _) = True" | "is_store _ = False"

lemma control_fields:
  assumes "valid i" and "cw = control_word_out held (encode i)"
  shows "opcode cw = opcode_of i" "alumux1_sel cw = sel1_of i" "alumux2_sel cw = sel2_of i"
    "uses_alu i \<Longrightarrow> aluop cw = aluop_of i" "cmpmux2_sel cw = cmpsel_of i" "regfilemux_sel cw = rf_of i"
    "pcmux_sel cw = pcsel_of i" "write_reg cw = writes i" "read_mem cw = is_load i" "write_mem cw = is_store i"
    "i = Branch c rs1 rs2 v \<Longrightarrow> cmpop cw = cond_funct3 c"
    "i = Op k rd rs1 rs2 \<or> i = Op_imm k rd rs1 v \<Longrightarrow> compares k \<Longrightarrow> cmpop cw = kind_cmpop k"
  using assms by (cases i; force simp: control_encode setControlWord_def compares_def)+

lemma holds_fields:
  assumes "holds_instr (encode i) pc held hz inp" and "valid i"
  shows "control_word_IdEx hz = control_word_out held (encode i)" "rs1_id_IdEx hz = source1_of i"
    "rs2_id_IdEx hz = source2_of i" "pc_reg_in inp = pc"
  using assms by (simp_all add: holds_instr_def)

lemma i_imm_op_imm:
  "isa_alu k x (i_imm_out (encode (Op_imm k rd rs1 v))) = isa_alu k x (byte_offset v)" if "k \<noteq> Sub"
proof (cases "k = Sra")
  case True
  then show ?thesis by (simp only: immediates_encode sra_immediate)
next
  case False
  with that have "\<not> alternate k" by (simp add: alternate_def)
  then show ?thesis by (simp add: immediates_encode)
qed

text \<open>The first operand of the arithmetic unit.\<close>

lemma ex_mux1:
  assumes "holds_instr (encode i) pc held hz inp" and "valid i"
  shows "mux1_out (fwd_alumux1 hz) inp = (if sel1_of i = alumux1_pc_out then pc else operand1 hz inp)"
proof (cases "sel1_of i = alumux1_pc_out")
  case True
  then have "source1_of i = 0 \<or> opcode_of i = op_br" by (cases i) (simp_all add: enum_defs)
  with True show ?thesis using holds_fields [OF assms] control_fields [OF assms(2) holds_fields(1) [OF assms]]
    by (simp add: alu_pc)
next
  case False
  then have "opcode_of i \<noteq> op_br" "sel1_of i = alumux1_rs1_out" by (cases i; simp add: enum_defs)+
  with False show ?thesis using control_fields [OF assms(2) holds_fields(1) [OF assms]]
    by (simp add: alu_operand1)
qed

lemma ex_mux2:
  assumes "holds_instr (encode i) pc held hz inp" and "valid i"
  shows "mux2_out (fwd_alumux2 hz) inp = (if sel2_of i = alumux2_rs2_out then operand2 hz inp else mux2_out (sel2_of i) inp)"
proof (cases "sel2_of i = alumux2_rs2_out")
  case True
  then have "opcode_of i \<notin> {op_br, op_store}" by (cases i) (simp_all add: enum_defs)
  with True show ?thesis using control_fields [OF assms(2) holds_fields(1) [OF assms]]
    by (simp add: alu_operand2)
next
  case False
  then have "source2_of i = 0 \<or> opcode_of i \<in> {op_br, op_store}" by (cases i; simp add: enum_defs)
  with False show ?thesis using holds_fields [OF assms] control_fields [OF assms(2) holds_fields(1) [OF assms]]
    by (simp add: alu_immediate)
qed

lemma ex_alu:
  assumes "holds_instr (encode i) pc held hz inp" and "valid i" and "uses_alu i"
  shows "alu_out (ex_stage h hz inp) = alu_value i pc (operand1 hz inp) (operand2 hz inp)"
proof -
  have imm: "i_imm_in inp = i_imm_out (encode i)" "s_imm_in inp = s_imm_out (encode i)"
    "b_imm_in inp = b_imm_out (encode i)" "u_imm_in inp = u_imm_out (encode i)" "j_imm_in inp = j_imm_out (encode i)"
    using assms(1) by (simp_all add: holds_instr_def)
  have "aluop (control_word_IdEx hz) = aluop_of i"
    using assms by (intro control_fields [OF assms(2) holds_fields(1)])
  then have "alu_out (ex_stage h hz inp) = alu (aluop_of i)
      (if sel1_of i = alumux1_pc_out then pc else operand1 hz inp)
      (if sel2_of i = alumux2_rs2_out then operand2 hz inp else mux2_out (sel2_of i) inp)"
    by (simp only: execute_sel ex_mux1 [OF assms(1,2)] ex_mux2 [OF assms(1,2)])
  also have "\<dots> = alu_value i pc (operand1 hz inp) (operand2 hz inp)"
    using assms(2,3) imm
    by (cases i) (simp_all add: mux2_out_def alu_add_code immediates_encode i_imm_op_imm alu_correct enum_defs
        del: isa_alu.simps)
  finally show ?thesis .
qed

lemma ex_cmp:
  assumes "holds_instr (encode i) pc held hz inp" and "valid i"
  shows "i = Branch c rs1 rs2 v \<Longrightarrow> cmp_out (ex_stage h hz inp) = isa_cond c (operand1 hz inp) (operand2 hz inp)"
    and "i = Op k rd rs1 rs2 \<Longrightarrow> compares k \<Longrightarrow>
      (if cmp_out (ex_stage h hz inp) then 1 else 0) = isa_alu k (operand1 hz inp) (operand2 hz inp)"
    and "i = Op_imm k rd rs1 v \<Longrightarrow> compares k \<Longrightarrow>
      (if cmp_out (ex_stage h hz inp) then 1 else 0) = isa_alu k (operand1 hz inp) (byte_offset v)"
proof -
  note cf = control_fields [OF assms(2) holds_fields(1) [OF assms]] and hf = holds_fields [OF assms]
  show "cmp_out (ex_stage h hz inp) = isa_cond c (operand1 hz inp) (operand2 hz inp)" if "i = Branch c rs1 rs2 v"
    using cf(5) cf(11) [OF that] that by (simp add: cmp_operand2 cmp_correct)
  show "(if cmp_out (ex_stage h hz inp) then 1 else 0) = isa_alu k (operand1 hz inp) (operand2 hz inp)"
    if "i = Op k rd rs1 rs2" "compares k"
    using cf(5) cf(12) [OF disjI1, OF that] that
    by (cases k) (simp_all add: cmp_operand2 cmp_slt compares_def)
  show "(if cmp_out (ex_stage h hz inp) then 1 else 0) = isa_alu k (operand1 hz inp) (byte_offset v)"
    if "i = Op_imm k rd rs1 v" "compares k"
  proof -
    have "i_imm_in inp = byte_offset v"
      using that assms(1) by (cases k) (simp_all add: holds_instr_def immediates_encode alternate_def compares_def)
    then show ?thesis using cf(5) cf(12) [OF disjI2, OF that] hf(3) that
      by (cases k) (simp_all add: cmp_immediate cmp_slt compares_def)
  qed
qed

lemma ex_store:
  assumes "holds_instr (encode (Store w rs1 rs2 v)) pc held hz inp"
    and "rd_id_MemWb hz \<noteq> 0 \<longrightarrow> write_reg (control_word_MemWb hz)"
  shows "rs2_out (ex_stage h hz inp) = operand2 hz inp"
  using control_fields(1) [OF _ holds_fields(1) [OF assms(1)]] assms(2) by (simp add: store_operand2)

text \<open>
  What an instruction hands on to the memory stage, of its program counter and source values:
  the outputs of the arithmetic unit and the comparator where it uses them, its immediate, and
  the value it stores.
\<close>

definition computed :: "instr \<Rightarrow> u32 \<Rightarrow> u32 \<Rightarrow> u32 \<Rightarrow> u32 \<Rightarrow> bool \<Rightarrow> u32 \<Rightarrow> u32 \<Rightarrow> bool" where
  "computed i pc x y a b u s \<longleftrightarrow>
     (uses_alu i \<longrightarrow> a = alu_value i pc x y)
     \<and> (\<forall>c rs1 rs2 v. i = Branch c rs1 rs2 v \<longrightarrow> b = isa_cond c x y)
     \<and> (\<forall>k rd rs1 rs2. i = Op k rd rs1 rs2 \<and> compares k \<longrightarrow> (if b then 1 else 0) = isa_alu k x y)
     \<and> (\<forall>k rd rs1 v. i = Op_imm k rd rs1 v \<and> compares k \<longrightarrow> (if b then 1 else 0) = isa_alu k x (byte_offset v))
     \<and> u = u_imm_out (encode i)
     \<and> (is_store i \<longrightarrow> s = y)"

lemma ex_computed:
  assumes "holds_instr (encode i) pc held hz inp" and "valid i"
    and "rd_id_MemWb hz \<noteq> 0 \<longrightarrow> write_reg (control_word_MemWb hz)"
  shows "computed i pc (operand1 hz inp) (operand2 hz inp) (alu_out (ex_stage h hz inp)) (cmp_out (ex_stage h hz inp))
    (u_imm_in inp) (rs2_out (ex_stage h hz inp))"
  unfolding computed_def
proof (intro conjI allI impI)
  show "rs2_out (ex_stage h hz inp) = operand2 hz inp" if "is_store i"
    using that assms ex_store by (cases i) auto
  show "u_imm_in inp = u_imm_out (encode i)" using assms(1) by (simp add: holds_instr_def)
qed (use ex_alu [OF assms(1,2)] ex_cmp [OF assms(1,2)] in \<open>simp_all only: simp_thms\<close>)

text \<open>An instruction alone in the pipeline, and the values around it.\<close>

definition idle_word :: rv32i_control_word where
  "idle_word = setControlWord op_imm 0 0 0 0 0 0 False False False 0"

definition lone_hazards :: "rv32i_word \<Rightarrow> hazard_inputs" where
  "lone_hazards w = \<lparr> rs1_id_IdEx = rs1_id w, rs2_id_IdEx = rs2_id w, rs2_id_ExMem = 0, rd_id_MemWb = 0,
     rd_id_ExMem = 0, control_word_IdEx = control_word_out idle_word w,
     control_word_ExMem = idle_word, control_word_MemWb = idle_word \<rparr>"

definition lone_inputs :: "rv32i_word \<Rightarrow> u32 \<Rightarrow> u32 \<Rightarrow> u32 \<Rightarrow> ex_inputs" where
  "lone_inputs w pc x y = \<lparr> reg_data_1_in = x, reg_data_2_in = y, pc_reg_in = pc, i_imm_in = i_imm_out w,
     s_imm_in = s_imm_out w, b_imm_in = b_imm_out w, u_imm_in = u_imm_out w, j_imm_in = j_imm_out w,
     data_from_exmem_in = 0, data_from_memwb_in = 0 \<rparr>"

definition lone_held :: ex_held where
  "lone_held = \<lparr> cmp_held = False, cmpmux1_held = 0, rs2passmux_held = 0 \<rparr>"

lemma lone_holds: "holds_instr w pc idle_word (lone_hazards w) (lone_inputs w pc x y)"
  by (simp add: holds_instr_def lone_hazards_def lone_inputs_def)

lemma lone_operands:
  "operand1 (lone_hazards w) (lone_inputs w pc x y) = x" "operand2 (lone_hazards w) (lone_inputs w pc x y) = y"
  by (simp_all add: operand_def lone_hazards_def lone_inputs_def idle_word_def setControlWord_def)

lemma lone_memwb: "rd_id_MemWb (lone_hazards w) = 0"
  by (simp add: lone_hazards_def)

text \<open>
  C15: the execute stage computes what the instruction means on the values its registers have
  in program order. For every valid instruction, whatever the two older instructions in flight
  are: the arithmetic unit delivers the result or the address, the comparator decides the branch
  or the set-less-than, and a store carries the value of its second source, each operand being
  the result of the nearest older instruction that writes the register, and never of a write
  to register 0.
\<close>

theorem execute_correct:
  assumes "holds_instr (encode i) pc held hz inp" and "valid i"
    and "rd_id_MemWb hz \<noteq> 0 \<longrightarrow> write_reg (control_word_MemWb hz)"
  shows "(uses_alu i \<longrightarrow> alu_out (ex_stage h hz inp) = alu_value i pc (operand1 hz inp) (operand2 hz inp))
    \<and> (\<forall>c rs1 rs2 v. i = Branch c rs1 rs2 v \<longrightarrow>
         cmp_out (ex_stage h hz inp) = isa_cond c (operand1 hz inp) (operand2 hz inp))
    \<and> (\<forall>k rd rs1 rs2. i = Op k rd rs1 rs2 \<and> compares k \<longrightarrow>
         (if cmp_out (ex_stage h hz inp) then 1 else 0) = isa_alu k (operand1 hz inp) (operand2 hz inp))
    \<and> (\<forall>k rd rs1 v. i = Op_imm k rd rs1 v \<and> compares k \<longrightarrow>
         (if cmp_out (ex_stage h hz inp) then 1 else 0) = isa_alu k (operand1 hz inp) (byte_offset v))
    \<and> (is_store i \<longrightarrow> rs2_out (ex_stage h hz inp) = operand2 hz inp)"
  using ex_computed [OF assms, of h] unfolding computed_def by blast

theorem execute_correct_witness:
  "alu_out (ex_stage lone_held (lone_hazards (encode (Op Sub 3 1 2))) (lone_inputs (encode (Op Sub 3 1 2)) 96 7 9)) = 7 - 9"
  using execute_correct [where h = lone_held, OF lone_holds [of "encode (Op Sub 3 1 2)" 96 7 9]]
  by (simp add: lone_operands lone_memwb compares_def del: execute_sel)

end
