(* ===== verification/Retire_Correct.thy ===== *)
theory Retire_Correct
  imports Stages Execute_Correct
begin

text \<open>
  From execute to retirement: loads and stores through the memory interface, the value written
  back, the repair of the program counter, and the operands of program order. Together with the
  execute stage these theorems say that an instruction retires with the effect the instruction
  set gives it, whatever is in flight.

  The data cache is represented by what its port promises, which \<open>Data_Memory\<close> proves of it: \<open>word_at\<close> is the word it reads and
  \<open>masked_write\<close> what it does with the byte enables.
\<close>

declare le_word.simps [simp del]

section \<open>Lanes of a memory word\<close>

lemma le_word4_lanes:
  "ucast (le_word [b0, b1, b2, b3] :: u32) = (b0 :: u8)" "ucast (drop_bit 8 (le_word [b0, b1, b2, b3] :: u32)) = (b1 :: u8)"
  "ucast (drop_bit 16 (le_word [b0, b1, b2, b3] :: u32)) = (b2 :: u8)" "ucast (drop_bit 24 (le_word [b0, b1, b2, b3] :: u32)) = (b3 :: u8)"
  "ucast (le_word [b0, b1, b2, b3] :: u32) = (le_word [b0, b1] :: u16)"
  "ucast (drop_bit 16 (le_word [b0, b1, b2, b3] :: u32)) = (le_word [b2, b3] :: u16)"
  by (rule bit_word_eqI; auto simp: le_word.simps bit_simps dest: bit_u8_less_8)+

definition lane :: "u32 \<Rightarrow> nat" where
  "lane a = unat a mod 4"

lemma lane_less: "lane a < 4"
  by (simp add: lane_def)

lemma address_split: "(a AND NOT 3) + of_nat (lane a) = a"
proof -
  have 3: "(3 :: u32) = mask 2" by (simp add: mask_eq_exp_minus_1)
  have "unat (a AND mask 2) = lane a"
    by (simp add: lane_def unat_mod unsigned_take_bit_eq take_bit_eq_mod flip: take_bit_eq_mask)
  then have "of_nat (lane a) = a AND mask 2" by (metis of_nat_unat ucast_id)
  moreover have "(a AND NOT (mask 2)) + (a AND mask 2) = (a AND NOT (mask 2)) OR (a AND mask 2)"
    by (rule disjunctive_add_eq_or [symmetric, THEN sym], rule bit_word_eqI) (simp add: bit_and_iff bit_not_iff)
  moreover have "(a AND NOT (mask 2)) OR (a AND mask 2) = a"
    by (rule bit_word_eqI) (auto simp: bit_or_iff bit_and_iff bit_not_iff)
  ultimately show ?thesis unfolding 3 by simp
qed

lemma lsb_lane: "(ucast a :: 2 word) = of_nat (lane a)"
  by (simp add: lane_def word_unat_eq_iff unsigned_ucast_eq take_bit_eq_mod unsigned_of_nat)

lemma bit1_lane: "bit a (Suc 0) \<longleftrightarrow> 2 \<le> lane a"
proof -
  have "bit a (Suc 0) \<longleftrightarrow> bit (unat a) 1" by (simp add: bit_unsigned_iff)
  also have "\<dots> \<longleftrightarrow> odd (unat a div 2)" by (simp add: bit_iff_odd)
  also have "\<dots> \<longleftrightarrow> 2 \<le> unat a mod 4" by presburger
  finally show ?thesis by (simp add: lane_def)
qed

text \<open>The word around an address, from the bytes at the address on.\<close>

lemma word_at_bytes:
  "word_at m a = le_word (map (\<lambda>j. m ((a AND NOT 3) + of_nat j)) [0, 1, 2, 3])"
  by (simp add: word_at_def load_bytes_def upt_rec)

lemma byte_lane_word_at: "byte_lane (word_at m a) (ucast a) = m a"
proof -
  have "m a = m ((a AND NOT 3) + of_nat (lane a))" by (simp only: address_split)
  moreover have "lane a = 0 \<or> lane a = 1 \<or> lane a = 2 \<or> lane a = 3" using lane_less [of a] by arith
  ultimately show ?thesis
    by (elim disjE) (simp_all add: byte_lane_def lsb_lane word_at_bytes le_word4_lanes)
qed

lemma half_lane_word_at:
  assumes "aligned Half a"
  shows "half_lane (word_at m a) (bit a (Suc 0)) = le_word (load_bytes m a 2)"
proof -
  have "m a = m ((a AND NOT 3) + of_nat (lane a))" "m (a + 1) = m ((a AND NOT 3) + of_nat (lane a) + 1)"
    by (simp_all only: address_split)
  moreover have "lane a = 0 \<or> lane a = 2" using assms by (simp add: lane_def aligned_def) presburger
  ultimately show ?thesis
    by (elim disjE) (simp_all add: half_lane_def bit1_lane word_at_bytes le_word4_lanes load_bytes_def upt_rec add.assoc)
qed

lemma full_word_at:
  assumes "aligned Full a"
  shows "word_at m a = le_word (load_bytes m a 4)"
proof -
  have "lane a = 0" using assms by (simp add: lane_def aligned_def)
  then have "a AND NOT 3 = a" using address_split [of a] by simp
  then show ?thesis by (simp add: word_at_def)
qed

text \<open>The write-back stage takes the loaded value out of the word the memory delivers.\<close>

lemma load_lanes:
  assumes "aligned w a" and "\<not> (w = Full \<and> u)" and "regfilemux_sel cw = load_select w u"
  shows "regfilemux_out held cw b a p im (word_at m a) = isa_load w u m a"
proof -
  have "bit (ucast a :: 2 word) (Suc 0) \<longleftrightarrow> bit a (Suc 0)" by (simp add: bit_unsigned_iff)
  then show ?thesis using assms
    by (cases w; cases u) (simp_all add: regfilemux_out_def Let_def byte_lane_word_at half_lane_word_at full_word_at enum_defs)
qed

section \<open>Stores\<close>

text \<open>
  What the data memory does with a word, an address in it and a mask of four byte enables.
\<close>

definition masked_write :: "memory \<Rightarrow> u32 \<Rightarrow> 4 word \<Rightarrow> rv32i_word \<Rightarrow> memory" where
  "masked_write m a enable wdata =
     (\<lambda>b. if b AND NOT 3 = a AND NOT 3 \<and> bit enable (lane b) then slice_at (8 * lane b) wdata else m b)"

lemma unat_base: "unat (a AND NOT 3) = 4 * (unat a div 4)" for a :: u32
proof -
  have "a AND NOT 3 = a - of_nat (lane a)" using address_split [of a] by (metis add_diff_cancel_right')
  moreover have "lane a \<le> unat a" by (simp add: lane_def)
  moreover have "unat (of_nat (lane a) :: u32) = lane a"
    using lane_less [of a] by (simp add: unsigned_of_nat take_bit_nat_eq_self_iff)
  ultimately have "unat (a AND NOT 3) = unat a - lane a"
    by (simp add: unat_sub word_le_nat_alt)
  then show ?thesis by (simp add: lane_def minus_mod_eq_mult_div)
qed

lemma same_word_iff: "b AND NOT 3 = a AND NOT 3 \<longleftrightarrow> unat b div 4 = unat a div 4" for a b :: u32
proof -
  have "b AND NOT 3 = a AND NOT 3 \<longleftrightarrow> 4 * (unat b div 4) = 4 * (unat a div 4)"
    by (simp only: word_unat_eq_iff unat_base)
  then show ?thesis by simp
qed

text \<open>The bytes of an aligned access are the lanes its mask enables.\<close>

lemma access_arith:
  assumes "A = 4 * qa + ra" "B = 4 * qb + rb" "ra < 4" "rb < 4" "ra + n \<le> 4" "qa < N" "qb < (N :: nat)"
  shows "(if A \<le> B then B - A else B + 4 * N - A) < n \<longleftrightarrow> qb = qa \<and> ra \<le> rb \<and> rb < ra + n"
proof (cases qb qa rule: linorder_cases)
  case less
  then have "A > B" "B + 4 * N - A \<ge> n" using assms by linarith+
  with less show ?thesis by simp
next
  case equal
  with assms show ?thesis by auto
next
  case greater
  then have "A \<le> B" "B - A \<ge> n" using assms by linarith+
  with greater show ?thesis by simp
qed

lemma in_access_iff:
  assumes "lane a + n \<le> 4"
  shows "unat (b - a) < n \<longleftrightarrow> b AND NOT 3 = a AND NOT 3 \<and> lane a \<le> lane b \<and> lane b < lane a + n"
    and "unat (b - a) < n \<Longrightarrow> lane b = lane a + unat (b - a)"
proof -
  let ?qa = "unat a div 4" and ?qb = "unat b div 4"
  have q: "unat a = 4 * ?qa + lane a" "unat b = 4 * ?qb + lane b" by (simp_all add: lane_def)
  have top: "?qa < 2 ^ 30" "?qb < 2 ^ 30" using unat_lt_pow [of a] unat_lt_pow [of b] by simp_all
  have sub: "unat (b - a) = (if unat a \<le> unat b then unat b - unat a else unat b + 4 * 2 ^ 30 - unat a)"
    by (simp add: unat_sub_if')
  have "unat (b - a) < n \<longleftrightarrow> ?qb = ?qa \<and> lane a \<le> lane b \<and> lane b < lane a + n"
    unfolding sub by (rule access_arith [OF q lane_less lane_less assms top])
  then show *: "unat (b - a) < n \<longleftrightarrow> b AND NOT 3 = a AND NOT 3 \<and> lane a \<le> lane b \<and> lane b < lane a + n"
    by (simp only: same_word_iff)
  show "lane b = lane a + unat (b - a)" if "unat (b - a) < n"
  proof -
    have "?qb = ?qa" "lane a \<le> lane b" using that * same_word_iff [of b a] by simp_all
    then have "unat b - unat a = lane b - lane a" "unat a \<le> unat b" using q by linarith+
    with \<open>lane a \<le> lane b\<close> show ?thesis by (simp add: sub)
  qed
qed

lemma less_4_cases: "k < 4 \<longleftrightarrow> k = 0 \<or> k = 1 \<or> k = 2 \<or> k = (3 :: nat)"
  by arith

lemma access_cases:
  assumes "aligned w a"
  obtains "w = Full" "lane a = 0" | "w = Half" "lane a = 0" | "w = Half" "lane a = 2"
    | "w = Byte" "lane a = 0" | "w = Byte" "lane a = 1" | "w = Byte" "lane a = 2" | "w = Byte" "lane a = 3"
proof -
  have "w = Half \<Longrightarrow> lane a = 0 \<or> lane a = 2" "w = Full \<Longrightarrow> lane a = 0"
    using assms by (simp_all add: lane_def aligned_def) presburger
  then show ?thesis using lane_less [of a] that unfolding less_4_cases by (cases w) blast+
qed

lemmas store_defs = mem_byte_enable_def wdata_out_def Let_def lsb_lane bit1_lane enum_defs

lemma mask_lanes:
  assumes "aligned w a" and "k < 4"
  shows "bit (mem_byte_enable held op_store (width_funct3 w) a) k \<longleftrightarrow> lane a \<le> k \<and> k < lane a + bytes_of_width w"
proof -
  have k: "k = 0 \<or> k = 1 \<or> k = 2 \<or> k = 3" using assms(2) by (simp only: less_4_cases)
  from assms(1) show ?thesis
    by (rule access_cases) (use k in \<open>elim disjE; simp add: store_defs\<close>)+
qed

lemma data_lanes:
  assumes "aligned w a" and "lane a \<le> k" and "k < lane a + bytes_of_width w"
  shows "slice_at (8 * k) (wdata_out sel op_store (width_funct3 w) a x r) = (slice_at (8 * (k - lane a)) x :: 8 word)"
proof -
  have "k < 4" using assms lane_less [of a] by (rule_tac access_cases [OF assms(1)]) simp_all
  then have k: "k = 0 \<or> k = 1 \<or> k = 2 \<or> k = 3" by (simp only: less_4_cases)
  from assms(1) show ?thesis
    by (rule access_cases)
      (use k assms(2,3) in \<open>elim disjE; auto simp: store_defs bit_word_cat_iff bit_ucast_iff intro!: bit_word_eqI\<close>)+
qed

lemma store_lanes:
  assumes "aligned w a"
  shows "masked_write m a (mem_byte_enable held op_store (width_funct3 w) a)
      (wdata_out sel op_store (width_funct3 w) a x r) = isa_store w m a x"
proof
  fix b
  have al: "lane a + bytes_of_width w \<le> 4" using assms by (rule access_cases) simp_all
  show "masked_write m a (mem_byte_enable held op_store (width_funct3 w) a)
      (wdata_out sel op_store (width_funct3 w) a x r) b = isa_store w m a x b"
    using in_access_iff [OF al, of b] data_lanes [OF assms, of "lane b"] mask_lanes [OF assms lane_less [of b]]
    by (auto simp: masked_write_def isa_store_def)
qed

lemma load_bytes_store:
  "load_bytes (isa_store w m a x) a (bytes_of_width w) = map (\<lambda>k. slice_at (8 * k) x) [0..<bytes_of_width w]"
proof -
  have "unat (of_nat k :: u32) = k" if "k < 4" for k
    using that by (simp add: unsigned_of_nat take_bit_nat_eq_self_iff)
  moreover have "bytes_of_width w \<le> 4" by (cases w) simp_all
  ultimately show ?thesis by (auto simp: load_bytes_def isa_store_def)
qed

lemma load_store:
  "isa_load w u (isa_store w m a x) a =
     (case w of Byte \<Rightarrow> if u then ucast (ucast x :: u8) else scast (ucast x :: u8)
      | Half \<Rightarrow> if u then ucast (ucast x :: u16) else scast (ucast x :: u16)
      | Full \<Rightarrow> x)"
proof (cases w)
  case Byte
  then show ?thesis by (simp add: isa_store_def slice_at_def)
next
  case Half
  have "le_word [slice_at 0 x, slice_at 8 x] = (ucast x :: u16)"
    by (rule bit_word_eqI) (auto simp: le_word.simps bit_or_iff bit_push_bit_iff bit_ucast_iff)
  with Half show ?thesis using load_bytes_store [of w m a x] by (simp add: upt_rec)
next
  case Full
  have "le_word [slice_at 0 x, slice_at 8 x, slice_at 16 x, slice_at 24 x] = x"
  proof (rule bit_word_eqI)
    fix n assume "n < LENGTH(32)"
    moreover have "24 \<le> n \<Longrightarrow> 24 + (n - 24) = n" "16 \<le> n \<Longrightarrow> 16 + (n - 16) = n" by simp_all
    ultimately show "bit (le_word [slice_at 0 x, slice_at 8 x, slice_at 16 x, slice_at 24 x] :: u32) n = bit x n"
      by (cases "24 \<le> n"; cases "16 \<le> n") (auto simp: le_word.simps bit_or_iff bit_push_bit_iff bit_ucast_iff)
  qed
  with Full show ?thesis using load_bytes_store [of w m a x] by (simp add: upt_rec)
qed

section \<open>Properties of the stages\<close>

text \<open>
  C22: the memory interface implements loads and stores of bytes: for every width and aligned
  address the byte enables and the rearranged data of a store change exactly the bytes the
  instruction set says, and the write-back stage extracts and extends exactly the loaded bytes
  from the word that contains them; a load after a store to the same place returns the stored
  value, cut to the width.
\<close>

theorem memory_access_correct:
  assumes "aligned w a" and "\<not> (w = Full \<and> u)" and "regfilemux_sel cw = load_select w u"
    and "m' = masked_write m a (mem_byte_enable held op_store (width_funct3 w) a)
        (wdata_out sel op_store (width_funct3 w) a x r)"
  shows "m' = isa_store w m a x
    \<and> regfilemux_out held' cw b a p im (word_at m a) = isa_load w u m a
    \<and> regfilemux_out held' cw b a p im (word_at m' a) =
        (case w of Byte \<Rightarrow> if u then ucast (ucast x :: u8) else scast (ucast x :: u8)
         | Half \<Rightarrow> if u then ucast (ucast x :: u16) else scast (ucast x :: u16)
         | Full \<Rightarrow> x)"
proof (intro conjI)
  show st: "m' = isa_store w m a x" using assms(1,4) by (simp add: store_lanes)
  show "regfilemux_out held' cw b a p im (word_at m a) = isa_load w u m a"
    using assms by (intro load_lanes)
  have "regfilemux_out held' cw b a p im (word_at m' a) = isa_load w u m' a"
    using assms by (intro load_lanes)
  then show "regfilemux_out held' cw b a p im (word_at m' a) =
      (case w of Byte \<Rightarrow> if u then ucast (ucast x :: u8) else scast (ucast x :: u8)
       | Half \<Rightarrow> if u then ucast (ucast x :: u16) else scast (ucast x :: u16)
       | Full \<Rightarrow> x)"
    by (simp only: st load_store)
qed

theorem memory_access_correct_witness:
  "masked_write (\<lambda>_. 0) 6 (mem_byte_enable 0 op_store (width_funct3 Half) 6)
      (wdata_out 1 op_store (width_funct3 Half) 6 0x12345678 0) = isa_store Half (\<lambda>_. 0) 6 0x12345678"
  using memory_access_correct [of Half 6 False
      "setControlWord 0 0 0 0 0 0 0 False False False regfilemux_lh"
      "masked_write (\<lambda>_. 0) 6 (mem_byte_enable 0 op_store (width_funct3 Half) 6)
        (wdata_out 1 op_store (width_funct3 Half) 6 0x12345678 0)" "\<lambda>_. 0" 0 1 "0x12345678" 0]
  by (simp add: aligned_def setControlWord_def)

text \<open>The address of a memory instruction is aligned to its width.\<close>

fun aligned_access :: "instr \<Rightarrow> u32 \<Rightarrow> bool" where
  "aligned_access (Load w _ _ _ v) x = aligned w (x + byte_offset v)"
| "aligned_access (Store w _ _ v) x = aligned w (x + byte_offset v)"
| "aligned_access _ _ = True"

text \<open>Without a store the condition on the write-back register is not needed.\<close>

lemma ex_computed_free:
  assumes "holds_instr (encode i) pc held hz inp" and "valid i"
  shows "computed i pc (operand1 hz inp) (operand2 hz inp) (alu_out (ex_stage h hz inp)) (cmp_out (ex_stage h hz inp))
    (u_imm_in inp) (operand2 hz inp)"
  using ex_alu [OF assms] ex_cmp [OF assms] assms(1)
  unfolding computed_def by (auto simp: holds_instr_def simp del: execute_sel)

text \<open>What the write-back stage and the memory do with the results of an instruction.\<close>

lemma computed_writeback:
  assumes "computed i pc x y a b u s" and "valid i" and "writes i" and "aligned_access i x"
    and "regfilemux_sel cw = rf_of i"
  shows "rd_value (isa_exec i pc x y m) = Some (regfilemux_out held cw b a pc u (word_at m a))"
proof -
  have ua: "uses_alu i \<Longrightarrow> a = alu_value i pc x y" using assms(1) by (simp add: computed_def)
  note wb = regfilemux_out_def Let_def enum_defs and rf = assms(5)
  show ?thesis
  proof (cases i)
    case (Load w un rd rs1 v)
    then have "aligned w a" "\<not> (w = Full \<and> un)" "regfilemux_sel cw = load_select w un"
      using assms ua by simp_all
    then show ?thesis using Load ua by (simp add: load_lanes)
  next
    case (Op k rd rs1 rs2)
    then have "compares k \<Longrightarrow> (if b then 1 else 0) = isa_alu k x y" using assms(1) by (simp add: computed_def)
    then show ?thesis using rf ua Op by (cases "compares k") (simp_all add: wb)
  next
    case (Op_imm k rd rs1 v)
    then have "compares k \<Longrightarrow> (if b then 1 else 0) = isa_alu k x (byte_offset v)" using assms(1) by (simp add: computed_def)
    then show ?thesis using rf ua Op_imm by (cases "compares k") (simp_all add: wb)
  next
    case (Lui rd v)
    then have "u = upper v" using assms(1) by (simp add: computed_def immediates_encode)
    then show ?thesis using rf Lui by (simp add: wb)
  qed (use rf ua assms(3) in \<open>simp_all add: wb\<close>)
qed

lemma regfilemux_no_load:
  assumes "\<not> is_load i" and "writes i" and "regfilemux_sel cw = rf_of i"
  shows "regfilemux_out x cw b a p u v = regfilemux_out x cw b a p u v'"
  using assms by (cases i) (simp_all add: regfilemux_out_def Let_def enum_defs split: if_splits)

lemma wdata_select: "wdata_out sel op_store (width_funct3 w) a x r = wdata_out sel' op_store (width_funct3 w) a x r'"
  by (cases w) (simp_all add: wdata_out_def enum_defs Let_def)

lemma store_funct3: "funct3_out (encode (Store w rs1 rs2 v)) = width_funct3 w"
  by (simp add: encode.simps format_fields)

lemma computed_store:
  assumes "computed i pc x y a b u s" and "is_store i" and "aligned_access i x"
  shows "masked_write m a (mem_byte_enable held op_store (funct3_out (encode i)) a)
      (wdata_out sel op_store (funct3_out (encode i)) a s r) = memory_after (isa_exec i pc x y m)"
proof -
  obtain w rs1 rs2 v where i: "i = Store w rs1 rs2 v" using assms(2) by (cases i) simp_all
  with assms(1) have "a = x + byte_offset v" "s = y" by (simp_all add: computed_def)
  with assms(3) i show ?thesis by (simp add: store_funct3 store_lanes)
qed

text \<open>
  Every valid instruction writes the value the instruction set gives it. With the operands
  of program order, the value the write-back stage sends to the register file, taken from the
  arithmetic unit, the comparator, the immediate, the program counter or the loaded word as the
  control word selects, is the value of the destination register; for aligned loads and for every
  other instruction that writes, whatever is in flight.
\<close>

theorem writeback_correct:
  assumes "holds_instr (encode i) pc held hz inp" and "valid i" and "writes i"
    and "aligned_access i (operand1 hz inp)"
  shows "rd_value (isa_exec i pc (operand1 hz inp) (operand2 hz inp) m) =
    Some (regfilemux_out held' (control_word_IdEx hz) (cmp_out (ex_stage h hz inp)) (alu_out (ex_stage h hz inp))
      pc (u_imm_in inp) (word_at m (alu_out (ex_stage h hz inp))))"
  by (rule computed_writeback [OF ex_computed_free [OF assms(1,2)]])
    (use assms control_fields(6) [OF assms(2) holds_fields(1) [OF assms(1,2)]] in simp_all)

theorem writeback_correct_witness:
  "Some (7 - 9) = Some (regfilemux_out 0 (control_word_IdEx (lone_hazards (encode (Op Sub 3 1 2))))
     (cmp_out (ex_stage lone_held (lone_hazards (encode (Op Sub 3 1 2))) (lone_inputs (encode (Op Sub 3 1 2)) 96 7 9)))
     (alu_out (ex_stage lone_held (lone_hazards (encode (Op Sub 3 1 2))) (lone_inputs (encode (Op Sub 3 1 2)) 96 7 9)))
     96 (u_imm_in (lone_inputs (encode (Op Sub 3 1 2)) 96 7 9))
     (word_at (\<lambda>_. 0) (alu_out (ex_stage lone_held (lone_hazards (encode (Op Sub 3 1 2))) (lone_inputs (encode (Op Sub 3 1 2)) 96 7 9)))))"
  using writeback_correct [OF lone_holds, of "Op Sub 3 1 2" 96 7 9 "\<lambda>_. 0" 0 lone_held]
  by (simp add: lone_operands del: execute_sel)

text \<open>
  An aligned store changes memory exactly as the instruction set says, with the data and
  address of program order; the multiplexer that should forward a loaded value to it has no
  effect, the rearranger overwrites its output.
\<close>

theorem store_correct:
  assumes "holds_instr (encode (Store w rs1 rs2 v)) pc held hz inp" and "aligned w (operand1 hz inp + byte_offset v)"
    and "rd_id_MemWb hz \<noteq> 0 \<longrightarrow> write_reg (control_word_MemWb hz)"
  shows "(let ex = ex_stage h hz inp; f3 = funct3_out (encode (Store w rs1 rs2 v)) in
      masked_write m (alu_out ex) (mem_byte_enable held' op_store f3 (alu_out ex))
        (wdata_out sel op_store f3 (alu_out ex) (rs2_out ex) r)
      = memory_after (isa_exec (Store w rs1 rs2 v) pc (operand1 hz inp) (operand2 hz inp) m)
      \<and> wdata_out sel op_store f3 (alu_out ex) (rs2_out ex) r = wdata_out sel' op_store f3 (alu_out ex) (rs2_out ex) r')"
  using computed_store [OF ex_computed [OF assms(1) _ assms(3), of h]] assms(2)
    wdata_select [of sel w "alu_out (ex_stage h hz inp)" "rs2_out (ex_stage h hz inp)" r sel' r']
  by (simp add: Let_def store_funct3 del: execute_sel)

theorem store_correct_witness:
  "masked_write (\<lambda>_. 0) 18 (mem_byte_enable 0 op_store (funct3_out (encode (Store Half 1 2 8))) 18)
     (wdata_out 1 op_store (funct3_out (encode (Store Half 1 2 8))) 18 77 0) = isa_store Half (\<lambda>_. 0) 18 77"
proof -
  let ?w = "encode (Store Half 1 2 8)"
  have b: "byte_offset 8 = 8" by (simp add: byte_offset_def)
  have "alu_out (ex_stage lone_held (lone_hazards ?w) (lone_inputs ?w 96 10 77)) = 18"
    using ex_alu [OF lone_holds [of ?w 96 10 77], where h = lone_held]
    by (simp add: lone_operands b del: execute_sel)
  moreover have "rs2_out (ex_stage lone_held (lone_hazards ?w) (lone_inputs ?w 96 10 77)) = 77"
    using ex_store [OF lone_holds [of ?w 96 10 77], where h = lone_held] by (simp add: lone_operands lone_memwb del: execute_sel)
  ultimately show ?thesis
    using store_correct [OF lone_holds [of ?w 96 10 77], where h = lone_held and m = "\<lambda>_. 0" and held' = 0
        and sel = 1 and r = 0]
    by (simp add: lone_operands lone_memwb aligned_def b Let_def del: execute_sel)
qed

section \<open>Load-use hazards\<close>

lemma computed_forward:
  assumes "\<not> is_load i" and "writes i" and "regfilemux_sel cw = rf_of i"
  shows "forwarding_val_out cw a b u pc = regfilemux_out held cw b a pc u r"
proof -
  have "rf_of i \<in> {regfilemux_alu_out, regfilemux_br_en, regfilemux_u_imm, regfilemux_pc_plus4}"
    using assms(1,2) by (cases i) simp_all
  then show ?thesis unfolding assms(3) [symmetric]
    by (elim insertE) (simp_all add: forwarding_val_out_def regfilemux_out_def Let_def enum_defs)
qed

text \<open>
  What is forwarded from the memory stage is what will be written. If the stall unit lets
  the instruction in decode follow the instruction ahead of it, and it reads the register the
  latter writes, then the value on the forwarding path is the value the write-back stage will
  store, whatever word the memory delivers; the path has no loaded value, so the stall unit must
  have held back every reader of a load, and it does.
\<close>

theorem forwarded_value_correct:
  assumes "valid j" and "writes j" and "cw = control_word_out held (encode j)"
    and "\<not> stall_id_ex (stall i_miss d_miss (rd_out (encode j)) (read_mem cw) (rs1_id w) (rs2_id w))"
    and "dest_of j \<noteq> 0" and "dest_of j = rs1_id w \<or> dest_of j = rs2_id w"
  shows "forwarding_val_out cw alu_val cmp_val u_imm pc = regfilemux_out held' cw cmp_val alu_val pc u_imm rdata"
proof (rule computed_forward [OF _ assms(2)])
  show "\<not> is_load j"
    using assms(4,6) control_fields(9) [OF assms(1,3)] by (auto simp: stall_def split: if_splits)
qed (rule control_fields(6) [OF assms(1,3)])

theorem forwarded_value_correct_witness:
  "forwarding_val_out (control_word_out idle_word (encode (Lui 5 3))) 1 False 0x3000 96
     = regfilemux_out 0 (control_word_out idle_word (encode (Lui 5 3))) False 1 96 0x3000 42"
  using forwarded_value_correct [of "Lui 5 3" "control_word_out idle_word (encode (Lui 5 3))" idle_word False False
      "encode (Op Add 6 5 5)" 1 False "0x3000" 96 0 42]
    control_fields(9) [of "Lui 5 3", OF _ refl]
  by (simp add: stall_def)

section \<open>Control flow\<close>

text \<open>Fetch did not go on at the next instruction: every jump, and a branch that was predicted wrongly.\<close>

fun redirects :: "instr \<Rightarrow> u32 \<Rightarrow> u32 \<Rightarrow> bool \<Rightarrow> bool" where
  "redirects (Jal _ _) x y predicted \<longleftrightarrow> True"
| "redirects (Jalr _ _ _) x y predicted \<longleftrightarrow> True"
| "redirects (Branch c _ _ _) x y predicted \<longleftrightarrow> predicted \<noteq> isa_cond c x y"
| "redirects _ x y predicted \<longleftrightarrow> False"

lemmas fetch_defs = static_nt_predictor_def pcmux_out_def pc_sel_out_def Let_def enum_defs

lemma computed_flush:
  "computed i pc x y a b u s \<Longrightarrow> flush (static_nt_predictor old b (opcode_of i) predicted) = redirects i x y predicted"
  by (cases i) (simp_all add: fetch_defs computed_def)

lemma computed_redirect:
  assumes "computed i pc x y a b u s" and "redirects i x y predicted" and "sel = pcsel_of i"
    and "chk = static_nt_predictor old b (opcode_of i) predicted" and "opcode_of i \<in> {op_jal, op_jalr} \<longrightarrow> \<not> mispredicted old"
  shows "pc_sel_out (mispredicted chk) pc (pcmux_out br_pred (flush chk) sel fetch_pc a target) = next_pc (isa_exec i pc x y m)"
  using assms by (cases i) (auto simp: fetch_defs computed_def)

lemma branch_target: "i = Branch c rs1 rs2 v \<Longrightarrow> br_pred_pc_out held True (encode i) pc = pc + half_offset v"
proof -
  assume i: "i = Branch c rs1 rs2 v"
  then have "slice_at 0 (encode i) = (0x63 :: 7 word)"
    using opcode_encode [of i] by (simp add: opcode_out_def op_br_def)
  then have "br_pred_pc_out held True (encode i) pc = pc + b_imm_out (encode i)"
    by (simp add: br_pred_pc_out_def b_imm_out_def slice_at_def rep_def)
  then show ?thesis using i by (simp add: immediates_encode)
qed

lemma followed:
  assumes "\<not> redirects i x y predicted"
  shows "next_pc (isa_exec i pc x y m) =
    (if opcode_of i = op_br \<and> predicted then br_pred_pc_out held True (encode i) pc else pc + 4)"
  using assms branch_target [of i] by (cases i) (auto simp: enum_defs)

text \<open>
  Control flow is repaired. When an instruction reaches the memory stage, the branch checker
  asks for a flush exactly when fetch went on at the wrong address (for a branch, when the
  prediction was wrong; for a jump, always), and then the next program counter, selected with the
  checker's outputs, is the one of the instruction set. A branch that was predicted taken was
  followed at its target.
\<close>

theorem next_pc_correct:
  assumes "holds_instr (encode i) pc held hz inp" and "valid i"
    and "chk = static_nt_predictor old (cmp_out (ex_stage h hz inp)) (opcode_of i) predicted"
    and "mispredicted old = False"
    and "next = next_pc (isa_exec i pc (operand1 hz inp) (operand2 hz inp) m)"
  shows "(flush chk \<longrightarrow> pc_sel_out (mispredicted chk) pc
        (pcmux_out br_pred True (pcmux_sel (control_word_IdEx hz)) fetch_pc (alu_out (ex_stage h hz inp)) target) = next)
    \<and> (\<not> flush chk \<longrightarrow> next =
        (if opcode_of i = op_br \<and> predicted then br_pred_pc_out 0 True (encode i) pc else pc + 4))
    \<and> (opcode_of i = op_br \<longrightarrow> (flush chk \<longleftrightarrow> predicted \<noteq> cmp_out (ex_stage h hz inp)))"
proof -
  have c: "computed i pc (operand1 hz inp) (operand2 hz inp) (alu_out (ex_stage h hz inp)) (cmp_out (ex_stage h hz inp))
      (u_imm_in inp) (operand2 hz inp)" by (rule ex_computed_free [OF assms(1,2)])
  have ps: "pcmux_sel (control_word_IdEx hz) = pcsel_of i"
    using control_fields(7) [OF assms(2) holds_fields(1) [OF assms(1,2)]] .
  have fl: "flush chk = redirects i (operand1 hz inp) (operand2 hz inp) predicted"
    using computed_flush [OF c] assms(3) by simp
  show ?thesis
  proof (intro conjI impI)
    show "flush chk \<longleftrightarrow> predicted \<noteq> cmp_out (ex_stage h hz inp)" if "opcode_of i = op_br"
      using that fl c by (cases i) (simp_all add: enum_defs computed_def)
  qed (use computed_redirect [OF c _ ps assms(3)] followed [of i _ _ predicted] fl assms(4,5) in \<open>simp_all del: execute_sel\<close>)
qed

theorem next_pc_correct_witness:
  "pc_sel_out False 96 (pcmux_out True True (pcmux_sel (control_word_IdEx (lone_hazards (encode (Jalr 1 2 4))))) 100
      (alu_out (ex_stage lone_held (lone_hazards (encode (Jalr 1 2 4))) (lone_inputs (encode (Jalr 1 2 4)) 96 201 0))) 500)
   = (201 + 4) AND NOT 1"
proof -
  let ?w = "encode (Jalr 1 2 4)"
  let ?old = "\<lparr> mispredicted = False, flush = False, update_br_pred_taken = False \<rparr>"
  have b: "byte_offset 4 = 4" by (simp add: byte_offset_def)
  show ?thesis
    using next_pc_correct [where old = ?old and h = lone_held and predicted = False and m = "\<lambda>_. 0"
        and br_pred = True and fetch_pc = 100 and target = 500, OF lone_holds [of ?w 96 201 0] _ refl _ refl]
    by (simp add: static_nt_predictor_def opcode_defs lone_operands b del: execute_sel)
qed

section \<open>Program order\<close>

lemma regfile_bypass:
  assumes "dest \<noteq> 0 \<longrightarrow> load"
  shows "regfile_read in_val dest data src = (if src = 0 then 0 else regfile_step False load in_val dest data src)"
  using assms by (auto simp: regfile_read_def regfile_step_def)

text \<open>
  Operands are those of program order. An instruction reads its sources in decode while the
  instruction three ahead writes back, and gets to execute with the one two ahead in write-back
  and the one just ahead in the memory stage. The operand the forwarding network gives it is the
  content of its register after the three writes one after the other, and 0 for register 0,
  whatever the register file held and whichever of the three write the same register.
\<close>

theorem operands_program_order:
  assumes "d3 \<noteq> 0 \<longrightarrow> w3"
    and "r3 = regfile_step False w3 v3 d3 data"
    and "r2 = regfile_step False (write_reg (control_word_MemWb hz)) (data_from_memwb_in inp) (rd_id_MemWb hz) r3"
    and "r1 = regfile_step False (write_reg (control_word_ExMem hz)) (data_from_exmem_in inp) (rd_id_ExMem hz) r2"
  shows "operand hz inp rs (regfile_read v3 d3 data rs) = (if rs = 0 then 0 else r1 rs)"
  using assms(2-4) regfile_bypass [OF assms(1)] by (auto simp: operand_def regfile_step_def)

theorem operands_program_order_witness:
  "operand (lone_hazards (encode (Op Add 6 5 5))) (lone_inputs 0 0 0 0) 5 (regfile_read 11 5 (\<lambda>_. 3) 5)
     = regfile_step False True 11 5 (\<lambda>_. 3) 5"
  using operands_program_order [where ?d3.0 = 5 and ?w3.0 = True and ?v3.0 = 11 and data = "\<lambda>_. 3" and rs = 5
      and hz = "lone_hazards (encode (Op Add 6 5 5))" and inp = "lone_inputs 0 0 0 0", OF _ refl refl refl]
  by (simp add: lone_hazards_def idle_word_def setControlWord_def regfile_step_def)
end
