(* ===== verification/Pipeline_Correct.thy ===== *)
theory Pipeline_Correct
  imports Pipeline_Registers Retire_Correct
begin

text \<open>
  The pipeline registers with the stall unit and the branch checker, for whatever the stages
  between them compute: what a flush removes, what a cache miss holds, and what a load-use
  hazard inserts. The signals of the stall unit go to the registers of the same names, the
  flush of the branch checker to the three registers before it.
\<close>

section \<open>The registers together\<close>

record pipeline =
  to_decode :: if_id
  to_execute :: id_ex
  to_memory :: ex_mem
  to_write_back :: mem_wb

definition pipeline_stalls :: "bool \<Rightarrow> bool \<Rightarrow> pipeline \<Rightarrow> stalls" where
  "pipeline_stalls i_miss d_miss p =
     stall i_miss d_miss (id_reg_dest (to_execute p)) (read_mem (id_cntrl_word (to_execute p)))
       (rs1_id (if_instr (to_decode p))) (rs2_id (if_instr (to_decode p)))"

definition pipeline_flush :: "br_check \<Rightarrow> pipeline \<Rightarrow> bool" where
  "pipeline_flush held p =
     flush (static_nt_predictor held (ex_cmp_val (to_memory p)) (ex_opcode (to_memory p)) (ex_br_pred_taken (to_memory p)))"

text \<open>A clock cycle; \<open>new\<close> holds the outputs of the stages.\<close>

definition pipeline_clock :: "bool \<Rightarrow> bool \<Rightarrow> br_check \<Rightarrow> pipeline \<Rightarrow> pipeline \<Rightarrow> pipeline" where
  "pipeline_clock i_miss d_miss held new p =
     (let st = pipeline_stalls i_miss d_miss p; fl = pipeline_flush held p in
      \<lparr> to_decode = if_id_step False (stall_if_id st) fl (to_decode new) (to_decode p),
        to_execute = id_ex_step False (stall_id_ex st) (stall_nop_id_ex st) fl (to_execute new) (to_execute p),
        to_memory = ex_mem_step False (stall_ex_mem st) fl (to_memory new) (to_memory p),
        to_write_back = mem_wb_step False (stall_mem_wb st) (to_write_back new) (to_write_back p) \<rparr>)"

section \<open>Bubbles\<close>

text \<open>Nothing an instruction with these fields can do.\<close>

definition harmless :: "rv32i_control_word \<Rightarrow> rv32i_reg \<Rightarrow> 7 word \<Rightarrow> bool" where
  "harmless cw rd op \<longleftrightarrow> rd = 0 \<and> \<not> read_mem cw \<and> \<not> write_mem cw \<and> op \<notin> {op_br, op_jal, op_jalr}"

definition bubble_decode :: "if_id \<Rightarrow> bool" where
  "bubble_decode s \<longleftrightarrow> if_instr s = encode (Op_imm Add 0 0 0) \<and> \<not> if_br_pred_taken s"

definition bubble_execute :: "id_ex \<Rightarrow> bool" where
  "bubble_execute s \<longleftrightarrow> harmless (id_cntrl_word s) (id_reg_dest s) (id_opcode s)"

definition bubble_memory :: "ex_mem \<Rightarrow> bool" where
  "bubble_memory s \<longleftrightarrow> harmless (ex_cntrl_word s) (ex_reg_dest s) (ex_opcode s)"

lemma nop_encode: "nop_instr = encode (Op_imm Add 0 0 0)"
  by (simp add: nop_instr_def encode.simps alternate_def i_format_def r_format_def slice_at_def word_cat_eq)

lemmas register_steps = if_id_step_def id_ex_step_def ex_mem_step_def mem_wb_step_def

lemmas bubble_defs = bubble_decode_def bubble_execute_def bubble_memory_def harmless_def id_cleared_def ex_cleared_def
  nop_word_def zero_word_def enum_defs

lemma flushed_bubbles:
  "bubble_decode (if_id_step False st True i s)" "bubble_execute (id_ex_step False st sn True j t)"
  "bubble_memory (ex_mem_step False False True k u)"
  by (simp_all add: register_steps bubble_defs nop_encode)

lemma inserted_bubble: "bubble_execute (id_ex_step False st True False j t)"
  by (simp add: register_steps bubble_defs Let_def)

text \<open>What a bubble does not do in each of the stages it passes.\<close>

lemma harmless_writes_nothing: "harmless cw rd op \<Longrightarrow> regfile_step False (write_reg cw) v rd data = data"
  by (simp add: harmless_def regfile_step_def)

lemma bubble_no_flush: "bubble_memory (to_memory p) \<Longrightarrow> \<not> pipeline_flush held p"
  by (simp add: bubble_memory_def harmless_def pipeline_flush_def static_nt_predictor_def)

lemma flush_held: "pipeline_flush held p = pipeline_flush held' p"
  by (simp add: pipeline_flush_def static_nt_predictor_def)

section \<open>Flushing\<close>

lemma stall_cases:
  "i_miss \<or> d_miss \<Longrightarrow> stall_ex_mem (pipeline_stalls i_miss d_miss p) \<and> stall_mem_wb (pipeline_stalls i_miss d_miss p)
     \<and> stall_if_id (pipeline_stalls i_miss d_miss p) \<and> stall_id_ex (pipeline_stalls i_miss d_miss p)
     \<and> \<not> stall_nop_id_ex (pipeline_stalls i_miss d_miss p) \<and> pc_stall (pipeline_stalls i_miss d_miss p)"
  "\<not> stall_ex_mem (pipeline_stalls False False p)" "\<not> stall_mem_wb (pipeline_stalls False False p)"
  by (auto simp: pipeline_stalls_def stall_def)

lemma held_flush:
  assumes "pipeline_flush held p" and "i_miss \<or> d_miss" and "p' = pipeline_clock i_miss d_miss held new p"
  shows "to_memory p' = to_memory p" "to_write_back p' = to_write_back p" "pipeline_flush held' p'"
proof -
  show *: "to_memory p' = to_memory p" "to_write_back p' = to_write_back p"
    using assms stall_cases(1) [OF assms(2)] by (simp_all add: pipeline_clock_def Let_def register_steps)
  have "pipeline_flush held' p'  = pipeline_flush held' p" by (simp add: pipeline_flush_def *)
  with assms(1) flush_held show "pipeline_flush held' p'" by metis
qed

text \<open>
  C23: wrong-path instructions are squashed. When the branch checker asks for a flush, the branch
  or jump stays in the memory stage through any number of cycles of cache misses and asks for the
  flush in each of them; in the first cycle without a miss it moves on to write-back, and all
  that was fetched after it is gone: decode holds the no-operation, execute and memory hold
  bubbles, which write no register, access no memory, delay no one and change no program counter.
\<close>

theorem squash:
  assumes "\<And>k. p (Suc k) = pipeline_clock (i_miss k) (d_miss k) (held k) (new k) (p k)"
    and "pipeline_flush (held 0) (p 0)" and "\<forall>k<n. i_miss k \<or> d_miss k" and "\<not> i_miss n \<and> \<not> d_miss n"
  shows "(\<forall>k\<le>n. pipeline_flush (held k) (p k) \<and> to_memory (p k) = to_memory (p 0) \<and> to_write_back (p k) = to_write_back (p 0))
    \<and> bubble_decode (to_decode (p (Suc n))) \<and> bubble_execute (to_execute (p (Suc n))) \<and> bubble_memory (to_memory (p (Suc n)))
    \<and> to_write_back (p (Suc n)) = to_write_back (new n)
    \<and> \<not> pipeline_flush (held (Suc n)) (p (Suc n)) \<and> \<not> pc_stall (pipeline_stalls False False (p (Suc n)))"
proof -
  have kept: "pipeline_flush (held k) (p k) \<and> to_memory (p k) = to_memory (p 0) \<and> to_write_back (p k) = to_write_back (p 0)"
    if "k \<le> n" for k
    using that
  proof (induction k)
    case (Suc k)
    with assms(3) have "i_miss k \<or> d_miss k" "pipeline_flush (held k) (p k)" by simp_all
    note h = held_flush [OF this(2,1) assms(1)]
    from h(1,2) h(3) [of "held (Suc k)"] Suc show ?case by simp
  qed (simp add: assms(2))
  from kept [of n] have "p (Suc n) = pipeline_clock False False (held n) (new n) (p n)" "pipeline_flush (held n) (p n)"
    using assms(1,4) by simp_all
  then have last: "bubble_decode (to_decode (p (Suc n)))" "bubble_execute (to_execute (p (Suc n)))"
    "bubble_memory (to_memory (p (Suc n)))" "to_write_back (p (Suc n)) = to_write_back (new n)"
    using stall_cases(2,3) by (simp_all add: pipeline_clock_def Let_def flushed_bubbles) (simp add: register_steps)
  then have "\<not> pc_stall (pipeline_stalls False False (p (Suc n)))"
    by (simp add: pipeline_stalls_def stall_def bubble_execute_def harmless_def)
  with kept last bubble_no_flush show ?thesis by blast
qed

text \<open>A pipeline with a mispredicted branch, and the outputs of its stages.\<close>

definition empty_pipeline :: pipeline where
  "empty_pipeline =
     \<lparr> to_decode = \<lparr> if_pc_reg = 96, if_instr = nop_instr, if_br_pred_taken = False, if_br_pred_pc = 0 \<rparr>,
       to_execute = id_cleared nop_word 0x13 \<lparr> id_pc_reg = 0, id_reg_1 = 0, id_reg_2 = 0, id_reg_dest = 0, id_i_imm = 0,
         id_s_imm = 0, id_b_imm = 0, id_u_imm = 0, id_j_imm = 0, id_cntrl_word = nop_word, id_funct3 = 0, id_opcode = 0,
         id_rs1_id = 0, id_rs2_id = 0, id_br_pred = False, id_br_pred_pc = 0 \<rparr>,
       to_memory = ex_cleared 0x13,
       to_write_back = \<lparr> wb_u_imm = 0, wb_reg_dest = 0, wb_reg_pc = 0, wb_alu_val = 0, wb_cmp_val = False,
         wb_cntrl_word = zero_word, wb_r_data = 0, wb_opcode = 0x13 \<rparr> \<rparr>"

definition branch_taken :: pipeline where
  "branch_taken = empty_pipeline\<lparr>to_memory := (ex_cleared op_br)\<lparr>ex_cmp_val := True\<rparr>\<rparr>"

definition no_check :: br_check where
  "no_check = \<lparr> mispredicted = False, flush = False, update_br_pred_taken = False \<rparr>"

lemma branch_taken_flush: "pipeline_flush no_check branch_taken"
  by (simp add: pipeline_flush_def branch_taken_def static_nt_predictor_def ex_cleared_def enum_defs)

text \<open>Two cycles of misses in the instruction cache.\<close>

primrec miss_twice :: "nat \<Rightarrow> pipeline" where
  "miss_twice 0 = branch_taken"
| "miss_twice (Suc k) = pipeline_clock (k < 2) False no_check empty_pipeline (miss_twice k)"

theorem squash_witness: "bubble_decode (to_decode (miss_twice 3)) \<and> to_memory (miss_twice 2) = to_memory branch_taken"
proof -
  have "pipeline_flush no_check (miss_twice 0)" by (simp add: branch_taken_flush)
  moreover have "\<forall>k<2. k < (2 :: nat) \<or> False" "\<not> (2 :: nat) < 2 \<and> \<not> False" by simp_all
  ultimately have "bubble_decode (to_decode (miss_twice (Suc 2)))" "\<forall>k\<le>2. to_memory (miss_twice k) = to_memory (miss_twice 0)"
    using squash [where p = miss_twice and n = 2 and i_miss = "\<lambda>k. k < 2" and d_miss = "\<lambda>_. False"
      and held = "\<lambda>_. no_check" and new = "\<lambda>_. empty_pipeline", OF miss_twice.simps(2)] by blast+
  then have "bubble_decode (to_decode (miss_twice (Suc 2)))" "to_memory (miss_twice 2) = to_memory (miss_twice 0)" by blast+
  then show ?thesis by (simp only: miss_twice.simps(1) Suc_numeral add_num_simps simp_thms)
qed

section \<open>Holding and waiting\<close>

text \<open>
  C24: as long as there is no flush, nothing is lost or repeated at a stall. A cycle with a cache miss leaves all
  four registers as they are. A load-use hazard keeps the reader in decode and puts one bubble
  behind the load, which itself moves on, and is over in the next cycle; without hazard or miss
  every instruction moves on by one stage. A flush in the same cycle is excluded: it squashes the wrong path, and one that meets
  a load-use hazard is lost, as shown below.
\<close>

theorem stall_lossless:
  assumes "\<not> pipeline_flush held p" and "p' = pipeline_clock i_miss d_miss held new p"
    and "hazard \<longleftrightarrow> read_mem (id_cntrl_word (to_execute p))
        \<and> id_reg_dest (to_execute p) \<in> {rs1_id (if_instr (to_decode p)), rs2_id (if_instr (to_decode p))}"
  shows "(i_miss \<or> d_miss \<longrightarrow> p' = p \<and> pc_stall (pipeline_stalls i_miss d_miss p))
    \<and> (\<not> i_miss \<and> \<not> d_miss \<and> hazard \<longrightarrow>
         pc_stall (pipeline_stalls i_miss d_miss p) \<and> to_decode p' = to_decode p \<and> bubble_execute (to_execute p')
         \<and> to_memory p' = to_memory new \<and> to_write_back p' = to_write_back new
         \<and> \<not> pc_stall (pipeline_stalls False False p'))
    \<and> (\<not> i_miss \<and> \<not> d_miss \<and> \<not> hazard \<longrightarrow> \<not> pc_stall (pipeline_stalls i_miss d_miss p) \<and> p' = new)"
proof (intro conjI impI)
  have f: "\<not> pipeline_flush h p" for h using assms(1) flush_held by blast
  show "p' = p" if "i_miss \<or> d_miss" using that stall_cases(1) [OF that] f by (simp add: assms(2) pipeline_clock_def Let_def register_steps)
  show "pc_stall (pipeline_stalls i_miss d_miss p)" if "i_miss \<or> d_miss" using that stall_cases(1) by blast
  assume miss: "\<not> i_miss \<and> \<not> d_miss \<and> hazard"
  then have st: "pipeline_stalls i_miss d_miss p = \<lparr> pc_stall = True, stall_if_id = True, stall_id_ex = True, stall_ex_mem = False,
      stall_mem_wb = False, stall_nop_if_id = False, stall_nop_id_ex = True \<rparr>"
    using assms(3) by (auto simp: pipeline_stalls_def stall_def)
  show "pc_stall (pipeline_stalls i_miss d_miss p)" by (simp add: st)
  show "to_decode p' = to_decode p" "to_memory p' = to_memory new" "to_write_back p' = to_write_back new"
    using f by (simp_all add: assms(2) pipeline_clock_def st register_steps)
  show b: "bubble_execute (to_execute p')"
    using f by (simp add: assms(2) pipeline_clock_def st inserted_bubble)
  show "\<not> pc_stall (pipeline_stalls False False p')"
    using b by (simp add: pipeline_stalls_def stall_def bubble_execute_def harmless_def)
next
  have f: "\<not> pipeline_flush h p" for h using assms(1) flush_held by blast
  assume miss: "\<not> i_miss \<and> \<not> d_miss \<and> \<not> hazard"
  then have st: "pipeline_stalls i_miss d_miss p = \<lparr> pc_stall = False, stall_if_id = False, stall_id_ex = False, stall_ex_mem = False,
      stall_mem_wb = False, stall_nop_if_id = False, stall_nop_id_ex = False \<rparr>"
    using assms(3) by (auto simp: pipeline_stalls_def stall_def)
  show "\<not> pc_stall (pipeline_stalls i_miss d_miss p)" by (simp add: st)
  show "p' = new" using f by (simp add: assms(2) pipeline_clock_def st register_steps)
qed

text \<open>A load of register 5 in execute with its reader in decode.\<close>

definition load_use :: "pipeline \<Rightarrow> pipeline" where
  "load_use p = p\<lparr>to_decode := (to_decode p)\<lparr>if_instr := encode (Op Add 6 5 5)\<rparr>,
     to_execute := (to_execute p)\<lparr>id_reg_dest := 5, id_cntrl_word := zero_word\<lparr>read_mem := True, write_reg := True\<rparr>\<rparr>\<rparr>"

theorem stall_lossless_witness:
  "to_decode (pipeline_clock False False no_check empty_pipeline (load_use empty_pipeline)) = to_decode (load_use empty_pipeline)"
proof -
  have "\<not> pipeline_flush no_check (load_use empty_pipeline)"
    by (rule bubble_no_flush) (simp add: load_use_def empty_pipeline_def bubble_defs)
  moreover have "rs1_id (encode (Op Add 6 5 5)) = 5" by simp
  ultimately show ?thesis
    using stall_lossless [of no_check "load_use empty_pipeline" _ False False empty_pipeline True, OF _ refl]
    by (simp add: load_use_def)
qed

section \<open>A lost redirection\<close>

text \<open>
  C29: a flush that meets a load-use hazard loses its target. The stall unit does not see the
  flush: if two wrong-path instructions behind a mispredicted branch, or behind any jump, are a
  load and a reader of what it loads, it holds the program counter in the very cycle in which
  the branch leaves the memory stage. The registers are flushed as they should be, but the
  program counter keeps its wrong-path value, and nothing in the pipeline asks for the
  redirection again.
\<close>

theorem redirection_lost:
  assumes "pipeline_flush held p" and "read_mem (id_cntrl_word (to_execute p))"
    and "id_reg_dest (to_execute p) = rs1_id (if_instr (to_decode p)) \<or> id_reg_dest (to_execute p) = rs2_id (if_instr (to_decode p))"
    and "p' = pipeline_clock False False held new p"
  shows "pc_register_step False (\<not> pc_stall (pipeline_stalls False False p)) target pc = pc
    \<and> bubble_memory (to_memory p') \<and> bubble_execute (to_execute p') \<and> bubble_decode (to_decode p')
    \<and> \<not> pipeline_flush held' p'"
proof -
  have st: "pipeline_stalls False False p = \<lparr> pc_stall = True, stall_if_id = True, stall_id_ex = True, stall_ex_mem = False,
      stall_mem_wb = False, stall_nop_if_id = False, stall_nop_id_ex = True \<rparr>"
    using assms(2,3) by (auto simp: pipeline_stalls_def stall_def)
  have b: "bubble_memory (to_memory p')" "bubble_execute (to_execute p')" "bubble_decode (to_decode p')"
    using assms(1) by (simp_all add: assms(4) pipeline_clock_def st flushed_bubbles)
  with bubble_no_flush show ?thesis by (simp add: pc_register_step_def st)
qed

theorem redirection_lost_witness:
  "pc_register_step False (\<not> pc_stall (pipeline_stalls False False (load_use branch_taken))) 0x200 0x6c = 0x6c"
proof -
  have "pipeline_flush no_check (load_use branch_taken)"
    using branch_taken_flush by (simp add: pipeline_flush_def load_use_def)
  moreover have "rs1_id (encode (Op Add 6 5 5)) = 5" by simp
  ultimately show ?thesis
    using redirection_lost [of no_check "load_use branch_taken" _ empty_pipeline "0x200" "0x6c", OF _ _ _ refl]
    by (simp add: load_use_def)
qed

end
