(* ===== verification/Port_Runs.thy ===== *)
theory Port_Runs
  imports Prelude
begin

text \<open>
  Ports on which requests are held until a response, in general: what a run of accesses is, and the
  contract by which the component behind the port is a memory. Inputs, requests, values and
  memories are parameters; the word port of the data cache and the line port of the second-level
  cache are instances.
\<close>

section \<open>Runs\<close>

text \<open>\<open>step s i d v s'\<close> is a cycle with inputs \<open>i\<close>, response \<open>d\<close> and read data \<open>v\<close>.\<close>

text \<open>A held access: cycles without a response, then the one with it.\<close>

inductive port_held for requests :: "'i \<Rightarrow> 'q \<Rightarrow> bool" and step :: "'s \<Rightarrow> 'i \<Rightarrow> bool \<Rightarrow> 'v \<Rightarrow> 's \<Rightarrow> bool" where
  response: "requests i q \<Longrightarrow> step s i True v s' \<Longrightarrow> port_held requests step 0 s q v s'"
| wait: "requests i q \<Longrightarrow> step s i False u s' \<Longrightarrow> port_held requests step n s' q v s'' \<Longrightarrow>
    port_held requests step (Suc n) s q v s''"

text \<open>Accesses one after the other, with idle cycles between them.\<close>

inductive port_run for requests :: "'i \<Rightarrow> 'q \<Rightarrow> bool" and accessed :: "'i \<Rightarrow> bool"
  and step :: "'s \<Rightarrow> 'i \<Rightarrow> bool \<Rightarrow> 'v \<Rightarrow> 's \<Rightarrow> bool" where
  finish: "port_run requests accessed step s [] [] s"
| pause: "\<not> accessed i \<Longrightarrow> step s i d u s' \<Longrightarrow> port_run requests accessed step s' qs vs s'' \<Longrightarrow>
    port_run requests accessed step s qs vs s''"
| access: "port_held requests step n s q v s' \<Longrightarrow> port_run requests accessed step s' qs vs s'' \<Longrightarrow>
    port_run requests accessed step s (q # qs) (v # vs) s''"

lemma port_run_append:
  "port_run requests accessed step s (ps @ qs) vs s'' \<Longrightarrow>
     \<exists>us ws s'. port_run requests accessed step s ps us s' \<and> port_run requests accessed step s' qs ws s''"
proof (induction s "ps @ qs" vs s'' arbitrary: ps rule: port_run.induct)
  case (finish s)
  then show ?case by (auto intro: port_run.finish)
next
  case (pause i s d u s' vs s'')
  from pause.hyps(4) obtain us ws t where r: "port_run requests accessed step s' ps us t" "port_run requests accessed step t qs ws s''"
    by blast
  from pause.hyps(1,2) r(1) have "port_run requests accessed step s ps us t" by (rule port_run.pause)
  with r(2) show ?case by blast
next
  case (access n s q v s' rs vs s'')
  show ?case
  proof (cases ps)
    case Nil
    with access.hyps(4) have "qs = q # rs" by simp
    moreover from access.hyps(1,2) have "port_run requests accessed step s (q # rs) (v # vs) s''" by (rule port_run.access)
    moreover have "port_run requests accessed step s [] [] s" by (rule port_run.finish)
    ultimately show ?thesis unfolding Nil by blast
  next
    case (Cons p ps')
    with access.hyps(4) have p: "p = q" "rs = ps' @ qs" by simp_all
    from access.hyps(3) [OF p(2)] obtain us ws t where r: "port_run requests accessed step s' ps' us t"
      "port_run requests accessed step t qs ws s''" by blast
    from access.hyps(1) r(1) have "port_run requests accessed step s (q # ps') (v # us) t" by (rule port_run.access)
    with r(2) Cons p show ?thesis by blast
  qed
qed

text \<open>What a memory would have answered.\<close>

fun port_memory :: "('q \<Rightarrow> 'm \<Rightarrow> 'v \<Rightarrow> bool) \<Rightarrow> ('q \<Rightarrow> 'm \<Rightarrow> 'm) \<Rightarrow> 'm \<Rightarrow> 'q list \<Rightarrow> 'v list \<Rightarrow> bool" where
  "port_memory answer change L [] [] = True"
| "port_memory answer change L (q # qs) (v # vs) = (answer q L v \<and> port_memory answer change (change q L) qs vs)"
| "port_memory answer change L _ _ = False"

section \<open>The interface\<close>

text \<open>
  \<open>ready s L\<close>: at rest, with memory \<open>L\<close>; \<open>serving s q L n\<close>: at work on \<open>q\<close> for at most \<open>n\<close> more cycles.
\<close>

locale memory_port =
  fixes requests :: "'i \<Rightarrow> 'q \<Rightarrow> bool"
    and accessed :: "'i \<Rightarrow> bool"
    and answer :: "'q \<Rightarrow> 'm \<Rightarrow> 'v \<Rightarrow> bool"
    and change :: "'q \<Rightarrow> 'm \<Rightarrow> 'm"
    and step :: "'s \<Rightarrow> 'i \<Rightarrow> bool \<Rightarrow> 'v \<Rightarrow> 's \<Rightarrow> bool"
    and ready :: "'s \<Rightarrow> 'm \<Rightarrow> bool"
    and serving :: "'s \<Rightarrow> 'q \<Rightarrow> 'm \<Rightarrow> nat \<Rightarrow> bool"
    and bound :: nat
  assumes asked: "\<exists>i. requests i q"
    and live: "\<exists>d v s'. step s i d v s'"
    and rests: "ready s L \<Longrightarrow> \<not> accessed i \<Longrightarrow> step s i d v s' \<Longrightarrow> \<not> d \<and> ready s' L"
    and accepts: "ready s L \<Longrightarrow> \<exists>n\<le>bound. serving s q L n"
    and progress: "serving s q L n \<Longrightarrow> requests i q \<Longrightarrow> step s i d v s' \<Longrightarrow>
      if d then answer q L v \<and> ready s' (change q L) else \<exists>m<n. serving s' q L m"
begin

lemma held_correct:
  "port_held requests step n s q v s' \<Longrightarrow> serving s q L m \<Longrightarrow> n \<le> m \<and> answer q L v \<and> ready s' (change q L)"
proof (induction arbitrary: m rule: port_held.induct)
  case (response i q s v s')
  from progress [OF response(3,1,2)] show ?case by simp
next
  case (wait i q s u s' n v s'')
  from progress [OF wait(5,1,2)] obtain k where "k < m" "serving s' q L k" by auto
  with wait.IH show ?case by fastforce
qed

lemma held_returns: "serving s q L m \<Longrightarrow> \<exists>n v s'. port_held requests step n s q v s'"
proof (induction m arbitrary: s rule: less_induct)
  case (less m)
  obtain i where i: "requests i q" using asked by blast
  obtain d v s' where st: "step s i d v s'" using live by blast
  show ?case
  proof (cases d)
    case True
    with i st have "port_held requests step 0 s q v s'" by (simp add: port_held.response)
    then show ?thesis by blast
  next
    case False
    with progress [OF less.prems i st] obtain k where "k < m" "serving s' q L k" by auto
    from less.IH [OF this] obtain n u s'' where "port_held requests step n s' q u s''" by blast
    with i st False have "port_held requests step (Suc n) s q u s''" by (simp add: port_held.wait)
    then show ?thesis by blast
  qed
qed

text \<open>An endless sequence of cycles that holds the access is answered.\<close>

lemma serving_answered:
  assumes "serving (st 0) q L m" and "\<And>k. step (st k) (i k) (d k) (v k) (st (Suc k))"
    and "\<And>k. (\<forall>j<k. \<not> d j) \<Longrightarrow> requests (i k) q"
  shows "\<exists>n\<le>m. d n \<and> (\<forall>j<n. \<not> d j) \<and> answer q L (v n) \<and> ready (st (Suc n)) (change q L)"
  using assms
proof (induction m arbitrary: st i d v rule: less_induct)
  case (less m)
  have now: "requests (i 0) q" "step (st 0) (i 0) (d 0) (v 0) (st (Suc 0))"
    using less.prems(2) [of 0] less.prems(3) [of 0] by simp_all
  show ?case
  proof (cases "d 0")
    case True
    with progress [OF less.prems(1) now] show ?thesis by (intro exI [of _ 0]) simp
  next
    case False
    with progress [OF less.prems(1) now] obtain k where k: "k < m" "serving (st (Suc 0)) q L k" by auto
    have "\<exists>n\<le>k. d (Suc n) \<and> (\<forall>j<n. \<not> d (Suc j)) \<and> answer q L (v (Suc n)) \<and> ready (st (Suc (Suc n))) (change q L)"
    proof (rule less.IH [OF k(1), of "\<lambda>j. st (Suc j)" "\<lambda>j. i (Suc j)" "\<lambda>j. d (Suc j)" "\<lambda>j. v (Suc j)"])
      show "requests (i (Suc j)) q" if "\<forall>n<j. \<not> d (Suc n)" for j
        using that False less.prems(3) [of "Suc j"] by (auto simp: less_Suc_eq_0_disj)
    qed (use k(2) less.prems(2) in simp_all)
    then obtain n where n: "n \<le> k" "d (Suc n)" "\<forall>j<n. \<not> d (Suc j)" "answer q L (v (Suc n))"
      "ready (st (Suc (Suc n))) (change q L)" by blast
    then have "\<forall>j<Suc n. \<not> d j" using False by (auto simp: less_Suc_eq_0_disj)
    with n k(1) show ?thesis by (intro exI [of _ "Suc n"]) simp
  qed
qed

lemma held_answered:
  assumes "ready (st 0) L" and "\<And>k. step (st k) (i k) (d k) (v k) (st (Suc k))"
    and "\<And>k. (\<forall>j<k. \<not> d j) \<Longrightarrow> requests (i k) q"
  shows "\<exists>n\<le>bound. d n \<and> (\<forall>j<n. \<not> d j) \<and> answer q L (v n) \<and> ready (st (Suc n)) (change q L)"
proof -
  obtain m where m: "m \<le> bound" "serving (st 0) q L m" using accepts [OF assms(1)] by blast
  from serving_answered [where st = st and i = i and d = d and v = v, OF m(2) assms(2,3)] m(1) show ?thesis
    by (meson le_trans)
qed

text \<open>Cycles never get stuck.\<close>

lemma endless:
  obtains st d v where "st (0 :: nat) = s" and "\<And>k. step (st k) (i k) (d k) (v k) (st (Suc k))"
proof -
  have "\<forall>p. \<exists>y d v. step (fst p) (i (snd p)) d v y" using live by blast
  from choice [OF this] obtain nx where nx: "\<forall>p. \<exists>d v. step (fst p) (i (snd p)) d v (nx p)" by blast
  define st where "st = rec_nat s (\<lambda>k x. nx (x, k))"
  have "\<exists>d v. step (st k) (i k) d v (st (Suc k))" for k using nx [THEN spec, of "(st k, k)"] by (simp add: st_def)
  then obtain d v where "step (st k) (i k) (d k) (v k) (st (Suc k))" for k by metis
  moreover have "st 0 = s" by (simp add: st_def)
  ultimately show thesis using that by blast
qed

lemma run_correct: "port_run requests accessed step s qs vs s' \<Longrightarrow> ready s L \<Longrightarrow> port_memory answer change L qs vs \<and> ready s' (fold change qs L)"
proof (induction arbitrary: L rule: port_run.induct)
  case (access n s q v s' qs vs s'')
  obtain m where "serving s q L m" using accepts [OF access.prems] by blast
  from held_correct [OF access(1) this] access.IH [of "change q L"] show ?case by simp
qed (auto dest: rests)

lemma run_returns: "ready s L \<Longrightarrow> \<exists>vs s'. port_run requests accessed step s qs vs s'"
proof (induction qs arbitrary: s L)
  case (Cons q qs)
  obtain m where m: "serving s q L m" using accepts [OF Cons.prems] by blast
  then obtain n v s' where h: "port_held requests step n s q v s'" using held_returns by blast
  from held_correct [OF this m] have "ready s' (change q L)" by simp
  from Cons.IH [OF this] h show ?case by (blast intro: port_run.access)
qed (blast intro: port_run.finish)

end

end
