(* ===== verification/Word_Port.thy ===== *)
theory Word_Port
  imports Cache_Cycles Port_Runs
begin

text \<open>
  The port between the pipeline and a cache, as an interface: a word of four byte enables is
  read or written at an address, the request is held until the response. What the pipeline
  relies on is that the port behaves as a memory; what it observes is the sequence of results
  of its accesses.
\<close>

section \<open>Accesses\<close>

datatype access = LoadWord u32 | StoreWord u32 "4 word" u32

fun requests :: "cache_in \<Rightarrow> access \<Rightarrow> bool" where
  "requests i (LoadWord a) \<longleftrightarrow> mem_read i \<and> \<not> mem_write i \<and> mem_address i = a"
| "requests i (StoreWord a be w) \<longleftrightarrow>
     mem_write i \<and> \<not> mem_read i \<and> mem_address i = a \<and> mem_byte_enable i = be \<and> mem_wdata i = w"

definition store_line :: "u32 \<Rightarrow> 4 word \<Rightarrow> u32 \<Rightarrow> line \<Rightarrow> line" where
  "store_line a be w v = merge_bytes (adapt_enable a be) (adapt_wdata w) v"

fun access_effect :: "access \<Rightarrow> lines \<Rightarrow> lines" where
  "access_effect (LoadWord a) L = L"
| "access_effect (StoreWord a be w) L = L(line_no a := store_line a be w (L (line_no a)))"

text \<open>The result of a load; a store delivers nothing.\<close>

fun answer :: "access \<Rightarrow> lines \<Rightarrow> u32 \<Rightarrow> bool" where
  "answer (LoadWord a) L v \<longleftrightarrow> v = adapt_rdata a (L (line_no a))"
| "answer (StoreWord a be w) L v \<longleftrightarrow> True"

fun access_addr :: "access \<Rightarrow> u32" where
  "access_addr (LoadWord a) = a" | "access_addr (StoreWord a be w) = a"

section \<open>Runs\<close>

abbreviation run :: "('s \<Rightarrow> cache_in \<Rightarrow> bool \<Rightarrow> u32 \<Rightarrow> 's \<Rightarrow> bool) \<Rightarrow> 's \<Rightarrow> access list \<Rightarrow> u32 list \<Rightarrow> 's \<Rightarrow> bool" where
  "run \<equiv> port_run requests accessed"

abbreviation memory_run :: "lines \<Rightarrow> access list \<Rightarrow> u32 list \<Rightarrow> bool" where
  "memory_run \<equiv> port_memory answer access_effect"

section \<open>The interface\<close>

locale word_port = memory_port requests accessed answer access_effect step ready serving bound
  for step :: "'s \<Rightarrow> cache_in \<Rightarrow> bool \<Rightarrow> u32 \<Rightarrow> 's \<Rightarrow> bool"
    and ready :: "'s \<Rightarrow> lines \<Rightarrow> bool"
    and serving :: "'s \<Rightarrow> access \<Rightarrow> lines \<Rightarrow> nat \<Rightarrow> bool"
    and bound :: nat

lemma requests_held: "\<exists>i. requests i q"
proof (cases q)
  case (LoadWord a)
  then have "requests \<lparr> mem_address = a, mem_wdata = 0, mem_read = True, mem_write = False, mem_byte_enable = 0,
      pmem_rdata = 0, pmem_resp = False \<rparr> q" by simp
  then show ?thesis by blast
next
  case (StoreWord a be w)
  then have "requests \<lparr> mem_address = a, mem_wdata = w, mem_read = False, mem_write = True, mem_byte_enable = be,
      pmem_rdata = 0, pmem_resp = False \<rparr> q" by simp
  then show ?thesis by blast
qed

end
