(* ===== verification/Byte_Memory.thy ===== *)
theory Byte_Memory
  imports Word_Port Retire_Correct
begin

text \<open>
  The data memory as the pipeline sees it, a map from addresses to bytes: what an access on the
  word port does to it and delivers, a run of accesses, and one cycle of the port.
\<close>

section \<open>Accesses to bytes\<close>

fun byte_effect :: "access \<Rightarrow> memory \<Rightarrow> memory" where
  "byte_effect (LoadWord a) m = m"
| "byte_effect (StoreWord a be w) m = masked_write m a be w"

fun byte_answer :: "access \<Rightarrow> memory \<Rightarrow> u32 \<Rightarrow> bool" where
  "byte_answer (LoadWord a) m v \<longleftrightarrow> v = word_at m a"
| "byte_answer (StoreWord a be w) m v \<longleftrightarrow> True"

text \<open>A byte memory answering accesses in order.\<close>

fun byte_run :: "memory \<Rightarrow> access list \<Rightarrow> u32 list \<Rightarrow> memory \<Rightarrow> bool" where
  "byte_run m [] [] m' \<longleftrightarrow> m' = m"
| "byte_run m (q # qs) (v # vs) m' \<longleftrightarrow> byte_answer q m v \<and> byte_run (byte_effect q m) qs vs m'"
| "byte_run m _ _ m' \<longleftrightarrow> False"

lemma byte_run_length: "byte_run m qs vs m' \<Longrightarrow> length vs = length qs"
  by (induction m qs vs m' rule: byte_run.induct) simp_all

section \<open>Cycles\<close>

text \<open>
  In a cycle the port has an access or none; a missed access changes nothing, an answered one is
  carried out.
\<close>

definition port_cycle :: "access option \<Rightarrow> bool \<Rightarrow> u32 \<Rightarrow> memory \<Rightarrow> memory \<Rightarrow> bool" where
  "port_cycle request miss v m m' \<longleftrightarrow>
     (case request of
        None \<Rightarrow> m' = m
      | Some q \<Rightarrow> if miss then m' = m else byte_answer q m v \<and> m' = byte_effect q m)"

end
