(* ===== verification/Core.thy ===== *)
theory Core
  imports Pipeline_Correct Predictors Byte_Memory
begin

text \<open>
  The core: the stages, the registers between them, the register file, the branch checker, the
  predictor and the program counter put together. What comes from outside in a cycle, from the
  two caches, is an input, and so is what the combinational latches hold; the accesses of the
  memory stage are an output.
\<close>

section \<open>State and inputs\<close>

record core =
  pcreg :: u32
  registers :: pipeline
  regs_data :: regfile
  checker :: br_check
  predictor :: br_pred_blkbox

record core_in =
  core_rst :: bool
  i_cache_miss :: bool
  d_cache_miss :: bool
  i_cache_rdata :: u32
  d_cache_rdata :: u32
  update_hist_table :: bool
  execute_held :: ex_held
  control_held :: rv32i_control_word
  regfilemux_held :: u32
  enable_held :: "4 word"
  br_pred_pc_held :: u32

section \<open>Write-back and memory stage\<close>

definition wb_value :: "core_in \<Rightarrow> core \<Rightarrow> u32" where
  "wb_value i c =
     (let w = to_write_back (registers c)
      in regfilemux_out (regfilemux_held i) (wb_cntrl_word w) (wb_cmp_val w) (wb_alu_val w) (wb_reg_pc w) (wb_u_imm w) (wb_r_data w))"

definition write_back :: "core_in \<Rightarrow> core \<Rightarrow> regfile" where
  "write_back i c =
     (let w = to_write_back (registers c)
      in regfile_step (core_rst i) (write_reg (wb_cntrl_word w)) (wb_value i c) (wb_reg_dest w) (regs_data c))"

definition check_branch :: "core \<Rightarrow> br_check" where
  "check_branch c =
     (let m = to_memory (registers c) in static_nt_predictor (checker c) (ex_cmp_val m) (ex_opcode m) (ex_br_pred_taken m))"

text \<open>The instructions the forwarding unit compares.\<close>

definition hazards :: "pipeline \<Rightarrow> hazard_inputs" where
  "hazards p =
     \<lparr> rs1_id_IdEx = id_rs1_id (to_execute p), rs2_id_IdEx = id_rs2_id (to_execute p), rs2_id_ExMem = ex_rs2_id (to_memory p),
       rd_id_MemWb = wb_reg_dest (to_write_back p), rd_id_ExMem = ex_reg_dest (to_memory p),
       control_word_IdEx = id_cntrl_word (to_execute p), control_word_ExMem = ex_cntrl_word (to_memory p),
       control_word_MemWb = wb_cntrl_word (to_write_back p) \<rparr>"

text \<open>The request to the data cache.\<close>

definition data_request :: "core_in \<Rightarrow> core \<Rightarrow> access option" where
  "data_request i c =
     (let m = to_memory (registers c); a = ex_alu_val m; op = ex_opcode m; f3 = ex_funct3 m in
      if read_mem (ex_cntrl_word m) then Some (LoadWord a)
      else if write_mem (ex_cntrl_word m) then
        Some (StoreWord a (Stages.mem_byte_enable (enable_held i) op f3 a)
          (wdata_out (cachemux_fwd (forwardingunit (hazards (registers c)))) op f3 a (ex_reg_2 m) (wb_value i c)))
      else None)"

definition memory_out :: "core_in \<Rightarrow> core \<Rightarrow> mem_wb" where
  "memory_out i c =
     (let m = to_memory (registers c) in
      \<lparr> wb_u_imm = ex_u_imm m, wb_reg_dest = ex_reg_dest m, wb_reg_pc = ex_reg_pc m, wb_alu_val = ex_alu_val m,
        wb_cmp_val = ex_cmp_val m, wb_cntrl_word = ex_cntrl_word m, wb_r_data = d_cache_rdata i, wb_opcode = ex_opcode m \<rparr>)"

section \<open>Execute stage\<close>

definition execute_in :: "core_in \<Rightarrow> core \<Rightarrow> ex_inputs" where
  "execute_in i c =
     (let e = to_execute (registers c); m = to_memory (registers c) in
      \<lparr> reg_data_1_in = id_reg_1 e, reg_data_2_in = id_reg_2 e, pc_reg_in = id_pc_reg e, i_imm_in = id_i_imm e,
        s_imm_in = id_s_imm e, b_imm_in = id_b_imm e, u_imm_in = id_u_imm e, j_imm_in = id_j_imm e,
        data_from_exmem_in = forwarding_val_out (ex_cntrl_word m) (ex_alu_val m) (ex_cmp_val m) (ex_u_imm m) (ex_reg_pc m),
        data_from_memwb_in = wb_value i c \<rparr>)"

definition execute_out :: "core_in \<Rightarrow> core \<Rightarrow> ex_mem" where
  "execute_out i c =
     (let e = to_execute (registers c);
          x = execute (execute_held i) (id_cntrl_word e) (forwardingunit (hazards (registers c))) (execute_in i c) in
      \<lparr> ex_reg_pc = id_pc_reg e, ex_u_imm = id_u_imm e, ex_reg_2 = rs2_out x, ex_reg_dest = id_reg_dest e,
        ex_cmp_val = cmp_out x, ex_alu_val = alu_out x, ex_cntrl_word = id_cntrl_word e, ex_funct3 = id_funct3 e,
        ex_opcode = id_opcode e, ex_rs2_id = id_rs2_id e, ex_br_pred_taken = id_br_pred e \<rparr>)"

section \<open>Decode stage\<close>

definition decode_out :: "core_in \<Rightarrow> core \<Rightarrow> id_ex" where
  "decode_out i c =
     (let d = to_decode (registers c); w = if_instr d;
          port = regfile_read (wb_value i c) (wb_reg_dest (to_write_back (registers c))) (regs_data c) in
      \<lparr> id_pc_reg = if_pc_reg d, id_reg_1 = port (rs1_id w), id_reg_2 = port (rs2_id w), id_reg_dest = rd_out w,
        id_i_imm = i_imm_out w, id_s_imm = s_imm_out w, id_b_imm = b_imm_out w, id_u_imm = u_imm_out w, id_j_imm = j_imm_out w,
        id_cntrl_word = control_word_out (control_held i) w, id_funct3 = funct3_out w, id_opcode = opcode_out w,
        id_rs1_id = rs1_id w, id_rs2_id = rs2_id w, id_br_pred = if_br_pred_taken d, id_br_pred_pc = if_br_pred_pc d \<rparr>)"

section \<open>Fetch stage\<close>

definition core_stalls :: "core_in \<Rightarrow> core \<Rightarrow> stalls" where
  "core_stalls i c = pipeline_stalls (i_cache_miss i) (d_cache_miss i) (registers c)"

definition predictor_in :: "core_in \<Rightarrow> core \<Rightarrow> pred_in" where
  "predictor_in i c = fetch_pred_in (core_rst i) (i_cache_rdata i) (update_hist_table i) (pc_stall (core_stalls i c))
     (update_br_pred_taken (check_branch c)) (pcreg c) (ex_reg_pc (to_memory (registers c)))"

definition predicted_taken :: "core_in \<Rightarrow> core \<Rightarrow> bool" where
  "predicted_taken i c = blkbox_flush (blkbox_comb (predictor_in i c) (predictor c))"

definition predicted_pc :: "core_in \<Rightarrow> core \<Rightarrow> u32" where
  "predicted_pc i c = br_pred_pc_out (br_pred_pc_held i) (predicted_taken i c) (i_cache_rdata i) (pcreg c)"

definition fetch_out :: "core_in \<Rightarrow> core \<Rightarrow> if_id" where
  "fetch_out i c =
     \<lparr> if_pc_reg = pcreg c, if_instr = i_cache_rdata i, if_br_pred_taken = predicted_taken i c,
       if_br_pred_pc = predicted_pc i c \<rparr>"

definition fetch_next :: "core_in \<Rightarrow> core \<Rightarrow> u32" where
  "fetch_next i c =
     (let m = to_memory (registers c); b = check_branch c
      in pc_sel_out (mispredicted b) (ex_reg_pc m)
        (pcmux_out (predicted_taken i c) (flush b) (pcmux_sel (ex_cntrl_word m)) (pcreg c) (ex_alu_val m) (predicted_pc i c)))"

section \<open>A clock cycle\<close>

definition stage_outputs :: "core_in \<Rightarrow> core \<Rightarrow> pipeline" where
  "stage_outputs i c = \<lparr> to_decode = fetch_out i c, to_execute = decode_out i c, to_memory = execute_out i c,
     to_write_back = memory_out i c \<rparr>"

definition pipeline_reset :: "pipeline \<Rightarrow> pipeline \<Rightarrow> pipeline" where
  "pipeline_reset new p =
     \<lparr> to_decode = if_id_step True False False (to_decode new) (to_decode p),
       to_execute = id_ex_step True False False False (to_execute new) (to_execute p),
       to_memory = ex_mem_step True False False (to_memory new) (to_memory p),
       to_write_back = mem_wb_step True False (to_write_back new) (to_write_back p) \<rparr>"

definition core_step :: "core_in \<Rightarrow> core \<Rightarrow> core" where
  "core_step i c =
     \<lparr> pcreg = pc_register_step (core_rst i) (\<not> pc_stall (core_stalls i c)) (fetch_next i c) (pcreg c),
       registers =
         (if core_rst i then pipeline_reset (stage_outputs i c) (registers c)
          else pipeline_clock (i_cache_miss i) (d_cache_miss i) (checker c) (stage_outputs i c) (registers c)),
       regs_data = write_back i c,
       checker = check_branch c,
       predictor = blkbox_step (predictor_in i c) (predictor c) \<rparr>"

text \<open>A cycle in which a redirection meets a load-use hazard and is lost.\<close>

definition redirection_meets_hazard :: "core_in \<Rightarrow> core \<Rightarrow> bool" where
  "redirection_meets_hazard i c \<longleftrightarrow>
     \<not> i_cache_miss i \<and> \<not> d_cache_miss i \<and> flush (check_branch c) \<and> pc_stall (core_stalls i c)"

lemma check_branch_flush: "pipeline_flush (checker c) (registers c) = flush (check_branch c)"
  by (simp add: pipeline_flush_def check_branch_def Let_def)

end
