(* ===== verification/Isa_Machine.thy ===== *)
theory Isa_Machine
  imports Retire_Correct
begin

text \<open>
  The machine of the instruction-set manual: a program counter, registers and a memory of bytes,
  and one instruction after the other. It is the specification of the core.
\<close>

section \<open>Machine states\<close>

record arch =
  a_pc :: u32
  a_regs :: "rv32i_reg \<Rightarrow> u32"
  a_mem :: memory

text \<open>Register 0 reads as 0.\<close>

definition reg_value :: "(rv32i_reg \<Rightarrow> u32) \<Rightarrow> rv32i_reg \<Rightarrow> u32" where
  "reg_value regs r = (if r = 0 then 0 else regs r)"

type_synonym assembly = "u32 \<Rightarrow> instr"

definition source1 :: "assembly \<Rightarrow> arch \<Rightarrow> u32" where
  "source1 prog s = reg_value (a_regs s) (source1_of (prog (a_pc s)))"

definition source2 :: "assembly \<Rightarrow> arch \<Rightarrow> u32" where
  "source2 prog s = reg_value (a_regs s) (source2_of (prog (a_pc s)))"

definition isa_effect :: "assembly \<Rightarrow> arch \<Rightarrow> effect" where
  "isa_effect prog s = isa_exec (prog (a_pc s)) (a_pc s) (source1 prog s) (source2 prog s) (a_mem s)"

definition isa_step :: "assembly \<Rightarrow> arch \<Rightarrow> arch" where
  "isa_step prog s =
     (let e = isa_effect prog s; rd = dest_of (prog (a_pc s)) in
      \<lparr> a_pc = next_pc e,
        a_regs = (case rd_value e of None \<Rightarrow> a_regs s | Some v \<Rightarrow> if rd = 0 then a_regs s else (a_regs s)(rd := v)),
        a_mem = memory_after e \<rparr>)"

primrec isa_run :: "assembly \<Rightarrow> arch \<Rightarrow> nat \<Rightarrow> arch" where
  "isa_run prog s 0 = s"
| "isa_run prog s (Suc n) = isa_step prog (isa_run prog s n)"

text \<open>
  What a program has to be: the words at the addresses it gets to are the encodings of its
  instructions, these are valid, and their accesses are aligned.
\<close>

definition well_behaved :: "(u32 \<Rightarrow> u32) \<Rightarrow> assembly \<Rightarrow> arch \<Rightarrow> bool" where
  "well_behaved code prog s \<longleftrightarrow>
     code (a_pc s) = encode (prog (a_pc s)) \<and> valid (prog (a_pc s)) \<and> aligned_access (prog (a_pc s)) (source1 prog s)"

definition executes :: "(u32 \<Rightarrow> u32) \<Rightarrow> assembly \<Rightarrow> arch \<Rightarrow> bool" where
  "executes code prog s \<longleftrightarrow> (\<forall>n. well_behaved code prog (isa_run prog s n))"

section \<open>Single instructions\<close>

lemma writes_value: "(rd_value (isa_exec i pc x y m) = None) \<longleftrightarrow> \<not> writes i"
  by (cases i) simp_all

lemma not_writes_dest: "\<not> writes i \<Longrightarrow> dest_of i = 0"
  by (cases i) simp_all

text \<open>The registers change at the destination only, and get the value of the instruction.\<close>

lemma isa_step_regs:
  "a_regs (isa_step prog s) r =
     (if dest_of (prog (a_pc s)) = r \<and> r \<noteq> 0 then the (rd_value (isa_effect prog s)) else a_regs s r)"
proof (cases "rd_value (isa_effect prog s)")
  case None
  then have "dest_of (prog (a_pc s)) = 0"
    using writes_value not_writes_dest unfolding isa_effect_def by blast
  with None show ?thesis by (simp add: isa_step_def Let_def)
qed (simp add: isa_step_def Let_def)

lemma isa_step_mem: "\<not> is_store (prog (a_pc s)) \<Longrightarrow> a_mem (isa_step prog s) = a_mem s"
  by (cases "prog (a_pc s)") (simp_all add: isa_step_def isa_effect_def Let_def)

lemma isa_step_pc: "a_pc (isa_step prog s) = next_pc (isa_effect prog s)"
  by (simp add: isa_step_def Let_def)

lemma isa_step_memory: "a_mem (isa_step prog s) = memory_after (isa_effect prog s)"
  by (simp add: isa_step_def Let_def)

end
