(* ===== verification/Core_Stages.thy ===== *)
theory Core_Stages
  imports Core Isa_Machine
begin

text \<open>
  The stages of the core against the machine of the instruction set: what it means that a stage
  holds an instruction of a run of the machine, and that every instruction goes on to the next
  stage as it should, with the operands, results, memory and program counter of the machine.
\<close>

section \<open>What the stages hold\<close>

definition in_decode :: "assembly \<Rightarrow> arch \<Rightarrow> if_id \<Rightarrow> bool" where
  "in_decode prog t d \<longleftrightarrow> if_instr d = encode (prog (a_pc t)) \<and> if_pc_reg d = a_pc t"

definition in_execute :: "assembly \<Rightarrow> arch \<Rightarrow> id_ex \<Rightarrow> bool" where
  "in_execute prog t e \<longleftrightarrow>
     (let w = encode (prog (a_pc t)) in
      id_pc_reg e = a_pc t \<and> id_i_imm e = i_imm_out w \<and> id_s_imm e = s_imm_out w \<and> id_b_imm e = b_imm_out w
      \<and> id_u_imm e = u_imm_out w \<and> id_j_imm e = j_imm_out w \<and> (\<exists>h. id_cntrl_word e = control_word_out h w)
      \<and> id_funct3 e = funct3_out w \<and> id_opcode e = opcode_out w \<and> id_rs1_id e = rs1_id w \<and> id_rs2_id e = rs2_id w
      \<and> id_reg_dest e = rd_out w)"

definition in_memory :: "assembly \<Rightarrow> arch \<Rightarrow> ex_mem \<Rightarrow> bool" where
  "in_memory prog t m \<longleftrightarrow>
     (let i = prog (a_pc t) in
      ex_reg_pc m = a_pc t \<and> ex_reg_dest m = dest_of i \<and> (\<exists>h. ex_cntrl_word m = control_word_out h (encode i))
      \<and> ex_funct3 m = funct3_out (encode i) \<and> ex_opcode m = opcode_of i
      \<and> computed i (a_pc t) (source1 prog t) (source2 prog t) (ex_alu_val m) (ex_cmp_val m) (ex_u_imm m) (ex_reg_2 m))"

text \<open>Bubbles, with the multiplexer of the program counter in mind.\<close>

definition quiet_execute :: "id_ex \<Rightarrow> bool" where
  "quiet_execute e \<longleftrightarrow> bubble_execute e \<and> pcmux_sel (id_cntrl_word e) = 0"

definition quiet_memory :: "ex_mem \<Rightarrow> bool" where
  "quiet_memory m \<longleftrightarrow> bubble_memory m \<and> pcmux_sel (ex_cntrl_word m) = 0"

text \<open>
  A stage holds the instruction with the number \<open>j\<close>, and the next one is \<open>Suc j\<close>, or a bubble.
\<close>

definition decode_slot :: "assembly \<Rightarrow> (nat \<Rightarrow> arch) \<Rightarrow> nat \<Rightarrow> nat \<Rightarrow> if_id \<Rightarrow> bool" where
  "decode_slot prog A j j' d \<longleftrightarrow> bubble_decode d \<and> j' = j \<or> in_decode prog (A j) d \<and> j' = Suc j"

definition execute_slot :: "assembly \<Rightarrow> (nat \<Rightarrow> arch) \<Rightarrow> nat \<Rightarrow> nat \<Rightarrow> id_ex \<Rightarrow> bool" where
  "execute_slot prog A j j' e \<longleftrightarrow> quiet_execute e \<and> j' = j \<or> in_execute prog (A j) e \<and> j' = Suc j"

definition memory_slot :: "assembly \<Rightarrow> (nat \<Rightarrow> arch) \<Rightarrow> nat \<Rightarrow> nat \<Rightarrow> ex_mem \<Rightarrow> bool" where
  "memory_slot prog A j j' m \<longleftrightarrow> quiet_memory m \<and> j' = j \<or> in_memory prog (A j) m \<and> j' = Suc j"

definition redirecting :: "assembly \<Rightarrow> (nat \<Rightarrow> arch) \<Rightarrow> nat \<Rightarrow> nat \<Rightarrow> bool \<Rightarrow> bool" where
  "redirecting prog A j j' predicted \<longleftrightarrow>
     j' = Suc j \<and> redirects (prog (a_pc (A j))) (source1 prog (A j)) (source2 prog (A j)) predicted"

text \<open>
  The register file and the write in flight make up the registers \<open>regs\<close>, whatever the
  multiplexer of the write-back stage holds.
\<close>

definition written :: "(rv32i_reg \<Rightarrow> u32) \<Rightarrow> mem_wb \<Rightarrow> regfile \<Rightarrow> bool" where
  "written regs w data \<longleftrightarrow>
     (\<forall>h. regfile_step False (write_reg (wb_cntrl_word w))
        (regfilemux_out h (wb_cntrl_word w) (wb_cmp_val w) (wb_alu_val w) (wb_reg_pc w) (wb_u_imm w) (wb_r_data w))
        (wb_reg_dest w) data = regs)
     \<and> (wb_reg_dest w \<noteq> 0 \<longrightarrow> write_reg (wb_cntrl_word w))"

text \<open>A source value read in decode is up to date unless one of the instructions ahead writes the register.\<close>

definition fresh :: "(rv32i_reg \<Rightarrow> u32) \<Rightarrow> rv32i_reg \<Rightarrow> rv32i_reg \<Rightarrow> rv32i_reg \<Rightarrow> u32 \<Rightarrow> bool" where
  "fresh regs rd_mem rd_wb rs v \<longleftrightarrow>
     (rs = 0 \<longrightarrow> v = 0) \<and> (rs \<noteq> 0 \<and> rd_mem \<noteq> rs \<and> rd_wb \<noteq> rs \<longrightarrow> v = regs rs)"

definition operands_fresh :: "(rv32i_reg \<Rightarrow> u32) \<Rightarrow> pipeline \<Rightarrow> bool" where
  "operands_fresh regs p \<longleftrightarrow>
     (let e = to_execute p; m = to_memory p; rd = ex_reg_dest m; wb = wb_reg_dest (to_write_back p) in
      fresh regs rd wb (id_rs1_id e) (id_reg_1 e) \<and> fresh regs rd wb (id_rs2_id e) (id_reg_2 e)
      \<and> (read_mem (ex_cntrl_word m) \<and> rd \<noteq> 0 \<longrightarrow> rd \<noteq> id_rs1_id e \<and> rd \<noteq> id_rs2_id e))"

section \<open>The specification's run\<close>

definition isa_trace :: "(u32 \<Rightarrow> u32) \<Rightarrow> assembly \<Rightarrow> (nat \<Rightarrow> arch) \<Rightarrow> bool" where
  "isa_trace code prog A \<longleftrightarrow> (\<forall>k. A (Suc k) = isa_step prog (A k) \<and> well_behaved code prog (A k))"

lemma executes_trace: "executes code prog s \<Longrightarrow> isa_trace code prog (isa_run prog s)"
  by (simp add: executes_def isa_trace_def)

lemma trace_step:
  assumes "isa_trace code prog A"
  shows "A (Suc k) = isa_step prog (A k)" "code (a_pc (A k)) = encode (prog (a_pc (A k)))" "valid (prog (a_pc (A k)))"
    "aligned_access (prog (a_pc (A k))) (source1 prog (A k))"
  using assms by (simp_all add: isa_trace_def well_behaved_def)

section \<open>Operands\<close>

lemma in_memory_fields:
  assumes "isa_trace code prog A" and "in_memory prog (A n) m" and "i = prog (a_pc (A n))"
  shows "ex_reg_dest m = dest_of i" "write_reg (ex_cntrl_word m) = writes i" "read_mem (ex_cntrl_word m) = is_load i"
    "write_mem (ex_cntrl_word m) = is_store i" "regfilemux_sel (ex_cntrl_word m) = rf_of i" "pcmux_sel (ex_cntrl_word m) = pcsel_of i"
    "computed i (a_pc (A n)) (source1 prog (A n)) (source2 prog (A n)) (ex_alu_val m) (ex_cmp_val m) (ex_u_imm m) (ex_reg_2 m)"
    "ex_opcode m = opcode_of i" "ex_funct3 m = funct3_out (encode i)" "ex_reg_pc m = a_pc (A n)"
proof -
  have v: "valid i" using trace_step(3) [OF assms(1)] assms(3) by simp
  from assms(2,3) obtain h where "ex_cntrl_word m = control_word_out h (encode i)" by (auto simp: in_memory_def Let_def)
  note cf = control_fields [OF v this]
  show "write_reg (ex_cntrl_word m) = writes i" "read_mem (ex_cntrl_word m) = is_load i"
    "write_mem (ex_cntrl_word m) = is_store i" "regfilemux_sel (ex_cntrl_word m) = rf_of i" "pcmux_sel (ex_cntrl_word m) = pcsel_of i"
    by (rule cf)+
qed (use assms(2,3) in \<open>simp_all add: in_memory_def Let_def\<close>)

text \<open>The value of the instruction in the memory stage, from the word the cache delivers.\<close>

lemma memory_value:
  assumes "isa_trace code prog A" and "in_memory prog (A n) m" and "i = prog (a_pc (A n))" and "writes i"
    and "is_load i \<longrightarrow> r = word_at (a_mem (A n)) (ex_alu_val m)"
  shows "rd_value (isa_effect prog (A n)) =
    Some (regfilemux_out h (ex_cntrl_word m) (ex_cmp_val m) (ex_alu_val m) (ex_reg_pc m) (ex_u_imm m) r)"
proof -
  note f = in_memory_fields [OF assms(1-3)]
  have "rd_value (isa_effect prog (A n)) =
      Some (regfilemux_out h (ex_cntrl_word m) (ex_cmp_val m) (ex_alu_val m) (ex_reg_pc m) (ex_u_imm m)
        (word_at (a_mem (A n)) (ex_alu_val m)))"
    using computed_writeback [OF f(7) _ assms(4) _ f(5)] trace_step(3,4) [OF assms(1), of n] assms(3)
    by (simp add: isa_effect_def f(10))
  also have "\<dots> = Some (regfilemux_out h (ex_cntrl_word m) (ex_cmp_val m) (ex_alu_val m) (ex_reg_pc m) (ex_u_imm m) r)"
  proof (cases "is_load i")
    case False
    show ?thesis by (rule arg_cong [of _ _ Some], rule regfilemux_no_load [OF False assms(4) f(5)])
  qed (use assms(5) in simp)
  finally show ?thesis .
qed

lemma written_value:
  assumes "written regs (to_write_back (registers c)) (regs_data c)" and "wb_reg_dest (to_write_back (registers c)) = rs" and "rs \<noteq> 0"
  shows "wb_value i c = regs rs" and "write_reg (wb_cntrl_word (to_write_back (registers c)))"
proof -
  show w: "write_reg (wb_cntrl_word (to_write_back (registers c)))" using assms by (simp add: written_def)
  have "regs = (regs_data c)(rs := wb_value i c)"
    using assms w unfolding written_def wb_value_def by (simp add: regfile_step_def Let_def)
  then show "wb_value i c = regs rs" by (metis fun_upd_same)
qed

lemma older_value:
  assumes "written regs (to_write_back (registers c)) (regs_data c)"
    and "fresh regs rd (wb_reg_dest (to_write_back (registers c))) rs v" and "rd \<noteq> rs" and "rs \<noteq> 0"
  shows "(if write_reg (wb_cntrl_word (to_write_back (registers c))) \<and> wb_reg_dest (to_write_back (registers c)) = rs
    then data_from_memwb_in (execute_in i c) else v) = regs rs"
proof -
  have "data_from_memwb_in (execute_in i c) = wb_value i c" by (simp add: execute_in_def Let_def)
  then show ?thesis using written_value [OF assms(1)] assms by (auto simp: fresh_def)
qed

lemma operand_cases:
  "operand (hazards p) inp rs v =
     (if rs = 0 then v
      else if write_reg (ex_cntrl_word (to_memory p)) \<and> ex_reg_dest (to_memory p) = rs then data_from_exmem_in inp
      else if write_reg (wb_cntrl_word (to_write_back p)) \<and> wb_reg_dest (to_write_back p) = rs then data_from_memwb_in inp
      else v)"
  by (simp add: operand_def hazards_def)

lemma operand_in_order:
  assumes "isa_trace code prog A" and "memory_slot prog A n j (to_memory (registers c))"
    and "written (a_regs (A n)) (to_write_back (registers c)) (regs_data c)"
    and "fresh (a_regs (A n)) (ex_reg_dest (to_memory (registers c))) (wb_reg_dest (to_write_back (registers c))) rs v"
    and "read_mem (ex_cntrl_word (to_memory (registers c))) \<and> ex_reg_dest (to_memory (registers c)) \<noteq> 0
      \<longrightarrow> ex_reg_dest (to_memory (registers c)) \<noteq> rs"
  shows "operand (hazards (registers c)) (execute_in i c) rs v = reg_value (a_regs (A j)) rs"
proof (cases "rs = 0")
  case True
  with assms(4) show ?thesis by (simp add: operand_cases fresh_def reg_value_def)
next
  case rs: False
  let ?m = "to_memory (registers c)" and ?i = "prog (a_pc (A n))"
  consider (quiet) "quiet_memory ?m" "j = n" | (instr) "in_memory prog (A n) ?m" "j = Suc n"
    using assms(2) by (auto simp: memory_slot_def)
  then show ?thesis
  proof cases
    case quiet
    then have "ex_reg_dest ?m \<noteq> rs" using rs by (simp add: quiet_memory_def bubble_memory_def harmless_def)
    with older_value [OF assms(3,4) this rs, of i] rs quiet show ?thesis
      by (simp add: operand_cases reg_value_def split del: if_split)
  next
    case instr
    note f = in_memory_fields [OF assms(1) instr(1) refl]
    have regs: "a_regs (A j) rs = (if dest_of ?i = rs then the (rd_value (isa_effect prog (A n))) else a_regs (A n) rs)"
      using rs by (simp add: instr(2) trace_step(1) [OF assms(1)] isa_step_regs)
    show ?thesis
    proof (cases "dest_of ?i = rs")
      case True
      with rs have w: "writes ?i" using not_writes_dest by metis
      have nl: "\<not> is_load ?i" using assms(5) rs True by (simp add: f)
      have "rd_value (isa_effect prog (A n)) = Some (data_from_exmem_in (execute_in i c))"
        using memory_value [OF assms(1) instr(1) refl w] nl computed_forward [OF nl w f(5)]
        by (simp add: execute_in_def Let_def)
      with True rs w show ?thesis by (simp add: operand_cases f regs reg_value_def)
    next
      case False
      with older_value [OF assms(3,4) _ rs, of i] rs show ?thesis 
        by (simp add: operand_cases f regs reg_value_def split del: if_split)
    qed
  qed
qed

section \<open>Moving on by a stage\<close>

lemmas slot_defs = decode_slot_def execute_slot_def memory_slot_def

text \<open>From execute to memory.\<close>

lemma execute_moves:
  assumes "isa_trace code prog A" and "memory_slot prog A n j (to_memory (registers c))"
    and "execute_slot prog A j j' (to_execute (registers c))"
    and "written (a_regs (A n)) (to_write_back (registers c)) (regs_data c)"
    and "j' = Suc j \<Longrightarrow> operands_fresh (a_regs (A n)) (registers c)"
  shows "memory_slot prog A j j' (execute_out i c)"
proof -
  let ?e = "to_execute (registers c)" and ?i = "prog (a_pc (A j))"
  consider (quiet) "quiet_execute ?e" "j' = j" | (instr) "in_execute prog (A j) ?e" "j' = Suc j"
    using assms(3) by (auto simp: execute_slot_def)
  then show ?thesis
  proof cases
    case quiet
    then show ?thesis by (simp add: memory_slot_def quiet_execute_def quiet_memory_def bubble_execute_def bubble_memory_def execute_out_def Let_def)
  next
    case instr
    let ?hz = "hazards (registers c)" and ?inp = "execute_in i c" and ?h = "execute_held i"
    from instr obtain h where cw: "id_cntrl_word ?e = control_word_out h (encode ?i)" by (auto simp: in_execute_def Let_def)
    have hz: "control_word_IdEx ?hz = id_cntrl_word ?e" "rd_id_MemWb ?hz \<noteq> 0 \<longrightarrow> write_reg (control_word_MemWb ?hz)"
      using assms(4) by (simp_all add: hazards_def written_def)
    have "holds_instr (encode ?i) (a_pc (A j)) h ?hz ?inp"
      using instr(1) cw by (simp add: holds_instr_def hazards_def execute_in_def in_execute_def Let_def)
    from ex_computed [OF this trace_step(3) [OF assms(1)] hz(2), of ?h]
    have "computed ?i (a_pc (A j)) (operand1 ?hz ?inp) (operand2 ?hz ?inp)
      (ex_alu_val (execute_out i c)) (ex_cmp_val (execute_out i c)) (ex_u_imm (execute_out i c)) (ex_reg_2 (execute_out i c))"
      by (simp only: hz(1)) (simp add: execute_out_def execute_in_def Let_def)
    moreover have "operand1 ?hz ?inp = source1 prog (A j)" "operand2 ?hz ?inp = source2 prog (A j)"
      using operand_in_order [OF assms(1,2,4)] assms(5) [OF instr(2)] instr(1)
      by (simp_all add: operands_fresh_def source1_def source2_def hazards_def execute_in_def in_execute_def Let_def)
    ultimately show ?thesis
      using instr cw by (auto simp: memory_slot_def in_memory_def execute_out_def in_execute_def Let_def)
  qed
qed

text \<open>From decode to execute.\<close>

lemma decode_moves:
  assumes "decode_slot prog A j j' (to_decode (registers c))"
  shows "execute_slot prog A j j' (decode_out i c)"
proof -
  have nop: "control_word_out h (encode (Op_imm Add 0 0 0)) = setControlWord op_imm 0 0 0 0 0 0 False False True 0" for h
    using control_op_imm [of Add 0 0 0 h] by (simp add: enum_defs compares_def)
  have "quiet_execute (decode_out i c)" if "bubble_decode (to_decode (registers c))"
    using that by (simp add: quiet_execute_def bubble_execute_def bubble_decode_def harmless_def decode_out_def Let_def nop
        setControlWord_def enum_defs)
  moreover have "in_execute prog (A j) (decode_out i c)" if "in_decode prog (A j) (to_decode (registers c))"
    using that by (auto simp: in_execute_def in_decode_def decode_out_def Let_def)
  ultimately show ?thesis using assms by (auto simp: slot_defs)
qed

text \<open>From fetch to decode.\<close>

lemma fetch_moves:
  assumes "isa_trace code prog A" and "pcreg c = a_pc (A j)" and "i_cache_rdata i = code (pcreg c)"
  shows "decode_slot prog A j (Suc j) (fetch_out i c)"
  using assms trace_step(2) [OF assms(1), of j] by (simp add: decode_slot_def in_decode_def fetch_out_def)

section \<open>The data memory\<close>

text \<open>
  The memory is that before the instruction in the memory stage, or, while the other cache holds
  up the pipeline, the one after it.
\<close>

definition memory_at :: "assembly \<Rightarrow> (nat \<Rightarrow> arch) \<Rightarrow> nat \<Rightarrow> core \<Rightarrow> memory \<Rightarrow> bool" where
  "memory_at prog A n c m \<longleftrightarrow>
     m = a_mem (A n) \<or> in_memory prog (A n) (to_memory (registers c)) \<and> m = a_mem (A (Suc n))"

abbreviation core_port :: "core_in \<Rightarrow> core \<Rightarrow> memory \<Rightarrow> memory \<Rightarrow> bool" where
  "core_port i c \<equiv> port_cycle (data_request i c) (d_cache_miss i) (d_cache_rdata i)"

lemma masked_write_again: "masked_write (masked_write m a e d) a e d = masked_write m a e d"
  by (auto simp: masked_write_def)

lemma quiet_request: "quiet_memory (to_memory (registers c)) \<Longrightarrow> data_request i c = None"
  by (simp add: quiet_memory_def bubble_memory_def harmless_def data_request_def Let_def)

text \<open>The request of an instruction, and its effect, also when it is repeated.\<close>

lemma instr_request:
  assumes "isa_trace code prog A" and "in_memory prog (A n) (to_memory (registers c))"
  shows "case data_request i c of
      None \<Rightarrow> a_mem (A (Suc n)) = a_mem (A n) \<and> \<not> is_load (prog (a_pc (A n)))
    | Some q \<Rightarrow> byte_effect q (a_mem (A n)) = a_mem (A (Suc n)) \<and> byte_effect q (a_mem (A (Suc n))) = a_mem (A (Suc n))
        \<and> (is_load (prog (a_pc (A n))) \<longrightarrow> q = LoadWord (ex_alu_val (to_memory (registers c))))"
proof -
  let ?m = "to_memory (registers c)" and ?i = "prog (a_pc (A n))"
  note f = in_memory_fields [OF assms refl]
  have same: "a_mem (A (Suc n)) = a_mem (A n)" if "\<not> is_store ?i"
    using that by (simp add: trace_step(1) [OF assms(1)] isa_step_mem)
  consider (load) "is_load ?i" "\<not> is_store ?i" | (store) "is_store ?i" "\<not> is_load ?i" | (other) "\<not> is_load ?i" "\<not> is_store ?i"
    by (cases ?i) simp_all
  then show ?thesis
  proof cases
    case store
    then have "opcode_of ?i = op_store" by (cases ?i) simp_all
    moreover have "memory_after (isa_exec ?i (a_pc (A n)) (source1 prog (A n)) (source2 prog (A n)) (a_mem (A n))) = a_mem (A (Suc n))"
      by (simp add: trace_step(1) [OF assms(1)] isa_step_memory isa_effect_def)
    ultimately have "byte_effect (the (data_request i c)) (a_mem (A n)) = a_mem (A (Suc n))"
      using computed_store [OF f(7) store(1) trace_step(4) [OF assms(1)], where m = "a_mem (A n)"] store
      by (simp add: data_request_def Let_def f)
    moreover from this have "byte_effect (the (data_request i c)) (a_mem (A (Suc n))) = a_mem (A (Suc n))"
      using store by (simp add: data_request_def Let_def f) (metis masked_write_again)
    ultimately show ?thesis using store by (simp add: data_request_def Let_def f)
  qed (use same in \<open>simp_all add: data_request_def Let_def f\<close>)
qed

lemma quiet_memory_same:
  assumes "isa_trace code prog A" and "quiet_memory (to_memory (registers c))" and "memory_at prog A n c m"
  shows "m = a_mem (A n)"
proof -
  have "\<not> is_store (prog (a_pc (A n)))" if "in_memory prog (A n) (to_memory (registers c))"
    using in_memory_fields(4) [OF assms(1) that refl] assms(2)
    by (simp add: quiet_memory_def bubble_memory_def harmless_def)
  with assms(3) show ?thesis by (auto simp: memory_at_def trace_step(1) [OF assms(1)] isa_step_mem)
qed

lemma memory_cycle:
  assumes "isa_trace code prog A" and "memory_slot prog A n j (to_memory (registers c))" and "memory_at prog A n c m"
    and "core_port i c m m'"
  shows "m' = a_mem (A n) \<or> in_memory prog (A n) (to_memory (registers c)) \<and> m' = a_mem (A (Suc n))"
    and "\<not> d_cache_miss i \<Longrightarrow> m' = a_mem (A j)"
    and "\<not> d_cache_miss i \<Longrightarrow> in_memory prog (A n) (to_memory (registers c)) \<Longrightarrow> is_load (prog (a_pc (A n))) \<Longrightarrow>
      d_cache_rdata i = word_at (a_mem (A n)) (ex_alu_val (to_memory (registers c)))"
proof -
  let ?m = "to_memory (registers c)" and ?i = "prog (a_pc (A n))"
  have load: "a_mem (A (Suc n)) = a_mem (A n)" if "is_load ?i"
    using that by (cases ?i) (simp_all add: trace_step(1) [OF assms(1)] isa_step_mem)
  have quiet: "m' = a_mem (A n)" if "quiet_memory ?m"
    using assms(4) quiet_memory_same [OF assms(1) that assms(3)] by (simp add: port_cycle_def quiet_request [OF that])
  have instr: "(m' = a_mem (A n) \<or> m' = a_mem (A (Suc n))) \<and> (\<not> d_cache_miss i \<longrightarrow> m' = a_mem (A (Suc n))
      \<and> (is_load ?i \<longrightarrow> d_cache_rdata i = word_at (a_mem (A n)) (ex_alu_val ?m)))" if "in_memory prog (A n) ?m"
    using instr_request [OF assms(1) that, of i] assms(3,4) load
    by (auto simp: port_cycle_def memory_at_def split: option.splits if_splits)
  show "m' = a_mem (A n) \<or> in_memory prog (A n) ?m \<and> m' = a_mem (A (Suc n))" "\<not> d_cache_miss i \<Longrightarrow> m' = a_mem (A j)"
    using assms(2) quiet instr by (auto simp: memory_slot_def)
  show "d_cache_rdata i = word_at (a_mem (A n)) (ex_alu_val ?m)"
    if "\<not> d_cache_miss i" "in_memory prog (A n) ?m" "is_load ?i"
    using instr [OF that(2)] that by blast
qed

section \<open>Retirement\<close>

lemma memory_moves:
  assumes "isa_trace code prog A" and "memory_slot prog A n j (to_memory (registers c))"
    and "written (a_regs (A n)) (to_write_back (registers c)) (regs_data c)" and "\<not> core_rst i"
    and "in_memory prog (A n) (to_memory (registers c)) \<Longrightarrow> is_load (prog (a_pc (A n))) \<Longrightarrow>
      d_cache_rdata i = word_at (a_mem (A n)) (ex_alu_val (to_memory (registers c)))"
  shows "written (a_regs (A j)) (memory_out i c) (write_back i c)"
proof -
  let ?m = "to_memory (registers c)" and ?i = "prog (a_pc (A n))"
  have wb: "write_back i c = a_regs (A n)"
    using assms(3,4) by (simp add: written_def write_back_def wb_value_def Let_def)
  consider (quiet) "quiet_memory ?m" "j = n" | (instr) "in_memory prog (A n) ?m" "j = Suc n"
    using assms(2) by (auto simp: memory_slot_def)
  then show ?thesis
  proof cases
    case quiet
    then have "ex_reg_dest ?m = 0" by (simp add: quiet_memory_def bubble_memory_def harmless_def)
    with quiet show ?thesis by (simp add: written_def wb memory_out_def Let_def regfile_step_def)
  next
    case instr
    note f = in_memory_fields [OF assms(1) instr(1) refl]
    have regs: "a_regs (A j) r = (if dest_of ?i = r \<and> r \<noteq> 0 then the (rd_value (isa_effect prog (A n))) else a_regs (A n) r)" for r
      by (simp only: instr(2) trace_step(1) [OF assms(1)] isa_step_regs)
    have val: "regfilemux_out h (ex_cntrl_word ?m) (ex_cmp_val ?m) (ex_alu_val ?m) (ex_reg_pc ?m) (ex_u_imm ?m) (d_cache_rdata i)
        = the (rd_value (isa_effect prog (A n)))" if "writes ?i" for h
      using memory_value [OF assms(1) instr(1) refl that, of "d_cache_rdata i" h] assms(5) [OF instr(1)] by simp
    show ?thesis
      unfolding written_def wb
      using not_writes_dest [of ?i] val regs
      by (cases "writes ?i") (auto simp: memory_out_def Let_def f regfile_step_def fun_eq_iff)
  qed
qed

lemma write_back_held:
  assumes "written regs (to_write_back (registers c)) (regs_data c)" and "\<not> core_rst i"
  shows "written regs (to_write_back (registers c)) (write_back i c)"
proof -
  have "write_back i c = regs"
    using assms by (simp add: written_def write_back_def wb_value_def Let_def)
  moreover have "regfile_step False b v d (regfile_step False b v d data) = regfile_step False b v d data" for b v d data
    by (simp add: regfile_step_def)
  ultimately show ?thesis using assms(1) unfolding written_def by metis
qed

section \<open>Control\<close>

lemma flush_iff:
  assumes "isa_trace code prog A" and "memory_slot prog A n j (to_memory (registers c))"
  shows "flush (check_branch c) \<longleftrightarrow> redirecting prog A n j (ex_br_pred_taken (to_memory (registers c)))"
proof -
  let ?m = "to_memory (registers c)"
  have "\<not> flush (check_branch c)" if "quiet_memory ?m"
    using that bubble_no_flush by (simp add: quiet_memory_def flip: check_branch_flush)
  moreover have "flush (check_branch c) \<longleftrightarrow> redirects (prog (a_pc (A n))) (source1 prog (A n)) (source2 prog (A n)) (ex_br_pred_taken ?m)"
    if "in_memory prog (A n) ?m"
    using in_memory_fields [OF assms(1) that refl] computed_flush by (simp add: check_branch_def Let_def)
  ultimately show ?thesis using assms(2) by (auto simp: memory_slot_def redirecting_def)
qed

text \<open>Every redirection goes to the next instruction, and no other latch value of the checker matters.\<close>

lemma redirected_pc:
  assumes "isa_trace code prog A" and "in_memory prog (A n) (to_memory (registers c))"
    and "redirecting prog A n (Suc n) (ex_br_pred_taken (to_memory (registers c)))"
    and "ex_opcode (to_memory (registers c)) \<in> {op_jal, op_jalr} \<longrightarrow> \<not> mispredicted (checker c)"
  shows "fetch_next i c = a_pc (A (Suc n))"
proof -
  note f = in_memory_fields [OF assms(1,2) refl]
  have "redirects (prog (a_pc (A n))) (source1 prog (A n)) (source2 prog (A n)) (ex_br_pred_taken (to_memory (registers c)))"
    using assms(3) by (simp add: redirecting_def)
  from computed_redirect [OF f(7) this f(6) refl, of "checker c"] assms(4) show ?thesis
    by (simp add: fetch_next_def check_branch_def Let_def f trace_step(1) [OF assms(1)] isa_step_pc isa_effect_def)
qed

lemma checked_word: "\<not> flush (check_branch c) \<Longrightarrow> \<not> mispredicted (check_branch c)"
  by (auto simp: check_branch_def static_nt_predictor_def Let_def split: if_splits)

lemma straight_sel:
  assumes "pcmux_sel (ex_cntrl_word (to_memory (registers c))) \<notin> {pcmux_alu_out, pcmux_alu_mod2}" and "\<not> flush (check_branch c)"
  shows "fetch_next i c = (if predicted_taken i c then predicted_pc i c else pcreg c + 4)"
  using assms checked_word [OF assms(2)] by (simp add: fetch_next_def pcmux_out_def pc_sel_out_def Let_def)

lemma straight_pc:
  assumes "isa_trace code prog A" and "memory_slot prog A n j (to_memory (registers c))" and "\<not> flush (check_branch c)"
  shows "fetch_next i c = (if predicted_taken i c then predicted_pc i c else pcreg c + 4)"
proof (rule straight_sel [OF _ assms(3)])
  let ?m = "to_memory (registers c)"
  show "pcmux_sel (ex_cntrl_word ?m) \<notin> {pcmux_alu_out, pcmux_alu_mod2}"
  proof (cases "quiet_memory ?m")
    case True
    then show ?thesis by (simp add: quiet_memory_def enum_defs)
  next
    case False
    with assms(2) have m: "in_memory prog (A n) ?m" "j = Suc n" by (auto simp: memory_slot_def)
    then have "\<not> redirects (prog (a_pc (A n))) (source1 prog (A n)) (source2 prog (A n)) (ex_br_pred_taken ?m)"
      using flush_iff [OF assms(1,2)] assms(3) by (simp add: redirecting_def)
    then show ?thesis unfolding in_memory_fields(6) [OF assms(1) m(1) refl]
      by (cases "prog (a_pc (A n))") (simp_all add: enum_defs)
  qed
qed

text \<open>Only branches are predicted taken.\<close>

lemma predicted_branch:
  assumes "predicted_taken i c" and "\<not> pc_stall (core_stalls i c)"
  shows "(ucast (i_cache_rdata i) :: 7 word) = 0x63"
proof (rule ccontr)
  assume "(ucast (i_cache_rdata i) :: 7 word) \<noteq> 0x63"
  then have p: "\<not> pred_read (predictor_in i c)" "\<not> pred_stall (predictor_in i c)"
    using assms(2) by (simp_all add: predictor_in_def fetch_pred_in_def)
  then have "\<not> g_flush (global_comb (predictor_in i c) s)" "\<not> br_pred_sel (meta_comb (predictor_in i c) u)" for s u
    by (simp_all add: global_comb_def meta_comb_def Let_def)
  then have "\<not> predicted_taken i c" by (simp add: predicted_taken_def blkbox_flush_def blkbox_comb_def)
  with assms(1) show False by blast
qed

lemma followed_pc:
  assumes "isa_trace code prog A" and "memory_slot prog A n j (to_memory (registers c))" and "\<not> flush (check_branch c)"
    and "pcreg c = a_pc (A k)" and "i_cache_rdata i = code (pcreg c)" and "\<not> pc_stall (core_stalls i c)"
    and "\<not> redirecting prog A k (Suc k) (predicted_taken i c)"
  shows "fetch_next i c = a_pc (A (Suc k))"
proof -
  let ?i = "prog (a_pc (A k))"
  have word: "i_cache_rdata i = encode ?i" using assms(4,5) trace_step(2) [OF assms(1)] by simp
  have br: "opcode_of ?i = op_br" if "predicted_taken i c"
    using predicted_branch [OF that assms(6)] opcode_encode [of ?i] by (simp add: word opcode_out_def slice_at_def op_br_def)
  have "a_pc (A (Suc k)) = next_pc (isa_effect prog (A k))"
    by (simp add: trace_step(1) [OF assms(1)] isa_step_pc)
  also have "\<dots> = (if opcode_of ?i = op_br \<and> predicted_taken i c
      then br_pred_pc_out (br_pred_pc_held i) True (encode ?i) (a_pc (A k)) else a_pc (A k) + 4)"
    unfolding isa_effect_def using assms(7) by (intro followed) (simp add: redirecting_def)
  also have "\<dots> = fetch_next i c"
    using br by (simp add: straight_pc [OF assms(1-3)] predicted_pc_def word assms(4))
  finally show ?thesis by simp
qed

end
