(* ===== verification/Core_Correct.thy ===== *)
theory Core_Correct
  imports Core_Stages
begin

text \<open>
  The core refines the machine of the instruction set. Every cycle of the core retires one
  instruction of the machine or none; the simulation relation says, stage by stage, which
  instruction is where, up to the first one that fetch has not followed yet.
\<close>

section \<open>The simulation relation\<close>

text \<open>
  \<open>n\<close> instructions have left the memory stage. The number of the next instruction is passed on
  from the memory stage to the program counter, and ends at a stage whose instruction will
  redirect the program counter: what is behind it does not matter. \<open>f\<close> is a number of cycles
  without a miss after which the memory stage holds an instruction.
\<close>

definition decode_on :: "assembly \<Rightarrow> (nat \<Rightarrow> arch) \<Rightarrow> nat \<Rightarrow> nat \<Rightarrow> nat \<Rightarrow> core \<Rightarrow> bool" where
  "decode_on prog A n f j c \<longleftrightarrow>
     (\<exists>j'. decode_slot prog A j j' (to_decode (registers c)) \<and> (f = 2 \<longrightarrow> j' \<noteq> n)
        \<and> (redirecting prog A j j' (if_br_pred_taken (to_decode (registers c))) \<or> pcreg c = a_pc (A j')))"

definition execute_on :: "assembly \<Rightarrow> (nat \<Rightarrow> arch) \<Rightarrow> nat \<Rightarrow> nat \<Rightarrow> nat \<Rightarrow> core \<Rightarrow> bool" where
  "execute_on prog A n f j c \<longleftrightarrow>
     (\<exists>j'. execute_slot prog A j j' (to_execute (registers c)) \<and> (f = 1 \<longrightarrow> j' \<noteq> n)
        \<and> (j' = Suc j \<longrightarrow> operands_fresh (a_regs (A n)) (registers c))
        \<and> (redirecting prog A j j' (id_br_pred (to_execute (registers c))) \<or> decode_on prog A n f j' c))"

definition memory_on :: "assembly \<Rightarrow> (nat \<Rightarrow> arch) \<Rightarrow> nat \<Rightarrow> nat \<Rightarrow> core \<Rightarrow> bool" where
  "memory_on prog A n f c \<longleftrightarrow>
     (\<exists>j. memory_slot prog A n j (to_memory (registers c)) \<and> (f = 0 \<longrightarrow> j \<noteq> n)
        \<and> (redirecting prog A n j (ex_br_pred_taken (to_memory (registers c))) \<or> execute_on prog A n f j c))"

definition core_at :: "assembly \<Rightarrow> (nat \<Rightarrow> arch) \<Rightarrow> nat \<Rightarrow> nat \<Rightarrow> core \<Rightarrow> memory \<Rightarrow> bool" where
  "core_at prog A n f c m \<longleftrightarrow>
     memory_on prog A n f c \<and> f \<le> 3
     \<and> written (a_regs (A n)) (to_write_back (registers c)) (regs_data c)
     \<and> memory_at prog A n c m
     \<and> (ex_opcode (to_memory (registers c)) \<in> {op_jal, op_jalr} \<longrightarrow> \<not> mispredicted (checker c))"

lemma slot_next: "decode_slot prog A j j' d \<Longrightarrow> j \<le> j'" "execute_slot prog A j j' e \<Longrightarrow> j \<le> j'"
  "memory_slot prog A j j' m \<Longrightarrow> j \<le> j'"
  by (auto simp: slot_defs)

section \<open>A cycle with a miss\<close>

lemma core_step_fields:
  assumes "\<not> core_rst i"
  shows "registers (core_step i c) = pipeline_clock (i_cache_miss i) (d_cache_miss i) (checker c) (stage_outputs i c) (registers c)"
    "pcreg (core_step i c) = (if pc_stall (core_stalls i c) then pcreg c else fetch_next i c)"
    "regs_data (core_step i c) = write_back i c" "checker (core_step i c) = check_branch c"
  using assms by (simp_all add: core_step_def pc_register_step_def)

lemma jump_keeps_latch:
  "ex_opcode (to_memory (registers c)) \<in> {op_jal, op_jalr} \<Longrightarrow> mispredicted (check_branch c) = mispredicted (checker c)"
  by (auto simp: check_branch_def static_nt_predictor_def Let_def)

lemma miss_step:
  assumes "\<not> core_rst i" and "i_cache_miss i \<or> d_cache_miss i"
  shows "to_memory (registers (core_step i c)) = to_memory (registers c)"
    "to_write_back (registers (core_step i c)) = to_write_back (registers c)" "pcreg (core_step i c) = pcreg c"
    "\<not> flush (check_branch c) \<Longrightarrow> registers (core_step i c) = registers c"
  using stall_cases(1) [OF assms(2), of "registers c"]
  by (simp_all add: core_step_fields [OF assms(1)] core_stalls_def pipeline_clock_def Let_def register_steps check_branch_flush)

lemma core_miss:
  assumes "isa_trace code prog A" and "core_at prog A n f c m" and "\<not> core_rst i" and "i_cache_miss i \<or> d_cache_miss i"
    and "core_port i c m m'"
  shows "core_at prog A n f (core_step i c) m'"
proof -
  note st = miss_step [OF assms(3,4), of c]
  from assms(2) obtain j where j: "memory_slot prog A n j (to_memory (registers c))" "f = 0 \<longrightarrow> j \<noteq> n"
    "redirecting prog A n j (ex_br_pred_taken (to_memory (registers c))) \<or> execute_on prog A n f j c"
    and at: "f \<le> 3" "written (a_regs (A n)) (to_write_back (registers c)) (regs_data c)" "memory_at prog A n c m"
    "ex_opcode (to_memory (registers c)) \<in> {op_jal, op_jalr} \<longrightarrow> \<not> mispredicted (checker c)"
    by (auto simp: core_at_def memory_on_def)
  have "execute_on prog A n f j (core_step i c)" if "\<not> redirecting prog A n j (ex_br_pred_taken (to_memory (registers c)))"
  proof -
    have "registers (core_step i c) = registers c" using that st(4) flush_iff [OF assms(1) j(1)] by blast
    moreover have "execute_on prog A n f j c" using that j(3) by blast
    ultimately show ?thesis by (simp add: execute_on_def decode_on_def st(3))
  qed
  with j st(1) have "memory_on prog A n f (core_step i c)" unfolding memory_on_def by metis
  moreover have "written (a_regs (A n)) (to_write_back (registers (core_step i c))) (regs_data (core_step i c))"
    using write_back_held [OF at(2) assms(3)] by (simp add: st(2) core_step_fields(3) [OF assms(3)])
  moreover have "memory_at prog A n (core_step i c) m'"
    using memory_cycle(1) [OF assms(1) j(1) at(3) assms(5)] by (simp add: memory_at_def st(1))
  ultimately show ?thesis using at jump_keeps_latch [of c] by (simp add: core_at_def st(1) core_step_fields(4) [OF assms(3)])
qed

section \<open>A redirection\<close>

lemma core_redirect:
  assumes "isa_trace code prog A" and "core_at prog A n f c m" and "\<not> core_rst i" and "\<not> i_cache_miss i" "\<not> d_cache_miss i"
    and "core_port i c m m'" and "flush (check_branch c)" and "\<not> redirection_meets_hazard i c"
  shows "core_at prog A (Suc n) 3 (core_step i c) m' \<and> in_memory prog (A n) (to_memory (registers c))"
proof -
  let ?p = "registers (core_step i c)"
  from assms(2) obtain j where j: "memory_slot prog A n j (to_memory (registers c))"
    and at: "written (a_regs (A n)) (to_write_back (registers c)) (regs_data c)" "memory_at prog A n c m"
    "ex_opcode (to_memory (registers c)) \<in> {op_jal, op_jalr} \<longrightarrow> \<not> mispredicted (checker c)"
    by (auto simp: core_at_def memory_on_def)
  have red: "redirecting prog A n j (ex_br_pred_taken (to_memory (registers c)))"
    using assms(7) flush_iff [OF assms(1) j] by blast
  then have jn: "j = Suc n" and mem: "in_memory prog (A n) (to_memory (registers c))"
    using j by (auto simp: redirecting_def memory_slot_def)
  note cyc = memory_cycle [OF assms(1) j at(2) assms(6)]
  have st: "\<not> pc_stall (core_stalls i c)" using assms(4,5,7,8) by (simp add: redirection_meets_hazard_def)
  have regs: "?p = pipeline_clock False False (checker c) (stage_outputs i c) (registers c)"
    using assms(4,5) by (simp add: core_step_fields [OF assms(3)])
  have bubbles: "bubble_decode (to_decode ?p)" "quiet_execute (to_execute ?p)" "quiet_memory (to_memory ?p)"
    "to_write_back ?p = memory_out i c" "ex_opcode (to_memory ?p) = 0x13"
    using assms(7) stall_cases(2,3) unfolding regs quiet_execute_def quiet_memory_def
    by (simp_all add: pipeline_clock_def Let_def check_branch_flush flushed_bubbles)
      (simp_all add: register_steps id_cleared_def ex_cleared_def nop_word_def zero_word_def stage_outputs_def)
  have "pcreg (core_step i c) = a_pc (A (Suc n))"
    using st redirected_pc [OF assms(1) mem red [unfolded jn] at(3)] by (simp add: core_step_fields [OF assms(3)])
  then have "decode_on prog A (Suc n) 3 (Suc n) (core_step i c)"
    unfolding decode_on_def using bubbles by (intro exI [of _ "Suc n"]) (simp add: slot_defs)
  then have "execute_on prog A (Suc n) 3 (Suc n) (core_step i c)"
    unfolding execute_on_def using bubbles by (intro exI [of _ "Suc n"]) (simp add: slot_defs)
  then have "memory_on prog A (Suc n) 3 (core_step i c)"
    unfolding memory_on_def using bubbles by (intro exI [of _ "Suc n"]) (simp add: slot_defs)
  moreover have "written (a_regs (A (Suc n))) (to_write_back ?p) (regs_data (core_step i c))"
    using memory_moves [OF assms(1) j at(1) assms(3)] cyc(3) assms(5) jn
    by (simp add: bubbles core_step_fields(3) [OF assms(3)])
  moreover have "memory_at prog A (Suc n) (core_step i c) m'"
    using cyc(2) assms(5) jn by (simp add: memory_at_def)
  ultimately show ?thesis using bubbles mem by (simp add: core_at_def enum_defs)
qed

section \<open>Moving on\<close>

text \<open>Values read in decode are those of the registers after the write-back, and stay fresh behind the instruction ahead.\<close>

lemma decode_reads:
  assumes "written regs (to_write_back (registers c)) (regs_data c)"
  shows "regfile_read (wb_value i c) (wb_reg_dest (to_write_back (registers c))) (regs_data c) rs = reg_value regs rs"
proof -
  have "regs = regfile_step False (write_reg (wb_cntrl_word (to_write_back (registers c)))) (wb_value i c)
      (wb_reg_dest (to_write_back (registers c))) (regs_data c)"
    using assms by (simp add: written_def wb_value_def Let_def)
  with regfile_bypass assms show ?thesis unfolding written_def reg_value_def by metis
qed

lemma unwritten_reg:
  assumes "isa_trace code prog A" and "memory_slot prog A n j m" and "ex_reg_dest m \<noteq> rs" and "rs \<noteq> 0"
  shows "a_regs (A j) rs = a_regs (A n) rs"
proof -
  consider "j = n" | "in_memory prog (A n) m" "j = Suc n" using assms(2) by (auto simp: memory_slot_def)
  then show ?thesis
  proof cases
    case 2
    with in_memory_fields(1) [OF assms(1) 2(1) refl] assms(3) show ?thesis
      by (simp add: trace_step(1) [OF assms(1)] isa_step_regs)
  qed simp
qed

lemma fresh_decoded:
  assumes "isa_trace code prog A" and "memory_slot prog A n j (to_memory (registers c))"
    and "written (a_regs (A n)) (to_write_back (registers c)) (regs_data c)"
  shows "fresh (a_regs (A j)) rd (ex_reg_dest (to_memory (registers c))) rs
    (regfile_read (wb_value i c) (wb_reg_dest (to_write_back (registers c))) (regs_data c) rs)"
  using unwritten_reg [OF assms(1,2), of rs] by (auto simp: fresh_def decode_reads [OF assms(3)] reg_value_def)

text \<open>What the stages get when nothing is flushed and no cache misses.\<close>

lemma hit_cases:
  assumes "\<not> core_rst i" and "\<not> i_cache_miss i" and "\<not> d_cache_miss i" and "\<not> flush (check_branch c)"
    and "p = registers (core_step i c)"
  shows "to_memory p = execute_out i c" "to_write_back p = memory_out i c"
    "pc_stall (core_stalls i c) \<longleftrightarrow> read_mem (id_cntrl_word (to_execute (registers c)))
      \<and> (id_reg_dest (to_execute (registers c)) = rs1_id (if_instr (to_decode (registers c)))
        \<or> id_reg_dest (to_execute (registers c)) = rs2_id (if_instr (to_decode (registers c))))"
    "pc_stall (core_stalls i c) \<Longrightarrow> to_decode p = to_decode (registers c) \<and> quiet_execute (to_execute p)"
    "\<not> pc_stall (core_stalls i c) \<Longrightarrow> to_decode p = fetch_out i c \<and> to_execute p = decode_out i c"
proof -
  have p: "p = pipeline_clock False False (checker c) (stage_outputs i c) (registers c)"
    using assms by (simp add: core_step_fields(1))
  note defs = pipeline_clock_def Let_def check_branch_flush core_stalls_def assms(2-4)
  show "to_memory p = execute_out i c" "to_write_back p = memory_out i c"
    using stall_cases(2,3) [of "registers c"] by (simp_all add: p defs register_steps stage_outputs_def)
  show "pc_stall (core_stalls i c) \<longleftrightarrow> read_mem (id_cntrl_word (to_execute (registers c)))
      \<and> (id_reg_dest (to_execute (registers c)) = rs1_id (if_instr (to_decode (registers c)))
        \<or> id_reg_dest (to_execute (registers c)) = rs2_id (if_instr (to_decode (registers c))))"
    by (simp add: core_stalls_def assms(2,3) pipeline_stalls_def stall_def)
  show "to_decode p = to_decode (registers c) \<and> quiet_execute (to_execute p)" if "pc_stall (core_stalls i c)"
  proof -
    have "stall_if_id (pipeline_stalls False False (registers c))" "stall_nop_id_ex (pipeline_stalls False False (registers c))"
      using that by (auto simp: core_stalls_def assms(2,3) pipeline_stalls_def stall_def split: if_splits)
    then show ?thesis unfolding quiet_execute_def
      by (simp add: p defs inserted_bubble) (simp add: register_steps id_cleared_def nop_word_def zero_word_def Let_def)
  qed
  show "to_decode p = fetch_out i c \<and> to_execute p = decode_out i c" if "\<not> pc_stall (core_stalls i c)"
  proof -
    have "\<not> stall_if_id (pipeline_stalls False False (registers c))" "\<not> stall_nop_id_ex (pipeline_stalls False False (registers c))"
      "\<not> stall_id_ex (pipeline_stalls False False (registers c))"
      using that by (auto simp: core_stalls_def assms(2,3) pipeline_stalls_def stall_def split: if_splits)
    then show ?thesis by (simp add: p defs register_steps stage_outputs_def)
  qed
qed

text \<open>The program counter moves on, and the instruction in decode.\<close>

lemma decode_advances:
  assumes "isa_trace code prog A" and "memory_slot prog A n j (to_memory (registers c))" and "\<not> flush (check_branch c)"
    and "\<not> core_rst i" and "\<not> i_cache_miss i" "\<not> d_cache_miss i" and "\<not> pc_stall (core_stalls i c)"
    and "i_cache_rdata i = code (pcreg c)" and "pcreg c = a_pc (A k)" and "l \<le> k"
  shows "decode_on prog A l f k (core_step i c)"
proof -
  let ?p = "registers (core_step i c)"
  have p: "to_decode ?p = fetch_out i c" using hit_cases(5) [OF assms(4-6,3) refl assms(7)] by simp
  have "pcreg (core_step i c) = fetch_next i c" by (simp add: core_step_fields(2) [OF assms(4)] assms(7))
  then have "redirecting prog A k (Suc k) (if_br_pred_taken (to_decode ?p)) \<or> pcreg (core_step i c) = a_pc (A (Suc k))"
    using followed_pc [OF assms(1-3,9,8,7)] by (auto simp: p fetch_out_def)
  then show ?thesis using fetch_moves [OF assms(1,9), of i] assms(8,10)
    by (auto simp: decode_on_def p)
qed

text \<open>The instruction in execute, when the one in decode can follow it and when it has to wait.\<close>

lemma execute_advances:
  assumes "isa_trace code prog A" and "memory_slot prog A n j (to_memory (registers c))" and "\<not> flush (check_branch c)"
    and "\<not> core_rst i" and "\<not> i_cache_miss i" "\<not> d_cache_miss i" and "\<forall>l. pcreg c = a_pc (A l) \<longrightarrow> i_cache_rdata i = code (pcreg c)"
    and "written (a_regs (A n)) (to_write_back (registers c)) (regs_data c)"
    and "execute_slot prog A j k (to_execute (registers c))" and "decode_on prog A n f k c"
    and "f' = 1 \<Longrightarrow> j = n \<and> f = 2"
  shows "execute_on prog A j f' k (core_step i c)"
proof -
  let ?p = "registers (core_step i c)" and ?e = "to_execute (registers c)"
  note hit = hit_cases [OF assms(4-6,3) refl]
  from assms(10) obtain l where l: "decode_slot prog A k l (to_decode (registers c))" "f = 2 \<longrightarrow> l \<noteq> n"
    "redirecting prog A k l (if_br_pred_taken (to_decode (registers c))) \<or> pcreg c = a_pc (A l)"
    by (auto simp: decode_on_def)
  show ?thesis
  proof (cases "pc_stall (core_stalls i c)")
    case True
    then have "\<not> quiet_execute ?e" using hit(3) by (auto simp: quiet_execute_def bubble_execute_def harmless_def)
    with assms(9) have "j < k" by (auto simp: execute_slot_def)
    moreover have "decode_on prog A j f' k (core_step i c)"
      unfolding decode_on_def using l \<open>j < k\<close> slot_next(1) [OF l(1)] hit(4) [OF True] True
      by (intro exI [of _ l]) (auto simp: core_step_fields(2) [OF assms(4)])
    ultimately show ?thesis using hit(4) [OF True]
      unfolding execute_on_def by (intro exI [of _ k]) (auto simp: execute_slot_def)
  next
    case False
    then have e: "to_execute ?p = decode_out i c" using hit(5) by blast
    have "operands_fresh (a_regs (A j)) ?p"
      using fresh_decoded [OF assms(1,2,8)] False hit(3)
      by (auto simp: operands_fresh_def e hit(1,2) Let_def) (simp_all add: decode_out_def execute_out_def memory_out_def Let_def)
    moreover have "redirecting prog A k l (id_br_pred (to_execute ?p)) \<or> decode_on prog A j f' l (core_step i c)"
    proof (cases "pcreg c = a_pc (A l)")
      case True
      have "j \<le> l" using slot_next l(1) assms(9) le_trans by blast
      with decode_advances [OF assms(1-6) False assms(7) [rule_format, OF True] True] show ?thesis by blast
    next
      case False
      with l(3) show ?thesis by (simp add: e decode_out_def Let_def)
    qed
    ultimately show ?thesis using decode_moves [OF l(1), of i] l(2) assms(11)
      unfolding execute_on_def e by (intro exI [of _ l]) auto
  qed
qed

lemma core_advance:
  assumes "isa_trace code prog A" and "core_at prog A n f c m" and "\<not> core_rst i" and "\<not> i_cache_miss i" "\<not> d_cache_miss i"
    and "core_port i c m m'" and "\<not> flush (check_branch c)" and "\<forall>l. pcreg c = a_pc (A l) \<longrightarrow> i_cache_rdata i = code (pcreg c)"
  shows "core_at prog A (Suc n) 3 (core_step i c) m' \<and> in_memory prog (A n) (to_memory (registers c))
    \<or> (\<exists>f'<f. core_at prog A n f' (core_step i c) m')"
proof -
  let ?p = "registers (core_step i c)"
  note hit = hit_cases [OF assms(3-5,7) refl]
  from assms(2) obtain j where j: "memory_slot prog A n j (to_memory (registers c))" "f = 0 \<longrightarrow> j \<noteq> n"
    "redirecting prog A n j (ex_br_pred_taken (to_memory (registers c))) \<or> execute_on prog A n f j c"
    and at: "f \<le> 3" "written (a_regs (A n)) (to_write_back (registers c)) (regs_data c)" "memory_at prog A n c m"
    by (auto simp: core_at_def memory_on_def)
  have "execute_on prog A n f j c" using j(3) assms(7) flush_iff [OF assms(1) j(1)] by blast
  then obtain k where k: "execute_slot prog A j k (to_execute (registers c))" "f = 1 \<longrightarrow> k \<noteq> n"
    "k = Suc j \<longrightarrow> operands_fresh (a_regs (A n)) (registers c)"
    "redirecting prog A j k (id_br_pred (to_execute (registers c))) \<or> decode_on prog A n f k c"
    by (auto simp: execute_on_def)
  define f' where "f' = (if j = n then f - 1 else 3)"
  have "memory_slot prog A j k (to_memory ?p)"
    using execute_moves [OF assms(1) j(1) k(1) at(2)] k(3) by (simp add: hit(1))
  moreover have "f' = 0 \<longrightarrow> k \<noteq> j" using j(2) k(2) by (auto simp: f'_def split: if_splits)
  moreover have "redirecting prog A j k (ex_br_pred_taken (to_memory ?p)) \<or> execute_on prog A j f' k (core_step i c)"
  proof (cases "decode_on prog A n f k c")
    case True
    have "f' = 1 \<Longrightarrow> j = n \<and> f = 2" by (auto simp: f'_def split: if_splits)
    from execute_advances [OF assms(1) j(1) assms(7,3-5,8) at(2) k(1) True this] show ?thesis by blast
  next
    case False
    with k(4) show ?thesis by (simp add: hit(1) execute_out_def Let_def)
  qed
  ultimately have "memory_on prog A j f' (core_step i c)" unfolding memory_on_def by blast
  moreover have "written (a_regs (A j)) (to_write_back ?p) (regs_data (core_step i c))"
    using memory_moves [OF assms(1) j(1) at(2) assms(3)] memory_cycle(3) [OF assms(1) j(1) at(3) assms(6)] assms(5)
    by (simp add: hit(2) core_step_fields(3) [OF assms(3)])
  moreover have "memory_at prog A j (core_step i c) m'"
    using memory_cycle(2) [OF assms(1) j(1) at(3) assms(6)] assms(5) by (simp add: memory_at_def)
  moreover have "\<not> mispredicted (checker (core_step i c))"
    using checked_word [OF assms(7)] by (simp add: core_step_fields(4) [OF assms(3)])
  moreover have "f' \<le> 3" using at(1) by (auto simp: f'_def intro: le_trans [OF diff_le_self])
  ultimately have new: "core_at prog A j f' (core_step i c) m'" by (simp add: core_at_def)
  show ?thesis
  proof (cases "j = n")
    case True
    with j(2) new show ?thesis by (intro disjI2 exI [of _ f']) (simp add: f'_def)
  next
    case False
    with j(1) have "j = Suc n" "in_memory prog (A n) (to_memory (registers c))" by (auto simp: memory_slot_def)
    with new False show ?thesis by (simp add: f'_def)
  qed
qed

section \<open>Every cycle\<close>

definition core_hit :: "core_in \<Rightarrow> bool" where
  "core_hit i \<longleftrightarrow> \<not> i_cache_miss i \<and> \<not> d_cache_miss i"

text \<open>
  What a cycle does to the two numbers: a cycle without a miss retires the instruction in the memory stage, or brings
  the next one closer to it.
\<close>

definition retires :: "assembly \<Rightarrow> (nat \<Rightarrow> arch) \<Rightarrow> core_in \<Rightarrow> core \<Rightarrow> nat \<Rightarrow> nat \<Rightarrow> nat \<Rightarrow> nat \<Rightarrow> bool" where
  "retires prog A i c n f n' f' \<longleftrightarrow>
     (if core_hit i then n' = Suc n \<and> f' = 3 \<and> in_memory prog (A n) (to_memory (registers c)) \<or> n' = n \<and> f' < f
      else n' = n \<and> f' = f)"

lemma retires_next: "retires prog A i c n f n' f' \<Longrightarrow> n' = n \<or> n' = Suc n"
  by (auto simp: retires_def split: if_splits)

text \<open>The word fetched matters only where the program gets to.\<close>

theorem core_cycle:
  assumes "isa_trace code prog A" and "core_at prog A n f c m" and "\<not> core_rst i"
    and "\<not> i_cache_miss i \<Longrightarrow> \<forall>l. pcreg c = a_pc (A l) \<longrightarrow> i_cache_rdata i = code (pcreg c)" and "core_port i c m m'"
    and "\<not> redirection_meets_hazard i c"
  shows "\<exists>n' f'. core_at prog A n' f' (core_step i c) m' \<and> retires prog A i c n f n' f'"
proof (cases "core_hit i")
  case False
  then show ?thesis using core_miss [OF assms(1-3) _ assms(5)] unfolding core_hit_def retires_def by auto
next
  case True
  then have "core_at prog A (Suc n) 3 (core_step i c) m' \<and> in_memory prog (A n) (to_memory (registers c))
      \<or> (\<exists>f'<f. core_at prog A n f' (core_step i c) m')"
    using core_redirect [OF assms(1-3) _ _ assms(5) _ assms(6)] core_advance [OF assms(1-3) _ _ assms(5) _ assms(4)]
    unfolding core_hit_def by (cases "flush (check_branch c)") blast+
  with True show ?thesis unfolding retires_def by auto
qed

end
