(* ===== verification/Core_Runs.thy ===== *)
theory Core_Runs
  imports Core_Correct
begin

text \<open>
  Runs of the core, from the reset on: its state after three cycles of reset, and the
  correspondence of cycles and instructions over a whole run.
\<close>

section \<open>Reset\<close>

text \<open>
  The registers before execute and before memory take their opcode from the stage before them
  also while reset is held: it takes three cycles until no opcode of the time before is left.
\<close>

definition reset_arch :: "memory \<Rightarrow> arch" where
  "reset_arch m = \<lparr> a_pc = 0x60, a_regs = (\<lambda>_. 0), a_mem = m \<rparr>"

lemma reset_step:
  assumes "core_rst i" and "c' = core_step i c"
  shows "pcreg c' = 0x60" "regs_data c' = (\<lambda>_. 0)" "if_instr (to_decode (registers c')) = nop_instr"
    "\<not> if_br_pred_taken (to_decode (registers c'))" "id_cntrl_word (to_execute (registers c')) = zero_word"
    "id_reg_dest (to_execute (registers c')) = 0" "id_opcode (to_execute (registers c')) = opcode_out (if_instr (to_decode (registers c)))"
    "ex_cntrl_word (to_memory (registers c')) = nop_word" "ex_reg_dest (to_memory (registers c')) = 0"
    "ex_opcode (to_memory (registers c')) = id_opcode (to_execute (registers c))"
    "wb_cntrl_word (to_write_back (registers c')) = zero_word" "wb_reg_dest (to_write_back (registers c')) = 0"
  using assms by (simp_all add: core_step_def pc_register_step_def write_back_def regfile_step_def pipeline_reset_def
      register_steps stage_outputs_def id_cleared_def ex_cleared_def decode_out_def execute_out_def Let_def)

lemma reset_core:
  assumes "core_rst i1" and "core_rst i2" and "core_rst i3" and "c' = core_step i3 (core_step i2 (core_step i1 c))"
  shows "core_at prog (isa_run prog (reset_arch m)) 0 3 c' m"
proof -
  note r1 = reset_step [OF assms(1) refl, of c] and r2 = reset_step [OF assms(2) refl, of "core_step i1 c"]
    and r3 = reset_step [OF assms(3,4)]
  have nop: "opcode_out nop_instr = 0x13" by (simp add: nop_encode opcode_defs)
  have quiet: "quiet_memory (to_memory (registers c'))" "quiet_execute (to_execute (registers c'))" "bubble_decode (to_decode (registers c'))"
    using r1 r2 r3 nop nop_encode
    by (simp_all add: quiet_memory_def quiet_execute_def bubble_memory_def bubble_execute_def bubble_decode_def harmless_def
        nop_word_def zero_word_def enum_defs)
  have "decode_on prog (isa_run prog (reset_arch m)) 0 3 0 c'"
    unfolding decode_on_def using quiet r3 by (intro exI [of _ 0]) (simp add: slot_defs reset_arch_def)
  then have "execute_on prog (isa_run prog (reset_arch m)) 0 3 0 c'"
    unfolding execute_on_def using quiet by (intro exI [of _ 0]) (simp add: slot_defs)
  then have "memory_on prog (isa_run prog (reset_arch m)) 0 3 c'"
    unfolding memory_on_def using quiet by (intro exI [of _ 0]) (simp add: slot_defs)
  then show ?thesis using r3 r2 r1 nop
    by (simp add: core_at_def memory_at_def written_def regfile_step_def reset_arch_def zero_word_def enum_defs)
qed

lemma held_reset:
  assumes "\<And>k. c (Suc k) = core_step (i k) (c k)" and "\<And>k. k < r \<Longrightarrow> core_rst (i k)" and "3 \<le> r"
  shows "core_at prog (isa_run prog (reset_arch m)) 0 3 (c r) m"
proof -
  from assms(3) obtain q where q: "r = Suc (Suc (Suc q))" by (metis Suc_le_D numeral_3_eq_3 Suc_le_mono)
  show ?thesis using reset_core [of "i q" "i (Suc q)" "i (Suc (Suc q))" "c r" "c q"] assms(1,2) q by simp
qed

section \<open>Runs\<close>

text \<open>
  The core between an instruction memory \<open>code\<close> and a data memory, with reset held for \<open>r\<close>
  cycles; the misses come as they like.
\<close>

definition core_run :: "(u32 \<Rightarrow> u32) \<Rightarrow> nat \<Rightarrow> (nat \<Rightarrow> core_in) \<Rightarrow> (nat \<Rightarrow> core) \<Rightarrow> (nat \<Rightarrow> memory) \<Rightarrow> bool" where
  "core_run code r i c m \<longleftrightarrow>
     (\<forall>k. c (Suc k) = core_step (i k) (c k) \<and> (core_rst (i k) \<longleftrightarrow> k < r)
        \<and> (r \<le> k \<and> \<not> i_cache_miss (i k) \<longrightarrow> i_cache_rdata (i k) = code (pcreg (c k)))
        \<and> (r \<le> k \<longrightarrow> port_cycle (data_request (i k) (c k)) (d_cache_miss (i k)) (d_cache_rdata (i k)) (m k) (m (Suc k))))"

definition core_hits :: "(nat \<Rightarrow> core_in) \<Rightarrow> nat \<Rightarrow> nat \<Rightarrow> nat" where
  "core_hits i r k = length (filter (\<lambda>j. core_hit (i j)) [r..<r + k])"

lemma core_hits_Suc: "core_hits i r (Suc k) = core_hits i r k + (if core_hit (i (r + k)) then 1 else 0)" "core_hits i r 0 = 0"
  by (simp_all add: core_hits_def)

lemma core_run_reset:
  assumes "core_run code r i c m" and "3 \<le> r"
  shows "core_at prog (isa_run prog (reset_arch (m r))) 0 3 (c r) (m r)"
proof -
  have "c (Suc k) = core_step (i k) (c k)" "k < r \<Longrightarrow> core_rst (i k)" for k using assms(1) by (simp_all add: core_run_def)
  from held_reset [where c = c and i = i, OF this assms(2)] show ?thesis .
qed

text \<open>Of four cycles without a miss one retires an instruction, when \<open>f\<close> says how long the next one takes.\<close>

lemma retired_count:
  assumes "n 0 = 0" and "f 0 = 3" and "\<And>k. retires prog A (i (r + k)) (c (r + k)) (n k) (f k) (n (Suc k)) (f (Suc k))"
  shows "core_hits i r k + f k \<le> 4 * n k + 3"
proof (induction k)
  case (Suc k)
  then show ?case using assms(3) [of k] by (auto simp: core_hits_Suc retires_def split: if_splits)
qed (simp add: assms(1,2) core_hits_Suc)

text \<open>The numbers along a run, when every cycle keeps the correspondence.\<close>

lemma retirement_trace:
  assumes "core_at prog A 0 3 (c r) (m r)"
    and "\<And>k n f. core_at prog A n f (c (r + k)) (m (r + k)) \<Longrightarrow>
      \<exists>n' f'. core_at prog A n' f' (c (r + Suc k)) (m (r + Suc k)) \<and> retires prog A (i (r + k)) (c (r + k)) n f n' f'"
  shows "\<exists>n f. n 0 = 0 \<and> (\<forall>k. core_at prog A (n k) (f k) (c (r + k)) (m (r + k))
    \<and> (n (Suc k) = n k \<or> n (Suc k) = Suc (n k)) \<and> core_hits i r k + f k \<le> 4 * n k + 3)"
proof -
  define P where "P k x \<longleftrightarrow> (k = 0 \<longrightarrow> x = (0, 3)) \<and> core_at prog A (fst x) (snd x) (c (r + k)) (m (r + k))" for k and x :: "nat \<times> nat"
  define Q where "Q k x y \<longleftrightarrow> retires prog A (i (r + k)) (c (r + k)) (fst x) (snd x) (fst y) (snd y)"
    for k and x y :: "nat \<times> nat"
  have "\<exists>g. \<forall>k. P k (g k) \<and> Q k (g k) (g (Suc k))"
  proof (rule dependent_nat_choice)
    show "\<exists>x. P 0 x" using assms(1) by (simp add: P_def)
    fix x k assume "P k x"
    then have "core_at prog A (fst x) (snd x) (c (r + k)) (m (r + k))" by (simp add: P_def)
    from assms(2) [OF this] obtain n f where "core_at prog A n f (c (r + Suc k)) (m (r + Suc k))"
      "retires prog A (i (r + k)) (c (r + k)) (fst x) (snd x) n f" by blast
    then show "\<exists>y. P (Suc k) y \<and> Q k x y" unfolding P_def Q_def by (intro exI [of _ "(n, f)"]) simp
  qed
  then obtain g where g: "P k (g k)" "Q k (g k) (g (Suc k))" for k by blast
  have "core_hits i r k + snd (g k) \<le> 4 * fst (g k) + 3" for k
    using retired_count [where n = "\<lambda>k. fst (g k)" and f = "\<lambda>k. snd (g k)" and k = k, OF _ _ g(2) [unfolded Q_def]] g(1) [of 0]
    by (simp add: P_def)
  moreover have "fst (g (Suc k)) = fst (g k) \<or> fst (g (Suc k)) = Suc (fst (g k))" for k
    using g(2) [of k] unfolding Q_def by (rule retires_next)
  ultimately show ?thesis using g(1)
    by (intro exI [of _ "\<lambda>k. fst (g k)"] exI [of _ "\<lambda>k. snd (g k)"]) (auto simp: P_def)
qed

text \<open>The number of instructions retired, cycle by cycle.\<close>

lemma retirement:
  assumes "core_run code r i c m" and "3 \<le> r" and "executes code prog (reset_arch (m r))"
    and "\<And>k. r \<le> k \<Longrightarrow> \<not> redirection_meets_hazard (i k) (c k)"
  shows "\<exists>n f. n 0 = 0 \<and> (\<forall>k. core_at prog (isa_run prog (reset_arch (m r))) (n k) (f k) (c (r + k)) (m (r + k))
    \<and> (n (Suc k) = n k \<or> n (Suc k) = Suc (n k)) \<and> core_hits i r k + f k \<le> 4 * n k + 3)"
proof (rule retirement_trace)
  let ?A = "isa_run prog (reset_arch (m r))"
  show "core_at prog ?A 0 3 (c r) (m r)" by (rule core_run_reset [OF assms(1,2)])
  fix k n f assume at: "core_at prog ?A n f (c (r + k)) (m (r + k))"
  have cyc: "c (r + Suc k) = core_step (i (r + k)) (c (r + k))" "\<not> core_rst (i (r + k))"
    "\<not> i_cache_miss (i (r + k)) \<Longrightarrow> \<forall>l. pcreg (c (r + k)) = a_pc (?A l) \<longrightarrow> i_cache_rdata (i (r + k)) = code (pcreg (c (r + k)))"
    "core_port (i (r + k)) (c (r + k)) (m (r + k)) (m (r + Suc k))"
    using assms(1) by (simp_all add: core_run_def)
  from core_cycle [OF executes_trace [OF assms(3)] at cyc(2-4)] assms(4) [of "r + k"]
  show "\<exists>n' f'. core_at prog ?A n' f' (c (r + Suc k)) (m (r + Suc k)) \<and> retires prog ?A (i (r + k)) (c (r + k)) n f n' f'"
    unfolding cyc(1) by simp
qed

lemma core_at_visible:
  assumes "core_at prog A n f c m" and "\<not> core_rst i"
  shows "write_back i c = a_regs (A n)" "m = a_mem (A n) \<or> m = a_mem (A (Suc n))"
  using assms by (auto simp: core_at_def written_def write_back_def wb_value_def memory_at_def Let_def)

text \<open>What can be seen of the correspondence, and when an instruction has retired.\<close>

lemma run_visible:
  assumes "core_run code r i c m" and "3 \<le> r" and "executes code prog (reset_arch (m r))"
    and "\<And>k. r \<le> k \<Longrightarrow> \<not> redirection_meets_hazard (i k) (c k)"
  shows "\<exists>n. n 0 = 0 \<and> (\<forall>k. (n (Suc k) = n k \<or> n (Suc k) = Suc (n k)) \<and> core_hits i r k \<le> 4 * n k + 3
      \<and> write_back (i (r + k)) (c (r + k)) = a_regs (isa_run prog (reset_arch (m r)) (n k))
      \<and> m (r + k) \<in> {a_mem (isa_run prog (reset_arch (m r)) (n k)), a_mem (isa_run prog (reset_arch (m r)) (Suc (n k)))})"
proof -
  obtain n f where n: "n 0 = 0" and run: "\<forall>k. core_at prog (isa_run prog (reset_arch (m r))) (n k) (f k) (c (r + k)) (m (r + k))
      \<and> (n (Suc k) = n k \<or> n (Suc k) = Suc (n k)) \<and> core_hits i r k + f k \<le> 4 * n k + 3"
    using retirement [OF assms] by auto
  then have at: "core_at prog (isa_run prog (reset_arch (m r))) (n k) (f k) (c (r + k)) (m (r + k))"
    and s: "n (Suc k) = n k \<or> n (Suc k) = Suc (n k)" and h: "core_hits i r k \<le> 4 * n k + 3" for k
    by (blast intro: le_trans [OF le_add1])+
  have "\<not> core_rst (i (r + k))" for k using assms(1) by (simp add: core_run_def)
  from core_at_visible [OF at this] n s h show ?thesis by (intro exI [of _ n]) simp
qed

text \<open>A count that goes up by one at a time gets to every number below.\<close>

lemma count_reaches:
  fixes n :: "nat \<Rightarrow> nat"
  assumes "n 0 = 0" and "\<And>k. n (Suc k) = n k \<or> n (Suc k) = Suc (n k)" and "M \<le> n k"
  shows "\<exists>j\<le>k. n j = M"
  using assms(3)
proof (induction k)
  case (Suc k)
  then show ?case using assms(2) [of k] by (cases "M \<le> n k") (auto intro: le_SucI)
qed (simp add: assms(1))

section \<open>Counting cycles without a miss\<close>

lemma core_hits_add: "core_hits i r (a + b) = core_hits i r a + core_hits i (r + a) b"
  by (induction b) (simp_all add: core_hits_Suc add.assoc)

lemma core_hits_some: "j \<le> b \<Longrightarrow> core_hit (i (r + j)) \<Longrightarrow> 1 \<le> core_hits i r (Suc b)"
proof -
  assume j: "j \<le> b" "core_hit (i (r + j))"
  then have "r + j \<in> set (filter (\<lambda>j. core_hit (i j)) [r..<r + Suc b])" by (simp add: le_imp_less_Suc del: upt_Suc)
  then have "0 < core_hits i r (Suc b)" unfolding core_hits_def by (rule length_pos_if_in_set)
  then show ?thesis by simp
qed

lemma core_hits_linear:
  assumes "\<And>k. \<exists>j\<le>b. core_hit (i (r + k + j))"
  shows "N \<le> core_hits i r (N * Suc b)"
proof (induction N)
  case (Suc N)
  obtain j where "j \<le> b" "core_hit (i (r + N * Suc b + j))" using assms by blast
  from core_hits_some [of j b i "r + N * Suc b", OF this] have "1 \<le> core_hits i (r + N * Suc b) (Suc b)" .
  moreover have "core_hits i r (Suc N * Suc b) = core_hits i r (N * Suc b) + core_hits i (r + N * Suc b) (Suc b)"
    by (simp only: mult_Suc add.commute [of "Suc b"] core_hits_add)
  ultimately show ?case using Suc by linarith
qed simp

end
