(* ===== verification/Core_Scheduled.thy ===== *)
theory Core_Scheduled
  imports Core_Runs
begin

text \<open>
  Programs for which no redirection is lost: code in which no load is directly followed by an
  instruction that reads what it loads. The pair that would hold up a redirection is fetched on
  the wrong path, so the condition is on the code as it stands in memory, not on its execution.
\<close>

section \<open>Scheduled code\<close>

text \<open>The decoder gives the word a control word of its own; for any other it holds the one before.\<close>

definition decodes :: "rv32i_word \<Rightarrow> bool" where
  "decodes w \<longleftrightarrow>
     opcode_out w \<in> {op_lui, op_auipc, op_jal, op_jalr, op_br, op_store, op_imm, op_reg}
     \<or> opcode_out w = op_load \<and> funct3_out w \<in> {load_lb, load_lh, load_lw, load_lbu, load_lhu}"

definition scheduled :: "(u32 \<Rightarrow> u32) \<Rightarrow> bool" where
  "scheduled code \<longleftrightarrow>
     (\<forall>a. decodes (code a)
        \<and> (opcode_out (code a) = op_load \<longrightarrow>
             rd_out (code a) \<noteq> rs1_id (code (a + 4)) \<and> rd_out (code a) \<noteq> rs2_id (code (a + 4))))"

lemma decodes_read_mem:
  assumes "decodes w"
  shows "read_mem (control_word_out h w) \<longleftrightarrow> opcode_out w = op_load"
  using assms unfolding decodes_def control_word_out_def
  by (elim disjE insertE; simp add: WordGenerator_def Let_def setControlWord_def enum_defs)
    (auto simp: WordGenerator_def Let_def setControlWord_def enum_defs)

text \<open>And only jumps select the output of the arithmetic unit as the next address.\<close>

definition jumps_only :: "rv32i_control_word \<Rightarrow> 7 word \<Rightarrow> bool" where
  "jumps_only cw op \<longleftrightarrow> (pcmux_sel cw \<in> {pcmux_alu_out, pcmux_alu_mod2} \<longrightarrow> op \<in> {op_jal, op_jalr})"

lemma decodes_jumps_only: "decodes w \<Longrightarrow> jumps_only (control_word_out h w) (opcode_out w)"
  unfolding decodes_def control_word_out_def jumps_only_def
  by (elim disjE insertE; simp add: WordGenerator_def Let_def setControlWord_def enum_defs)
    (auto simp: WordGenerator_def Let_def setControlWord_def enum_defs)

lemma jumps_only_flush:
  assumes "jumps_only (ex_cntrl_word (to_memory (registers c))) (ex_opcode (to_memory (registers c)))" and "\<not> flush (check_branch c)"
  shows "pcmux_sel (ex_cntrl_word (to_memory (registers c))) \<notin> {pcmux_alu_out, pcmux_alu_mod2}"
  using assms by (auto simp: jumps_only_def check_branch_def static_nt_predictor_def Let_def)

section \<open>What the stages hold\<close>

text \<open>
  Decode holds a bubble or the word of its address; behind a load fetch is at the next address;
  and what a load in execute loads is not read in decode. No word that is not a jump will
  redirect the program counter like one.
\<close>

definition paired :: "(u32 \<Rightarrow> u32) \<Rightarrow> core \<Rightarrow> bool" where
  "paired code c \<longleftrightarrow>
     (let d = to_decode (registers c); e = to_execute (registers c); m = to_memory (registers c) in
      (if_instr d = nop_instr \<or> if_instr d = code (if_pc_reg d))
      \<and> (opcode_out (if_instr d) = op_load \<longrightarrow> pcreg c = if_pc_reg d + 4)
      \<and> (read_mem (id_cntrl_word e) \<longrightarrow>
           id_reg_dest e \<noteq> rs1_id (if_instr d) \<and> id_reg_dest e \<noteq> rs2_id (if_instr d))
      \<and> jumps_only (id_cntrl_word e) (id_opcode e) \<and> jumps_only (ex_cntrl_word m) (ex_opcode m))"

lemma jumps_only_bubble: "jumps_only zero_word op" "jumps_only nop_word op"
  by (simp_all add: jumps_only_def nop_word_def zero_word_def enum_defs)

lemma nop_opcode: "opcode_out nop_instr = op_imm"
  by (simp add: nop_encode)

lemma nop_decodes: "decodes nop_instr"
  by (simp add: decodes_def nop_opcode)

lemma paired_no_hazard:
  assumes "paired code c" and "core_hit i"
  shows "\<not> pc_stall (core_stalls i c)"
  using assms by (auto simp: paired_def core_hit_def core_stalls_def pipeline_stalls_def stall_def Let_def)

lemma paired_no_loss: "paired code c \<Longrightarrow> \<not> redirection_meets_hazard i c"
  using paired_no_hazard [of code c i] by (auto simp: redirection_meets_hazard_def core_hit_def)

lemma flushed_stages:
  assumes "\<not> core_rst i" and "flush (check_branch c)" and "p = registers (core_step i c)"
  shows "if_instr (to_decode p) = nop_instr" "id_cntrl_word (to_execute p) = zero_word"
    "to_memory p = to_memory (registers c) \<or> ex_cntrl_word (to_memory p) = nop_word"
  using assms by (auto simp: core_step_fields(1) pipeline_clock_def Let_def check_branch_flush register_steps id_cleared_def ex_cleared_def)

text \<open>The registers before execute take a word of the code that comes right behind the one before it.\<close>

lemma scheduled_successor:
  assumes "scheduled code" and "paired code c" and "read_mem (control_word_out h (if_instr (to_decode (registers c))))"
  shows "rd_out (if_instr (to_decode (registers c))) \<noteq> rs1_id (code (pcreg c))
    \<and> rd_out (if_instr (to_decode (registers c))) \<noteq> rs2_id (code (pcreg c))"
proof -
  let ?d = "to_decode (registers c)"
  have word: "if_instr ?d = nop_instr \<or> if_instr ?d = code (if_pc_reg ?d)" using assms(2) by (simp add: paired_def Let_def)
  then have "decodes (if_instr ?d)" using assms(1) nop_decodes by (auto simp: scheduled_def)
  then have load: "opcode_out (if_instr ?d) = op_load" using assms(3) decodes_read_mem by blast
  with word have "if_instr ?d = code (if_pc_reg ?d)" by (auto simp: nop_opcode opcode_defs)
  moreover have "pcreg c = if_pc_reg ?d + 4" using load assms(2) by (simp add: paired_def Let_def)
  ultimately show ?thesis using assms(1) load by (simp add: scheduled_def)
qed

lemma paired_hit:
  assumes "scheduled code" and "paired code c" and "\<not> core_rst i" and "i_cache_rdata i = code (pcreg c)"
    and "core_hit i" and "\<not> flush (check_branch c)"
  shows "paired code (core_step i c)"
proof -
  let ?w = "if_instr (to_decode (registers c))"
  have hit: "\<not> i_cache_miss i" "\<not> d_cache_miss i" using assms(5) by (simp_all add: core_hit_def)
  note st = paired_no_hazard [OF assms(2,5)]
  have new: "to_decode (registers (core_step i c)) = fetch_out i c" "to_execute (registers (core_step i c)) = decode_out i c"
    "to_memory (registers (core_step i c)) = execute_out i c" "pcreg (core_step i c) = fetch_next i c"
    using hit_cases(5) [OF assms(3) hit assms(6) refl st] hit_cases(1) [OF assms(3) hit assms(6) refl] st
    by (simp_all add: core_step_fields(2) [OF assms(3)])
  have js: "jumps_only (ex_cntrl_word (to_memory (registers c))) (ex_opcode (to_memory (registers c)))"
    "jumps_only (id_cntrl_word (to_execute (registers c))) (id_opcode (to_execute (registers c)))"
    using assms(2) by (simp_all add: paired_def Let_def)
  have "fetch_next i c = pcreg c + 4" if "opcode_out (code (pcreg c)) = op_load"
  proof -
    have "\<not> predicted_taken i c" using predicted_branch [of i c] st that
      by (auto simp: assms(4) opcode_out_def slice_at_def op_load_def)
    then show ?thesis by (simp add: straight_sel [OF jumps_only_flush [OF js(1) assms(6)] assms(6)])
  qed
  moreover have "decodes ?w" using assms(1,2) nop_decodes by (auto simp: paired_def scheduled_def Let_def)
  ultimately show ?thesis using js(2) scheduled_successor [OF assms(1,2)] decodes_jumps_only [of ?w]
    by (simp add: paired_def Let_def new fetch_out_def decode_out_def execute_out_def assms(4))
qed

lemma paired_step:
  assumes "scheduled code" and "paired code c" and "\<not> core_rst i" and "\<not> i_cache_miss i \<Longrightarrow> i_cache_rdata i = code (pcreg c)"
  shows "paired code (core_step i c)"
proof (cases "flush (check_branch c)")
  case True
  with flushed_stages [OF assms(3) this refl] assms(2) show ?thesis
    by (auto simp: paired_def Let_def nop_opcode opcode_defs jumps_only_bubble) (simp add: zero_word_def)+
next
  case fl: False
  show ?thesis
  proof (cases "core_hit i")
    case False
    with miss_step [OF assms(3), of c] fl have "registers (core_step i c) = registers c" "pcreg (core_step i c) = pcreg c"
      by (auto simp: core_hit_def)
    with assms(2) show ?thesis by (simp add: paired_def)
  qed (use paired_hit assms fl in \<open>auto simp: core_hit_def\<close>)
qed

section \<open>Runs\<close>

lemma scheduled_paired:
  assumes "\<And>k. c (Suc k) = core_step (i k) (c k)" and "\<And>k. core_rst (i k) \<longleftrightarrow> k < r" and "0 < r"
    and "\<And>j. r \<le> j \<Longrightarrow> j < k \<Longrightarrow> \<not> i_cache_miss (i j) \<Longrightarrow> i_cache_rdata (i j) = code (pcreg (c j))"
    and "scheduled code" and "r \<le> k"
  shows "paired code (c k)"
  using assms(6,4)
proof (induction k rule: dec_induct)
  case base
  from assms(3) obtain q where q: "r = Suc q" by (cases r) simp_all
  have "core_rst (i q)" "c r = core_step (i q) (c q)" using assms(1,2) by (simp_all add: q)
  from reset_step [OF this] show ?case
    by (simp add: paired_def Let_def nop_opcode opcode_defs jumps_only_bubble) (simp add: zero_word_def)
next
  case (step k)
  then show ?case unfolding assms(1) using assms(2) [of k] by (intro paired_step [OF assms(5)]) simp_all
qed

end
