(* ===== verification/Counter_Program.thy ===== *)
theory Counter_Program
  imports Core_Scheduled
begin

text \<open>
  A program for the core, and the core with memories that never miss: a loop of three
  instructions that counts in register 5 and stores the count at address 0. The theorems about
  runs of the core are applied to it.
\<close>

section \<open>The core between perfect memories\<close>

definition hit_in :: "(u32 \<Rightarrow> u32) \<Rightarrow> bool \<Rightarrow> core \<Rightarrow> core_in" where
  "hit_in code rst c =
     \<lparr> core_rst = rst, i_cache_miss = False, d_cache_miss = False, i_cache_rdata = code (pcreg c), d_cache_rdata = 0,
       update_hist_table = False, execute_held = lone_held, control_held = idle_word, regfilemux_held = 0,
       enable_held = 0, br_pred_pc_held = 0 \<rparr>"

definition perfect_in :: "(u32 \<Rightarrow> u32) \<Rightarrow> bool \<Rightarrow> core \<Rightarrow> memory \<Rightarrow> core_in" where
  "perfect_in code rst c m =
     (let i = hit_in code rst c
      in i\<lparr>d_cache_rdata := (case data_request i c of Some (LoadWord a) \<Rightarrow> word_at m a | _ \<Rightarrow> 0)\<rparr>)"

primrec perfect_run :: "(u32 \<Rightarrow> u32) \<Rightarrow> core \<Rightarrow> memory \<Rightarrow> nat \<Rightarrow> core \<times> memory" where
  "perfect_run code c0 m0 0 = (c0, m0)"
| "perfect_run code c0 m0 (Suc k) =
     (let s = perfect_run code c0 m0 k; c = fst s; m = snd s; i = perfect_in code (k < 3) c m
      in (core_step i c, case data_request i c of None \<Rightarrow> m | Some q \<Rightarrow> byte_effect q m))"

abbreviation perfect_inputs :: "(u32 \<Rightarrow> u32) \<Rightarrow> core \<Rightarrow> memory \<Rightarrow> nat \<Rightarrow> core_in" where
  "perfect_inputs code c0 m0 k \<equiv>
     perfect_in code (k < 3) (fst (perfect_run code c0 m0 k)) (snd (perfect_run code c0 m0 k))"

lemma perfect_fields:
  "core_rst (perfect_in code b c m) = b" "\<not> i_cache_miss (perfect_in code b c m)" "\<not> d_cache_miss (perfect_in code b c m)"
  "i_cache_rdata (perfect_in code b c m) = code (pcreg c)"
  by (simp_all add: perfect_in_def hit_in_def Let_def)

lemma request_rdata: "data_request (i\<lparr>d_cache_rdata := v\<rparr>) c = data_request i c"
  by (simp add: data_request_def wb_value_def Let_def)

lemma perfect_answer:
  "data_request (perfect_in code b c m) c = Some q \<Longrightarrow> byte_answer q m (d_cache_rdata (perfect_in code b c m))"
  by (cases q) (simp_all add: perfect_in_def Let_def request_rdata)

lemma perfect_core_run:
  "core_run code 3 (perfect_inputs code c0 m0) (\<lambda>k. fst (perfect_run code c0 m0 k)) (\<lambda>k. snd (perfect_run code c0 m0 k))"
  unfolding core_run_def
  using perfect_answer by (auto simp: perfect_fields port_cycle_def Let_def split: option.splits)

lemma perfect_hits: "core_hits (perfect_inputs code c0 m0) 3 k = k"
  by (simp add: core_hits_def core_hit_def perfect_fields)

text \<open>A state at power-up.\<close>

definition empty_core :: core where
  "empty_core =
     \<lparr> pcreg = 0, registers = branch_taken, regs_data = (\<lambda>_. 7), checker = no_check,
       predictor =
         \<lparr> GBR_PRED = \<lparr> g_patterns = (\<lambda>_. STRONGLY_TAKEN), ghr_data = 0, ghr_new = 0, g_index = 0, g_updated = STRONGLY_TAKEN, g_flush = True \<rparr>,
           LBR_PRED = \<lparr> l_patterns = (\<lambda>_. STRONGLY_TAKEN), local_hist_registers = (\<lambda>_. 0), lhr_index = 0,
             new_local_hist_reg_val = None, l_index = None, l_updated = STRONGLY_TAKEN, l_flush = True \<rparr>,
           META_PRED = \<lparr> m_patterns = (\<lambda>_. STRONGLY_TAKEN), m_index = 0, m_updated = STRONGLY_TAKEN, br_pred_sel = True \<rparr> \<rparr> \<rparr>"

section \<open>The program\<close>

definition counter :: assembly where
  "counter a = (if a = 0x60 then Op_imm Add 5 5 1 else if a = 0x64 then Store Full 0 5 0 else Jal 0 (- 4))"

definition counter_code :: "u32 \<Rightarrow> u32" where
  "counter_code a = encode (counter a)"

lemma counter_executes: "executes counter_code counter (reset_arch m)"
  by (auto simp: executes_def well_behaved_def counter_code_def counter_def source1_def reg_value_def aligned_def byte_offset_def)

lemma counter_scheduled: "scheduled counter_code"
  by (simp add: scheduled_def decodes_def counter_code_def counter_def opcode_defs)

lemma counter_at: "counter 0x60 = Op_imm Add 5 5 1" "counter 0x64 = Store Full 0 5 0" "counter 0x68 = Jal 0 (- 4)"
  by (simp_all add: counter_def)

lemma counter_round:
  "let s = isa_run counter (reset_arch m) (3 * n)
   in a_pc s = 0x60 \<and> a_regs s 5 = of_nat n \<and> (0 < n \<longrightarrow> isa_load Full False (a_mem s) 0 = of_nat n)"
proof (induction n)
  case 0
  then show ?case by (simp add: reset_arch_def)
next
  case (Suc n)
  have off: "byte_offset 0 = 0" "byte_offset 1 = 1" "half_offset (- 4 :: 20 word) = - 8"
    by (simp_all add: byte_offset_def half_offset_def)
  have add: "isa_alu Add (of_nat n) 1 = of_nat (Suc n)"
    using alu_correct [of Add "of_nat n" 1] by (simp add: alu_add_code compares_def add.commute del: isa_alu.simps)
  let ?s = "isa_run counter (reset_arch m) (3 * n)"
  have "isa_run counter (reset_arch m) (3 * Suc n) = isa_step counter (isa_step counter (isa_step counter ?s))"
    by (simp add: numeral_3_eq_3)
  moreover have "a_pc ?s = 0x60" "a_regs ?s 5 = of_nat n" using Suc by (simp_all add: Let_def)
  moreover have "isa_load Full False (isa_store Full m' 0 x) 0 = x" for m' x by (simp add: load_store)
  ultimately show ?case
    by (simp add: Let_def isa_step_def isa_effect_def counter_at source1_def source2_def reg_value_def off add
        del: isa_alu.simps isa_load.simps)
qed

section \<open>Properties of the core\<close>

lemma counter_paired: "3 \<le> k \<Longrightarrow> paired counter_code (fst (perfect_run counter_code c0 m0 k))"
  by (rule scheduled_paired [where i = "perfect_inputs counter_code c0 m0" and r = 3, OF _ _ _ _ counter_scheduled])
    (simp_all add: perfect_fields Let_def)

lemmas counter_no_loss = paired_no_loss [OF counter_paired]



text \<open>
  Every instruction retires, within four cycles without a miss on average. When \<open>4 * N\<close> cycles have
  passed in which neither cache misses, however many cycles with misses lie between them, the
  core has been in a state in which exactly \<open>N\<close> instructions have been carried out.
\<close>

theorem instructions_retire:
  assumes "core_run code r i c m" and "3 \<le> r" and "executes code prog (reset_arch (m r))"
    and "\<And>k. r \<le> k \<Longrightarrow> \<not> redirection_meets_hazard (i k) (c k)" and "4 * N \<le> core_hits i r k"
  shows "\<exists>j\<le>k. write_back (i (r + j)) (c (r + j)) = a_regs (isa_run prog (reset_arch (m r)) N)
    \<and> m (r + j) \<in> {a_mem (isa_run prog (reset_arch (m r)) N), a_mem (isa_run prog (reset_arch (m r)) (Suc N))}"
proof -
  obtain n where n: "n 0 = 0" and run: "\<And>k. (n (Suc k) = n k \<or> n (Suc k) = Suc (n k)) \<and> core_hits i r k \<le> 4 * n k + 3
      \<and> write_back (i (r + k)) (c (r + k)) = a_regs (isa_run prog (reset_arch (m r)) (n k))
      \<and> m (r + k) \<in> {a_mem (isa_run prog (reset_arch (m r)) (n k)), a_mem (isa_run prog (reset_arch (m r)) (Suc (n k)))}"
    using run_visible [OF assms(1-4)] by auto
  have "N \<le> n k" using assms(5) run [of k] by linarith
  with count_reaches [of n N k] n run obtain j where "j \<le> k" "n j = N" by blast
  with run show ?thesis by blast
qed

text \<open>After 40 cycles register 5 has counted to 3.\<close>

theorem instructions_retire_witness:
  "\<exists>j\<le>40. write_back (perfect_inputs counter_code empty_core (\<lambda>_. 0) (3 + j))
     (fst (perfect_run counter_code empty_core (\<lambda>_. 0) (3 + j))) 5 = 3"
proof -
  let ?s = "isa_run counter (reset_arch (snd (perfect_run counter_code empty_core (\<lambda>_. 0) 3))) (3 * 3)"
  have "a_regs ?s 5 = 3" using counter_round [of _ 3] by (simp only: Let_def) simp
  moreover have "4 * (3 * 3) \<le> core_hits (perfect_inputs counter_code empty_core (\<lambda>_. 0)) 3 40" by (simp add: perfect_hits)
  from instructions_retire [OF perfect_core_run order_refl counter_executes counter_no_loss this]
  obtain j where "j \<le> 40" "write_back (perfect_inputs counter_code empty_core (\<lambda>_. 0) (3 + j))
     (fst (perfect_run counter_code empty_core (\<lambda>_. 0) (3 + j))) = a_regs ?s" by blast
  ultimately show ?thesis by metis
qed



end
