(* ===== verification/Core_Typed.thy ===== *)
theory Core_Typed
  imports Counter_Program
begin

text \<open>
  Control words that make sense: as long as fetch delivers words the decoder has a control word
  for, what the registers hold stays within the enumerations of \<open>pkg/rv32i_mux_types.sv\<close> that the
  write-back stage distinguishes, no instruction both reads and writes memory, and none has a
  destination that it does not write. The old values in the latches of decoder and write-back
  multiplexer are then never seen.
\<close>

section \<open>Well-typed control words\<close>

definition typed :: "rv32i_control_word \<Rightarrow> rv32i_reg \<Rightarrow> bool" where
  "typed cw rd \<longleftrightarrow>
     regfilemux_sel cw \<le> regfilemux_lhu \<and> \<not> (read_mem cw \<and> write_mem cw) \<and> (rd \<noteq> 0 \<longrightarrow> write_reg cw)"

definition typed_core :: "core \<Rightarrow> bool" where
  "typed_core c \<longleftrightarrow>
     (let p = registers c in
      decodes (if_instr (to_decode p))
      \<and> typed (id_cntrl_word (to_execute p)) (id_reg_dest (to_execute p))
      \<and> typed (ex_cntrl_word (to_memory p)) (ex_reg_dest (to_memory p))
      \<and> typed (wb_cntrl_word (to_write_back p)) (wb_reg_dest (to_write_back p)))"

lemma typed_bubble: "typed zero_word 0" "typed nop_word 0"
  by (simp_all add: typed_def nop_word_def zero_word_def)

text \<open>The decoder's words are typed, and do not depend on the word it holds.\<close>

lemma decodes_typed:
  assumes "decodes w"
  shows "typed (control_word_out h w) (rd_out w)" and "control_word_out h w = control_word_out h' w"
proof -
  have op: "opcode_out w = op_load \<Longrightarrow> funct3_out w \<in> {load_lb, load_lh, load_lw, load_lbu, load_lhu}"
    using assms by (auto simp: decodes_def opcode_defs)
  have "rd_out w \<noteq> 0 \<Longrightarrow> write_reg (control_word_out h w)" using rd_implies_write op by blast
  moreover have "regfilemux_sel (control_word_out h w) \<le> regfilemux_lhu
      \<and> \<not> (read_mem (control_word_out h w) \<and> write_mem (control_word_out h w))"
    using assms unfolding decodes_def control_word_out_def
    by (elim disjE insertE; simp add: WordGenerator_def Let_def setControlWord_def enum_defs)
      (auto simp: WordGenerator_def Let_def setControlWord_def enum_defs)
  ultimately show "typed (control_word_out h w) (rd_out w)" by (simp add: typed_def)
  show "control_word_out h w = control_word_out h' w"
    using assms unfolding decodes_def control_word_out_def
    by (elim disjE insertE; simp add: WordGenerator_def Let_def enum_defs)
      (auto simp: WordGenerator_def Let_def enum_defs)
qed

lemma typed_writes_once: "typed cw rd \<Longrightarrow> regfilemux_out h cw b a p u v = regfilemux_out h' cw b a p u v"
proof -
  assume "typed cw rd"
  then have le: "unat (regfilemux_sel cw) \<le> 8" by (simp add: typed_def regfilemux_lhu_def word_le_nat_alt)
  moreover have "regfilemux_sel cw = of_nat (unat (regfilemux_sel cw))" by simp
  ultimately obtain n where n: "regfilemux_sel cw = of_nat n" "n \<le> 8" by blast
  from n(2) have "n = 0 \<or> n = 1 \<or> n = 2 \<or> n = 3 \<or> n = 4 \<or> n = 5 \<or> n = 6 \<or> n = 7 \<or> n = 8" by arith
  with n(1) show ?thesis by (elim disjE) (simp_all add: regfilemux_out_def Let_def enum_defs)
qed

section \<open>Cycles\<close>

text \<open>A register keeps its content, is cleared, or takes over from the stage before it.\<close>

lemma register_cases:
  "s' = if_id_step False st fl i s \<Longrightarrow> s' = s \<or> if_instr s' = nop_instr \<or> s' = i \<and> \<not> st"
  "t' = id_ex_step False st sn fl j t \<Longrightarrow>
     t' = t \<or> id_reg_dest t' = 0 \<and> id_cntrl_word t' \<in> {zero_word, nop_word} \<or> t' = j"
  "u' = ex_mem_step False st fl k u \<Longrightarrow> u' = u \<or> ex_reg_dest u' = 0 \<and> ex_cntrl_word u' = nop_word \<or> u' = k"
  "v' = mem_wb_step False st l v \<Longrightarrow> v' = v \<or> v' = l"
  by (auto simp: register_steps id_cleared_def ex_cleared_def Let_def)

lemma typed_step:
  assumes "typed_core c" and "\<not> core_rst i" and "\<not> i_cache_miss i \<Longrightarrow> decodes (i_cache_rdata i)"
  shows "typed_core (core_step i c)"
proof -
  let ?p = "registers c" and ?q = "registers (core_step i c)"
  let ?st = "pipeline_stalls (i_cache_miss i) (d_cache_miss i) ?p" and ?fl = "flush (check_branch c)"
  have q: "to_decode ?q = if_id_step False (stall_if_id ?st) ?fl (fetch_out i c) (to_decode ?p)"
    "to_execute ?q = id_ex_step False (stall_id_ex ?st) (stall_nop_id_ex ?st) ?fl (decode_out i c) (to_execute ?p)"
    "to_memory ?q = ex_mem_step False (stall_ex_mem ?st) ?fl (execute_out i c) (to_memory ?p)"
    "to_write_back ?q = mem_wb_step False (stall_mem_wb ?st) (memory_out i c) (to_write_back ?p)"
    using assms(2) by (simp_all add: core_step_fields(1) pipeline_clock_def Let_def check_branch_flush stage_outputs_def)
  have "decodes (if_instr (fetch_out i c))" if "\<not> stall_if_id ?st"
    using that assms(3) stall_cases(1) [of "i_cache_miss i" "d_cache_miss i" ?p] by (auto simp: fetch_out_def)
  then have "decodes (if_instr (to_decode ?q))"
    using register_cases(1) [OF q(1)] nop_decodes assms(1) by (auto simp: typed_core_def Let_def)
  moreover have "typed (id_cntrl_word (to_execute ?q)) (id_reg_dest (to_execute ?q))"
    using register_cases(2) [OF q(2)] typed_bubble decodes_typed(1) assms(1)
    by (auto simp: typed_core_def decode_out_def Let_def)
  moreover have "typed (ex_cntrl_word (to_memory ?q)) (ex_reg_dest (to_memory ?q))"
    using register_cases(3) [OF q(3)] typed_bubble assms(1) by (auto simp: typed_core_def execute_out_def Let_def)
  moreover have "typed (wb_cntrl_word (to_write_back ?q)) (wb_reg_dest (to_write_back ?q))"
    using register_cases(4) [OF q(4)] assms(1) by (auto simp: typed_core_def memory_out_def Let_def)
  ultimately show ?thesis by (simp add: typed_core_def Let_def)
qed

lemma typed_run:
  assumes "\<And>k. c (Suc k) = core_step (i k) (c k)" and "\<And>k. core_rst (i k) \<longleftrightarrow> k < r" and "0 < r"
    and "\<And>k. r \<le> k \<Longrightarrow> \<not> i_cache_miss (i k) \<Longrightarrow> decodes (i_cache_rdata (i k))" and "r \<le> k"
  shows "typed_core (c k)"
  using assms(5)
proof (induction k rule: dec_induct)
  case base
  from assms(3) obtain q where q: "r = Suc q" by (cases r) simp_all
  have "core_rst (i q)" "c r = core_step (i q) (c q)" using assms(1,2) by (simp_all add: q)
  from reset_step [OF this] show ?case by (simp add: typed_core_def Let_def nop_decodes typed_bubble)
next
  case (step k)
  then show ?case unfolding assms(1) using assms(2) [of k] assms(4) by (intro typed_step) simp_all
qed

text \<open>
  C8: the registers hold well-typed control words. If reset is held for a cycle and, from then on, every word
  fetched without a miss, also on a wrong path, is one the decoder knows, then at all times, through flushes, stalls and
  bubbles, the control words in execute, memory and write-back select a value the write-back stage
  has, ask for at most one access and write the register they name as destination; so the
  latches of the decoder and of the write-back multiplexer, which hold their old values for
  anything else, are not seen in such a run: decode output and register file do not depend on them.
\<close>

theorem control_words_typed:
  assumes "\<And>k. c (Suc k) = core_step (i k) (c k)" and "\<And>k. core_rst (i k) \<longleftrightarrow> k < r" and "0 < r"
    and "\<And>k. r \<le> k \<Longrightarrow> \<not> i_cache_miss (i k) \<Longrightarrow> decodes (i_cache_rdata (i k))" and "r \<le> k"
  shows "typed_core (c k)
    \<and> id_cntrl_word (decode_out (i k) (c k)) = id_cntrl_word (decode_out ((i k)\<lparr>control_held := h\<rparr>) (c k))
    \<and> write_back (i k) (c k) = write_back ((i k)\<lparr>regfilemux_held := v\<rparr>) (c k)"
proof (intro conjI)
  show t: "typed_core (c k)" by (rule typed_run [where c = c and i = i and r = r, OF assms])
  then have "decodes (if_instr (to_decode (registers (c k))))" by (simp add: typed_core_def Let_def)
  from decodes_typed(2) [OF this]
  show "id_cntrl_word (decode_out (i k) (c k)) = id_cntrl_word (decode_out ((i k)\<lparr>control_held := h\<rparr>) (c k))"
    by (simp add: decode_out_def Let_def)
  have "typed (wb_cntrl_word (to_write_back (registers (c k)))) (wb_reg_dest (to_write_back (registers (c k))))"
    using t by (simp add: typed_core_def Let_def)
  from typed_writes_once [OF this] have "wb_value (i k) (c k) = wb_value ((i k)\<lparr>regfilemux_held := v\<rparr>) (c k)"
    unfolding wb_value_def Let_def by blast
  then show "write_back (i k) (c k) = write_back ((i k)\<lparr>regfilemux_held := v\<rparr>) (c k)"
    by (simp add: write_back_def Let_def)
qed

theorem control_words_typed_witness:
  "write_back (perfect_inputs counter_code empty_core (\<lambda>_. 0) 9) (fst (perfect_run counter_code empty_core (\<lambda>_. 0) 9))
     = write_back ((perfect_inputs counter_code empty_core (\<lambda>_. 0) 9)\<lparr>regfilemux_held := 77\<rparr>)
         (fst (perfect_run counter_code empty_core (\<lambda>_. 0) 9))"
proof -
  have "decodes (counter_code a)" for a using counter_scheduled by (simp add: scheduled_def)
  then show ?thesis
    using control_words_typed [where i = "perfect_inputs counter_code empty_core (\<lambda>_. 0)" and k = 9 and r = 3
        and c = "\<lambda>k. fst (perfect_run counter_code empty_core (\<lambda>_. 0) k)" and v = 77]
    by (simp add: perfect_fields Let_def)
qed

end
