(* ===== verification/Cache_Port.thy ===== *)
theory Cache_Port
  imports Cache_Correct
begin

text \<open>
  The simulation of \<open>Cache_Correct\<close>, cycle by cycle: over any held port the cache is a word port.
  An access takes one cycle when it hits, and otherwise at most two transfers of a line and four
  cycles more.
\<close>

section \<open>At rest and at work\<close>

definition cached_ready ::
  "('s \<Rightarrow> bool) \<Rightarrow> ('s \<Rightarrow> lines) \<Rightarrow> cache \<times> 's \<Rightarrow> lines \<Rightarrow> bool" where
  "cached_ready ready contents x L \<longleftrightarrow>
     cache_state (fst x) = Hit \<and> ready (snd x) \<and> cache_inv (fst x) {} {} (contents (snd x))
     \<and> cache_view (fst x) {} (contents (snd x)) = L"

definition victim_entry :: "cache \<Rightarrow> u32 \<Rightarrow> way \<times> set_index" where
  "victim_entry c a = (victim c a, addr_index a)"

definition write_back_request :: "cache \<Rightarrow> u32 \<Rightarrow> request" where
  "write_back_request c a =
     (let v = victim c a; x = addr_index a in evict_request c v x)"

inductive cached_serving for ready :: "'s \<Rightarrow> bool" and contents :: "'s \<Rightarrow> lines"
  and serving :: "'s \<Rightarrow> request \<Rightarrow> lines \<Rightarrow> nat \<Rightarrow> bool" and bound :: nat where
  hit: "cached_ready ready contents (c, s) L \<Longrightarrow> hit_check (present c (access_addr q)) \<Longrightarrow>
    cached_serving ready contents serving bound (c, s) q L n"
| asked: "cached_ready ready contents (c, s) L \<Longrightarrow> 2 * bound + 4 \<le> n \<Longrightarrow>
    cached_serving ready contents serving bound (c, s) q L n"
| writing: "cache_state c = Miss_dirty \<Longrightarrow> serving s (write_back_request c (access_addr q)) M k \<Longrightarrow>
    valid_bits c (victim c (access_addr q)) (addr_index (access_addr q)) \<Longrightarrow>
    cache_inv c {} {victim_entry c (access_addr q)} M \<Longrightarrow> cache_view c {} M = L \<Longrightarrow>
    \<not> hit_check (present c (access_addr q)) \<Longrightarrow>
    cached_serving ready contents serving bound (c, s) q L (k + bound + 3)"
| refilling: "cache_state c = Miss_clean \<Longrightarrow> serving s (refill_request (access_addr q)) M k \<Longrightarrow>
    \<not> dirty_bits c (victim c (access_addr q)) (addr_index (access_addr q)) \<Longrightarrow>
    cache_inv c {victim_entry c (access_addr q)} {} M \<Longrightarrow> cache_view c {victim_entry c (access_addr q)} M = L \<Longrightarrow>
    (\<And>w. \<not> holds_line c {victim_entry c (access_addr q)} (line_no (access_addr q)) w) \<Longrightarrow>
    cached_serving ready contents serving bound (c, s) q L (k + 1)"

lemma requests_accessed:
  "requests i q \<Longrightarrow> accessed i" "requests i q \<Longrightarrow> mem_address i = access_addr q"
  by (cases q; simp)+

section \<open>The cycles of an access\<close>

context held_port
begin

abbreviation c_step where "c_step \<equiv> cached_step step resp rdata"
abbreviation c_ready where "c_ready \<equiv> cached_ready ready contents"
abbreviation c_serving where "c_serving \<equiv> cached_serving ready contents serving bound"

lemma hit_progress:
  assumes "c_ready (c, s) L" and "hit_check (present c (access_addr q))" and "requests i q" and "c_step (c, s) i d v s'"
  shows "d \<and> answer q L v \<and> c_ready s' (access_effect q L)"
proof -
  let ?a = "access_addr q" and ?M = "contents s"
  have r: "cache_state c = Hit" "ready s" and inv: "cache_inv c {} {} ?M" and view: "cache_view c {} ?M = L"
    using assms(1) by (simp_all add: cached_ready_def)
  from assms(4) obtain i' ctl t where i': "i' = port_inputs resp rdata s i" and ctl: "settles c i' ctl"
    "d = done_out ctl" "v = cache_rdata c i' ctl" "s' = (cache_clock False c i' ctl, t)" and t: "step s (cache_port c i' ctl) t"
    by (rule cached_step_parts)
  have a: "mem_address i' = ?a" using requests_accessed [OF assms(3)] i' by simp
  let ?w = "hit_way (present c ?a)"
  have w: "holds_line c {} (line_no ?a) ?w" using hit_way_hits [OF assms(2)] by (simp add: present_holds)
  have now: "L (line_no ?a) = data_lines c ?w (addr_index ?a)" using view_held [OF inv w] view by simp
  show ?thesis
  proof (cases q)
    case (LoadWord b)
    then have l: "mem_read i'" using assms(3) i' by simp
    note cy = cycle_hit_load [OF ctl(1) r(1) l, unfolded a, OF assms(2)]
    from cy(3) obtain p where "cache_clock False c i' ctl = c\<lparr>plru := p\<rparr>" ..
    with cy(1,2,4) idle [OF r(2) cy(2) t] ctl r inv view now LoadWord show ?thesis by (simp add: cached_ready_def)
  next
    case (StoreWord b be x)
    then have l: "mem_write i'" "\<not> mem_read i'" "mem_byte_enable i' = be" "mem_wdata i' = x" using assms(3) i' by simp_all
    note cy = cycle_hit_store [OF ctl(1) r(1) l(1,2), unfolded a l, OF assms(2)]
    from cy(3) obtain p where clock: "cache_clock False c i' ctl = c\<lparr>plru := p, dirty_bits := set_entry ?w (addr_index ?a) True (dirty_bits c),
        data_lines := set_entry ?w (addr_index ?a) (store_line ?a be x (data_lines c ?w (addr_index ?a))) (data_lines c)\<rparr>"
      unfolding store_line_def ..
    have inv': "cache_inv (c\<lparr>plru := p\<rparr>) {} {} ?M" "holds_line (c\<lparr>plru := p\<rparr>) {} (line_no ?a) ?w" using inv w by simp_all
    from store_held [OF inv', of "store_line ?a be x (data_lines c ?w (addr_index ?a))"]
    have "cache_inv (cache_clock False c i' ctl) {} {} ?M"
      "cache_view (cache_clock False c i' ctl) {} ?M = L(line_no ?a := store_line ?a be x (L (line_no ?a)))"
      by (simp_all add: clock now view)
    with cy(1,2) idle [OF r(2) cy(2) t] ctl r clock StoreWord show ?thesis by (simp add: cached_ready_def)
  qed
qed

lemma miss_progress:
  assumes "c_ready (c, s) L" and "\<not> hit_check (present c (access_addr q))" and "requests i q" and "c_step (c, s) i d v s'"
  shows "\<not> d \<and> (\<exists>m\<le>2 * bound + 3. c_serving s' q L m)"
proof -
  let ?a = "access_addr q" and ?M = "contents s"
  let ?v = "victim c ?a" and ?x = "addr_index ?a"
  have r: "cache_state c = Hit" "ready s" and inv: "cache_inv c {} {} ?M" and view: "cache_view c {} ?M = L"
    using assms(1) by (simp_all add: cached_ready_def)
  from assms(4) obtain i' ctl t where i': "i' = port_inputs resp rdata s i" and ctl: "settles c i' ctl"
    "d = done_out ctl" "v = cache_rdata c i' ctl" "s' = (cache_clock False c i' ctl, t)" and t: "step s (cache_port c i' ctl) t"
    by (rule cached_step_parts)
  have a: "mem_address i' = ?a" "accessed i'" using requests_accessed [OF assms(3)] i' by simp_all
  note cy = cycle_miss [OF ctl(1) r(1) a(2), unfolded a(1), OF assms(2)]
  let ?s = t
  have s: "ready ?s" "contents ?s = ?M" using idle [OF r(2) cy(2) t] by simp_all
  show ?thesis
  proof (cases "dirty_bits c ?v ?x")
    case True
    let ?c = "c\<lparr>cache_state := Miss_dirty\<rparr>"
    have c': "cache_clock False c i' ctl = ?c" using cy(3) True by simp
    obtain k where k: "k \<le> bound" "serving ?s (write_back_request ?c ?a) ?M k" using accepts [OF s(1)] s(2) by metis
    have "cache_inv ?c {} {victim_entry ?c ?a} ?M" using inv by (auto simp: cache_inv_def)
    moreover have "valid_bits ?c ?v ?x" using cache_invD(2) [OF inv _ True] by simp
    ultimately have "c_serving (?c, ?s) q L (k + bound + 3)"
      using k(2) assms(2) view by (intro writing) (simp_all add: present_fun)
    with k(1) show ?thesis using cy(1) ctl c' by (intro conjI exI [of _ "k + bound + 3"]) simp_all
  next
    case False
    let ?c = "c\<lparr>cache_state := Miss_clean\<rparr>"
    have c': "cache_clock False c i' ctl = ?c" using cy(3) False by simp
    obtain k where k: "k \<le> bound" "serving ?s (refill_request ?a) ?M k" using accepts [OF s(1)] s(2) by metis
    have "\<not> holds_line c {(?v, ?x)} (line_no ?a) w" for w
      using assms(2) by (simp add: hit_check_iff present_holds holds_exclude)
    with forget_clean [OF inv False] have "c_serving (?c, ?s) q L (k + 1)"
      using k(2) False view by (intro refilling) (simp_all add: victim_entry_def)
    with k(1) show ?thesis using cy(1) ctl c' by (intro conjI exI [of _ "k + 1"]) simp_all
  qed
qed

lemma writing_progress:
  assumes "cache_state c = Miss_dirty" and "serving s (write_back_request c (access_addr q)) M k"
    and "valid_bits c (victim c (access_addr q)) (addr_index (access_addr q))"
    and "cache_inv c {} {victim_entry c (access_addr q)} M" and "cache_view c {} M = L"
    and "\<not> hit_check (present c (access_addr q))" and "requests i q" and "c_step (c, s) i d v s'"
  shows "\<not> d \<and> (\<exists>m<k + bound + 3. c_serving s' q L m)"
proof -
  let ?a = "access_addr q"
  let ?v = "victim c ?a" and ?x = "addr_index ?a"
  from assms(8) obtain i' ctl t where i': "i' = port_inputs resp rdata s i" and ctl: "settles c i' ctl"
    "d = done_out ctl" "v = cache_rdata c i' ctl" "s' = (cache_clock False c i' ctl, t)" and t: "step s (cache_port c i' ctl) t"
    by (rule cached_step_parts)
  have a: "mem_address i' = ?a" using requests_accessed [OF assms(7)] i' by simp
  note cy = cycle_writing [OF ctl(1) assms(1), unfolded a]
  have asks: "asks (cache_port c i' ctl) (write_back_request c ?a)"
    using cy by (simp add: write_back_request_def evict_request_def Let_def)
  let ?s = t and ?b = "set_entry ?v ?x False (dirty_bits c)"
  have inv: "cache_inv (c\<lparr>dirty_bits := ?b\<rparr>) {} {(?v, ?x)} M"
    by (rule write_back_start [OF assms(4)]) (simp add: victim_entry_def)
  note pr = progress [OF assms(2) asks t]
  show ?thesis
  proof (cases "resp s")
    case False
    let ?c = "c\<lparr>cache_state := Miss_dirty, dirty_bits := ?b\<rparr>"
    from False pr obtain m where m: "m < k" and p: "\<not> resp s" "serving ?s (write_back_request c ?a) M m" by auto
    then have c': "cache_clock False c i' ctl = ?c" using cy(6) i' by simp
    have "cache_inv ?c {} {victim_entry ?c ?a} M"
      using inv by (simp add: victim_entry_def cache_inv_def fun_eq_iff)
    with p(2) assms(3,5,6) have "c_serving (?c, ?s) q L (m + bound + 3)"
      by (intro writing) (simp_all add: write_back_request_def evict_request_def present_fun)
    with m cy(1) ctl c' show ?thesis by (intro conjI exI [of _ "m + bound + 3"]) simp_all
  next
    case True
    let ?c = "c\<lparr>cache_state := Miss_clean, dirty_bits := ?b\<rparr>"
    let ?M = "M(line_num (tags c ?v ?x) ?x := data_lines c ?v ?x)"
    have s: "ready ?s" "contents ?s = ?M"
      using pr True by (simp_all add: write_back_request_def evict_request_def Let_def line_no_victim)
    have c': "cache_clock False c i' ctl = ?c" using cy(6) i' True by simp
    obtain n where n: "n \<le> bound" "serving ?s (refill_request ?a) ?M n" using accepts [OF s(1)] s(2) by metis
    have b: "valid_bits (c\<lparr>dirty_bits := ?b\<rparr>) ?v ?x" "\<not> dirty_bits (c\<lparr>dirty_bits := ?b\<rparr>) ?v ?x" using assms(3) by simp_all
    note e = write_back_end [OF inv b(1), simplified cache.simps]
    note f = forget_clean [OF e(1) b(2)]
    have "\<not> holds_line c {(?v, ?x)} (line_no ?a) w" for w
      using assms(6) by (simp add: hit_check_iff present_holds holds_exclude)
    with n(2) f e(2) assms(5) have "c_serving (?c, ?s) q L (n + 1)"
      by (intro refilling) (simp_all add: victim_entry_def cache_inv_def fun_eq_iff)
    with n(1) cy(1) ctl c' show ?thesis by (intro conjI exI [of _ "n + 1"]) simp_all
  qed
qed

lemma refilling_progress:
  assumes "cache_state c = Miss_clean" and "serving s (refill_request (access_addr q)) M k"
    and "\<not> dirty_bits c (victim c (access_addr q)) (addr_index (access_addr q))"
    and "cache_inv c {victim_entry c (access_addr q)} {} M" and "cache_view c {victim_entry c (access_addr q)} M = L"
    and "\<And>w. \<not> holds_line c {victim_entry c (access_addr q)} (line_no (access_addr q)) w"
    and "requests i q" and "c_step (c, s) i d v s'"
  shows "\<not> d \<and> (\<exists>m<k + 1. c_serving s' q L m)"
proof -
  let ?a = "access_addr q"
  let ?v = "victim c ?a" and ?x = "addr_index ?a"
  from assms(8) obtain i' ctl t where i': "i' = port_inputs resp rdata s i" and ctl: "settles c i' ctl"
    "d = done_out ctl" "v = cache_rdata c i' ctl" "s' = (cache_clock False c i' ctl, t)" and t: "step s (cache_port c i' ctl) t"
    by (rule cached_step_parts)
  have a: "mem_address i' = ?a" "accessed i'" using requests_accessed [OF assms(7)] i' by simp_all
  note cy = cycle_refill [OF ctl(1) assms(1) a(2), unfolded a(1)]
  have asks: "asks (cache_port c i' ctl) (refill_request ?a)"
    using cy by (simp add: refill_request_def)
  let ?s = t
  let ?f = "c\<lparr>valid_bits := set_entry ?v ?x True (valid_bits c), tags := set_entry ?v ?x (addr_tag ?a) (tags c),
     data_lines := set_entry ?v ?x (rdata s) (data_lines c)\<rparr>"
  note r = refill_step [OF assms(4) [unfolded victim_entry_def], where t = "addr_tag ?a" and d = "rdata s"]
  have none: "\<not> holds_line ?f {(?v, ?x)} (line_no ?a) w" for w
    using assms(6) [of w] by (auto simp: victim_entry_def holds_line_def)
  note pr = progress [OF assms(2) asks t]
  show ?thesis
  proof (cases "resp s")
    case False
    let ?c = "?f\<lparr>cache_state := Miss_clean\<rparr>"
    from False pr obtain m where m: "m < k" and p: "\<not> resp s" "serving ?s (refill_request ?a) M m" by auto
    have c': "cache_clock False c i' ctl = ?c" using cy(5) i' p by simp
    have "c_serving (?c, ?s) q L (m + 1)"
      by (rule refilling) (use p(2) r none assms(3,5) in \<open>simp_all add: victim_entry_def\<close>)
    with m cy(1) ctl c' show ?thesis by (intro conjI exI [of _ "m + 1"]) simp_all
  next
    case True
    let ?c = "?f\<lparr>cache_state := Hit\<rparr>"
    have s: "ready ?s" "contents ?s = M" "rdata s = M (line_no ?a)"
      using pr True by (simp_all add: refill_request_def line_no_aligned)
    have c': "cache_clock False c i' ctl = ?c" using cy(5) i' True by simp
    have line: "line_num (tags ?f ?v ?x) ?x = line_no ?a" by (simp add: line_no_addr)
    have "cache_inv ?f {} {} M" "cache_view ?f {} M = cache_view ?f {(?v, ?x)} M"
      by (rule refill_end [OF r(1)]; use assms(3) s(3) none in \<open>simp add: line_no_addr\<close>)+
    then have "c_ready (?c, ?s) L" using s(1,2) r(2) assms(5) by (simp add: cached_ready_def victim_entry_def)
    moreover have "hit_check (present ?c ?a)" unfolding hit_check_iff by (intro exI [of _ ?v]) (simp add: present_def)
    ultimately have "c_serving (?c, ?s) q L 0" by (rule hit)
    with cy(1) ctl c' show ?thesis by (intro conjI exI [of _ 0]) simp_all
  qed
qed

theorem cached_port: "word_port c_step c_ready c_serving (2 * bound + 4)"
proof
  show "\<exists>i. requests i q" for q by (rule requests_held)
  show "\<exists>d v s'. c_step x i d v s'" for x i
  proof (cases x)
    case (Pair c s)
    obtain ctl where "settles c (port_inputs resp rdata s i) ctl" using cycle_settles by blast
    moreover obtain s' where "step s (cache_port c (port_inputs resp rdata s i) ctl) s'" using continues by blast
    ultimately show ?thesis using cached_step.cycle [where step = step and resp = resp and rdata = rdata, OF refl] Pair by blast
  qed
  show "\<not> d \<and> c_ready s' L" if "c_ready x L" "\<not> accessed i" "c_step x i d v s'" for x L i d v s'
  proof (cases x)
    case (Pair c s)
    with that(3) obtain i' ctl t where i': "i' = port_inputs resp rdata s i" and ctl: "settles c i' ctl" "d = done_out ctl"
      "v = cache_rdata c i' ctl" "s' = (cache_clock False c i' ctl, t)" and t: "step s (cache_port c i' ctl) t"
      by (auto elim: cached_step_parts)
    have r: "cache_state c = Hit" "ready s" using that(1) Pair by (simp_all add: cached_ready_def)
    have "\<not> accessed i'" using that(2) i' by simp
    from cycle_idle [OF ctl(1) r(1) this] idle [OF r(2) _ t] that(1) Pair ctl
    show ?thesis by (simp add: cached_ready_def)
  qed
  show "\<exists>n\<le>2 * bound + 4. c_serving x q L n" if "c_ready x L" for x L q
    using that by (cases x) (auto intro: asked)
  show "if d then answer q L v \<and> c_ready s' (access_effect q L) else \<exists>m<n. c_serving s' q L m"
    if "c_serving x q L n" "requests i q" "c_step x i d v s'" for x q L n i d v s'
    using that(1)
  proof (cases rule: cached_serving.cases)
    case (hit c s)
    with hit_progress that show ?thesis by metis
  next
    case (asked c s)
    show ?thesis
    proof (cases "hit_check (present c (access_addr q))")
      case True
      with hit_progress asked that show ?thesis by metis
    next
      case False
      have "c_step (c, s) i d v s'" using that(3) asked(1) by simp
      from miss_progress [OF asked(2) False that(2) this]
      obtain m where "\<not> d" "m \<le> 2 * bound + 3" "c_serving s' q L m" by blast
      with asked(3) show ?thesis by (auto intro!: exI [of _ m])
    qed
  next
    case (writing c s M k)
    have "c_step (c, s) i d v s'" using that(3) writing(1) by simp
    from writing_progress [OF writing(3-8) that(2) this] writing(2) show ?thesis by auto
  next
    case (refilling c s M k)
    have "c_step (c, s) i d v s'" using that(3) refilling(1) by simp
    from refilling_progress [OF refilling(3-8) that(2) this] refilling(2) show ?thesis by auto
  qed
qed

end

end
