(* ===== verification/Arbiter.thy ===== *)
theory Arbiter
  imports Line_Port
begin

text \<open>
  \<open>hdl/memory/arbiter.sv\<close>: the arbiter that shares one line port between the instruction cache,
  which only reads, and the data cache, which has priority. First the module itself, then its
  connection to any provider of the line port below it.
\<close>

section \<open>The module\<close>

datatype arb_state = IDLE | I_CACHE_ALLOW | D_CACHE_ALLOW

record arb_in =
  i_cache_read :: bool
  i_cache_address :: u32
  d_cache_read :: bool
  d_cache_write :: bool
  d_cache_address :: u32
  d_cache_wdata :: line
  next_level_arb_mem_resp :: bool
  next_level_arb_rdata :: line

record arb_out =
  i_cache_mem_resp :: bool
  i_cache_rdata :: line
  d_cache_mem_resp :: bool
  d_cache_rdata :: line
  arb_next_level_address :: u32
  arb_next_level_read :: bool
  arb_next_level_write :: bool
  arb_next_level_wdata :: line

definition arb_defaults :: arb_out where
  "arb_defaults = \<lparr> i_cache_mem_resp = False, i_cache_rdata = 0, d_cache_mem_resp = False, d_cache_rdata = 0,
     arb_next_level_address = 0, arb_next_level_read = False, arb_next_level_write = False, arb_next_level_wdata = 0 \<rparr>"

fun state_actions :: "arb_state \<Rightarrow> arb_in \<Rightarrow> arb_out" where
  "state_actions IDLE i = arb_defaults"
| "state_actions D_CACHE_ALLOW i =
     (let d = arb_defaults\<lparr>arb_next_level_address := d_cache_address i\<rparr>;
          d = (if d_cache_read i then d\<lparr>arb_next_level_read := True, arb_next_level_write := False\<rparr>
               else if d_cache_write i
               then d\<lparr>arb_next_level_write := True, arb_next_level_read := False, arb_next_level_wdata := d_cache_wdata i\<rparr>
               else d)
      in if next_level_arb_mem_resp i then d\<lparr>d_cache_mem_resp := True, d_cache_rdata := next_level_arb_rdata i\<rparr> else d)"
| "state_actions I_CACHE_ALLOW i =
     (let d = arb_defaults\<lparr>arb_next_level_address := i_cache_address i, arb_next_level_read := True, arb_next_level_write := False\<rparr>
      in if next_level_arb_mem_resp i then d\<lparr>i_cache_mem_resp := True, i_cache_rdata := next_level_arb_rdata i\<rparr> else d)"

definition d_cache_req :: "arb_in \<Rightarrow> bool" where
  "d_cache_req i = (d_cache_read i \<or> d_cache_write i)"

definition i_cache_req :: "arb_in \<Rightarrow> bool" where
  "i_cache_req i = i_cache_read i"

fun arb_next_state :: "arb_state \<Rightarrow> arb_in \<Rightarrow> arb_state" where
  "arb_next_state IDLE i =
     (if d_cache_req i then D_CACHE_ALLOW
      else if i_cache_req i \<and> \<not> d_cache_req i then I_CACHE_ALLOW
      else IDLE)"
| "arb_next_state D_CACHE_ALLOW i = (if \<not> next_level_arb_mem_resp i then D_CACHE_ALLOW else IDLE)"
| "arb_next_state I_CACHE_ALLOW i = (if \<not> next_level_arb_mem_resp i then I_CACHE_ALLOW else IDLE)"

definition arb_step :: "bool \<Rightarrow> arb_state \<Rightarrow> arb_in \<Rightarrow> arb_state" where
  "arb_step rst st i = (if rst then IDLE else arb_next_state st i)"

section \<open>Exclusion and routing\<close>

lemma idle_silent [simp]:
  "\<not> d_cache_mem_resp (state_actions IDLE i)" "\<not> i_cache_mem_resp (state_actions IDLE i)"
  by (simp_all add: arb_defaults_def)

lemma responses:
  "d_cache_mem_resp (state_actions st i) \<longleftrightarrow> st = D_CACHE_ALLOW \<and> next_level_arb_mem_resp i"
  "i_cache_mem_resp (state_actions st i) \<longleftrightarrow> st = I_CACHE_ALLOW \<and> next_level_arb_mem_resp i"
  by (cases st; simp add: arb_defaults_def Let_def)+

text \<open>The requests the caches make, as the port above the arbiter sees them.\<close>

definition i_request :: "arb_in \<Rightarrow> port_in" where
  "i_request i = \<lparr> p_read = True, p_write = False, p_address = i_cache_address i, p_wdata = 0 \<rparr>"

definition d_request :: "arb_in \<Rightarrow> port_in" where
  "d_request i =
     (if d_cache_read i then \<lparr> p_read = True, p_write = False, p_address = d_cache_address i, p_wdata = 0 \<rparr>
      else if d_cache_write i
      then \<lparr> p_read = False, p_write = True, p_address = d_cache_address i, p_wdata = d_cache_wdata i \<rparr>
      else \<lparr> p_read = False, p_write = False, p_address = d_cache_address i, p_wdata = 0 \<rparr>)"

definition no_request :: port_in where
  "no_request = \<lparr> p_read = False, p_write = False, p_address = 0, p_wdata = 0 \<rparr>"

definition next_level :: "arb_out \<Rightarrow> port_in" where
  "next_level d = \<lparr> p_read = arb_next_level_read d, p_write = arb_next_level_write d,
     p_address = arb_next_level_address d, p_wdata = arb_next_level_wdata d \<rparr>"

lemma next_level_request:
  "next_level (state_actions st i) =
     (case st of IDLE \<Rightarrow> no_request | I_CACHE_ALLOW \<Rightarrow> i_request i | D_CACHE_ALLOW \<Rightarrow> d_request i)"
  by (cases st) (simp_all add: next_level_def no_request_def i_request_def d_request_def arb_defaults_def Let_def)

text \<open>
  The arbiter keeps the caches apart. Whatever the inputs: the port below carries exactly the
  request of the cache in service, and none when no cache is; it never reads and writes at once;
  at most one cache gets a response, the one in service, in the cycle the level below responds
  and with its data, the other gets zeros; a cache in service stays so until the response and
  the arbiter is idle after it; and the instruction cache is only taken into service when the
  data cache asks for nothing.
\<close>

theorem arbiter_exclusive:
  "next_level (state_actions st i) =
     (case st of IDLE \<Rightarrow> no_request | I_CACHE_ALLOW \<Rightarrow> i_request i | D_CACHE_ALLOW \<Rightarrow> d_request i)
   \<and> \<not> (arb_next_level_read (state_actions st i) \<and> arb_next_level_write (state_actions st i))
   \<and> \<not> (i_cache_mem_resp (state_actions st i) \<and> d_cache_mem_resp (state_actions st i))
   \<and> (i_cache_mem_resp (state_actions st i) \<longleftrightarrow> st = I_CACHE_ALLOW \<and> next_level_arb_mem_resp i)
   \<and> (d_cache_mem_resp (state_actions st i) \<longleftrightarrow> st = D_CACHE_ALLOW \<and> next_level_arb_mem_resp i)
   \<and> i_cache_rdata (state_actions st i) = (if i_cache_mem_resp (state_actions st i) then next_level_arb_rdata i else 0)
   \<and> d_cache_rdata (state_actions st i) = (if d_cache_mem_resp (state_actions st i) then next_level_arb_rdata i else 0)
   \<and> (arb_step False st i = I_CACHE_ALLOW \<longleftrightarrow>
        (case st of IDLE \<Rightarrow> i_cache_read i \<and> \<not> d_cache_read i \<and> \<not> d_cache_write i
           | I_CACHE_ALLOW \<Rightarrow> \<not> next_level_arb_mem_resp i | D_CACHE_ALLOW \<Rightarrow> False))
   \<and> (arb_step False st i = D_CACHE_ALLOW \<longleftrightarrow>
        (case st of IDLE \<Rightarrow> d_cache_read i \<or> d_cache_write i
           | I_CACHE_ALLOW \<Rightarrow> False | D_CACHE_ALLOW \<Rightarrow> \<not> next_level_arb_mem_resp i))"
  unfolding next_level_request
  by (cases st)
    (auto simp: arb_defaults_def Let_def arb_step_def d_cache_req_def i_cache_req_def)

end
