(* ===== verification/Cacheline_Adaptor.thy ===== *)
theory Cacheline_Adaptor
  imports Line_Port
begin

text \<open>
  \<open>hdl/memory/cacheline_adaptor.sv\<close>: the adaptor between the 256-bit lines of the caches and
  the 64-bit bursts of the memory, with its state machine \<open>f_s_m\<close>. Combinational blocks are
  functions of the state and the inputs of a cycle, an \<open>always_ff\<close> block is the function from
  the state of a cycle to that of the next; a signal a combinational block does not assign in
  every branch is a latch, kept in the state with the value it settled to in the last cycle.
\<close>

section \<open>The state machine\<close>

datatype fsm_state = RESET | R1 | R2 | R3 | R4 | W1 | W2 | W3 | W4 | FINISHED

fun fsm_next :: "fsm_state \<Rightarrow> bool \<Rightarrow> bool \<Rightarrow> bool \<Rightarrow> fsm_state" where
  "fsm_next RESET read_i write_i resp_i =
     (if read_i \<and> write_i then RESET else if read_i then R1 else if write_i then W1 else RESET)"
| "fsm_next R1 read_i write_i resp_i = (if resp_i then R2 else R1)"
| "fsm_next R2 read_i write_i resp_i = (if resp_i then R3 else R2)"
| "fsm_next R3 read_i write_i resp_i = (if resp_i then R4 else R3)"
| "fsm_next R4 read_i write_i resp_i = (if resp_i then FINISHED else R4)"
| "fsm_next W1 read_i write_i resp_i = (if resp_i then W2 else W1)"
| "fsm_next W2 read_i write_i resp_i = (if resp_i then W3 else W2)"
| "fsm_next W3 read_i write_i resp_i = (if resp_i then W4 else W3)"
| "fsm_next W4 read_i write_i resp_i = (if resp_i then FINISHED else W4)"
| "fsm_next FINISHED read_i write_i resp_i = RESET"

text \<open>\<open>read_mux\<close> and \<open>write_mux\<close> are latches: only the states that use them assign them.\<close>

record fsm_out =
  read_mux :: "2 word"
  write_mux :: "2 word"
  read_o :: bool
  write_o :: bool
  resp_o :: bool
  read_signal :: bool
  write_signal :: bool
  out_signal :: bool

definition fsm_outputs :: "2 word \<Rightarrow> 2 word \<Rightarrow> fsm_state \<Rightarrow> fsm_out" where
  "fsm_outputs held_read held_write st =
     (let d = \<lparr> read_mux = held_read, write_mux = held_write, read_o = False, write_o = False, resp_o = False,
                read_signal = False, write_signal = False, out_signal = False \<rparr>;
          reading = (\<lambda>m. d\<lparr>read_o := True, read_mux := m, read_signal := True\<rparr>);
          writing = (\<lambda>m. d\<lparr>write_o := True, write_mux := m, write_signal := True\<rparr>)
      in case st of
           RESET \<Rightarrow> d\<lparr>out_signal := True\<rparr>
         | R1 \<Rightarrow> reading 0 | R2 \<Rightarrow> reading 1 | R3 \<Rightarrow> reading 2 | R4 \<Rightarrow> reading 3
         | W1 \<Rightarrow> writing 0 | W2 \<Rightarrow> writing 1 | W3 \<Rightarrow> writing 2 | W4 \<Rightarrow> writing 3
         | FINISHED \<Rightarrow> d\<lparr>resp_o := True\<rparr>)"

section \<open>The adaptor\<close>

record adaptor =
  curr_state :: fsm_state
  value_read :: line
  read_mux_held :: "2 word"
  write_mux_held :: "2 word"
  address_o :: u32

definition adaptor_fsm :: "adaptor \<Rightarrow> fsm_out" where
  "adaptor_fsm a = fsm_outputs (read_mux_held a) (write_mux_held a) (curr_state a)"

definition line_o :: "adaptor \<Rightarrow> u64 \<Rightarrow> line" where
  "line_o a burst_i =
     (let f = adaptor_fsm a
      in if read_signal f then put_burst (unat (read_mux f)) burst_i (value_read a) else value_read a)"

definition burst_o :: "adaptor \<Rightarrow> line \<Rightarrow> u64" where
  "burst_o a line_i = take_burst (unat (write_mux (adaptor_fsm a))) line_i"

definition adaptor_step :: "bool \<Rightarrow> bool \<Rightarrow> bool \<Rightarrow> u32 \<Rightarrow> bool \<Rightarrow> u64 \<Rightarrow> adaptor \<Rightarrow> adaptor" where
  "adaptor_step reset_n read_i write_i address_i resp_i burst_i a =
     (let f = adaptor_fsm a in
      \<lparr> curr_state = (if \<not> reset_n then RESET else fsm_next (curr_state a) read_i write_i resp_i),
        value_read = line_o a burst_i, read_mux_held = read_mux f, write_mux_held = write_mux f,
        address_o = (if out_signal f then address_i else address_o a) \<rparr>)"

section \<open>What the states drive\<close>

fun state_mux :: "fsm_state \<Rightarrow> nat" where
  "state_mux R2 = 1" | "state_mux R3 = 2" | "state_mux R4 = 3"
| "state_mux W2 = 1" | "state_mux W3 = 2" | "state_mux W4 = 3" | "state_mux _ = 0"

definition reads :: "fsm_state \<Rightarrow> bool" where
  "reads s \<longleftrightarrow> s \<in> {R1, R2, R3, R4}"

definition writes_to :: "fsm_state \<Rightarrow> bool" where
  "writes_to s \<longleftrightarrow> s \<in> {W1, W2, W3, W4}"

lemma fsm_signals [simp]:
  "read_o (adaptor_fsm a) \<longleftrightarrow> reads (curr_state a)" "write_o (adaptor_fsm a) \<longleftrightarrow> writes_to (curr_state a)"
  "resp_o (adaptor_fsm a) \<longleftrightarrow> curr_state a = FINISHED" "out_signal (adaptor_fsm a) \<longleftrightarrow> curr_state a = RESET"
  "read_signal (adaptor_fsm a) \<longleftrightarrow> reads (curr_state a)" "write_signal (adaptor_fsm a) \<longleftrightarrow> writes_to (curr_state a)"
  by (cases "curr_state a"; simp add: adaptor_fsm_def fsm_outputs_def reads_def writes_to_def Let_def)+

lemma mux_signals:
  "reads (curr_state a) \<Longrightarrow> unat (read_mux (adaptor_fsm a)) = state_mux (curr_state a)"
  "writes_to (curr_state a) \<Longrightarrow> unat (write_mux (adaptor_fsm a)) = state_mux (curr_state a)"
  by (cases "curr_state a"; simp add: adaptor_fsm_def fsm_outputs_def reads_def writes_to_def Let_def)+

lemma adaptor_step_simps [simp]:
  "curr_state (adaptor_step True rd wr ad rs b a) = fsm_next (curr_state a) rd wr rs"
  "value_read (adaptor_step n rd wr ad rs b a) = line_o a b"
  "address_o (adaptor_step n rd wr ad rs b a) = (if curr_state a = RESET then ad else address_o a)"
  by (simp_all add: adaptor_step_def Let_def)

lemma line_o_eq: "line_o a b = (if reads (curr_state a) then put_burst (state_mux (curr_state a)) b (value_read a) else value_read a)"
  by (simp add: line_o_def mux_signals)

lemma burst_o_eq: "writes_to (curr_state a) \<Longrightarrow> burst_o a w = take_burst (state_mux (curr_state a)) w"
  by (simp add: burst_o_def mux_signals)

end
