(* ===== verification/Burst_Memory.thy ===== *)
theory Burst_Memory
  imports Line_Port
begin

text \<open>
  \<open>hvl/param_memory.sv\<close>: the burst memory behind the processor, as \<open>hvl/source_tb.sv\<close>
  instantiates it (four bursts of 64 bits per line of 256, pages of 512 bytes). Its process
  waits for a request at a clock edge, waits out the delay of the page, transfers one burst per
  cycle and checks all the time that the request is held; here each wait is a phase of a state
  machine stepped by the clock. Signals driven through the clocking block are registers: they
  are seen in the cycle after the edge that drives them.

  A failed check stops the transfer and sets the error flag. The process that checks and the
  one that transfers wake at the same edge, and the model lets the check go first.
\<close>

section \<open>Parameters\<close>

text \<open>\<open>$ceil(500 / PERIOD_NS)\<close> at 218.3 MHz, and half of it for a page hit.\<close>

definition DELAY_MEM :: nat where "DELAY_MEM = 110"
definition DELAY_PAGE_HIT :: nat where "DELAY_PAGE_HIT = 55"
definition BURST_LEN :: nat where "BURST_LEN = 4"
definition PAGE_SIZE :: u32 where "PAGE_SIZE = 512"

section \<open>State\<close>

datatype transfer = Reading | Writing

text \<open>Waiting for a request, waiting for \<open>n\<close> more edges, or driving burst \<open>i\<close>.\<close>

datatype phase = Idle | Waiting transfer u32 nat | Bursting transfer u32 nat

record burst_memory =
  mem_lines :: lines
  pageno :: int
  mem_phase :: phase
  mem_resp :: bool
  mem_rdata :: u64
  mem_error :: bool

text \<open>\<open>(addr & mask) / 32\<close>, the index of the line.\<close>

definition read_loc :: "u32 \<Rightarrow> u32" where
  "read_loc addr = (addr AND 0xFFFFFFE0) div 32"

definition page_of :: "u32 \<Rightarrow> int" where
  "page_of addr = uint (addr div PAGE_SIZE)"

definition request_delay :: "burst_memory \<Rightarrow> u32 \<Rightarrow> nat" where
  "request_delay m addr = (if page_of addr = pageno m then DELAY_PAGE_HIT else DELAY_MEM)"

section \<open>Operations\<close>

text \<open>The contents loaded by \<open>$readmemh\<close> are a parameter.\<close>

definition memory_reset :: "lines \<Rightarrow> burst_memory \<Rightarrow> burst_memory" where
  "memory_reset img m = (if pageno m = - 1 then m else m\<lparr>mem_lines := img, pageno := - 1\<rparr>)"

fun drive_burst :: "transfer \<Rightarrow> u32 \<Rightarrow> nat \<Rightarrow> burst_memory \<Rightarrow> burst_memory" where
  "drive_burst Reading addr i m =
     m\<lparr>mem_rdata := take_burst i (mem_lines m (read_loc addr)), mem_resp := True, mem_phase := Bursting Reading addr i\<rparr>"
| "drive_burst Writing addr i m = m\<lparr>mem_resp := True, mem_phase := Bursting Writing addr i\<rparr>"

fun wait_cycles :: "transfer \<Rightarrow> u32 \<Rightarrow> nat \<Rightarrow> burst_memory \<Rightarrow> burst_memory" where
  "wait_cycles t addr 0 m = drive_burst t addr 0 m"
| "wait_cycles t addr (Suc n) m = m\<lparr>mem_phase := Waiting t addr (Suc n)\<rparr>"

definition memaccess :: "transfer \<Rightarrow> u32 \<Rightarrow> burst_memory \<Rightarrow> burst_memory" where
  "memaccess t addr m = wait_cycles t addr (request_delay m addr) (m\<lparr>pageno := page_of addr\<rparr>)"

fun steady :: "transfer \<Rightarrow> u32 \<Rightarrow> bool \<Rightarrow> bool \<Rightarrow> u32 \<Rightarrow> bool" where
  "steady Reading a rd wr addr = (rd \<and> \<not> wr \<and> addr = a)"
| "steady Writing a rd wr addr = (wr \<and> \<not> rd \<and> addr = a)"

fun end_burst :: "transfer \<Rightarrow> u32 \<Rightarrow> nat \<Rightarrow> u64 \<Rightarrow> burst_memory \<Rightarrow> burst_memory" where
  "end_burst Reading a i wdata m = m"
| "end_burst Writing a i wdata m =
     m\<lparr>mem_lines := (mem_lines m)(read_loc a := put_burst i wdata (mem_lines m (read_loc a)))\<rparr>"

definition memory_step :: "lines \<Rightarrow> bool \<Rightarrow> bool \<Rightarrow> bool \<Rightarrow> u32 \<Rightarrow> u64 \<Rightarrow> burst_memory \<Rightarrow> burst_memory" where
  "memory_step img rst rd wr addr wdata m =
     (case mem_phase m of
        Idle \<Rightarrow>
          if rst then memory_reset img m
          else if rd \<and> \<not> wr then memaccess Reading addr m
          else if wr \<and> \<not> rd then memaccess Writing addr m
          else m
      | Waiting t a n \<Rightarrow>
          if \<not> steady t a rd wr addr then m\<lparr>mem_error := True, mem_phase := Idle\<rparr>
          else wait_cycles t a (n - 1) m
      | Bursting t a i \<Rightarrow>
          if \<not> steady t a rd wr addr then m\<lparr>mem_error := True, mem_phase := Idle\<rparr>
          else let m = end_burst t a i wdata m
               in if i + 1 < BURST_LEN then drive_burst t a (i + 1) m
                  else m\<lparr>mem_resp := False, mem_phase := Idle\<rparr>)"

lemma drop_bit_and_not_mask: "drop_bit n (a AND NOT (mask n)) = drop_bit n a" for a :: "'a::len word"
  by (rule bit_word_eqI) (auto simp: bit_drop_bit_eq bit_and_iff bit_not_iff bit_mask_iff dest: bit_imp_le_length)

lemma read_loc_line_no: "read_loc a = line_no a"
proof -
  have mask: "(0xFFFFFFE0 :: u32) = NOT (mask 5)" by (simp add: mask_eq_exp_minus_1)
  have "x div 32 = drop_bit 5 x" for x :: u32 by (simp add: drop_bit_eq_div)
  then show ?thesis unfolding read_loc_def line_no_def mask by (simp only: drop_bit_and_not_mask)
qed

end
