(* ===== verification/Memory_Path.thy ===== *)
theory Memory_Path
  imports Cacheline_Adaptor Burst_Memory
begin

text \<open>
  The cacheline adaptor with the burst memory behind it, connected as \<open>hvl/top.sv\<close> connects the
  memory ports: the pair is a provider of the line port. A line read is the one in memory,
  assembled of four bursts; a line written arrives in memory whole, and no other line changes;
  every request is answered, and the memory never reports a protocol error.
\<close>

section \<open>The pair\<close>

type_synonym path = "adaptor \<times> burst_memory"

fun path_step :: "path \<Rightarrow> port_in \<Rightarrow> path" where
  "path_step (a, m) p =
     (adaptor_step True (p_read p) (p_write p) (p_address p) (mem_resp m) (mem_rdata m) a,
      memory_step (\<lambda>_. 0) False (read_o (adaptor_fsm a)) (write_o (adaptor_fsm a)) (address_o a)
        (burst_o a (p_wdata p)) m)"

fun path_resp :: "path \<Rightarrow> bool" where
  "path_resp (a, m) = resp_o (adaptor_fsm a)"

fun path_rdata :: "path \<Rightarrow> line" where
  "path_rdata (a, m) = line_o a (mem_rdata m)"

fun path_contents :: "path \<Rightarrow> lines" where
  "path_contents (a, m) = mem_lines m"

fun path_ready :: "path \<Rightarrow> bool" where
  "path_ready (a, m) \<longleftrightarrow> curr_state a = RESET \<and> mem_phase m = Idle \<and> \<not> mem_resp m \<and> \<not> mem_error m"

section \<open>The progress of a request\<close>

fun transfer_of :: "request \<Rightarrow> transfer" where
  "transfer_of (ReadLine a) = Reading" | "transfer_of (WriteLine a w) = Writing"

fun burst_state :: "transfer \<Rightarrow> nat \<Rightarrow> fsm_state" where
  "burst_state Reading i = [R1, R2, R3, R4] ! i" | "burst_state Writing i = [W1, W2, W3, W4] ! i"

text \<open>Of \<open>v\<close> the first \<open>i\<close> bursts are those of \<open>w\<close>.\<close>

definition first_bursts :: "nat \<Rightarrow> line \<Rightarrow> line \<Rightarrow> bool" where
  "first_bursts i v w \<longleftrightarrow> (\<forall>j<i. take_burst j v = take_burst j w)"

text \<open>After \<open>i\<close> bursts: what the adaptor holds, and what the memory does.\<close>

fun bursts_done :: "request \<Rightarrow> lines \<Rightarrow> nat \<Rightarrow> path \<Rightarrow> bool" where
  "bursts_done (ReadLine a) L i (ad, m) \<longleftrightarrow> mem_lines m = L \<and> first_bursts i (value_read ad) (L (line_no a))"
| "bursts_done (WriteLine a w) L i (ad, m) \<longleftrightarrow>
     first_bursts i (mem_lines m (line_no a)) w \<and> (\<forall>l. l \<noteq> line_no a \<longrightarrow> mem_lines m l = L l)"

inductive path_serving :: "path \<Rightarrow> request \<Rightarrow> lines \<Rightarrow> nat \<Rightarrow> bool" where
  start: "path_ready (a, m) \<Longrightarrow> path_serving (a, m) r (mem_lines m) (request_delay m (req_addr r) + 6)"
| asked: "curr_state a = burst_state (transfer_of r) 0 \<Longrightarrow> address_o a = req_addr r \<Longrightarrow> mem_phase m = Idle \<Longrightarrow>
    \<not> mem_resp m \<Longrightarrow> \<not> mem_error m \<Longrightarrow> path_serving (a, m) r (mem_lines m) (request_delay m (req_addr r) + 5)"
| waits: "curr_state a = burst_state (transfer_of r) 0 \<Longrightarrow> address_o a = req_addr r \<Longrightarrow> 
    mem_phase m = Waiting (transfer_of r) (req_addr r) (Suc k) \<Longrightarrow> \<not> mem_resp m \<Longrightarrow> \<not> mem_error m \<Longrightarrow>
    path_serving (a, m) r (mem_lines m) (k + 5)"
| burst: "curr_state a = burst_state (transfer_of r) i \<Longrightarrow> address_o a = req_addr r \<Longrightarrow> i < 4 \<Longrightarrow>
    mem_phase m = Bursting (transfer_of r) (req_addr r) i \<Longrightarrow> mem_resp m \<Longrightarrow> \<not> mem_error m \<Longrightarrow>
    (\<And>b. r = ReadLine b \<Longrightarrow> mem_rdata m = take_burst i (L (line_no b))) \<Longrightarrow> bursts_done r L i (a, m) \<Longrightarrow>
    path_serving (a, m) r L (4 - i)"
| finished: "curr_state a = FINISHED \<Longrightarrow> mem_phase m = Idle \<Longrightarrow> \<not> mem_resp m \<Longrightarrow> \<not> mem_error m \<Longrightarrow>
    bursts_done r L 4 (a, m) \<Longrightarrow> path_serving (a, m) r L 0"

lemma first_bursts_Suc:
  "i < 4 \<Longrightarrow> first_bursts i v w \<Longrightarrow> first_bursts (Suc i) (put_burst i (take_burst i w) v) w"
  by (simp add: first_bursts_def take_put_burst less_Suc_eq)

lemma first_bursts_all: "first_bursts 4 v w \<Longrightarrow> v = w"
  by (rule line_eq_bursts) (simp add: first_bursts_def)

lemma first_bursts_0 [simp]: "first_bursts 0 v w"
  by (simp add: first_bursts_def)

lemma burst_state_facts:
  assumes "i < 4"
  shows "reads (burst_state t i) \<longleftrightarrow> t = Reading" "writes_to (burst_state t i) \<longleftrightarrow> t = Writing"
    "burst_state t i \<noteq> RESET" "burst_state t i \<noteq> FINISHED" "state_mux (burst_state t i) = i"
    "fsm_next (burst_state t i) rd wr False = burst_state t i"
    "fsm_next (burst_state t i) rd wr True = (if i = 3 then FINISHED else burst_state t (Suc i))"
proof -
  have "i \<in> {0, 1, 2, 3}" using assms by auto
  then show "reads (burst_state t i) \<longleftrightarrow> t = Reading" "writes_to (burst_state t i) \<longleftrightarrow> t = Writing"
    "burst_state t i \<noteq> RESET" "burst_state t i \<noteq> FINISHED" "state_mux (burst_state t i) = i"
    "fsm_next (burst_state t i) rd wr False = burst_state t i"
    "fsm_next (burst_state t i) rd wr True = (if i = 3 then FINISHED else burst_state t (Suc i))"
    by (cases t; auto simp: reads_def writes_to_def eval_nat_numeral)+
qed

declare burst_state.simps [simp del]

lemma steady_request:
  "i < 4 \<Longrightarrow> curr_state a = burst_state (transfer_of r) i \<Longrightarrow> address_o a = req_addr r \<Longrightarrow>
    steady (transfer_of r) (req_addr r) (read_o (adaptor_fsm a)) (write_o (adaptor_fsm a)) (address_o a)"
  by (cases r) (simp_all add: burst_state_facts)

section \<open>The pair implements the line port\<close>

lemma path_idle:
  assumes "path_ready s" and "quiet i"
  shows "path_ready (path_step s i) \<and> path_contents (path_step s i) = path_contents s"
  using assms by (cases s) (simp add: quiet_def memory_step_def reads_def writes_to_def)

lemma path_progress_start:
  assumes "path_ready (a, m)" and "asks i r"
  shows "path_serving (path_step (a, m) i) r (mem_lines m) (request_delay m (req_addr r) + 5)"
proof -
  obtain a' m' where s': "path_step (a, m) i = (a', m')" by (cases "path_step (a, m) i")
  have "m' = m" using s' assms by (auto simp: memory_step_def reads_def writes_to_def)
  moreover have "curr_state a' = burst_state (transfer_of r) 0" "address_o a' = req_addr r"
    using s' assms by (cases r; auto simp: burst_state.simps)+
  ultimately show ?thesis using s' assms path_serving.asked [of a' r m'] by simp
qed

lemma path_progress_asked:
  assumes "curr_state a = burst_state (transfer_of r) 0" and "address_o a = req_addr r" and "mem_phase m = Idle"
    and "\<not> mem_resp m" and "\<not> mem_error m" 
  shows "path_serving (path_step (a, m) i) r (mem_lines m) (request_delay m (req_addr r) + 4)"
proof -
  obtain a' m' where s': "path_step (a, m) i = (a', m')" by (cases "path_step (a, m) i")
  have a': "curr_state a' = burst_state (transfer_of r) 0" "address_o a' = req_addr r"
    using s' assms by (auto simp: burst_state_facts)
  have m': "m' = memaccess (transfer_of r) (req_addr r) m"
    using s' assms by (cases r) (auto simp: memory_step_def burst_state_facts)
  show ?thesis
  proof (cases "request_delay m (req_addr r)")
    case 0
    with a' m' assms have "path_serving (a', m') r (mem_lines m) (4 - 0)"
      by (intro path_serving.burst) (cases r; simp add: memaccess_def read_loc_line_no)+
    with s' 0 show ?thesis by simp
  next
    case (Suc k)
    with a' m' assms have "path_serving (a', m') r (mem_lines m') (k + 5)"
      by (intro path_serving.waits) (simp_all add: memaccess_def)
    moreover have "mem_lines m' = mem_lines m" using Suc m' by (simp add: memaccess_def)
    ultimately show ?thesis using s' Suc by (simp add: add.commute)
  qed
qed

lemma path_progress_waits:
  assumes "curr_state a = burst_state (transfer_of r) 0" and "address_o a = req_addr r"
    and "mem_phase m = Waiting (transfer_of r) (req_addr r) (Suc k)" and "\<not> mem_resp m" and "\<not> mem_error m"
  shows "path_serving (path_step (a, m) i) r (mem_lines m) (k + 4)"
proof -
  obtain a' m' where s': "path_step (a, m) i = (a', m')" by (cases "path_step (a, m) i")
  have a': "curr_state a' = burst_state (transfer_of r) 0" "address_o a' = req_addr r"
    using s' assms by (auto simp: burst_state_facts)
  have m': "m' = wait_cycles (transfer_of r) (req_addr r) k m"
    using s' assms steady_request [OF _ assms(1,2)] by (auto simp: memory_step_def)
  show ?thesis
  proof (cases k)
    case 0
    with a' m' assms have "path_serving (a', m') r (mem_lines m) (4 - 0)"
      by (intro path_serving.burst) (cases r; simp add: read_loc_line_no)+
    with s' 0 show ?thesis by simp
  next
    case (Suc j)
    with a' m' assms have "path_serving (a', m') r (mem_lines m') (j + 5)"
      by (intro path_serving.waits) simp_all
    moreover have "mem_lines m' = mem_lines m" using Suc m' by simp
    ultimately show ?thesis using s' Suc by (simp add: add.commute)
  qed
qed

lemma bursts_done_step:
  assumes "bursts_done r L i (a, m)" and "i < 4" and "asks p r"
    and "curr_state a = burst_state (transfer_of r) i" and "\<And>b. r = ReadLine b \<Longrightarrow> mem_rdata m = take_burst i (L (line_no b))"
    and "value_read a' = line_o a (mem_rdata m)"
    and "mem_lines m' = mem_lines (end_burst (transfer_of r) (req_addr r) i (burst_o a (p_wdata p)) m)"
  shows "bursts_done r L (Suc i) (a', m')"
proof (cases r)
  case (ReadLine b)
  with assms show ?thesis by (simp add: line_o_eq burst_state_facts first_bursts_Suc)
next
  case (WriteLine b w)
  with assms have "burst_o a (p_wdata p) = take_burst i w" by (simp add: burst_o_eq burst_state_facts)
  with WriteLine assms show ?thesis by (simp add: read_loc_line_no first_bursts_Suc)
qed

lemma path_progress_burst:
  assumes "curr_state a = burst_state (transfer_of r) i" and "address_o a = req_addr r" and "i < 4"
    and "mem_phase m = Bursting (transfer_of r) (req_addr r) i" and "mem_resp m" and "\<not> mem_error m"
    and "\<And>b. r = ReadLine b \<Longrightarrow> mem_rdata m = take_burst i (L (line_no b))" and "bursts_done r L i (a, m)" and "asks p r"
  shows "path_serving (path_step (a, m) p) r L (3 - i)"
proof -
  obtain a' m' where s': "path_step (a, m) p = (a', m')" by (cases "path_step (a, m) p")
  let ?m = "end_burst (transfer_of r) (req_addr r) i (burst_o a (p_wdata p)) m"
  have a': "curr_state a' = (if i = 3 then FINISHED else burst_state (transfer_of r) (Suc i))" "address_o a' = req_addr r"
    "value_read a' = line_o a (mem_rdata m)"
    using s' assms by (auto simp: burst_state_facts)
  have m': "m' = (if i + 1 < BURST_LEN then drive_burst (transfer_of r) (req_addr r) (i + 1) ?m
      else ?m\<lparr>mem_resp := False, mem_phase := Idle\<rparr>)"
    using s' assms(4) steady_request [OF assms(3,1,2)] by (auto simp: memory_step_def Let_def)
  have keep: "mem_lines m' = mem_lines ?m" "mem_error m' = mem_error m"
    unfolding m' by (cases r; simp)+
  have dn: "bursts_done r L (Suc i) (a', m')"
    by (rule bursts_done_step [OF assms(8,3,9,1,7) a'(3) keep(1)])
  show ?thesis
  proof (cases "i = 3")
    case True
    then have "path_serving (a', m') r L 0"
      using a' m' dn assms(6) keep(2) by (intro path_serving.finished) (simp_all add: BURST_LEN_def eval_nat_numeral)
    with s' True show ?thesis by simp
  next
    case False
    with assms(3) have "Suc i < 4" by simp
    moreover have "mem_rdata m' = take_burst (Suc i) (L (line_no b))" if "r = ReadLine b" for b
      using that m' assms(8) \<open>Suc i < 4\<close> by (simp add: BURST_LEN_def read_loc_line_no)
    ultimately have "path_serving (a', m') r L (4 - Suc i)"
      using a' m' dn False assms(6) keep(2)
      by (intro path_serving.burst) (cases r; simp add: BURST_LEN_def)+
    with s' show ?thesis by simp
  qed
qed

lemma path_progress:
  assumes "path_serving s r L (Suc n)" and "asks p r"
  shows "\<not> path_resp s \<and> path_serving (path_step s p) r L n"
  using assms(1)
proof (cases rule: path_serving.cases)
  case (start a m)
  with assms(2) path_progress_start [of a m p r] show ?thesis by (simp add: add.commute)
next
  case (asked a m)
  with path_progress_asked [of a r m p] show ?thesis by (simp add: burst_state_facts add.commute)
next
  case (waits a m k)
  with path_progress_waits [of a r m k p] show ?thesis by (simp add: burst_state_facts add.commute)
next
  case (burst a i m)
  then have "n = 3 - i" by simp
  moreover have "path_serving (path_step (a, m) p) r L (3 - i)"
    using burst assms(2) by (intro path_progress_burst) simp_all
  ultimately show ?thesis using burst by (simp add: burst_state_facts)
qed

lemma path_end:
  assumes "path_serving s r L 0"
  obtains a m where "s = (a, m)" and "curr_state a = FINISHED" and "mem_phase m = Idle" and "\<not> mem_resp m"
    and "\<not> mem_error m" and "bursts_done r L 4 (a, m)"
  using assms by (cases rule: path_serving.cases) simp_all

lemma path_answers:
  assumes "path_serving s r L 0"
  shows "path_resp s \<and> (\<forall>a. r = ReadLine a \<longrightarrow> path_rdata s = L (line_no a))"
proof -
  from assms obtain a m where "s = (a, m)" "curr_state a = FINISHED" "bursts_done r L 4 (a, m)" by (rule path_end)
  then show ?thesis by (auto simp: line_o_eq reads_def dest: first_bursts_all)
qed

lemma path_completes:
  assumes "path_serving s r L 0" and "asks p r"
  shows "path_ready (path_step s p) \<and> path_contents (path_step s p) = effect r L"
proof -
  from assms(1) obtain a m where s: "s = (a, m)" "curr_state a = FINISHED" "mem_phase m = Idle" "\<not> mem_resp m"
    "\<not> mem_error m" and dn: "bursts_done r L 4 (a, m)" by (rule path_end)
  have "mem_lines m = effect r L" using dn by (cases r) (auto simp: fun_eq_iff dest: first_bursts_all)
  with s show ?thesis by (simp add: memory_step_def reads_def writes_to_def)
qed

lemma path_reading: "path_serving s (ReadLine a) L n \<Longrightarrow> path_contents s = L"
  by (cases rule: path_serving.cases) (auto dest: first_bursts_all)

interpretation path: line_port path_step path_resp path_rdata path_contents path_ready path_serving "DELAY_MEM + 6"
proof
  show "\<exists>n\<le>DELAY_MEM + 6. path_serving s r (path_contents s) n" if "path_ready s" for s r
  proof (cases s)
    case (Pair a m)
    with that have "path_serving s r (path_contents s) (request_delay m (req_addr r) + 6)"
      by (simp add: path_serving.start del: path_ready.simps)
    moreover have "request_delay m (req_addr r) \<le> DELAY_MEM" by (simp add: request_delay_def DELAY_MEM_def DELAY_PAGE_HIT_def)
    ultimately show ?thesis by (intro exI [of _ "request_delay m (req_addr r) + 6"]) simp
  qed
  show "path_ready s \<Longrightarrow> \<not> path_resp s" for s by (cases s) simp
qed (fact path_idle path_progress path_answers path_completes path_reading)+

end
