(* ===== verification/Arbiter_Port.thy ===== *)
theory Arbiter_Port
  imports Arbiter Memory_Path
begin

text \<open>
  The arbiter connected to a provider of the line port: the data cache's side of it is a port of
  the same kind, shared with an instruction cache that does what it likes, and both caches are
  served, the data cache first, when both have a request.
\<close>

section \<open>The connection\<close>

definition arb_inputs :: "('s \<Rightarrow> bool) \<Rightarrow> ('s \<Rightarrow> line) \<Rightarrow> 's \<Rightarrow> port_in \<Rightarrow> port_in \<Rightarrow> arb_in" where
  "arb_inputs resp rdata s i d =
     \<lparr> i_cache_read = p_read i, i_cache_address = p_address i, d_cache_read = p_read d, d_cache_write = p_write d,
       d_cache_address = p_address d, d_cache_wdata = p_wdata d,
       next_level_arb_mem_resp = resp s, next_level_arb_rdata = rdata s \<rparr>"

definition shared_out ::
  "('s \<Rightarrow> bool) \<Rightarrow> ('s \<Rightarrow> line) \<Rightarrow> arb_state \<times> 's \<Rightarrow> port_in \<Rightarrow> port_in \<Rightarrow> arb_out" where
  "shared_out resp rdata x i d = state_actions (fst x) (arb_inputs resp rdata (snd x) i d)"

definition shared_step ::
  "('s \<Rightarrow> port_in \<Rightarrow> 's) \<Rightarrow> ('s \<Rightarrow> bool) \<Rightarrow> ('s \<Rightarrow> line) \<Rightarrow> arb_state \<times> 's \<Rightarrow> port_in \<Rightarrow> port_in \<Rightarrow> arb_state \<times> 's" where
  "shared_step step resp rdata x i d =
     (arb_step False (fst x) (arb_inputs resp rdata (snd x) i d), step (snd x) (next_level (shared_out resp rdata x i d)))"

declare state_actions.simps [simp del]

lemma shared_next_level:
  "next_level (shared_out resp rdata x i d) =
     (case fst x of IDLE \<Rightarrow> no_request | I_CACHE_ALLOW \<Rightarrow> i_request (arb_inputs resp rdata (snd x) i d)
        | D_CACHE_ALLOW \<Rightarrow> d_request (arb_inputs resp rdata (snd x) i d))"
  by (simp add: shared_out_def next_level_request)

text \<open>The request of the client that has the grant.\<close>

fun client :: "arb_state \<Rightarrow> port_in \<Rightarrow> port_in \<Rightarrow> port_in" where
  "client I_CACHE_ALLOW i d = i" | "client D_CACHE_ALLOW i d = d" | "client IDLE i d = no_request"

definition served :: "('s \<Rightarrow> bool) \<Rightarrow> arb_state \<Rightarrow> arb_state \<times> 's \<Rightarrow> bool" where
  "served resp c x \<longleftrightarrow> fst x = c \<and> resp (snd x)"

lemma shared_responses:
  "d_cache_mem_resp (shared_out resp rdata x i d) \<longleftrightarrow> served resp D_CACHE_ALLOW x"
  "i_cache_mem_resp (shared_out resp rdata x i d) \<longleftrightarrow> served resp I_CACHE_ALLOW x"
  by (simp_all add: shared_out_def responses served_def arb_inputs_def)

lemma shared_rdata:
  "served resp D_CACHE_ALLOW x \<Longrightarrow> d_cache_rdata (shared_out resp rdata x i d) = rdata (snd x)"
  "served resp I_CACHE_ALLOW x \<Longrightarrow> i_cache_rdata (shared_out resp rdata x i d) = rdata (snd x)"
  by (simp_all add: shared_out_def served_def arb_inputs_def state_actions.simps Let_def)

text \<open>The instruction cache can only ask for reads.\<close>

fun allowed :: "arb_state \<Rightarrow> request \<Rightarrow> bool" where
  "allowed D_CACHE_ALLOW r = True" | "allowed I_CACHE_ALLOW (ReadLine a) = True" | "allowed _ r = False"

lemma granted_request:
  "allowed (fst x) r \<Longrightarrow> asks (client (fst x) i d) r \<Longrightarrow> asks (next_level (shared_out resp rdata x i d)) r"
  by (cases "fst x"; cases r)
    (simp_all add: shared_next_level i_request_def d_request_def arb_inputs_def)

lemma granted_state:
  "fst x \<noteq> IDLE \<Longrightarrow> fst (shared_step step resp rdata x i d) = (if resp (snd x) then IDLE else fst x)"
  by (cases "fst x") (simp_all add: shared_step_def arb_step_def arb_inputs_def)

lemma idle_state:
  "fst x = IDLE \<Longrightarrow> fst (shared_step step resp rdata x i d) =
     (if \<not> quiet d then D_CACHE_ALLOW else if p_read i then I_CACHE_ALLOW else IDLE)"
  "fst x = IDLE \<Longrightarrow> snd (shared_step step resp rdata x i d) = step (snd x) no_request"
  by (simp_all add: shared_step_def arb_step_def arb_inputs_def d_cache_req_def i_cache_req_def quiet_def
      shared_next_level)

lemma no_request_simps [simp]: "quiet no_request" "\<not> p_read no_request" "\<not> p_write no_request"
  by (simp_all add: quiet_def no_request_def)

lemma asks_not_quiet: "asks i r \<Longrightarrow> \<not> quiet i"
  by (cases r) (simp_all add: quiet_def)

section \<open>The data cache's side\<close>

text \<open>
  What the data cache sees while an instruction cache is at work: any one that asks for reads only and
  holds a request that is in service. The state keeps the address it asked for last.
\<close>

fun i_side_holds :: "(arb_state \<times> 's) \<times> u32 \<Rightarrow> port_in \<Rightarrow> bool" where
  "i_side_holds ((st, s), p) i \<longleftrightarrow> \<not> p_write i \<and> (st = I_CACHE_ALLOW \<longrightarrow> p_read i \<and> p_address i = p)"

inductive d_side_step for step :: "'s \<Rightarrow> port_in \<Rightarrow> 's" and resp :: "'s \<Rightarrow> bool" and rdata :: "'s \<Rightarrow> line" where
  cycle: "i_side_holds (x, p) i \<Longrightarrow> d_side_step step resp rdata (x, p) d (shared_step step resp rdata x i d, p_address i)"

definition d_side_resp :: "('s \<Rightarrow> bool) \<Rightarrow> (arb_state \<times> 's) \<times> u32 \<Rightarrow> bool" where
  "d_side_resp resp x = served resp D_CACHE_ALLOW (fst x)"

definition d_side_rdata :: "('s \<Rightarrow> bool) \<Rightarrow> ('s \<Rightarrow> line) \<Rightarrow> (arb_state \<times> 's) \<times> u32 \<Rightarrow> line" where
  "d_side_rdata resp rdata x = d_cache_rdata (shared_out resp rdata (fst x) no_request no_request)"

definition d_side_contents :: "('s \<Rightarrow> lines) \<Rightarrow> (arb_state \<times> 's) \<times> u32 \<Rightarrow> lines" where
  "d_side_contents contents x = contents (snd (fst x))"

definition side_ready :: "('s \<Rightarrow> bool) \<Rightarrow> arb_state \<times> 's \<Rightarrow> bool" where
  "side_ready ready x \<longleftrightarrow> fst x = IDLE \<and> ready (snd x)"

definition side_contents :: "('s \<Rightarrow> lines) \<Rightarrow> arb_state \<times> 's \<Rightarrow> lines" where
  "side_contents contents x = contents (snd x)"

text \<open>The data cache is at rest while the arbiter is idle or serves the instruction cache.\<close>

fun d_side_ready where
  "d_side_ready ready serving bound ((IDLE, s), p) \<longleftrightarrow> ready s"
| "d_side_ready ready serving bound ((I_CACHE_ALLOW, s), p) \<longleftrightarrow> (\<exists>L. \<exists>k\<le>bound. serving s (ReadLine p) L k)"
| "d_side_ready ready serving bound ((D_CACHE_ALLOW, s), p) \<longleftrightarrow> False"

fun d_side_serving where
  "d_side_serving ready contents serving bound ((IDLE, s), p) r L n \<longleftrightarrow> ready s \<and> contents s = L \<and> bound < n"
| "d_side_serving ready contents serving bound ((D_CACHE_ALLOW, s), p) r L n \<longleftrightarrow> serving s r L n"
| "d_side_serving ready contents serving bound ((I_CACHE_ALLOW, s), p) r L n \<longleftrightarrow>
     (\<exists>k. serving s (ReadLine p) L k \<and> k + bound + 1 < n)"

inductive_cases d_side_stepE: "d_side_step step resp rdata (x, p) d y"

context line_port
begin

abbreviation d_ready where "d_ready \<equiv> d_side_ready ready serving bound"
abbreviation d_serving where "d_serving \<equiv> d_side_serving ready contents serving bound"

text \<open>A cycle of the instruction cache's service.\<close>

lemma i_side_cycle:
  assumes "serving s (ReadLine p) L k" and "i_side_holds ((I_CACHE_ALLOW, s), p) i"
  obtains "k = 0" "ready (snd (shared_step step resp rdata (I_CACHE_ALLOW, s) i d))"
      "contents (snd (shared_step step resp rdata (I_CACHE_ALLOW, s) i d)) = L"
      "fst (shared_step step resp rdata (I_CACHE_ALLOW, s) i d) = IDLE"
    | m where "k = Suc m" "serving (snd (shared_step step resp rdata (I_CACHE_ALLOW, s) i d)) (ReadLine p) L m"
      "fst (shared_step step resp rdata (I_CACHE_ALLOW, s) i d) = I_CACHE_ALLOW"
proof -
  have asks: "asks (next_level (shared_out resp rdata (I_CACHE_ALLOW, s) i d)) (ReadLine p)"
    by (rule granted_request) (use assms(2) in simp_all)
  have st: "fst (shared_step step resp rdata (I_CACHE_ALLOW, s) i d) = (if resp s then IDLE else I_CACHE_ALLOW)"
    by (simp add: granted_state)
  show thesis
  proof (cases k)
    case 0
    with assms(1) completes [OF _ asks] answers [of s "ReadLine p" L] st show thesis
      by (intro that(1)) (simp_all add: shared_step_def)
  next
    case (Suc m)
    with assms(1) progress [OF _ asks] st show thesis
      by (intro that(2) [OF Suc]) (simp_all add: shared_step_def)
  qed
qed

text \<open>A cycle with an idle arbiter.\<close>

lemma idle_cycle:
  assumes "ready s"
  shows "ready (snd (shared_step step resp rdata (IDLE, s) i d))" "contents (snd (shared_step step resp rdata (IDLE, s) i d)) = contents s"
  using idle [OF assms, of no_request] by (simp_all add: idle_state)

lemma d_side_idle:
  assumes "d_ready x" and "quiet d" and "d_side_step step resp rdata x d x'"
  shows "d_ready x' \<and> d_side_contents contents x' = d_side_contents contents x"
proof -
  from assms(3) obtain st s p i where x: "x = ((st, s), p)" and i: "i_side_holds ((st, s), p) i"
    and x': "x' = (shared_step step resp rdata (st, s) i d, p_address i)"
    by (cases x; cases "fst x") (auto elim: d_side_stepE)
  let ?y = "shared_step step resp rdata (st, s) i d"
  show ?thesis
  proof (cases st)
    case IDLE
    then have s: "ready s" using assms(1) x by simp
    note c = idle_cycle [OF s, of i d]
    have "\<exists>L. \<exists>k\<le>bound. serving (snd ?y) (ReadLine (p_address i)) L k" unfolding IDLE using accepts [OF c(1)] by blast
    moreover have "fst ?y = IDLE \<or> fst ?y = I_CACHE_ALLOW" using IDLE assms(2) by (simp add: idle_state)
    ultimately show ?thesis using c IDLE by (cases ?y) (auto simp: x x' d_side_contents_def, blast)
  next
    case I_CACHE_ALLOW
    then obtain L k where k: "k \<le> bound" "serving s (ReadLine p) L k" using assms(1) x by auto
    have "contents s = L" by (rule reading [OF k(2)])
    have pa: "p_address i = p" using i I_CACHE_ALLOW by simp
    from i I_CACHE_ALLOW have "i_side_holds ((I_CACHE_ALLOW, s), p) i" by simp
    from k(2) this show ?thesis
    proof (cases rule: i_side_cycle [where d = d])
      case 1
      with \<open>contents s = L\<close> I_CACHE_ALLOW show ?thesis by (cases ?y) (simp add: x x' d_side_contents_def)
    next
      case (2 m)
      with \<open>contents s = L\<close> I_CACHE_ALLOW k(1) pa reading [OF 2(2)] show ?thesis
        by (cases ?y) (auto simp: x x' d_side_contents_def intro!: exI [of _ L] exI [of _ m])
    qed
  next
    case D_CACHE_ALLOW
    with assms(1) x show ?thesis by simp
  qed
qed

lemma d_side_accepts:
  assumes "d_ready x"
  shows "\<exists>n\<le>2 * bound + 2. d_serving x r (d_side_contents contents x) n"
proof -
  obtain st s p where x: "x = ((st, s), p)" by (metis surj_pair)
  show ?thesis
  proof (cases st)
    case IDLE
    with assms x show ?thesis by (intro exI [of _ "bound + 1"]) (simp add: d_side_contents_def)
  next
    case I_CACHE_ALLOW
    then obtain L k where k: "k \<le> bound" "serving s (ReadLine p) L k" using assms x by auto
    with I_CACHE_ALLOW x reading [OF k(2)] show ?thesis
      by (intro exI [of _ "k + bound + 2"]) (auto simp: d_side_contents_def)
  qed (use assms x in simp)
qed

lemma d_side_progress:
  assumes "d_serving x r L n" and "asks d r" and "d_side_step step resp rdata x d x'"
  shows "if d_side_resp resp x
    then (\<forall>a. r = ReadLine a \<longrightarrow> d_side_rdata resp rdata x = L (line_no a)) \<and> d_ready x' \<and> d_side_contents contents x' = effect r L
    else \<exists>m<n. d_serving x' r L m"
proof -
  from assms(3) obtain st s p i where x: "x = ((st, s), p)" and i: "i_side_holds ((st, s), p) i"
    and x': "x' = (shared_step step resp rdata (st, s) i d, p_address i)"
    by (cases x; cases "fst x") (auto elim: d_side_stepE)
  let ?y = "shared_step step resp rdata (st, s) i d"
  show ?thesis
  proof (cases st)
    case IDLE
    then have s: "ready s" "contents s = L" "bound < n" using assms(1) x by simp_all
    note c = idle_cycle [OF s(1), of i d]
    obtain m where "m \<le> bound" "serving (snd ?y) r L m" using accepts [OF c(1), of r] c(2) s(2) IDLE by auto
    moreover have "fst ?y = D_CACHE_ALLOW" using IDLE asks_not_quiet [OF assms(2)] by (simp add: idle_state)
    ultimately show ?thesis using IDLE s(3)
      by (cases ?y) (auto simp: x x' d_side_resp_def served_def intro!: exI [of _ m])
  next
    case I_CACHE_ALLOW
    then obtain k where k: "k + bound + 1 < n" "serving s (ReadLine p) L k" using assms(1) x by auto
    have pa: "p_address i = p" using i I_CACHE_ALLOW by simp
    from i I_CACHE_ALLOW have "i_side_holds ((I_CACHE_ALLOW, s), p) i" by simp
    from k(2) this show ?thesis
    proof (cases rule: i_side_cycle [where d = d])
      case 1
      with k(1) I_CACHE_ALLOW show ?thesis
        by (cases ?y) (auto simp: x x' d_side_resp_def served_def intro!: exI [of _ "bound + 1"])
    next
      case (2 m)
      with I_CACHE_ALLOW pa have "d_serving x' r L (m + bound + 2)" by (cases ?y) (auto simp: x')
      with k(1) 2(1) I_CACHE_ALLOW show ?thesis
        by (auto simp: x d_side_resp_def served_def intro!: exI [of _ "m + bound + 2"])
    qed
  next
    case D_CACHE_ALLOW
    then have sv: "serving s r L n" using assms(1) x by simp
    have asks: "asks (next_level (shared_out resp rdata (D_CACHE_ALLOW, s) i d)) r"
      by (rule granted_request) (use assms(2) in simp_all)
    have st: "fst ?y = (if resp s then IDLE else D_CACHE_ALLOW)" using D_CACHE_ALLOW by (simp add: granted_state)
    have y: "snd ?y = step s (next_level (shared_out resp rdata (D_CACHE_ALLOW, s) i d))"
      using D_CACHE_ALLOW by (simp add: shared_step_def)
    from alone.progress [OF sv asks refl] show ?thesis
      using D_CACHE_ALLOW st y
      by (cases ?y) (auto simp: x x' d_side_resp_def d_side_rdata_def d_side_contents_def served_def shared_rdata split: if_splits)
  qed
qed

lemma d_side_port:
  "held_port (d_side_step step resp rdata) (d_side_resp resp) (d_side_rdata resp rdata)
     (d_side_contents contents) d_ready d_serving (2 * bound + 2)"
proof
  show "\<exists>x'. d_side_step step resp rdata x d x'" for x d
  proof -
    obtain st s p where x: "x = ((st, s), p)" by (metis surj_pair)
    have "i_side_holds ((st, s), p) \<lparr> p_read = True, p_write = False, p_address = p, p_wdata = 0 \<rparr>" by simp
    from d_side_step.cycle [OF this] x show ?thesis by blast
  qed
qed (fact d_side_idle d_side_accepts d_side_progress)+

text \<open>Service of a granted client, the other one doing what it likes.\<close>

lemma service:
  assumes "\<And>k. x (Suc k) = shared_step step resp rdata (x k) (i k) (d k)"
    and "\<And>k. (\<forall>j<k. \<not> served resp c (x j)) \<Longrightarrow> asks (client c (i k) (d k)) r" and "allowed c r"
    and "fst (x t) = c" and "serving (snd (x t)) r L n" and "\<forall>j<t. \<not> served resp c (x j)"
  shows "(\<forall>j<t + n. \<not> served resp c (x j)) \<and> served resp c (x (t + n)) \<and> (\<forall>j\<ge>t. j \<le> t + n \<longrightarrow> fst (x j) = c)
    \<and> (\<forall>a. r = ReadLine a \<longrightarrow> rdata (snd (x (t + n))) = L (line_no a))
    \<and> side_ready ready (x (Suc (t + n))) \<and> side_contents contents (x (Suc (t + n))) = effect r L"
  using assms(4-6)
proof (induction n arbitrary: t)
  have c: "c \<noteq> IDLE" using assms(3) by (cases c; cases r) simp_all
  have port: "asks (next_level (shared_out resp rdata (x t) (i t) (d t))) r"
    if "fst (x t) = c" "\<forall>j<t. \<not> served resp c (x j)" for t
    by (rule granted_request) (use that assms(2,3) in simp_all)
  {
    case 0
    note a = answers [OF 0(2)] and f = completes [OF 0(2) port [OF 0(1,3)]]
    with 0 c granted_state [of "x t" step resp rdata "i t" "d t"] have "side_ready ready (x (Suc t))"
      "side_contents contents (x (Suc t)) = effect r L"
      by (simp_all add: assms(1) side_ready_def side_contents_def shared_step_def)
    moreover have "served resp c (x t)" using 0 a by (simp add: served_def)
    ultimately show ?case using 0 a by simp
  next
    case (Suc n)
    from progress [OF Suc.prems(2) port [OF Suc.prems(1,3)]]
    have p: "\<not> resp (snd (x t))" "serving (snd (x (Suc t))) r L n" by (simp_all add: assms(1) shared_step_def)
    then have n: "\<not> served resp c (x t)" "fst (x (Suc t)) = c"
      using Suc.prems c granted_state [of "x t" step resp rdata "i t" "d t"] by (simp_all add: served_def assms(1))
    then have "\<forall>j<Suc t. \<not> served resp c (x j)" using Suc.prems by (simp add: less_Suc_eq)
    note IH = Suc.IH [OF n(2) p(2) this]
    have "fst (x j) = c" if "t \<le> j" "j \<le> t + Suc n" for j
      using that IH Suc.prems(1) by (cases "j = t") simp_all
    with IH show ?case by simp
  }
qed

text \<open>From an idle arbiter the client with the grant is served within \<open>bound\<close> cycles.\<close>

lemma service_from_idle:
  assumes "\<And>k. x (Suc k) = shared_step step resp rdata (x k) (i k) (d k)"
    and "\<And>k. (\<forall>j<k. \<not> served resp c (x j)) \<Longrightarrow> asks (client c (i k) (d k)) r" and "allowed c r"
    and "side_ready ready (x t)" and "fst (x (Suc t)) = c" and "\<forall>j\<le>t. \<not> served resp c (x j)"
  obtains n where "n \<le> bound" "\<forall>j<Suc t + n. \<not> served resp c (x j)" "served resp c (x (Suc t + n))"
    "\<forall>j\<ge>Suc t. j \<le> Suc t + n \<longrightarrow> fst (x j) = c"
    "\<forall>a. r = ReadLine a \<longrightarrow> rdata (snd (x (Suc t + n))) = side_contents contents (x t) (line_no a)"
    "side_ready ready (x (Suc (Suc t + n)))" "side_contents contents (x (Suc (Suc t + n))) = effect r (side_contents contents (x t))"
proof -
  have "snd (x (Suc t)) = step (snd (x t)) no_request"
    using assms(4) by (simp add: assms(1) side_ready_def idle_state)
  with assms(4) idle [of "snd (x t)" no_request]
  have "ready (snd (x (Suc t)))" "contents (snd (x (Suc t))) = side_contents contents (x t)"
    by (simp_all add: side_ready_def side_contents_def)
  then obtain n where n: "n \<le> bound" "serving (snd (x (Suc t))) r (side_contents contents (x t)) n"
    using accepts by metis
  have "\<forall>j<Suc t. \<not> served resp c (x j)" using assms(6) by simp
  from service [OF assms(1-3,5) n(2) this] n(1) that show ?thesis by blast
qed

text \<open>
  Both caches ask, each until it is served and the data cache for nothing more after that: the
  data cache is served first, then the instruction cache, which sees what the data cache wrote.
\<close>

lemma both_served:
  assumes "\<And>k. x (Suc k) = shared_step step resp rdata (x k) (i k) (d k)" and "side_ready ready (x 0)"
    and "\<And>k. (\<forall>j<k. \<not> served resp D_CACHE_ALLOW (x j)) \<Longrightarrow> asks (d k) r"
    and "\<And>k. \<exists>j<k. served resp D_CACHE_ALLOW (x j) \<Longrightarrow> quiet (d k)"
    and "\<And>k. (\<forall>j<k. \<not> served resp I_CACHE_ALLOW (x j)) \<Longrightarrow> asks (i k) (ReadLine a)"
  shows "\<exists>n m. n \<le> Suc bound \<and> n < m \<and> m \<le> n + bound + 2
    \<and> served resp D_CACHE_ALLOW (x n) \<and> (\<forall>b. r = ReadLine b \<longrightarrow> rdata (snd (x n)) = side_contents contents (x 0) (line_no b))
    \<and> served resp I_CACHE_ALLOW (x m) \<and> (\<forall>j<m. \<not> served resp I_CACHE_ALLOW (x j))
    \<and> rdata (snd (x m)) = effect r (side_contents contents (x 0)) (line_no a)
    \<and> side_contents contents (x (Suc m)) = effect r (side_contents contents (x 0))"
proof -
  have idle0: "fst (x 0) = IDLE" using assms(2) by (simp add: side_ready_def)
  have "asks (d 0) r" using assms(3) [of 0] by simp
  with idle0 have d0: "fst (x (Suc 0)) = D_CACHE_ALLOW" by (simp add: assms(1) idle_state asks_not_quiet)
  have hold: "asks (client D_CACHE_ALLOW (i k) (d k)) r" if "\<forall>j<k. \<not> served resp D_CACHE_ALLOW (x j)" for k
    using assms(3) that by simp
  have al: "allowed D_CACHE_ALLOW r" "allowed I_CACHE_ALLOW (ReadLine a)" by simp_all
  have none0: "\<forall>j\<le>0. \<not> served resp D_CACHE_ALLOW (x j)" using idle0 by (simp add: served_def)
  obtain n where n: "n \<le> bound" "\<forall>j<Suc 0 + n. \<not> served resp D_CACHE_ALLOW (x j)" "served resp D_CACHE_ALLOW (x (Suc 0 + n))"
    "\<forall>j\<ge>Suc 0. j \<le> Suc 0 + n \<longrightarrow> fst (x j) = D_CACHE_ALLOW"
    "\<forall>a. r = ReadLine a \<longrightarrow> rdata (snd (x (Suc 0 + n))) = side_contents contents (x 0) (line_no a)"
    "side_ready ready (x (Suc (Suc 0 + n)))" "side_contents contents (x (Suc (Suc 0 + n))) = effect r (side_contents contents (x 0))"
    by (rule service_from_idle [OF assms(1) hold al(1) assms(2) d0 none0])
  let ?t = "Suc (Suc n)"
  have none: "\<not> served resp I_CACHE_ALLOW (x j)" if "j \<le> ?t" for j
  proof -
    have "fst (x j) \<noteq> I_CACHE_ALLOW"
      using that n(4) n(6) idle0 by (cases "j = 0 \<or> j = ?t") (auto simp: side_ready_def)
    then show ?thesis by (simp add: served_def)
  qed
  have "asks (i ?t) (ReadLine a)" using assms(5) none by simp
  moreover have "quiet (d ?t)" using n(3) by (intro assms(4)) auto
  ultimately have it: "fst (x (Suc ?t)) = I_CACHE_ALLOW" using n(6) by (simp add: assms(1) idle_state side_ready_def)
  have hold': "asks (client I_CACHE_ALLOW (i k) (d k)) (ReadLine a)" if "\<forall>j<k. \<not> served resp I_CACHE_ALLOW (x j)" for k
    using assms(5) that by simp
  have rdy: "side_ready ready (x ?t)" and none': "\<forall>j\<le>?t. \<not> served resp I_CACHE_ALLOW (x j)" using n(6) none by simp_all
  obtain m where m: "m \<le> bound" "\<forall>j<Suc ?t + m. \<not> served resp I_CACHE_ALLOW (x j)" "served resp I_CACHE_ALLOW (x (Suc ?t + m))"
    "\<forall>j\<ge>Suc ?t. j \<le> Suc ?t + m \<longrightarrow> fst (x j) = I_CACHE_ALLOW"
    "\<forall>b. ReadLine a = ReadLine b \<longrightarrow> rdata (snd (x (Suc ?t + m))) = side_contents contents (x ?t) (line_no b)"
    "side_ready ready (x (Suc (Suc ?t + m)))"
    "side_contents contents (x (Suc (Suc ?t + m))) = effect (ReadLine a) (side_contents contents (x ?t))"
    by (rule service_from_idle [OF assms(1) hold' al(2) rdy it none'])
  show ?thesis
    by (rule exI [of _ "Suc n"], rule exI [of _ "Suc ?t + m"]) (use n m in simp)
qed

end

interpretation d_port: held_port "d_side_step path_step path_resp path_rdata" "d_side_resp path_resp"
  "d_side_rdata path_resp path_rdata" "d_side_contents path_contents" "d_side_ready path_ready path_serving (DELAY_MEM + 6)"
  "d_side_serving path_ready path_contents path_serving (DELAY_MEM + 6)" "2 * (DELAY_MEM + 6) + 2"
  by (rule path.d_side_port)

end
