(* ===== verification/Memory_System.thy ===== *)
theory Memory_System
  imports Arbiter_Port
begin

text \<open>
  What the memory system below the caches promises: transfers of lines through the adaptor, and
  two caches sharing it through the arbiter. Each statement is that of the interface, read off
  an interpretation and written out over the modules.
\<close>

section \<open>A memory for the examples\<close>

definition fresh_adaptor :: adaptor where
  "fresh_adaptor = \<lparr> curr_state = RESET, value_read = 0, read_mux_held = 0, write_mux_held = 0, address_o = 0 \<rparr>"

definition fresh_memory :: burst_memory where
  "fresh_memory = \<lparr> mem_lines = (\<lambda>l. ucast l + 7), pageno = - 1, mem_phase = Idle, mem_resp = False, mem_rdata = 0,
     mem_error = False \<rparr>"

lemma fresh_simps [simp]:
  "path_ready (fresh_adaptor, fresh_memory)" "mem_lines fresh_memory = (\<lambda>l. ucast l + 7)"
  "request_delay fresh_memory a = DELAY_MEM"
proof -
  have "page_of a \<noteq> - 1" using uint_ge_0 [of "a div PAGE_SIZE"] unfolding page_of_def by linarith
  then show "path_ready (fresh_adaptor, fresh_memory)" "mem_lines fresh_memory = (\<lambda>l. ucast l + 7)"
    "request_delay fresh_memory a = DELAY_MEM"
    by (simp_all add: fresh_adaptor_def fresh_memory_def request_delay_def)
qed

definition read_port :: "u32 \<Rightarrow> port_in" where
  "read_port a = \<lparr> p_read = True, p_write = False, p_address = a, p_wdata = 0 \<rparr>"

definition write_port :: "u32 \<Rightarrow> line \<Rightarrow> port_in" where
  "write_port a w = \<lparr> p_read = False, p_write = True, p_address = a, p_wdata = w \<rparr>"

lemma port_asks: "asks (read_port a) (ReadLine a)" "asks (write_port a w) (WriteLine a w)"
  by (simp_all add: read_port_def write_port_def)

section \<open>Line transfers\<close>

text \<open>
  The adaptor moves whole lines. From rest, a request held to the adaptor is answered after
  the delay of its page and six more cycles, and not before; a read then delivers the addressed
  line of the memory, put together from four bursts in order, a write has put its line there and
  changed no other; and the pair is at rest again in the next cycle, with no protocol error
  reported by the memory.
\<close>

theorem line_transfer:
  assumes "path_ready (a, m)" and "\<And>k. asks (i k) r"
    and "st 0 = (a, m)" and "\<And>k. st (Suc k) = path_step (st k) (i k)"
  shows "let n = request_delay m (req_addr r) + 6 in
    (\<forall>k<n. \<not> path_resp (st k)) \<and> path_resp (st n)
    \<and> (\<forall>b. r = ReadLine b \<longrightarrow> path_rdata (st n) = mem_lines m (line_no b))
    \<and> path_ready (st (Suc n)) \<and> path_contents (st (Suc n)) = effect r (mem_lines m)"
proof -
  have "path_serving (a, m) r (mem_lines m) (request_delay m (req_addr r) + 6)" by (rule path_serving.start [OF assms(1)])
  from path.held_request [OF this, where st = st and i = i, OF assms(2-4)] show ?thesis unfolding Let_def .
qed

theorem line_transfer_witness:
  "path_rdata (((\<lambda>s. path_step s (read_port 64)) ^^ 116) (fresh_adaptor, fresh_memory)) = 9"
  using line_transfer [of fresh_adaptor fresh_memory "\<lambda>_. read_port 64" "ReadLine 64"
      "\<lambda>k. ((\<lambda>s. path_step s (read_port 64)) ^^ k) (fresh_adaptor, fresh_memory)"]
  by (simp add: DELAY_MEM_def line_no_def Let_def drop_bit_eq_div port_asks del: asks.simps path_ready.simps path_step.simps path_rdata.simps path_resp.simps)

section \<open>Two caches\<close>

text \<open>
  C27: both caches are served. If the data cache and the instruction cache ask at the same time,
  each holding its request until the arbiter's response to it and the data cache then falling
  silent, the data cache is answered first, within 118 cycles, the instruction cache
  within 118 further cycles, each once and with the line of the memory, the instruction cache
  with what the data cache has just written, if that is the line it reads.
\<close>

theorem caches_served:
  assumes "\<And>k. x (Suc k) = shared_step path_step path_resp path_rdata (x k) (i k) (d k)"
    and "fst (x 0) = IDLE" and "path_ready (snd (x 0))"
    and "\<And>k. out k = shared_out path_resp path_rdata (x k) (i k) (d k)"
    and "\<And>k. (\<forall>j<k. \<not> d_cache_mem_resp (out j)) \<Longrightarrow> asks (d k) r"
    and "\<And>k. \<exists>j<k. d_cache_mem_resp (out j) \<Longrightarrow> quiet (d k)"
    and "\<And>k. (\<forall>j<k. \<not> i_cache_mem_resp (out j)) \<Longrightarrow> asks (i k) (ReadLine a)"
    and "L = path_contents (snd (x 0))"
  shows "\<exists>n m. n \<le> DELAY_MEM + 7 \<and> n < m \<and> m \<le> n + DELAY_MEM + 8
    \<and> d_cache_mem_resp (out n) \<and> (\<forall>b. r = ReadLine b \<longrightarrow> d_cache_rdata (out n) = L (line_no b))
    \<and> i_cache_mem_resp (out m) \<and> (\<forall>j<m. \<not> i_cache_mem_resp (out j)) \<and> i_cache_rdata (out m) = effect r L (line_no a)
    \<and> path_contents (snd (x (Suc m))) = effect r L"
proof -
  have dr: "d_cache_mem_resp (out k) \<longleftrightarrow> served path_resp D_CACHE_ALLOW (x k)"
    and ir: "i_cache_mem_resp (out k) \<longleftrightarrow> served path_resp I_CACHE_ALLOW (x k)" for k
    by (simp_all add: assms(4) shared_responses)
  have "side_ready path_ready (x 0)" using assms(2,3) by (simp add: side_ready_def)
  from path.both_served [OF assms(1) this assms(5-7) [unfolded dr ir]]
  obtain n m where "n \<le> Suc (DELAY_MEM + 6)" "n < m" "m \<le> n + (DELAY_MEM + 6) + 2"
    "served path_resp D_CACHE_ALLOW (x n)" "\<forall>b. r = ReadLine b \<longrightarrow> path_rdata (snd (x n)) = L (line_no b)"
    "served path_resp I_CACHE_ALLOW (x m)" "\<forall>j<m. \<not> served path_resp I_CACHE_ALLOW (x j)"
    "path_rdata (snd (x m)) = effect r L (line_no a)" "side_contents path_contents (x (Suc m)) = effect r L"
    unfolding assms(8) side_contents_def by metis
  then show ?thesis
    by (intro exI [of _ n] exI [of _ m]) (simp add: dr ir assms(4) shared_responses shared_rdata side_contents_def)
qed

text \<open>A write of the data cache and a read of the same line by the instruction cache.\<close>

primrec contest :: "nat \<Rightarrow> (arb_state \<times> path) \<times> bool" where
  "contest 0 = ((IDLE, fresh_adaptor, fresh_memory), False)"
| "contest (Suc k) =
     (let (x, done) = contest k
      in (shared_step path_step path_resp path_rdata x (read_port 96) (if done then no_request else write_port 96 42),
          done \<or> served path_resp D_CACHE_ALLOW x))"

definition contest_d :: "nat \<Rightarrow> port_in" where
  "contest_d k = (if snd (contest k) then no_request else write_port 96 42)"

definition contest_out :: "nat \<Rightarrow> arb_out" where
  "contest_out k = shared_out path_resp path_rdata (fst (contest k)) (read_port 96) (contest_d k)"

lemma contest_done: "snd (contest k) \<longleftrightarrow> (\<exists>j<k. d_cache_mem_resp (contest_out j))"
  unfolding contest_out_def shared_responses
  by (induction k) (auto simp: Let_def less_Suc_eq split: prod.splits)

theorem caches_served_witness: "\<exists>m. i_cache_mem_resp (contest_out m) \<and> i_cache_rdata (contest_out m) = 42"
proof -
  have step: "fst (contest (Suc k)) = shared_step path_step path_resp path_rdata (fst (contest k)) (read_port 96) (contest_d k)" for k
    by (simp add: contest_d_def split: prod.splits)
  have start: "fst (fst (contest 0)) = IDLE" "path_ready (snd (fst (contest 0)))"
    by (simp_all del: path_ready.simps)
  have d: "\<forall>j<k. \<not> d_cache_mem_resp (contest_out j) \<Longrightarrow> asks (contest_d k) (WriteLine 96 42)"
    "\<exists>j<k. d_cache_mem_resp (contest_out j) \<Longrightarrow> quiet (contest_d k)" for k
    using contest_done [of k] by (auto simp: contest_d_def port_asks simp del: asks.simps)
  from caches_served [where x = "\<lambda>k. fst (contest k)" and i = "\<lambda>_. read_port 96", OF step start contest_out_def d port_asks(1) refl]
  show ?thesis by (auto simp: line_no_def)
qed

end
