(* ===== verification/Data_Memory.thy ===== *)
theory Data_Memory
  imports Cache_Port Memory_System Byte_Memory
begin

text \<open>
  The data cache in its place, above the arbiter, the adaptor and the burst memory, and in front
  of the memory stage of the pipeline: to the pipeline it is the byte memory of the instruction
  set. The statements are those of the word port, read off its interpretation on this stack.
\<close>

section \<open>The stack\<close>

type_synonym data_memory = "cache \<times> (arb_state \<times> path) \<times> u32"

abbreviation stack_step :: "data_memory \<Rightarrow> cache_in \<Rightarrow> bool \<Rightarrow> u32 \<Rightarrow> data_memory \<Rightarrow> bool" where
  "stack_step \<equiv> cached_step (d_side_step path_step path_resp path_rdata) (d_side_resp path_resp)
     (d_side_rdata path_resp path_rdata)"

abbreviation stack_ready :: "data_memory \<Rightarrow> lines \<Rightarrow> bool" where
  "stack_ready \<equiv> cached_ready (d_side_ready path_ready path_serving (DELAY_MEM + 6)) (d_side_contents path_contents)"

abbreviation stack_serving :: "data_memory \<Rightarrow> access \<Rightarrow> lines \<Rightarrow> nat \<Rightarrow> bool" where
  "stack_serving \<equiv> cached_serving (d_side_ready path_ready path_serving (DELAY_MEM + 6)) (d_side_contents path_contents)
     (d_side_serving path_ready path_contents path_serving (DELAY_MEM + 6)) (2 * (DELAY_MEM + 6) + 2)"

interpretation dcache: word_port stack_step stack_ready stack_serving "2 * (2 * (DELAY_MEM + 6) + 2) + 4"
  by (rule held_port.cached_port [OF d_port.held_port_axioms])

section \<open>Lines and words as bytes\<close>

definition memory_bytes :: "lines \<Rightarrow> memory" where
  "memory_bytes L a = line_byte (unat a mod 32) (L (line_no a))"

lemma line_no_unat: "unat (line_no a) = unat a div 32"
  by (simp add: line_no_def unat_drop_bit_div)

lemma quot_32: "n div 32 = n div 4 div 8" "n mod 32 = 4 * (n div 4 mod 8) + n mod 4" for n :: nat
  using div_mult2_eq [of n 4 8] mod_mult2_eq [of n 4 8] by simp_all

lemma addr_word_unat: "addr_word a = unat a mod 32 div 4"
proof -
  have "addr_word a = (unat a div 4) mod 8"
    by (simp add: addr_word_def unsigned_ucast_eq take_bit_eq_mod unat_drop_bit_div)
  also have "\<dots> = unat a mod 32 div 4" by (simp add: quot_32(2) [of "unat a"])
  finally show ?thesis .
qed

lemma word_eq_lanes: "(\<And>k. k < 4 \<Longrightarrow> (ucast (drop_bit (8 * k) v) :: u8) = ucast (drop_bit (8 * k) w)) \<Longrightarrow> v = (w :: u32)"
proof (rule bit_word_eqI)
  fix n assume *: "\<And>k. k < 4 \<Longrightarrow> (ucast (drop_bit (8 * k) v) :: u8) = ucast (drop_bit (8 * k) w)" and "n < LENGTH(32)"
  then have "bit (ucast (drop_bit (8 * (n div 8)) v) :: u8) (n mod 8) = bit (ucast (drop_bit (8 * (n div 8)) w) :: u8) (n mod 8)"
    by (simp add: less_mult_imp_div_less)
  then show "bit v n = bit w n" by (simp add: bit_ucast_iff bit_drop_bit_eq)
qed

lemma base_plus:
  fixes a :: u32
  assumes "k < 4"
  shows "unat ((a AND NOT 3) + of_nat k) = 4 * (unat a div 4) + k"
proof -
  have "unat (of_nat k :: u32) = k" using assms by (simp add: unsigned_of_nat take_bit_nat_eq_self_iff)
  moreover have "4 * (unat a div 4) + k < 2 ^ 32"
  proof -
    have "unat a div 4 < 2 ^ 30" using unat_lt_pow [of a] by (simp add: less_mult_imp_div_less)
    with assms show ?thesis by simp
  qed
  ultimately show ?thesis by (simp only: unat_word_ariths(1) unat_base) simp
qed

lemma bytes_of_word: "memory_bytes L ((a AND NOT 3) + of_nat k) = line_byte (4 * addr_word a + k) (L (line_no a))" if "k < 4"
proof -
  note u = base_plus [OF that, of a]
  have "(4 * (unat a div 4) + k) div 4 = unat a div 4" "(4 * (unat a div 4) + k) mod 4 = k" using that by simp_all
  note q = quot_32 [of "4 * (unat a div 4) + k", unfolded this]
  then have "(4 * (unat a div 4) + k) div 32 = unat a div 32" by (simp only: quot_32(1) [of "unat a"])
  then have "line_no ((a AND NOT 3) + of_nat k) = line_no a" by (simp only: word_unat_eq_iff line_no_unat u)
  moreover have "(4 * (unat a div 4) + k) mod 32 = 4 * (unat a mod 32 div 4) + k" using q by (simp add: quot_32(2) [of "unat a"])
  ultimately show ?thesis by (simp only: memory_bytes_def u addr_word_unat)
qed

lemma load_word_bytes: "adapt_rdata a (L (line_no a)) = word_at (memory_bytes L) a"
proof (rule word_eq_lanes)
  fix k :: nat assume k: "k < 4"
  let ?b = "\<lambda>j. line_byte (4 * addr_word a + j) (L (line_no a))"
  have "word_at (memory_bytes L) a = le_word [?b 0, ?b 1, ?b 2, ?b 3]"
    using bytes_of_word [of 0 L a] bytes_of_word [of 1 L a] bytes_of_word [of 2 L a] bytes_of_word [of 3 L a]
    by (simp add: word_at_bytes del: One_nat_def)
  moreover have "k = 0 \<or> k = 1 \<or> k = 2 \<or> k = 3" using k by (simp only: less_4_cases)
  ultimately show "(ucast (drop_bit (8 * k) (adapt_rdata a (L (line_no a)))) :: u8) = ucast (drop_bit (8 * k) (word_at (memory_bytes L) a))"
    unfolding adapt_rdata_byte [OF k] by (elim disjE) (simp_all add: le_word4_lanes)
qed

lemma store_word_bytes:
  "memory_bytes (access_effect (StoreWord a be w) L) = masked_write (memory_bytes L) a be w"
proof
  fix b :: u32
  let ?j = "unat b mod 32"
  have j: "?j < 32" by simp
  have same: "b AND NOT 3 = a AND NOT 3 \<longleftrightarrow> line_no b = line_no a \<and> ?j div 4 = addr_word a"
  proof -
    have d: "n mod 32 div 4 = n div 4 mod 8" for n :: nat by (simp add: quot_32(2) [of n])
    have "n div 4 = m div 4 \<longleftrightarrow> n div 32 = m div 32 \<and> n mod 32 div 4 = m mod 32 div 4" for n m :: nat
      unfolding quot_32(1) d by (metis div_mult_mod_eq)
    from this [of "unat b" "unat a"] show ?thesis
      unfolding same_word_iff addr_word_unat word_unat_eq_iff [of "line_no b"] line_no_unat .
  qed
  have m: "?j mod 4 = lane b" by (simp add: lane_def mod_mod_cancel)
  have mw: "masked_write (memory_bytes L) a be w b =
      (if (line_no b = line_no a \<and> ?j div 4 = addr_word a) \<and> bit be (?j mod 4)
       then ucast (drop_bit (8 * (?j mod 4)) w) else memory_bytes L b)"
    unfolding masked_write_def same m slice_at_def ..
  show "memory_bytes (access_effect (StoreWord a be w) L) b = masked_write (memory_bytes L) a be w b"
  proof (cases "line_no b = line_no a")
    case True
    then have "memory_bytes (access_effect (StoreWord a be w) L) b = line_byte ?j (store_line a be w (L (line_no a)))"
      by (simp only: memory_bytes_def access_effect.simps fun_upd_same)
    also have "\<dots> = (if ?j div 4 = addr_word a \<and> bit be (?j mod 4) then ucast (drop_bit (8 * (?j mod 4)) w)
        else line_byte ?j (L (line_no a)))"
      by (simp only: store_line_def merge_byte [OF j] bit_adapt_enable [OF j] adapt_wdata_byte [OF j])
    finally show ?thesis using True by (simp only: mw memory_bytes_def simp_thms)
  next
    case False
    then show ?thesis by (simp only: mw memory_bytes_def access_effect.simps fun_upd_other simp_thms if_False)
  qed
qed

section \<open>The data memory\<close>

lemma answer_bytes: "answer q L v \<longleftrightarrow> byte_answer q (memory_bytes L) v"
  by (cases q) (simp_all add: load_word_bytes)

lemma effect_bytes: "memory_bytes (access_effect q L) = byte_effect q (memory_bytes L)"
  by (cases q) (simp_all only: store_word_bytes access_effect.simps(1) byte_effect.simps)

lemma memory_run_bytes: "memory_run L qs vs \<Longrightarrow> byte_run (memory_bytes L) qs vs (memory_bytes (fold access_effect qs L))"
  by (induction answer access_effect L qs vs rule: port_memory.induct) (simp_all add: answer_bytes effect_bytes del: access_effect.simps)

text \<open>Caches and memory out of reset.\<close>

definition fresh_cache :: cache where
  "fresh_cache = \<lparr> dirty_bits = (\<lambda>_ _. False), valid_bits = (\<lambda>_ _. False), tags = (\<lambda>_ _. 0), data_lines = (\<lambda>_ _. 0),
     cache_state = Hit, plru = (\<lambda>_. 0) \<rparr>"

definition fresh_stack :: data_memory where
  "fresh_stack = (fresh_cache, (IDLE, fresh_adaptor, fresh_memory), 0)"

lemma fresh_ready: "stack_ready fresh_stack (\<lambda>l. ucast l + 7)"
proof -
  have h: "\<not> holds_line fresh_cache {} l w" for l w by (simp add: holds_line_def fresh_cache_def)
  have "cache_inv fresh_cache {} {} M" for M using h by (simp add: cache_inv_def) (simp add: fresh_cache_def)
  moreover have "cache_view fresh_cache {} M = M" for M using h by (simp add: fun_eq_iff view_not_held)
  moreover have "path_contents (fresh_adaptor, fresh_memory) = (\<lambda>l. ucast l + 7)" "cache_state fresh_cache = Hit"
    by (simp_all add: fresh_cache_def)
  ultimately show ?thesis
    by (simp add: fresh_stack_def cached_ready_def d_side_contents_def del: path_ready.simps path_contents.simps)
qed

text \<open>
  C10: the data cache is a memory. Whatever accesses the pipeline makes to the cache, one after the
  other with idle cycles between them, each held until its response, the words delivered are
  those a plain byte memory delivers, and the bytes stored in cache and memory together change
  as in the byte memory: through hits, misses, replacement, write-back of dirty lines, refill, the arbiter,
  the adaptor and the bursts below, whatever the combinational signals settle to and whatever an
  instruction cache on the other side of the arbiter asks for. Afterwards the cache is at rest again.
\<close>

theorem data_cache_is_memory:
  assumes "stack_ready x L" and "run stack_step x qs vs x'"
  shows "\<exists>L'. stack_ready x' L' \<and> byte_run (memory_bytes L) qs vs (memory_bytes L')"
  using dcache.run_correct [OF assms(2,1)] memory_run_bytes by blast

text \<open>Two stores to the same word and a load of it, all of them misses or hits of the caches just out of reset.\<close>

theorem data_cache_is_memory_witness:
  "\<exists>v v' v'' x. run stack_step fresh_stack [StoreWord 64 0xf 0x11223344, StoreWord 65 2 0xaa00, LoadWord 66] [v, v', v''] x
     \<and> v'' = 0x1122aa44"
proof -
  obtain vs x where r: "run stack_step fresh_stack [StoreWord 64 0xf 0x11223344, StoreWord 65 2 0xaa00, LoadWord 66] vs x"
    using dcache.run_returns [OF fresh_ready] by blast
  from data_cache_is_memory [OF fresh_ready this] obtain L' where
    b: "byte_run (memory_bytes (\<lambda>l. ucast l + 7)) [StoreWord 64 0xf 0x11223344, StoreWord 65 2 0xaa00, LoadWord 66] vs (memory_bytes L')"
    by blast
  then obtain v v' v'' where vs: "vs = [v, v', v'']"
    using byte_run_length [OF b] by (auto simp: length_Suc_conv)
  from b have "v'' = word_at (masked_write (masked_write (memory_bytes (\<lambda>l. ucast l + 7)) 64 0xf 0x11223344) 65 2 0xaa00) 66"
    by (simp add: vs)
  also have "\<dots> = 0x1122aa44"
    by (simp add: word_at_bytes masked_write_def lane_def slice_at_def bit_simps le_word.simps)
  finally show ?thesis using r vs by blast
qed

text \<open>
  C17: the data cache answers. If the pipeline holds an access to a cache at rest until the
  response, the response comes within 472 cycles, even when a dirty line has to be written back
  before the refill and the arbiter serves the instruction cache first; it comes once, with the word of the byte memory, and leaves the cache at
  rest with the access carried out.
\<close>

theorem data_cache_answers:
  assumes "stack_ready (x 0) L" and "\<And>k. stack_step (x k) (i k) (resp k) (rdata k) (x (Suc k))"
    and "\<And>k. (\<forall>j<k. \<not> resp j) \<Longrightarrow> requests (i k) q"
  shows "\<exists>n\<le>472. resp n \<and> (\<forall>j<n. \<not> resp j) \<and> byte_answer q (memory_bytes L) (rdata n)
    \<and> (\<exists>L'. stack_ready (x (Suc n)) L' \<and> memory_bytes L' = byte_effect q (memory_bytes L))"
proof -
  have bound: "2 * (2 * (DELAY_MEM + 6) + 2) + 4 = 472" by (simp add: DELAY_MEM_def)
  from dcache.held_answered [where st = x and i = i and d = resp and v = rdata, OF assms] show ?thesis
    unfolding bound answer_bytes using effect_bytes by metis
qed

text \<open>A load of the fresh memory, held.\<close>

definition load_inputs :: "u32 \<Rightarrow> cache_in" where
  "load_inputs a = \<lparr> mem_address = a, mem_wdata = 0, mem_read = True, mem_write = False, mem_byte_enable = 0,
     pmem_rdata = 0, pmem_resp = False \<rparr>"

theorem data_cache_answers_witness:
  "\<exists>st resp rdata. st 0 = fresh_stack \<and> (\<forall>k. stack_step (st k) (load_inputs 64) (resp k) (rdata k) (st (Suc k)))
     \<and> (\<exists>n\<le>472. resp n \<and> rdata n = 9)"
proof -
  obtain st resp rdata where st: "st 0 = fresh_stack" "\<And>k. stack_step (st k) (load_inputs 64) (resp k) (rdata k) (st (Suc k))"
    using dcache.endless [of fresh_stack "\<lambda>_. load_inputs 64"] by metis
  have start: "stack_ready (st 0) (\<lambda>l. ucast l + 7)" by (simp only: st(1) fresh_ready)
  have ask: "requests (load_inputs 64) (LoadWord 64)" by (simp add: load_inputs_def)
  have "word_at (memory_bytes (\<lambda>l. ucast l + 7)) 64 = 9"
    by (simp add: flip: load_word_bytes) (simp add: adapt_rdata_def addr_word_def line_no_def drop_bit_eq_div)
  with data_cache_answers [where x = st and i = "\<lambda>_. load_inputs 64" and resp = resp and rdata = rdata, OF start st(2) ask]
  have "\<exists>n\<le>472. resp n \<and> rdata n = 9" by auto
  with st show ?thesis by blast
qed

section \<open>Memory instructions\<close>

text \<open>
  The connection of the memory stage to the cache: the address is the output of the arithmetic
  unit, the access that of the control word, data and byte enables those of the stage.
\<close>

definition stage_accesses :: "rv32i_control_word \<Rightarrow> 7 word \<Rightarrow> 3 word \<Rightarrow> ex_outputs \<Rightarrow> 4 word \<Rightarrow> 1 word \<Rightarrow> u32 \<Rightarrow> access list" where
  "stage_accesses cw op f3 ex be sel r =
     (if read_mem cw then [LoadWord (alu_out ex)]
      else if write_mem cw then
        [StoreWord (alu_out ex) (mem_byte_enable be op f3 (alu_out ex)) (wdata_out sel op f3 (alu_out ex) (rs2_out ex) r)]
      else [])"

lemma memory_after_load: "\<not> is_store i \<Longrightarrow> memory_after (isa_exec i pc x y m) = m"
  by (cases i) simp_all

text \<open>The word the memory stage hands on, of whatever was delivered.\<close>

fun delivered :: "u32 \<Rightarrow> u32 list \<Rightarrow> u32" where
  "delivered old [] = old"
| "delivered old (v # vs) = v"

text \<open>
  C9: instructions retire as the instruction set says, memory included. For every valid
  instruction whose access is aligned: the execute stage forms address and data, the memory
  stage byte enables and lanes, the data cache carries out the access, and the write-back stage
  picks its value; the value written to the destination register and the bytes of the memory
  afterwards are those of the instruction set, whatever is in flight, cached or held in
  multiplexers, and an instruction that does not access memory leaves it alone.
\<close>

theorem instruction_retires:
  assumes "holds_instr (encode i) pc old_cw hz inp" and "valid i" and "aligned_access i (operand1 hz inp)"
    and "rd_id_MemWb hz \<noteq> 0 \<longrightarrow> write_reg (control_word_MemWb hz)"
    and "stack_ready x L" and "ex = ex_stage h hz inp"
    and "run stack_step x (stage_accesses (control_word_IdEx hz) (opcode_out (encode i)) (funct3_out (encode i)) ex be sel r) vs x'"
    and "e = isa_exec i pc (operand1 hz inp) (operand2 hz inp) (memory_bytes L)"
  shows "(writes i \<longrightarrow> rd_value e = Some (regfilemux_out held' (control_word_IdEx hz) (cmp_out ex) (alu_out ex) pc (u_imm_in inp)
        (delivered old vs)))
    \<and> (\<exists>L'. stack_ready x' L' \<and> memory_bytes L' = memory_after e)"
proof -
  note cf = control_fields [OF assms(2) holds_fields(1) [OF assms(1,2)]]
  note wb = computed_writeback [OF ex_computed_free [OF assms(1,2), of h] assms(2) _ assms(3) cf(6),
      where m = "memory_bytes L" and held = held', folded assms(6,8)]
  from dcache.run_correct [OF assms(7,5)] memory_run_bytes obtain L' where L': "stack_ready x' L'"
    and b: "byte_run (memory_bytes L) (stage_accesses (control_word_IdEx hz) (opcode_out (encode i)) (funct3_out (encode i)) ex be sel r)
      vs (memory_bytes L')" by blast
  consider (load) "is_load i" "\<not> is_store i" | (store) "is_store i" "\<not> writes i" | (other) "\<not> is_load i" "\<not> is_store i"
    by (cases i) simp_all
  then show ?thesis
  proof cases
    case load
    then have "delivered old vs = word_at (memory_bytes L) (alu_out ex)" "memory_bytes L' = memory_bytes L"
      using b cf(9) by (cases vs; cases "tl vs"; auto simp: stage_accesses_def)+
    with wb L' memory_after_load [OF load(2)] show ?thesis by (auto simp: assms(8))
  next
    case store
    then obtain w rs1 rs2 v where i: "i = Store w rs1 rs2 v" by (cases i) simp_all
    have op: "opcode_out (encode i) = op_store" using opcode_encode [of i] i by simp
    then have "memory_bytes L' = masked_write (memory_bytes L) (alu_out ex) (mem_byte_enable be op_store (funct3_out (encode i)) (alu_out ex))
        (wdata_out sel op_store (funct3_out (encode i)) (alu_out ex) (rs2_out ex) r)"
      using b cf(9,10) i by (cases vs; cases "tl vs"; auto simp: stage_accesses_def)
    also have "\<dots> = memory_after e"
      using computed_store [OF ex_computed [OF assms(1,2,4), of h] store(1) assms(3)] assms(6,8) op by simp
    finally show ?thesis using L' store by blast
  next
    case other
    then have "memory_bytes L' = memory_bytes L" using b cf(9,10) by (cases vs) (auto simp: stage_accesses_def)
    with wb regfilemux_no_load [OF other(1) _ cf(6)] L' memory_after_load [OF other(2)] show ?thesis by (auto simp: assms(8))
  qed
qed

text \<open>A load of the word at 64 of the fresh memory.\<close>

theorem instruction_retires_witness:
  "\<exists>vs x'. run stack_step fresh_stack [LoadWord 64] vs x'
     \<and> regfilemux_out 0 (control_word_out idle_word (encode (Load Full False 5 1 4))) False 64 96 0 (delivered 0 vs) = 9"
proof -
  let ?i = "Load Full False 5 1 4" and ?w = "encode (Load Full False 5 1 4)"
  let ?ex = "ex_stage lone_held (lone_hazards ?w) (lone_inputs ?w 96 60 0)"
  let ?cw = "control_word_IdEx (lone_hazards ?w)"
  have b: "byte_offset 4 = 4" by (simp add: byte_offset_def)
  have cw: "?cw = control_word_out idle_word ?w" by (simp add: lone_hazards_def)
  have a: "alu_out ?ex = 64" using ex_alu [OF lone_holds [of ?w 96 60 0], where h = lone_held]
    by (simp add: lone_operands b del: execute_sel)
  have acc: "stage_accesses ?cw (opcode_out ?w) (funct3_out ?w) ?ex 0 0 0 = [LoadWord 64]"
    using control_fields(9) [of ?i ?cw idle_word, OF _ cw] by (simp add: stage_accesses_def a del: execute_sel)
  obtain vs x where r: "run stack_step fresh_stack [LoadWord 64] vs x" using dcache.run_returns [OF fresh_ready] by blast
  have nine: "isa_load Full False (memory_bytes (\<lambda>l. ucast l + 7)) 64 = 9"
  proof -
    have "isa_load Full False (memory_bytes (\<lambda>l. ucast l + 7)) 64 = word_at (memory_bytes (\<lambda>l. ucast l + 7)) 64"
      by (simp add: full_word_at aligned_def)
    also have "\<dots> = 9" by (simp add: flip: load_word_bytes) (simp add: adapt_rdata_def addr_word_def line_no_def drop_bit_eq_div)
    finally show ?thesis .
  qed
  have irrelevant: "regfilemux_out 0 ?cw c 64 96 u z = regfilemux_out 0 ?cw False 64 96 0 z" for c u z
    using control_fields(6) [of ?i ?cw idle_word, OF _ cw] by (simp add: regfilemux_out_def Let_def enum_defs)
  from r have "rd_value (isa_exec ?i 96 60 0 (memory_bytes (\<lambda>l. ucast l + 7))) =
      Some (regfilemux_out 0 ?cw (cmp_out ?ex) 64 96 (u_imm_in (lone_inputs ?w 96 60 0)) (delivered 0 vs))"
    using instruction_retires [OF lone_holds [of ?w 96 60 0] _ _ _ fresh_ready refl _ refl,
      where h = lone_held and be = 0 and sel = 0 and r = 0 and vs = vs and x' = x and held' = 0 and old = 0, unfolded acc a]
    by (simp add: lone_operands lone_memwb b aligned_def del: execute_sel)
  then have "regfilemux_out 0 ?cw (cmp_out ?ex) 64 96 (u_imm_in (lone_inputs ?w 96 60 0)) (delivered 0 vs) = 9"
    using nine by (simp add: b del: execute_sel)
  then have "regfilemux_out 0 ?cw False 64 96 0 (delivered 0 vs) = 9" by (simp only: irrelevant [of "cmp_out ?ex" "u_imm_in (lone_inputs ?w 96 60 0)"])
  with r show ?thesis unfolding cw by blast
qed

end
