(* ===== verification/Fetch_Cache.thy ===== *)
theory Fetch_Cache
  imports Data_Memory
begin

text \<open>
  Both caches on the arbiter, over any port for lines whose response is a function of its state: the data cache, and a second
  instance of the same cache that only reads, the instruction cache. \<open>Hierarchy\<close> has the wiring of the modules with the second level
  below the arbiter and shows that it is of this form. While the data cache stores nothing to the lines the
  instruction cache is asked for, what that one delivers is what was there at the start, however the two
  compete for the memory below.
\<close>

section \<open>The connection\<close>

type_synonym 's system = "cache \<times> cache \<times> arb_state \<times> 's"

text \<open>A cycle: the data cache with response \<open>dd\<close> and data \<open>vd\<close>, the instruction cache with \<open>df\<close> and \<open>vf\<close>.\<close>

inductive system_cycle for step :: "'s \<Rightarrow> port_in \<Rightarrow> 's" and resp :: "'s \<Rightarrow> bool" and rdata :: "'s \<Rightarrow> line" where
  cycle: "out = shared_out resp rdata x (cache_port cf jf ctlf) (cache_port cd jd ctld) \<Longrightarrow>
    jd = d\<lparr>pmem_rdata := d_cache_rdata out, pmem_resp := d_cache_mem_resp out\<rparr> \<Longrightarrow>
    jf = f\<lparr>pmem_rdata := i_cache_rdata out, pmem_resp := i_cache_mem_resp out\<rparr> \<Longrightarrow>
    settles cd jd ctld \<Longrightarrow> settles cf jf ctlf \<Longrightarrow>
    system_cycle step resp rdata (cd, cf, x) d f (done_out ctld) (cache_rdata cd jd ctld) (done_out ctlf) (cache_rdata cf jf ctlf)
      (cache_clock False cd jd ctld, cache_clock False cf jf ctlf,
       shared_step step resp rdata x (cache_port cf jf ctlf) (cache_port cd jd ctld))"

text \<open>The arbiter's outputs to the caches do not depend on their requests.\<close>

lemma rdata_routed:
  "d_cache_rdata (shared_out resp rdata x i d) = (if served resp D_CACHE_ALLOW x then rdata (snd x) else 0)"
  "i_cache_rdata (shared_out resp rdata x i d) = (if served resp I_CACHE_ALLOW x then rdata (snd x) else 0)"
  by (cases "fst x"; simp add: shared_out_def served_def arb_inputs_def state_actions.simps arb_defaults_def Let_def)+

lemma system_exists: "\<exists>dd vd df vf y'. system_cycle step resp rdata y d f dd vd df vf y'"
proof -
  obtain cd cf x where y: "y = (cd, cf, x)" by (metis surj_pair)
  define jd where "jd = d\<lparr>pmem_rdata := (if served resp D_CACHE_ALLOW x then rdata (snd x) else 0), pmem_resp := served resp D_CACHE_ALLOW x\<rparr>"
  define jf where "jf = f\<lparr>pmem_rdata := (if served resp I_CACHE_ALLOW x then rdata (snd x) else 0), pmem_resp := served resp I_CACHE_ALLOW x\<rparr>"
  obtain ctld ctlf where settled: "settles cd jd ctld" "settles cf jf ctlf" using cycle_settles by blast
  let ?out = "shared_out resp rdata x (cache_port cf jf ctlf) (cache_port cd jd ctld)"
  have "jd = d\<lparr>pmem_rdata := d_cache_rdata ?out, pmem_resp := d_cache_mem_resp ?out\<rparr>"
    "jf = f\<lparr>pmem_rdata := i_cache_rdata ?out, pmem_resp := i_cache_mem_resp ?out\<rparr>"
    by (simp_all only: jd_def jf_def rdata_routed shared_responses)
  from system_cycle.cycle [OF refl this settled] show ?thesis unfolding y by blast
qed

section \<open>The data cache in the system\<close>

lemma system_parts:
  assumes "system_cycle step resp rdata z d f dd vd df vf y" and "z = (cd, cf, x)"
  obtains jd jf ctld ctlf where
    "jd = d\<lparr>pmem_rdata := (if served resp D_CACHE_ALLOW x then rdata (snd x) else 0), pmem_resp := served resp D_CACHE_ALLOW x\<rparr>"
    "jf = f\<lparr>pmem_rdata := (if served resp I_CACHE_ALLOW x then rdata (snd x) else 0), pmem_resp := served resp I_CACHE_ALLOW x\<rparr>"
    "settles cd jd ctld" "settles cf jf ctlf" "dd = done_out ctld" "vd = cache_rdata cd jd ctld"
    "df = done_out ctlf" "vf = cache_rdata cf jf ctlf"
    "y = (cache_clock False cd jd ctld, cache_clock False cf jf ctlf,
       shared_step step resp rdata x (cache_port cf jf ctlf) (cache_port cd jd ctld))"
  using assms
proof (induction rule: system_cycle.induct)
  case (cycle out x' cf' jf ctlf cd' jd ctld d f)
  from cycle.prems(2) have e: "cd' = cd" "cf' = cf" "x' = x" by simp_all
  have out: "d_cache_rdata out = (if served resp D_CACHE_ALLOW x then rdata (snd x) else 0)"
    "d_cache_mem_resp out = served resp D_CACHE_ALLOW x"
    "i_cache_rdata out = (if served resp I_CACHE_ALLOW x then rdata (snd x) else 0)"
    "i_cache_mem_resp out = served resp I_CACHE_ALLOW x"
    by (simp_all only: cycle.hyps(1) rdata_routed shared_responses e)
  show ?case
    by (rule cycle.prems(1) [unfolded e, OF _ _ cycle.hyps(4,5) [unfolded e] refl refl refl refl refl])
      (simp_all only: cycle.hyps(2,3) out)
qed

text \<open>To the data cache the instruction cache is one of the readers it is proved to work with.\<close>

lemma data_side:
  assumes "jd = d\<lparr>pmem_rdata := (if served resp D_CACHE_ALLOW x then rdata (snd x) else 0), pmem_resp := served resp D_CACHE_ALLOW x\<rparr>"
    and "settles cd jd ctl" and "i_side_holds (x, p) i"
  shows "cached_step (d_side_step step resp rdata) (d_side_resp resp) (d_side_rdata resp rdata) (cd, (x, p)) d
    (done_out ctl) (cache_rdata cd jd ctl)
    (cache_clock False cd jd ctl, (shared_step step resp rdata x i (cache_port cd jd ctl), p_address i))"
proof -
  have "jd = port_inputs (d_side_resp resp) (d_side_rdata resp rdata) (x, p) d"
    by (simp add: assms(1) port_inputs_def d_side_resp_def d_side_rdata_def rdata_routed)
  from cached_step.cycle [OF this assms(2), of "d_side_step step resp rdata", OF d_side_step.cycle [OF assms(3)]] show ?thesis .
qed

section \<open>Lines that are not stored to\<close>

definition agrees :: "u32 set \<Rightarrow> lines \<Rightarrow> lines \<Rightarrow> bool" where
  "agrees C M K \<longleftrightarrow> (\<forall>a. line_no a \<in> C \<longrightarrow> M (line_no a) = K (line_no a))"

text \<open>
  No dirty entry of the data cache belongs to a line of \<open>C\<close>, nor does the entry being written back for
  an access to \<open>a\<close>; the entry being refilled is clean.
\<close>

definition clean_on :: "u32 set \<Rightarrow> cache \<Rightarrow> u32 \<Rightarrow> bool" where
  "clean_on C c a \<longleftrightarrow>
     (\<forall>w x. dirty_bits c w x \<longrightarrow> line_num (tags c w x) x \<notin> C)
     \<and> (cache_state c = Miss_dirty \<longrightarrow> line_num (tags c (victim c a) (addr_index a)) (addr_index a) \<notin> C)
     \<and> (cache_state c = Miss_clean \<longrightarrow> \<not> dirty_bits c (victim c a) (addr_index a))"

lemma clean_rest: "clean_on C c a \<Longrightarrow> cache_state c = Hit \<Longrightarrow> clean_on C c b"
  by (simp add: clean_on_def)

lemma clean_idle:
  assumes "clean_on C c a" and "settles c i ctl" and "cache_state c = Hit" and "\<not> accessed i"
  shows "clean_on C (cache_clock False c i ctl) a"
  using assms(1) cycle_idle(3) [OF assms(2-4)] by simp

text \<open>The memory below has the lines of \<open>C\<close> as the cache with the memory has them.\<close>

lemma below_agrees:
  assumes "cache_inv c X Y M" and "agrees C (cache_view c X M) K" and "\<And>w x. dirty_bits c w x \<Longrightarrow> line_num (tags c w x) x \<notin> C"
    and "\<And>w x. (w, x) \<in> Y \<Longrightarrow> line_num (tags c w x) x \<notin> C"
  shows "agrees C M K"
  unfolding agrees_def
proof (intro allI impI)
  fix a assume a: "line_no a \<in> C"
  let ?l = "line_no a"
  have v: "cache_view c X M ?l = K ?l" using assms(2) a by (simp add: agrees_def)
  show "M ?l = K ?l"
  proof (cases "\<exists>w. holds_line c X ?l w")
    case True
    then obtain w where w: "holds_line c X ?l w" ..
    then have l: "line_num (tags c w (line_set ?l)) (line_set ?l) = ?l" by (simp add: holds_line_def)
    have "\<not> dirty_bits c w (line_set ?l)" "(w, line_set ?l) \<notin> Y" using assms(3,4) l a by metis+
    with cache_invD(3) [OF assms(1) w] view_held [OF assms(1) w] v show ?thesis by simp
  next
    case False
    with v view_not_held [of c X ?l M] show ?thesis by simp
  qed
qed

lemma clean_progress:
  assumes "clean_on C c (access_addr q)" and "settles c i ctl" and "requests i q"
    and "\<And>a be w. q = StoreWord a be w \<Longrightarrow> line_no a \<notin> C"
  shows "clean_on C (cache_clock False c i ctl) (access_addr q)"
proof -
  let ?a = "access_addr q" and ?c = "cache_clock False c i ctl"
  let ?v = "victim c ?a" and ?x = "addr_index ?a"
  have a: "mem_address i = ?a" "accessed i" using requests_accessed [OF assms(3)] by simp_all
  note cl = assms(1) [unfolded clean_on_def]
  show ?thesis
  proof (cases "cache_state c")
    case Hit
    show ?thesis
    proof (cases "hit_check (present c ?a)")
      case True
      show ?thesis
      proof (cases q)
        case (LoadWord b)
        then obtain p where "?c = c\<lparr>plru := p\<rparr>" using cycle_hit_load(3) [OF assms(2) Hit] assms(3) a True by auto
        with cl Hit show ?thesis by (simp add: clean_on_def)
      next
        case (StoreWord b be w)
        let ?w = "hit_way (present c ?a)"
        obtain p D where c': "?c = c\<lparr>plru := p, dirty_bits := set_entry ?w ?x True (dirty_bits c), data_lines := D\<rparr>"
          using cycle_hit_store(3) [OF assms(2) Hit] assms(3) a True StoreWord by auto
        have "line_num (tags c ?w ?x) ?x = line_no ?a" using hit_way_hits [OF True] by (simp add: present_def line_no_addr)
        with assms(4) StoreWord have "line_num (tags c ?w ?x) ?x \<notin> C" by simp
        with cl Hit show ?thesis by (simp add: clean_on_def c')
      qed
    next
      case False
      have "?c = c\<lparr>cache_state := (if dirty_bits c ?v ?x then Miss_dirty else Miss_clean)\<rparr>"
        using cycle_miss(3) [OF assms(2) Hit a(2)] a(1) False by simp
      with cl show ?thesis by (simp add: clean_on_def)
    qed
  next
    case Miss_dirty
    have "?c = c\<lparr>cache_state := (if pmem_resp i then Miss_clean else Miss_dirty), dirty_bits := set_entry ?v ?x False (dirty_bits c)\<rparr>"
      using cycle_writing(6) [OF assms(2) Miss_dirty] a(1) by simp
    with cl Miss_dirty show ?thesis by (simp add: clean_on_def)
  next
    case Miss_clean
    obtain V D where c': "?c = c\<lparr>cache_state := (if pmem_resp i then Hit else Miss_clean), valid_bits := V,
        tags := set_entry ?v ?x (addr_tag ?a) (tags c), data_lines := D\<rparr>"
      using cycle_refill(5) [OF assms(2) Miss_clean a(2)] a(1) by auto
    have "(w, x) \<noteq> (?v, ?x)" if "dirty_bits c w x" for w x using cl Miss_clean that by auto
    with cl Miss_clean show ?thesis by (auto simp: clean_on_def c')
  qed
qed

section \<open>What the instruction cache reads\<close>

context line_port
begin

text \<open>While it is served, the memory has the lines of \<open>C\<close> as the data cache knows them.\<close>

lemma fetch_reads:
  assumes "cached_ready d_ready (d_side_contents contents) (c, (x, p)) L
      \<or> cached_serving d_ready (d_side_contents contents) d_serving b (c, (x, p)) q L n"
    and "clean_on C c (access_addr q)" and "agrees C L K" and "served resp I_CACHE_ALLOW x"
  shows "line_no p \<in> C \<longrightarrow> rdata (snd x) = K (line_no p)"
proof -
  obtain s where x: "x = (I_CACHE_ALLOW, s)" and r: "resp s" using assms(4) by (cases x) (simp add: served_def)
  have known: "line_no p \<in> C \<longrightarrow> rdata s = K (line_no p)" if "serving s (ReadLine p) M k" "agrees C M K" for M k
  proof (cases k)
    case 0
    with answers that show ?thesis by (auto simp: agrees_def)
  next
    case (Suc m)
    from progress [OF that(1) [unfolded Suc] port_asks(1)] r show ?thesis by simp
  qed
  have rest: ?thesis if "cached_ready d_ready (d_side_contents contents) (c, (x, p)) L"
  proof -
    have h: "cache_inv c {} {} (contents s)" "cache_view c {} (contents s) = L" and "d_ready (x, p)"
      using that x by (simp_all add: cached_ready_def d_side_contents_def)
    then obtain M k where M: "serving s (ReadLine p) M k" by (auto simp: x)
    have "agrees C (contents s) K"
      by (rule below_agrees [OF h(1)]) (use assms(2,3) h(2) in \<open>simp_all add: clean_on_def\<close>)
    with reading [OF M] known [OF M] show ?thesis by (simp add: x)
  qed
  show ?thesis
    using assms(1)
  proof
    assume "cached_serving d_ready (d_side_contents contents) d_serving b (c, (x, p)) q L n"
    then show ?thesis
    proof (cases rule: cached_serving.cases)
      case (writing M k)
      then obtain k' where M: "serving s (ReadLine p) M k'" by (auto simp: x)
      have "agrees C M K"
        by (rule below_agrees [OF writing(5)]) (use assms(2,3) writing(2,6) in \<open>auto simp: clean_on_def victim_entry_def\<close>)
      with known [OF M] show ?thesis by (simp add: x)
    next
      case (refilling M k)
      then obtain k' where M: "serving s (ReadLine p) M k'" by (auto simp: x)
      have "agrees C M K"
        by (rule below_agrees [OF refilling(5)]) (use assms(2,3) refilling(6) in \<open>auto simp: clean_on_def\<close>)
      with known [OF M] show ?thesis by (simp add: x)
    qed (use rest in blast)+
  qed (rule rest)
qed

end

section \<open>The instruction cache\<close>

text \<open>What a cache holds of the lines of \<open>C\<close>, outside the entries \<open>X\<close>, is as in \<open>K\<close>.\<close>

definition reads_on :: "u32 set \<Rightarrow> lines \<Rightarrow> cache \<Rightarrow> (way \<times> 3 word) set \<Rightarrow> bool" where
  "reads_on C K c X \<longleftrightarrow> (\<forall>l w. holds_line c X l w \<longrightarrow> l \<in> C \<longrightarrow> data_lines c w (line_set l) = K l)"

abbreviation refilled_with :: "way \<Rightarrow> 3 word \<Rightarrow> 24 word \<Rightarrow> line \<Rightarrow> cache_state \<Rightarrow> cache \<Rightarrow> cache" where
  "refilled_with v x t d st c \<equiv> c\<lparr>cache_state := st, valid_bits := set_entry v x True (valid_bits c),
     tags := set_entry v x t (tags c), data_lines := set_entry v x d (data_lines c)\<rparr>"

lemma reads_refilling:
  assumes "reads_on C K c {(v, x)}"
  shows "reads_on C K (refilled_with v x t d st c) {(v, x)}"
  unfolding reads_on_def
proof (intro allI impI)
  fix l w assume h: "holds_line (refilled_with v x t d st c) {(v, x)} l w" "l \<in> C"
  then have "holds_line c {(v, x)} l w" "(w, line_set l) \<noteq> (v, x)" by (auto simp: holds_line_def)
  with assms h(2) show "data_lines (refilled_with v x t d st c) w (line_set l) = K l" by (auto simp: reads_on_def)
qed

lemma reads_refilled:
  assumes "reads_on C K c {(v, x)}" and "line_num t x \<in> C \<Longrightarrow> d = K (line_num t x)"
  shows "reads_on C K (refilled_with v x t d st c) {}"
  unfolding reads_on_def
proof (intro allI impI)
  fix l w assume h: "holds_line (refilled_with v x t d st c) {} l w" "l \<in> C"
  show "data_lines (refilled_with v x t d st c) w (line_set l) = K l"
  proof (cases "(w, line_set l) = (v, x)")
    case True
    with h(1) have "l = line_num t x" by (auto simp: holds_line_def)
    with True assms(2) h(2) show ?thesis by simp
  next
    case False
    with h(1) have "holds_line c {(v, x)} l w" by (auto simp: holds_line_def)
    with assms(1) h(2) False show ?thesis by (auto simp: reads_on_def)
  qed
qed

text \<open>
  The lines of \<open>C\<close> it holds are those of \<open>K\<close>, except for the entry that is being refilled; nothing is
  dirty; and when the arbiter serves it, it is refilling the line of the program counter \<open>pc\<close>.
\<close>

definition fetch_at :: "u32 set \<Rightarrow> lines \<Rightarrow> cache \<Rightarrow> arb_state \<Rightarrow> u32 \<Rightarrow> u32 \<Rightarrow> bool" where
  "fetch_at C K c st p pc \<longleftrightarrow>
     cache_state c \<noteq> Miss_dirty \<and> (\<forall>w x. \<not> dirty_bits c w x)
     \<and> (st = I_CACHE_ALLOW \<longrightarrow> cache_state c = Miss_clean \<and> p = req_addr (refill_request pc))
     \<and> reads_on C K c (if cache_state c = Miss_clean then {victim_entry c pc} else {})"

lemma refill_address: "req_addr (refill_request a) = word_cat (ucast (drop_bit 5 a) :: 27 word) (0 :: 5 word)"
  by (simp add: refill_request_def)

lemma line_no_refill: "line_no (req_addr (refill_request a)) = line_no a"
  by (simp add: refill_address line_no_aligned)

text \<open>One cycle of it: what it asks, what it delivers, and how it goes on.\<close>

lemma fetch_port:
  assumes "fetch_at C K c (fst x) p pc" and "settles c i ctl" and "requests i (LoadWord pc)"
  shows "i_side_holds (x, p) (cache_port c i ctl)"
    and "p_read (cache_port c i ctl) \<longleftrightarrow> cache_state c = Miss_clean"
    and "p_read (cache_port c i ctl) \<Longrightarrow> p_address (cache_port c i ctl) = req_addr (refill_request pc)"
proof -
  have i: "mem_address i = pc" "accessed i" using assms(3) by simp_all
  note f = settles_fields [OF assms(2)]
  show r: "p_read (cache_port c i ctl) \<longleftrightarrow> cache_state c = Miss_clean" using f(12) by (simp add: cache_port_def)
  show a: "p_address (cache_port c i ctl) = req_addr (refill_request pc)" if "p_read (cache_port c i ctl)"
    using cycle_refill(4) [OF assms(2) _ i(2)] that r by (simp add: i refill_address)
  have "\<not> p_write (cache_port c i ctl)" using f(13) assms(1) by (simp add: cache_port_def fetch_at_def)
  with a r assms(1) show "i_side_holds (x, p) (cache_port c i ctl)"
    by (cases x) (simp add: fetch_at_def)
qed

lemma fetch_answer:
  assumes "fetch_at C K c st p pc" and "settles c i ctl" and "requests i (LoadWord pc)" and "done_out ctl" and "line_no pc \<in> C"
  shows "cache_rdata c i ctl = adapt_rdata pc (K (line_no pc))"
proof -
  have i: "mem_address i = pc" "mem_read i" using assms(3) by simp_all
  have st: "cache_state c = Hit" using settles_fields(14) [OF assms(2)] assms(4) by simp
  have h: "hit_check (present c pc)" using cycle_miss(1) [OF assms(2) st] i assms(4) by auto
  let ?w = "hit_way (present c pc)"
  have "holds_line c {} (line_no pc) ?w" using hit_way_hits [OF h] by (simp add: present_holds)
  moreover have "reads_on C K c {}" using assms(1) st by (simp add: fetch_at_def)
  ultimately have "data_lines c ?w (line_set (line_no pc)) = K (line_no pc)" using assms(5) unfolding reads_on_def by blast
  with cycle_hit_load(4) [OF assms(2) st i(2)] h show ?thesis by (simp add: i)
qed

text \<open>The arbiter serves it in the next cycle only when it asks and has not just been answered.\<close>

lemma fetch_granted:
  assumes "fetch_at C K c (fst x) p pc" and "settles c i ctl" and "requests i (LoadWord pc)"
    and "pmem_resp i \<longleftrightarrow> served resp I_CACHE_ALLOW x"
    and "fst (shared_step step resp rdata x (cache_port c i ctl) d) = I_CACHE_ALLOW"
  shows "p_read (cache_port c i ctl) \<and> \<not> pmem_resp i"
proof -
  note f = assms(1) [unfolded fetch_at_def] and port = fetch_port [OF assms(1-3)] and that = assms(5)
  show ?thesis
  proof (cases "fst x")
    case IDLE
    with that assms(4) show ?thesis by (auto simp: idle_state(1) served_def split: if_splits)
  next
    case I_CACHE_ALLOW
    with that f assms(4) port(2) show ?thesis by (auto simp: granted_state served_def split: if_splits)
  next
    case D_CACHE_ALLOW
    with that show ?thesis by (simp add: granted_state split: if_splits)
  qed
qed

lemma fetch_goes_on:
  assumes "fetch_at C K c (fst x) p pc" and "settles c i ctl" and "requests i (LoadWord pc)"
    and "pmem_resp i \<longleftrightarrow> served resp I_CACHE_ALLOW x"
    and "served resp I_CACHE_ALLOW x \<Longrightarrow> line_no pc \<in> C \<Longrightarrow> pmem_rdata i = K (line_no pc)"
    and "\<not> done_out ctl \<Longrightarrow> pc' = pc"
  shows "fetch_at C K (cache_clock False c i ctl) (fst (shared_step step resp rdata x (cache_port c i ctl) d))
    (p_address (cache_port c i ctl)) pc'"
proof -
  let ?c = "cache_clock False c i ctl"
  have i: "mem_address i = pc" "accessed i" "mem_read i" using assms(3) by simp_all
  note f = assms(1) [unfolded fetch_at_def] and port = fetch_port [OF assms(1-3)]
  note grant = fetch_granted [OF assms(1-4)]
  show ?thesis
  proof (cases "cache_state c")
    case Hit
    show ?thesis
    proof (cases "hit_check (present c pc)")
      case True
      then obtain q where c': "?c = c\<lparr>plru := q\<rparr>" using cycle_hit_load(3) [OF assms(2) Hit i(3)] i(1) by auto
      with f Hit grant port(2) show ?thesis by (auto simp: fetch_at_def reads_on_def)
    next
      case False
      have c': "?c = c\<lparr>cache_state := Miss_clean\<rparr>" "\<not> done_out ctl"
        using cycle_miss(1,3) [OF assms(2) Hit i(2)] i(1) False f by simp_all
      have "fst (shared_step step resp rdata x (cache_port c i ctl) d) \<noteq> I_CACHE_ALLOW" using grant Hit port(2) by auto
      with f Hit assms(6) c' show ?thesis by (auto simp: fetch_at_def reads_on_def holds_exclude [of c] victim_entry_def)
    qed
  next
    case Miss_clean
    let ?v = "victim c pc" and ?x = "addr_index pc"
    note cy = cycle_refill [OF assms(2) Miss_clean i(2), unfolded i(1)]
    have pc: "pc' = pc" using assms(6) cy(1) by simp
    have pa: "p_address (cache_port c i ctl) = req_addr (refill_request pc)" using port(2,3) Miss_clean by simp
    have old: "reads_on C K c {(?v, ?x)}" using f Miss_clean by (simp add: victim_entry_def)
    have ln: "line_num (addr_tag pc) ?x = line_no pc" by (simp add: line_no_addr)
    show ?thesis
    proof (cases "pmem_resp i")
      case False
      then have c': "?c = refilled_with ?v ?x (addr_tag pc) (pmem_rdata i) Miss_clean c" using cy(5) by simp
      from reads_refilling [OF old, where t = "addr_tag pc" and d = "pmem_rdata i" and st = Miss_clean] f pc pa show ?thesis
        by (simp add: fetch_at_def c' victim_entry_def)
    next
      case True
      then have c': "?c = refilled_with ?v ?x (addr_tag pc) (pmem_rdata i) Hit c" using cy(5) by simp
      have "reads_on C K ?c {}"
        unfolding c' by (rule reads_refilled [OF old]) (use True assms(4,5) ln in simp)
      moreover have "fst (shared_step step resp rdata x (cache_port c i ctl) d) \<noteq> I_CACHE_ALLOW" using grant True by blast
      ultimately show ?thesis using f by (simp add: fetch_at_def c')
    qed
  qed (use f in simp)
qed

end
