(* ===== verification/Fetch_Progress.thy ===== *)
theory Fetch_Progress
  imports Fetch_Cache
begin

text \<open>
  The instruction cache answers: as long as the data cache has nothing to ask for, a fetch that is held is
  answered within the time of one transfer and three more cycles.
\<close>

section \<open>How far a fetch is\<close>

text \<open>
  The word is there; or the miss has yet to be seen, the grant is yet to come, or the line is being transferred.
\<close>

definition fetching :: "('s \<Rightarrow> bool) \<Rightarrow> ('s \<Rightarrow> request \<Rightarrow> lines \<Rightarrow> nat \<Rightarrow> bool) \<Rightarrow> nat \<Rightarrow> cache \<Rightarrow> arb_state \<times> 's \<Rightarrow> u32 \<Rightarrow> nat \<Rightarrow> bool" where
  "fetching ready serving bound c x pc n \<longleftrightarrow>
     (if fst x = I_CACHE_ALLOW
      then cache_state c = Miss_clean \<and> (\<exists>L k. serving (snd x) (refill_request pc) L k \<and> k < n)
      else fst x = IDLE \<and> ready (snd x)
        \<and> (cache_state c = Hit \<and> hit_check (present c pc) \<or> cache_state c = Hit \<and> bound + 3 \<le> n
           \<or> cache_state c = Miss_clean \<and> bound + 2 \<le> n))"

context line_port
begin

lemma fetching_starts:
  assumes "d_ready (x, p)" and "fetch_at C K c (fst x) p pc"
  shows "fetching ready serving bound c x pc (bound + 3)"
proof (cases x)
  case (Pair st s)
  note f = assms(2) [unfolded fetch_at_def]
  have "cache_state c = Hit \<or> cache_state c = Miss_clean" using f by (cases "cache_state c") simp_all
  moreover have "\<exists>L k. serving s (refill_request pc) L k \<and> k < bound + 3" if st: "st = I_CACHE_ALLOW"
  proof -
    obtain L k where "k \<le> bound" "serving s (ReadLine p) L k" using assms(1) unfolding Pair st by auto
    with f st show ?thesis by (intro exI [of _ L] exI [of _ k]) (simp add: Pair refill_request_def)
  qed
  ultimately show ?thesis using f assms(1) by (cases st) (auto simp: Pair fetching_def)
qed

lemma fetching_goes_on:
  assumes "fetching ready serving bound c x pc n" and "fetch_at C K c (fst x) p pc" and "settles c i ctl"
    and "requests i (LoadWord pc)" and "pmem_resp i \<longleftrightarrow> served resp I_CACHE_ALLOW x" and "quiet d" and "\<not> done_out ctl"
  shows "\<exists>m<n. fetching ready serving bound (cache_clock False c i ctl) (shared_step step resp rdata x (cache_port c i ctl) d) pc m"
proof -
  have i: "mem_address i = pc" "accessed i" "mem_read i" using assms(4) by simp_all
  let ?c = "cache_clock False c i ctl" and ?x = "shared_step step resp rdata x (cache_port c i ctl) d"
  note f = assms(2) [unfolded fetch_at_def] and port = fetch_port [OF assms(2-4)]
  obtain st s where x: "x = (st, s)" by (cases x)
  have none: "\<not> hit_check (present c pc)" if "cache_state c = Hit"
    using cycle_hit_load(1) [OF assms(3) that i(3)] assms(7) i(1) by auto
  note refill = cycle_refill(5) [OF assms(3) _ i(2), unfolded i(1)]
  show ?thesis
  proof (cases "st = I_CACHE_ALLOW")
    case True
    then obtain L k where c: "cache_state c = Miss_clean" and k: "serving s (refill_request pc) L k" "k < n"
      using assms(1) by (auto simp: fetching_def x)
    have p: "refill_request pc = ReadLine p" using f True by (simp add: x refill_request_def)
    have "i_side_holds ((I_CACHE_ALLOW, s), p) (cache_port c i ctl)" using port(1) True by (simp only: x)
    from k(1) [unfolded p] this show ?thesis
    proof (cases rule: i_side_cycle [where d = d])
      case 1
      from answers [of s "ReadLine p" L] k(1) p 1(1) have "pmem_resp i" using assms(5) True by (simp add: x served_def)
      then have "cache_state ?c = Hit" "hit_check (present ?c pc)"
        using refill [OF c] by (auto simp: hit_check_iff present_def)
      with 1 True k(2) show ?thesis by (intro exI [of _ 0]) (simp add: x fetching_def)
    next
      case (2 m)
      from progress [OF _ port_asks(1) [of p], of s L m] k(1) have "\<not> resp s" by (simp add: p 2(1))
      then have "cache_state ?c = Miss_clean" using refill [OF c] assms(5) True by (simp add: x served_def)
      with 2 True k(2) p show ?thesis by (intro exI [of _ "Suc m"]) (auto simp: x fetching_def)
    qed
  next
    case False
    then have s: "st = IDLE" "ready s" using assms(1) by (simp_all add: fetching_def x)
    have nr: "\<not> pmem_resp i" using assms(5) s(1) by (simp add: x served_def)
    note y = idle_cycle [OF s(2), of "cache_port c i ctl" d]
    consider (hit) "cache_state c = Hit" "bound + 3 \<le> n" | (miss) "cache_state c = Miss_clean" "bound + 2 \<le> n"
      using assms(1) False none by (auto simp: fetching_def x)
    then show ?thesis
    proof cases
      case hit
      have "cache_state ?c = Miss_clean" using cycle_miss(3) [OF assms(3) hit(1) i(2)] i(1) none [OF hit(1)] f by simp
      moreover have "fst ?x = IDLE" using port(2) hit(1) assms(6) s(1) by (simp add: x idle_state)
      ultimately show ?thesis using y hit(2) s(1) by (intro exI [of _ "bound + 2"]) (simp add: x fetching_def)
    next
      case miss
      have "cache_state ?c = Miss_clean" using refill [OF miss(1)] nr by simp
      moreover have "fst ?x = I_CACHE_ALLOW" using port(2) miss(1) assms(6) s(1) by (simp add: x idle_state)
      moreover obtain k where "k \<le> bound" "serving (snd ?x) (refill_request pc) (contents (snd ?x)) k"
        using accepts [of "snd ?x"] y s(1) by (auto simp: x)
      ultimately show ?thesis using miss(2) by (intro exI [of _ "Suc k"]) (auto simp: fetching_def)
    qed
  qed
qed

end

section \<open>A data cache that has answered\<close>

text \<open>Its access hits, or there is none; as long as the access stays the same it asks for nothing.\<close>

fun served_by :: "cache \<Rightarrow> access option \<Rightarrow> bool" where
  "served_by c None \<longleftrightarrow> cache_state c = Hit"
| "served_by c (Some q) \<longleftrightarrow> cache_state c = Hit \<and> hit_check (present c (access_addr q))"

lemma answering_served: "settles c i ctl \<Longrightarrow> requests i q \<Longrightarrow> done_out ctl \<Longrightarrow> served_by c (Some q)"
  using settles_fields(14) [of c i ctl] cycle_miss(1) [of c i ctl] requests_accessed [of i q] by auto

lemma served_hit:
  assumes "served_by c (Some q)" and "settles c i ctl" and "requests i q"
  shows "done_out ctl" "quiet (cache_port c i ctl)" "served_by (cache_clock False c i ctl) (Some q)"
proof -
  have "done_out ctl \<and> quiet (cache_port c i ctl) \<and> served_by (cache_clock False c i ctl) (Some q)"
  proof (cases q)
    case (LoadWord a)
    with assms show ?thesis using cycle_hit_load(1-3) [of c i ctl] by (auto simp: hit_check_iff present_def)
  next
    case (StoreWord a be w)
    with assms show ?thesis using cycle_hit_store(1-3) [of c i ctl] by (auto simp: hit_check_iff present_def)
  qed
  then show "done_out ctl" "quiet (cache_port c i ctl)" "served_by (cache_clock False c i ctl) (Some q)" by simp_all
qed

end
