(* ===== verification/Cache_8way.thy ===== *)
theory Cache_8way
  imports Line_Sets
begin

text \<open>
  \<open>hdl/memory/eight_way_sa_cache\<close>: the eight-way cache of whole lines, a second level behind the
  word-wide caches. It asks and is asked through line ports, so its inputs from above are a
  \<open>port_in\<close>: \<open>mem_read\<close>, \<open>mem_write\<close>, \<open>mem_address\<close> and \<open>mem_wdata\<close> are \<open>p_read\<close> to \<open>p_wdata\<close>.

  Unlike those of the four-way cache its arrays deliver what they read in the next cycle, from a
  register: a state \<open>stall\<close> waits for them, and no combinational cycle passes through them. As
  there, an array is a function of the way, numbered from 0, and so are the signals; the read
  enables are constant 1.
\<close>

section \<open>Arrays\<close>

type_synonym way8 = "3 word"

text \<open>The memory \<open>data\<close> of an array and the register \<open>_dataout\<close> behind its output.\<close>

record 'a sram =
  cells :: "set_index \<Rightarrow> 'a"
  reg_out :: 'a

definition modular_array :: "bool \<Rightarrow> bool \<Rightarrow> bool \<Rightarrow> set_index \<Rightarrow> set_index \<Rightarrow> 'a \<Rightarrow> 'a \<Rightarrow> 'a sram \<Rightarrow> 'a sram" where
  "modular_array rst read load rindex windex zero datain a =
     (if rst then a\<lparr>cells := (\<lambda>_. zero)\<rparr>
      else \<lparr> cells = (if load then (cells a)(windex := datain) else cells a),
             reg_out = (if read then (if load \<and> rindex = windex then datain else cells a rindex) else reg_out a) \<rparr>)"

definition modular_data_array :: "bool \<Rightarrow> bool \<Rightarrow> set_index \<Rightarrow> set_index \<Rightarrow> line \<Rightarrow> line sram \<Rightarrow> line sram" where
  "modular_data_array read write_en rindex windex datain a =
     \<lparr> cells = (cells a)(windex := (if write_en then datain else cells a windex)),
       reg_out = (if read then (if write_en \<and> rindex = windex then datain else cells a rindex) else reg_out a) \<rparr>"

section \<open>Controller\<close>

datatype modular_state = Stall8 | Hit8 | Miss_clean8 | Miss_dirty8

record cntrl8 =
  which_tag8 :: way8
  new_address_sel8 :: bool
  valid_in8 :: "way8 \<Rightarrow> bool"
  LRU_in8 :: "7 word"
  Dirty_load8 :: "way8 \<Rightarrow> bool"
  LRU_load8 :: bool
  tag_array_load8 :: "way8 \<Rightarrow> bool"
  valid_load8 :: "way8 \<Rightarrow> bool"
  write_sel_way8 :: "way8 \<Rightarrow> bool"
  write_read_sel8 :: "way8 \<Rightarrow> bool"
  cacheline_sel8 :: way8
  Dirty_in8 :: "way8 \<Rightarrow> bool"
  pmem_read8 :: bool
  pmem_write8 :: bool
  done8 :: bool

definition put_bit :: "nat \<Rightarrow> bool \<Rightarrow> 7 word \<Rightarrow> 7 word" where
  "put_bit n b l = (if b then Bit_Operations.set_bit n l else unset_bit n l)"

definition load_PLRU8 :: "(way8 \<Rightarrow> bool) \<Rightarrow> 7 word \<Rightarrow> 7 word" where
  "load_PLRU8 h l =
     (if h 0 then put_bit 0 False (put_bit 1 False (put_bit 3 False l))
      else if h 1 then put_bit 0 True (put_bit 1 False (put_bit 3 False l))
      else if h 2 then put_bit 2 False (put_bit 1 True (put_bit 3 False l))
      else if h 3 then put_bit 2 True (put_bit 1 True (put_bit 3 False l))
      else if h 4 then put_bit 4 False (put_bit 5 False (put_bit 3 True l))
      else if h 5 then put_bit 4 True (put_bit 5 False (put_bit 3 True l))
      else if h 6 then put_bit 6 False (put_bit 5 True (put_bit 3 True l))
      else if h 7 then put_bit 6 True (put_bit 5 True (put_bit 3 True l))
      else l)"

definition which_replace8 :: "7 word \<Rightarrow> way8" where
  "which_replace8 PLRU =
     (let temp = NOT PLRU in
      if bit temp 3
      then (if \<not> bit temp 5 then (if \<not> bit temp 4 then 4 else 5) else (if \<not> bit temp 6 then 6 else 7))
      else (if \<not> bit temp 1 then (if \<not> bit temp 0 then 0 else 1) else (if \<not> bit temp 2 then 2 else 3)))"

definition which_dirty8 :: "way8 \<Rightarrow> (way8 \<Rightarrow> bool) \<Rightarrow> bool" where
  "which_dirty8 replace d = d replace"

text \<open>\<open>set_defaults\<close> does not assign the \<open>Dirty_in\<close> signals: they are latches, with any old value.\<close>

definition cntrl8_defaults :: "cntrl8 \<Rightarrow> way8 \<Rightarrow> cntrl8" where
  "cntrl8_defaults held replace =
     \<lparr> which_tag8 = replace, new_address_sel8 = False, valid_in8 = (\<lambda>_. False), LRU_in8 = 0, Dirty_load8 = (\<lambda>_. False),
       LRU_load8 = False, tag_array_load8 = (\<lambda>_. False), valid_load8 = (\<lambda>_. False), write_sel_way8 = (\<lambda>_. False),
       write_read_sel8 = (\<lambda>_. False), cacheline_sel8 = 0, Dirty_in8 = Dirty_in8 held, pmem_read8 = False, pmem_write8 = False,
       done8 = False \<rparr>"

definition hit_check8 :: "(way8 \<Rightarrow> bool) \<Rightarrow> bool" where
  "hit_check8 h = (h 0 \<or> h 1 \<or> h 2 \<or> h 3 \<or> h 4 \<or> h 5 \<or> h 6 \<or> h 7)"

definition hit_way8 :: "(way8 \<Rightarrow> bool) \<Rightarrow> way8" where
  "hit_way8 h = (if h 0 then 0 else if h 1 then 1 else if h 2 then 2 else if h 3 then 3
     else if h 4 then 4 else if h 5 then 5 else if h 6 then 6 else 7)"

definition cntrl8_comb :: "cntrl8 \<Rightarrow> modular_state \<Rightarrow> bool \<Rightarrow> bool \<Rightarrow> (way8 \<Rightarrow> bool) \<Rightarrow> 7 word \<Rightarrow> cntrl8" where
  "cntrl8_comb held st rd wr h lru =
     (let replace_which_way = which_replace8 lru;
          d = cntrl8_defaults held replace_which_way
      in case st of
           Stall8 \<Rightarrow> d
         | Hit8 \<Rightarrow>
             if \<not> hit_check8 h then d
             else
               let d = d\<lparr>LRU_load8 := True, LRU_in8 := load_PLRU8 h lru\<rparr>;
                   w = hit_way8 h;
                   d = (if rd then d\<lparr>cacheline_sel8 := w\<rparr>
                        else if wr
                        then d\<lparr>Dirty_in8 := (Dirty_in8 d)(w := True), Dirty_load8 := (Dirty_load8 d)(w := True),
                               write_read_sel8 := (write_read_sel8 d)(w := True), write_sel_way8 := (write_sel_way8 d)(w := True),
                               cacheline_sel8 := w\<rparr>
                        else d)
               in d\<lparr>done8 := True\<rparr>
         | Miss_clean8 \<Rightarrow>
             let d = d\<lparr>pmem_read8 := True\<rparr>; w = replace_which_way
             in if rd \<or> wr
                then d\<lparr>cacheline_sel8 := w, tag_array_load8 := (tag_array_load8 d)(w := True), valid_load8 := (valid_load8 d)(w := True),
                       valid_in8 := (valid_in8 d)(w := True), write_sel_way8 := (write_sel_way8 d)(w := True)\<rparr>
                else d
         | Miss_dirty8 \<Rightarrow>
             let w = replace_which_way
             in d\<lparr>pmem_write8 := True, new_address_sel8 := True, cacheline_sel8 := w,
                  Dirty_in8 := (Dirty_in8 d)(w := False), Dirty_load8 := (Dirty_load8 d)(w := True)\<rparr>)"

definition next_state8 :: "modular_state \<Rightarrow> bool \<Rightarrow> bool \<Rightarrow> bool \<Rightarrow> bool \<Rightarrow> bool \<Rightarrow> modular_state" where
  "next_state8 st rd wr hit dirty mem_resp_cache =
     (case st of
        Stall8 \<Rightarrow> if rd \<or> wr then Hit8 else Stall8
      | Hit8 \<Rightarrow> if hit then Stall8 else if \<not> dirty then Miss_clean8 else Miss_dirty8
      | Miss_dirty8 \<Rightarrow> if \<not> mem_resp_cache then Miss_dirty8 else Miss_clean8
      | Miss_clean8 \<Rightarrow> if \<not> mem_resp_cache then Miss_clean8 else Hit8)"

section \<open>Datapath\<close>

record modular_cache =
  curr_state8 :: modular_state
  dirty_array :: "way8 \<Rightarrow> bool sram"
  valid_array :: "way8 \<Rightarrow> bool sram"
  tag_array :: "way8 \<Rightarrow> tag sram"
  PLRU_array :: "7 word sram"
  data_array :: "way8 \<Rightarrow> line sram"

definition hits8 :: "modular_cache \<Rightarrow> port_in \<Rightarrow> way8 \<Rightarrow> bool" where
  "hits8 c i w = (addr_tag (p_address i) = reg_out (tag_array c w) \<and> reg_out (valid_array c w))"

definition data_in8 :: "cntrl8 \<Rightarrow> port_in \<Rightarrow> line \<Rightarrow> way8 \<Rightarrow> line" where
  "data_in8 ctl i cacheline_in w = (if write_read_sel8 ctl w then p_wdata i else cacheline_in)"

definition new_address8 :: "modular_cache \<Rightarrow> port_in \<Rightarrow> cntrl8 \<Rightarrow> u32" where
  "new_address8 c i ctl =
     (if new_address_sel8 ctl
      then word_cat (reg_out (tag_array c (which_tag8 ctl))) (word_cat (addr_index (p_address i)) (0 :: 5 word) :: 8 word)
      else word_cat (ucast (drop_bit 5 (p_address i)) :: 27 word) (0 :: 5 word))"

definition cacheline_out8 :: "modular_cache \<Rightarrow> cntrl8 \<Rightarrow> line" where
  "cacheline_out8 c ctl = reg_out (data_array c (cacheline_sel8 ctl))"

section \<open>The cache\<close>

text \<open>Controller and datapath connected; \<open>pmem_rdata\<close> and \<open>pmem_resp\<close> come from the level below.\<close>

definition modular_ctl :: "cntrl8 \<Rightarrow> modular_cache \<Rightarrow> port_in \<Rightarrow> cntrl8" where
  "modular_ctl held c i = cntrl8_comb held (curr_state8 c) (p_read i) (p_write i) (hits8 c i) (reg_out (PLRU_array c))"

definition modular_port :: "modular_cache \<Rightarrow> port_in \<Rightarrow> cntrl8 \<Rightarrow> port_in" where
  "modular_port c i ctl =
     \<lparr> p_read = pmem_read8 ctl, p_write = pmem_write8 ctl, p_address = new_address8 c i ctl, p_wdata = cacheline_out8 c ctl \<rparr>"

definition modular_clock :: "bool \<Rightarrow> modular_cache \<Rightarrow> port_in \<Rightarrow> cntrl8 \<Rightarrow> line \<Rightarrow> bool \<Rightarrow> modular_cache" where
  "modular_clock rst c i ctl pmem_rdata pmem_resp =
     (let x = addr_index (p_address i) in
      \<lparr> curr_state8 = (if rst then Stall8
          else next_state8 (curr_state8 c) (p_read i) (p_write i) (hit_check8 (hits8 c i))
            (which_dirty8 (which_replace8 (reg_out (PLRU_array c))) (\<lambda>w. reg_out (dirty_array c w))) pmem_resp),
        dirty_array = (\<lambda>w. modular_array rst True (Dirty_load8 ctl w) x x False (Dirty_in8 ctl w) (dirty_array c w)),
        valid_array = (\<lambda>w. modular_array rst True (valid_load8 ctl w) x x False (valid_in8 ctl w) (valid_array c w)),
        tag_array = (\<lambda>w. modular_array rst True (tag_array_load8 ctl w) x x 0 (addr_tag (p_address i)) (tag_array c w)),
        PLRU_array = modular_array rst True (LRU_load8 ctl) x x 0 (LRU_in8 ctl) (PLRU_array c),
        data_array = (\<lambda>w. modular_data_array True (write_sel_way8 ctl w) x x (data_in8 ctl i pmem_rdata w) (data_array c w)) \<rparr>)"

end
