(* ===== verification/Cache8_Cycles.thy ===== *)
theory Cache8_Cycles
  imports Cache_8way
begin

text \<open>
  What one cycle of the eight-way cache does, state by state, in terms of its arrays as
  \<open>line_sets\<close>. The output registers hold what was read of the set of the last address, so all of
  this is for an address that was there a cycle ago.
\<close>

section \<open>Ways\<close>

lemma way8_cases: "(w :: way8) = 0 \<or> w = 1 \<or> w = 2 \<or> w = 3 \<or> w = 4 \<or> w = 5 \<or> w = 6 \<or> w = 7"
proof -
  have "unat w < 8" using unsigned_less [of w] by simp
  then have "unat w \<in> {0, 1, 2, 3, 4, 5, 6, 7}" by auto
  then show ?thesis by (auto simp: word_unat_eq_iff)
qed

lemma hit_check8_iff: "hit_check8 h \<longleftrightarrow> (\<exists>w. h w)"
  unfolding hit_check8_def using way8_cases by metis

lemma hit_way8_hits: "hit_check8 h \<Longrightarrow> h (hit_way8 h)"
  by (auto simp: hit_check8_def hit_way8_def)

section \<open>The arrays and their registers\<close>

definition sets8 :: "modular_cache \<Rightarrow> way8 line_sets" where
  "sets8 c =
     \<lparr> dirty_bits = (\<lambda>w. cells (dirty_array c w)), valid_bits = (\<lambda>w. cells (valid_array c w)),
       tags = (\<lambda>w. cells (tag_array c w)), data_lines = (\<lambda>w. cells (data_array c w)) \<rparr>"

definition plru8 :: "modular_cache \<Rightarrow> set_index \<Rightarrow> 7 word" where
  "plru8 c = cells (PLRU_array c)"

text \<open>The registers hold set \<open>x\<close>.\<close>

definition latched :: "modular_cache \<Rightarrow> set_index \<Rightarrow> bool" where
  "latched c x \<longleftrightarrow>
     (\<forall>w. reg_out (dirty_array c w) = dirty_bits (sets8 c) w x \<and> reg_out (valid_array c w) = valid_bits (sets8 c) w x
        \<and> reg_out (tag_array c w) = tags (sets8 c) w x \<and> reg_out (data_array c w) = data_lines (sets8 c) w x)
     \<and> reg_out (PLRU_array c) = plru8 c x"

lemma latchedD:
  assumes "latched c x"
  shows "reg_out (dirty_array c w) = dirty_bits (sets8 c) w x" "reg_out (valid_array c w) = valid_bits (sets8 c) w x"
    "reg_out (tag_array c w) = tags (sets8 c) w x" "reg_out (data_array c w) = data_lines (sets8 c) w x"
    "reg_out (PLRU_array c) = plru8 c x"
  using assms by (simp_all add: latched_def)

lemma clock_latched: "latched (modular_clock False c i ctl v d) (addr_index (p_address i))"
  by (simp add: latched_def sets8_def plru8_def modular_clock_def Let_def modular_array_def modular_data_array_def)

lemma clock_state:
  "curr_state8 (modular_clock False c i ctl v d) =
     next_state8 (curr_state8 c) (p_read i) (p_write i) (hit_check8 (hits8 c i))
       (reg_out (dirty_array c (which_replace8 (reg_out (PLRU_array c))))) d"
  by (simp add: modular_clock_def Let_def which_dirty8_def)

lemma clock_plru:
  "plru8 (modular_clock False c i ctl v d) =
     (if LRU_load8 ctl then (plru8 c)(addr_index (p_address i) := LRU_in8 ctl) else plru8 c)"
  by (simp add: plru8_def modular_clock_def Let_def modular_array_def)

text \<open>At most one way of each array is written.\<close>

lemma array_entry:
  assumes "\<And>w. load w \<longleftrightarrow> on \<and> w = u" and "on \<Longrightarrow> d u = v"
  shows "(\<lambda>w. cells (modular_array False r (load w) x x z (d w) (f w))) =
    (if on then set_entry u x v (\<lambda>w. cells (f w)) else (\<lambda>w. cells (f w)))"
  using assms by (auto simp: fun_eq_iff modular_array_def)

lemma data_array_entry:
  assumes "\<And>w. load w \<longleftrightarrow> on \<and> w = u" and "on \<Longrightarrow> d u = v"
  shows "(\<lambda>w. cells (modular_data_array r (load w) x x (d w) (f w))) =
    (if on then set_entry u x v (\<lambda>w. cells (f w)) else (\<lambda>w. cells (f w)))"
  using assms by (auto simp: fun_eq_iff modular_data_array_def)

lemma clock_sets:
  fixes c i
  defines "x \<equiv> addr_index (p_address i)"
  assumes "\<And>w. Dirty_load8 ctl w \<longleftrightarrow> dirt \<and> w = u" and "dirt \<Longrightarrow> Dirty_in8 ctl u = b"
    and "\<And>w. tag_array_load8 ctl w \<longleftrightarrow> fill \<and> w = u" and "\<And>w. valid_load8 ctl w \<longleftrightarrow> fill \<and> w = u" and "fill \<Longrightarrow> valid_in8 ctl u"
    and "\<And>w. write_sel_way8 ctl w \<longleftrightarrow> put \<and> w = u" and "put \<Longrightarrow> data_in8 ctl i v u = l"
  shows "sets8 (modular_clock False c i ctl v d) =
     \<lparr> dirty_bits = (if dirt then set_entry u x b (dirty_bits (sets8 c)) else dirty_bits (sets8 c)),
       valid_bits = (if fill then set_entry u x True (valid_bits (sets8 c)) else valid_bits (sets8 c)),
       tags = (if fill then set_entry u x (addr_tag (p_address i)) (tags (sets8 c)) else tags (sets8 c)),
       data_lines = (if put then set_entry u x l (data_lines (sets8 c)) else data_lines (sets8 c)) \<rparr>"
  unfolding x_def
  by (simp add: sets8_def modular_clock_def Let_def array_entry [of "Dirty_load8 ctl" dirt u "Dirty_in8 ctl" b, OF assms(2,3)]
      array_entry [of "valid_load8 ctl" fill u "valid_in8 ctl" True, OF assms(5)] assms(6)
      array_entry [of "tag_array_load8 ctl" fill u "\<lambda>_. addr_tag (p_address i)", OF assms(4) refl]
      data_array_entry [of "write_sel_way8 ctl" put u "data_in8 ctl i v" l, OF assms(7,8)])

section \<open>The controller, field by field\<close>

abbreviation victim8 :: "modular_cache \<Rightarrow> u32 \<Rightarrow> way8" where
  "victim8 c a \<equiv> which_replace8 (plru8 c (addr_index a))"

abbreviation accessed8 :: "port_in \<Rightarrow> bool" where
  "accessed8 i \<equiv> p_read i \<or> p_write i"

lemma comb8_fields:
  fixes held st rd wr h lru
  defines "v \<equiv> which_replace8 lru" and "ctl \<equiv> cntrl8_comb held st rd wr h lru" and "hit \<equiv> st = Hit8 \<and> hit_check8 h"
  shows "which_tag8 ctl = v" "new_address_sel8 ctl \<longleftrightarrow> st = Miss_dirty8"
    "tag_array_load8 ctl = (\<lambda>w. (st = Miss_clean8 \<and> (rd \<or> wr)) \<and> w = v)"
    "valid_load8 ctl = (\<lambda>w. (st = Miss_clean8 \<and> (rd \<or> wr)) \<and> w = v)"
    "valid_in8 ctl = (\<lambda>w. (st = Miss_clean8 \<and> (rd \<or> wr)) \<and> w = v)"
    "LRU_load8 ctl \<longleftrightarrow> hit" "LRU_in8 ctl = (if hit then load_PLRU8 h lru else 0)"
    "Dirty_load8 ctl = (\<lambda>w. if st = Miss_dirty8 then w = v else hit \<and> \<not> rd \<and> wr \<and> w = hit_way8 h)"
    "Dirty_load8 ctl w \<Longrightarrow> Dirty_in8 ctl w \<longleftrightarrow> st = Hit8"
    "write_sel_way8 ctl = (\<lambda>w. st = Miss_clean8 \<and> (rd \<or> wr) \<and> w = v \<or> hit \<and> \<not> rd \<and> wr \<and> w = hit_way8 h)"
    "write_read_sel8 ctl = (\<lambda>w. hit \<and> \<not> rd \<and> wr \<and> w = hit_way8 h)"
    "cacheline_sel8 ctl = (if hit \<and> (rd \<or> wr) then hit_way8 h
       else if st = Miss_dirty8 \<or> st = Miss_clean8 \<and> (rd \<or> wr) then v else 0)"
    "pmem_read8 ctl \<longleftrightarrow> st = Miss_clean8" "pmem_write8 ctl \<longleftrightarrow> st = Miss_dirty8" "done8 ctl \<longleftrightarrow> hit"
  unfolding ctl_def v_def hit_def cntrl8_comb_def cntrl8_defaults_def Let_def
  by (cases st; auto simp: fun_eq_iff split: if_splits)+

lemmas ctl8_fields = comb8_fields [where st = "curr_state8 c" and rd = "p_read i" and wr = "p_write i"
    and h = "hits8 c i" and lru = "reg_out (PLRU_array c)", folded modular_ctl_def] for c i

lemma hits_latched:
  assumes "latched c (addr_index (p_address i))"
  shows "hits8 c i = present (sets8 c) (p_address i)"
  by (auto simp: fun_eq_iff hits8_def present_def latchedD [OF assms])

section \<open>The cycles\<close>

lemma cycle8_stall:
  assumes "curr_state8 c = Stall8" and "ctl = modular_ctl held c i" and "c' = modular_clock False c i ctl v d"
  shows "\<not> done8 ctl" "quiet (modular_port c i ctl)"
    "curr_state8 c' = (if accessed8 i then Hit8 else Stall8)" "sets8 c' = sets8 c" "plru8 c' = plru8 c"
proof -
  note f = ctl8_fields [where c = c and i = i and held = held, folded assms(2)]
  show "\<not> done8 ctl" "quiet (modular_port c i ctl)" "curr_state8 c' = (if accessed8 i then Hit8 else Stall8)" "plru8 c' = plru8 c"
    using f assms(1) by (simp_all add: quiet_def modular_port_def assms(3) clock_state next_state8_def clock_plru)
  show "sets8 c' = sets8 c"
    unfolding assms(3) by (subst clock_sets [where dirt = False and fill = False and put = False]) (use f assms(1) in simp_all)
qed

lemma cycle8_miss:
  assumes "curr_state8 c = Hit8" and "latched c (addr_index (p_address i))" and "\<not> hit_check8 (present (sets8 c) (p_address i))"
    and "ctl = modular_ctl held c i" and "c' = modular_clock False c i ctl v d"
  shows "\<not> done8 ctl" "quiet (modular_port c i ctl)" "sets8 c' = sets8 c" "plru8 c' = plru8 c"
    "curr_state8 c' = (if dirty_bits (sets8 c) (victim8 c (p_address i)) (addr_index (p_address i)) then Miss_dirty8 else Miss_clean8)"
proof -
  note f = ctl8_fields [where c = c and i = i and held = held, folded assms(4)] and h = hits_latched [OF assms(2)]
  show "\<not> done8 ctl" "quiet (modular_port c i ctl)" "plru8 c' = plru8 c"
    using f h assms(1,3) by (simp_all add: quiet_def modular_port_def assms(5) clock_plru)
  show "curr_state8 c' = (if dirty_bits (sets8 c) (victim8 c (p_address i)) (addr_index (p_address i)) then Miss_dirty8 else Miss_clean8)"
    using h assms(1,3) by (simp add: assms(5) clock_state next_state8_def latchedD [OF assms(2)])
  show "sets8 c' = sets8 c"
    unfolding assms(5) by (subst clock_sets [where dirt = False and fill = False and put = False]) (use f h assms(1,3) in simp_all)
qed

lemma cycle8_hit:
  fixes c i
  defines "a \<equiv> p_address i"
  defines "w \<equiv> hit_way8 (present (sets8 c) a)" and "x \<equiv> addr_index a"
  assumes "curr_state8 c = Hit8" and "latched c x" and "hit_check8 (present (sets8 c) a)" and "accessed8 i"
    and "ctl = modular_ctl held c i" and "c' = modular_clock False c i ctl v d"
  shows "done8 ctl" "quiet (modular_port c i ctl)" "cacheline_out8 c ctl = data_lines (sets8 c) w x"
    "curr_state8 c' = Stall8" "plru8 c' = (plru8 c)(x := load_PLRU8 (present (sets8 c) a) (plru8 c x))"
    "sets8 c' = (if p_read i then sets8 c
       else sets8 c\<lparr>dirty_bits := set_entry w x True (dirty_bits (sets8 c)), data_lines := set_entry w x (p_wdata i) (data_lines (sets8 c))\<rparr>)"
proof -
  note f = ctl8_fields [where c = c and i = i and held = held, folded assms(8)]
  have h: "hits8 c i = present (sets8 c) a" using hits_latched assms(5) by (simp add: a_def x_def)
  show "done8 ctl" "quiet (modular_port c i ctl)" "curr_state8 c' = Stall8"
    "plru8 c' = (plru8 c)(x := load_PLRU8 (present (sets8 c) a) (plru8 c x))"
    "cacheline_out8 c ctl = data_lines (sets8 c) w x"
    using f h assms(4,6,7) latchedD [OF assms(5)]
    by (simp_all add: quiet_def modular_port_def assms(9) clock_state next_state8_def clock_plru cacheline_out8_def w_def
        flip: a_def x_def)
  let ?put = "\<not> p_read i \<and> p_write i"
  have "sets8 c' = \<lparr> dirty_bits = (if ?put then set_entry w x True (dirty_bits (sets8 c)) else dirty_bits (sets8 c)),
       valid_bits = valid_bits (sets8 c), tags = tags (sets8 c),
       data_lines = (if ?put then set_entry w x (p_wdata i) (data_lines (sets8 c)) else data_lines (sets8 c)) \<rparr>"
    unfolding assms(9) x_def a_def
    by (subst clock_sets [where dirt = ?put and fill = False and put = ?put and u = w and b = True and l = "p_wdata i"])
      (use f h assms(4,6) in \<open>auto simp: data_in8_def w_def\<close>)
  then show "sets8 c' = (if p_read i then sets8 c
       else sets8 c\<lparr>dirty_bits := set_entry w x True (dirty_bits (sets8 c)), data_lines := set_entry w x (p_wdata i) (data_lines (sets8 c))\<rparr>)"
    using assms(7) by auto
qed

lemma cycle8_writing:
  fixes c i
  defines "a \<equiv> p_address i"
  defines "u \<equiv> victim8 c a" and "x \<equiv> addr_index a"
  assumes "curr_state8 c = Miss_dirty8" and "latched c x" and "ctl = modular_ctl held c i" and "c' = modular_clock False c i ctl v d"
  shows "\<not> done8 ctl" "p_write (modular_port c i ctl)" "\<not> p_read (modular_port c i ctl)"
    "p_address (modular_port c i ctl) = word_cat (tags (sets8 c) u x) (word_cat x (0 :: 5 word) :: 8 word)"
    "p_wdata (modular_port c i ctl) = data_lines (sets8 c) u x"
    "curr_state8 c' = (if d then Miss_clean8 else Miss_dirty8)" "plru8 c' = plru8 c"
    "sets8 c' = sets8 c\<lparr>dirty_bits := set_entry u x False (dirty_bits (sets8 c))\<rparr>"
proof -
  note f = ctl8_fields [where c = c and i = i and held = held, folded assms(6)] and l = latchedD [OF assms(5)]
  show "\<not> done8 ctl" "p_write (modular_port c i ctl)" "\<not> p_read (modular_port c i ctl)"
    "curr_state8 c' = (if d then Miss_clean8 else Miss_dirty8)" "plru8 c' = plru8 c"
    "p_address (modular_port c i ctl) = word_cat (tags (sets8 c) u x) (word_cat x (0 :: 5 word) :: 8 word)"
    "p_wdata (modular_port c i ctl) = data_lines (sets8 c) u x"
    using f assms(4) by (simp_all add: modular_port_def assms(7) clock_state next_state8_def clock_plru cacheline_out8_def new_address8_def
        l u_def flip: a_def x_def)
  have dl: "Dirty_load8 ctl w \<longleftrightarrow> True \<and> w = u" for w using f assms(4) l by (simp add: u_def x_def)
  moreover from this have "\<not> Dirty_in8 ctl u" using f(9) assms(4) by auto
  ultimately show "sets8 c' = sets8 c\<lparr>dirty_bits := set_entry u x False (dirty_bits (sets8 c))\<rparr>"
    unfolding assms(7)
    by (subst clock_sets [where dirt = True and fill = False and put = False and u = u and b = False])
      (use f assms(4) in \<open>simp_all add: x_def a_def\<close>)
qed

lemma cycle8_refill:
  fixes c i
  defines "a \<equiv> p_address i"
  defines "u \<equiv> victim8 c a" and "x \<equiv> addr_index a"
  assumes "curr_state8 c = Miss_clean8" and "latched c x" and "accessed8 i"
    and "ctl = modular_ctl held c i" and "c' = modular_clock False c i ctl v d"
  shows "\<not> done8 ctl" "p_read (modular_port c i ctl)" "\<not> p_write (modular_port c i ctl)"
    "p_address (modular_port c i ctl) = word_cat (ucast (drop_bit 5 a) :: 27 word) (0 :: 5 word)"
    "curr_state8 c' = (if d then Hit8 else Miss_clean8)" "plru8 c' = plru8 c"
    "sets8 c' = sets8 c\<lparr>valid_bits := set_entry u x True (valid_bits (sets8 c)), tags := set_entry u x (addr_tag a) (tags (sets8 c)),
       data_lines := set_entry u x v (data_lines (sets8 c))\<rparr>"
proof -
  note f = ctl8_fields [where c = c and i = i and held = held, folded assms(7)] and l = latchedD [OF assms(5)]
  show "\<not> done8 ctl" "p_read (modular_port c i ctl)" "\<not> p_write (modular_port c i ctl)"
    "curr_state8 c' = (if d then Hit8 else Miss_clean8)" "plru8 c' = plru8 c"
    "p_address (modular_port c i ctl) = word_cat (ucast (drop_bit 5 a) :: 27 word) (0 :: 5 word)"
    using f assms(4) by (simp_all add: modular_port_def assms(8) clock_state next_state8_def clock_plru new_address8_def flip: a_def)
  have r: "which_replace8 (reg_out (PLRU_array c)) = u" by (simp add: l u_def x_def)
  show "sets8 c' = sets8 c\<lparr>valid_bits := set_entry u x True (valid_bits (sets8 c)), tags := set_entry u x (addr_tag a) (tags (sets8 c)),
       data_lines := set_entry u x v (data_lines (sets8 c))\<rparr>"
    unfolding assms(8)
    by (subst clock_sets [where dirt = False and fill = True and put = True and u = u and l = v])
      (use f assms(4,6) r in \<open>auto simp: x_def a_def data_in8_def\<close>)
qed

end
