(* ===== verification/Cache8_Port.thy ===== *)
theory Cache8_Port
  imports Cache8_Cycles Port_Runs
begin

text \<open>
  The eight-way cache over any held port: to whoever asks it, it is a memory of lines. The
  simulation follows an access through its states, on the invariant of \<open>Line_Sets\<close>; an access
  takes two cycles when it hits, and otherwise at most two transfers of a line and four cycles
  more.
\<close>

section \<open>The cache connected to a line port\<close>

inductive modular_step for step :: "'s \<Rightarrow> port_in \<Rightarrow> 's \<Rightarrow> bool" and resp :: "'s \<Rightarrow> bool" and rdata :: "'s \<Rightarrow> line" where
  cycle: "ctl = modular_ctl held c i \<Longrightarrow> step s (modular_port c i ctl) s' \<Longrightarrow>
    modular_step step resp rdata (c, s) i (done8 ctl) (cacheline_out8 c ctl) (modular_clock False c i ctl (rdata s) (resp s), s')"

inductive_cases modular_stepE: "modular_step step resp rdata (c, s) i d v x"

lemma modular_step_parts:
  assumes "modular_step step resp rdata (c, s) i d v x"
  obtains held ctl s' where "ctl = modular_ctl held c i" and "step s (modular_port c i ctl) s'"
    and "d = done8 ctl" and "v = cacheline_out8 c ctl" and "x = (modular_clock False c i ctl (rdata s) (resp s), s')"
  using assms by (rule modular_stepE) blast

abbreviation modular_run :: "('s \<Rightarrow> port_in \<Rightarrow> bool \<Rightarrow> line \<Rightarrow> 's \<Rightarrow> bool) \<Rightarrow> 's \<Rightarrow> request list \<Rightarrow> line list \<Rightarrow> 's \<Rightarrow> bool" where
  "modular_run \<equiv> port_run asks accessed8"

lemma asks_accessed: "asks i q \<Longrightarrow> accessed8 i" "asks i q \<Longrightarrow> p_address i = req_addr q"
  by (cases q; simp)+

lemma asks_exists: "\<exists>i. asks i q"
proof (cases q)
  case (ReadLine a)
  then have "asks \<lparr> p_read = True, p_write = False, p_address = a, p_wdata = 0 \<rparr> q" by simp
  then show ?thesis by blast
next
  case (WriteLine a w)
  then have "asks \<lparr> p_read = False, p_write = True, p_address = a, p_wdata = w \<rparr> q" by simp
  then show ?thesis by blast
qed

section \<open>At rest and at work\<close>

definition modular_at :: "('s \<Rightarrow> bool) \<Rightarrow> ('s \<Rightarrow> lines) \<Rightarrow> modular_state \<Rightarrow> modular_cache \<times> 's \<Rightarrow> lines \<Rightarrow> bool" where
  "modular_at ready contents st x L \<longleftrightarrow>
     curr_state8 (fst x) = st \<and> ready (snd x) \<and> cache_inv (sets8 (fst x)) {} {} (contents (snd x))
     \<and> cache_view (sets8 (fst x)) {} (contents (snd x)) = L"

definition victim_entry8 :: "modular_cache \<Rightarrow> u32 \<Rightarrow> way8 \<times> set_index" where
  "victim_entry8 c a = (victim8 c a, addr_index a)"

definition evict8 :: "modular_cache \<Rightarrow> u32 \<Rightarrow> request" where
  "evict8 c a = evict_request (sets8 c) (victim8 c a) (addr_index a)"

inductive modular_serving for ready :: "'s \<Rightarrow> bool" and contents :: "'s \<Rightarrow> lines"
  and serving :: "'s \<Rightarrow> request \<Rightarrow> lines \<Rightarrow> nat \<Rightarrow> bool" and bound :: nat where
  asked: "modular_at ready contents Stall8 (c, s) L \<Longrightarrow> 2 * bound + 4 \<le> n \<Longrightarrow>
    modular_serving ready contents serving bound (c, s) q L n"
| looking: "modular_at ready contents Hit8 (c, s) L \<Longrightarrow> latched c (addr_index (req_addr q)) \<Longrightarrow>
    hit_check8 (present (sets8 c) (req_addr q)) \<or> 2 * bound + 3 \<le> n \<Longrightarrow>
    modular_serving ready contents serving bound (c, s) q L n"
| writing: "curr_state8 c = Miss_dirty8 \<Longrightarrow> latched c (addr_index (req_addr q)) \<Longrightarrow> serving s (evict8 c (req_addr q)) M k \<Longrightarrow>
    valid_bits (sets8 c) (victim8 c (req_addr q)) (addr_index (req_addr q)) \<Longrightarrow>
    cache_inv (sets8 c) {} {victim_entry8 c (req_addr q)} M \<Longrightarrow> cache_view (sets8 c) {} M = L \<Longrightarrow>
    \<not> hit_check8 (present (sets8 c) (req_addr q)) \<Longrightarrow>
    modular_serving ready contents serving bound (c, s) q L (k + bound + 2)"
| refilling: "curr_state8 c = Miss_clean8 \<Longrightarrow> latched c (addr_index (req_addr q)) \<Longrightarrow>
    serving s (refill_request (req_addr q)) M k \<Longrightarrow>
    \<not> dirty_bits (sets8 c) (victim8 c (req_addr q)) (addr_index (req_addr q)) \<Longrightarrow>
    cache_inv (sets8 c) {victim_entry8 c (req_addr q)} {} M \<Longrightarrow>
    cache_view (sets8 c) {victim_entry8 c (req_addr q)} M = L \<Longrightarrow>
    (\<And>w. \<not> holds_line (sets8 c) {victim_entry8 c (req_addr q)} (line_no (req_addr q)) w) \<Longrightarrow>
    modular_serving ready contents serving bound (c, s) q L (k + 1)"

lemma no_line: "\<not> hit_check8 (present c a) \<Longrightarrow> \<not> holds_line c X (line_no a) w"
  by (auto simp: hit_check8_iff present_def holds_line_def line_no_addr)

section \<open>The cycles of an access\<close>

context held_port
begin

abbreviation m_step where "m_step \<equiv> modular_step step resp rdata"
abbreviation m_at where "m_at \<equiv> modular_at ready contents"
abbreviation m_serving where "m_serving \<equiv> modular_serving ready contents serving bound"

lemma stall_progress:
  assumes "m_at Stall8 (c, s) L" and "m_step (c, s) i d v x"
  shows "\<not> d \<and> m_at (if accessed8 i then Hit8 else Stall8) x L \<and> latched (fst x) (addr_index (p_address i))"
proof -
  have st: "curr_state8 c = Stall8" "ready s" using assms(1) by (simp_all add: modular_at_def)
  from assms(2) obtain h ctl t where ctl: "ctl = modular_ctl h c i" and t: "step s (modular_port c i ctl) t"
    and x: "d = done8 ctl" "x = (modular_clock False c i ctl (rdata s) (resp s), t)"
    by (rule modular_step_parts)
  note cy = cycle8_stall [where v = "rdata s" and d = "resp s", OF st(1) ctl refl]
  from cy idle [OF st(2) cy(2) t] assms(1) show ?thesis by (simp add: x modular_at_def clock_latched)
qed

lemma hit_progress8:
  assumes "m_at Hit8 (c, s) L" and "latched c (addr_index (req_addr q))" and "hit_check8 (present (sets8 c) (req_addr q))"
    and "asks i q" and "m_step (c, s) i d v x"
  shows "d \<and> line_answer q L v \<and> m_at Stall8 x (effect q L)"
proof -
  let ?a = "req_addr q" and ?M = "contents s"
  have r: "curr_state8 c = Hit8" "ready s" and inv: "cache_inv (sets8 c) {} {} ?M" and view: "cache_view (sets8 c) {} ?M = L"
    using assms(1) by (simp_all add: modular_at_def)
  from assms(5) obtain h ctl t where ctl: "ctl = modular_ctl h c i" and t: "step s (modular_port c i ctl) t"
    and x: "d = done8 ctl" "v = cacheline_out8 c ctl" "x = (modular_clock False c i ctl (rdata s) (resp s), t)"
    by (rule modular_step_parts)
  let ?w = "hit_way8 (present (sets8 c) ?a)"
  have w: "holds_line (sets8 c) {} (line_no ?a) ?w" using hit_way8_hits [OF assms(3)] by (simp add: present_holds)
  have now: "L (line_no ?a) = data_lines (sets8 c) ?w (addr_index ?a)" using view_held [OF inv w] view by simp
  note a = asks_accessed [OF assms(4)]
  note cy = cycle8_hit [where i = i and v = "rdata s" and d = "resp s", unfolded a(2), OF r(1) assms(2,3) a(1) ctl refl]
  show ?thesis
  proof (cases q)
    case (ReadLine b)
    with cy idle [OF r(2) cy(2) t] inv view now assms(4) show ?thesis by (simp add: x modular_at_def)
  next
    case (WriteLine b u)
    then have "\<not> p_read i" "p_wdata i = u" using assms(4) by simp_all
    with cy idle [OF r(2) cy(2) t] store_held [OF inv w, of u] view WriteLine show ?thesis by (simp add: x modular_at_def)
  qed
qed

lemma miss_progress8:
  assumes "m_at Hit8 (c, s) L" and "latched c (addr_index (req_addr q))" and "\<not> hit_check8 (present (sets8 c) (req_addr q))"
    and "asks i q" and "m_step (c, s) i d v x"
  shows "\<not> d \<and> (\<exists>m\<le>2 * bound + 2. m_serving x q L m)"
proof -
  let ?a = "req_addr q" and ?M = "contents s"
  let ?v = "victim8 c ?a" and ?x = "addr_index ?a"
  have r: "curr_state8 c = Hit8" "ready s" and inv: "cache_inv (sets8 c) {} {} ?M" and view: "cache_view (sets8 c) {} ?M = L"
    using assms(1) by (simp_all add: modular_at_def)
  from assms(5) obtain h ctl t where ctl: "ctl = modular_ctl h c i" and t: "step s (modular_port c i ctl) t"
    and x: "d = done8 ctl" "v = cacheline_out8 c ctl" "x = (modular_clock False c i ctl (rdata s) (resp s), t)"
    by (rule modular_step_parts)
  note a = asks_accessed [OF assms(4)]
  let ?c = "modular_clock False c i ctl (rdata s) (resp s)"
  note cy = cycle8_miss [where i = i and v = "rdata s" and d = "resp s", unfolded a(2), OF r(1) assms(2,3) ctl refl]
  have lat: "latched ?c ?x" using clock_latched [of c i ctl] a(2) by simp
  have s: "ready t" "contents t = ?M" using idle [OF r(2) cy(2) t] by simp_all
  show ?thesis
  proof (cases "dirty_bits (sets8 c) ?v ?x")
    case True
    obtain k where k: "k \<le> bound" "serving t (evict8 ?c ?a) ?M k" using accepts [OF s(1)] s(2) by metis
    have "cache_inv (sets8 ?c) {} {victim_entry8 ?c ?a} ?M" using inv by (auto simp: cy(3) cache_inv_def)
    moreover have "valid_bits (sets8 c) ?v ?x" using cache_invD(2) [OF inv _ True] by simp
    ultimately have "m_serving (?c, t) q L (k + bound + 2)"
      using k(2) assms(3) view lat cy(3-5) True by (intro writing) simp_all
    with k(1) show ?thesis using cy(1) x by (intro conjI exI [of _ "k + bound + 2"]) simp_all
  next
    case False
    obtain k where k: "k \<le> bound" "serving t (refill_request ?a) ?M k" using accepts [OF s(1)] s(2) by metis
    have "m_serving (?c, t) q L (k + 1)"
      by (rule refilling) (use k(2) lat cy(3-5) False view forget_clean [OF inv False] no_line [OF assms(3)] in
          \<open>simp_all add: victim_entry8_def\<close>)
    with k(1) show ?thesis using cy(1) x by (intro conjI exI [of _ "k + 1"]) simp_all
  qed
qed

lemma writing_progress8:
  assumes "curr_state8 c = Miss_dirty8" and "latched c (addr_index (req_addr q))" and "serving s (evict8 c (req_addr q)) M k"
    and "valid_bits (sets8 c) (victim8 c (req_addr q)) (addr_index (req_addr q))"
    and "cache_inv (sets8 c) {} {victim_entry8 c (req_addr q)} M" and "cache_view (sets8 c) {} M = L"
    and "\<not> hit_check8 (present (sets8 c) (req_addr q))" and "asks i q" and "m_step (c, s) i d v x"
  shows "\<not> d \<and> (\<exists>m<k + bound + 2. m_serving x q L m)"
proof -
  let ?a = "req_addr q"
  let ?v = "victim8 c ?a" and ?x = "addr_index ?a"
  from assms(9) obtain h ctl t where ctl: "ctl = modular_ctl h c i" and t: "step s (modular_port c i ctl) t"
    and x: "d = done8 ctl" "v = cacheline_out8 c ctl" "x = (modular_clock False c i ctl (rdata s) (resp s), t)"
    by (rule modular_step_parts)
  note a = asks_accessed [OF assms(8)]
  let ?c = "modular_clock False c i ctl (rdata s) (resp s)"
  let ?s = "sets8 c\<lparr>dirty_bits := set_entry ?v ?x False (dirty_bits (sets8 c))\<rparr>"
  note cy = cycle8_writing [where i = i and v = "rdata s" and d = "resp s", unfolded a(2), OF assms(1,2) ctl refl]
  have lat: "latched ?c ?x" using clock_latched [of c i ctl] a(2) by simp
  have same: "victim8 ?c ?a = ?v" "evict8 ?c ?a = evict8 c ?a" "sets8 ?c = ?s"
    using cy(7,8) by (simp_all add: evict8_def evict_request_def)
  have asks: "asks (modular_port c i ctl) (evict8 c ?a)" using cy by (simp add: evict8_def evict_request_def)
  have inv: "cache_inv ?s {} {(?v, ?x)} M" by (rule write_back_start [OF assms(5)]) (simp add: victim_entry8_def)
  note pr = progress [OF assms(3) asks t]
  show ?thesis
  proof (cases "resp s")
    case False
    with pr obtain m where m: "m < k" "serving t (evict8 c ?a) M m" by auto
    have "m_serving (?c, t) q L (m + bound + 2)"
      by (rule writing) (use m(2) lat same inv assms(4,6,7) cy(6) False in \<open>simp_all add: victim_entry8_def present_fun\<close>)
    with m(1) cy(1) x show ?thesis by (intro conjI exI [of _ "m + bound + 2"]) simp_all
  next
    case True
    let ?M = "M(line_num (tags (sets8 c) ?v ?x) ?x := data_lines (sets8 c) ?v ?x)"
    have s: "ready t" "contents t = ?M" using pr True by (simp_all add: evict8_def evict_effect)
    obtain n where n: "n \<le> bound" "serving t (refill_request ?a) ?M n" using accepts [OF s(1)] s(2) by metis
    have b: "valid_bits ?s ?v ?x" "\<not> dirty_bits ?s ?v ?x" using assms(4) by simp_all
    note e = write_back_end [OF inv b(1), simplified line_sets.simps]
    note f = forget_clean [OF e(1) b(2)]
    have "m_serving (?c, t) q L (n + 1)"
      by (rule refilling) (use n(2) lat same f e(2) assms(6) no_line [OF assms(7)] cy(6) True in \<open>simp_all add: victim_entry8_def\<close>)
    with n(1) cy(1) x show ?thesis by (intro conjI exI [of _ "n + 1"]) simp_all
  qed
qed

lemma refilling_progress8:
  assumes "curr_state8 c = Miss_clean8" and "latched c (addr_index (req_addr q))" and "serving s (refill_request (req_addr q)) M k"
    and "\<not> dirty_bits (sets8 c) (victim8 c (req_addr q)) (addr_index (req_addr q))"
    and "cache_inv (sets8 c) {victim_entry8 c (req_addr q)} {} M" and "cache_view (sets8 c) {victim_entry8 c (req_addr q)} M = L"
    and "\<And>w. \<not> holds_line (sets8 c) {victim_entry8 c (req_addr q)} (line_no (req_addr q)) w"
    and "asks i q" and "m_step (c, s) i d v x"
  shows "\<not> d \<and> (\<exists>m<k + 1. m_serving x q L m)"
proof -
  let ?a = "req_addr q"
  let ?v = "victim8 c ?a" and ?x = "addr_index ?a"
  from assms(9) obtain h ctl t where ctl: "ctl = modular_ctl h c i" and t: "step s (modular_port c i ctl) t"
    and x: "d = done8 ctl" "v = cacheline_out8 c ctl" "x = (modular_clock False c i ctl (rdata s) (resp s), t)"
    by (rule modular_step_parts)
  note a = asks_accessed [OF assms(8)]
  let ?c = "modular_clock False c i ctl (rdata s) (resp s)"
  let ?f = "sets8 c\<lparr>valid_bits := set_entry ?v ?x True (valid_bits (sets8 c)), tags := set_entry ?v ?x (addr_tag ?a) (tags (sets8 c)),
     data_lines := set_entry ?v ?x (rdata s) (data_lines (sets8 c))\<rparr>"
  note cy = cycle8_refill [where i = i and v = "rdata s" and d = "resp s", unfolded a(2), OF assms(1,2) a(1) ctl refl]
  have lat: "latched ?c ?x" using clock_latched [of c i ctl] a(2) by simp
  have same: "victim8 ?c ?a = ?v" "sets8 ?c = ?f" using cy(6,7) by simp_all
  have asks: "asks (modular_port c i ctl) (refill_request ?a)" using cy by (simp add: refill_request_def)
  note r = refill_step [OF assms(5) [unfolded victim_entry8_def], where t = "addr_tag ?a" and d = "rdata s"]
  have none: "\<not> holds_line ?f {(?v, ?x)} (line_no ?a) w" for w
    using assms(7) [of w] by (auto simp: victim_entry8_def holds_line_def)
  note pr = progress [OF assms(3) asks t]
  show ?thesis
  proof (cases "resp s")
    case False
    with pr obtain m where m: "m < k" "serving t (refill_request ?a) M m" by auto
    have "m_serving (?c, t) q L (m + 1)"
      by (rule refilling) (use m(2) lat same r none assms(4,6) cy(5) False in \<open>simp_all add: victim_entry8_def\<close>)
    with m(1) cy(1) x show ?thesis by (intro conjI exI [of _ "m + 1"]) simp_all
  next
    case True
    have s: "ready t" "contents t = M" "rdata s = M (line_no ?a)" using pr True by (simp_all add: refill_effect refill_reads)
    have "cache_inv ?f {} {} M" "cache_view ?f {} M = cache_view ?f {(?v, ?x)} M"
      by (rule refill_end [OF r(1)]; use assms(4) s(3) none in \<open>simp add: line_no_addr\<close>)+
    then have "m_at Hit8 (?c, t) L" using s(1,2) r(2) assms(6) cy(5) same True by (simp add: modular_at_def victim_entry8_def)
    moreover have "hit_check8 (present (sets8 ?c) ?a)"
      unfolding hit_check8_iff by (intro exI [of _ ?v]) (simp add: present_def same(2))
    ultimately have "m_serving (?c, t) q L 0" using lat by (intro looking) simp_all
    with cy(1) x show ?thesis by (intro conjI exI [of _ 0]) simp_all
  qed
qed

theorem modular_memory_port: "memory_port asks accessed8 line_answer effect m_step (m_at Stall8) m_serving (2 * bound + 4)"
proof
  show "\<exists>i. asks i q" for q by (rule asks_exists)
  show "\<exists>d v s'. m_step x i d v s'" for x i
  proof (cases x)
    case (Pair c s)
    obtain s' where "step s (modular_port c i (modular_ctl undefined c i)) s'" using continues by blast
    with modular_step.cycle [where step = step and resp = resp and rdata = rdata, OF refl] Pair show ?thesis by blast
  qed
  show "\<not> d \<and> m_at Stall8 s' L" if "m_at Stall8 x L" "\<not> accessed8 i" "m_step x i d v s'" for x L i d v s'
    using that(1,2) stall_progress [of "fst x" "snd x" L i d v s'] that(3) by simp
  show "\<exists>n\<le>2 * bound + 4. m_serving x q L n" if "m_at Stall8 x L" for x L q
    using that by (cases x) (auto intro: asked)
  show "if d then line_answer q L v \<and> m_at Stall8 s' (effect q L) else \<exists>m<n. m_serving s' q L m"
    if "m_serving x q L n" "asks i q" "m_step x i d v s'" for x q L n i d v s'
    using that(1)
  proof (cases rule: modular_serving.cases)
    case (asked c s)
    have "m_step (c, s) i d v s'" using that(3) asked(1) by simp
    from stall_progress [OF asked(2) this] asks_accessed [OF that(2)] have "\<not> d" "m_at Hit8 s' L" "latched (fst s') (addr_index (req_addr q))"
      by simp_all
    then have "m_serving s' q L (2 * bound + 3)" by (cases s') (auto intro: looking)
    with \<open>\<not> d\<close> asked(3) show ?thesis by (auto intro!: exI [of _ "2 * bound + 3"])
  next
    case (looking c s)
    have st: "m_step (c, s) i d v s'" using that(3) looking(1) by simp
    show ?thesis
    proof (cases "hit_check8 (present (sets8 c) (req_addr q))")
      case True
      from hit_progress8 [OF looking(2,3) True that(2) st] show ?thesis by simp
    next
      case False
      from miss_progress8 [OF looking(2,3) False that(2) st] obtain m where "\<not> d" "m \<le> 2 * bound + 2" "m_serving s' q L m" by blast
      with looking(4) False show ?thesis by (auto intro!: exI [of _ m])
    qed
  next
    case (writing c s M k)
    have "m_step (c, s) i d v s'" using that(3) writing(1) by simp
    from writing_progress8 [OF writing(3-9) that(2) this] writing(2) show ?thesis by auto
  next
    case (refilling c s M k)
    have "m_step (c, s) i d v s'" using that(3) refilling(1) by simp
    from refilling_progress8 [OF refilling(3-9) that(2) this] refilling(2) show ?thesis by auto
  qed
qed

end

end
