(* ===== verification/Cache8_Recent.thy ===== *)
theory Cache8_Recent
  imports Cache8_Port
begin

text \<open>
  What the replacement tree of the eight-way cache keeps: how many of the three bits on the path to
  a way point to it, and that an access moves this number by one at most. None of this
  depends on what is below the cache.
\<close>

section \<open>The tree\<close>

definition touch8 :: "way8 \<Rightarrow> 7 word \<Rightarrow> 7 word" where
  "touch8 w = load_PLRU8 (\<lambda>v. v = w)"

text \<open>The bits on the path to a way: the root, the half and the pair.\<close>

definition half_node :: "way8 \<Rightarrow> nat" where
  "half_node w = (if w \<in> {0, 1, 2, 3} then 1 else 5)"

definition pair_node :: "way8 \<Rightarrow> nat" where
  "pair_node w = (if w \<in> {0, 1} then 0 else if w \<in> {2, 3} then 2 else if w \<in> {4, 5} then 4 else 6)"

definition toward8 :: "way8 \<Rightarrow> 7 word \<Rightarrow> nat" where
  "toward8 w l =
     of_bool (bit l 3 \<longleftrightarrow> w \<in> {0, 1, 2, 3}) + of_bool (bit l (half_node w) \<longleftrightarrow> w \<in> {0, 1, 4, 5})
     + of_bool (bit l (pair_node w) \<longleftrightarrow> w \<in> {0, 2, 4, 6})"

lemma bit_put_bit: "n < 7 \<Longrightarrow> bit (put_bit n b l) k \<longleftrightarrow> (if k = n then b else bit l k)"
  by (auto simp: put_bit_def bit_set_bit_iff bit_unset_bit_iff)

lemma touch8_eq:
  "touch8 0 l = put_bit 0 False (put_bit 1 False (put_bit 3 False l))"
  "touch8 1 l = put_bit 0 True (put_bit 1 False (put_bit 3 False l))"
  "touch8 2 l = put_bit 2 False (put_bit 1 True (put_bit 3 False l))"
  "touch8 3 l = put_bit 2 True (put_bit 1 True (put_bit 3 False l))"
  "touch8 4 l = put_bit 4 False (put_bit 5 False (put_bit 3 True l))"
  "touch8 5 l = put_bit 4 True (put_bit 5 False (put_bit 3 True l))"
  "touch8 6 l = put_bit 6 False (put_bit 5 True (put_bit 3 True l))"
  "touch8 7 l = put_bit 6 True (put_bit 5 True (put_bit 3 True l))"
  by (simp_all add: touch8_def load_PLRU8_def)

lemma toward8_eq:
  "toward8 0 l = of_bool (bit l 3) + of_bool (bit l 1) + of_bool (bit l 0)"
  "toward8 1 l = of_bool (bit l 3) + of_bool (bit l 1) + of_bool (\<not> bit l 0)"
  "toward8 2 l = of_bool (bit l 3) + of_bool (\<not> bit l 1) + of_bool (bit l 2)"
  "toward8 3 l = of_bool (bit l 3) + of_bool (\<not> bit l 1) + of_bool (\<not> bit l 2)"
  "toward8 4 l = of_bool (\<not> bit l 3) + of_bool (bit l 5) + of_bool (bit l 4)"
  "toward8 5 l = of_bool (\<not> bit l 3) + of_bool (bit l 5) + of_bool (\<not> bit l 4)"
  "toward8 6 l = of_bool (\<not> bit l 3) + of_bool (\<not> bit l 5) + of_bool (bit l 6)"
  "toward8 7 l = of_bool (\<not> bit l 3) + of_bool (\<not> bit l 5) + of_bool (\<not> bit l 6)"
  by (simp_all add: toward8_def half_node_def pair_node_def)

lemma way8_all: "(\<And>w. w \<in> {0, 1, 2, 3, 4, 5, 6, 7 :: way8} \<Longrightarrow> P w) \<Longrightarrow> P w"
  using way8_cases [of w] by auto

lemma toward8_touched: "toward8 w (touch8 w l) = 0"
  by (rule way8_all [of _ w]) (auto simp: touch8_eq toward8_eq bit_put_bit)

lemma toward8_other: "toward8 w (touch8 u l) \<le> Suc (toward8 w l)"
proof (rule way8_all [of _ w])
  fix w :: way8 assume w: "w \<in> {0, 1, 2, 3, 4, 5, 6, 7}"
  show "toward8 w (touch8 u l) \<le> Suc (toward8 w l)"
  proof (rule way8_all [of _ u])
    fix u :: way8 assume "u \<in> {0, 1, 2, 3, 4, 5, 6, 7}"
    with w show "toward8 w (touch8 u l) \<le> Suc (toward8 w l)"
      by (elim insertE emptyE; simp add: touch8_eq toward8_eq bit_put_bit)
  qed
qed

lemma which_replace8_toward: "toward8 (which_replace8 l) l = 3"
  by (simp add: which_replace8_def Let_def bit_not_iff toward8_eq)

lemma load_PLRU8_touch: "hit_check8 h \<Longrightarrow> load_PLRU8 h l = touch8 (hit_way8 h) l"
  by (auto simp: hit_check8_def hit_way8_def load_PLRU8_def touch8_eq)

section \<open>An access, seen in tags and tree\<close>

definition same_tags :: "way8 line_sets \<Rightarrow> way8 line_sets \<Rightarrow> bool" where
  "same_tags c c' \<longleftrightarrow> valid_bits c' = valid_bits c \<and> tags c' = tags c"

definition refilled_tags :: "way8 \<Rightarrow> u32 \<Rightarrow> way8 line_sets \<Rightarrow> way8 line_sets \<Rightarrow> bool" where
  "refilled_tags w a c c' \<longleftrightarrow>
     valid_bits c' = set_entry w (addr_index a) True (valid_bits c) \<and> tags c' = set_entry w (addr_index a) (addr_tag a) (tags c)"

text \<open>A completed access to \<open>a\<close> used way \<open>w\<close>, which had its line or was the victim.\<close>

definition touched :: "modular_cache \<Rightarrow> u32 \<Rightarrow> way8 \<Rightarrow> modular_cache \<Rightarrow> bool" where
  "touched c a w c' \<longleftrightarrow>
     curr_state8 c' = Stall8 \<and> present (sets8 c') a w \<and> plru8 c' = (plru8 c)(addr_index a := touch8 w (plru8 c (addr_index a)))
     \<and> (present (sets8 c) a w \<and> same_tags (sets8 c) (sets8 c')
        \<or> w = victim8 c a \<and> refilled_tags w a (sets8 c) (sets8 c'))"

text \<open>In the course of an access to \<open>a\<close> that began in \<open>c\<close>.\<close>

definition during :: "modular_cache \<Rightarrow> u32 \<Rightarrow> modular_cache \<Rightarrow> bool" where
  "during c a c' \<longleftrightarrow>
     plru8 c' = plru8 c \<and> (curr_state8 c' \<noteq> Stall8 \<longrightarrow> latched c' (addr_index a))
     \<and> (same_tags (sets8 c) (sets8 c') \<and> (curr_state8 c' \<in> {Miss_clean8, Miss_dirty8} \<longrightarrow> \<not> hit_check8 (present (sets8 c) a))
        \<or> curr_state8 c' \<in> {Hit8, Miss_clean8} \<and> refilled_tags (victim8 c a) a (sets8 c) (sets8 c')
          \<and> \<not> hit_check8 (present (sets8 c) a))"

lemma present_same: "same_tags c c' \<Longrightarrow> present c' a = present c a"
  by (simp add: fun_eq_iff same_tags_def present_def)

lemma present_refilled:
  "refilled_tags w a c c' \<Longrightarrow> present c' b u \<longleftrightarrow> (if u = w \<and> addr_index b = addr_index a then addr_tag b = addr_tag a else present c b u)"
  by (auto simp: refilled_tags_def present_def)

lemma refilled_again:
  "refilled_tags w a c c' \<Longrightarrow> valid_bits c'' = set_entry w (addr_index a) True (valid_bits c') \<Longrightarrow>
    tags c'' = set_entry w (addr_index a) (addr_tag a) (tags c') \<Longrightarrow> refilled_tags w a c c''"
  by (auto simp: refilled_tags_def fun_eq_iff)

text \<open>The hit that ends an access.\<close>

lemma hit_touches:
  assumes "during c0 a c" and "hit_check8 (present (sets8 c) a)" and "same_tags (sets8 c) (sets8 c')"
    and "plru8 c' = (plru8 c)(addr_index a := load_PLRU8 (present (sets8 c) a) (plru8 c (addr_index a)))" and "curr_state8 c' = Stall8"
  shows "touched c0 a (hit_way8 (present (sets8 c) a)) c'"
proof -
  let ?w = "hit_way8 (present (sets8 c) a)"
  have w: "present (sets8 c) a ?w" by (rule hit_way8_hits [OF assms(2)])
  note t = assms(3)
  have pl: "plru8 c = plru8 c0" using assms(1) by (simp add: during_def)
  have "present (sets8 c0) a ?w \<and> same_tags (sets8 c0) (sets8 c') \<or> ?w = victim8 c0 a \<and> refilled_tags ?w a (sets8 c0) (sets8 c')"
  proof (cases "same_tags (sets8 c0) (sets8 c)")
    case True
    with w t show ?thesis using present_same [OF True] by (simp add: same_tags_def)
  next
    case False
    with assms(1) have r: "refilled_tags (victim8 c0 a) a (sets8 c0) (sets8 c)" and none: "\<not> hit_check8 (present (sets8 c0) a)"
      by (simp_all add: during_def)
    from w none have "?w = victim8 c0 a" by (auto simp: present_refilled [OF r] hit_check8_iff split: if_splits)
    with r t show ?thesis by (simp add: refilled_tags_def same_tags_def)
  qed
  then show ?thesis
    using assms(4,5) w pl load_PLRU8_touch [OF assms(2)] present_same [OF t] by (simp add: touched_def)
qed

lemma during_step:
  assumes "during c0 a c" and "accessed8 i" and "p_address i = a" and "modular_step step resp rdata (c, s) i d v (c', s')"
  shows "if d then \<exists>w. touched c0 a w c' else during c0 a c'"
proof -
  from assms(4) obtain h ctl where ctl: "ctl = modular_ctl h c i" and d: "d = done8 ctl"
    and c': "c' = modular_clock False c i ctl (rdata s) (resp s)"
    by (auto elim: modular_step_parts)
  let ?x = "addr_index a"
  have lat: "latched c' ?x" unfolding c' using clock_latched assms(3) by metis
  have pl: "plru8 c = plru8 c0" using assms(1) by (simp add: during_def)
  show ?thesis
  proof (cases "curr_state8 c")
    case Stall8
    with assms(1) have "same_tags (sets8 c0) (sets8 c)" by (simp add: during_def)
    with cycle8_stall [OF Stall8 ctl c'] lat pl assms(2) show ?thesis by (simp add: d during_def same_tags_def)
  next
    case Hit8
    then have l: "latched c ?x" using assms(1) by (simp add: during_def)
    show ?thesis
    proof (cases "hit_check8 (present (sets8 c) a)")
      case True
      note cy = cycle8_hit [where i = i, unfolded assms(3), OF Hit8 l True assms(2) ctl c']
      have "touched c0 a (hit_way8 (present (sets8 c) a)) c'" by (rule hit_touches [OF assms(1) True]) (use cy(4-6) in \<open>simp_all add: same_tags_def\<close>)
      with cy(1) show ?thesis by (auto simp: d)
    next
      case False
      note cy = cycle8_miss [where i = i, unfolded assms(3), OF Hit8 l False ctl c']
      have "\<not> refilled_tags (victim8 c0 a) a (sets8 c0) (sets8 c)"
        using False present_refilled [of "victim8 c0 a" a "sets8 c0" "sets8 c" a "victim8 c0 a"] unfolding hit_check8_iff by metis
      with assms(1) have same: "same_tags (sets8 c0) (sets8 c)" by (simp add: during_def)
      with cy(3) have "same_tags (sets8 c0) (sets8 c')" by simp
      moreover have "\<not> hit_check8 (present (sets8 c0) a)" using False present_same [OF same] by simp
      ultimately show ?thesis using cy(1,4) lat pl by (simp add: d during_def)
    qed
  next
    case Miss_clean8
    then have l: "latched c ?x" and v: "victim8 c a = victim8 c0 a" and none: "\<not> hit_check8 (present (sets8 c0) a)"
      using assms(1) by (auto simp: during_def)
    note cy = cycle8_refill [where i = i, unfolded assms(3), OF Miss_clean8 l assms(2) ctl c']
    have "refilled_tags (victim8 c0 a) a (sets8 c0) (sets8 c')"
      using assms(1) cy(7) v by (auto simp: during_def refilled_tags_def same_tags_def fun_eq_iff)
    with cy lat pl none show ?thesis by (simp add: d during_def)
  next
    case Miss_dirty8
    then have l: "latched c ?x" and none: "\<not> hit_check8 (present (sets8 c0) a)" and s: "same_tags (sets8 c0) (sets8 c)"
      using assms(1) by (auto simp: during_def)
    note cy = cycle8_writing [where i = i, unfolded assms(3), OF Miss_dirty8 l ctl c']
    with lat pl none s show ?thesis by (simp add: d during_def same_tags_def)
  qed
qed

section \<open>Runs\<close>

text \<open>The line of \<open>a\<close> is in a way that at most \<open>k\<close> bits on its path point to.\<close>

definition protected :: "modular_cache \<Rightarrow> u32 \<Rightarrow> nat \<Rightarrow> bool" where
  "protected c a k \<longleftrightarrow> (\<exists>w. present (sets8 c) a w \<and> toward8 w (plru8 c (addr_index a)) \<le> k)"

lemma touched_protects: "touched c a w c' \<Longrightarrow> protected c' a 0"
  by (auto simp: touched_def protected_def toward8_touched)

lemma touched_other:
  assumes "touched c b w c'" and "protected c a k" and "k \<le> 2 \<or> addr_index b \<noteq> addr_index a"
  shows "protected c' a (if addr_index b = addr_index a then Suc k else k)"
proof -
  from assms(2) obtain u where u: "present (sets8 c) a u" "toward8 u (plru8 c (addr_index a)) \<le> k" by (auto simp: protected_def)
  have pl: "plru8 c' = (plru8 c)(addr_index b := touch8 w (plru8 c (addr_index b)))" using assms(1) by (simp add: touched_def)
  have t: "toward8 u (plru8 c' (addr_index a)) \<le> (if addr_index b = addr_index a then Suc k else k)"
    using toward8_other [of u w "plru8 c (addr_index a)"] u(2) by (auto simp: pl)
  have "present (sets8 c') a u"
  proof (cases "same_tags (sets8 c) (sets8 c')")
    case True
    from present_same [OF this] u(1) show ?thesis by simp
  next
    case False
    with assms(1) have v: "w = victim8 c b" and r: "refilled_tags w b (sets8 c) (sets8 c')" by (auto simp: touched_def)
    have "u \<noteq> w" if "addr_index b = addr_index a"
      using which_replace8_toward [of "plru8 c (addr_index b)"] u(2) assms(3) that v by auto
    with u(1) present_refilled [OF r, of a u] show ?thesis by auto
  qed
  with t show ?thesis by (auto simp: protected_def)
qed

lemma held_touched:
  assumes "port_held asks (modular_step step resp rdata) n x q v x'" and "during c0 (req_addr q) (fst x)"
  shows "\<exists>w. touched c0 (req_addr q) w (fst x')"
  using assms
proof (induction rule: port_held.induct)
  case (response i q x v x')
  from during_step [OF response(3) asks_accessed [OF response(1)], of step resp rdata "snd x" True v "fst x'" "snd x'"] response(2)
  show ?case by simp
next
  case (wait i q x u x' n v x'')
  from during_step [OF wait(5) asks_accessed [OF wait(1)], of step resp rdata "snd x" False u "fst x'" "snd x'"] wait(2)
  have "during c0 (req_addr q) (fst x')" by simp
  then show ?case by (rule wait.IH)
qed

lemma during_start: "curr_state8 c = Stall8 \<Longrightarrow> during c a c"
  by (simp add: during_def same_tags_def)

text \<open>An idle cycle changes nothing of this.\<close>

lemma idle_protected:
  assumes "curr_state8 (fst x) = Stall8" and "\<not> accessed8 i" and "modular_step step resp rdata x i d v x'"
  shows "curr_state8 (fst x') = Stall8 \<and> sets8 (fst x') = sets8 (fst x) \<and> plru8 (fst x') = plru8 (fst x)"
proof -
  have "modular_step step resp rdata (fst x, snd x) i d v x'" using assms(3) by simp
  then obtain h ctl t where ctl: "ctl = modular_ctl h (fst x) i" and "x' = (modular_clock False (fst x) i ctl (rdata (snd x)) (resp (snd x)), t)"
    by (rule modular_step_parts)
  with cycle8_stall [OF assms(1) ctl refl] assms(2) show ?thesis by simp
qed

definition same_set :: "u32 \<Rightarrow> request \<Rightarrow> bool" where
  "same_set a q \<longleftrightarrow> addr_index (req_addr q) = addr_index a"

lemma run_stalls:
  "modular_run (modular_step step resp rdata) x qs vs x' \<Longrightarrow> curr_state8 (fst x) = Stall8 \<Longrightarrow> curr_state8 (fst x') = Stall8"
proof (induction rule: port_run.induct)
  case (access n s q v s' qs vs s'')
  from held_touched [OF access(1) during_start [OF access.prems]] access.IH show ?case by (auto simp: touched_def)
qed (auto dest: idle_protected)

lemma run_protected:
  "modular_run (modular_step step resp rdata) x qs vs x' \<Longrightarrow> curr_state8 (fst x) = Stall8 \<Longrightarrow> protected (fst x) a k \<Longrightarrow>
     k + length (filter (same_set a) qs) \<le> 3 \<Longrightarrow> protected (fst x') a (k + length (filter (same_set a) qs))"
proof (induction arbitrary: k rule: port_run.induct)
  case (pause i s d u s' qs vs s'')
  with idle_protected [OF pause.prems(1) pause.hyps(1,2)] show ?case by (simp add: protected_def)
next
  case (access n s q v s' qs vs s'')
  from held_touched [OF access(1) during_start [OF access.prems(1)]] obtain w where w: "touched (fst s) (req_addr q) w (fst s')" ..
  then have st: "curr_state8 (fst s') = Stall8" by (simp add: touched_def)
  have "k \<le> 2 \<or> addr_index (req_addr q) \<noteq> addr_index a" using access.prems(3) by (auto simp: same_set_def)
  from touched_other [OF w access.prems(2) this] access.IH [OF st, of k] access.IH [OF st, of "Suc k"] access.prems(3) show ?case
    by (auto simp: same_set_def split: if_splits)
qed simp

lemma run_protects_last:
  "modular_run (modular_step step resp rdata) x (ps @ [q]) vs x' \<Longrightarrow> curr_state8 (fst x) = Stall8 \<Longrightarrow> protected (fst x') (req_addr q) 0"
proof (induction x "ps @ [q]" vs x' arbitrary: ps rule: port_run.induct)
  case (pause i s d u s' vs s'')
  with idle_protected [OF pause.prems(1) pause.hyps(1,2)] show ?case by blast
next
  case (access n s p v s' qs vs s'')
  from held_touched [OF access(1) during_start [OF access.prems(1)]] obtain w where w: "touched (fst s) (req_addr p) w (fst s')" ..
  then have st: "curr_state8 (fst s') = Stall8" by (simp add: touched_def)
  show ?case
  proof (cases ps)
    case Nil
    then have p: "p = q" "qs = []" using access.hyps(4) by simp_all
    with run_protected [OF access.hyps(2) st, of "req_addr q" 0] touched_protects [OF w] show ?thesis by simp
  next
    case (Cons p' ps')
    with access.hyps(4) access.hyps(3) [OF _ st, of ps'] show ?thesis by simp
  qed
qed simp

text \<open>
  A line that is present is delivered in the next cycle but one, and neither of the two cycles asks
  anything of the level below.
\<close>

lemma present_answered:
  assumes "port_held asks (modular_step step resp rdata) n x q v x'" and "curr_state8 (fst x) = Stall8"
    and "present (sets8 (fst x)) (req_addr q) w"
  shows "n = 1 \<and> (\<exists>i j s. quiet i \<and> step (snd x) i s \<and> quiet j \<and> step s j (snd x'))"
  using assms(1)
proof (cases rule: port_held.cases)
  case (response i)
  then have "modular_step step resp rdata (fst x, snd x) i True v x'" by simp
  from modular_step_parts [OF this] cycle8_stall(1) [OF assms(2)] show ?thesis by metis
next
  case (wait i u y m)
  have "modular_step step resp rdata (fst x, snd x) i False u y" using wait(3) by simp
  then obtain h ctl t where ctl: "ctl = modular_ctl h (fst x) i" and t: "step (snd x) (modular_port (fst x) i ctl) t"
    and y: "y = (modular_clock False (fst x) i ctl (rdata (snd x)) (resp (snd x)), t)" by (rule modular_step_parts)
  note cy = cycle8_stall [OF assms(2) ctl refl] and a = asks_accessed [OF wait(2)]
  have y': "curr_state8 (fst y) = Hit8" "latched (fst y) (addr_index (req_addr q))" "sets8 (fst y) = sets8 (fst x)"
    using cy a clock_latched [of "fst x" i ctl] by (simp_all add: y)
  have hit: "hit_check8 (present (sets8 (fst y)) (req_addr q))" using assms(3) y'(3) by (auto simp: hit_check8_iff)
  have second: "d' \<and> (\<exists>j. quiet j \<and> step t j (snd z))"
    if "asks i' q" "modular_step step resp rdata y i' d' u' z" for i' d' u' z
  proof -
    have "modular_step step resp rdata (fst y, snd y) i' d' u' z" using that(2) by simp
    then obtain h' ctl' t' where ctl': "ctl' = modular_ctl h' (fst y) i'" and "step (snd y) (modular_port (fst y) i' ctl') t'"
      and "d' = done8 ctl'" "z = (modular_clock False (fst y) i' ctl' (rdata (snd y)) (resp (snd y)), t')" by (rule modular_step_parts)
    with cycle8_hit(1,2) [where i = i', unfolded asks_accessed(2) [OF that(1)], OF y'(1,2) hit asks_accessed(1) [OF that(1)] ctl'(1) refl]
    show ?thesis by (auto simp: y)
  qed
  from wait(4) show ?thesis
  proof (cases rule: port_held.cases)
    case (response i')
    from second [OF response(2,3)] cy(2) t wait(1) response(1) show ?thesis by auto
  next
    case (wait i' u' z k)
    from second [OF wait(2,3)] show ?thesis by simp
  qed
qed

text \<open>With four further accesses, the way can be the victim of the last one.\<close>

lemma four_accesses_evict: "which_replace8 (touch8 4 (touch8 2 (touch8 1 (touch8 0 l)))) = 0"
  by (simp add: which_replace8_def Let_def bit_not_iff touch8_eq bit_put_bit)

end
