(* ===== verification/Second_Level.thy ===== *)
theory Second_Level
  imports Cache8_Recent Memory_System
begin

text \<open>
  The eight-way cache as second level in front of the adaptor and the burst memory: to whoever asks
  it for lines it is the memory, and it answers in bounded time. The statements are those of the
  interface \<open>memory_port\<close>, read off its interpretation on this stack.
\<close>

section \<open>The stack\<close>

type_synonym second_level = "modular_cache \<times> path"

abbreviation l2_step :: "second_level \<Rightarrow> port_in \<Rightarrow> bool \<Rightarrow> line \<Rightarrow> second_level \<Rightarrow> bool" where
  "l2_step \<equiv> modular_step (\<lambda>s i s'. s' = path_step s i) path_resp path_rdata"

abbreviation l2_ready :: "second_level \<Rightarrow> lines \<Rightarrow> bool" where
  "l2_ready \<equiv> modular_at path_ready path_contents Stall8"

abbreviation l2_serving :: "second_level \<Rightarrow> request \<Rightarrow> lines \<Rightarrow> nat \<Rightarrow> bool" where
  "l2_serving \<equiv> modular_serving path_ready path_contents path_serving (DELAY_MEM + 6)"

interpretation l2: memory_port asks accessed8 line_answer effect l2_step l2_ready l2_serving "2 * (DELAY_MEM + 6) + 4"
  by (rule held_port.modular_memory_port [OF path.alone.held_port_axioms])

section \<open>Out of reset\<close>

text \<open>A cycle of reset makes any cache empty, whatever its arrays and registers held at power-up.\<close>

lemma reset_sets:
  "curr_state8 (modular_clock True c i ctl v d) = Stall8" "valid_bits (sets8 (modular_clock True c i ctl v d)) = (\<lambda>_ _. False)"
  "dirty_bits (sets8 (modular_clock True c i ctl v d)) = (\<lambda>_ _. False)"
  by (simp_all add: modular_clock_def Let_def sets8_def modular_array_def)

lemma reset_at:
  assumes "ready s"
  shows "modular_at ready contents Stall8 (modular_clock True c i ctl v d, s) (contents s)"
proof -
  let ?c = "sets8 (modular_clock True c i ctl v d)"
  have h: "\<not> holds_line ?c {} l w" for l w by (simp add: holds_line_def reset_sets)
  then have "cache_inv ?c {} {} (contents s)" by (simp add: cache_inv_def reset_sets)
  moreover have "cache_view ?c {} (contents s) = contents s" using h by (simp add: fun_eq_iff view_not_held)
  ultimately show ?thesis using assms by (simp add: modular_at_def reset_sets)
qed

definition reset_l2 :: "modular_cache \<Rightarrow> second_level" where
  "reset_l2 c = (modular_clock True c no_request (modular_ctl undefined c no_request) 0 False, fresh_adaptor, fresh_memory)"

lemma reset_l2_ready: "l2_ready (reset_l2 c) (\<lambda>l. ucast l + 7)"
  using reset_at [where ready = path_ready and contents = path_contents and s = "(fresh_adaptor, fresh_memory)", OF fresh_simps(1)]
  by (simp add: reset_l2_def del: path_ready.simps)

section \<open>The memory of lines\<close>

text \<open>
  C16: the second-level cache is a memory of lines. Whatever lines are read and written, one request
  after the other with idle cycles between them, each held until its response, the lines
  delivered are those of a plain memory and the contents of cache and memory together change as
  that memory's: through hits, misses, the choice of a victim, write-back, refill, the adaptor and
  the bursts, and whatever the latches of the controller hold. Afterwards the cache is at rest again.
\<close>

theorem second_level_is_memory:
  assumes "l2_ready x L" and "modular_run l2_step x qs vs x'"
  shows "port_memory line_answer effect L qs vs \<and> l2_ready x' (fold effect qs L)"
  by (rule l2.run_correct [OF assms(2,1)])

text \<open>A line written and read again after another one of its set has been written, from any power-up state.\<close>

theorem second_level_is_memory_witness:
  "\<forall>c. \<exists>u v w x. modular_run l2_step (reset_l2 c) [WriteLine 64 42, WriteLine 320 43, ReadLine 64] [u, v, w] x \<and> w = 42"
proof
  fix c
  let ?qs = "[WriteLine 64 42, WriteLine 320 43, ReadLine 64]"
  obtain vs x where r: "modular_run l2_step (reset_l2 c) ?qs vs x" using l2.run_returns [OF reset_l2_ready] by blast
  from second_level_is_memory [OF reset_l2_ready r] have p: "port_memory line_answer effect (\<lambda>l. ucast l + 7) ?qs vs" ..
  then obtain u v w where vs: "vs = [u, v, w]" by (cases vs; cases "tl vs"; cases "tl (tl vs)"; cases "tl (tl (tl vs))") auto
  from p have "w = 42" by (simp add: vs line_no_def drop_bit_eq_div)
  with r vs show "\<exists>u v w x. modular_run l2_step (reset_l2 c) ?qs [u, v, w] x \<and> w = 42" by blast
qed

text \<open>
  C25: the second-level cache answers. A request held from a state at rest is answered once, within
  236 cycles, also when a dirty line has to be written back before the refill, with the line of the
  memory; the next cycle finds the cache at rest, with the request carried out.
\<close>

theorem second_level_answers:
  assumes "l2_ready (x 0) L" and "\<And>k. l2_step (x k) (i k) (resp k) (rdata k) (x (Suc k))"
    and "\<And>k. (\<forall>j<k. \<not> resp j) \<Longrightarrow> asks (i k) q"
  shows "\<exists>n\<le>236. resp n \<and> (\<forall>j<n. \<not> resp j) \<and> line_answer q L (rdata n) \<and> l2_ready (x (Suc n)) (effect q L)"
proof -
  have bound: "2 * (DELAY_MEM + 6) + 4 = 236" by (simp add: DELAY_MEM_def)
  from l2.held_answered [where st = x and i = i and d = resp and v = rdata, OF assms] show ?thesis unfolding bound .
qed

theorem second_level_answers_witness:
  "\<exists>st resp rdata. fst (snd (st 0)) = fresh_adaptor \<and> (\<forall>k. l2_step (st k) (read_port 64) (resp k) (rdata k) (st (Suc k)))
     \<and> (\<exists>n\<le>236. resp n \<and> rdata n = 9)"
proof -
  obtain st resp rdata where st: "st 0 = reset_l2 undefined" "\<And>k. l2_step (st k) (read_port 64) (resp k) (rdata k) (st (Suc k))"
    using l2.endless [of "reset_l2 undefined" "\<lambda>_. read_port 64"] by metis
  have start: "l2_ready (st 0) (\<lambda>l. ucast l + 7)" by (simp only: st(1) reset_l2_ready)
  from second_level_answers [where x = st and i = "\<lambda>_. read_port 64" and resp = resp and rdata = rdata, OF start st(2) port_asks(1)]
  have "\<exists>n\<le>236. resp n \<and> rdata n = 9" by (auto simp: line_no_def drop_bit_eq_div)
  moreover have "fst (snd (st 0)) = fresh_adaptor" by (simp add: st(1) reset_l2_def)
  ultimately show ?thesis using st(2) by blast
qed

section \<open>How long a line is kept\<close>

text \<open>
  C26: the second-level cache keeps what is in use. Whatever was accessed before, once a line has been
  read or written, up to three further accesses to its set, hits and misses, and any number to other
  sets leave it in the cache: the next access to it is answered in its second cycle, and the level
  below is not asked for anything. This holds over any level below, whatever it answers and
  when.
\<close>

theorem recent_lines_kept:
  assumes "modular_run (modular_step step resp rdata) x (ps @ q # rs) vs x'" and "curr_state8 (fst x) = Stall8"
    and "length (filter (same_set (req_addr q)) rs) \<le> 3"
    and "port_held asks (modular_step step resp rdata) n x' r v x''" and "line_no (req_addr r) = line_no (req_addr q)"
  shows "n = 1 \<and> (\<exists>i j s. quiet i \<and> step (snd x') i s \<and> quiet j \<and> step s j (snd x''))"
proof -
  let ?a = "req_addr q"
  have "modular_run (modular_step step resp rdata) x ((ps @ [q]) @ rs) vs x'" using assms(1) by simp
  from port_run_append [OF this] obtain us ws z where z: "modular_run (modular_step step resp rdata) x (ps @ [q]) us z"
    "modular_run (modular_step step resp rdata) z rs ws x'" by blast
  have st: "curr_state8 (fst z) = Stall8" by (rule run_stalls [OF z(1) assms(2)])
  have "protected (fst z) ?a 0" by (rule run_protects_last [OF z(1) assms(2)])
  from run_protected [OF z(2) st this] assms(3) have "protected (fst x') ?a (length (filter (same_set ?a) rs))" by simp
  then obtain w where "present (sets8 (fst x')) ?a w" by (auto simp: protected_def)
  moreover have "present (sets8 (fst x')) (req_addr r) = present (sets8 (fst x')) ?a"
    using assms(5) by (simp add: present_fun)
  ultimately have "present (sets8 (fst x')) (req_addr r) w" by simp
  from present_answered [OF assms(4) run_stalls [OF z(2) st] this] show ?thesis .
qed

text \<open>
  Line 2 is read, then three others of its set and one of another set; the next read of it takes two
  cycles.
\<close>

theorem recent_lines_kept_witness:
  "\<exists>vs x v x'. modular_run l2_step (reset_l2 undefined)
       ([] @ ReadLine 64 # [ReadLine 320, WriteLine 576 5, ReadLine 96, ReadLine 832]) vs x
     \<and> port_held asks l2_step 1 x (ReadLine 68) v x'"
proof -
  let ?qs = "[] @ ReadLine 64 # [ReadLine 320, WriteLine 576 5, ReadLine 96, ReadLine 832]"
  obtain vs x where r: "modular_run l2_step (reset_l2 undefined) ?qs vs x" using l2.run_returns [OF reset_l2_ready] by blast
  obtain m where "l2_serving x (ReadLine 68) (fold effect ?qs (\<lambda>l. ucast l + 7)) m"
    using l2.run_correct [OF r reset_l2_ready] l2.accepts by blast
  then obtain n v x' where h: "port_held asks l2_step n x (ReadLine 68) v x'" using l2.held_returns by blast
  have "curr_state8 (fst (reset_l2 undefined)) = Stall8" using reset_l2_ready by (simp add: modular_at_def)
  from recent_lines_kept [OF r this _ h] have "n = 1"
    by (simp add: same_set_def addr_index_def line_no_def drop_bit_eq_div)
  with r h show ?thesis by blast
qed

end
