(* ===== verification/Level2_Port.thy ===== *)
theory Level2_Port
  imports Second_Level Fetch_Progress
begin

text \<open>
  The second-level cache, with adaptor and burst memory, as the port below the arbiter. Its response
  is combinational in the request of the same cycle; a client that holds its request can as well look at the request
  of the cycle before, which makes response and data functions of the state, as \<open>line_port\<close> has them. That
  is how this port is a \<open>line_port\<close>; that the two coincide in every cycle in which the arbiter listens is shown with
  the hierarchy itself.
\<close>

section \<open>The request is all that matters\<close>

text \<open>Neither the latches nor what a request leaves open show in the outputs or in the next state.\<close>

definition l2_ctl :: "modular_cache \<Rightarrow> port_in \<Rightarrow> cntrl8" where
  "l2_ctl c i = modular_ctl (cntrl8_defaults undefined 0\<lparr>Dirty_in8 := (\<lambda>_. False)\<rparr>) c i"

lemma ctl8_held:
  "done8 (modular_ctl h c i) = done8 (l2_ctl c i)" "cacheline_out8 c (modular_ctl h c i) = cacheline_out8 c (l2_ctl c i)"
  "modular_port c i (modular_ctl h c i) = modular_port c i (l2_ctl c i)"
  "modular_clock False c i (modular_ctl h c i) v d = modular_clock False c i (l2_ctl c i) v d"
proof -
  note f = ctl8_fields [where c = c and i = i]
  show "done8 (modular_ctl h c i) = done8 (l2_ctl c i)" and out: "cacheline_out8 c (modular_ctl h c i) = cacheline_out8 c (l2_ctl c i)"
    by (simp_all only: l2_ctl_def cacheline_out8_def f)
  then show "modular_port c i (modular_ctl h c i) = modular_port c i (l2_ctl c i)"
    unfolding modular_port_def new_address8_def by (simp only: l2_ctl_def f)
  have "modular_array False True (Dirty_load8 (modular_ctl h c i) w) x x False (Dirty_in8 (modular_ctl h c i) w) a
      = modular_array False True (Dirty_load8 (l2_ctl c i) w) x x False (Dirty_in8 (l2_ctl c i) w) a" for w x a
    using f(9) [of h w] f(9) [of "cntrl8_defaults undefined 0\<lparr>Dirty_in8 := (\<lambda>_. False)\<rparr>" w]
    by (auto simp: modular_array_def l2_ctl_def f(8))
  then show "modular_clock False c i (modular_ctl h c i) v d = modular_clock False c i (l2_ctl c i) v d"
    by (simp add: modular_clock_def data_in8_def Let_def) (simp only: l2_ctl_def f simp_thms)
qed

lemma asks_same:
  assumes "asks i r" and "asks j r"
  shows "p_read i = p_read j" "p_write i = p_write j" "p_address i = p_address j" "p_write i \<Longrightarrow> p_wdata i = p_wdata j"
  using assms by (cases r; simp)+

lemma ctl8_asks:
  assumes "asks i r" and "asks j r"
  shows "l2_ctl c i = l2_ctl c j" "modular_port c i ctl = modular_port c j ctl"
    "modular_clock False c i (l2_ctl c i) v d = modular_clock False c j (l2_ctl c j) v d"
proof -
  note s = asks_same [OF assms]
  show e: "l2_ctl c i = l2_ctl c j" "modular_port c i ctl = modular_port c j ctl"
    using s by (simp_all add: l2_ctl_def modular_ctl_def hits8_def [abs_def] modular_port_def new_address8_def)
  have "data_in8 (l2_ctl c i) i v w = data_in8 (l2_ctl c j) j v w" for w
    using s(2,4) ctl8_fields(11) [where c = c and i = j] unfolding e(1) by (simp add: data_in8_def l2_ctl_def)
  then show "modular_clock False c i (l2_ctl c i) v d = modular_clock False c j (l2_ctl c j) v d"
    using s(1-3) e(1) by (simp add: modular_clock_def hits8_def [abs_def] Let_def)
qed

section \<open>The port\<close>

type_synonym level2 = "modular_cache \<times> path \<times> port_in"

fun level2_step :: "level2 \<Rightarrow> port_in \<Rightarrow> level2" where
  "level2_step (c, s, j) i =
     (modular_clock False c i (l2_ctl c i) (path_rdata s) (path_resp s), path_step s (modular_port c i (l2_ctl c i)), i)"

fun level2_resp :: "level2 \<Rightarrow> bool" where
  "level2_resp (c, s, j) = done8 (l2_ctl c j)"

fun level2_rdata :: "level2 \<Rightarrow> line" where
  "level2_rdata (c, s, j) = cacheline_out8 c (l2_ctl c j)"

text \<open>The lines of cache and memory together, but for the entry that is being refilled.\<close>

fun level2_contents :: "level2 \<Rightarrow> lines" where
  "level2_contents (c, s, j) =
     cache_view (sets8 c) (if curr_state8 c = Miss_clean8 then {victim_entry8 c (p_address j)} else {}) (path_contents s)"

fun level2_ready :: "level2 \<Rightarrow> bool" where
  "level2_ready (c, s, j) \<longleftrightarrow> l2_ready (c, s) (cache_view (sets8 c) {} (path_contents s))"

abbreviation level2_bound :: nat where
  "level2_bound \<equiv> 2 * (DELAY_MEM + 6) + 4"

text \<open>At work on a request that it has been asked before, unless it is about to see it.\<close>

fun level2_works :: "level2 \<Rightarrow> request \<Rightarrow> lines \<Rightarrow> nat \<Rightarrow> bool" where
  "level2_works (c, s, j) r L m \<longleftrightarrow> (curr_state8 c = Stall8 \<or> asks j r) \<and> l2_serving (c, s) r L m"

primrec level2_serving :: "level2 \<Rightarrow> request \<Rightarrow> lines \<Rightarrow> nat \<Rightarrow> bool" where
  "level2_serving x r L 0 \<longleftrightarrow> (\<exists>m. level2_works x r L m) \<and> level2_resp x"
| "level2_serving x r L (Suc n) \<longleftrightarrow>
     (\<exists>m. level2_works x r L m) \<and> \<not> level2_resp x \<and> (\<forall>i. asks i r \<longrightarrow> level2_serving (level2_step x i) r L n)"

declare path_step.simps [simp del] path_resp.simps [simp del] path_rdata.simps [simp del] path_contents.simps [simp del] path_ready.simps [simp del]

lemma level2_cycle: "l2_step (c, s) i (done8 (l2_ctl c i)) (cacheline_out8 c (l2_ctl c i))
    (modular_clock False c i (l2_ctl c i) (path_rdata s) (path_resp s), path_step s (modular_port c i (l2_ctl c i)))"
  unfolding l2_ctl_def by (rule modular_step.cycle) (rule refl)+

lemma stall_silent: "curr_state8 c = Stall8 \<Longrightarrow> \<not> done8 (l2_ctl c i)"
  by (simp add: l2_ctl_def ctl8_fields)

text \<open>Write-backs below change the line being written back only, and that line the cache holds.\<close>

lemma path_writing: "path_serving s (WriteLine a w) M k \<Longrightarrow> l \<noteq> line_no a \<Longrightarrow> path_contents s l = M l"
  by (cases rule: path_serving.cases) (auto simp: path_contents.simps)

lemma works_contents:
  assumes "level2_works (c, s, j) r L m"
  shows "level2_contents (c, s, j) = L"
proof -
  have j: "curr_state8 c = Stall8 \<or> p_address j = req_addr r" using assms asks_accessed(2) by auto
  from assms have "l2_serving (c, s) r L m" by simp
  then show ?thesis
  proof (cases rule: modular_serving.cases)
    case asked
    then show ?thesis by (simp add: modular_at_def)
  next
    case looking
    then show ?thesis by (simp add: modular_at_def)
  next
    case (writing M k)
    let ?v = "victim8 c (req_addr r)" and ?x = "addr_index (req_addr r)"
    let ?l = "line_num (tags (sets8 c) ?v ?x) ?x"
    have h: "holds_line (sets8 c) {} ?l ?v" using writing(5) by (simp add: holds_line_def)
    have "path_contents s l = M l" if "l \<noteq> ?l" for l
      using path_writing [of s _ _ M k l] writing(4) that by (simp add: evict8_def evict_request_def line_no_victim)
    then have "cache_view (sets8 c) {} (path_contents s) l = cache_view (sets8 c) {} M l" for l
      using h by (cases "l = ?l") (auto simp: cache_view_def)
    with writing show ?thesis by (simp add: fun_eq_iff)
  next
    case (refilling M k)
    have "path_contents s = M" using refilling(4) path.reading by (simp add: refill_request_def)
    with refilling j show ?thesis by simp
  qed
qed

text \<open>The exact time of the response, from the limit on it.\<close>

lemma level2_asks:
  assumes "asks i r" and "asks j r"
  shows "level2_step (c, s, k) i = (fst (level2_step (c, s, k') j), fst (snd (level2_step (c, s, k') j)), i)"
  using ctl8_asks [OF assms] by simp

lemma serving_asks:
  assumes "asks i r" and "asks j r"
  shows "level2_serving (c, s, i) r L n \<longleftrightarrow> level2_serving (c, s, j) r L n"
proof -
  have "level2_works (c, s, i) r L m \<longleftrightarrow> level2_works (c, s, j) r L m" for m using assms by simp
  moreover have "level2_resp (c, s, i) \<longleftrightarrow> level2_resp (c, s, j)" using ctl8_asks(1) [OF assms] by simp
  ultimately show ?thesis by (cases n) simp_all
qed

lemma works_serving: "level2_works x r L m \<Longrightarrow> \<exists>n\<le>m. level2_serving x r L n"
proof (induction m arbitrary: x rule: less_induct)
  case (less m)
  obtain c s j where x: "x = (c, s, j)" by (metis surj_pair)
  show ?case
  proof (cases "level2_resp x")
    case True
    with less.prems show ?thesis by (intro exI [of _ 0]) auto
  next
    case False
    obtain i where i: "asks i r" using asks_exists by blast
    have "\<not> done8 (l2_ctl c i)"
      using less.prems False stall_silent ctl8_asks(1) [OF i] by (auto simp: x)
    with l2.progress [OF _ i level2_cycle, of c s L m] less.prems obtain k where
      k: "k < m" "level2_works (level2_step (c, s, j) i) r L k" using i by (auto simp: x)
    from less.IH [OF this] obtain n where n: "n \<le> k" "level2_serving (level2_step (c, s, j) i) r L n" by blast
    have "level2_serving (level2_step (c, s, j) i') r L n" if i': "asks i' r" for i'
    proof -
      have "level2_step (c, s, j) i = (fst (level2_step (c, s, j) i), fst (snd (level2_step (c, s, j) i)), i)" by simp
      with n(2) serving_asks [OF i i'] show ?thesis unfolding level2_asks [OF i' i, of c s j j] by metis
    qed
    then have "level2_serving x r L (Suc n)" using less.prems False by (auto simp: x)
    with n(1) k(1) show ?thesis by (intro exI [of _ "Suc n"]) simp
  qed
qed

interpretation lower: line_port level2_step level2_resp level2_rdata level2_contents level2_ready level2_serving level2_bound
proof
  show "level2_ready (level2_step x i) \<and> level2_contents (level2_step x i) = level2_contents x" if "level2_ready x" "quiet i" for x i
  proof (cases x)
    case (fields c s j)
    have "\<not> accessed8 i" using that(2) by (simp add: quiet_def)
    with l2.rests [OF _ this level2_cycle] that(1) fields show ?thesis by (auto simp: modular_at_def)
  qed
  show "\<not> level2_resp x" if "level2_ready x" for x
    using that stall_silent by (cases x) (simp add: modular_at_def)
  show "\<exists>n\<le>level2_bound. level2_serving x r (level2_contents x) n" if "level2_ready x" for x r
  proof (cases x)
    case (fields c s j)
    have st: "curr_state8 c = Stall8" using that by (simp add: fields modular_at_def)
    from that have "l2_ready (c, s) (level2_contents x)" using st by (simp add: fields)
    from l2.accepts [OF this] obtain m where m: "m \<le> level2_bound" "level2_works x r (level2_contents x) m" using st by (auto simp: fields)
    from works_serving [OF m(2)] m(1) show ?thesis by (meson le_trans)
  qed
  show "\<not> level2_resp x \<and> level2_serving (level2_step x i) r L n" if "level2_serving x r L (Suc n)" "asks i r" for x r L n i
    using that by simp
  have zero: "asks j r \<and> (\<exists>m. l2_serving (c, s) r L m) \<and> done8 (l2_ctl c j)" if "level2_serving (c, s, j) r L 0" for c s j r L
    using that stall_silent by auto
  show "level2_resp x \<and> (\<forall>a. r = ReadLine a \<longrightarrow> level2_rdata x = L (line_no a))" if "level2_serving x r L 0" for x r L
  proof (cases x)
    case (fields c s j)
    note z = zero [OF that [unfolded fields]]
    then obtain m where "l2_serving (c, s) r L m" by blast
    from l2.progress [OF this _ level2_cycle, of j] z fields show ?thesis by auto
  qed
  show "level2_ready (level2_step x i) \<and> level2_contents (level2_step x i) = effect r L" if "level2_serving x r L 0" "asks i r" for x r L i
  proof (cases x)
    case (fields c s j)
    note z = zero [OF that(1) [unfolded fields]]
    then obtain m where "l2_serving (c, s) r L m" by blast
    moreover have "done8 (l2_ctl c i)" using z ctl8_asks(1) [OF that(2)] by metis
    ultimately have "l2_ready (modular_clock False c i (l2_ctl c i) (path_rdata s) (path_resp s), path_step s (modular_port c i (l2_ctl c i))) (effect r L)"
      using l2.progress [OF _ that(2) level2_cycle] by metis
    then show ?thesis by (auto simp: fields modular_at_def)
  qed
  show "level2_contents x = L" if "level2_serving x (ReadLine a) L n" for x a L n
  proof -
    have "\<exists>m. level2_works x (ReadLine a) L m" using that by (cases n) simp_all
    then show ?thesis using works_contents by (cases x) blast
  qed
qed

section \<open>The data cache's side of the arbiter\<close>

interpretation d_lower: held_port "d_side_step level2_step level2_resp level2_rdata" "d_side_resp level2_resp"
  "d_side_rdata level2_resp level2_rdata" "d_side_contents level2_contents" "d_side_ready level2_ready level2_serving level2_bound"
  "d_side_serving level2_ready level2_contents level2_serving level2_bound" "2 * level2_bound + 2"
  by (rule lower.d_side_port)

text \<open>From here on the modules below are opened again.\<close>

declare path_step.simps [simp] path_resp.simps [simp] path_rdata.simps [simp] path_contents.simps [simp] path_ready.simps [simp]

end
