(* ===== verification/Hierarchy.thy ===== *)
theory Hierarchy
  imports Level2_Port
begin

text \<open>
  The memory hierarchy: instruction and data cache, the arbiter between them, the shared second level, the cacheline
  adaptor and the burst memory, connected cycle by cycle through the ports of the modules. This is the hierarchy of
  section III.A of the final report, with the four-way first-level caches of Checkpoint 3.
\<close>

section \<open>The connection\<close>

record hierarchy =
  data_l1 :: cache
  instr_l1 :: cache
  arbiter_state :: arb_state
  l2_cache :: modular_cache
  main_memory :: path

text \<open>
  A cycle, with the requests \<open>d\<close> and \<open>f\<close> of the pipeline to the two first-level caches and their answers. The requests
  of the caches go to the arbiter, that of the arbiter to the second level and its response, in the same cycle, through the
  arbiter to the cache in service; the second level asks the adaptor.
\<close>

inductive hierarchy_cycle :: "hierarchy \<Rightarrow> cache_in \<Rightarrow> cache_in \<Rightarrow> bool \<Rightarrow> u32 \<Rightarrow> bool \<Rightarrow> u32 \<Rightarrow> hierarchy \<Rightarrow> bool" where
  cycle: "pd = cache_port (data_l1 y) jd ctld \<Longrightarrow> pf = cache_port (instr_l1 y) jf ctlf \<Longrightarrow>
    arb = \<lparr> i_cache_read = p_read pf, i_cache_address = p_address pf,
      d_cache_read = p_read pd, d_cache_write = p_write pd, d_cache_address = p_address pd, d_cache_wdata = p_wdata pd,
      next_level_arb_mem_resp = done8 ctl, next_level_arb_rdata = cacheline_out8 (l2_cache y) ctl \<rparr> \<Longrightarrow>
    out = state_actions (arbiter_state y) arb \<Longrightarrow>
    ctl = modular_ctl held (l2_cache y) (next_level out) \<Longrightarrow>
    jd = d\<lparr>pmem_rdata := d_cache_rdata out, pmem_resp := d_cache_mem_resp out\<rparr> \<Longrightarrow>
    jf = f\<lparr>pmem_rdata := i_cache_rdata out, pmem_resp := i_cache_mem_resp out\<rparr> \<Longrightarrow>
    settles (data_l1 y) jd ctld \<Longrightarrow> settles (instr_l1 y) jf ctlf \<Longrightarrow>
    hierarchy_cycle y d f (done_out ctld) (cache_rdata (data_l1 y) jd ctld) (done_out ctlf) (cache_rdata (instr_l1 y) jf ctlf)
      \<lparr> data_l1 = cache_clock False (data_l1 y) jd ctld, instr_l1 = cache_clock False (instr_l1 y) jf ctlf,
        arbiter_state = arb_step False (arbiter_state y) arb,
        l2_cache = modular_clock False (l2_cache y) (next_level out) ctl (path_rdata (main_memory y)) (path_resp (main_memory y)),
        main_memory = path_step (main_memory y) (modular_port (l2_cache y) (next_level out) ctl) \<rparr>"

text \<open>Caches after a cycle of reset, whatever they held, and the memory at rest with its contents.\<close>

definition after_reset :: "hierarchy \<Rightarrow> lines \<Rightarrow> bool" where
  "after_reset y L \<longleftrightarrow>
     (\<exists>cd cf c jd jf i ctld ctlf ctl v b s. path_ready s \<and> path_contents s = L
        \<and> y = \<lparr> data_l1 = cache_clock True cd jd ctld, instr_l1 = cache_clock True cf jf ctlf,
                arbiter_state = IDLE,
                l2_cache = modular_clock True c i ctl v b, main_memory = s \<rparr>)"

section \<open>A cycle exists\<close>

text \<open>What a first-level cache asks of the arbiter does not depend on what it is answered in the same cycle.\<close>

lemma l1_port_free:
  assumes "settles c (i\<lparr>pmem_rdata := v, pmem_resp := b\<rparr>) ctl" and "settles c (i\<lparr>pmem_rdata := v', pmem_resp := b'\<rparr>) ctl'"
  defines "p \<equiv> cache_port c (i\<lparr>pmem_rdata := v, pmem_resp := b\<rparr>) ctl"
    and "p' \<equiv> cache_port c (i\<lparr>pmem_rdata := v', pmem_resp := b'\<rparr>) ctl'"
  shows "p_read p = p_read p'" "p_write p = p_write p'" "p_address p = p_address p'" "p_write p \<Longrightarrow> p_wdata p = p_wdata p'"
proof -
  note f = settles_fields [OF assms(1)] and f' = settles_fields [OF assms(2)]
  show "p_read p = p_read p'" and w: "p_write p = p_write p'"
    using f(12,13) f'(12,13) by (simp_all add: p_def p'_def cache_port_def)
  show "p_wdata p = p_wdata p'" if "p_write p"
  proof -
    have "cache_state c = Miss_dirty" using that f(13) by (simp add: p_def cache_port_def)
    from cycle_writing(5) [OF assms(1) this] cycle_writing(5) [OF assms(2) this] show ?thesis by (simp add: p_def p'_def)
  qed
  show "p_address p = p_address p'"
  proof (cases "cache_state c = Miss_dirty")
    case True
    from cycle_writing(4) [OF assms(1) True] cycle_writing(4) [OF assms(2) True] show ?thesis by (simp add: p_def p'_def)
  next
    case False
    with f(2) f'(2) show ?thesis by (simp add: p_def p'_def cache_port_def new_address_def)
  qed
qed

lemma next_level_free:
  assumes "p_read pd = p_read pd'" "p_write pd = p_write pd'" "p_address pd = p_address pd'" "p_write pd \<Longrightarrow> p_wdata pd = p_wdata pd'"
    and "p_address pf = p_address pf'"
  shows "next_level (state_actions st \<lparr> i_cache_read = p_read pf, i_cache_address = p_address pf,
      d_cache_read = p_read pd, d_cache_write = p_write pd, d_cache_address = p_address pd, d_cache_wdata = p_wdata pd,
      next_level_arb_mem_resp = b, next_level_arb_rdata = v \<rparr>) =
    next_level (state_actions st \<lparr> i_cache_read = p_read pf', i_cache_address = p_address pf',
      d_cache_read = p_read pd', d_cache_write = p_write pd', d_cache_address = p_address pd', d_cache_wdata = p_wdata pd',
      next_level_arb_mem_resp = b', next_level_arb_rdata = v' \<rparr>)"
  unfolding next_level_request using assms by (cases st) (auto simp: i_request_def d_request_def)

lemma routed:
  "d_cache_mem_resp (state_actions st i) = (st = D_CACHE_ALLOW \<and> next_level_arb_mem_resp i)"
  "i_cache_mem_resp (state_actions st i) = (st = I_CACHE_ALLOW \<and> next_level_arb_mem_resp i)"
  "d_cache_rdata (state_actions st i) = (if st = D_CACHE_ALLOW \<and> next_level_arb_mem_resp i then next_level_arb_rdata i else 0)"
  "i_cache_rdata (state_actions st i) = (if st = I_CACHE_ALLOW \<and> next_level_arb_mem_resp i then next_level_arb_rdata i else 0)"
  by (cases st; simp add: state_actions.simps arb_defaults_def Let_def)+

lemma hierarchy_exists: "\<exists>dd vd df vf y'. hierarchy_cycle y d f dd vd df vf y'"
proof -
  let ?arb = "\<lambda>pd pf ctl. \<lparr> i_cache_read = p_read pf, i_cache_address = p_address pf,
      d_cache_read = p_read pd, d_cache_write = p_write pd, d_cache_address = p_address pd, d_cache_wdata = p_wdata pd,
      next_level_arb_mem_resp = done8 ctl, next_level_arb_rdata = cacheline_out8 (l2_cache y) ctl \<rparr>"
  let ?j = "\<lambda>i b v. i\<lparr>pmem_rdata := v, pmem_resp := b\<rparr>"
  obtain ctld' ctlf' where first: "settles (data_l1 y) (?j d False 0) ctld'" "settles (instr_l1 y) (?j f False 0) ctlf'"
    using cycle_settles by blast
  define n where "n = next_level (state_actions (arbiter_state y)
    (?arb (cache_port (data_l1 y) (?j d False 0) ctld') (cache_port (instr_l1 y) (?j f False 0) ctlf') undefined))"
  define ctl where "ctl = modular_ctl undefined (l2_cache y) n"
  define give where "give st = (if arbiter_state y = st \<and> done8 ctl then cacheline_out8 (l2_cache y) ctl else 0)" for st
  define jd where "jd = ?j d (arbiter_state y = D_CACHE_ALLOW \<and> done8 ctl) (give D_CACHE_ALLOW)"
  define jf where "jf = ?j f (arbiter_state y = I_CACHE_ALLOW \<and> done8 ctl) (give I_CACHE_ALLOW)"
  obtain ctld ctlf where then_: "settles (data_l1 y) jd ctld" "settles (instr_l1 y) jf ctlf" using cycle_settles by blast
  define arb where "arb = ?arb (cache_port (data_l1 y) jd ctld) (cache_port (instr_l1 y) jf ctlf) ctl"
  have out: "jd = d\<lparr>pmem_rdata := d_cache_rdata (state_actions (arbiter_state y) arb), pmem_resp := d_cache_mem_resp (state_actions (arbiter_state y) arb)\<rparr>"
    "jf = f\<lparr>pmem_rdata := i_cache_rdata (state_actions (arbiter_state y) arb), pmem_resp := i_cache_mem_resp (state_actions (arbiter_state y) arb)\<rparr>"
    by (simp_all add: jd_def jf_def routed give_def arb_def)
  have n: "next_level (state_actions (arbiter_state y) arb) = n" unfolding n_def arb_def
    by (intro next_level_free l1_port_free [OF then_(1) [unfolded jd_def] first(1), folded jd_def] l1_port_free(3) [OF then_(2) [unfolded jf_def] first(2), folded jf_def])
  have "ctl = modular_ctl undefined (l2_cache y) (next_level (state_actions (arbiter_state y) arb))" unfolding n by (rule ctl_def)
  from hierarchy_cycle.cycle [OF refl refl arb_def refl this out then_] show ?thesis by blast
qed

section \<open>The second level as a port\<close>

text \<open>
  The arbiter listens to the second level while it serves a cache. If that has already asked in the cycle before, the
  response is that to the earlier request.
\<close>

abbreviation observed_cycle where
  "observed_cycle \<equiv> system_cycle level2_step level2_resp level2_rdata"

fun observed :: "hierarchy \<Rightarrow> port_in \<Rightarrow> level2 system" where
  "observed y j = (data_l1 y, instr_l1 y, arbiter_state y, l2_cache y, main_memory y, j)"

lemma stall_out: "curr_state8 c = Stall8 \<Longrightarrow> cacheline_out8 c (l2_ctl c i) = cacheline_out8 c (l2_ctl c j)"
  by (simp add: cacheline_out8_def l2_ctl_def ctl8_fields)

lemma cycle_observed:
  assumes "hierarchy_cycle y d f dd vd df vf y'"
    and "\<And>jd jf ctld ctlf arb. settles (data_l1 y) jd ctld \<Longrightarrow> settles (instr_l1 y) jf ctlf \<Longrightarrow>
      \<exists>v b. jd = d\<lparr>pmem_rdata := v, pmem_resp := b\<rparr> \<Longrightarrow> \<exists>v b. jf = f\<lparr>pmem_rdata := v, pmem_resp := b\<rparr> \<Longrightarrow>
      arbiter_state y = IDLE \<or> curr_state8 (l2_cache y) = Stall8
        \<or> (\<exists>r. asks j r \<and> allowed (arbiter_state y) r
            \<and> asks (client (arbiter_state y) (cache_port (instr_l1 y) jf ctlf) (cache_port (data_l1 y) jd ctld)) r)"
  shows "\<exists>j'. observed_cycle (observed y j) d f dd vd df vf (observed y' j')"
  using assms
proof (induction rule: hierarchy_cycle.induct)
  case (cycle pd y jd ctld pf jf ctlf arb ctl out held d f)
  let ?x = "(arbiter_state y, l2_cache y, main_memory y, j)"
  let ?arb = "arb_inputs level2_resp level2_rdata (snd ?x) pf pd"
  have "\<exists>v b. jd = d\<lparr>pmem_rdata := v, pmem_resp := b\<rparr>" "\<exists>v b. jf = f\<lparr>pmem_rdata := v, pmem_resp := b\<rparr>"
    using cycle.hyps(6,7) by blast+
  from cycle.prems [OF cycle.hyps(8,9) this, folded cycle.hyps(1,2)]
  consider (idle) "arbiter_state y = IDLE" | (stall) "curr_state8 (l2_cache y) = Stall8"
    | (held) r where "asks j r" "allowed (arbiter_state y) r" "asks (client (arbiter_state y) pf pd) r" by blast
  then have same: "state_actions (arbiter_state y) ?arb = out \<and> arb_step False (arbiter_state y) ?arb = arb_step False (arbiter_state y) arb"
  proof cases
    case idle
    then show ?thesis by (simp add: cycle.hyps(3,4) state_actions.simps arb_step_def arb_inputs_def d_cache_req_def i_cache_req_def)
  next
    case stall
    have "done8 ctl = level2_resp (snd ?x)" "cacheline_out8 (l2_cache y) ctl = level2_rdata (snd ?x)"
      using stall_silent [OF stall] stall_out [OF stall] by (simp_all add: cycle.hyps(5) ctl8_held)
    then have "?arb = arb" by (simp add: cycle.hyps(3) arb_inputs_def)
    then show ?thesis by (simp add: cycle.hyps(4))
  next
    case (held r)
    have "asks (next_level out) r"
      using granted_request [where x = ?x and i = pf and d = pd and resp = "\<lambda>_. done8 ctl" and rdata = "\<lambda>_. cacheline_out8 (l2_cache y) ctl"]
        held(2,3) by (simp add: cycle.hyps(3,4) shared_out_def arb_inputs_def)
    then have "done8 ctl = level2_resp (snd ?x)" "cacheline_out8 (l2_cache y) ctl = level2_rdata (snd ?x)"
      using ctl8_asks(1) [OF _ held(1)] by (simp_all add: cycle.hyps(5) ctl8_held)
    then have "?arb = arb" by (simp add: cycle.hyps(3) arb_inputs_def)
    then show ?thesis by (simp add: cycle.hyps(4))
  qed
  have out: "out = shared_out level2_resp level2_rdata ?x (cache_port (instr_l1 y) jf ctlf) (cache_port (data_l1 y) jd ctld)"
    using same by (simp add: shared_out_def cycle.hyps(1,2))
  have "shared_step level2_step level2_resp level2_rdata ?x (cache_port (instr_l1 y) jf ctlf) (cache_port (data_l1 y) jd ctld) =
      (arb_step False (arbiter_state y) arb,
       modular_clock False (l2_cache y) (next_level out) ctl (path_rdata (main_memory y)) (path_resp (main_memory y)),
       path_step (main_memory y) (modular_port (l2_cache y) (next_level out) ctl), next_level out)"
    using same out by (simp add: shared_step_def cycle.hyps(1,2,5) ctl8_held)
  with system_cycle.cycle [where step = level2_step, OF out cycle.hyps(6-9)] show ?case
    by (intro exI [of _ "next_level out"]) simp
qed

end
