(* ===== verification/Core_Memory.thy ===== *)
theory Core_Memory
  imports Data_Memory Core_Runs
begin

text \<open>
  The core on its data cache: the request of the memory stage goes to the stack of cache, arbiter,
  adaptor and burst memory, and a cycle is a miss as long as the stack has not answered. To the
  core this is a data memory, so the theorems about runs hold of the two together, down to the
  bursts; and since the stack always answers, instructions retire.
\<close>

section \<open>A core's port over cycles\<close>

fun presents :: "cache_in \<Rightarrow> access option \<Rightarrow> bool" where
  "presents i None \<longleftrightarrow> \<not> accessed i"
| "presents i (Some q) \<longleftrightarrow> requests i q"

text \<open>At rest with memory \<open>L\<close>, or at work on the request.\<close>

definition port_holds :: "('s \<Rightarrow> lines \<Rightarrow> bool) \<Rightarrow> ('s \<Rightarrow> access \<Rightarrow> lines \<Rightarrow> nat \<Rightarrow> bool) \<Rightarrow> nat \<Rightarrow> 's \<Rightarrow> access option \<Rightarrow> lines \<Rightarrow> bool" where
  "port_holds ready serving bound s request L \<longleftrightarrow>
     ready s L \<or> (\<exists>q n. request = Some q \<and> n \<le> bound \<and> serving s q L n)"

context word_port
begin

abbreviation holds :: "'s \<Rightarrow> access option \<Rightarrow> lines \<Rightarrow> bool" where
  "holds \<equiv> port_holds ready serving bound"

lemma holds_serving: "holds s (Some q) L \<Longrightarrow> \<exists>n\<le>bound. serving s q L n"
  using accepts by (auto simp: port_holds_def)

lemma holds_idle: "holds s None L \<Longrightarrow> \<not> accessed i \<Longrightarrow> step s i d v s' \<Longrightarrow> \<not> d \<and> holds s' q L"
  using rests [of s L i d v s'] by (auto simp: port_holds_def)

lemma holds_request:
  assumes "holds s (Some q) L" and "requests i q" and "step s i d v s'"
  shows "if d then answer q L v \<and> holds s' q' (access_effect q L) else holds s' (Some q) L"
proof -
  from holds_serving [OF assms(1)] obtain n where n: "n \<le> bound" "serving s q L n" by blast
  from progress [OF n(2) assms(2,3)] n(1) show ?thesis
    by (auto simp: port_holds_def intro: less_imp_le less_le_trans split: if_splits)
qed

lemma holds_answered:
  assumes "holds (st 0) (Some q) L" and "\<And>k. step (st k) (i k) (d k) (v k) (st (Suc k))"
    and "\<And>k. (\<forall>j<k. \<not> d j) \<Longrightarrow> requests (i k) q"
  shows "\<exists>n\<le>bound. d n \<and> (\<forall>j<n. \<not> d j)"
proof -
  from holds_serving [OF assms(1)] obtain n where n: "n \<le> bound" "serving (st 0) q L n" by blast
  from serving_answered [where st = st and i = i and d = d and v = v, OF n(2) assms(2,3)] n(1) show ?thesis
    by (meson le_trans)
qed

end

section \<open>The two together\<close>

abbreviation stack_holds :: "data_memory \<Rightarrow> access option \<Rightarrow> lines \<Rightarrow> bool" where
  "stack_holds \<equiv> port_holds stack_ready stack_serving (2 * (2 * (DELAY_MEM + 6) + 2) + 4)"

definition cached_core :: "(u32 \<Rightarrow> u32) \<Rightarrow> nat \<Rightarrow> (nat \<Rightarrow> core_in) \<Rightarrow> (nat \<Rightarrow> core) \<Rightarrow> (nat \<Rightarrow> cache_in) \<Rightarrow>
    (nat \<Rightarrow> bool) \<Rightarrow> (nat \<Rightarrow> data_memory) \<Rightarrow> bool" where
  "cached_core code r i c ci d x \<longleftrightarrow>
     (\<forall>k. c (Suc k) = core_step (i k) (c k) \<and> (core_rst (i k) \<longleftrightarrow> k < r)
        \<and> (r \<le> k \<longrightarrow>
             (\<not> i_cache_miss (i k) \<longrightarrow> i_cache_rdata (i k) = code (pcreg (c k)))
             \<and> presents (ci k) (data_request (i k) (c k))
             \<and> stack_step (x k) (ci k) (d k) (d_cache_rdata (i k)) (x (Suc k))
             \<and> (d_cache_miss (i k) \<longleftrightarrow> data_request (i k) (c k) \<noteq> None \<and> \<not> d k)))"

text \<open>The request stays the same as long as it is not answered, whatever the latches hold.\<close>

lemma enable_select: "Stages.mem_byte_enable h op_store (width_funct3 w) a = Stages.mem_byte_enable h' op_store (width_funct3 w) a"
  by (cases w) (simp_all add: mem_byte_enable_def enum_defs)

lemma request_stable:
  assumes "isa_trace code prog A" and "memory_slot prog A n j (to_memory (registers c))"
    and "to_memory (registers c') = to_memory (registers c)"
  shows "data_request i' c' = data_request i c"
proof (cases "quiet_memory (to_memory (registers c))")
  case True
  with quiet_request [of c] quiet_request [of c'] show ?thesis by (simp add: assms(3))
next
  case False
  with assms(2) have m: "in_memory prog (A n) (to_memory (registers c))" by (auto simp: memory_slot_def)
  note f = in_memory_fields [OF assms(1) m refl]
  show ?thesis
  proof (cases "prog (a_pc (A n))")
    case (Store w rs1 rs2 v)
    then have "ex_opcode (to_memory (registers c)) = op_store" "ex_funct3 (to_memory (registers c)) = width_funct3 w"
      using f by (simp_all add: store_funct3)
    then show ?thesis unfolding data_request_def Let_def assms(3) using f Store
      by (auto intro: wdata_select enable_select)
  qed (simp_all add: data_request_def Let_def assms(3) f)
qed

lemma request_held:
  assumes "isa_trace code prog A" and "core_at prog A n f c m" and "\<not> core_rst i" and "i_cache_miss i \<or> d_cache_miss i"
  shows "data_request i' (core_step i c) = data_request i c"
proof -
  obtain j where "memory_slot prog A n j (to_memory (registers c))"
    using assms(2) by (auto simp: core_at_def memory_on_def)
  from request_stable [OF assms(1) this] miss_step(1) [OF assms(3,4)] show ?thesis by blast
qed

text \<open>What a cycle does to the lines that cache and memory hold together.\<close>

definition lines_cycle :: "access option \<Rightarrow> bool \<Rightarrow> u32 \<Rightarrow> lines \<Rightarrow> lines \<Rightarrow> bool" where
  "lines_cycle request miss v L L' \<longleftrightarrow>
     (case request of None \<Rightarrow> \<not> miss \<and> L' = L
      | Some q \<Rightarrow> if miss then L' = L else answer q L v \<and> L' = access_effect q L)"

lemma lines_cycle_bytes: "lines_cycle request miss v L L' \<Longrightarrow> port_cycle request miss v (memory_bytes L) (memory_bytes L')"
  by (auto simp: lines_cycle_def port_cycle_def effect_bytes simp flip: answer_bytes split: option.splits if_splits)

lemma lines_cycle_effect: "lines_cycle request miss v L L' \<Longrightarrow> L' = L \<or> (\<exists>q. request = Some q \<and> L' = access_effect q L)"
  by (auto simp: lines_cycle_def split: option.splits if_splits)

text \<open>One cycle of the port.\<close>

context word_port
begin

lemma holds_cycle:
  assumes "holds s request L" and "presents ci request" and "step s ci d v s'"
    and "miss \<longleftrightarrow> request \<noteq> None \<and> \<not> d" and "miss \<Longrightarrow> request' = request"
  shows "\<exists>L'. lines_cycle request miss v L L' \<and> holds s' request' L'"
proof (cases request)
  case None
  with assms holds_idle [of s L ci d v s' request'] show ?thesis
    by (intro exI [of _ L]) (simp add: lines_cycle_def)
next
  case (Some q)
  then have rq: "requests ci q" using assms(2) by simp
  note h = holds_request [OF assms(1) [unfolded Some] rq assms(3), of request']
  show ?thesis
  proof (cases d)
    case True
    with h Some assms(4) show ?thesis
      by (intro exI [of _ "access_effect q L"]) (simp add: lines_cycle_def)
  next
    case False
    with h Some assms(4,5) show ?thesis by (intro exI [of _ L]) (simp add: lines_cycle_def)
  qed
qed

end

lemma cached_core_run:
  assumes "cached_core code r i c ci d x" and "3 \<le> r" and "stack_ready (x r) L0"
    and "executes code prog (reset_arch (memory_bytes L0))" and "\<And>k. r \<le> k \<Longrightarrow> \<not> redirection_meets_hazard (i k) (c k)"
  shows "\<exists>L. L 0 = L0 \<and> core_run code r i c (\<lambda>k. memory_bytes (L (k - r)))
    \<and> (\<forall>k. stack_holds (x (r + k)) (data_request (i (r + k)) (c (r + k))) (L k))"
proof -
  let ?A = "isa_run prog (reset_arch (memory_bytes L0))" and ?q = "\<lambda>k. data_request (i (r + k)) (c (r + k))"
  have tr: "isa_trace code prog ?A" using assms(4) by (rule executes_trace)
  define P where "P k L \<longleftrightarrow> (k = 0 \<longrightarrow> L = L0) \<and> (\<exists>n f. core_at prog ?A n f (c (r + k)) (memory_bytes L)) \<and> stack_holds (x (r + k)) (?q k) L" for k L
  define Q where "Q k L L' \<longleftrightarrow> port_cycle (?q k) (d_cache_miss (i (r + k))) (d_cache_rdata (i (r + k))) (memory_bytes L) (memory_bytes L')"
    for k L L'
  have "\<exists>g. \<forall>k. P k (g k) \<and> Q k (g k) (g (Suc k))"
  proof (rule dependent_nat_choice)
    have "core_rst (i k)" if "k < r" for k using assms(1) that by (simp add: cached_core_def)
    moreover have "c (Suc k) = core_step (i k) (c k)" for k using assms(1) by (simp add: cached_core_def)
    ultimately have "core_at prog ?A 0 3 (c r) (memory_bytes L0)" by (intro held_reset [OF _ _ assms(2)])
    then show "\<exists>L. P 0 L" using assms(3) unfolding P_def port_holds_def by (intro exI [of _ L0]) auto
  next
    fix L k assume L: "P k L"
    have cyc: "c (r + Suc k) = core_step (i (r + k)) (c (r + k))" "\<not> core_rst (i (r + k))"
      "\<not> i_cache_miss (i (r + k)) \<Longrightarrow> \<forall>l. pcreg (c (r + k)) = a_pc (?A l) \<longrightarrow> i_cache_rdata (i (r + k)) = code (pcreg (c (r + k)))"
      and st: "presents (ci (r + k)) (?q k)" "stack_step (x (r + k)) (ci (r + k)) (d (r + k)) (d_cache_rdata (i (r + k))) (x (r + Suc k))"
      "d_cache_miss (i (r + k)) \<longleftrightarrow> ?q k \<noteq> None \<and> \<not> d (r + k)"
      using assms(1) by (simp_all add: cached_core_def)
    from L obtain n f where at: "core_at prog ?A n f (c (r + k)) (memory_bytes L)" and h: "stack_holds (x (r + k)) (?q k) L"
      by (auto simp: P_def)
    have "?q (Suc k) = ?q k" if "d_cache_miss (i (r + k))" using request_held [OF tr at cyc(2)] that cyc(1) by simp
    from dcache.holds_cycle [OF h st this] obtain L' where L': "Q k L L'" "stack_holds (x (r + Suc k)) (?q (Suc k)) L'"
      unfolding Q_def using lines_cycle_bytes by blast
    have "\<not> redirection_meets_hazard (i (r + k)) (c (r + k))" using assms(5) by simp
    from core_cycle [OF tr at cyc(2,3) L'(1) [unfolded Q_def] this]
    have "\<exists>n f. core_at prog ?A n f (c (r + Suc k)) (memory_bytes L')" unfolding cyc(1) by blast
    with L' show "\<exists>L'. P (Suc k) L' \<and> Q k L L'" unfolding P_def by blast
  qed
  then obtain g where g: "P k (g k)" "Q k (g k) (g (Suc k))" for k by blast
  have "core_run code r i c (\<lambda>k. memory_bytes (g (k - r)))"
    unfolding core_run_def
  proof (intro allI conjI impI)
    show "port_cycle (data_request (i k) (c k)) (d_cache_miss (i k)) (d_cache_rdata (i k))
        (memory_bytes (g (k - r))) (memory_bytes (g (Suc k - r)))" if "r \<le> k" for k
      using g(2) [of "k - r"] that by (simp add: Q_def Suc_diff_le)
  qed (use assms(1) in \<open>simp_all add: cached_core_def\<close>)
  with g(1) show ?thesis by (intro exI [of _ g]) (simp add: P_def)
qed

section \<open>The stack answers\<close>

text \<open>In any 473 cycles there is one in which the data cache does not hold up the core.\<close>

lemma stack_hit:
  assumes "cached_core code r i c ci d x" and "core_run code r i c m" and "3 \<le> r" and "executes code prog (reset_arch (m r))"
    and "\<And>k. r \<le> k \<Longrightarrow> \<not> redirection_meets_hazard (i k) (c k)" and "r \<le> k"
    and "stack_holds (x k) (data_request (i k) (c k)) L"
  shows "\<exists>j\<le>472. \<not> d_cache_miss (i (k + j))"
proof (cases "data_request (i k) (c k)")
  case None
  then have "\<not> d_cache_miss (i k)" using assms(1,6) by (simp add: cached_core_def)
  then show ?thesis by (intro exI [of _ 0]) simp
next
  case (Some q)
  have tr: "isa_trace code prog (isa_run prog (reset_arch (m r)))" using assms(4) by (rule executes_trace)
  have step: "stack_step (x (k + j)) (ci (k + j)) (d (k + j)) (d_cache_rdata (i (k + j))) (x (k + Suc j))"
    "presents (ci (k + j)) (data_request (i (k + j)) (c (k + j)))"
    "d_cache_miss (i (k + j)) \<longleftrightarrow> data_request (i (k + j)) (c (k + j)) \<noteq> None \<and> \<not> d (k + j)"
    "c (k + Suc j) = core_step (i (k + j)) (c (k + j))" "\<not> core_rst (i (k + j))" for j
    using assms(1,6) by (simp_all add: cached_core_def)
  have at: "\<exists>n f. core_at prog (isa_run prog (reset_arch (m r))) n f (c (k + j)) (m (k + j))" for j
  proof -
    obtain n f where "\<forall>l. core_at prog (isa_run prog (reset_arch (m r))) (n l) (f l) (c (r + l)) (m (r + l))"
      using retirement [OF assms(2-5)] by auto
    moreover have "k + j = r + (k - r + j)" using assms(6) by simp
    ultimately show ?thesis by metis
  qed
  have held: "data_request (i (k + j)) (c (k + j)) = Some q" if "\<forall>l<j. \<not> d (k + l)" for j
    using that
  proof (induction j)
    case (Suc j)
    then have "data_request (i (k + j)) (c (k + j)) = Some q" "d_cache_miss (i (k + j))" using step(3) [of j] by simp_all
    moreover obtain n f where "core_at prog (isa_run prog (reset_arch (m r))) n f (c (k + j)) (m (k + j))" using at by blast
    ultimately show ?case unfolding step(4) using request_held [OF tr _ step(5)] by simp
  qed (simp add: Some)
  have "requests (ci (k + j)) q" if "\<forall>l<j. \<not> d (k + l)" for j using held [OF that] step(2) [of j] by simp
  from dcache.holds_answered [of "\<lambda>j. x (k + j)" q L "\<lambda>j. ci (k + j)" "\<lambda>j. d (k + j)" "\<lambda>j. d_cache_rdata (i (k + j))",
      OF _ step(1) this] assms(7)
  have "\<exists>j\<le>472. d (k + j)" by (auto simp: Some DELAY_MEM_def)
  then show ?thesis using step(3) by blast
qed

text \<open>What is visible of the core and of the memory behind it.\<close>

lemma cached_core_visible:
  assumes "cached_core code r i c ci d x" and "3 \<le> r" and "stack_ready (x r) L0"
    and "executes code prog (reset_arch (memory_bytes L0))" and "\<And>k. r \<le> k \<Longrightarrow> \<not> redirection_meets_hazard (i k) (c k)"
  obtains n L where "n 0 = 0" and "L 0 = L0" and "core_run code r i c (\<lambda>k. memory_bytes (L (k - r)))"
    and "\<forall>k. n (Suc k) = n k \<or> n (Suc k) = Suc (n k)" and "\<forall>k. core_hits i r k \<le> 4 * n k + 3"
    and "\<forall>k. write_back (i (r + k)) (c (r + k)) = a_regs (isa_run prog (reset_arch (memory_bytes L0)) (n k))"
    and "\<forall>k. stack_holds (x (r + k)) (data_request (i (r + k)) (c (r + k))) (L k)"
    and "\<forall>k. memory_bytes (L k) \<in> {a_mem (isa_run prog (reset_arch (memory_bytes L0)) (n k)),
      a_mem (isa_run prog (reset_arch (memory_bytes L0)) (Suc (n k)))}"
proof -
  from cached_core_run [OF assms] obtain L where L: "L 0 = L0" "core_run code r i c (\<lambda>k. memory_bytes (L (k - r)))"
    "\<forall>k. stack_holds (x (r + k)) (data_request (i (r + k)) (c (r + k))) (L k)" by blast
  have "executes code prog (reset_arch (memory_bytes (L (r - r))))" using L(1) assms(4) by simp
  from run_visible [OF L(2) assms(2) this assms(5)] have "\<exists>n. n 0 = 0 \<and> (\<forall>k. (n (Suc k) = n k \<or> n (Suc k) = Suc (n k)) \<and> core_hits i r k \<le> 4 * n k + 3
      \<and> write_back (i (r + k)) (c (r + k)) = a_regs (isa_run prog (reset_arch (memory_bytes L0)) (n k))
      \<and> memory_bytes (L k) \<in> {a_mem (isa_run prog (reset_arch (memory_bytes L0)) (n k)),
          a_mem (isa_run prog (reset_arch (memory_bytes L0)) (Suc (n k)))})"
    by (simp only: diff_self_eq_0 L(1) diff_add_inverse)
  with L that show thesis by blast
qed

end
