(* ===== verification/Core_System.thy ===== *)
theory Core_System
  imports Core_Memory Counter_Program
begin

text \<open>
  The theorems about the core on its data cache, and their application to the counting program
  on caches and memory just out of reset.
\<close>

section \<open>A system that runs\<close>

text \<open>
  The inputs of the core when the instruction cache always hits; the answers of the stack are put in.
\<close>

definition answered_in :: "(u32 \<Rightarrow> u32) \<Rightarrow> bool \<Rightarrow> core \<Rightarrow> bool \<Rightarrow> u32 \<Rightarrow> core_in" where
  "answered_in code rst c d v =
     (let i = hit_in code rst c in i\<lparr>d_cache_miss := (data_request i c \<noteq> None \<and> \<not> d), d_cache_rdata := v\<rparr>)"

lemma request_answered: "data_request (answered_in code b c d v) c = data_request (hit_in code b c) c"
  by (simp add: answered_in_def data_request_def wb_value_def Let_def)

lemma answered_fields:
  "core_rst (answered_in code b c d v) = b" "\<not> i_cache_miss (answered_in code b c d v)"
  "i_cache_rdata (answered_in code b c d v) = code (pcreg c)" "d_cache_rdata (answered_in code b c d v) = v"
  "d_cache_miss (answered_in code b c d v) \<longleftrightarrow> data_request (hit_in code b c) c \<noteq> None \<and> \<not> d"
  by (simp_all add: answered_in_def hit_in_def Let_def)

lemma presented: "\<exists>ci. presents ci q"
proof (cases q)
  case None
  have "\<not> accessed ((load_inputs 0)\<lparr>mem_read := False\<rparr>)" by (simp add: load_inputs_def)
  with None show ?thesis using presents.simps(1) by blast
qed (use dcache.asked in auto)

lemma cached_core_exists:
  "\<exists>i c ci d x. cached_core code 3 i c ci d x \<and> c 0 = c0 \<and> x 3 = x0 \<and> (\<forall>k. \<not> i_cache_miss (i k))"
proof -
  let ?step = "\<lambda>k s s' ci d v. fst s' = core_step (answered_in code (k < 3) (fst s) d v) (fst s)
    \<and> (if k < 3 then snd s' = snd s
       else presents ci (data_request (hit_in code (k < 3) (fst s)) (fst s)) \<and> stack_step (snd s) ci d v (snd s'))"
  have "\<exists>s' ci d v. ?step k s s' ci d v" for k :: nat and s :: "core \<times> data_memory"
  proof -
    obtain ci where ci: "presents ci (data_request (hit_in code (k < 3) (fst s)) (fst s))" using presented by blast
    obtain d v y where y: "stack_step (snd s) ci d v y" using dcache.live by blast
    let ?c = "core_step (answered_in code (k < 3) (fst s) d v) (fst s)"
    have "?step k s (?c, if k < 3 then snd s else y) ci d v" using ci y by (cases "k < 3") simp_all
    then show ?thesis by blast
  qed
  then have "\<exists>g. \<forall>k. (k = 0 \<longrightarrow> g k = (c0, x0)) \<and> (\<exists>ci d v. ?step k (g k) (g (Suc k)) ci d v)"
    by (intro dependent_nat_choice [where P = "\<lambda>k s. k = 0 \<longrightarrow> s = (c0, x0)" and Q = "\<lambda>k s s'. \<exists>ci d v. ?step k s s' ci d v"]) simp_all
  then obtain g where g: "g 0 = (c0, x0)" "\<forall>k. \<exists>ci d v. ?step k (g k) (g (Suc k)) ci d v" by blast
  from choice [OF g(2)] obtain ci where "\<forall>k. \<exists>d v. ?step k (g k) (g (Suc k)) (ci k) d v" by blast
  from choice [OF this] obtain d where "\<forall>k. \<exists>v. ?step k (g k) (g (Suc k)) (ci k) (d k) v" by blast
  from choice [OF this] obtain v where st: "\<And>k. ?step k (g k) (g (Suc k)) (ci k) (d k) (v k)" by blast
  let ?i = "\<lambda>k. answered_in code (k < 3) (fst (g k)) (d k) (v k)"
  have "presents (ci k) (data_request (hit_in code (k < 3) (fst (g k))) (fst (g k)))
      \<and> stack_step (snd (g k)) (ci k) (d k) (v k) (snd (g (Suc k)))" if "3 \<le> k" for k
    using st [of k] that by simp
  moreover have "fst (g (Suc k)) = core_step (?i k) (fst (g k))" for k using st [of k] by simp
  ultimately have "cached_core code 3 ?i (\<lambda>k. fst (g k)) ci d (\<lambda>k. snd (g k))"
    unfolding cached_core_def by (simp add: answered_fields request_answered)
  moreover have "snd (g (3 :: nat)) = x0"
    using g(1) st [of 0] st [of 1] st [of 2] by (simp add: numeral_3_eq_3 numeral_2_eq_2)
  moreover have "\<forall>k. \<not> i_cache_miss (?i k)" by (simp add: answered_fields)
  ultimately show ?thesis using g(1)
    by (intro exI [of _ ?i] exI [of _ "\<lambda>k. fst (g k)"] exI [of _ ci] exI [of _ d] exI [of _ "\<lambda>k. snd (g k)"]) simp
qed

lemma cached_counter_no_loss:
  assumes "cached_core counter_code 3 i c ci d x" and "3 \<le> k"
  shows "\<not> redirection_meets_hazard (i k) (c k)"
  by (rule paired_no_loss, rule scheduled_paired [where c = c and i = i and r = 3])
    (use assms counter_scheduled in \<open>simp_all add: cached_core_def\<close>)

section \<open>The core on the data cache\<close>

text \<open>
  Core and data cache together implement the instruction set. The core sends the requests of its
  memory stage to the data cache, which gets its lines through the arbiter, the adaptor and the bursts,
  beside an instruction cache that asks for what it likes, and waits for the answers. From the reset on
  the register file with the write in flight, and the bytes that cache and memory hold
  together, are those of the machine that executes one instruction after the other; every cycle
  retires one instruction of it or none.
\<close>

theorem cached_core_refines_isa:
  assumes "cached_core code r i c ci d x" and "3 \<le> r" and "stack_ready (x r) L0"
    and "executes code prog (reset_arch (memory_bytes L0))" and "\<And>k. r \<le> k \<Longrightarrow> \<not> redirection_meets_hazard (i k) (c k)"
  shows "\<exists>n L. n 0 = 0 \<and> L 0 = L0 \<and> (\<forall>k. n (Suc k) = n k \<or> n (Suc k) = Suc (n k))
    \<and> (\<forall>k. let now = isa_run prog (reset_arch (memory_bytes L0)) (n k);
          after = isa_run prog (reset_arch (memory_bytes L0)) (Suc (n k)) in
        write_back (i (r + k)) (c (r + k)) = a_regs now
        \<and> stack_holds (x (r + k)) (data_request (i (r + k)) (c (r + k))) (L k)
        \<and> memory_bytes (L k) \<in> {a_mem now, a_mem after})"
proof (rule cached_core_visible [OF assms(1-5)])
  fix n L
  assume "n 0 = 0" "L 0 = L0" "\<forall>k. n (Suc k) = n k \<or> n (Suc k) = Suc (n k)"
    "\<forall>k. write_back (i (r + k)) (c (r + k)) = a_regs (isa_run prog (reset_arch (memory_bytes L0)) (n k))"
    "\<forall>k. stack_holds (x (r + k)) (data_request (i (r + k)) (c (r + k))) (L k)"
    "\<forall>k. memory_bytes (L k) \<in> {a_mem (isa_run prog (reset_arch (memory_bytes L0)) (n k)),
      a_mem (isa_run prog (reset_arch (memory_bytes L0)) (Suc (n k)))}"
  then show ?thesis unfolding Let_def by (intro exI [of _ n] exI [of _ L]) blast
qed

text \<open>The counting program on caches and memory out of reset.\<close>

theorem cached_core_refines_isa_witness:
  "\<exists>i c ci d x. cached_core counter_code 3 i c ci d x \<and> c 0 = empty_core \<and> x 3 = fresh_stack
     \<and> (\<exists>n. n 0 = 0 \<and> (\<forall>k. n (Suc k) = n k \<or> n (Suc k) = Suc (n k))
       \<and> (\<forall>k. write_back (i (3 + k)) (c (3 + k)) = a_regs (isa_run counter (reset_arch (memory_bytes (\<lambda>l. ucast l + 7))) (n k))))"
proof -
  obtain i c ci d x where sys: "cached_core counter_code 3 i c ci d x" "c 0 = empty_core" "x 3 = fresh_stack"
    using cached_core_exists by metis
  have "stack_ready (x 3) (\<lambda>l. ucast l + 7)" unfolding sys(3) by (rule fresh_ready)
  from cached_core_refines_isa [OF sys(1) order_refl this counter_executes cached_counter_no_loss [OF sys(1)]]
  have "\<exists>n. n 0 = 0 \<and> (\<forall>k. n (Suc k) = n k \<or> n (Suc k) = Suc (n k))
      \<and> (\<forall>k. write_back (i (3 + k)) (c (3 + k)) = a_regs (isa_run counter (reset_arch (memory_bytes (\<lambda>l. ucast l + 7))) (n k)))"
    unfolding Let_def by blast
  with sys show ?thesis by blast
qed

text \<open>
  The system makes progress. Whenever the instruction cache does not miss, every cycle in which the
  core waits for the data cache belongs to an access that is answered within 472 cycles: after
  \<open>4 * 473\<close> cycles for each, \<open>N\<close> instructions have retired, through write-backs, refills and bursts.
\<close>

theorem cached_core_progress:
  assumes "cached_core code r i c ci d x" and "3 \<le> r" and "stack_ready (x r) L0"
    and "executes code prog (reset_arch (memory_bytes L0))" and "\<And>k. r \<le> k \<Longrightarrow> \<not> redirection_meets_hazard (i k) (c k)"
    and "\<And>k. r \<le> k \<Longrightarrow> \<not> i_cache_miss (i k)"
  shows "\<exists>j\<le>4 * 473 * N. write_back (i (r + j)) (c (r + j)) = a_regs (isa_run prog (reset_arch (memory_bytes L0)) N)"
proof (rule cached_core_visible [OF assms(1-5)])
  fix n L
  assume L: "L 0 = L0" and run: "core_run code r i c (\<lambda>k. memory_bytes (L (k - r)))"
    and n: "n 0 = 0" "\<forall>k. n (Suc k) = n k \<or> n (Suc k) = Suc (n k)" "\<forall>k. core_hits i r k \<le> 4 * n k + 3"
    and regs: "\<forall>k. write_back (i (r + k)) (c (r + k)) = a_regs (isa_run prog (reset_arch (memory_bytes L0)) (n k))"
    and holds: "\<forall>k. stack_holds (x (r + k)) (data_request (i (r + k)) (c (r + k))) (L k)"
  have ex: "executes code prog (reset_arch (memory_bytes (L (r - r))))" using L assms(4) by simp
  have "\<exists>j\<le>472. core_hit (i (r + k + j))" for k
    using stack_hit [OF assms(1) run assms(2) ex assms(5) le_add1 holds [THEN spec, of k]] assms(6) by (auto simp: core_hit_def)
  from core_hits_linear [where i = i and r = r and b = 472 and N = "4 * N", OF this]
  have "4 * N \<le> core_hits i r (4 * 473 * N)" by (simp add: mult.commute)
  also have "\<dots> \<le> 4 * n (4 * 473 * N) + 3" using n(3) by blast
  finally have "N \<le> n (4 * 473 * N)" by linarith
  with count_reaches [of n N "4 * 473 * N"] n(1,2) obtain j where "j \<le> 4 * 473 * N" "n j = N" by blast
  with regs show ?thesis by blast
qed

text \<open>Three rounds of the counting program, in a bounded time.\<close>

theorem cached_core_progress_witness:
  "\<exists>i c ci d x. cached_core counter_code 3 i c ci d x \<and> c 0 = empty_core \<and> x 3 = fresh_stack
     \<and> (\<exists>j\<le>4 * 473 * 9. write_back (i (3 + j)) (c (3 + j)) 5 = 3)"
proof -
  obtain i c ci d x where sys: "cached_core counter_code 3 i c ci d x" "c 0 = empty_core" "x 3 = fresh_stack" "\<forall>k. \<not> i_cache_miss (i k)"
    using cached_core_exists by metis
  have "stack_ready (x 3) (\<lambda>l. ucast l + 7)" unfolding sys(3) by (rule fresh_ready)
  from cached_core_progress [OF sys(1) order_refl this counter_executes cached_counter_no_loss [OF sys(1)], of "3 * 3"] sys(4)
  obtain j where "j \<le> 4 * 473 * 9"
    "write_back (i (3 + j)) (c (3 + j)) = a_regs (isa_run counter (reset_arch (memory_bytes (\<lambda>l. ucast l + 7))) (3 * 3))" by auto
  moreover have "a_regs (isa_run counter (reset_arch (memory_bytes (\<lambda>l. ucast l + 7))) (3 * 3)) 5 = 3"
    using counter_round [of _ 3] by (simp only: Let_def) simp
  ultimately show ?thesis using sys by metis
qed

end
