(* ===== verification/Full_System.thy ===== *)
theory Full_System
  imports Hierarchy Core_System
begin

text \<open>
  The processor of Checkpoint 3 as a whole: the core on the memory hierarchy, with one memory for
  instructions and data. As long as the program does not store to the lines it is fetched from, and no redirection meets a
  load-use hazard, the processor executes the program that is in the memory.
\<close>

section \<open>The system\<close>

text \<open>
  The core asks the instruction cache for the word at the program counter in every cycle, and the
  data cache for what the memory stage needs. A cycle is a miss for it as long as a cache it asks does not
  answer.
\<close>

definition system_run :: "nat \<Rightarrow> (nat \<Rightarrow> core_in) \<Rightarrow> (nat \<Rightarrow> core) \<Rightarrow> (nat \<Rightarrow> cache_in) \<Rightarrow> (nat \<Rightarrow> cache_in) \<Rightarrow>
    (nat \<Rightarrow> bool) \<Rightarrow> (nat \<Rightarrow> hierarchy) \<Rightarrow> bool" where
  "system_run r i c di fi dd y \<longleftrightarrow>
     (\<forall>k. c (Suc k) = core_step (i k) (c k) \<and> (core_rst (i k) \<longleftrightarrow> k < r)
        \<and> (r \<le> k \<longrightarrow>
             presents (di k) (data_request (i k) (c k)) \<and> requests (fi k) (LoadWord (pcreg (c k)))
             \<and> hierarchy_cycle (y k) (di k) (fi k) (dd k) (d_cache_rdata (i k)) (\<not> i_cache_miss (i k)) (i_cache_rdata (i k)) (y (Suc k))
             \<and> (d_cache_miss (i k) \<longleftrightarrow> data_request (i k) (c k) \<noteq> None \<and> \<not> dd k)))"

section \<open>The data cache on the second level\<close>

type_synonym data_side = "cache \<times> (arb_state \<times> level2) \<times> u32"

abbreviation side_step :: "data_side \<Rightarrow> cache_in \<Rightarrow> bool \<Rightarrow> u32 \<Rightarrow> data_side \<Rightarrow> bool" where
  "side_step \<equiv> cached_step (d_side_step level2_step level2_resp level2_rdata) (d_side_resp level2_resp)
     (d_side_rdata level2_resp level2_rdata)"

abbreviation side_rest :: "data_side \<Rightarrow> lines \<Rightarrow> bool" where
  "side_rest \<equiv> cached_ready (d_side_ready level2_ready level2_serving level2_bound) (d_side_contents level2_contents)"

abbreviation side_serving :: "data_side \<Rightarrow> access \<Rightarrow> lines \<Rightarrow> nat \<Rightarrow> bool" where
  "side_serving \<equiv> cached_serving (d_side_ready level2_ready level2_serving level2_bound) (d_side_contents level2_contents)
     (d_side_serving level2_ready level2_contents level2_serving level2_bound) (2 * level2_bound + 2)"

interpretation dside: word_port side_step side_rest side_serving "2 * (2 * level2_bound + 2) + 4"
  by (rule held_port.cached_port [OF d_lower.held_port_axioms])

abbreviation side_holds :: "data_side \<Rightarrow> access option \<Rightarrow> lines \<Rightarrow> bool" where
  "side_holds \<equiv> port_holds side_rest side_serving (2 * (2 * level2_bound + 2) + 4)"

section \<open>Programs that do not write their code\<close>

text \<open>
  What a program has to be beside well behaved: it fetches from lines of \<open>C\<close> and stores elsewhere.
\<close>

definition separate :: "u32 set \<Rightarrow> assembly \<Rightarrow> arch \<Rightarrow> bool" where
  "separate C prog s \<longleftrightarrow>
     (\<forall>n. let t = isa_run prog s n in
        line_no (a_pc t) \<in> C
        \<and> (case prog (a_pc t) of Store w rs1 rs2 v \<Rightarrow> line_no (source1 prog t + byte_offset v) \<notin> C | _ \<Rightarrow> True))"

section \<open>The invariant\<close>

fun request_addr :: "access option \<Rightarrow> u32" where
  "request_addr None = 0"
| "request_addr (Some q) = access_addr q"

definition system_at :: "u32 set \<Rightarrow> lines \<Rightarrow> assembly \<Rightarrow> (nat \<Rightarrow> arch) \<Rightarrow> core_in \<Rightarrow> core \<Rightarrow> level2 system \<Rightarrow> nat \<Rightarrow> nat \<Rightarrow> u32 \<Rightarrow> lines \<Rightarrow> bool" where
  "system_at C K prog A i c y n f p L \<longleftrightarrow>
     core_at prog A n f c (memory_bytes L)
     \<and> side_holds (fst y, (snd (snd y), p)) (data_request i c) L
     \<and> clean_on C (fst y) (request_addr (data_request i c))
     \<and> fetch_at C K (fst (snd y)) (fst (snd (snd y))) p (pcreg c)
     \<and> agrees C L K"

text \<open>Stores of the core are stores of the program.\<close>

lemma request_separate:
  assumes "isa_trace code prog A" and "A = isa_run prog s" and "separate C prog s"
    and "core_at prog A n f c m" and "data_request i c = Some (StoreWord a be w)"
  shows "line_no a \<notin> C"
proof -
  obtain j where j: "memory_slot prog A n j (to_memory (registers c))" using assms(4) by (auto simp: core_at_def memory_on_def)
  have m: "in_memory prog (A n) (to_memory (registers c))"
    using j quiet_request [of c i] assms(5) by (auto simp: memory_slot_def)
  note f = in_memory_fields [OF assms(1) m refl]
  from assms(3) have sep: "case prog (a_pc (A n)) of Store w rs1 rs2 v \<Rightarrow> line_no (source1 prog (A n) + byte_offset v) \<notin> C | _ \<Rightarrow> True"
    unfolding separate_def Let_def assms(2) by blast
  have "is_store (prog (a_pc (A n)))" "a = ex_alu_val (to_memory (registers c))"
    using assms(5) f(3,4) by (auto simp: data_request_def Let_def split: if_splits)
  with sep f(7) show ?thesis by (cases "prog (a_pc (A n))") (simp_all add: computed_def)
qed

lemma separate_pc: "separate C prog s \<Longrightarrow> line_no (a_pc (isa_run prog s n)) \<in> C"
  by (simp add: separate_def Let_def)

text \<open>The data cache keeps clear of the lines of \<open>C\<close>.\<close>

lemma rest_clean: "side_rest (cd, z) L \<Longrightarrow> clean_on C cd a \<Longrightarrow> clean_on C cd b"
  by (cases z) (auto simp: cached_ready_def clean_on_def)

lemma side_clean:
  assumes "side_holds (cd, z) request L" and "clean_on C cd (request_addr request)" and "presents ci request"
    and "settles cd ci ctl" and "side_step (cd, z) d (done_out ctl) v (cache_clock False cd ci ctl, z')" and "presents d request"
    and "\<And>a be w. request = Some (StoreWord a be w) \<Longrightarrow> line_no a \<notin> C"
    and "request \<noteq> None \<and> \<not> done_out ctl \<Longrightarrow> request' = request"
  shows "clean_on C (cache_clock False cd ci ctl) (request_addr request')"
proof (cases request)
  case None
  then have st: "side_rest (cd, z) L" and na: "\<not> accessed ci" and nd: "\<not> accessed d"
    using assms(1,3,6) by (simp_all add: port_holds_def)
  have "cache_state cd = Hit" using st by (cases z) (simp add: cached_ready_def)
  from clean_idle [OF _ assms(4) this na] assms(2)
  have "clean_on C (cache_clock False cd ci ctl) (request_addr request)" by blast
  moreover have "side_rest (cache_clock False cd ci ctl, z') L" using dside.rests [OF st nd assms(5)] by simp
  ultimately show ?thesis by (metis rest_clean)
next
  case (Some q)
  then have "requests ci q" "requests d q" using assms(3,6) by simp_all
  have "clean_on C (cache_clock False cd ci ctl) (access_addr q)"
    using clean_progress [OF _ assms(4) \<open>requests ci q\<close>, of C] assms(2,7) Some by simp
  moreover have "side_holds (cache_clock False cd ci ctl, z') None (access_effect q L)" if "done_out ctl"
    using dside.holds_request [OF assms(1) [unfolded Some] \<open>requests d q\<close> assms(5)] that by simp
  then have "side_rest (cache_clock False cd ci ctl, z') (access_effect q L)" if "done_out ctl"
    using that by (simp add: port_holds_def)
  ultimately show ?thesis using assms(8) Some by (cases "done_out ctl") (auto intro: rest_clean)
qed

lemma agrees_effect:
  "agrees C L K \<Longrightarrow> (\<And>a be w. q = StoreWord a be w \<Longrightarrow> line_no a \<notin> C) \<Longrightarrow> agrees C (access_effect q L) K"
  by (cases q) (auto simp: agrees_def)

text \<open>What the memory delivers to the instruction cache.\<close>

lemma side_reads:
  assumes "side_holds (cd, (x, p)) request L" and "clean_on C cd (request_addr request)" and "agrees C L K"
    and "served level2_resp I_CACHE_ALLOW x" and "line_no p \<in> C"
  shows "level2_rdata (snd x) = K (line_no p)"
proof -
  consider "side_rest (cd, (x, p)) L" | q n where "request = Some q" "side_serving (cd, (x, p)) q L n"
    using assms(1) by (auto simp: port_holds_def)
  then show ?thesis
  proof cases
    case 1
    from lower.fetch_reads [OF disjI1 [OF 1] rest_clean [OF 1 assms(2)] assms(3,4)] assms(5) show ?thesis by blast
  next
    case (2 q n)
    have "clean_on C cd (access_addr q)" using assms(2) 2(1) by simp
    from lower.fetch_reads [OF disjI2 [OF 2(2)] this assms(3,4)] assms(5) show ?thesis by blast
  qed
qed

text \<open>The instruction cache beside it.\<close>

lemma fetch_in_system:
  assumes "side_holds (cd, (x, p)) request L" and "clean_on C cd (request_addr request)" and "agrees C L K"
    and "fetch_at C K cf (fst x) p pc"
    and "jf = fi\<lparr>pmem_rdata := (if served level2_resp I_CACHE_ALLOW x then level2_rdata (snd x) else 0), pmem_resp := served level2_resp I_CACHE_ALLOW x\<rparr>"
    and "settles cf jf ctlf" and "requests jf (LoadWord pc)" and "\<not> done_out ctlf \<Longrightarrow> pc' = pc"
  shows "fetch_at C K (cache_clock False cf jf ctlf)
    (fst (shared_step level2_step level2_resp level2_rdata x (cache_port cf jf ctlf) d)) (p_address (cache_port cf jf ctlf)) pc'"
proof (rule fetch_goes_on [OF assms(4,6,7) _ _ assms(8)])
  show "pmem_rdata jf = K (line_no pc)" if s: "served level2_resp I_CACHE_ALLOW x" "line_no pc \<in> C"
  proof -
    have "p = req_addr (refill_request pc)" using assms(4) s(1) by (simp add: fetch_at_def served_def)
    with side_reads [OF assms(1-3) s(1)] s line_no_refill [of pc] show ?thesis by (simp add: assms(5))
  qed
qed (simp_all add: assms(5))

section \<open>A cycle of the processor\<close>

text \<open>What the instruction cache delivers is the program.\<close>

lemma fetched_word:
  assumes "system_at C K prog A i c y n f p L" and "requests fi (LoadWord (pcreg c))"
    and "observed_cycle y di fi dd vd df vf y'" and "df" and "line_no (pcreg c) \<in> C"
  shows "vf = word_at (memory_bytes K) (pcreg c)"
proof -
  obtain cd cf x where y: "y = (cd, cf, x)" by (metis surj_pair)
  obtain jf ctlf where cy:
    "jf = fi\<lparr>pmem_rdata := (if served level2_resp I_CACHE_ALLOW x then level2_rdata (snd x) else 0), pmem_resp := served level2_resp I_CACHE_ALLOW x\<rparr>"
    "settles cf jf ctlf" "df = done_out ctlf" "vf = cache_rdata cf jf ctlf"
    using system_parts [OF assms(3) y] by metis
  have "requests jf (LoadWord (pcreg c))" using assms(2) by (simp add: cy(1))
  moreover have "fetch_at C K cf (fst x) p (pcreg c)" using assms(1) by (simp add: system_at_def y)
  ultimately show ?thesis using fetch_answer [OF _ cy(2)] assms(4,5) cy(3,4) by (metis load_word_bytes)
qed

lemma system_step_at:
  assumes "isa_trace (word_at (memory_bytes K)) prog A" and "A = isa_run prog s" and "separate C prog s"
    and "system_at C K prog A i c y n f p L" and "\<not> core_rst i"
    and "presents di (data_request i c)" and "requests fi (LoadWord (pcreg c))"
    and "observed_cycle y di fi dd (d_cache_rdata i) (\<not> i_cache_miss i) (i_cache_rdata i) y'"
    and "d_cache_miss i \<longleftrightarrow> data_request i c \<noteq> None \<and> \<not> dd" and "\<not> redirection_meets_hazard i c"
  shows "\<exists>n' f' p' L'. system_at C K prog A i' (core_step i c) y' n' f' p' L'
    \<and> side_step (fst y, snd (snd y), p) di dd (d_cache_rdata i) (fst y', snd (snd y'), p')
    \<and> retires prog A i c n f n' f' \<and> lines_cycle (data_request i c) (d_cache_miss i) (d_cache_rdata i) L L'"
proof -
  let ?q = "data_request i c" and ?pc = "pcreg c"
  obtain cd cf x where y: "y = (cd, cf, x)" by (metis surj_pair)
  have at: "core_at prog A n f c (memory_bytes L)" and h: "side_holds (cd, (x, p)) ?q L"
    and cl: "clean_on C cd (request_addr ?q)" and fe: "fetch_at C K cf (fst x) p ?pc" and ag: "agrees C L K"
    using assms(4) by (simp_all add: system_at_def y)
  obtain jd jf ctld ctlf where
    jd: "jd = di\<lparr>pmem_rdata := (if served level2_resp D_CACHE_ALLOW x then level2_rdata (snd x) else 0), pmem_resp := served level2_resp D_CACHE_ALLOW x\<rparr>"
    and jf: "jf = fi\<lparr>pmem_rdata := (if served level2_resp I_CACHE_ALLOW x then level2_rdata (snd x) else 0), pmem_resp := served level2_resp I_CACHE_ALLOW x\<rparr>"
    and sd: "settles cd jd ctld" and sf: "settles cf jf ctlf" and o: "dd = done_out ctld" "d_cache_rdata i = cache_rdata cd jd ctld"
      "(\<not> i_cache_miss i) = done_out ctlf"
    and y': "y' = (cache_clock False cd jd ctld, cache_clock False cf jf ctlf,
       shared_step level2_step level2_resp level2_rdata x (cache_port cf jf ctlf) (cache_port cd jd ctld))"
    by (rule system_parts [OF assms(8) y])
  let ?x = "shared_step level2_step level2_resp level2_rdata x (cache_port cf jf ctlf) (cache_port cd jd ctld)"
    and ?p = "p_address (cache_port cf jf ctlf)" and ?cd = "cache_clock False cd jd ctld" and ?q' = "data_request i' (core_step i c)"
  have rf: "requests jf (LoadWord ?pc)" using assms(7) by (simp add: jf)
  have pd: "presents jd ?q" using assms(6) unfolding jd by (cases ?q; cases "the ?q") simp_all
  have step: "side_step (cd, (x, p)) di dd (d_cache_rdata i) (?cd, (?x, ?p))"
    unfolding o by (rule data_side [OF _ sd fetch_port(1) [OF fe sf rf]]) (rule jd)
  have sep: "line_no a \<notin> C" if "?q = Some (StoreWord a be w)" for a be w
    by (rule request_separate [OF assms(1-3) at that])
  have held: "?q' = ?q" if "d_cache_miss i" using request_held [OF assms(1) at assms(5)] that by blast
  from dside.holds_cycle [OF h assms(6) step assms(9) held] obtain L' where
    L': "lines_cycle ?q (d_cache_miss i) (d_cache_rdata i) L L'" and h': "side_holds (?cd, (?x, ?p)) ?q' L'" by blast
  note port = lines_cycle_bytes [OF L']
  have code: "\<not> i_cache_miss i \<Longrightarrow> \<forall>l. ?pc = a_pc (A l) \<longrightarrow> i_cache_rdata i = word_at (memory_bytes K) ?pc"
    using fetched_word [OF assms(4,7,8)] separate_pc [OF assms(3)] unfolding assms(2) by metis
  have "clean_on C ?cd (request_addr ?q')"
    by (rule side_clean [OF h cl pd sd step [unfolded o(1)] assms(6) sep]) (use held assms(9) o(1) in blast)+
  moreover have "agrees C L' K" using lines_cycle_effect [OF L'] ag sep by (auto intro!: agrees_effect [OF ag])
  moreover have "fetch_at C K (cache_clock False cf jf ctlf) (fst ?x) ?p (pcreg (core_step i c))"
    by (rule fetch_in_system [OF h cl ag fe jf sf rf]) (use miss_step(3) [OF assms(5), of c] o(3) in blast)
  moreover from core_cycle [OF assms(1) at assms(5) code port assms(10)] obtain n' f' where
    "core_at prog A n' f' (core_step i c) (memory_bytes L')" and
    n': "retires prog A i c n f n' f'" by blast
  ultimately have "system_at C K prog A i' (core_step i c) y' n' f' ?p L'"
    using h' by (simp only: system_at_def y' fst_conv snd_conv simp_thms)
  moreover have "side_step (fst y, snd (snd y), p) di dd (d_cache_rdata i) (fst y', snd (snd y'), ?p)"
    using step by (simp only: y y' fst_conv snd_conv)
  ultimately show ?thesis using n' L' by blast
qed

section \<open>The hierarchy, observed\<close>

lemma serving_work: "level2_serving x r L n \<Longrightarrow> \<exists>m. level2_works x r L m"
  by (cases n) simp_all

lemma serving_asked:
  assumes "level2_serving (c, s, j) r L n"
  shows "curr_state8 c = Stall8 \<or> asks j r"
  using serving_work [OF assms] by simp

lemma instr_in_service:
  assumes "side_holds (cd, (I_CACHE_ALLOW, s), p) request L"
  shows "\<exists>M k. level2_serving s (ReadLine p) M k"
  using assms by (auto simp: port_holds_def cached_ready_def elim!: cached_serving.cases) blast+

lemma data_in_service:
  assumes "side_holds (cd, (D_CACHE_ALLOW, s), p) request L" and "settles cd jd ctl" and "presents jd request"
  shows "\<exists>r M k. level2_serving s r M k \<and> asks (cache_port cd jd ctl) r"
proof -
  have none: "\<not> cached_ready (d_side_ready level2_ready level2_serving level2_bound) (d_side_contents level2_contents)
      (cd, (D_CACHE_ALLOW, s), p) L" for L by (simp add: cached_ready_def)
  from assms(1) none obtain q n where q: "request = Some q" "side_serving (cd, (D_CACHE_ALLOW, s), p) q L n"
    by (auto simp: port_holds_def)
  have a: "mem_address jd = access_addr q" "accessed jd" using assms(3) q(1) requests_accessed by simp_all
  from q(2) show ?thesis
  proof (cases rule: cached_serving.cases)
    case (writing M k)
    have "asks (cache_port cd jd ctl) (write_back_request cd (access_addr q))"
      using cycle_writing [OF assms(2) writing(2)] by (simp add: a write_back_request_def evict_request_def Let_def)
    with writing(3) show ?thesis by auto
  next
    case (refilling M k)
    have "asks (cache_port cd jd ctl) (refill_request (access_addr q))"
      using cycle_refill [OF assms(2) refilling(2) a(2)] by (simp add: a refill_request_def)
    with refilling(3) show ?thesis by auto
  qed (use none in blast)+
qed

text \<open>In every cycle of the hierarchy the caches are served by the second level as the port describes it.\<close>

lemma system_observed:
  assumes "system_at C K prog A i c (observed y j) n f p L"
    and "presents di (data_request i c)" and "requests fi (LoadWord (pcreg c))" and "hierarchy_cycle y di fi dd vd df vf y'"
  shows "\<exists>j'. observed_cycle (observed y j) di fi dd vd df vf (observed y' j')"
proof (rule cycle_observed [OF assms(4)])
  fix jd jf ctld ctlf
  assume ctl: "settles (data_l1 y) jd ctld" "settles (instr_l1 y) jf ctlf"
    and j: "\<exists>v b. jd = di\<lparr>pmem_rdata := v, pmem_resp := b\<rparr>" "\<exists>v b. jf = fi\<lparr>pmem_rdata := v, pmem_resp := b\<rparr>"
  have h: "side_holds (data_l1 y, (arbiter_state y, l2_cache y, main_memory y, j), p) (data_request i c) L"
    and fe: "fetch_at C K (instr_l1 y) (fst (arbiter_state y, l2_cache y, main_memory y, j)) p (pcreg c)"
    using assms(1) by (simp_all add: system_at_def)
  have pd: "presents jd (data_request i c)" using assms(2) j(1) by (cases "data_request i c"; cases "the (data_request i c)") auto
  have rf: "requests jf (LoadWord (pcreg c))" using assms(3) j(2) by auto
  show "arbiter_state y = IDLE \<or> curr_state8 (l2_cache y) = Stall8
      \<or> (\<exists>r. asks j r \<and> allowed (arbiter_state y) r
          \<and> asks (client (arbiter_state y) (cache_port (instr_l1 y) jf ctlf) (cache_port (data_l1 y) jd ctld)) r)"
  proof (cases "arbiter_state y")
    case I_CACHE_ALLOW
    obtain M k where "level2_serving (l2_cache y, main_memory y, j) (ReadLine p) M k"
      using instr_in_service h unfolding I_CACHE_ALLOW by blast
    note s = serving_asked [OF this]
    have "asks (cache_port (instr_l1 y) jf ctlf) (ReadLine p)" using fetch_port(1) [OF fe ctl(2) rf] by (simp add: I_CACHE_ALLOW)
    with s show ?thesis unfolding I_CACHE_ALLOW client.simps by (metis allowed.simps(2))
  next
    case D_CACHE_ALLOW
    obtain r M k where "level2_serving (l2_cache y, main_memory y, j) r M k" "asks (cache_port (data_l1 y) jd ctld) r"
      using data_in_service [OF h [unfolded D_CACHE_ALLOW] ctl(1) pd] by blast
    with serving_asked show ?thesis unfolding D_CACHE_ALLOW client.simps by (metis allowed.simps(1))
  qed simp
qed

section \<open>Runs\<close>

lemma processor_reset:
  assumes "after_reset y K" and "core_at prog A 0 3 c (memory_bytes K)"
  shows "system_at C K prog A i c (observed y j) 0 3 0 K"
proof -
  from assms(1) obtain cd cf c2 s jd jf ji ctld ctlf ctl v b where
    y: "y = \<lparr> data_l1 = cache_clock True cd jd ctld, instr_l1 = cache_clock True cf jf ctlf, arbiter_state = IDLE,
        l2_cache = modular_clock True c2 ji ctl v b, main_memory = s \<rparr>" and s: "path_ready s" "path_contents s = K"
    unfolding after_reset_def by blast
  let ?cd = "cache_clock True cd jd ctld" and ?cf = "cache_clock True cf jf ctlf" and ?c2 = "modular_clock True c2 ji ctl v b"
  have none: "\<not> holds_line (cache_clock True c j ctl) X l w" for c j ctl X l w by (simp add: holds_line_def cache_clock_def Let_def)
  have "cache_inv ?cd {} {} K" using none by (simp add: cache_inv_def) (simp add: cache_clock_def Let_def)
  moreover have "cache_view ?cd {} K = K" using none by (simp add: fun_eq_iff view_not_held)
  moreover have "l2_ready (?c2, s) K" using reset_at [where ready = path_ready and contents = path_contents, OF s(1)] s(2) by simp
  then have "level2_ready (?c2, s, j)" "level2_contents (?c2, s, j) = K" by (simp_all add: modular_at_def)
  moreover have "cache_state ?cd = Hit" "cache_state ?cf = Hit" "\<not> dirty_bits ?cd w x" "\<not> dirty_bits ?cf w x" for w x
    by (simp_all add: cache_clock_def Let_def)
  ultimately show ?thesis using assms(2) none
    by (simp add: system_at_def y port_holds_def cached_ready_def d_side_contents_def clean_on_def fetch_at_def reads_on_def agrees_def
        del: level2_ready.simps level2_contents.simps)
qed

definition fetched :: "lines \<Rightarrow> u32 set \<Rightarrow> core_in \<Rightarrow> core \<Rightarrow> bool" where
  "fetched K C i c \<longleftrightarrow>
     (\<not> i_cache_miss i \<longrightarrow> line_no (pcreg c) \<in> C \<longrightarrow> i_cache_rdata i = word_at (memory_bytes K) (pcreg c))"

lemma run_cycle:
  assumes "system_run r i c di fi dd y"
  shows "c (r + Suc k) = core_step (i (r + k)) (c (r + k))" "\<not> core_rst (i (r + k))"
    "presents (di (r + k)) (data_request (i (r + k)) (c (r + k)))" "requests (fi (r + k)) (LoadWord (pcreg (c (r + k))))"
    "hierarchy_cycle (y (r + k)) (di (r + k)) (fi (r + k)) (dd (r + k)) (d_cache_rdata (i (r + k)))
       (\<not> i_cache_miss (i (r + k))) (i_cache_rdata (i (r + k))) (y (r + Suc k))"
    "d_cache_miss (i (r + k)) \<longleftrightarrow> data_request (i (r + k)) (c (r + k)) \<noteq> None \<and> \<not> dd (r + k)"
  using assms [unfolded system_run_def, rule_format, of "r + k"] by simp_all

text \<open>The invariant along a run, and what retires cycle by cycle.\<close>

definition processor_trace :: "u32 set \<Rightarrow> lines \<Rightarrow> assembly \<Rightarrow> (nat \<Rightarrow> core_in) \<Rightarrow> (nat \<Rightarrow> core) \<Rightarrow> (nat \<Rightarrow> cache_in) \<Rightarrow> (nat \<Rightarrow> cache_in) \<Rightarrow>
    (nat \<Rightarrow> bool) \<Rightarrow> (nat \<Rightarrow> level2 system) \<Rightarrow> (nat \<Rightarrow> nat) \<Rightarrow> (nat \<Rightarrow> nat) \<Rightarrow> (nat \<Rightarrow> u32) \<Rightarrow> (nat \<Rightarrow> lines) \<Rightarrow> bool" where
  "processor_trace C K prog i c di fi dd y n f p L \<longleftrightarrow>
     n 0 = 0 \<and> f 0 = 3 \<and> L 0 = K
     \<and> (\<forall>k. system_at C K prog (isa_run prog (reset_arch (memory_bytes K))) (i k) (c k) (y k) (n k) (f k) (p k) (L k)
        \<and> fetched K C (i k) (c k)
        \<and> observed_cycle (y k) (di k) (fi k) (dd k) (d_cache_rdata (i k)) (\<not> i_cache_miss (i k)) (i_cache_rdata (i k)) (y (Suc k))
        \<and> side_step (fst (y k), snd (snd (y k)), p k) (di k) (dd k) (d_cache_rdata (i k)) (fst (y (Suc k)), snd (snd (y (Suc k))), p (Suc k))
        \<and> retires prog (isa_run prog (reset_arch (memory_bytes K))) (i k) (c k) (n k) (f k) (n (Suc k)) (f (Suc k))
        \<and> lines_cycle (data_request (i k) (c k)) (d_cache_miss (i k)) (d_cache_rdata (i k)) (L k) (L (Suc k)))"

abbreviation (input) since :: "nat \<Rightarrow> (nat \<Rightarrow> 'a) \<Rightarrow> nat \<Rightarrow> 'a" where
  "since r x k \<equiv> x (r + k)"

lemma processor_invariant:
  assumes "system_run r i c di fi dd y" and "3 \<le> r" and "after_reset (y r) K"
    and "executes (word_at (memory_bytes K)) prog (reset_arch (memory_bytes K))" and "separate C prog (reset_arch (memory_bytes K))"
    and "\<And>k. r \<le> k \<Longrightarrow> (\<And>j. r \<le> j \<Longrightarrow> j \<le> k \<Longrightarrow> fetched K C (i j) (c j)) \<Longrightarrow> \<not> redirection_meets_hazard (i k) (c k)"
  shows "\<exists>j n f p L. processor_trace C K prog (since r i) (since r c) (since r di) (since r fi) (since r dd)
    (\<lambda>k. observed (y (r + k)) (j k)) n f p L"
proof -
  let ?A = "isa_run prog (reset_arch (memory_bytes K))"
  have tr: "isa_trace (word_at (memory_bytes K)) prog ?A" using assms(4) by (rule executes_trace)
  define At where "At k z \<longleftrightarrow> (case z of (j, n, f, p, L) \<Rightarrow> system_at C K prog ?A (i (r + k)) (c (r + k)) (observed (y (r + k)) j) n f p L)" for k z
  define P where "P k z \<longleftrightarrow> (k = 0 \<longrightarrow> snd z = (0, 3, 0, K)) \<and> At k z \<and> (\<forall>l<k. fetched K C (i (r + l)) (c (r + l)))" for k z
  define Q where "Q k z z' \<longleftrightarrow> (case z of (j, n, f, p, L) \<Rightarrow> case z' of (j', n', f', p', L') \<Rightarrow>
      (let u = observed (y (r + k)) j; u' = observed (y (r + Suc k)) j' in
      observed_cycle u (di (r + k)) (fi (r + k)) (dd (r + k)) (d_cache_rdata (i (r + k))) (\<not> i_cache_miss (i (r + k))) (i_cache_rdata (i (r + k))) u'
      \<and> side_step (fst u, snd (snd u), p) (di (r + k)) (dd (r + k)) (d_cache_rdata (i (r + k))) (fst u', snd (snd u'), p'))
      \<and> retires prog ?A (i (r + k)) (c (r + k)) n f n' f'
      \<and> lines_cycle (data_request (i (r + k)) (c (r + k))) (d_cache_miss (i (r + k))) (d_cache_rdata (i (r + k))) L L')"
    for k and z z' :: "port_in \<times> nat \<times> nat \<times> u32 \<times> lines"
  note run = assms(1) [unfolded system_run_def, rule_format]
  note cyc = run_cycle [OF assms(1)]
  have observed: "\<exists>j'. observed_cycle (observed (y (r + k)) j) (di (r + k)) (fi (r + k)) (dd (r + k)) (d_cache_rdata (i (r + k)))
      (\<not> i_cache_miss (i (r + k))) (i_cache_rdata (i (r + k))) (observed (y (r + Suc k)) j')" if "At k (j, z)" for k j z
    using that system_observed [OF _ cyc(3-5)] unfolding At_def by (cases z) auto
  have fetched: "fetched K C (i (r + k)) (c (r + k))" if "At k z" for k z
  proof -
    obtain j n f p L where z: "z = (j, n, f, p, L)" by (metis surj_pair)
    have at: "system_at C K prog ?A (i (r + k)) (c (r + k)) (observed (y (r + k)) j) n f p L" using that by (simp add: At_def z)
    from observed [OF that [unfolded z]] fetched_word [OF at cyc(4)] show ?thesis unfolding fetched_def by blast
  qed
  have "\<exists>g. \<forall>k. P k (g k) \<and> Q k (g k) (g (Suc k))"
  proof (rule dependent_nat_choice)
    have "c (Suc k) = core_step (i k) (c k)" "k < r \<Longrightarrow> core_rst (i k)" for k using run [of k] by blast+
    then have "core_at prog ?A 0 3 (c r) (memory_bytes K)" by (intro held_reset [OF _ _ assms(2)])
    from processor_reset [OF assms(3) this] show "\<exists>z. P 0 z" unfolding P_def At_def by (intro exI [of _ "(no_request, 0, 3, 0, K)"]) simp
  next
    fix z k assume z: "P k z"
    obtain j n f p L where zz: "z = (j, n, f, p, L)" by (metis surj_pair)
    have at: "system_at C K prog ?A (i (r + k)) (c (r + k)) (observed (y (r + k)) j) n f p L" using z by (simp add: P_def At_def zz)
    obtain j' where ob: "observed_cycle (observed (y (r + k)) j) (di (r + k)) (fi (r + k)) (dd (r + k)) (d_cache_rdata (i (r + k)))
      (\<not> i_cache_miss (i (r + k))) (i_cache_rdata (i (r + k))) (observed (y (r + Suc k)) j')"
      using observed z unfolding P_def zz by blast
    have "fetched K C (i l) (c l)" if "r \<le> l" "l \<le> r + k" for l
    proof -
      obtain m where m: "l = r + m" using \<open>r \<le> l\<close> le_Suc_ex by blast
      then have "m < k \<or> m = k" using that by linarith
      then show ?thesis using z fetched [of k z] unfolding P_def m by blast
    qed
    then have hz: "\<not> redirection_meets_hazard (i (r + k)) (c (r + k))" by (intro assms(6)) simp_all
    let ?u = "observed (y (r + k)) j" and ?u' = "observed (y (r + Suc k)) j'"
    obtain n' f' p' L' where n': "system_at C K prog ?A (i (r + Suc k)) (c (r + Suc k)) ?u' n' f' p' L'"
      "side_step (fst ?u, snd (snd ?u), p) (di (r + k)) (dd (r + k)) (d_cache_rdata (i (r + k))) (fst ?u', snd (snd ?u'), p')"
      "retires prog ?A (i (r + k)) (c (r + k)) n f n' f'"
      "lines_cycle (data_request (i (r + k)) (c (r + k))) (d_cache_miss (i (r + k))) (d_cache_rdata (i (r + k))) L L'"
      using system_step_at [OF tr refl assms(5) at cyc(2-4) ob cyc(6) hz, of "i (r + Suc k)"] unfolding cyc(1) by blast
    have "P (Suc k) (j', n', f', p', L')" using n'(1) z fetched [of k z] by (auto simp: P_def At_def less_Suc_eq)
    moreover have "Q k z (j', n', f', p', L')" using n'(2-) ob by (simp add: Q_def zz Let_def)
    ultimately show "\<exists>z'. P (Suc k) z' \<and> Q k z z'" by blast
  qed
  then obtain g where g: "P k (g k)" "Q k (g k) (g (Suc k))" for k by blast
  have "fetched K C (i (r + k)) (c (r + k))" for k using g(1) [of k] fetched unfolding P_def by blast
  with g show ?thesis
    by (intro exI [of _ "\<lambda>k. fst (g k)"] exI [of _ "\<lambda>k. fst (snd (g k))"] exI [of _ "\<lambda>k. fst (snd (snd (g k)))"]
        exI [of _ "\<lambda>k. fst (snd (snd (snd (g k))))"] exI [of _ "\<lambda>k. snd (snd (snd (snd (g k))))"])
      (simp add: processor_trace_def P_def Q_def At_def Let_def case_prod_beta del: observed.simps)
qed

end
