(* ===== verification/Full_Progress.thy ===== *)
theory Full_Progress
  imports Fetch_Progress Full_System
begin

text \<open>
  The processor makes progress: first the data cache answers, then, since it has nothing more to ask for while
  the core waits, the instruction cache.
\<close>

section \<open>The data cache has answered\<close>

lemma side_at_rest: "side_holds (cd, z) request L \<Longrightarrow> cache_state cd = Hit \<Longrightarrow> side_rest (cd, z) L"
  by (auto simp: port_holds_def elim: cached_serving.cases)

lemma processor_fetch_step:
  assumes "isa_trace code prog A" and "system_at C K prog A i c y n f p L" and "\<not> core_rst i"
    and "presents di (data_request i c)" and "requests fi (LoadWord (pcreg c))"
    and "observed_cycle y di fi dd vd (\<not> i_cache_miss i) vf y'"
    and "d_cache_miss i \<longleftrightarrow> data_request i c \<noteq> None \<and> \<not> dd"
    and "served_by (fst y) (data_request i c)"
    and "fetching level2_ready level2_serving level2_bound (fst (snd y)) (snd (snd y)) (pcreg c) m" and "\<not> core_hit i"
  shows "served_by (fst y') (data_request i' (core_step i c))
    \<and> (\<exists>l<m. fetching level2_ready level2_serving level2_bound (fst (snd y')) (snd (snd y')) (pcreg (core_step i c)) l)"
proof -
  let ?q = "data_request i c" and ?pc = "pcreg c"
  obtain cd cf x where y: "y = (cd, cf, x)" by (metis surj_pair)
  have at: "core_at prog A n f c (memory_bytes L)" and fe: "fetch_at C K cf (fst x) p ?pc"
    using assms(2) by (simp_all add: system_at_def y)
  obtain jd jf ctld ctlf where
    jd: "jd = di\<lparr>pmem_rdata := (if served level2_resp D_CACHE_ALLOW x then level2_rdata (snd x) else 0), pmem_resp := served level2_resp D_CACHE_ALLOW x\<rparr>"
    and jf: "jf = fi\<lparr>pmem_rdata := (if served level2_resp I_CACHE_ALLOW x then level2_rdata (snd x) else 0), pmem_resp := served level2_resp I_CACHE_ALLOW x\<rparr>"
    and sd: "settles cd jd ctld" and sf: "settles cf jf ctlf" and o: "dd = done_out ctld" "(\<not> i_cache_miss i) = done_out ctlf"
    and y': "y' = (cache_clock False cd jd ctld, cache_clock False cf jf ctlf,
       shared_step level2_step level2_resp level2_rdata x (cache_port cf jf ctlf) (cache_port cd jd ctld))"
    by (rule system_parts [OF assms(6) y])
  have rf: "requests jf (LoadWord ?pc)" using assms(5) by (simp add: jf)
  have pd: "presents jd ?q" using assms(4) unfolding jd by (cases ?q; cases "the ?q") simp_all
  have sv: "served_by cd ?q" using assms(8) by (simp add: y)
  have d: "(?q = None \<or> done_out ctld) \<and> quiet (cache_port cd jd ctld) \<and> served_by (cache_clock False cd jd ctld) ?q"
  proof (cases ?q)
    case None
    with cycle_idle [OF sd] sv pd show ?thesis by simp
  next
    case (Some q)
    with served_hit [OF sv [unfolded Some] sd] pd show ?thesis by simp
  qed
  then have im: "i_cache_miss i" using assms(7,10) o(1) by (auto simp: core_hit_def)
  then have q': "data_request i' (core_step i c) = ?q" and pc': "pcreg (core_step i c) = ?pc"
    using request_held [OF assms(1) at assms(3)] miss_step(3) [OF assms(3)] by blast+
  have "\<not> done_out ctlf" using o(2) im by blast
  moreover have "pmem_resp jf \<longleftrightarrow> served level2_resp I_CACHE_ALLOW x" by (simp add: jf)
  moreover have "fetching level2_ready level2_serving level2_bound cf x ?pc m" using assms(9) by (simp add: y)
  ultimately show ?thesis
    using lower.fetching_goes_on [OF _ fe sf rf] d unfolding q' pc' y' fst_conv snd_conv by blast
qed

section \<open>Both caches answer\<close>

text \<open>The data cache, within 952 cycles.\<close>

lemma data_answers:
  assumes "system_run r i c di fi dd y" and "isa_trace code prog (isa_run prog (reset_arch (memory_bytes K)))"
    and "processor_trace C K prog (since r i) (since r c) (since r di) (since r fi) (since r dd) u n f p L"
  shows "\<exists>j\<le>952. served_by (fst (u (k + j))) (data_request (i (r + (k + j))) (c (r + (k + j))))"
proof -
  let ?q = "\<lambda>k. data_request (i (r + k)) (c (r + k))" and ?s = "\<lambda>k. (fst (u k), snd (snd (u k)), p k)"
  note cyc = run_cycle [OF assms(1)]
  have ob: "observed_cycle (u k) (di (r + k)) (fi (r + k)) (dd (r + k)) (d_cache_rdata (i (r + k)))
      (\<not> i_cache_miss (i (r + k))) (i_cache_rdata (i (r + k))) (u (Suc k))" for k
    using assms(3) by (simp only: processor_trace_def)
  have at: "system_at C K prog (isa_run prog (reset_arch (memory_bytes K))) (i (r + k)) (c (r + k)) (u k) (n k) (f k) (p k) (L k)"
    and step: "side_step (?s k) (di (r + k)) (dd (r + k)) (d_cache_rdata (i (r + k))) (?s (Suc k))" for k
    using assms(3) by (simp_all only: processor_trace_def)
  have holds: "side_holds (?s k) (?q k) (L k)" using at [of k] by (simp only: system_at_def)
  show ?thesis
  proof (cases "?q k")
    case None
    then have "side_rest (?s k) (L k)" using holds by (simp add: port_holds_def)
    then have "cache_state (fst (u k)) = Hit" by (cases "snd (snd (u k))") (simp add: cached_ready_def)
    with None show ?thesis by (intro exI [of _ 0]) simp
  next
    case (Some q)
    have held: "?q (k + j) = Some q" if "\<forall>l<j. \<not> dd (r + (k + l))" for j
      using that
    proof (induction j)
      case (Suc j)
      then have "?q (k + j) = Some q" "d_cache_miss (i (r + (k + j)))" using cyc(6) [of "k + j"] by simp_all
      moreover have "core_at prog (isa_run prog (reset_arch (memory_bytes K))) (n (k + j)) (f (k + j)) (c (r + (k + j))) (memory_bytes (L (k + j)))"
        using at [of "k + j"] by (simp only: system_at_def)
      ultimately show ?case unfolding add_Suc_right cyc(1) [of "k + j", unfolded add_Suc_right] using request_held [OF assms(2) _ cyc(2)] by metis
    qed (simp add: Some)
    have "requests (di (r + (k + j))) q" if "\<forall>l<j. \<not> dd (r + (k + l))" for j
      using held [OF that] cyc(3) [of "k + j"] by simp
    from dside.holds_answered [of "\<lambda>j. ?s (k + j)" q "L k" "\<lambda>j. di (r + (k + j))" "\<lambda>j. dd (r + (k + j))"
        "\<lambda>j. d_cache_rdata (i (r + (k + j)))", OF _ _ this] holds step Some
    obtain j where j: "j \<le> 952" "dd (r + (k + j))" "\<forall>l<j. \<not> dd (r + (k + l))" by (auto simp: DELAY_MEM_def)
    obtain cd cf x where y: "u (k + j) = (cd, cf, x)" by (metis surj_pair)
    have "served_by cd (Some q)"
    proof (rule system_parts [OF ob [of "k + j"] y])
      fix jd ctld
      assume jd: "jd = (di (r + (k + j)))\<lparr>pmem_rdata := (if served level2_resp D_CACHE_ALLOW x then level2_rdata (snd x) else 0), pmem_resp := served level2_resp D_CACHE_ALLOW x\<rparr>"
        and o: "settles cd jd ctld" "dd (r + (k + j)) = done_out ctld"
      have "requests jd q" using cyc(3) [of "k + j"] held [OF j(3)] unfolding jd by (cases q) simp_all
      from answering_served [OF o(1) this] o(2) j(2) show ?thesis by simp
    qed
    with j(1) held [OF j(3)] show ?thesis by (intro exI [of _ j]) (simp add: y)
  qed
qed

text \<open>Then the instruction cache.\<close>

lemma fetch_answers:
  assumes "system_run r i c di fi dd y" and "isa_trace code prog (isa_run prog (reset_arch (memory_bytes K)))"
    and "processor_trace C K prog (since r i) (since r c) (since r di) (since r fi) (since r dd) u n f p L"
    and "served_by (fst (u k)) (data_request (i (r + k)) (c (r + k)))"
    and "fetching level2_ready level2_serving level2_bound (fst (snd (u k))) (snd (snd (u k))) (pcreg (c (r + k))) m"
  shows "\<exists>j\<le>m. core_hit (i (r + (k + j)))"
  using assms(4,5)
proof (induction m arbitrary: k rule: less_induct)
  case (less m)
  have at: "system_at C K prog (isa_run prog (reset_arch (memory_bytes K))) (i (r + k)) (c (r + k)) (u k) (n k) (f k) (p k) (L k)"
    using assms(3) by (simp only: processor_trace_def)
  note cyc = run_cycle [OF assms(1), of k]
  have ob: "observed_cycle (u k) (di (r + k)) (fi (r + k)) (dd (r + k)) (d_cache_rdata (i (r + k)))
      (\<not> i_cache_miss (i (r + k))) (i_cache_rdata (i (r + k))) (u (Suc k))"
    using assms(3) by (simp only: processor_trace_def)
  show ?case
  proof (cases "core_hit (i (r + k))")
    case False
    from processor_fetch_step [OF assms(2) at cyc(2-4) ob cyc(6) less.prems False, of "i (r + Suc k)", folded cyc(1)]
    obtain l where l: "l < m" "served_by (fst (u (Suc k))) (data_request (i (r + Suc k)) (c (r + Suc k)))"
      "fetching level2_ready level2_serving level2_bound (fst (snd (u (Suc k)))) (snd (snd (u (Suc k)))) (pcreg (c (r + Suc k))) l"
      by blast
    from less.IH [OF this] obtain j where "j \<le> l" "core_hit (i (r + (Suc k + j)))" by blast
    with l(1) show ?thesis by (intro exI [of _ "Suc j"]) simp
  qed (intro exI [of _ 0], simp)
qed

lemma processor_hits:
  assumes "system_run r i c di fi dd y" and "isa_trace code prog (isa_run prog (reset_arch (memory_bytes K)))"
    and "processor_trace C K prog (since r i) (since r c) (since r di) (since r fi) (since r dd) u n f p L"
  shows "\<exists>j\<le>1191. core_hit (i (r + k + j))"
proof -
  obtain j where j: "j \<le> 952" "served_by (fst (u (k + j))) (data_request (i (r + (k + j))) (c (r + (k + j))))"
    using data_answers [OF assms] by blast
  let ?k = "k + j"
  have at: "system_at C K prog (isa_run prog (reset_arch (memory_bytes K))) (i (r + ?k)) (c (r + ?k)) (u ?k) (n ?k) (f ?k) (p ?k) (L ?k)"
    using assms(3) by (simp only: processor_trace_def)
  have "cache_state (fst (u ?k)) = Hit" using j(2) by (cases "data_request (i (r + ?k)) (c (r + ?k))") simp_all
  with at have "side_rest (fst (u ?k), snd (snd (u ?k)), p ?k) (L ?k)" unfolding system_at_def by (blast intro: side_at_rest)
  then have "lower.d_ready (snd (snd (u ?k)), p ?k)" by (simp only: cached_ready_def fst_conv snd_conv)
  from lower.fetching_starts [OF this, of C K] at
  have "fetching level2_ready level2_serving level2_bound (fst (snd (u ?k))) (snd (snd (u ?k))) (pcreg (c (r + ?k))) (level2_bound + 3)"
    unfolding system_at_def by blast
  from fetch_answers [OF assms j(2) this] obtain l where "l \<le> 239" "core_hit (i (r + (?k + l)))" by (auto simp: DELAY_MEM_def)
  with j(1) show ?thesis by (intro exI [of _ "j + l"]) (simp add: add.assoc)
qed

end
