(* ===== verification/Processor.thy ===== *)
theory Processor
  imports Full_Progress
begin

text \<open>
  The theorems about the processor on its memory hierarchy, and their application to a program that lies in the memory out of
  reset: loads and additions, one after the other, through all of the address space.
\<close>

section \<open>A system that runs\<close>

text \<open>The inputs of the core, from what the caches answer.\<close>

definition driven_in :: "bool \<Rightarrow> core \<Rightarrow> bool \<Rightarrow> u32 \<Rightarrow> bool \<Rightarrow> u32 \<Rightarrow> core_in" where
  "driven_in rst c dd vd df vf =
     (let i = hit_in (\<lambda>_. 0) rst c
      in i\<lparr>i_cache_miss := \<not> df, d_cache_miss := (data_request i c \<noteq> None \<and> \<not> dd), i_cache_rdata := vf, d_cache_rdata := vd\<rparr>)"

lemma driven_fields:
  "core_rst (driven_in b c dd vd df vf) = b" "\<not> update_hist_table (driven_in b c dd vd df vf)" "i_cache_miss (driven_in b c dd vd df vf) \<longleftrightarrow> \<not> df"
  "i_cache_rdata (driven_in b c dd vd df vf) = vf" "d_cache_rdata (driven_in b c dd vd df vf) = vd"
  "data_request (driven_in b c dd vd df vf) c' = data_request (hit_in (\<lambda>_. 0) b c) c'"
  "d_cache_miss (driven_in b c dd vd df vf) \<longleftrightarrow> data_request (hit_in (\<lambda>_. 0) b c) c \<noteq> None \<and> \<not> dd"
  by (simp_all add: driven_in_def hit_in_def data_request_def wb_value_def Let_def)

lemma processor_exists:
  "\<exists>i c di fi dd y. system_run 3 i c di fi dd y \<and> c 0 = c0 \<and> y 3 = y0 \<and> (\<forall>k. \<not> update_hist_table (i k))"
proof -
  let ?step = "\<lambda>k s s' z. case z of (di, fi, dd, vd, df, vf) \<Rightarrow>
    fst s' = core_step (driven_in (k < 3) (fst s) dd vd df vf) (fst s)
    \<and> (if k < 3 then snd s' = snd s
       else presents di (data_request (hit_in (\<lambda>_. 0) (k < 3) (fst s)) (fst s)) \<and> requests fi (LoadWord (pcreg (fst s)))
         \<and> hierarchy_cycle (snd s) di fi dd vd df vf (snd s'))"
  have "\<exists>s' z. ?step k s s' z" for k :: nat and s :: "core \<times> hierarchy"
  proof -
    obtain di where di: "presents di (data_request (hit_in (\<lambda>_. 0) (k < 3) (fst s)) (fst s))" using presented by blast
    have fi: "requests (load_inputs (pcreg (fst s))) (LoadWord (pcreg (fst s)))" by (simp add: load_inputs_def)
    obtain dd vd df vf y where y: "hierarchy_cycle (snd s) di (load_inputs (pcreg (fst s))) dd vd df vf y" using hierarchy_exists by blast
    let ?c = "core_step (driven_in (k < 3) (fst s) dd vd df vf) (fst s)"
    have "?step k s (?c, if k < 3 then snd s else y) (di, load_inputs (pcreg (fst s)), dd, vd, df, vf)"
      using di fi y by (cases "k < 3") simp_all
    then show ?thesis by blast
  qed
  then have "\<exists>g. \<forall>k. (k = 0 \<longrightarrow> g k = (c0, y0)) \<and> (\<exists>z. ?step k (g k) (g (Suc k)) z)"
    by (intro dependent_nat_choice [where P = "\<lambda>k s. k = 0 \<longrightarrow> s = (c0, y0)" and Q = "\<lambda>k s s'. \<exists>z. ?step k s s' z"]) simp_all
  then obtain g where g: "g 0 = (c0, y0)" "\<forall>k. \<exists>z. ?step k (g k) (g (Suc k)) z" by blast
  from choice [OF g(2)] obtain z where z: "\<And>k. ?step k (g k) (g (Suc k)) (z k)" by blast
  define di fi dd vd df vf where "di k = fst (z k)" and "fi k = fst (snd (z k))" and "dd k = fst (snd (snd (z k)))"
    and "vd k = fst (snd (snd (snd (z k))))" and "df k = fst (snd (snd (snd (snd (z k)))))" and "vf k = snd (snd (snd (snd (snd (z k)))))" for k
  note d = di_def fi_def dd_def vd_def df_def vf_def
  let ?i = "\<lambda>k. driven_in (k < 3) (fst (g k)) (dd k) (vd k) (df k) (vf k)"
  have "fst (g (Suc k)) = core_step (?i k) (fst (g k))" for k using z [of k] by (simp add: d case_prod_beta)
  moreover have "presents (di k) (data_request (?i k) (fst (g k))) \<and> requests (fi k) (LoadWord (pcreg (fst (g k))))
      \<and> hierarchy_cycle (snd (g k)) (di k) (fi k) (dd k) (vd k) (df k) (vf k) (snd (g (Suc k)))" if "3 \<le> k" for k
    using z [of k] that by (simp add: d case_prod_beta driven_fields)
  ultimately have "system_run 3 ?i (\<lambda>k. fst (g k)) di fi dd (\<lambda>k. snd (g k))"
    unfolding system_run_def by (simp add: driven_fields)
  moreover have "snd (g (3 :: nat)) = y0"
    using g(1) z [of 0] z [of 1] z [of 2] by (simp add: case_prod_beta numeral_3_eq_3 numeral_2_eq_2)
  ultimately show ?thesis using g(1)
    by (intro exI [of _ ?i] exI [of _ "\<lambda>k. fst (g k)"] exI [of _ di] exI [of _ fi] exI [of _ dd] exI [of _ "\<lambda>k. snd (g k)"]) (simp add: driven_fields)
qed

section \<open>The program\<close>

definition alternating :: assembly where
  "alternating a = (if bit a 2 then Op_imm Add 5 5 1 else Load Full False 6 0 64)"

text \<open>A line of it: the two words four times.\<close>

definition program_line :: line where
  "program_line = 0x0012829304002303001282930400230300128293040023030012829304002303"

text \<open>The processor out of reset, with the memory loaded.\<close>

definition loaded_processor :: "lines \<Rightarrow> hierarchy" where
  "loaded_processor K =
     \<lparr> data_l1 = cache_clock True fresh_cache (load_inputs 0) idle_cntrl, instr_l1 = cache_clock True fresh_cache (load_inputs 0) idle_cntrl,
       arbiter_state = IDLE, l2_cache = fst (reset_l2 undefined), main_memory = (fresh_adaptor, fresh_memory\<lparr>mem_lines := K\<rparr>) \<rparr>"

definition fresh_processor :: hierarchy where
  "fresh_processor = loaded_processor (\<lambda>_. program_line)"

lemma loaded_after_reset: "after_reset (loaded_processor K) K"
proof -
  have "path_ready (fresh_adaptor, fresh_memory\<lparr>mem_lines := K\<rparr>)" using fresh_simps(1) by simp
  moreover have "path_contents (fresh_adaptor, fresh_memory\<lparr>mem_lines := K\<rparr>) = K" by simp
  ultimately show ?thesis unfolding after_reset_def loaded_processor_def reset_l2_def fst_conv by blast
qed

lemma fresh_after_reset: "after_reset fresh_processor (\<lambda>_. program_line)"
  unfolding fresh_processor_def by (rule loaded_after_reset)

lemma program_encoding:
  "encode (Op_imm Add 5 5 1) = 0x00128293" "encode (Load Full False 6 0 64) = 0x04002303"
  by code_simp+

lemma quot_mod: "n mod (4 * m) div 4 = n div 4 mod m" for n m :: nat
  by (simp add: mod_mult2_eq)

lemma odd_mod: "2 dvd m \<Longrightarrow> odd (n mod m) \<longleftrightarrow> odd n" for n m :: nat
  by (simp add: dvd_mod_iff)

lemma bit_2: "bit a 2 \<longleftrightarrow> odd (unat a div 4)" for a :: u32
  using bit_unsigned_iff [where ?'a = nat, of a 2] by (auto simp: bit_iff_odd [of "unat a"] dest: bit_imp_le_length)

lemma odd_word: "odd (addr_word a) \<longleftrightarrow> bit a 2"
  using quot_mod [of "unat a" 8] odd_mod [of 8 "unat a div 4"] by (simp add: addr_word_unat bit_2)

lemma program_words: "word_at (memory_bytes (\<lambda>_. program_line)) a = encode (alternating a)"
proof -
  have "addr_word a < 8" by (simp add: addr_word_unat)
  then consider "addr_word a = 0" | "addr_word a = 1" | "addr_word a = 2" | "addr_word a = 3"
    | "addr_word a = 4" | "addr_word a = 5" | "addr_word a = 6" | "addr_word a = 7" by linarith
  then have "adapt_rdata a program_line = (if odd (addr_word a) then 0x00128293 else 0x04002303)"
    by cases (simp_all add: adapt_rdata_def program_line_def drop_bit_eq_div)
  then show ?thesis using load_word_bytes [of a "\<lambda>_. program_line"] by (simp add: odd_word alternating_def program_encoding)
qed

lemma alternates: "bit (a + 4) 2 \<longleftrightarrow> \<not> bit a 2" for a :: u32
proof -
  have "unat (a + 4) div 4 = (unat a + 4) mod (4 * 2 ^ 30) div 4" by (simp add: unat_word_ariths)
  also have "\<dots> = Suc (unat a div 4) mod 2 ^ 30" unfolding quot_mod by (simp add: div_add_self2)
  finally show ?thesis using odd_mod [of "2 ^ 30" "Suc (unat a div 4)"] by (simp add: bit_2)
qed

lemma again: "bit (8 + a) 2 \<longleftrightarrow> bit a 2" for a :: u32
  using alternates [of "a + 4"] alternates [of a] by (simp add: add.assoc add.commute)

lemma alternating_behaves: "well_behaved (word_at (memory_bytes (\<lambda>_. program_line))) alternating s"
  by (auto simp: well_behaved_def program_words alternating_def source1_def reg_value_def aligned_def byte_offset_def)

lemma alternating_executes: "executes (word_at (memory_bytes (\<lambda>_. program_line))) alternating s"
  by (simp add: executes_def alternating_behaves)

lemma alternating_separate: "separate UNIV alternating s"
  by (simp add: separate_def alternating_def Let_def)

lemma load_funct3: "funct3_out (encode (Load Full False 6 0 64)) = load_lw"
  by code_simp

lemma alternating_scheduled: "scheduled (word_at (memory_bytes (\<lambda>_. program_line)))"
  by (simp add: scheduled_def decodes_def program_words alternating_def opcode_defs load_funct3)

text \<open>What a load or an addition does, two at a time.\<close>

lemma alternating_pair:
  "let s = isa_run alternating (reset_arch m) (2 * n) in \<not> bit (a_pc s) 2 \<and> a_regs s 5 = of_nat n"
proof (induction n)
  case 0
  then show ?case by (simp add: reset_arch_def)
next
  case (Suc n)
  have off: "byte_offset 1 = 1" by (simp add: byte_offset_def)
  have add: "isa_alu Add (of_nat n) 1 = of_nat (Suc n)"
    using alu_correct [of Add "of_nat n" 1] by (simp add: alu_add_code compares_def add.commute del: isa_alu.simps)
  have "isa_run alternating (reset_arch m) (2 * Suc n) =
      isa_step alternating (isa_step alternating (isa_run alternating (reset_arch m) (2 * n)))" by simp
  with Suc show ?case
    by (simp add: Let_def isa_step_def isa_effect_def alternating_def alternates again source1_def source2_def reg_value_def off add
        del: isa_alu.simps isa_load.simps)
qed

text \<open>Code in which no load stands right before a use of its word never loses a redirection.\<close>

lemma scheduled_no_loss:
  assumes "system_run 3 i c di fi dd y" and "after_reset (y 3) K" and "scheduled (word_at (memory_bytes K))"
    and "executes (word_at (memory_bytes K)) prog (reset_arch (memory_bytes K))" and "separate UNIV prog (reset_arch (memory_bytes K))"
    and "3 \<le> k"
  shows "\<not> redirection_meets_hazard (i k) (c k)"
proof -
  have none: "\<not> redirection_meets_hazard (i k) (c k)" if "3 \<le> k" "\<And>j. 3 \<le> j \<Longrightarrow> j \<le> k \<Longrightarrow> fetched K UNIV (i j) (c j)" for k
    by (rule paired_no_loss, rule scheduled_paired [where c = c and i = i and r = 3, OF _ _ _ _ assms(3) that(1)])
      (use assms(1) that(2) in \<open>simp_all add: system_run_def fetched_def\<close>)
  from processor_invariant [OF assms(1) order_refl assms(2,4,5) none]
  have "fetched K UNIV (i (3 + k)) (c (3 + k))" for k unfolding processor_trace_def by blast
  then have "fetched K UNIV (i j) (c j)" if "3 \<le> j" for j using that le_Suc_ex by metis
  with none [OF assms(6)] show ?thesis by blast
qed

lemma alternating_no_loss:
  assumes "system_run 3 i c di fi dd y" and "y 3 = fresh_processor" and "3 \<le> k"
  shows "\<not> redirection_meets_hazard (i k) (c k)"
proof -
  have "after_reset (y 3) (\<lambda>_. program_line)" unfolding assms(2) by (rule fresh_after_reset)
  from scheduled_no_loss [OF assms(1) this alternating_scheduled alternating_executes alternating_separate assms(3)] show ?thesis .
qed

section \<open>The processor executes the program in its memory\<close>

text \<open>The lines that data cache, second level and memory hold together, at rest or at work on a request.\<close>

definition memory_holds :: "hierarchy \<Rightarrow> access option \<Rightarrow> lines \<Rightarrow> bool" where
  "memory_holds y request L \<longleftrightarrow> (\<exists>j p. side_holds (data_l1 y, (arbiter_state y, l2_cache y, main_memory y, j), p) request L)"

lemma holds_observed: "side_holds (fst (observed y j), snd (snd (observed y j)), p) request L \<Longrightarrow> memory_holds y request L"
  by (auto simp: memory_holds_def)

text \<open>
  C1: the processor implements the instruction set, with the whole memory hierarchy. The core fetches through the
  instruction cache and loads and stores through the data cache, both four-way; the arbiter shares the eight-way second
  level between the two, below which are the adaptor and the burst memory, and all is as the reset leaves it. Assumed are that the program
  is well behaved (the words fetched on its way encode valid instructions, accesses are aligned), that it
  does not store to the lines it is fetched from, and that no redirection meets a load-use hazard. Then from the reset on the
  register file with the write in flight, and the bytes that data cache, second level and memory hold together, are those of the
  machine that executes one instruction after the other, of which every cycle retires one or none, however the two
  caches compete, and whatever is fetched on a wrong path.
\<close>

theorem processor_refines_isa:
  assumes "system_run r i c di fi dd y" and "3 \<le> r" and "after_reset (y r) K"
    and "executes (word_at (memory_bytes K)) prog (reset_arch (memory_bytes K))" and "separate C prog (reset_arch (memory_bytes K))"
    and "\<And>k. r \<le> k \<Longrightarrow> \<not> redirection_meets_hazard (i k) (c k)"
  shows "\<exists>n L. n 0 = 0 \<and> L 0 = K \<and> (\<forall>k. n (Suc k) = n k \<or> n (Suc k) = Suc (n k))
    \<and> (\<forall>k. let now = isa_run prog (reset_arch (memory_bytes K)) (n k);
          after = isa_run prog (reset_arch (memory_bytes K)) (Suc (n k)) in
        write_back (i (r + k)) (c (r + k)) = a_regs now
        \<and> memory_holds (y (r + k)) (data_request (i (r + k)) (c (r + k))) (L k)
        \<and> memory_bytes (L k) \<in> {a_mem now, a_mem after})"
proof -
  obtain j n f p L where tr: "processor_trace C K prog (since r i) (since r c) (since r di) (since r fi) (since r dd)
      (\<lambda>k. observed (y (r + k)) (j k)) n f p L"
    using processor_invariant [OF assms(1-5)] assms(6) by blast
  note tr = this [unfolded processor_trace_def]
  have n: "n 0 = 0" "L 0 = K" and at: "system_at C K prog (isa_run prog (reset_arch (memory_bytes K)))
      (i (r + k)) (c (r + k)) (observed (y (r + k)) (j k)) (n k) (f k) (p k) (L k)"
    and step: "retires prog (isa_run prog (reset_arch (memory_bytes K))) (i (r + k)) (c (r + k)) (n k) (f k) (n (Suc k)) (f (Suc k))" for k
    using tr by blast+
  have "n (Suc k) = n k \<or> n (Suc k) = Suc (n k)" for k by (rule retires_next [OF step])
  moreover have "\<not> core_rst (i (r + k))" for k using assms(1) by (simp add: system_run_def)
  note core_at_visible [OF _ this]
  then have "write_back (i (r + k)) (c (r + k)) = a_regs (isa_run prog (reset_arch (memory_bytes K)) (n k))"
    "memory_bytes (L k) \<in> {a_mem (isa_run prog (reset_arch (memory_bytes K)) (n k)), a_mem (isa_run prog (reset_arch (memory_bytes K)) (Suc (n k)))}" for k
    using at [of k] unfolding system_at_def by blast+
  moreover have "memory_holds (y (r + k)) (data_request (i (r + k)) (c (r + k))) (L k)" for k
    using at [of k] holds_observed unfolding system_at_def by blast
  ultimately show ?thesis using n unfolding Let_def by (intro exI [of _ n] exI [of _ L]) blast
qed

text \<open>Loads and additions, from caches and memory out of reset.\<close>

theorem processor_refines_isa_witness:
  "\<exists>i c di fi dd y. system_run 3 i c di fi dd y \<and> c 0 = empty_core \<and> y 3 = fresh_processor
     \<and> (\<exists>n. n 0 = 0 \<and> (\<forall>k. n (Suc k) = n k \<or> n (Suc k) = Suc (n k))
       \<and> (\<forall>k. write_back (i (3 + k)) (c (3 + k)) = a_regs (isa_run alternating (reset_arch (memory_bytes (\<lambda>_. program_line))) (n k))))"
proof -
  obtain i c di fi dd y where sys: "system_run 3 i c di fi dd y" "c 0 = empty_core" "y 3 = fresh_processor"
    using processor_exists by metis
  have "after_reset (y 3) (\<lambda>_. program_line)" unfolding sys(3) by (rule fresh_after_reset)
  from processor_refines_isa [OF sys(1) order_refl this alternating_executes alternating_separate alternating_no_loss [OF sys(1,3)]]
  have "\<exists>n. n 0 = 0 \<and> (\<forall>k. n (Suc k) = n k \<or> n (Suc k) = Suc (n k))
      \<and> (\<forall>k. write_back (i (3 + k)) (c (3 + k)) = a_regs (isa_run alternating (reset_arch (memory_bytes (\<lambda>_. program_line))) (n k)))"
    unfolding Let_def by blast
  with sys show ?thesis by blast
qed

text \<open>
  C2: the processor makes progress, under the assumptions of the last theorem (a well-behaved program that does not
  store to the lines it is fetched from, and no redirection that meets a load-use hazard). With both caches sharing the second level
  through the arbiter, every cycle in which the core waits belongs to a wait that ends within 1191 cycles: the data cache is
  served, and then, since it asks for nothing more while the core waits, the instruction cache. So after \<open>4 * 1192\<close>
  cycles for each, \<open>N\<close> instructions have retired; nothing is assumed of the misses, which are those of the caches.
\<close>

theorem processor_progress:
  assumes "system_run r i c di fi dd y" and "3 \<le> r" and "after_reset (y r) K"
    and "executes (word_at (memory_bytes K)) prog (reset_arch (memory_bytes K))" and "separate C prog (reset_arch (memory_bytes K))"
    and "\<And>k. r \<le> k \<Longrightarrow> \<not> redirection_meets_hazard (i k) (c k)"
  shows "\<exists>j\<le>4 * 1192 * N. write_back (i (r + j)) (c (r + j)) = a_regs (isa_run prog (reset_arch (memory_bytes K)) N)"
proof -
  have tr: "isa_trace (word_at (memory_bytes K)) prog (isa_run prog (reset_arch (memory_bytes K)))"
    using assms(4) by (rule executes_trace)
  obtain q n f p L where trace: "processor_trace C K prog (since r i) (since r c) (since r di) (since r fi) (since r dd)
      (\<lambda>k. observed (y (r + k)) (q k)) n f p L"
    using processor_invariant [OF assms(1-5)] assms(6) by blast
  then have n: "n 0 = 0" "f 0 = 3"
    and at: "core_at prog (isa_run prog (reset_arch (memory_bytes K))) (n k) (f k) (c (r + k)) (memory_bytes (L k))"
    and step: "retires prog (isa_run prog (reset_arch (memory_bytes K))) (i (r + k)) (c (r + k)) (n k) (f k) (n (Suc k)) (f (Suc k))" for k
    unfolding processor_trace_def system_at_def by blast+
  from core_hits_linear [where i = i and r = r and b = 1191 and N = "4 * N", OF processor_hits [OF assms(1) tr trace]]
  have "4 * N \<le> core_hits i r (4 * 1192 * N)" by (simp add: mult.commute)
  with retired_count [where k = "4 * 1192 * N", OF n step] have "N \<le> n (4 * 1192 * N)" by linarith
  moreover have "n (Suc k) = n k \<or> n (Suc k) = Suc (n k)" for k by (rule retires_next [OF step])
  ultimately obtain j where "j \<le> 4 * 1192 * N" "n j = N" using count_reaches [of n N] n(1) by blast
  moreover have "\<not> core_rst (i (r + j))" by (rule run_cycle(2) [OF assms(1)])
  ultimately show ?thesis using core_at_visible(1) [OF at] by blast
qed

text \<open>Three additions and three loads, in a bounded time.\<close>

theorem processor_progress_witness:
  "\<exists>i c di fi dd y. system_run 3 i c di fi dd y \<and> c 0 = empty_core \<and> y 3 = fresh_processor
     \<and> (\<exists>j\<le>4 * 1192 * 6. write_back (i (3 + j)) (c (3 + j)) 5 = 3)"
proof -
  obtain i c di fi dd y where sys: "system_run 3 i c di fi dd y" "c 0 = empty_core" "y 3 = fresh_processor"
    using processor_exists by metis
  have "after_reset (y 3) (\<lambda>_. program_line)" unfolding sys(3) by (rule fresh_after_reset)
  from processor_progress [OF sys(1) order_refl this alternating_executes alternating_separate alternating_no_loss [OF sys(1,3)], of "2 * 3"]
  obtain j where "j \<le> 4 * 1192 * 6"
    "write_back (i (3 + j)) (c (3 + j)) = a_regs (isa_run alternating (reset_arch (memory_bytes (\<lambda>_. program_line))) (2 * 3))" by auto
  moreover have "a_regs (isa_run alternating (reset_arch (memory_bytes (\<lambda>_. program_line))) (2 * 3)) 5 = 3"
    using alternating_pair [of _ 3] by (simp only: Let_def) simp
  ultimately show ?thesis using sys by metis
qed

end
