(* ===== verification/Monitor.thy ===== *)
theory Monitor
  imports Processor
begin

text \<open>
  The test bench around the processor: the signals by which top.sv observes it, the halting condition, and how a
  simulation ends.
\<close>

section \<open>The monitor\<close>

text \<open>
  What the top module keeps of the signals it grabs: the program counter of the fetch, that of the
  instruction leaving write-back, and the number of commits; beside them the count-down of the bench.
\<close>

record monitor =
  pc_out_ifid :: u32
  pc_memwb :: u32
  order :: "64 word"
  timeout :: "32 word"

text \<open>The bench counts down from this number.\<close>

definition TIMEOUT :: nat where
  "TIMEOUT = 100000000"

definition wb_commit :: "core \<Rightarrow> bool" where
  "wb_commit c \<longleftrightarrow>
     (let w = to_write_back (registers c) in write_reg (wb_cntrl_word w) \<and> wb_reg_dest w = 0)"

definition commit :: "core_in \<Rightarrow> core \<Rightarrow> bool" where
  "commit i c \<longleftrightarrow> \<not> stall_mem_wb (core_stalls i c) \<and> wb_commit c \<and> \<not> flush (check_branch c)"

definition rvfi_halt :: "core_in \<Rightarrow> core \<Rightarrow> monitor \<Rightarrow> bool" where
  "rvfi_halt i c m \<longleftrightarrow> commit i c \<and> pc_out_ifid m = pc_memwb m"

text \<open>A clock edge: what is grabbed unless the stage is held, the count of commits, the count-down.\<close>

definition stall_ifid :: "core_in \<Rightarrow> core \<Rightarrow> bool" where
  "stall_ifid i c \<longleftrightarrow> stall_if_id (core_stalls i c) \<or> stall_nop_if_id (core_stalls i c)"

definition grab_pc_out_ifid :: "core_in \<Rightarrow> core \<Rightarrow> u32 \<Rightarrow> u32" where
  "grab_pc_out_ifid i c old = (if \<not> stall_ifid i c then pcreg c else old)"

definition grab_pc_memwb :: "core_in \<Rightarrow> core \<Rightarrow> u32 \<Rightarrow> u32" where
  "grab_pc_memwb i c old = (if \<not> stall_mem_wb (core_stalls i c) then wb_reg_pc (to_write_back (registers c)) else old)"

definition next_order :: "core_in \<Rightarrow> core \<Rightarrow> 64 word \<Rightarrow> 64 word" where
  "next_order i c old = (if commit i c then old + 1 else old)"

definition monitor_step :: "core_in \<Rightarrow> core \<Rightarrow> monitor \<Rightarrow> monitor" where
  "monitor_step i c m =
     \<lparr> pc_out_ifid = grab_pc_out_ifid i c (pc_out_ifid m), pc_memwb = grab_pc_memwb i c (pc_memwb m),
       order = next_order i c (order m), timeout = timeout m - 1 \<rparr>"

lemmas grab_defs = monitor_step_def stall_ifid_def grab_pc_out_ifid_def grab_pc_memwb_def next_order_def

text \<open>The monitor along a run, from the start of the simulation.\<close>

definition monitored :: "(nat \<Rightarrow> core_in) \<Rightarrow> (nat \<Rightarrow> core) \<Rightarrow> (nat \<Rightarrow> monitor) \<Rightarrow> bool" where
  "monitored i c mon \<longleftrightarrow>
     timeout (mon 0) = of_nat TIMEOUT \<and> (\<forall>k. mon (Suc k) = monitor_step (i k) (c k) (mon k))"

lemma timeout_counts:
  assumes "monitored i c mon" and "k < TIMEOUT"
  shows "timeout (mon k) = of_nat (TIMEOUT - k) \<and> timeout (mon k) \<noteq> 0"
proof -
  have "timeout (mon k) = of_nat (TIMEOUT - k)" using assms(2)
  proof (induction k)
    case (Suc k)
    then have "timeout (mon (Suc k)) = of_nat (TIMEOUT - k) - 1"
      using assms(1) by (simp add: monitored_def monitor_step_def)
    also have "TIMEOUT - k = Suc (TIMEOUT - Suc k)" using Suc.prems by simp
    finally show ?case by simp
  qed (use assms(1) in \<open>simp add: monitored_def\<close>)
  moreover have "(of_nat (TIMEOUT - k) :: u32) \<noteq> 0"
    using assms(2) by (simp add: word_of_nat_eq_0_iff nat_dvd_not_less TIMEOUT_def del: of_nat_diff)
  ultimately show ?thesis by simp
qed

section \<open>What commits\<close>

text \<open>While a cache misses, the monitor holds.\<close>

lemma monitor_miss:
  assumes "\<not> core_hit i"
  shows "pc_out_ifid (monitor_step i c m) = pc_out_ifid m" "pc_memwb (monitor_step i c m) = pc_memwb m"
    "order (monitor_step i c m) = order m" "\<not> commit i c"
  using assms stall_cases(1) [of "i_cache_miss i" "d_cache_miss i" "registers c"]
  by (auto simp: core_hit_def grab_defs commit_def core_stalls_def Let_def)

lemma monitor_hit:
  assumes "core_hit i"
  shows "pc_memwb (monitor_step i c m) = wb_reg_pc (to_write_back (registers c))"
    "\<not> read_mem (id_cntrl_word (to_execute (registers c))) \<Longrightarrow> pc_out_ifid (monitor_step i c m) = pcreg c"
    "commit i c \<longleftrightarrow> wb_commit c \<and> \<not> flush (check_branch c)"
  using assms stall_cases(3) [of "registers c"]
  by (simp_all add: core_hit_def grab_defs commit_def core_stalls_def Let_def)
    (simp add: pipeline_stalls_def stall_def)

text \<open>
  The comment calls it an instruction that modifies the register file or the program counter: nothing that commits
  changes a register.
\<close>

lemma commit_writes_nothing:
  assumes "commit i c" and "\<not> core_rst i"
  shows "write_back i c = regs_data c"
  using assms by (simp add: commit_def wb_commit_def write_back_def regfile_step_def Let_def)

section \<open>A jump to itself\<close>

text \<open>After the jump has been redirected, and one cycle further on.\<close>

definition spinning :: "u32 \<Rightarrow> core \<Rightarrow> bool" where
  "spinning pc c \<longleftrightarrow>
     pcreg c = pc \<and> quiet_execute (to_execute (registers c)) \<and> to_memory (registers c) = ex_cleared 0x13
     \<and> wb_reg_pc (to_write_back (registers c)) = pc"

definition about_to_halt :: "core \<Rightarrow> monitor \<Rightarrow> bool" where
  "about_to_halt c m \<longleftrightarrow>
     pc_out_ifid m = pc_memwb m \<and> wb_commit c \<and> bubble_memory (to_memory (registers c))"

lemma cleared_bubble: "bubble_memory (ex_cleared 0x13)"
  by (simp add: bubble_defs)

lemma bubble_held:
  assumes "bubble_memory (to_memory (registers c))" and "\<not> core_rst i" and "\<not> core_hit i"
  shows "registers (core_step i c) = registers c" "pcreg (core_step i c) = pcreg c"
proof -
  have "\<not> flush (check_branch c)" using bubble_no_flush [OF assms(1)] by (simp flip: check_branch_flush)
  with miss_step(3,4) [OF assms(2), of c] assms(3) show "registers (core_step i c) = registers c" "pcreg (core_step i c) = pcreg c"
    by (auto simp: core_hit_def)
qed

lemma spinning_held: "spinning pc c \<Longrightarrow> \<not> core_rst i \<Longrightarrow> \<not> core_hit i \<Longrightarrow> spinning pc (core_step i c)"
  using bubble_held [of c i] cleared_bubble by (simp add: spinning_def)

lemma about_to_halt_held:
  assumes "about_to_halt c m" and "\<not> core_rst i" and "\<not> core_hit i"
  shows "about_to_halt (core_step i c) (monitor_step i c m)"
  using assms bubble_held [OF _ assms(2,3)] monitor_miss(1,2) [OF assms(3)]
  by (simp add: about_to_halt_def wb_commit_def)

lemma spinning_hit:
  assumes "spinning pc c" and "\<not> core_rst i" and "core_hit i"
  shows "about_to_halt (core_step i c) (monitor_step i c m)"
proof -
  have b: "bubble_memory (to_memory (registers c))" and e: "quiet_execute (to_execute (registers c))"
    using assms(1) cleared_bubble by (simp_all add: spinning_def)
  have fl: "\<not> flush (check_branch c)" using bubble_no_flush [OF b] by (simp flip: check_branch_flush)
  have hit: "\<not> i_cache_miss i" "\<not> d_cache_miss i" using assms(3) by (simp_all add: core_hit_def)
  note regs = hit_cases(1,2) [OF assms(2) hit fl refl]
  have "bubble_memory (execute_out i c)"
    using e by (simp add: quiet_execute_def bubble_defs execute_out_def Let_def)
  moreover have "wb_commit (core_step i c)"
    using assms(1) by (simp add: wb_commit_def regs memory_out_def spinning_def ex_cleared_def nop_word_def Let_def)
  moreover have "\<not> read_mem (id_cntrl_word (to_execute (registers c)))"
    using e by (simp add: quiet_execute_def bubble_execute_def harmless_def)
  ultimately show ?thesis
    using assms(1) monitor_hit(1,2) [OF assms(3), of c m] by (simp add: about_to_halt_def regs spinning_def)
qed

lemma halts_on_hit:
  assumes "about_to_halt c m" and "core_hit i"
  shows "rvfi_halt i c m"
proof -
  have "\<not> flush (check_branch c)" using bubble_no_flush assms(1) by (auto simp: about_to_halt_def simp flip: check_branch_flush)
  with assms(1) monitor_hit(3) [OF assms(2), of c] show ?thesis by (simp add: rvfi_halt_def about_to_halt_def)
qed

text \<open>The jump itself, in the memory stage.\<close>

definition self_jump :: "assembly \<Rightarrow> arch \<Rightarrow> bool" where
  "self_jump prog s \<longleftrightarrow>
     (case prog (a_pc s) of
        Jal rd v \<Rightarrow> rd = 0 \<and> v = 0
      | Branch c rs1 rs2 v \<Rightarrow> v = 0 \<and> isa_cond c (source1 prog s) (source2 prog s)
      | _ \<Rightarrow> False)"

lemma self_jump_step: "self_jump prog s \<Longrightarrow> isa_step prog s = s"
  by (cases s; cases "prog (a_pc s)") (simp_all add: self_jump_def isa_step_def isa_effect_def half_offset_def fun_eq_iff)

lemma self_jump_run:
  assumes "self_jump prog (isa_run prog s N)" and "N \<le> n"
  shows "isa_run prog s n = isa_run prog s N"
  using assms(2)
proof (induction n rule: dec_induct)
  case (step n)
  then show ?case using self_jump_step [OF assms(1)] by simp
qed simp

lemma self_jump_spins:
  assumes "isa_trace code prog A" and "core_at prog A n f c m" and "\<not> core_rst i" and "core_hit i"
    and "in_memory prog (A n) (to_memory (registers c))" and "self_jump prog (A n)" and "\<not> redirection_meets_hazard i c"
    and "prog (a_pc (A n)) \<noteq> Jal 0 0 \<Longrightarrow> \<not> ex_br_pred_taken (to_memory (registers c))"
  shows "spinning (a_pc (A n)) (core_step i c)"
proof -
  let ?p = "registers (core_step i c)"
  have red: "redirecting prog A n (Suc n) (ex_br_pred_taken (to_memory (registers c)))"
    using assms(6,8) by (cases "prog (a_pc (A n))") (simp_all add: redirecting_def self_jump_def)
  have slot: "memory_slot prog A n (Suc n) (to_memory (registers c))" using assms(5) by (simp add: memory_slot_def)
  have fl: "flush (check_branch c)" using red flush_iff [OF assms(1) slot] by blast
  have hit: "\<not> i_cache_miss i" "\<not> d_cache_miss i" using assms(4) by (simp_all add: core_hit_def)
  then have st: "\<not> pc_stall (core_stalls i c)" using fl assms(7) by (simp add: redirection_meets_hazard_def)
  have "ex_opcode (to_memory (registers c)) \<in> {op_jal, op_jalr} \<longrightarrow> \<not> mispredicted (checker c)"
    using assms(2) by (simp add: core_at_def)
  from redirected_pc [OF assms(1,5) red this] st have "pcreg (core_step i c) = a_pc (A (Suc n))"
    by (simp add: core_step_fields [OF assms(3)])
  also have "\<dots> = a_pc (A n)" using assms(6) trace_step(1) [OF assms(1)] by (simp add: self_jump_step)
  finally have pc: "pcreg (core_step i c) = a_pc (A n)" .
  have regs: "?p = pipeline_clock False False (checker c) (stage_outputs i c) (registers c)"
    using hit by (simp add: core_step_fields [OF assms(3)])
  have "quiet_execute (to_execute ?p)" "to_memory ?p = ex_cleared 0x13" "to_write_back ?p = memory_out i c"
    using fl stall_cases(2,3) unfolding regs quiet_execute_def
    by (simp_all add: pipeline_clock_def Let_def check_branch_flush flushed_bubbles)
      (simp_all add: register_steps id_cleared_def nop_word_def zero_word_def stage_outputs_def)
  moreover have "ex_reg_pc (to_memory (registers c)) = a_pc (A n)" by (rule in_memory_fields(10) [OF assms(1,5) refl])
  ultimately show ?thesis using pc by (simp add: spinning_def memory_out_def Let_def)
qed

section \<open>The end of a simulation\<close>

text \<open>What holds until the next cycle without a miss holds there.\<close>

lemma next_hit:
  assumes "\<And>k. \<exists>j\<le>b. core_hit (i (k + j))" and "\<And>k. P k \<Longrightarrow> \<not> core_hit (i k) \<Longrightarrow> P (Suc k)" and "P k"
  shows "\<exists>j\<le>b. core_hit (i (k + j)) \<and> P (k + j)"
proof -
  define j where "j = (LEAST j. core_hit (i (k + j)))"
  obtain l where l: "l \<le> b" "core_hit (i (k + l))" using assms(1) by blast
  have j: "core_hit (i (k + j))" "j \<le> l" "\<And>x. x < j \<Longrightarrow> \<not> core_hit (i (k + x))"
    unfolding j_def using l(2) by (auto intro: LeastI Least_le dest: not_less_Least)
  have "P (k + x)" if "x \<le> j" for x
    using that by (induction x) (simp_all add: assms(2,3) j(3))
  with j l(1) show ?thesis by (intro exI [of _ j]) simp
qed

text \<open>A count that goes up by one at a time passes every number.\<close>

lemma count_passes:
  fixes n :: "nat \<Rightarrow> nat"
  assumes "n 0 = 0" and "\<And>k. n (Suc k) = n k \<or> n (Suc k) = Suc (n k)" and "Suc N \<le> n k"
  shows "\<exists>t<k. n t = N \<and> n (Suc t) = Suc N"
  using assms(3)
proof (induction k)
  case (Suc k)
  then show ?case using assms(2) [of k] by (cases "Suc N \<le> n k") (auto simp: less_Suc_eq)
qed (simp add: assms(1))

text \<open>Within two cycles without a miss the processor halts.\<close>

lemma spinning_halts:
  assumes "\<And>k. c (Suc k) = core_step (i k) (c k)" and "\<And>k. \<not> core_rst (i k)" and "\<And>k. mon (Suc k) = monitor_step (i k) (c k) (mon k)"
    and "\<And>k. \<exists>j\<le>b. core_hit (i (k + j))" and "spinning pc (c k)"
  shows "\<exists>j\<le>2 * b + 1. rvfi_halt (i (k + j)) (c (k + j)) (mon (k + j))"
proof -
  obtain j where j: "j \<le> b" "core_hit (i (k + j))" "spinning pc (c (k + j))"
    using next_hit [where P = "\<lambda>k. spinning pc (c k)" and i = i and b = b and k = k, OF assms(4) _ assms(5)] spinning_held [OF _ assms(2)]
    unfolding assms(1) by blast
  have "about_to_halt (c (Suc (k + j))) (mon (Suc (k + j)))" unfolding assms(1,3) by (rule spinning_hit [OF j(3) assms(2) j(2)])
  from next_hit [where P = "\<lambda>k. about_to_halt (c k) (mon k)" and i = i and b = b, OF assms(4) _ this] about_to_halt_held [OF _ assms(2)]
  obtain l where l: "l \<le> b" "core_hit (i (Suc (k + j) + l))" "about_to_halt (c (Suc (k + j) + l)) (mon (Suc (k + j) + l))"
    unfolding assms(1,3) by blast
  from halts_on_hit [OF l(3,2)] j(1) l(1) show ?thesis by (intro exI [of _ "Suc (j + l)"]) (simp add: add.assoc)
qed

text \<open>
  C3: a simulation ends, and with the right state. Assumed are, as for the processor, a well-behaved program that does not store to the
  lines it is fetched from, and that no redirection meets a load-use hazard. When such a program gets to a jump or a taken branch
  to itself, the way the programs of the repository end, and, if it is not the plain jump, the predictor never has it taken, then the halting
  condition of the test bench holds within a number of cycles linear in the instructions up to there, before the bench times out if that
  number is below its time-out; and the register file, with the write in flight, and the bytes that data cache, second level and memory hold
  together are then those of the instruction set at the jump.
\<close>

theorem simulation_ends:
  assumes "system_run r i c di fi dd y" and "3 \<le> r" and "after_reset (y r) K"
    and "executes (word_at (memory_bytes K)) prog (reset_arch (memory_bytes K))" and "separate C prog (reset_arch (memory_bytes K))"
    and "\<And>k. r \<le> k \<Longrightarrow> \<not> redirection_meets_hazard (i k) (c k)"
    and "monitored i c mon" and "end = isa_run prog (reset_arch (memory_bytes K)) N" and "self_jump prog end"
    and "\<And>k. r \<le> k \<Longrightarrow> prog (a_pc end) \<noteq> Jal 0 0 \<Longrightarrow> ex_reg_pc (to_memory (registers (c k))) = a_pc end \<Longrightarrow>
      \<not> ex_br_pred_taken (to_memory (registers (c k)))"
    and "r + 4 * 1192 * (N + 1) + 2 * 1192 < TIMEOUT"
  shows "\<exists>k<r + 4 * 1192 * (N + 1) + 2 * 1192. rvfi_halt (i k) (c k) (mon k) \<and> timeout (mon k) \<noteq> 0
    \<and> write_back (i k) (c k) = a_regs end
    \<and> (\<exists>L. memory_holds (y k) (data_request (i k) (c k)) L \<and> memory_bytes L = a_mem end)"
proof -
  let ?A = "isa_run prog (reset_arch (memory_bytes K))"
  have tr: "isa_trace (word_at (memory_bytes K)) prog ?A" using assms(4) by (rule executes_trace)
  obtain q n f p L where trace: "processor_trace C K prog (since r i) (since r c) (since r di) (since r fi) (since r dd)
      (\<lambda>k. observed (y (r + k)) (q k)) n f p L"
    using processor_invariant [OF assms(1-5)] assms(6) by blast
  then have n: "n 0 = 0" "f 0 = 3"
    and at: "core_at prog ?A (n k) (f k) (c (r + k)) (memory_bytes (L k))"
    and holds: "memory_holds (y (r + k)) (data_request (i (r + k)) (c (r + k))) (L k)"
    and step: "retires prog ?A (i (r + k)) (c (r + k)) (n k) (f k) (n (Suc k)) (f (Suc k))" for k
    unfolding processor_trace_def system_at_def using holds_observed by blast+
  note hits = processor_hits [OF assms(1) tr trace] and cyc = run_cycle [OF assms(1)]
  have mon: "mon (Suc k) = monitor_step (i k) (c k) (mon k)" for k using assms(7) by (simp add: monitored_def)
  have mono: "n (Suc k) = n k \<or> n (Suc k) = Suc (n k)" for k by (rule retires_next [OF step])
  define T where "T = 4 * 1192 * (N + 1)"
  from core_hits_linear [where i = i and r = r and b = 1191 and N = "4 * (N + 1)", OF hits]
  have "4 * (N + 1) \<le> core_hits i r T" by (simp add: T_def algebra_simps)
  with retired_count [where n = n and f = f and k = T, OF n step] have "Suc N \<le> n T" by presburger
  from count_passes [of n N T, OF n(1) mono this] obtain t where t: "t < 4 * 1192 * (N + 1)" "n t = N" "n (Suc t) = Suc N"
    unfolding T_def by blast
  then have mem: "core_hit (i (r + t))" "in_memory prog (?A N) (to_memory (registers (c (r + t))))"
    using step [of t] by (auto simp: retires_def split: if_splits)
  have "ex_reg_pc (to_memory (registers (c (r + t)))) = a_pc end" unfolding assms(8) by (rule in_memory_fields(10) [OF tr mem(2) refl])
  then have unpredicted: "\<not> ex_br_pred_taken (to_memory (registers (c (r + t))))" if "prog (a_pc (?A N)) \<noteq> Jal 0 0"
    using assms(10) [of "r + t"] that unfolding assms(8) by simp
  have "spinning (a_pc (?A N)) (c (r + Suc t))"
    unfolding cyc(1) by (rule self_jump_spins [OF tr _ cyc(2) mem(1,2)]) (use at [of t] t(2) assms(6,8,9) unpredicted in simp_all)
  from spinning_halts [where c = "since r c" and i = "since r i" and mon = "since r mon" and b = 1191, OF _ cyc(2) _ _ this] hits
  obtain j where j: "j \<le> 2 * 1191 + 1" "rvfi_halt (i (r + (Suc t + j))) (c (r + (Suc t + j))) (mon (r + (Suc t + j)))"
    using cyc(1) mon by (auto simp: add.assoc)
  let ?k = "Suc t + j"
  have "n k \<le> n (Suc k)" for k using mono [of k] by linarith
  from lift_Suc_mono_le [of n, OF this, of "Suc t" ?k] have "Suc N \<le> n ?k" using t(3) by simp
  then have "?A (n ?k) = end \<and> ?A (Suc (n ?k)) = end"
    unfolding assms(8) by (intro conjI self_jump_run [OF assms(9) [unfolded assms(8)]]) simp_all
  then have A: "?A (n ?k) = end" "?A (Suc (n ?k)) = end" by blast+
  from core_at_visible [OF at [of ?k] cyc(2) [of ?k]]
  have "write_back (i (r + ?k)) (c (r + ?k)) = a_regs end" "memory_bytes (L ?k) = a_mem end" unfolding A by blast+
  moreover have "timeout (mon (r + ?k)) \<noteq> 0" by (rule timeout_counts [OF assms(7), THEN conjunct2]) (use assms(11) t(1) j(1) in simp)
  moreover have "r + ?k < r + 4 * 1192 * (N + 1) + 2 * 1192" using t(1) j(1) by simp
  ultimately show ?thesis using j(2) holds [of ?k] by blast
qed

section \<open>A predictor that is not trained\<close>

text \<open>
  The signal that trains the predictors is commented out where it was driven. Untrained they predict no branch taken:
  their tables stay as the reset leaves them.
\<close>

definition untrained :: "br_pred_blkbox \<Rightarrow> bool" where
  "untrained s \<longleftrightarrow> g_patterns (GBR_PRED s) = (\<lambda>_. WEAKLY_NOT_TAKEN) \<and> m_patterns (META_PRED s) = (\<lambda>_. WEAKLY_NOT_TAKEN)"

definition predicts_nothing :: "core \<Rightarrow> bool" where
  "predicts_nothing c \<longleftrightarrow>
     untrained (predictor c) \<and> \<not> g_flush (GBR_PRED (predictor c)) \<and> \<not> br_pred_sel (META_PRED (predictor c))
     \<and> \<not> if_br_pred_taken (to_decode (registers c)) \<and> \<not> id_br_pred (to_execute (registers c))
     \<and> \<not> ex_br_pred_taken (to_memory (registers c))"

lemma reset_untrained: "pred_rst i \<Longrightarrow> untrained (blkbox_step i s)"
  by (simp add: untrained_def blkbox_step_def blkbox_clock_def global_clock_def meta_clock_def)

lemma untrained_silent:
  assumes "untrained s" and "\<not> pred_load i" and "pred_rst i \<or> \<not> g_flush (GBR_PRED s) \<and> \<not> br_pred_sel (META_PRED s)"
  shows "\<not> blkbox_flush (blkbox_comb i s)"
    "untrained (blkbox_step i s) \<and> \<not> g_flush (GBR_PRED (blkbox_step i s)) \<and> \<not> br_pred_sel (META_PRED (blkbox_step i s))"
  using assms
  by (auto simp: untrained_def blkbox_flush_def blkbox_step_def blkbox_comb_def blkbox_clock_def global_comb_def meta_comb_def
      global_clock_def meta_clock_def Let_def)

lemma predictor_in_fields: "pred_load (predictor_in i c) = update_hist_table i" "pred_rst (predictor_in i c) = core_rst i"
  by (simp_all add: predictor_in_def fetch_pred_in_def)

lemma predicts_nothing_step:
  assumes "predicts_nothing c" and "\<not> update_hist_table i" and "\<not> core_rst i"
  shows "predicts_nothing (core_step i c)"
proof -
  note pred = untrained_silent [of "predictor c" "predictor_in i c", unfolded predictor_in_fields]
  have "\<not> if_br_pred_taken (fetch_out i c)"
    using pred(1) assms by (simp add: fetch_out_def predicted_taken_def predicts_nothing_def)
  moreover have "\<not> id_br_pred (decode_out i c)" "\<not> ex_br_pred_taken (execute_out i c)"
    using assms(1) by (simp_all add: decode_out_def execute_out_def predicts_nothing_def Let_def)
  moreover have "predictor (core_step i c) = blkbox_step (predictor_in i c) (predictor c)" by (simp add: core_step_def)
  ultimately show ?thesis using pred(2) assms
    by (auto simp: predicts_nothing_def core_step_fields(1) [OF assms(3)] pipeline_clock_def register_steps stage_outputs_def
        id_cleared_def ex_cleared_def Let_def)
qed

lemma reset_predicts_nothing:
  assumes "core_rst i" and "core_rst i'" and "\<not> update_hist_table i'"
  shows "predicts_nothing (core_step i' (core_step i c))"
proof -
  have "untrained (predictor (core_step i c))" using assms(1) by (simp add: core_step_def reset_untrained predictor_in_fields)
  from untrained_silent(2) [OF this, of "predictor_in i' (core_step i c)"] assms show ?thesis
    by (simp add: predicts_nothing_def core_step_def predictor_in_fields pipeline_reset_def register_steps id_cleared_def ex_cleared_def)
qed

lemma never_predicted:
  assumes "\<And>k. c (Suc k) = core_step (i k) (c k)" and "\<And>k. core_rst (i k) \<longleftrightarrow> k < r" and "2 \<le> r"
    and "\<And>k. \<not> update_hist_table (i k)" and "r \<le> k"
  shows "\<not> ex_br_pred_taken (to_memory (registers (c k)))"
proof -
  have "predicts_nothing (c k)" using assms(5)
  proof (induction k rule: dec_induct)
    case base
    obtain q where q: "r = Suc (Suc q)" using assms(3) by (metis Suc_le_D numeral_2_eq_2 Suc_le_mono)
    then show ?case using reset_predicts_nothing [of "i q" "i (Suc q)" "c q"] assms(1,2,4) by simp
  next
    case (step k)
    then show ?case unfolding assms(1) by (intro predicts_nothing_step) (simp_all add: assms(2,4))
  qed
  then show ?thesis by (simp add: predicts_nothing_def)
qed

section \<open>A program that ends\<close>

text \<open>A program that ends: it puts 42 into register 5 and stays at the branch behind.\<close>

definition ending :: assembly where
  "ending a = (if a = 0x60 then Op_imm Add 5 0 42 else Branch Eq 0 0 0)"

definition ending_lines :: lines where
  "ending_lines l =
     (if l = 3 then 0x0000006300000063000000630000006300000063000000630000006302a00293
      else 0x0000006300000063000000630000006300000063000000630000006300000063)"

lemma ending_encoding: "encode (Op_imm Add 5 0 42) = 0x02a00293" "encode (Branch Eq 0 0 0) = 0x63"
  by code_simp+

lemma ending_words:
  "word_at (memory_bytes ending_lines) a = (if line_no a = 3 \<and> addr_word a = 0 then encode (Op_imm Add 5 0 42) else encode (Branch Eq 0 0 0))"
proof -
  have "addr_word a < 8" by (simp add: addr_word_unat)
  then consider "addr_word a = 0" | "addr_word a = 1" | "addr_word a = 2" | "addr_word a = 3"
    | "addr_word a = 4" | "addr_word a = 5" | "addr_word a = 6" | "addr_word a = 7" by linarith
  then have "adapt_rdata a (ending_lines (line_no a)) = (if line_no a = 3 \<and> addr_word a = 0 then 0x02a00293 else 0x63)"
    by cases (simp_all add: adapt_rdata_def ending_lines_def drop_bit_eq_div)
  then show ?thesis using load_word_bytes [of a ending_lines] by (simp add: ending_encoding)
qed

lemma ending_run: "isa_run ending (reset_arch m) n = (if n = 0 then reset_arch m else \<lparr> a_pc = 0x64, a_regs = (\<lambda>_. 0)(5 := 42), a_mem = m \<rparr>)"
proof (induction n)
  case (Suc n)
  have "byte_offset 42 = 42" by (simp add: byte_offset_def)
  with Suc show ?case
    by (simp add: isa_step_def isa_effect_def half_offset_def ending_def reset_arch_def source1_def source2_def reg_value_def fun_eq_iff)
qed simp

lemma ending_behaves:
  "executes (word_at (memory_bytes ending_lines)) ending (reset_arch m)" "separate UNIV ending (reset_arch m)"
  "scheduled (word_at (memory_bytes ending_lines))"
proof -
  have at: "line_no (0x60 :: u32) = 3" "addr_word (0x60 :: u32) = 0" "addr_word (0x64 :: u32) = 1"
    by (simp_all add: line_no_def addr_word_def drop_bit_eq_div)
  have "a_pc (isa_run ending (reset_arch m) n) = (if n = 0 then 0x60 else 0x64)" for n
    by (simp add: ending_run) (simp add: reset_arch_def)
  then show "executes (word_at (memory_bytes ending_lines)) ending (reset_arch m)"
    by (simp add: executes_def well_behaved_def ending_words) (simp add: ending_def at)
  show "separate UNIV ending (reset_arch m)" by (simp add: separate_def ending_def Let_def)
  show "scheduled (word_at (memory_bytes ending_lines))" by (simp add: scheduled_def decodes_def ending_words opcode_defs)
qed

lemma monitor_exists: "\<exists>mon. monitored i c mon"
proof -
  let ?m = "\<lparr> pc_out_ifid = 0, pc_memwb = 0, order = 0, timeout = of_nat TIMEOUT \<rparr>"
  have "monitored i c (rec_nat ?m (\<lambda>k m. monitor_step (i k) (c k) m))" by (simp add: monitored_def)
  then show ?thesis by blast
qed

theorem simulation_ends_witness:
  "\<exists>i c di fi dd y mon. system_run 3 i c di fi dd y \<and> y 3 = loaded_processor ending_lines \<and> monitored i c mon
     \<and> (\<exists>k<3 + 4 * 1192 * (1 + 1) + 2 * 1192. rvfi_halt (i k) (c k) (mon k) \<and> timeout (mon k) \<noteq> 0 \<and> write_back (i k) (c k) 5 = 42)"
proof -
  obtain i c di fi dd y where sys: "system_run 3 i c di fi dd y" "y 3 = loaded_processor ending_lines"
    and idle: "\<And>k. \<not> update_hist_table (i k)" using processor_exists by metis
  obtain mon where mon: "monitored i c mon" using monitor_exists by blast
  have start: "after_reset (y 3) ending_lines" unfolding sys(2) by (rule loaded_after_reset)
  note none = scheduled_no_loss [OF sys(1) start ending_behaves(3,1,2)]
  have jump: "self_jump ending (isa_run ending (reset_arch m) 1)" and regs: "a_regs (isa_run ending (reset_arch m) 1) 5 = 42" for m
    by (simp_all only: ending_run) (simp_all add: self_jump_def ending_def source1_def source2_def reg_value_def)
  have "\<not> ex_br_pred_taken (to_memory (registers (c k)))" if "3 \<le> k" for k
    by (rule never_predicted [where i = i and r = 3, OF _ _ _ idle that]) (use sys(1) in \<open>simp_all add: system_run_def\<close>)
  note ends = simulation_ends [OF sys(1) order_refl start ending_behaves(1,2) none mon refl jump this]
  have "\<exists>k<3 + 4 * 1192 * (1 + 1) + 2 * 1192. rvfi_halt (i k) (c k) (mon k) \<and> timeout (mon k) \<noteq> 0 \<and> write_back (i k) (c k) 5 = 42"
    using ends regs by (simp add: TIMEOUT_def) metis
  with sys mon show ?thesis by blast
qed

end
