(* ===== verification/Shadow_Memory.thy ===== *)
theory Shadow_Memory
  imports Monitor
begin

text \<open>
  The shadow memory of the test bench: a second copy of the memory that is written whenever the data cache
  acknowledges a store, and with which every word delivered is compared. It is connected to the ports of the two caches
  as the top module asks for.
\<close>

section \<open>The module\<close>

record shadow =
  sm_mem :: lines
  sm_imem :: lines
  errcount :: "32 word"

text \<open>The ports, sampled at a clock edge.\<close>

record sm_in =
  read_a :: bool
  address_a :: u32
  rdata_a :: u32
  resp_a :: bool
  read_b :: bool
  sm_write_b :: bool
  address_b :: u32
  rdata_b :: u32
  sm_wdata :: u32
  resp_b :: bool
  mbe :: "4 word"

text \<open>The word at an address of a table of lines, and a word written under its byte enables.\<close>

definition sm_read :: "lines \<Rightarrow> u32 \<Rightarrow> u32" where
  "sm_read mem addr = (let line = mem (line_no addr) in ucast (drop_bit (8 * (4 * addr_word addr)) line))"

fun sm_write_lanes :: "nat \<Rightarrow> u32 \<Rightarrow> u32 \<Rightarrow> 4 word \<Rightarrow> line \<Rightarrow> line" where
  "sm_write_lanes 0 addr wdata be line = line"
| "sm_write_lanes (Suc i) addr wdata be line =
     (let line = (if bit be i then put_byte (4 * addr_word addr + i) (ucast (drop_bit (8 * i) wdata)) line else line)
      in sm_write_lanes i addr wdata be line)"

definition sm_write :: "u32 \<Rightarrow> u32 \<Rightarrow> 4 word \<Rightarrow> lines \<Rightarrow> lines" where
  "sm_write addr wdata be mem = mem(line_no addr := sm_write_lanes 4 addr wdata be (mem (line_no addr)))"

definition inst_mismatch :: "sm_in \<Rightarrow> shadow \<Rightarrow> bool" where
  "inst_mismatch i s \<longleftrightarrow> read_a i \<and> resp_a i \<and> sm_read (sm_imem s) (address_a i) \<noteq> rdata_a i"

definition data_mismatch :: "sm_in \<Rightarrow> shadow \<Rightarrow> bool" where
  "data_mismatch i s \<longleftrightarrow> read_b i \<and> resp_b i \<and> sm_read (sm_mem s) (address_b i) \<noteq> rdata_b i"

text \<open>A clock edge, for the two processes together.\<close>

definition shadow_step :: "sm_in \<Rightarrow> shadow \<Rightarrow> shadow" where
  "shadow_step i s =
     s\<lparr>sm_mem := (if (read_b i \<or> sm_write_b i) \<and> resp_b i \<and> \<not> read_b i
           then sm_write (address_b i) (sm_wdata i) (mbe i) (sm_mem s) else sm_mem s),
       errcount := errcount s + (if inst_mismatch i s then 1 else 0) + (if data_mismatch i s then 1 else 0)\<rparr>"

text \<open>Both tables are loaded with the memory image.\<close>

definition sm_new :: "lines \<Rightarrow> shadow" where
  "sm_new lst = \<lparr> sm_mem = lst, sm_imem = lst, errcount = 0 \<rparr>"

section \<open>It is a memory of lines\<close>

lemma sm_read_word: "sm_read mem a = adapt_rdata a (mem (line_no a))"
  by (simp add: sm_read_def adapt_rdata_def)

lemma sm_write_lane:
  assumes "j < 32" and "n \<le> 4"
  shows "line_byte j (sm_write_lanes n a w be v) =
    (if j div 4 = addr_word a \<and> j mod 4 < n \<and> bit be (j mod 4) then ucast (drop_bit (8 * (j mod 4)) w) else line_byte j v)"
  using assms(2)
proof (induction n arbitrary: v)
  case (Suc n)
  have "addr_word a < 8" by (simp add: addr_word_unat)
  then have "4 * addr_word a + n < 32" using Suc.prems by linarith
  note put = line_put_byte [OF this]
  have "4 * addr_word a + n = j \<longleftrightarrow> j div 4 = addr_word a \<and> j mod 4 = n" using Suc.prems by presburger
  with Suc show ?case by (auto simp: put Let_def)
qed simp

lemma sm_write_word: "sm_write a w be L = access_effect (StoreWord a be w) L"
proof -
  have "sm_write_lanes 4 a w be v = store_line a be w v" for v
    by (rule line_eq_bytes) (simp add: sm_write_lane store_line_def merge_byte bit_adapt_enable adapt_wdata_byte)
  then show ?thesis by (simp add: sm_write_def)
qed

section \<open>Beside the processor\<close>

text \<open>The ports of the two caches: what they are asked, whether they answer, and with what.\<close>

definition cache_ports :: "cache_in \<Rightarrow> bool \<Rightarrow> u32 \<Rightarrow> cache_in \<Rightarrow> bool \<Rightarrow> u32 \<Rightarrow> sm_in" where
  "cache_ports fi df vf di dd vd =
     \<lparr> read_a = mem_read fi, address_a = mem_address fi, rdata_a = vf, resp_a = df,
       read_b = mem_read di, sm_write_b = mem_write di, address_b = mem_address di, rdata_b = vd,
       sm_wdata = mem_wdata di, resp_b = dd, mbe = cache_in.mem_byte_enable di \<rparr>"

lemma data_cycle_shadowed:
  assumes "lines_cycle request miss v L L'" and "presents di request" and "miss \<longleftrightarrow> request \<noteq> None \<and> \<not> dd"
    and "sm_mem s = L" and "i = cache_ports fi df vf di dd v"
  shows "sm_mem (shadow_step i s) = L'" "\<not> data_mismatch i s"
proof -
  have "sm_mem (shadow_step i s) = L' \<and> \<not> data_mismatch i s"
  proof (cases request)
    case None
    with assms show ?thesis by (simp add: lines_cycle_def shadow_step_def data_mismatch_def cache_ports_def)
  next
    case (Some q)
    with assms show ?thesis
      by (cases q; cases dd)
        (simp_all add: lines_cycle_def shadow_step_def data_mismatch_def cache_ports_def sm_read_word sm_write_word del: fun_upd_apply)
  qed
  then show "sm_mem (shadow_step i s) = L'" "\<not> data_mismatch i s" by simp_all
qed

lemma shadow_imem: "sm_imem (shadow_step i s) = sm_imem s"
  by (simp add: shadow_step_def)

text \<open>The shadow memory started with the memory image when the reset ends.\<close>

definition shadowed :: "nat \<Rightarrow> lines \<Rightarrow> (nat \<Rightarrow> core_in) \<Rightarrow> (nat \<Rightarrow> cache_in) \<Rightarrow> (nat \<Rightarrow> cache_in) \<Rightarrow> (nat \<Rightarrow> bool) \<Rightarrow> (nat \<Rightarrow> shadow) \<Rightarrow> bool" where
  "shadowed r lst i di fi dd sm \<longleftrightarrow>
     sm r = sm_new lst
     \<and> (\<forall>k\<ge>r. sm (Suc k) = shadow_step (cache_ports (fi k) (\<not> i_cache_miss (i k)) (i_cache_rdata (i k)) (di k) (dd k) (d_cache_rdata (i k))) (sm k))"

text \<open>
  C4: the shadow memory finds nothing to report. Run beside the processor on its hierarchy, under the assumptions of the theorems about it
  (a well-behaved program that does not store to the lines \<open>C\<close> it is fetched from, and no redirection that meets a load-use hazard), it
  holds in every cycle exactly the lines that data cache, second level and memory hold together, no word that the data cache
  delivers differs from the word it holds, and a word that the instruction cache delivers can differ only on a wrong path that
  leaves the lines \<open>C\<close>; in all other cycles the count of errors stays as it is.
\<close>

theorem shadow_memory_agrees:
  assumes "system_run r i c di fi dd y" and "3 \<le> r" and "after_reset (y r) K"
    and "executes (word_at (memory_bytes K)) prog (reset_arch (memory_bytes K))" and "separate C prog (reset_arch (memory_bytes K))"
    and "\<And>k. r \<le> k \<Longrightarrow> \<not> redirection_meets_hazard (i k) (c k)"
    and "shadowed r K i di fi dd sm" and "r \<le> k"
    and "ports = cache_ports (fi k) (\<not> i_cache_miss (i k)) (i_cache_rdata (i k)) (di k) (dd k) (d_cache_rdata (i k))"
  shows "memory_holds (y k) (data_request (i k) (c k)) (sm_mem (sm k))
    \<and> \<not> data_mismatch ports (sm k)
    \<and> (inst_mismatch ports (sm k) \<longrightarrow> line_no (pcreg (c k)) \<notin> C)
    \<and> (line_no (pcreg (c k)) \<in> C \<longrightarrow> errcount (sm (Suc k)) = errcount (sm k))"
proof -
  obtain q n f p L where "processor_trace C K prog (since r i) (since r c) (since r di) (since r fi) (since r dd)
      (\<lambda>k. observed (y (r + k)) (q k)) n f p L"
    using processor_invariant [OF assms(1-5)] assms(6) by blast
  note tr = this [unfolded processor_trace_def system_at_def]
  have L: "L 0 = K" and holds: "memory_holds (y (r + k)) (data_request (i (r + k)) (c (r + k))) (L k)"
    and fetch: "fetched K C (i (r + k)) (c (r + k))"
    and cycle: "lines_cycle (data_request (i (r + k)) (c (r + k))) (d_cache_miss (i (r + k))) (d_cache_rdata (i (r + k))) (L k) (L (Suc k))" for k
    using tr holds_observed by blast+
  note cyc = run_cycle [OF assms(1)]
  let ?ports = "\<lambda>k. cache_ports (fi (r + k)) (\<not> i_cache_miss (i (r + k))) (i_cache_rdata (i (r + k))) (di (r + k)) (dd (r + k)) (d_cache_rdata (i (r + k)))"
  have start: "sm r = sm_new K" and step: "sm (r + Suc k) = shadow_step (?ports k) (sm (r + k))" for k
    using assms(7) by (simp_all add: shadowed_def)
  have same: "sm_mem (sm (r + k)) = L k \<and> sm_imem (sm (r + k)) = K" for k
  proof (induction k)
    case (Suc k)
    then show ?case unfolding step shadow_imem
      using data_cycle_shadowed(1) [OF cycle cyc(3,6) _ refl, of "sm (r + k)" k] by blast
  qed (simp add: start sm_new_def L)
  obtain j where j: "k = r + j" using assms(8) le_Suc_ex by blast
  have data: "\<not> data_mismatch ports (sm k)" unfolding j assms(9)
    using data_cycle_shadowed(2) [OF cycle cyc(3,6) _ refl, of "sm (r + j)" j] same by blast
  have inst: "line_no (pcreg (c k)) \<notin> C" if "inst_mismatch ports (sm k)"
  proof
    assume "line_no (pcreg (c k)) \<in> C"
    then have "\<not> i_cache_miss (i k) \<longrightarrow> i_cache_rdata (i k) = word_at (memory_bytes K) (pcreg (c k))"
      using fetch [of j] by (simp add: fetched_def j)
    moreover have "mem_address (fi k) = pcreg (c k)" using cyc(4) [of j] by (simp add: j)
    ultimately show False using that same [of j]
      by (simp add: inst_mismatch_def assms(9) cache_ports_def sm_read_word load_word_bytes j)
  qed
  have quiet: "line_no (pcreg (c k)) \<in> C \<longrightarrow> errcount (sm (Suc k)) = errcount (sm k)"
    using assms(7-9) data inst by (auto simp: shadowed_def shadow_step_def)
  have "memory_holds (y k) (data_request (i k) (c k)) (sm_mem (sm k))" using holds [of j] same [of j] by (simp only: j)
  with data inst quiet show ?thesis by blast
qed

lemma shadow_exists: "\<exists>sm. shadowed r K i di fi dd sm"
proof -
  let ?ports = "\<lambda>k. cache_ports (fi k) (\<not> i_cache_miss (i k)) (i_cache_rdata (i k)) (di k) (dd k) (d_cache_rdata (i k))"
  have "shadowed r K i di fi dd (\<lambda>k. rec_nat (sm_new K) (\<lambda>k. shadow_step (?ports (r + k))) (k - r))"
    by (simp add: shadowed_def Suc_diff_le)
  then show ?thesis by blast
qed

text \<open>Loads and additions, for ever, without an error.\<close>

theorem shadow_memory_agrees_witness:
  "\<exists>i c di fi dd y sm. system_run 3 i c di fi dd y \<and> y 3 = fresh_processor \<and> shadowed 3 (\<lambda>_. program_line) i di fi dd sm
     \<and> (\<forall>k. errcount (sm (3 + k)) = 0)"
proof -
  obtain i c di fi dd y where sys: "system_run 3 i c di fi dd y" "y 3 = fresh_processor"
    using processor_exists by metis
  obtain sm where sm: "shadowed 3 (\<lambda>_. program_line) i di fi dd sm" using shadow_exists by blast
  have start: "after_reset (y 3) (\<lambda>_. program_line)" unfolding sys(2) by (rule fresh_after_reset)
  note agrees = shadow_memory_agrees [OF sys(1) order_refl start alternating_executes alternating_separate alternating_no_loss [OF sys] sm _ refl]
  have "errcount (sm (3 + k)) = 0" for k
  proof (induction k)
    case (Suc k)
    have "sm (Suc (3 + k)) = shadow_step (cache_ports (fi (3 + k)) (\<not> i_cache_miss (i (3 + k))) (i_cache_rdata (i (3 + k)))
        (di (3 + k)) (dd (3 + k)) (d_cache_rdata (i (3 + k)))) (sm (3 + k))"
      using sm unfolding shadowed_def by (metis le_add1)
    with agrees [of "3 + k"] Suc show ?case by (simp add: shadow_step_def)
  qed (use sm in \<open>simp add: shadowed_def sm_new_def\<close>)
  with sys sm show ?thesis by blast
qed

end
