(* ===== verification/Magic_Memory.thy ===== *)
theory Magic_Memory
  imports Processor
begin

text \<open>
  The dual-port magic memory of the test bench: a table of bytes that answers both ports of the core within the cycle.
  Between it and the core there is no cache, and it does not take the low bits off an address.
\<close>

section \<open>The module\<close>

record magic =
  mm_mem :: memory
  mm_resp_a :: bool
  mm_rdata_a :: u32
  mm_resp_b :: bool
  mm_rdata_b :: u32

record magic_in =
  mm_read_a :: bool
  mm_address_a :: u32
  mm_read_b :: bool
  mm_write_b :: bool
  mm_wmask :: "4 word"
  mm_address_b :: u32
  mm_wdata :: u32

text \<open>The loops over the four bytes; addresses wrap.\<close>

definition mm_read :: "memory \<Rightarrow> u32 \<Rightarrow> u32" where
  "mm_read m a = le_word (map (\<lambda>i. m (a + of_nat i)) [0..<4])"

fun mm_write :: "nat \<Rightarrow> u32 \<Rightarrow> u32 \<Rightarrow> 4 word \<Rightarrow> memory \<Rightarrow> memory" where
  "mm_write 0 a wdata wmask m = m"
| "mm_write (Suc i) a wdata wmask m =
     (let m = mm_write i a wdata wmask m
      in if bit wmask i then m(a + of_nat i := slice_at (8 * i) wdata) else m)"

text \<open>The negative clock edge: responses are driven, and a write goes to the table at once, after the reads.\<close>

definition magic_step :: "magic_in \<Rightarrow> magic \<Rightarrow> magic" where
  "magic_step i s =
     (let s = (if mm_read_a i then s\<lparr>mm_resp_a := True, mm_rdata_a := mm_read (mm_mem s) (mm_address_a i)\<rparr>
               else s\<lparr>mm_resp_a := False\<rparr>)
      in if mm_read_b i then s\<lparr>mm_resp_b := True, mm_rdata_b := mm_read (mm_mem s) (mm_address_b i)\<rparr>
         else if mm_write_b i
         then s\<lparr>mm_resp_b := True, mm_mem := mm_write 4 (mm_address_b i) (mm_wdata i) (mm_wmask i) (mm_mem s)\<rparr>
         else s\<lparr>mm_resp_b := False\<rparr>)"

section \<open>Bytes from an address on\<close>

lemma of_nat_less_4: "k < 4 \<Longrightarrow> unat (of_nat k :: u32) = k"
  by (simp add: unsigned_of_nat take_bit_nat_eq_self_iff)

lemma offset_iff:
  fixes a b :: u32
  assumes "k < 4"
  shows "b = a + of_nat k \<longleftrightarrow> unat (b - a) = k"
proof -
  have "b = a + of_nat k \<longleftrightarrow> b - a = of_nat k" by (auto simp: algebra_simps)
  then show ?thesis by (simp only: word_unat_eq_iff of_nat_less_4 [OF assms])
qed

lemma mm_write_bytes:
  "n \<le> 4 \<Longrightarrow> mm_write n a w be m b =
    (if unat (b - a) < n \<and> bit be (unat (b - a)) then slice_at (8 * unat (b - a)) w else m b)"
proof (induction n)
  case (Suc n)
  then have "n < 4" by simp
  from offset_iff [OF this] have "b = a + of_nat n \<longleftrightarrow> unat (b - a) = n" .
  with Suc show ?case by (auto simp: Let_def less_Suc_eq)
qed simp

text \<open>On word addresses it is the byte memory of the instruction set.\<close>

lemma word_address:
  fixes a :: u32
  assumes "lane a = 0"
  shows "a AND NOT 3 = a"
  using address_split [of a] assms by simp

lemma mm_read_word: "lane a = 0 \<Longrightarrow> mm_read m a = word_at m a"
  unfolding mm_read_def word_at_bytes by (simp only: word_address) (simp add: upt_rec)

lemma mm_write_word:
  assumes "lane a = 0"
  shows "mm_write 4 a w be m = masked_write m a be w"
proof
  fix b
  have al: "lane a + 4 \<le> 4" using assms by simp
  have "unat (b - a) < 4 \<longleftrightarrow> b AND NOT 3 = a AND NOT 3"
    unfolding in_access_iff(1) [OF al] using assms lane_less [of b] by linarith
  moreover have "lane b = unat (b - a)" if "unat (b - a) < 4" using in_access_iff(2) [OF al that] assms by linarith
  ultimately show "mm_write 4 a w be m b = masked_write m a be w b"
    unfolding mm_write_bytes [OF order_refl] masked_write_def by metis
qed

text \<open>
  On other addresses it is not. The core sends a byte in the lane that its address selects, enables that lane,
  and leaves the address as it is; the magic memory adds the lane once more: the byte ends up as far behind
  its address again as the address is behind the word, and at the address itself nothing changes.
\<close>

lemma magic_byte_store:
  "mm_write 4 a (wdata_out sel op_store (width_funct3 Byte) a v r) (Stages.mem_byte_enable held op_store (width_funct3 Byte) a) m
     = m(a + of_nat (lane a) := ucast v)"
proof
  fix b :: u32
  let ?k = "unat (b - a)"
  have al: "aligned Byte a" by (simp add: aligned_def)
  have "b = a + of_nat (lane a) \<longleftrightarrow> ?k = lane a" by (rule offset_iff [OF lane_less])
  moreover have "bit (Stages.mem_byte_enable held op_store (width_funct3 Byte) a) ?k \<longleftrightarrow> ?k = lane a" if "?k < 4"
    using mask_lanes [OF al that] by auto
  moreover have "slice_at (8 * lane a) (wdata_out sel op_store (width_funct3 Byte) a v r) = (ucast v :: 8 word)"
    using data_lanes [OF al order_refl, of sel v r] by (simp add: slice_at_def)
  ultimately show "mm_write 4 a (wdata_out sel op_store (width_funct3 Byte) a v r) (Stages.mem_byte_enable held op_store (width_funct3 Byte) a) m b
      = (m(a + of_nat (lane a) := ucast v)) b"
    using lane_less [of a] unfolding mm_write_bytes [OF order_refl] fun_upd_apply by metis
qed

section \<open>The core between its ports\<close>

definition magic_ports :: "u32 \<Rightarrow> access option \<Rightarrow> magic_in" where
  "magic_ports pc request =
     (case request of
        None \<Rightarrow> \<lparr> mm_read_a = True, mm_address_a = pc, mm_read_b = False, mm_write_b = False, mm_wmask = 0, mm_address_b = 0, mm_wdata = 0 \<rparr>
      | Some (LoadWord a) \<Rightarrow>
          \<lparr> mm_read_a = True, mm_address_a = pc, mm_read_b = True, mm_write_b = False, mm_wmask = 0, mm_address_b = a, mm_wdata = 0 \<rparr>
      | Some (StoreWord a be w) \<Rightarrow>
          \<lparr> mm_read_a = True, mm_address_a = pc, mm_read_b = False, mm_write_b = True, mm_wmask = be, mm_address_b = a, mm_wdata = w \<rparr>)"

text \<open>The responses of a cycle are those of the edge within it; without one the port misses.\<close>

definition magic_run :: "nat \<Rightarrow> (nat \<Rightarrow> core_in) \<Rightarrow> (nat \<Rightarrow> core) \<Rightarrow> (nat \<Rightarrow> magic) \<Rightarrow> bool" where
  "magic_run r i c y \<longleftrightarrow>
     (\<forall>k. c (Suc k) = core_step (i k) (c k) \<and> (core_rst (i k) \<longleftrightarrow> k < r)
        \<and> (r \<le> k \<longrightarrow>
             y (Suc k) = magic_step (magic_ports (pcreg (c k)) (data_request (i k) (c k))) (y k)
             \<and> i_cache_miss (i k) = (\<not> mm_resp_a (y (Suc k))) \<and> i_cache_rdata (i k) = mm_rdata_a (y (Suc k))
             \<and> d_cache_miss (i k) = (data_request (i k) (c k) \<noteq> None \<and> \<not> mm_resp_b (y (Suc k)))
             \<and> d_cache_rdata (i k) = mm_rdata_b (y (Suc k))))"

text \<open>
  What a program has to be for it: its code is in memory and stays there, and it accesses whole words.
\<close>

fun access_lane :: "instr \<Rightarrow> u32 \<Rightarrow> nat" where
  "access_lane (Load w u rd rs1 v) x = lane (x + byte_offset v)"
| "access_lane (Store w rs1 rs2 v) x = lane (x + byte_offset v)"
| "access_lane _ x = 0"

definition in_words :: "assembly \<Rightarrow> arch \<Rightarrow> bool" where
  "in_words prog s \<longleftrightarrow>
     executes (word_at (a_mem s)) prog s
     \<and> (\<forall>n. let t = isa_run prog s n in
          lane (a_pc t) = 0 \<and> access_lane (prog (a_pc t)) (source1 prog t) = 0
          \<and> (\<forall>l. word_at (a_mem t) (a_pc (isa_run prog s l)) = word_at (a_mem s) (a_pc (isa_run prog s l))))"

lemma magic_answers:
  "mm_resp_a (magic_step (magic_ports pc request) s)" "mm_rdata_a (magic_step (magic_ports pc request) s) = mm_read (mm_mem s) pc"
  "request = None \<or> mm_resp_b (magic_step (magic_ports pc request) s)"
  by (simp_all add: magic_ports_def magic_step_def Let_def split: option.split access.split)

lemma magic_port:
  assumes "request \<noteq> None \<Longrightarrow> lane (access_addr (the request)) = 0"
  shows "port_cycle request False (mm_rdata_b (magic_step (magic_ports pc request) s)) (mm_mem s) (mm_mem (magic_step (magic_ports pc request) s))"
proof (cases request)
  case (Some q)
  with assms show ?thesis
    by (cases q) (simp_all add: port_cycle_def magic_ports_def magic_step_def Let_def mm_read_word mm_write_word)
qed (simp add: port_cycle_def magic_ports_def magic_step_def)

text \<open>The accesses of the core are those of the program.\<close>

lemma request_lane:
  assumes "isa_trace code prog A" and "core_at prog A n f c m" and "data_request i c = Some q"
    and "access_lane (prog (a_pc (A n))) (source1 prog (A n)) = 0"
  shows "lane (access_addr q) = 0"
proof -
  obtain j where j: "memory_slot prog A n j (to_memory (registers c))" using assms(2) by (auto simp: core_at_def memory_on_def)
  have m: "in_memory prog (A n) (to_memory (registers c))"
    using j quiet_request [of c i] assms(3) by (auto simp: memory_slot_def)
  note f = in_memory_fields [OF assms(1) m refl]
  have "is_load (prog (a_pc (A n))) \<or> is_store (prog (a_pc (A n)))" "access_addr q = ex_alu_val (to_memory (registers c))"
    using assms(3) f(3,4) by (auto simp: data_request_def Let_def split: if_splits)
  with assms(4) f(7) show ?thesis by (cases "prog (a_pc (A n))") (simp_all add: computed_def)
qed

lemma magic_run_cycle:
  assumes "magic_run r i c y" and "r \<le> k"
  shows "c (Suc k) = core_step (i k) (c k)" "\<not> core_rst (i k)"
    "y (Suc k) = magic_step (magic_ports (pcreg (c k)) (data_request (i k) (c k))) (y k)"
    "\<not> i_cache_miss (i k)" "\<not> d_cache_miss (i k)"
    "i_cache_rdata (i k) = mm_read (mm_mem (y k)) (pcreg (c k))" "d_cache_rdata (i k) = mm_rdata_b (y (Suc k))"
  using assms(1) [unfolded magic_run_def, rule_format, of k] assms(2) magic_answers(3) [of "data_request (i k) (c k)" "pcreg (c k)" "y k"]
  by (auto simp: magic_answers(1,2))

lemma magic_reset:
  assumes "magic_run r i c y" and "3 \<le> r"
  shows "core_at prog (isa_run prog (reset_arch m)) 0 3 (c r) m"
  by (rule held_reset [where c = c and i = i, OF _ _ assms(2)]) (use assms(1) in \<open>simp_all add: magic_run_def\<close>)

text \<open>A cycle of the core and the magic memory.\<close>

lemma magic_cycle:
  assumes "magic_run r i c y" and "in_words prog s" and "core_at prog (isa_run prog s) n f (c k) (mm_mem (y k))"
    and "r \<le> k" and "\<not> redirection_meets_hazard (i k) (c k)"
  shows "\<exists>n' f'. core_at prog (isa_run prog s) n' f' (c (Suc k)) (mm_mem (y (Suc k)))
    \<and> retires prog (isa_run prog s) (i k) (c k) n f n' f'"
proof -
  let ?A = "isa_run prog s" and ?code = "word_at (a_mem s)"
  have ex: "executes ?code prog s" and lanes: "lane (a_pc (?A n)) = 0" "access_lane (prog (a_pc (?A n))) (source1 prog (?A n)) = 0"
    and stays: "word_at (a_mem (?A n)) (a_pc (?A l)) = ?code (a_pc (?A l))" for n l
    using assms(2) by (simp_all add: in_words_def Let_def)
  note tr = executes_trace [OF ex] and cyc = magic_run_cycle [OF assms(1,4)]
  have "word_at (mm_mem (y k)) (a_pc (?A l)) = ?code (a_pc (?A l))" for l
    using core_at_visible(2) [OF assms(3) cyc(2)] stays by metis
  then have "\<forall>l. pcreg (c k) = a_pc (?A l) \<longrightarrow> i_cache_rdata (i k) = ?code (pcreg (c k))"
    using lanes(1) by (simp add: cyc(6) mm_read_word)
  moreover have "port_cycle (data_request (i k) (c k)) False (mm_rdata_b (y (Suc k))) (mm_mem (y k)) (mm_mem (y (Suc k)))"
    unfolding cyc(3) by (rule magic_port) (use request_lane [OF tr assms(3) _ lanes(2)] in auto)
  then have "core_port (i k) (c k) (mm_mem (y k)) (mm_mem (y (Suc k)))" using cyc(5,7) by simp
  ultimately show ?thesis unfolding cyc(1) by (intro core_cycle [OF tr assms(3) cyc(2)] assms(5)) simp_all
qed

text \<open>
  C6: on the magic memory the core needs no caches. If the code of the program stays in the memory, all its accesses are
  to word addresses, and no redirection meets a load-use hazard in the run (on a wrong path either, where it would be lost), the core between
  the two ports of the magic memory executes it: registers and memory are cycle by cycle those of the instruction set, and since no
  cycle waits, four cycles retire an instruction.
\<close>

theorem magic_core_refines_isa:
  assumes "magic_run r i c y" and "3 \<le> r" and "in_words prog (reset_arch (mm_mem (y r)))"
    and "\<And>k. r \<le> k \<Longrightarrow> \<not> redirection_meets_hazard (i k) (c k)"
  shows "\<exists>n. n 0 = 0 \<and> (\<forall>k. (n (Suc k) = n k \<or> n (Suc k) = Suc (n k)) \<and> k \<le> 4 * n k + 3
    \<and> write_back (i (r + k)) (c (r + k)) = a_regs (isa_run prog (reset_arch (mm_mem (y r))) (n k))
    \<and> mm_mem (y (r + k)) \<in> {a_mem (isa_run prog (reset_arch (mm_mem (y r))) (n k)), a_mem (isa_run prog (reset_arch (mm_mem (y r))) (Suc (n k)))})"
proof -
  let ?A = "isa_run prog (reset_arch (mm_mem (y r)))"
  have "\<exists>n f. n 0 = 0 \<and> (\<forall>k. core_at prog ?A (n k) (f k) (c (r + k)) (mm_mem (y (r + k)))
      \<and> (n (Suc k) = n k \<or> n (Suc k) = Suc (n k)) \<and> core_hits i r k + f k \<le> 4 * n k + 3)"
  proof (rule retirement_trace [where m = "\<lambda>k. mm_mem (y k)" and c = c and i = i])
    show "core_at prog ?A 0 3 (c r) (mm_mem (y r))" by (rule magic_reset [OF assms(1,2)])
    fix k n f assume "core_at prog ?A n f (c (r + k)) (mm_mem (y (r + k)))"
    from magic_cycle [OF assms(1,3) this le_add1 assms(4) [OF le_add1]]
    show "\<exists>n' f'. core_at prog ?A n' f' (c (r + Suc k)) (mm_mem (y (r + Suc k)))
        \<and> retires prog ?A (i (r + k)) (c (r + k)) n f n' f'" unfolding add_Suc_right .
  qed
  then obtain n f where n: "n 0 = 0" and k: "core_at prog ?A (n k) (f k) (c (r + k)) (mm_mem (y (r + k)))"
    "n (Suc k) = n k \<or> n (Suc k) = Suc (n k)" "core_hits i r k + f k \<le> 4 * n k + 3" for k by blast
  note cyc = magic_run_cycle [OF assms(1) le_add1]
  have "core_hits i r k = k" for k using cyc(4,5) by (induction k) (simp_all add: core_hits_Suc core_hit_def)
  then have "k \<le> 4 * n k + 3" for k using k(3) [of k] by simp
  with n k(2) core_at_visible [OF k(1) cyc(2)] show ?thesis by (intro exI [of _ n]) auto
qed

section \<open>A program on it\<close>

text \<open>A program without stores, none of whose loads is used at once, never loses a redirection.\<close>

lemma magic_no_loss:
  assumes "magic_run 3 i c y" and "in_words prog (reset_arch (mm_mem (y 3)))"
    and "\<And>n. a_mem (isa_run prog (reset_arch (mm_mem (y 3))) n) = mm_mem (y 3)" and "scheduled (mm_read (mm_mem (y 3)))"
    and "3 \<le> k"
  shows "\<not> redirection_meets_hazard (i k) (c k)"
proof -
  let ?A = "isa_run prog (reset_arch (mm_mem (y 3)))"
  have safe: "\<not> redirection_meets_hazard (i k) (c k)" if "3 \<le> k" "\<And>j. 3 \<le> j \<Longrightarrow> j < k \<Longrightarrow> mm_mem (y j) = mm_mem (y 3)" for k
  proof (rule paired_no_loss, rule scheduled_paired [where c = c and i = i and r = 3, OF _ _ _ _ assms(4) that(1)])
    show "i_cache_rdata (i j) = mm_read (mm_mem (y 3)) (pcreg (c j))" if "3 \<le> j" "j < k" for j
      unfolding magic_run_cycle(6) [OF assms(1) that(1)] by (simp only: \<open>\<And>j. 3 \<le> j \<Longrightarrow> j < k \<Longrightarrow> mm_mem (y j) = mm_mem (y 3)\<close> that)
  qed (use assms(1) in \<open>simp_all add: magic_run_def\<close>)
  have "(\<exists>n f. core_at prog ?A n f (c k) (mm_mem (y k))) \<and> (\<forall>j. 3 \<le> j \<longrightarrow> j \<le> k \<longrightarrow> mm_mem (y j) = mm_mem (y 3))" if "3 \<le> k" for k
    using that
  proof (induction k rule: dec_induct)
    case base
    from magic_reset [OF assms(1) order_refl] show ?case by auto
  next
    case (step k)
    then obtain n f where at: "core_at prog ?A n f (c k) (mm_mem (y k))" by blast
    have "\<not> redirection_meets_hazard (i k) (c k)" by (rule safe [OF step(1)]) (use step(3) less_imp_le in blast)
    from magic_cycle [OF assms(1,2) at step(1) this] obtain n' f' where
      at': "core_at prog ?A n' f' (c (Suc k)) (mm_mem (y (Suc k)))" by blast
    have "\<not> core_rst (i (Suc k))" by (rule magic_run_cycle(2) [OF assms(1)]) (use step(1) in simp)
    from core_at_visible(2) [OF at' this] have "mm_mem (y (Suc k)) = mm_mem (y 3)" by (simp only: assms(3) disj_absorb)
    then have "mm_mem (y j) = mm_mem (y 3)" if "3 \<le> j" "j \<le> Suc k" for j using step(3) that le_Suc_eq by blast
    with at' show ?case by blast
  qed
  from this [OF assms(5)] show ?thesis by (intro safe [OF assms(5)]) (use less_imp_le in blast)
qed

text \<open>A run of it.\<close>

definition magic_edge :: "nat \<Rightarrow> core \<Rightarrow> magic \<Rightarrow> magic" where
  "magic_edge k c y =
     (if k < 3 then y else magic_step (magic_ports (pcreg c) (data_request (hit_in (\<lambda>_. 0) (k < 3) c) c)) y)"

definition magic_inputs :: "nat \<Rightarrow> core \<Rightarrow> magic \<Rightarrow> core_in" where
  "magic_inputs k c y = driven_in (k < 3) c (mm_resp_b y) (mm_rdata_b y) (mm_resp_a y) (mm_rdata_a y)"

primrec magic_states :: "core \<Rightarrow> magic \<Rightarrow> nat \<Rightarrow> core \<times> magic" where
  "magic_states c0 y0 0 = (c0, y0)"
| "magic_states c0 y0 (Suc k) =
     (case magic_states c0 y0 k of (c, y) \<Rightarrow> (core_step (magic_inputs k c (magic_edge k c y)) c, magic_edge k c y))"

lemma magic_exists: "\<exists>i c y. magic_run 3 i c y \<and> mm_mem (y 3) = m"
proof -
  let ?y0 = "\<lparr> mm_mem = m, mm_resp_a = False, mm_rdata_a = 0, mm_resp_b = False, mm_rdata_b = 0 \<rparr>"
  define c where "c k = fst (magic_states empty_core ?y0 k)" for k
  define y where "y k = snd (magic_states empty_core ?y0 k)" for k
  define i where "i k = magic_inputs k (c k) (y (Suc k))" for k
  have y: "y (Suc k) = magic_edge k (c k) (y k)" for k by (simp add: y_def c_def case_prod_beta)
  have c: "c (Suc k) = core_step (i k) (c k)" for k unfolding i_def y by (simp add: c_def y_def case_prod_beta)
  have "magic_run 3 i c y"
    unfolding magic_run_def
    using c by (simp add: i_def magic_inputs_def driven_fields) (simp add: y magic_edge_def magic_inputs_def driven_fields)
  moreover have "y 3 = ?y0" using y [of 0] y [of 1] y [of 2] by (simp add: magic_edge_def numeral_3_eq_3 numeral_2_eq_2) (simp add: y_def)
  then have "mm_mem (y 3) = m" by simp
  ultimately show ?thesis by blast
qed

text \<open>A memory full of one byte is a program of loads of an upper immediate.\<close>

definition uppers :: assembly where
  "uppers a = Lui 14 0x37373"

lemma uppers_word: "mm_read (\<lambda>_. 0x37) a = encode (Lui 14 0x37373)" "word_at (\<lambda>_. 0x37) a = encode (Lui 14 0x37373)"
proof -
  have "mm_read (\<lambda>_. 0x37) 0 = encode (Lui 14 0x37373)" by code_simp
  then show "mm_read (\<lambda>_. 0x37) a = encode (Lui 14 0x37373)" "word_at (\<lambda>_. 0x37) a = encode (Lui 14 0x37373)"
    by (simp_all add: mm_read_def word_at_bytes upt_rec)
qed

lemma uppers_run:
  "isa_run uppers (reset_arch m) n =
     \<lparr> a_pc = 0x60 + 4 * of_nat n, a_regs = (if n = 0 then (\<lambda>_. 0) else (\<lambda>_. 0)(14 := 0x37373000)), a_mem = m \<rparr>"
proof (induction n)
  case (Suc n)
  have "upper 0x37373 = 0x37373000" "(14 :: rv32i_reg) \<noteq> 0" by code_simp+
  with Suc show ?case by (simp add: isa_step_def isa_effect_def uppers_def algebra_simps fun_eq_iff)
qed (simp add: reset_arch_def)

lemma lane_next: "lane (a + 4) = lane a"
proof -
  have "(unat a + 4) mod (2 ^ 32) mod 4 = (unat a + 4) mod 4" by (rule mod_mod_cancel) simp
  then show ?thesis by (simp add: lane_def unat_word_ariths)
qed

lemma uppers_in_words: "in_words uppers (reset_arch (\<lambda>_. 0x37))"
proof -
  have "lane (0x60 + 4 * of_nat n) = 0" for n
  proof (induction n)
    case (Suc n)
    then show ?case using lane_next [of "0x60 + 4 * of_nat n"] by (simp add: algebra_simps)
  qed (simp add: lane_def)
  moreover have "a_mem (reset_arch m) = m" for m by (simp add: reset_arch_def)
  ultimately show ?thesis
    by (simp add: in_words_def Let_def executes_def well_behaved_def uppers_run uppers_word) (simp add: uppers_def)
qed

theorem magic_core_refines_isa_witness:
  "\<exists>i c y. magic_run 3 i c y \<and> mm_mem (y 3) = (\<lambda>_. 0x37) \<and> write_back (i 10) (c 10) 14 = 0x37373000"
proof -
  obtain i c y where run: "magic_run 3 i c y" "mm_mem (y 3) = (\<lambda>_. 0x37)" using magic_exists by blast
  have ok: "in_words uppers (reset_arch (mm_mem (y 3)))" unfolding run(2) by (rule uppers_in_words)
  have "a_mem (isa_run uppers (reset_arch (mm_mem (y 3))) n) = mm_mem (y 3)" for n by (simp add: uppers_run)
  moreover have "scheduled (mm_read (mm_mem (y 3)))" unfolding run(2) by (simp add: scheduled_def decodes_def uppers_word opcode_defs)
  ultimately have none: "\<And>k. 3 \<le> k \<Longrightarrow> \<not> redirection_meets_hazard (i k) (c k)" by (rule magic_no_loss [OF run(1) ok])
  from magic_core_refines_isa [OF run(1) order_refl ok none] obtain n where n: "\<forall>k. k \<le> 4 * n k + 3"
    "\<forall>k. write_back (i (3 + k)) (c (3 + k)) = a_regs (isa_run uppers (reset_arch (mm_mem (y 3))) (n k))" by blast
  have "0 < n 7" using n(1) [rule_format, of 7] by simp
  moreover have "write_back (i (3 + 7)) (c (3 + 7)) = a_regs (isa_run uppers (reset_arch (mm_mem (y 3))) (n 7))" using n(2) by blast
  ultimately have "write_back (i 10) (c 10) 14 = 0x37373000" by (simp add: uppers_run)
  with run show ?thesis by blast
qed

end
