(* ===== verification/Halting_Flow.thy ===== *)
theory Halting_Flow
  imports Monitor
begin

text \<open>
  The halting condition while instructions flow: it compares two program counters that are four fetches apart, so it
  also holds in loops of four instructions that are not jumps to themselves.
\<close>

section \<open>Cycles in flow\<close>

text \<open>Nothing misses, is flushed or has to wait.\<close>

definition in_flow :: "core_in \<Rightarrow> core \<Rightarrow> bool" where
  "in_flow i c \<longleftrightarrow> \<not> core_rst i \<and> core_hit i \<and> \<not> flush (check_branch c) \<and> \<not> pc_stall (core_stalls i c)"

lemma flow_step:
  assumes "in_flow i c"
  shows "registers (core_step i c) = stage_outputs i c" "pcreg (core_step i c) = fetch_next i c"
    "pc_out_ifid (monitor_step i c m) = pcreg c" "pc_memwb (monitor_step i c m) = wb_reg_pc (to_write_back (registers c))"
proof -
  have a: "\<not> core_rst i" "\<not> i_cache_miss i" "\<not> d_cache_miss i" "\<not> flush (check_branch c)" "\<not> pc_stall (core_stalls i c)"
    using assms by (simp_all add: in_flow_def core_hit_def)
  note hit = hit_cases [OF a(1-4) refl]
  show "registers (core_step i c) = stage_outputs i c"
    using hit(1,2) hit(5) [OF a(5)] by (simp add: stage_outputs_def)
  show "pcreg (core_step i c) = fetch_next i c" using a(5) by (simp add: core_step_fields [OF a(1)])
  have "core_hit i" using a by (simp add: core_hit_def)
  then show "pc_memwb (monitor_step i c m) = wb_reg_pc (to_write_back (registers c))" by (rule monitor_hit(1))
  have "\<not> stall_ifid i c" using a by (auto simp: stall_ifid_def core_stalls_def pipeline_stalls_def stall_def split: if_splits)
  then show "pc_out_ifid (monitor_step i c m) = pcreg c" by (simp add: monitor_step_def grab_pc_out_ifid_def)
qed

text \<open>What the monitor compares after five such cycles, and what is in write-back.\<close>

lemma flow_window:
  assumes "\<And>j. j < 5 \<Longrightarrow> in_flow (i j) (c j) \<and> c (Suc j) = core_step (i j) (c j) \<and> mon (Suc j) = monitor_step (i j) (c j) (mon j)"
    and "core_hit (i 5)" and "\<not> flush (check_branch (c 5))"
  shows "rvfi_halt (i 5) (c 5) (mon 5) \<longleftrightarrow>
    pcreg (c 4) = pcreg (c 0)
    \<and> write_reg (control_word_out (control_held (i 2)) (i_cache_rdata (i 1))) \<and> rd_out (i_cache_rdata (i 1)) = 0"
proof -
  have step: "registers (c (Suc j)) = stage_outputs (i j) (c j)" "pc_out_ifid (mon (Suc j)) = pcreg (c j)"
    "pc_memwb (mon (Suc j)) = wb_reg_pc (to_write_back (registers (c j)))" if "j < 5" for j
    using assms(1) [OF that] flow_step by simp_all
  have stages: "to_decode (registers (c 1)) = fetch_out (i 0) (c 0)" "to_decode (registers (c 2)) = fetch_out (i 1) (c 1)"
    "to_execute (registers (c 2)) = decode_out (i 1) (c 1)" "to_execute (registers (c 3)) = decode_out (i 2) (c 2)"
    "to_memory (registers (c 3)) = execute_out (i 2) (c 2)" "to_memory (registers (c 4)) = execute_out (i 3) (c 3)"
    "to_write_back (registers (c 4)) = memory_out (i 3) (c 3)" "to_write_back (registers (c 5)) = memory_out (i 4) (c 4)"
    using step(1) [of 0] step(1) [of 1] step(1) [of 2] step(1) [of 3] step(1) [of 4]
    by (simp_all add: eval_nat_numeral stage_outputs_def)
  have "pc_memwb (mon 5) = wb_reg_pc (to_write_back (registers (c 4)))" "pc_out_ifid (mon 5) = pcreg (c 4)"
    using step(2,3) [of 4] by simp_all
  moreover have "wb_reg_pc (to_write_back (registers (c 4))) = pcreg (c 0)"
    by (simp add: stages memory_out_def execute_out_def decode_out_def fetch_out_def Let_def del: One_nat_def)
  moreover have "wb_cntrl_word (to_write_back (registers (c 5))) = control_word_out (control_held (i 2)) (i_cache_rdata (i 1))"
    "wb_reg_dest (to_write_back (registers (c 5))) = rd_out (i_cache_rdata (i 1))"
    by (simp_all add: stages memory_out_def execute_out_def decode_out_def fetch_out_def Let_def del: One_nat_def)
  ultimately show ?thesis using monitor_hit(3) [OF assms(2), of "c 5"] assms(3)
    by (auto simp: rvfi_halt_def wb_commit_def Let_def)
qed


text \<open>
  And a branch that the predictor takes, once it is all that is fetched, never halts: it does not write a register, so it does not
  commit, and it does not leave a bubble.
\<close>

lemma predicted_branch_never_halts:
  assumes "\<And>k. in_flow (i k) (c k) \<and> c (Suc k) = core_step (i k) (c k) \<and> mon (Suc k) = monitor_step (i k) (c k) (mon k)"
    and "\<And>k. i_cache_rdata (i k) = encode (Branch b rs1 rs2 0)" and "5 \<le> k"
  shows "\<not> rvfi_halt (i k) (c k) (mon k)"
proof -
  have v: "valid (Branch b rs1 rs2 0)" by simp
  obtain l where l: "k = l + 5" using assms(3) le_Suc_ex [of 5 k] by (auto simp: add.commute)
  have "core_hit (i (l + 5)) \<and> \<not> flush (check_branch (c (l + 5)))" using assms(1) [of "l + 5"] by (simp add: in_flow_def)
  then show ?thesis
    using flow_window [of "\<lambda>j. i (l + j)" "\<lambda>j. c (l + j)" "\<lambda>j. mon (l + j)"] assms(1) control_fields(8) [OF v refl]
    by (simp add: l assms(2))
qed

text \<open>A loop that counts, of four instructions with two no-operations, whose branch the predictor takes.\<close>

definition short_loop :: assembly where
  "short_loop a = (if a = 0xf4 then Op_imm Add 5 5 1 else if a = 0x100 then Branch Ne 5 6 (- 6) else Op_imm Add 0 0 0)"

definition trained :: "br_pred_blkbox \<Rightarrow> bool" where
  "trained s \<longleftrightarrow> g_patterns (GBR_PRED s) = (\<lambda>_. STRONGLY_TAKEN) \<and> m_patterns (META_PRED s) = (\<lambda>_. STRONGLY_NOT_TAKEN)"

lemma trained_predicts:
  assumes "trained s" and "\<not> pred_rst i" and "\<not> pred_load i" and "\<not> pred_stall i"
  shows "blkbox_flush (blkbox_comb i s) \<longleftrightarrow> pred_read i" "trained (blkbox_step i s)"
  using assms
  by (simp_all add: trained_def blkbox_flush_def blkbox_step_def blkbox_comb_def blkbox_clock_def global_comb_def meta_comb_def
      global_clock_def meta_clock_def Let_def)

text \<open>Execute and memory stage hold instructions that neither load nor jump.\<close>

definition simple_word :: "rv32i_control_word \<Rightarrow> 7 word \<Rightarrow> bool" where
  "simple_word cw op \<longleftrightarrow> \<not> read_mem cw \<and> op \<notin> {op_br, op_jal, op_jalr} \<and> pcmux_sel cw = pcmux_pc_plus4"

definition simple :: "core \<Rightarrow> bool" where
  "simple c \<longleftrightarrow> simple_word (id_cntrl_word (to_execute (registers c))) (id_opcode (to_execute (registers c)))
     \<and> simple_word (ex_cntrl_word (to_memory (registers c))) (ex_opcode (to_memory (registers c)))"

lemma simple_no_flush:
  "simple_word (ex_cntrl_word (to_memory (registers c))) (ex_opcode (to_memory (registers c))) \<Longrightarrow> \<not> flush (check_branch c)"
  by (simp add: simple_word_def check_branch_def static_nt_predictor_def Let_def)

lemma simple_flow:
  assumes "simple c" and "trained (predictor c)" and "i = hit_in code False c"
  shows "in_flow i c" "trained (predictor (core_step i c))" "to_decode (registers (core_step i c)) = fetch_out i c"
    "if_instr (to_decode (registers (core_step i c))) = code (pcreg c)"
    "simple_word (ex_cntrl_word (to_memory (registers (core_step i c)))) (ex_opcode (to_memory (registers (core_step i c))))"
    "pcreg (core_step i c) = (if (ucast (code (pcreg c)) :: 7 word) = 0x63
       then pcreg c + b_imm_out (code (pcreg c)) else pcreg c + 4)"
proof -
  have i: "\<not> core_rst i" "core_hit i" "\<not> update_hist_table i" "i_cache_rdata i = code (pcreg c)"
    by (simp_all add: assms(3) hit_in_def core_hit_def)
  have fl: "\<not> flush (check_branch c)" by (rule simple_no_flush) (use assms(1) in \<open>simp add: simple_def\<close>)
  have st: "\<not> pc_stall (core_stalls i c)"
    using i(2) assms(1) by (simp add: core_stalls_def pipeline_stalls_def stall_def core_hit_def simple_def simple_word_def)
  show flow: "in_flow i c" using i fl st by (simp add: in_flow_def)
  note step = flow_step(1,2) [OF flow]
  show "to_decode (registers (core_step i c)) = fetch_out i c" by (simp add: step stage_outputs_def)
  then show "if_instr (to_decode (registers (core_step i c))) = code (pcreg c)" by (simp add: fetch_out_def i)
  show "simple_word (ex_cntrl_word (to_memory (registers (core_step i c)))) (ex_opcode (to_memory (registers (core_step i c))))"
    using assms(1) by (simp add: step stage_outputs_def execute_out_def simple_def Let_def)
  have pin: "\<not> pred_rst (predictor_in i c)" "\<not> pred_load (predictor_in i c)" "\<not> pred_stall (predictor_in i c)"
    "pred_read (predictor_in i c) \<longleftrightarrow> (ucast (code (pcreg c)) :: 7 word) = 0x63"
    using i st by (simp_all add: predictor_in_def fetch_pred_in_def)
  note pred = trained_predicts [OF assms(2) pin(1-3)]
  show "trained (predictor (core_step i c))" using pred(2) by (simp add: core_step_def)
  have "predicted_taken i c \<longleftrightarrow> (ucast (code (pcreg c)) :: 7 word) = 0x63" using pred(1) pin(4) by (simp add: predicted_taken_def)
  moreover have "fetch_next i c = (if predicted_taken i c then predicted_pc i c else pcreg c + 4)"
    by (rule straight_sel [OF _ fl]) (use assms(1) in \<open>simp add: simple_def simple_word_def enum_defs\<close>)
  moreover have "predicted_pc i c = pcreg c + b_imm_out (code (pcreg c))" if "(ucast (code (pcreg c)) :: 7 word) = 0x63" "predicted_taken i c"
    using that by (simp add: predicted_pc_def br_pred_pc_out_def i b_imm_out_def rep_def slice_at_def)
  ultimately show "pcreg (core_step i c) = (if (ucast (code (pcreg c)) :: 7 word) = 0x63
       then pcreg c + b_imm_out (code (pcreg c)) else pcreg c + 4)" by (simp add: step)
qed

lemma simple_decoded:
  assumes "simple c" and "trained (predictor c)" and "i = hit_in code False c"
    and "if_instr (to_decode (registers c)) = encode (Op_imm Add rd rs v)"
  shows "simple (core_step i c)"
proof -
  note step = flow_step(1) [OF simple_flow(1) [OF assms(1-3)]]
  have v: "valid (Op_imm Add rd rs v)" by simp
  have "simple_word (id_cntrl_word (decode_out i c)) (id_opcode (decode_out i c))"
    using control_fields(7,9) [OF v refl, of "control_held i"]
    by (simp add: decode_out_def assms(4) simple_word_def Let_def enum_defs)
  then show ?thesis using simple_flow(5) [OF assms(1-3)] by (simp add: simple_def step stage_outputs_def)
qed

definition loop_start :: core where
  "loop_start =
     empty_core\<lparr>pcreg := 0xf4, registers := empty_pipeline,
       predictor := (predictor empty_core)\<lparr>META_PRED := (META_PRED (predictor empty_core))\<lparr>m_patterns := (\<lambda>_. STRONGLY_NOT_TAKEN)\<rparr>\<rparr>\<rparr>"

definition loop_code :: "u32 \<Rightarrow> u32" where
  "loop_code a = encode (short_loop a)"

primrec loop_core :: "nat \<Rightarrow> core" where
  "loop_core 0 = loop_start"
| "loop_core (Suc k) = core_step (hit_in loop_code False (loop_core k)) (loop_core k)"

definition loop_at :: "nat \<Rightarrow> u32 \<Rightarrow> instr \<Rightarrow> bool" where
  "loop_at k a x \<longleftrightarrow> simple (loop_core k) \<and> trained (predictor (loop_core k)) \<and> pcreg (loop_core k) = a
     \<and> if_instr (to_decode (registers (loop_core k))) = encode x"

lemma loop_next:
  assumes "loop_at k a (Op_imm Add rd rs v)" and "x = short_loop a" and "b = (if a = 0x100 then 0xf4 else a + 4)"
  shows "loop_at (Suc k) b x"
proof -
  have s: "simple (loop_core k)" "trained (predictor (loop_core k))" and a: "pcreg (loop_core k) = a"
    and d: "if_instr (to_decode (registers (loop_core k))) = encode (Op_imm Add rd rs v)"
    using assms(1) by (simp_all add: loop_at_def)
  have op: "(ucast (encode y) :: 7 word) = opcode_of y" for y using opcode_encode [of y] by (simp add: opcode_out_def slice_at_def)
  have target: "b_imm_out (encode (Branch Ne 5 6 (- 6))) = - 12" by code_simp
  note flow = simple_flow [OF s refl, of loop_code]
  have "pcreg (loop_core (Suc k)) = b"
    using flow(6) target by (simp add: a loop_code_def op assms(3) short_loop_def enum_defs)
  then show ?thesis using simple_decoded [OF s refl d, of loop_code] flow(2,4) by (simp add: loop_at_def loop_code_def a assms(2))
qed

lemma loop_runs:
  "loop_at 0 0xf4 (Op_imm Add 0 0 0)" "loop_at 1 0xf8 (Op_imm Add 5 5 1)" "loop_at 2 0xfc (Op_imm Add 0 0 0)"
  "loop_at 3 0x100 (Op_imm Add 0 0 0)" "loop_at 4 0xf4 (Branch Ne 5 6 (- 6))"
proof -
  show 0: "loop_at 0 0xf4 (Op_imm Add 0 0 0)"
    by (simp add: loop_at_def loop_start_def empty_core_def empty_pipeline_def trained_def simple_def simple_word_def id_cleared_def
        ex_cleared_def zero_word_def nop_word_def enum_defs nop_encode)
  show 1: "loop_at 1 0xf8 (Op_imm Add 5 5 1)" using loop_next [OF 0 refl refl] by (simp add: short_loop_def)
  show 2: "loop_at 2 0xfc (Op_imm Add 0 0 0)" using loop_next [OF 1 refl refl] unfolding Suc_1 by (simp add: short_loop_def)
  show 3: "loop_at 3 0x100 (Op_imm Add 0 0 0)" using loop_next [OF 2 refl refl] by (simp add: short_loop_def)
  show "loop_at 4 0xf4 (Branch Ne 5 6 (- 6))" using loop_next [OF 3 refl refl] by (simp add: short_loop_def)
qed


end
