(* ===== verification/Forwarding_Bench.thy ===== *)
theory Forwarding_Bench
  imports Hazards Pipeline_Registers
begin

text \<open>
  The bench of the forwarding unit, \<open>hvl/forwardingunit_TB.sv\<close>: its two sets of inputs and the count of errors.
\<close>

definition exmem_to_alu :: hazard_inputs where
  "exmem_to_alu =
     \<lparr> rs1_id_IdEx = 3, rs2_id_IdEx = 3, rs2_id_ExMem = 0, rd_id_MemWb = 0, rd_id_ExMem = 3,
       control_word_IdEx = zero_word, control_word_ExMem = zero_word\<lparr>write_reg := True\<rparr>, control_word_MemWb = zero_word \<rparr>"

definition memwb_to_cache :: hazard_inputs where
  "memwb_to_cache =
     \<lparr> rs1_id_IdEx = 0, rs2_id_IdEx = 0, rs2_id_ExMem = 3, rd_id_MemWb = 3, rd_id_ExMem = 0,
       control_word_IdEx = zero_word, control_word_ExMem = zero_word\<lparr>write_mem := True\<rparr>,
       control_word_MemWb = zero_word\<lparr>write_reg := True\<rparr> \<rparr>"

text \<open>The three checks after each set.\<close>

definition check_errors :: "forwarding \<Rightarrow> 2 word \<Rightarrow> 3 word \<Rightarrow> 1 word \<Rightarrow> nat" where
  "check_errors f alumux1 alumux2 cachemux =
     (if alumux1_fwd f \<noteq> alumux1 then 1 else 0) + (if alumux2_fwd f \<noteq> alumux2 then 1 else 0)
     + (if cachemux_fwd f \<noteq> cachemux then 1 else 0)"

definition errorcnt :: "(hazard_inputs \<Rightarrow> forwarding) \<Rightarrow> nat" where
  "errorcnt fwd =
     check_errors (fwd exmem_to_alu) alumux1_alu_out_ExMem alumux2_alu_out_ExMem cachemux_rs2_out_ExMem
     + check_errors (fwd memwb_to_cache) (alumux1_sel (control_word_IdEx memwb_to_cache)) (alumux2_sel (control_word_IdEx memwb_to_cache))
         cachemux_r_data_MemWb"

text \<open>
  The bench counts one error on the unit as it is: it forwards to the data cache only from a load, and the second set
  has a writer that is not one. With a load there it would find none.
\<close>

lemma forwarding_bench_fails:
  "errorcnt forwardingunit = 1"
  "check_errors (forwardingunit exmem_to_alu) alumux1_alu_out_ExMem alumux2_alu_out_ExMem cachemux_rs2_out_ExMem = 0"
  "cachemux_fwd (forwardingunit memwb_to_cache) = cachemux_rs2_out_ExMem"
  "cachemux_fwd (forwardingunit (memwb_to_cache\<lparr>control_word_MemWb := (control_word_MemWb memwb_to_cache)\<lparr>read_mem := True\<rparr>\<rparr>))
     = cachemux_r_data_MemWb"
  by code_simp+

end
