(* ===== verification/Given_Array.thy ===== *)
theory Given_Array
  imports Cache_4way
begin

text \<open>
  The array of \<open>hdl/memory/given_cache\<close>, of eight entries, which passes a value through while it is written. It has neither
  reset nor read enable.
\<close>

definition given_dataout :: "bool \<Rightarrow> set_index \<Rightarrow> set_index \<Rightarrow> 'a \<Rightarrow> (set_index \<Rightarrow> 'a) \<Rightarrow> 'a" where
  "given_dataout load rindex windex datain data = (if load \<and> rindex = windex then datain else data rindex)"

definition given_clock :: "bool \<Rightarrow> set_index \<Rightarrow> 'a \<Rightarrow> (set_index \<Rightarrow> 'a) \<Rightarrow> set_index \<Rightarrow> 'a" where
  "given_clock load windex datain data = (if load then data(windex := datain) else data)"

text \<open>What is read is what the array holds after the edge, and a read of it delivers the last value written.\<close>

lemma given_reads: "given_dataout load rindex windex datain data = given_clock load windex datain data rindex"
  by (simp add: given_dataout_def given_clock_def)

text \<open>Read at the entry that is written, it is the array of the four-way cache, in the form that cache uses.\<close>

lemma given_is_array: "given_dataout load x x datain data = array_read load datain (data x)" "given_clock = array_write"
  by (simp_all add: given_dataout_def given_clock_def array_read_def array_write_def fun_eq_iff)

end
