(* ===== verification/Spec2Isabelle.thy ===== *)
theory Spec2Isabelle
  imports Branch_Bench Lcm_Bench Trade_Bench Pli_Stubs Event_Queue Bit_Scan Cache_Replacement
    Predictors_Correct Core_Typed Processor Second_Level Shadow_Memory Magic_Memory Halting_Flow
    Forwarding_Bench Given_Array
begin

text \<open>
  Verification of the programs and of the processor of this repository: a pipelined RV32I core in
  SystemVerilog (\<open>hdl/\<close>, types in \<open>pkg/\<close>) with its caches, arbiter, adaptor, burst memory and a
  second-level cache, the C benchmarks it runs (\<open>testcode/src/\<close>), and the C code its simulation build
  contains (\<open>sim/csrc/\<close>). Names of definitions are those of the source, with a suffix where a
  constant of the library has the name.

  \<^bold>\<open>The C programs.\<close> \<open>Prelude\<close> has the machine integers (ILP32, wrapping) and the word lemmas; a
  freestanding entry point ends as a \<open>run_end\<close>, spinning with a status or returning. \<open>Target\<close> models
  the preprocessor conditions of \<open>target.h\<close>, \<open>Branch_Bench\<close> \<open>comp1.c\<close>, \<open>Soft_Arith\<close> the division and
  multiplication routines of \<open>comp2.c\<close>, \<open>Lcm\<close> its \<open>gcd\<close>, \<open>lcm\<close> and \<open>iter\<close>, \<open>Lcm_Bench\<close> its entry point, \<open>Bswap\<close>,
  \<open>Trade\<close>, \<open>Raw_Data\<close> and \<open>Trade_Bench\<close> the byte swaps, the trade processor, the captured messages and
  the entry point of \<open>comp3.c\<close>. What the programs need of the arithmetic runtime is the locale of
  \<open>Int_Arith\<close>, interpreted on the routines of \<open>Soft_Arith\<close>. The theorems: the routines compute what C
  promises on all inputs, every benchmark ends with its success status, the trade processor refines
  an abstract book of trades, and where \<open>int\<close> arithmetic cuts results off. Loops that may run for
  ever are partial functions with value \<open>None\<close>; that they return is proved.

  \<^bold>\<open>The simulation build.\<close> \<open>Pli_Stubs\<close> has the 38 stubs of \<open>_vcs_pli_stub_.c\<close> over the dynamic linker, a
  parameter; \<open>Event_Queue\<close> has the event scheduler of \<open>rmapats.c\<close> over an explicit store of event
  blocks and hash buckets, whose hash and allocation routines, in no file of the repository, are
  parameters; \<open>Bit_Scan\<close> the inline function of \<open>rmapats.h\<close>.

  \<^bold>\<open>The pipeline.\<close> \<open>Rv32i_Types\<close> are the enumerations and the control word; \<open>Decode\<close>, \<open>Execute\<close>, \<open>Hazards\<close>,
  \<open>Stages\<close> the stages \<open>instr_decode.sv\<close> to \<open>writeback_stage.sv\<close> with the forwarding and the stall unit,
  the branch checker, the register file and the program counter; \<open>Pipeline_Registers\<close> the four
  registers between them; \<open>Predictors\<close> the branch predictors. \<open>Isa\<close> is the contract, the instruction
  set on integers and bytes and its encodings. \<open>Decode_Correct\<close>, \<open>Execute_Correct\<close> and \<open>Retire_Correct\<close>
  show that every valid instruction computes, writes and jumps as the instruction set says on
  operands taken in program order, whatever two instructions are ahead of it; \<open>Pipeline_Correct\<close> that
  a flush squashes the wrong path through any number of cache-miss cycles, that stalls lose and
  repeat nothing, and one case in which a redirection is lost; \<open>Predictors_Correct\<close> what each
  predictor learns: the global one is a gshare predictor, the local one covers eight addresses and
  the meta predictor nothing.

  \<^bold>\<open>The core.\<close> \<open>Core\<close> connects the stages: \<open>core_step\<close> is a clock cycle of all registers, register file,
  branch checker, predictor and program counter; the answers of the caches and the values in
  latches are its inputs, \<open>data_request\<close> its request to the data cache. \<open>Isa_Machine\<close> is the machine it
  has to implement, one instruction after the other. \<open>Core_Stages\<close> says what it means that a stage
  holds an instruction of a run of that machine and that it moves on correctly; \<open>Core_Correct\<close> has
  the simulation relation, a chain from the memory stage to the program counter that ends at the
  first instruction fetch has not followed, and the step theorem; \<open>Core_Runs\<close> the reset, which takes
  three cycles because the opcode registers are not cleared, and the count of retired instructions
  over a run; \<open>Core_Scheduled\<close> the code for which no redirection is lost, \<open>Core_Typed\<close> the
  well-typedness of control words. \<open>Core_Memory\<close> joins the core to the data cache through the word
  port, \<open>Core_System\<close> and \<open>Counter_Program\<close> state the theorems and apply them to a program that counts,
  in registers and memory.

  \<^bold>\<open>The processor.\<close> \<open>Hierarchy\<close> connects the memory modules through their ports: \<open>hierarchy_cycle\<close> is a clock cycle of two
  four-way first-level caches, the arbiter, the eight-way second level, the adaptor and the burst memory, with the combinational
  path from the arbiter through the second level and back; \<open>after_reset\<close> is where it starts. \<open>Fetch_Cache\<close> has the
  arguments that need only a port for lines below the arbiter (\<open>system_cycle\<close>), and \<open>Level2_Port\<close> that the second level over
  adaptor and memory is such a port (\<open>line_port\<close>), so that every cycle of the hierarchy is one of \<open>system_cycle\<close> (\<open>observed\<close>). The
  invariant says that no dirty entry of the data cache belongs to the lines that
  are not stored to (\<open>clean_on\<close>), so that what the arbiter brings the instruction cache of them, even in the middle
  of a write-back, is what was there at the start, and that the instruction cache holds them unchanged
  (\<open>fetch_at\<close>). \<open>Fetch_Progress\<close> measures how far a fetch is, \<open>Full_System\<close> adds the core, with one memory for
  instructions and data, and the invariant of the whole, \<open>Full_Progress\<close> shows that both caches answer. \<open>Processor\<close>
  has the theorems: the processor executes the program that lies in its memory, correctly and in bounded time, and
  does so with a program of loads and additions.

  \<^bold>\<open>The memory system.\<close> Four interfaces. \<open>line_port\<close> (\<open>Line_Port\<close>) is the port on which whole lines are
  requested and held until the response, at a time that is known when the request is made:
  \<open>Cacheline_Adaptor\<close> and \<open>Burst_Memory\<close> (\<open>hvl/param_memory.sv\<close>) joined in \<open>Memory_Path\<close> implement it.
  \<open>held_port\<close> is the same port when others use the memory too: a cycle is a relation and the time has
  a limit only. \<open>Arbiter_Port\<close> shows that the data cache's side of the arbiter is one over any line
  port, for every instruction cache that only reads and holds a request in service. \<open>memory_port\<close>
  (\<open>Port_Runs\<close>) is any port whose requests are held until a response that comes in the same cycle,
  with its runs and the theorems about them; \<open>word_port\<close> (\<open>Word_Port\<close>), the port of the pipeline, is
  the case of words with byte enables. \<open>Line_Sets\<close> is what both caches have in common: their arrays,
  the memory a cache stands for (the cached lines laid over the memory below), and how write-back,
  refill and stores change both. \<open>Cache_4way\<close> is the data cache, \<open>Cache_Lines\<close> and \<open>Cache_Cycles\<close> have
  its bytes and its single cycles, \<open>Cache_Correct\<close> and \<open>Cache_Port\<close> the simulation: a cache over any
  held port is a word port. \<open>Memory_System\<close> and \<open>Data_Memory\<close> read the theorems off the interpretations
  for the actual stack: lines are transferred intact and on time, both caches are served, the data
  cache is a byte memory and always answers, and instructions retire with the value and the memory
  of the instruction set. \<open>Cache_Replacement\<close> is about the victim of a miss.

  \<^bold>\<open>The second level.\<close> \<open>Cache_8way\<close> is the cache of \<open>hdl/memory/eight_way_sa_cache\<close>, which asks and is
  asked for whole lines and whose arrays answer a cycle late; \<open>Cache8_Cycles\<close> has its single cycles,
  \<open>Cache8_Port\<close> the simulation on \<open>Line_Sets\<close>, by which it is a \<open>memory_port\<close> of lines over any held
  port, and \<open>Cache8_Recent\<close> what its replacement tree keeps. \<open>Second_Level\<close> puts it in front of adaptor
  and burst memory: it is a memory of lines, always answers, and keeps a line through three further
  accesses to its set.

  \<^bold>\<open>The test bench.\<close> \<open>Monitor\<close> has what \<open>hvl/top.sv\<close> and \<open>hvl/source_tb.sv\<close> watch of the processor: the two
  program counters it compares, the commit signal, the halting condition and the time-out; \<open>monitor_step\<close> is a
  clock edge beside \<open>core_step\<close>. A program that gets to a jump to itself, or to a branch to itself that is not predicted taken (with
  predictors whose training signal is not driven, none is), ends the simulation in bounded time, with the final state of the
  instruction set; \<open>Halting_Flow\<close> shows that the condition also holds in other loops of four instructions, and that it
  never holds at a branch to itself that is predicted taken from the start. \<open>Shadow_Memory\<close> (\<open>hvl/shadow_memory.sv\<close>),
  beside the processor, finds nothing to report: it keeps exactly the lines the data cache stands for. \<open>Magic_Memory\<close>
  (\<open>hvl/magic_dual_port.sv\<close>) replaces caches and memory; on it the core executes programs that access whole words, and a byte
  stored elsewhere is misplaced. \<open>Forwarding_Bench\<close> evaluates the vectors of \<open>hvl/forwardingunit_TB.sv\<close>, \<open>Given_Array\<close> is the
  array of \<open>given_cache\<close>.

  \<^bold>\<open>Hardware as functions.\<close> A combinational block is a function of the state and inputs of a cycle; an
  \<open>always_ff\<close> block maps the state of a cycle to that of the next. A signal that a combinational
  block does not assign in every branch is a latch: its old value is an argument \<open>held\<close> or part of
  the state, and the theorems hold for every such value. Where combinational blocks form a cycle,
  as cache controller and arrays do, \<open>settles\<close> says that the equations hold, every solution is
  covered, and one is shown to exist. Undefined indices deliver \<open>None\<close>. Bits are two-valued
  otherwise; the values at power-up are arbitrary.

  \<^bold>\<open>Bounds.\<close> With the delays of \<open>source_tb.sv\<close> (110 cycles, 55 on a page hit) a line takes at most 116
  cycles. At the arbiter the data cache may have to wait for a line of the instruction cache, 234
  cycles in all, and an access to the cache takes at most two lines and four cycles, 472. The
  second-level cache in front of the adaptor takes two lines and four cycles, 236. With it below the arbiter, an access to the
  data cache takes at most 952 cycles and a fetch, once the data cache asks for nothing, a line and three cycles, 239. The bounds are
  parameters of the locales and are computed by the interpretations, not assumed.

  A cycle without a miss retires an instruction or brings the next one a stage nearer, so an
  instruction takes at most four of them; with the data cache on the adaptor alone, 473 cycles for each. In the whole processor
  a wait ends within 1191 cycles: 952 for the data cache, which then asks for nothing more while the core waits, and
  239 for the instruction cache. Two more cycles without a miss after a jump to itself has retired
  the test bench halts; its time-out is 100000000 cycles.

  \<^bold>\<open>Connections.\<close> The module \<open>mp4\<close> that instantiates the stages is not in the repository, nor is \<open>memory_blkbox\<close>, which
  instantiates the memory hierarchy. Where a
  theorem spans modules, signals go to the ports of the same names, as the probes of \<open>hvl/top.sv\<close>
  have them: the stall unit's outputs to the registers and its program-counter stall to fetch, the
  checker's flush to the three registers before it, its outputs and the output of the arithmetic
  unit in the memory stage to fetch, the forwarding value of the memory stage and the output of the
  write-back stage to execute, the latter also to the register file, and address, data and byte
  enables of the memory stage to the data cache, which misses while it is asked and does not
  respond. These connections are the definitions of \<open>Core\<close>; the theorems about the core are about
  stages so connected. The instruction cache is asked for the word at the program counter in every
  cycle and misses when it does not respond (\<open>system_run\<close>).

  The hierarchy is that of section III.A of \<open>ECE_411_MP_4_Final_Report.pdf\<close> and of \<open>area.rpt\<close>, where \<open>memory_blkbox\<close> contains
  arbiter, adaptor, both first-level caches and the second level (\<open>modular_cache\<close>). The first-level caches of those documents are two-way ones
  whose source is not in the repository; the model has the four-way cache of \<open>hdl/memory/4_way_cache\<close> in their place, as did the design
  of \<open>ECE_411_CP_3_Check_In.pdf\<close> with its "Upgraded L1 (4 way) + New L2 Cache (8 way)". The theorems about the data cache
  alone (\<open>Data_Memory\<close>) are about the other configuration of that document, "Upgraded L1 (4 way)", whose arbiter is connected to the adaptor.

  \<^bold>\<open>What the theorems about the core assume.\<close> The words on the way of the program are encodings of valid
  instructions with aligned accesses, others may be anything; and no redirection meets a load-use hazard, in the run from reset on and
  on wrong paths too: in that case the design loses the redirection (\<open>Pipeline_Correct\<close>). Scheduling the
  code so that no load is next to a reader of its register guarantees it. Those about the core alone and with its data cache assume an
  instruction memory that delivers the words of a fixed code; those about the whole processor do not, but there
  the program must not store to the lines it is fetched from, which the instruction cache would not see.

  \<^bold>\<open>Not modelled.\<close> \<open>datapath.sv\<close> (empty, marked unused), \<open>mp4\<close>, \<open>memory_blkbox\<close> and the two-way first-level cache \<open>twowayl1_cache\<close> (absent); the generated monitor
  \<open>rvfimon.v\<close>, which is switched off, and the signals grabbed for it alone; the
  declarations of the simulator's run-time in \<open>rmapats.h\<close> and \<open>rmar.h\<close>, whose routines are in no file;
  \<open>printf\<close> output; cycle counts of programs.

  \<^bold>\<open>What could follow.\<close> Code that is written before it is first fetched.
\<close>

end
